(* ===== verification/Prelude.thy ===== *)
theory Prelude
  imports Main "HOL-Library.Sublist"
begin

text \<open>
  Shared vocabulary of the development.

  \<^item> Numbers are printed in decimal, as a template literal prints a non-negative integer
    (\<open>show_nat\<close>, injective).
  \<^item> A database table is the list of its rows in insertion order.  Its operations are those the
    services call on their database client: find the first row a predicate selects, update every
    selected row, append a row.  The collection \<open>table_simps\<close> holds the laws that rewrite a
    lookup behind an update, and the locale \<open>keyed_update\<close> states the contract of a row update
    that keeps the primary key.
  \<^item> Strings are lists of characters read as the code points U+0000 to U+00FF; the string
    operations of the language that the source uses (\<open>trim\<close>, \<open>toLowerCase\<close>,
    \<open>split\<close>, \<open>join\<close>) are exact on that range.
  \<^item> A fallible computation is a value of a sum type, \<open>Inl\<close> for the exception.
\<close>

named_theorems table_simps \<open>lookup, membership and key laws of the table operations\<close>
named_theorems text_simps \<open>unfolding of the string predicates on concrete characters\<close>

subsection \<open>Decimal printing\<close>

definition digit_char :: "nat \<Rightarrow> char" where
  "digit_char d = char_of (48 + d)"

fun show_nat :: "nat \<Rightarrow> string" where
  "show_nat n = (if n < 10 then [digit_char n] else show_nat (n div 10) @ [digit_char (n mod 10)])"

declare show_nat.simps [simp del]

definition show_int :: "int \<Rightarrow> string" where
  "show_int i = (if i < 0 then CHR ''-'' # show_nat (nat (- i)) else show_nat (nat i))"

lemma show_nat_nonempty [simp]: "show_nat n \<noteq> []"
  by (subst show_nat.simps) simp

lemma digit_char_inj:
  assumes "a < 10" "b < 10" "digit_char a = digit_char b"
  shows "a = b"
proof -
  have "of_char (digit_char a) = (of_char (digit_char b) :: nat)" using assms(3) by simp
  then show ?thesis using assms(1,2) by (simp add: digit_char_def)
qed

lemma show_nat_inj: "show_nat m = show_nat n \<Longrightarrow> m = n"
proof (induction m arbitrary: n rule: show_nat.induct)
  case (1 m)
  show ?case
  proof (cases "m < 10 \<or> n < 10")
    case True
    have big: "length (show_nat k) > 1" if "\<not> k < 10" for k
      using that by (subst show_nat.simps) (simp add: Suc_lessI)
    have len: "length (show_nat m) = length (show_nat n)" using "1.prems" by simp
    have small: "length (show_nat k) = 1" if "k < 10" for k
      using that by (subst show_nat.simps) simp
    have both: "m < 10" "n < 10" using True len big small by (metis less_numeral_extra(4))+
    then have "digit_char m = digit_char n"
      using "1.prems" by (simp add: show_nat.simps [of m] show_nat.simps [of n])
    then show ?thesis using both digit_char_inj by blast
  next
    case False
    then have *: "show_nat (m div 10) = show_nat (n div 10)" "digit_char (m mod 10) = digit_char (n mod 10)"
      using "1.prems" by (simp_all add: show_nat.simps [of m] show_nat.simps [of n])
    have "m div 10 = n div 10" using "1.IH" False *(1) by blast
    moreover have "m mod 10 = n mod 10" using digit_char_inj *(2) by simp
    ultimately show ?thesis by (metis div_mult_mod_eq)
  qed
qed

lemma show_nat_digits: "c \<in> set (show_nat n) \<Longrightarrow> \<exists>d < 10. c = digit_char d"
proof (induction n rule: show_nat.induct)
  case (1 n)
  then show ?case
    by (cases "n < 10") (auto simp: show_nat.simps [of n] intro: exI [of _ "n mod 10"])
qed

subsection \<open>Sums as results\<close>

definition bindE :: "'e + 'a \<Rightarrow> ('a \<Rightarrow> 'e + 'b) \<Rightarrow> 'e + 'b" where
  "bindE m f = (case m of Inl e \<Rightarrow> Inl e | Inr x \<Rightarrow> f x)"

lemma bindE_simps [simp]:
  "bindE (Inl e) f = Inl e"
  "bindE (Inr x) f = f x"
  by (simp_all add: bindE_def)

lemma bindE_eq_Inr: "bindE m f = Inr y \<longleftrightarrow> (\<exists>x. m = Inr x \<and> f x = Inr y)"
  by (cases m) simp_all

text \<open>A transaction: an exception discards every write of the callback.\<close>

definition with_transaction :: "('w \<Rightarrow> ('e + 'a) \<times> 'w) \<Rightarrow> 'w \<Rightarrow> ('e + 'a) \<times> 'w" where
  "with_transaction body w = (case body w of (Inl e, _) \<Rightarrow> (Inl e, w) | (Inr x, w') \<Rightarrow> (Inr x, w'))"

lemma with_transaction_rollback: "fst (with_transaction body w) = Inl e \<Longrightarrow> snd (with_transaction body w) = w"
  by (auto simp: with_transaction_def split: prod.splits sum.splits)

lemma with_transaction_Inl: "with_transaction body w = (Inl e, w') \<Longrightarrow> w' = w"
  by (auto simp: with_transaction_def split: prod.splits sum.splits)

lemma with_transaction_Inr: "with_transaction body w = (Inr x, w') \<Longrightarrow> body w = (Inr x, w')"
  by (auto simp: with_transaction_def split: prod.splits sum.splits)

lemma with_transaction_commit [simp]: "body w = (Inr x, w') \<Longrightarrow> with_transaction body w = (Inr x, w')"
  by (simp add: with_transaction_def)

subsection \<open>Tables\<close>

definition find_row :: "('r \<Rightarrow> bool) \<Rightarrow> 'r list \<Rightarrow> 'r option" where
  "find_row P t = List.find P t"

definition update_where :: "('r \<Rightarrow> bool) \<Rightarrow> ('r \<Rightarrow> 'r) \<Rightarrow> 'r list \<Rightarrow> 'r list" where
  "update_where P f t = map (\<lambda>r. if P r then f r else r) t"

definition insert_row :: "'r \<Rightarrow> 'r list \<Rightarrow> 'r list" where
  "insert_row r t = t @ [r]"

definition count_rows :: "('r \<Rightarrow> bool) \<Rightarrow> 'r list \<Rightarrow> nat" where
  "count_rows P t = length (filter P t)"

lemma find_row_Some: "find_row P t = Some r \<Longrightarrow> r \<in> set t \<and> P r"
  by (induction t) (auto simp: find_row_def split: if_splits)

lemma find_row_None [table_simps]: "find_row P t = None \<longleftrightarrow> (\<forall>r \<in> set t. \<not> P r)"
  by (auto simp: find_row_def find_None_iff)

lemma find_row_simps [simp]:
  "find_row P [] = None"
  "find_row P (r # t) = (if P r then Some r else find_row P t)"
  by (simp_all add: find_row_def)

lemma find_row_append [table_simps]:
  "find_row P (t @ u) = (case find_row P t of None \<Rightarrow> find_row P u | Some r \<Rightarrow> Some r)"
  by (induction t) auto

lemma find_row_cong: "(\<And>r. r \<in> set t \<Longrightarrow> P r = Q r) \<Longrightarrow> find_row P t = find_row Q t"
  by (induction t) auto

lemma update_where_simps [simp]:
  "update_where P f [] = []"
  "update_where P f (r # t) = (if P r then f r else r) # update_where P f t"
  by (simp_all add: update_where_def)

lemma length_update_where [simp]: "length (update_where P f t) = length t"
  by (simp add: update_where_def)

lemma length_insert_row [simp]: "length (insert_row r t) = Suc (length t)"
  by (simp add: insert_row_def)

lemma set_insert_row [simp]: "set (insert_row r t) = insert r (set t)"
  by (auto simp: insert_row_def)

lemma update_where_id [table_simps]: "(\<And>r. r \<in> set t \<Longrightarrow> \<not> P r) \<Longrightarrow> update_where P f t = t"
  by (induction t) auto

lemma set_update_where: "set (update_where P f t) = {r \<in> set t. \<not> P r} \<union> f ` {r \<in> set t. P r}"
  by (auto simp: update_where_def)

lemma find_row_update_where:
  "(\<And>r. P (if Q r then f r else r) = P r) \<Longrightarrow>
   find_row P (update_where Q f t) = map_option (\<lambda>r. if Q r then f r else r) (find_row P t)"
  by (induction t) auto

text \<open>
  The contract of a row update used with a primary key: it keeps the key.  Every update a service
  makes by id is an instance; the lemmas say what a lookup by id sees afterwards and that the key
  stays unique.
\<close>

locale keyed_update =
  fixes key :: "'r \<Rightarrow> 'k" and upd :: "'r \<Rightarrow> 'r"
  assumes keeps_key: "key (upd r) = key r"
begin

lemma keys_update: "map key (update_where P upd t) = map key t"
  by (induction t) (simp_all add: keeps_key)

lemma distinct_update: "distinct (map key t) \<Longrightarrow> distinct (map key (update_where P upd t))"
  by (simp add: keys_update)

lemma find_updated:
  "find_row (\<lambda>r. key r = k) (update_where (\<lambda>r. key r = k) upd t)
     = map_option upd (find_row (\<lambda>r. key r = k) t)"
  by (induction t) (auto simp: keeps_key)

lemma find_other:
  "k \<noteq> k' \<Longrightarrow> find_row (\<lambda>r. key r = k) (update_where (\<lambda>r. key r = k') upd t)
     = find_row (\<lambda>r. key r = k) t"
  by (induction t) (auto simp: keeps_key)

lemma find_where:
  "find_row (\<lambda>r. key r = k) (update_where P upd t)
     = map_option (\<lambda>r. if P r then upd r else r) (find_row (\<lambda>r. key r = k) t)"
  by (induction t) (auto simp: keeps_key)

end

lemma find_row_key_unique:
  assumes "distinct (map key t)" "r \<in> set t"
  shows "find_row (\<lambda>x. key x = key r) t = Some r"
  using assms by (induction t) (auto simp: image_iff)

end
