(* ===== verification/JsText.thy ===== *)
theory JsText
  imports Prelude
begin

text \<open>
  The string operations of the language that the source uses, on characters read as the code points
  U+0000 to U+00FF, where they are exact: white space of \<open>trim\<close> and of the class
  \<open>\s\<close>, simple case mapping, the letter classes \<open>\p{L}\<close> and \<open>\p{Ll}\<close>,
  \<open>split\<close> by one character, \<open>join\<close>, \<open>startsWith\<close>, \<open>includes\<close>.
\<close>

definition code :: "char \<Rightarrow> nat" where
  "code c = of_char c"

definition is_space :: "char \<Rightarrow> bool" where
  "is_space c \<longleftrightarrow> code c \<in> {9, 10, 11, 12, 13, 32, 160}"

definition is_digit :: "char \<Rightarrow> bool" where
  "is_digit c \<longleftrightarrow> 48 \<le> code c \<and> code c \<le> 57"

definition is_ascii_lower :: "char \<Rightarrow> bool" where
  "is_ascii_lower c \<longleftrightarrow> 97 \<le> code c \<and> code c \<le> 122"

definition is_ascii_upper :: "char \<Rightarrow> bool" where
  "is_ascii_upper c \<longleftrightarrow> 65 \<le> code c \<and> code c \<le> 90"

text \<open>The Unicode lower-case letters (\<open>Ll\<close>) and letters (\<open>L\<close>) below U+0100.\<close>

definition is_lower_letter :: "char \<Rightarrow> bool" where
  "is_lower_letter c \<longleftrightarrow> is_ascii_lower c \<or> code c = 181
     \<or> 223 \<le> code c \<and> code c \<noteq> 247"

definition is_letter :: "char \<Rightarrow> bool" where
  "is_letter c \<longleftrightarrow> is_lower_letter c \<or> is_ascii_upper c \<or> code c \<in> {170, 186}
     \<or> 192 \<le> code c \<and> code c \<noteq> 215 \<and> code c \<noteq> 247"

definition lower_char :: "char \<Rightarrow> char" where
  "lower_char c = (if is_ascii_upper c \<or> (192 \<le> code c \<and> code c \<le> 222 \<and> code c \<noteq> 215)
     then char_of (code c + 32) else c)"

definition upper_ascii :: "char \<Rightarrow> char" where
  "upper_ascii c = (if is_ascii_lower c then char_of (code c - 32) else c)"

definition to_lower :: "string \<Rightarrow> string" where
  "to_lower s = map lower_char s"

lemmas char_classes [text_simps] = code_def is_space_def is_digit_def is_ascii_lower_def
  is_ascii_upper_def is_lower_letter_def is_letter_def lower_char_def upper_ascii_def

definition trim_start :: "string \<Rightarrow> string" where
  "trim_start s = dropWhile is_space s"

definition trim_end :: "string \<Rightarrow> string" where
  "trim_end s = rev (dropWhile is_space (rev s))"

definition trim :: "string \<Rightarrow> string" where
  "trim s = trim_end (trim_start s)"

definition starts_with :: "string \<Rightarrow> string \<Rightarrow> bool" where
  "starts_with p s \<longleftrightarrow> prefix p s"

definition contains_str :: "string \<Rightarrow> string \<Rightarrow> bool" where
  "contains_str p s \<longleftrightarrow> sublist p s"

text \<open>\<open>split_on c s\<close> is \<open>s.split(c)\<close> for a one-character separator: never empty.\<close>

fun split_on :: "char \<Rightarrow> string \<Rightarrow> string list" where
  "split_on c [] = [[]]"
| "split_on c (x # xs) =
     (if x = c then [] # split_on c xs
      else case split_on c xs of [] \<Rightarrow> [[x]] | w # ws \<Rightarrow> (x # w) # ws)"

fun join_with :: "string \<Rightarrow> string list \<Rightarrow> string" where
  "join_with sep [] = []"
| "join_with sep [w] = w"
| "join_with sep (w # v # ws) = w @ sep @ join_with sep (v # ws)"

subsection \<open>Laws\<close>

lemma lower_char_idem [simp]: "lower_char (lower_char c) = lower_char c"
proof -
  have lt: "code c < 256" by (simp add: code_def)
  show ?thesis
    using lt by (auto simp: lower_char_def is_ascii_upper_def code_def)
qed

lemma to_lower_idem [simp]: "to_lower (to_lower s) = to_lower s"
  by (simp add: to_lower_def)

lemma lower_char_space [simp]: "is_space (lower_char c) = is_space c"
proof -
  have lt: "code c < 256" by (simp add: code_def)
  show ?thesis
    using lt by (auto simp: lower_char_def is_ascii_upper_def is_space_def code_def)
qed

lemma length_to_lower [simp]: "length (to_lower s) = length s"
  by (simp add: to_lower_def)

lemma trim_start_not_space [simp]: "trim_start s \<noteq> [] \<Longrightarrow> \<not> is_space (hd (trim_start s))"
  unfolding trim_start_def by (rule hd_dropWhile)

lemma trim_end_not_space [simp]: "trim_end s \<noteq> [] \<Longrightarrow> \<not> is_space (last (trim_end s))"
  unfolding trim_end_def by (simp add: last_rev hd_dropWhile)

lemma trim_end_prefix: "prefix (trim_end s) s"
  unfolding trim_end_def using suffix_dropWhile [of is_space "rev s"]
  by (simp add: suffix_to_prefix)

lemma hd_trim:
  assumes "trim s \<noteq> []"
  shows "\<not> is_space (hd (trim s))"
proof -
  obtain ys where ys: "trim_start s = trim s @ ys"
    using trim_end_prefix [of "trim_start s"] by (auto simp: trim_def prefix_def)
  then have "hd (trim s) = hd (trim_start s)" "trim_start s \<noteq> []" using assms by (simp_all add: hd_append)
  then show ?thesis by simp
qed

lemma last_trim: "trim s \<noteq> [] \<Longrightarrow> \<not> is_space (last (trim s))"
  by (simp add: trim_def)

lemma trim_id: "s = [] \<or> (\<not> is_space (hd s) \<and> \<not> is_space (last s)) \<Longrightarrow> trim s = s"
proof (cases s)
  case (Cons x xs)
  assume "s = [] \<or> (\<not> is_space (hd s) \<and> \<not> is_space (last s))"
  then have ends: "\<not> is_space x" "\<not> is_space (last s)" using Cons by simp_all
  then have start: "trim_start s = s" using Cons by (simp add: trim_start_def)
  have "rev s = last s # rev (butlast s)" using Cons by (metis append_butlast_last_id list.distinct(1) rev_eq_Cons_iff rev_rev_ident)
  then have "dropWhile is_space (rev s) = rev s" using ends(2) by (metis dropWhile.simps(2))
  then show ?thesis using start by (simp add: trim_def trim_end_def)
qed (simp add: trim_def trim_end_def trim_start_def)

lemma trim_idem [simp]: "trim (trim s) = trim s"
  using hd_trim last_trim trim_id by blast

lemma set_trim: "set (trim s) \<subseteq> set s"
  by (auto simp: trim_def trim_end_def trim_start_def dest!: set_dropWhileD)

lemma split_on_nonempty [simp]: "split_on c s \<noteq> []"
  by (induction s) (auto split: list.splits)

lemma split_on_no_sep: "c \<notin> set s \<Longrightarrow> split_on c s = [s]"
  by (induction s) auto

lemma split_on_append_sep: "c \<notin> set p \<Longrightarrow> split_on c (p @ c # s) = p # split_on c s"
  by (induction p) auto

lemma split_join:
  "ws \<noteq> [] \<Longrightarrow> (\<And>w. w \<in> set ws \<Longrightarrow> c \<notin> set w) \<Longrightarrow> split_on c (join_with [c] ws) = ws"
proof (induction ws rule: induct_list012)
  case (3 w v ws)
  have "split_on c (w @ c # join_with [c] (v # ws)) = w # split_on c (join_with [c] (v # ws))"
    using 3(4) by (intro split_on_append_sep) simp
  then show ?case using 3 by simp
qed (simp_all add: split_on_no_sep)

lemma split_on_parts: "w \<in> set (split_on c s) \<Longrightarrow> c \<notin> set w"
proof (induction s arbitrary: w)
  case (Cons x xs)
  then show ?case
    by (cases "split_on c xs") (auto split: if_splits)
qed simp

lemma split_on_chars: "w \<in> set (split_on c s) \<Longrightarrow> set w \<subseteq> set s"
proof (induction s arbitrary: w)
  case (Cons x xs)
  then show ?case
    by (cases "split_on c xs") (fastforce split: if_splits)+
qed simp

lemma join_with_inj:
  assumes "ws \<noteq> []" "vs \<noteq> []"
    and "\<And>w. w \<in> set ws \<Longrightarrow> c \<notin> set w" "\<And>w. w \<in> set vs \<Longrightarrow> c \<notin> set w"
    and "join_with [c] ws = join_with [c] vs"
  shows "ws = vs"
  using split_join [of ws c] split_join [of vs c] assms by metis

end
