(* ===== verification/Json.thy ===== *)
theory Json
  imports JsText "HOL-Library.List_Lexorder" "HOL-Library.Char_ord" "HOL-Library.Multiset"
begin

text \<open>
  JSON values and the canonical serialisation \<open>stableStringify\<close> that
  \<open>packages/ingestion/src/hashing.ts\<close> and
  \<open>apps/api/src/common/idempotency.service.ts\<close> both define: objects with their keys sorted,
  so that the fingerprint of a value does not depend on the order its keys were inserted in.
  Numbers are integers; an object is the list of its entries in insertion order.
\<close>

datatype json =
    JNull
  | JBool bool
  | JNum int
  | JStr string
  | JArr "json list"
  | JObj "(string \<times> json) list"

text \<open>A property of an object: \<open>obj[key]\<close>, absent on any other value.\<close>

fun json_field :: "json \<Rightarrow> string \<Rightarrow> json option" where
  "json_field (JObj es) k = map_of es k"
| "json_field _ k = None"

subsection \<open>\<open>JSON.stringify\<close> of a string\<close>

definition hex_digit :: "nat \<Rightarrow> char" where
  "hex_digit d = char_of (if d < 10 then 48 + d else 87 + d)"

definition escape_char :: "char \<Rightarrow> string" where
  "escape_char c =
     (if code c = 34 then [char_of (92::nat), char_of (34::nat)]
      else if code c = 92 then [char_of (92::nat), char_of (92::nat)]
      else if code c = 8 then [char_of (92::nat), CHR ''b'']
      else if code c = 9 then [char_of (92::nat), CHR ''t'']
      else if code c = 10 then [char_of (92::nat), CHR ''n'']
      else if code c = 12 then [char_of (92::nat), CHR ''f'']
      else if code c = 13 then [char_of (92::nat), CHR ''r'']
      else if code c < 32 then
        [char_of (92::nat), CHR ''u'', CHR ''0'', CHR ''0'', hex_digit (code c div 16), hex_digit (code c mod 16)]
      else [c])"

definition dquote :: char where
  "dquote = CHR 0x22"

definition stringify_str :: "string \<Rightarrow> string" where
  "stringify_str s = [dquote] @ concat (map escape_char s) @ [dquote]"

text \<open>\<open>JSON.stringify\<close> of a value: entries in insertion order.\<close>

fun json_stringify :: "json \<Rightarrow> string" where
  "json_stringify JNull = ''null''"
| "json_stringify (JBool b) = (if b then ''true'' else ''false'')"
| "json_stringify (JNum n) = show_int n"
| "json_stringify (JStr s) = stringify_str s"
| "json_stringify (JArr js) = ''['' @ join_with '','' (map json_stringify js) @ '']''"
| "json_stringify (JObj es) =
     ''{'' @ join_with '','' (map (\<lambda>(k, v). stringify_str k @ '':'' @ json_stringify v) es) @ ''}''"

text \<open>\<open>Object.keys(value).sort()\<close>: keys in code-unit order.\<close>

definition sorted_entries :: "(string \<times> 'a) list \<Rightarrow> (string \<times> 'a) list" where
  "sorted_entries es = sort_key fst es"

fun stable_stringify :: "json \<Rightarrow> string" where
  "stable_stringify (JArr js) = ''['' @ join_with '','' (map stable_stringify js) @ '']''"
| "stable_stringify (JObj es) =
     ''{'' @ join_with '',''
       (map (\<lambda>(k, s). stringify_str k @ '':'' @ s)
         (sorted_entries (map (\<lambda>(k, v). (k, stable_stringify v)) es))) @ ''}''"
| "stable_stringify j = json_stringify j"

text \<open>
  \<open>same_json\<close>: equal up to the order of the entries of every object, at every depth.
  \<open>wf_json\<close>: no object has a key twice, as no JavaScript object has.
\<close>

inductive same_json :: "json \<Rightarrow> json \<Rightarrow> bool" where
  same_refl: "same_json j j"
| same_arr: "list_all2 same_json xs ys \<Longrightarrow> same_json (JArr xs) (JArr ys)"
| same_obj: "mset es = mset es' \<Longrightarrow>
     list_all2 (\<lambda>e f. fst e = fst f \<and> same_json (snd e) (snd f)) es' fs \<Longrightarrow>
     same_json (JObj es) (JObj fs)"

fun wf_json :: "json \<Rightarrow> bool" where
  "wf_json (JArr js) = list_all wf_json js"
| "wf_json (JObj es) = (distinct (map fst es) \<and> list_all (\<lambda>e. wf_json (snd e)) es)"
| "wf_json _ = True"

lemma sorted_entries_perm:
  assumes "mset es = mset fs" "distinct (map fst es)"
  shows "sorted_entries es = sorted_entries fs"
  unfolding sorted_entries_def using assms by (intro sort_key_eq_sort_key) (auto simp: distinct_map)

lemma wf_json_perm: "mset es = mset fs \<Longrightarrow> wf_json (JObj es) = wf_json (JObj fs)"
proof -
  assume eq: "mset es = mset fs"
  then have "mset (map fst es) = mset (map fst fs)" by simp
  then have "distinct (map fst es) = distinct (map fst fs)" using mset_eq_imp_distinct_iff by blast
  moreover have "set es = set fs" using eq by (metis set_mset_mset)
  ultimately show ?thesis by (simp add: list_all_iff)
qed

lemma stable_stringify_same: "same_json i j \<Longrightarrow> wf_json i \<Longrightarrow> stable_stringify i = stable_stringify j"
proof (induction rule: same_json.induct)
  case (same_arr xs ys)
  have "map stable_stringify xs = map stable_stringify ys"
    using same_arr by (auto simp: list_all2_conv_all_nth list_all_length intro!: nth_equalityI)
  then show ?case by simp
next
  case (same_obj es es' fs)
  let ?enc = "map (\<lambda>(k, v). (k, stable_stringify v))"
  have wf: "wf_json (JObj es')" using same_obj wf_json_perm by blast
  have "?enc es' = ?enc fs"
    using same_obj(2) wf by (auto simp: list_all2_conv_all_nth list_all_length split_beta intro!: nth_equalityI)
  moreover have "sorted_entries (?enc es) = sorted_entries (?enc es')"
    using same_obj by (intro sorted_entries_perm) (auto simp: comp_def split_beta)
  ultimately show ?case by simp
qed simp

end
