(* ===== verification/JsonParse.thy ===== *)
theory JsonParse
  imports Json
begin

text \<open>
  \<open>JSON.parse\<close> on the values of theory \<open>Json\<close>: white space, literals, integers, strings
  with their escapes, arrays, objects.  A repeated key keeps its first position and takes its last
  value, as property assignment does.  A number with a fraction or an exponent and an escape beyond
  U+00FF are outside the modelled range (\<open>None\<close>).  The main fact is that the parser
  inverts the printer, so that printing is injective.
\<close>

definition is_json_ws :: "char \<Rightarrow> bool" where
  "is_json_ws c \<longleftrightarrow> code c \<in> {9, 10, 13, 32}"

definition skip_ws :: "string \<Rightarrow> string" where
  "skip_ws s = dropWhile is_json_ws s"

definition hex_value :: "char \<Rightarrow> nat option" where
  "hex_value c = (if is_digit c then Some (code c - 48)
     else if 97 \<le> code c \<and> code c \<le> 102 then Some (code c - 87)
     else if 65 \<le> code c \<and> code c \<le> 70 then Some (code c - 55) else None)"

fun parse_escape :: "string \<Rightarrow> (char \<times> string) option" where
  "parse_escape (x # r) =
     (if code x = 34 \<or> code x = 92 \<or> code x = 47 then Some (x, r)
      else if x = CHR ''b'' then Some (char_of (8::nat), r)
      else if x = CHR ''t'' then Some (char_of (9::nat), r)
      else if x = CHR ''n'' then Some (char_of (10::nat), r)
      else if x = CHR ''f'' then Some (char_of (12::nat), r)
      else if x = CHR ''r'' then Some (char_of (13::nat), r)
      else if x = CHR ''u'' then
        (case r of a # b # c # d # r' \<Rightarrow>
           (case (hex_value a, hex_value b, hex_value c, hex_value d) of
              (Some 0, Some 0, Some h, Some l) \<Rightarrow> Some (char_of (16 * h + l), r')
            | _ \<Rightarrow> None)
         | _ \<Rightarrow> None)
      else None)"
| "parse_escape [] = None"

text \<open>The characters of a string up to the closing quote.\<close>

fun parse_char :: "string \<Rightarrow> (char \<times> string) option" where
  "parse_char [] = None"
| "parse_char (x # r) = (if code x = 92 then parse_escape r else if code x < 32 then None else Some (x, r))"

lemma parse_escape_length: "parse_escape s = Some (c, r) \<Longrightarrow> length r < length s"
  by (cases s) (auto split: if_splits list.splits option.splits nat.splits)

lemma parse_char_length: "parse_char s = Some (c, r) \<Longrightarrow> length r < length s"
  by (cases s) (auto split: if_splits dest: parse_escape_length)

function parse_str_body :: "string \<Rightarrow> (string \<times> string) option" where
  "parse_str_body [] = None"
| "parse_str_body (x # xs) =
     (if code x = 34 then Some ([], xs)
      else case parse_char (x # xs) of None \<Rightarrow> None
        | Some (c, r) \<Rightarrow> (case parse_str_body r of None \<Rightarrow> None | Some (t, r') \<Rightarrow> Some (c # t, r')))"
  by pat_completeness auto
termination
  by (relation "measure length") (auto dest: parse_char_length simp del: parse_char.simps)

definition parse_str :: "string \<Rightarrow> (string \<times> string) option" where
  "parse_str s = (case s of [] \<Rightarrow> None | x # xs \<Rightarrow> if code x = 34 then parse_str_body xs else None)"

definition digits_value :: "string \<Rightarrow> nat" where
  "digits_value ds = foldl (\<lambda>n d. 10 * n + (code d - 48)) 0 ds"

definition parse_nat :: "string \<Rightarrow> (nat \<times> string) option" where
  "parse_nat s = (let ds = takeWhile is_digit s; r = dropWhile is_digit s in
     if ds = [] \<or> (length ds > 1 \<and> hd ds = CHR ''0'') then None
     else if r \<noteq> [] \<and> hd r \<in> {CHR ''.'', CHR ''e'', CHR ''E''} then None
     else Some (digits_value ds, r))"

definition parse_number :: "string \<Rightarrow> (json \<times> string) option" where
  "parse_number s =
     (if s \<noteq> [] \<and> hd s = CHR ''-'' then map_option (\<lambda>(n, r). (JNum (- int n), r)) (parse_nat (tl s))
      else map_option (\<lambda>(n, r). (JNum (int n), r)) (parse_nat s))"

text \<open>Setting a property: the last value of a repeated key, at its first position.\<close>

definition put_entry :: "(string \<times> json) list \<Rightarrow> string \<Rightarrow> json \<Rightarrow> (string \<times> json) list" where
  "put_entry es k v = (if k \<in> fst ` set es then map (\<lambda>(k', w). if k' = k then (k', v) else (k', w)) es
     else es @ [(k, v)])"

definition literals :: "(string \<times> json) list" where
  "literals = [(''null'', JNull), (''true'', JBool True), (''false'', JBool False)]"

definition parse_literal :: "string \<Rightarrow> (json \<times> string) option" where
  "parse_literal s = map_option (\<lambda>(w, j). (j, drop (length w) s)) (List.find (\<lambda>(w, j). prefix w s) literals)"

fun parse_value :: "nat \<Rightarrow> string \<Rightarrow> (json \<times> string) option"
  and parse_elems :: "nat \<Rightarrow> string \<Rightarrow> (json list \<times> string) option"
  and parse_members :: "nat \<Rightarrow> (string \<times> json) list \<Rightarrow> string \<Rightarrow> ((string \<times> json) list \<times> string) option"
where
  "parse_value 0 s = None"
| "parse_value (Suc n) s = (case skip_ws s of
     [] \<Rightarrow> None
   | x # r \<Rightarrow>
       if code x = 34 then map_option (\<lambda>(t, r). (JStr t, r)) (parse_str (x # r))
       else if x = CHR ''['' then
         (case skip_ws r of
            y # r' \<Rightarrow> if y = CHR '']'' then Some (JArr [], r')
              else map_option (\<lambda>(js, r). (JArr js, r)) (parse_elems n r)
          | [] \<Rightarrow> None)
       else if x = CHR ''{'' then
         (case skip_ws r of
            y # r' \<Rightarrow> if y = CHR ''}'' then Some (JObj [], r')
              else map_option (\<lambda>(es, r). (JObj es, r)) (parse_members n [] r)
          | [] \<Rightarrow> None)
       else if is_digit x \<or> x = CHR ''-'' then parse_number (x # r)
       else parse_literal (x # r))"
| "parse_elems 0 s = None"
| "parse_elems (Suc n) s = (case parse_value n s of
     None \<Rightarrow> None
   | Some (j, r) \<Rightarrow> (case skip_ws r of
       y # r' \<Rightarrow> if y = CHR '']'' then Some ([j], r')
         else if y = CHR '','' then map_option (\<lambda>(js, r). (j # js, r)) (parse_elems n r')
         else None
     | [] \<Rightarrow> None))"
| "parse_members 0 es s = None"
| "parse_members (Suc n) es s = (case parse_str (skip_ws s) of
     None \<Rightarrow> None
   | Some (k, r) \<Rightarrow> (case skip_ws r of
       c # r' \<Rightarrow> if c \<noteq> CHR '':'' then None else
         (case parse_value n r' of
            None \<Rightarrow> None
          | Some (j, r'') \<Rightarrow> (case skip_ws r'' of
              y # r3 \<Rightarrow> if y = CHR ''}'' then Some (put_entry es k j, r3)
                else if y = CHR '','' then parse_members n (put_entry es k j) r3
                else None
            | [] \<Rightarrow> None))
     | [] \<Rightarrow> None))"

text \<open>\<open>JSON.parse\<close>: one value and nothing but white space after it; the length of the text is
  fuel enough, since every nested value is shorter.\<close>

definition json_parse :: "string \<Rightarrow> json option" where
  "json_parse s = (case parse_value (Suc (length s)) s of
     Some (j, r) \<Rightarrow> if skip_ws r = [] then Some j else None | None \<Rightarrow> None)"


subsection \<open>The parser inverts the printer\<close>

lemma code_char_of [simp]: "n < 256 \<Longrightarrow> code (char_of n) = n"
  by (simp add: code_def)

lemma code_lt: "code c < 256"
  by (simp add: code_def)

lemma char_of_code [simp]: "char_of (code c) = c"
  by (simp add: code_def)

lemma hex_value_digit: "d < 16 \<Longrightarrow> hex_value (hex_digit d) = Some d"
  by (auto simp: hex_value_def hex_digit_def is_digit_def)

lemma parse_escape_u:
  assumes "h < 16" "l < 16"
  shows "parse_escape (CHR ''u'' # CHR ''0'' # CHR ''0'' # hex_digit h # hex_digit l # r)
    = Some (char_of (16 * h + l), r)"
proof -
  have zero: "hex_value (CHR ''0'') = Some 0" by (simp add: hex_value_def is_digit_def code_def)
  show ?thesis using assms by (simp add: zero hex_value_digit code_def)
qed

lemma parse_char_escape: "parse_char (escape_char c @ r) = Some (c, r)"
proof -
  have eq: "c = char_of k" if "code c = k" for k using that by (metis char_of_code)
  have ctrl: "parse_char (char_of (92::nat) # CHR ''u'' # CHR ''0'' # CHR ''0''
      # hex_digit (code c div 16) # hex_digit (code c mod 16) # r) = Some (c, r)" if "code c < 32"
    using that parse_escape_u [of "code c div 16" "code c mod 16" r] by (simp del: parse_escape.simps)
  show ?thesis
  proof (cases "code c < 32 \<and> code c \<notin> {8, 9, 10, 12, 13}")
    case True
    then show ?thesis using ctrl by (auto simp: escape_char_def simp del: parse_char.simps)
  next
    case False
    then show ?thesis
      by (auto simp: escape_char_def code_def [of "CHR ''b''"] code_def [of "CHR ''t''"]
        code_def [of "CHR ''n''"] code_def [of "CHR ''f''"] code_def [of "CHR ''r''"] dest: eq)
  qed
qed

lemma escape_char_head: "\<exists>x xs. escape_char c = x # xs \<and> code x \<noteq> 34"
  by (auto simp: escape_char_def)

lemma parse_str_body_escape:
  "parse_str_body (escape_char c @ r) =
     (case parse_str_body r of None \<Rightarrow> None | Some (t, r') \<Rightarrow> Some (c # t, r'))"
proof -
  obtain x xs where x: "escape_char c = x # xs" "code x \<noteq> 34" using escape_char_head by blast
  have "parse_char (x # xs @ r) = Some (c, r)" using parse_char_escape [of c r] x(1) by simp
  then show ?thesis using x by (simp del: parse_char.simps)
qed

lemma parse_str_body_print: "parse_str_body (concat (map escape_char s) @ dquote # r) = Some (s, r)"
  by (induction s) (simp_all add: parse_str_body_escape dquote_def code_def)

lemma parse_str_print: "parse_str (stringify_str s @ r) = Some (s, r)"
  by (simp add: parse_str_def stringify_str_def parse_str_body_print) (simp add: dquote_def code_def)

lemma code_digit_char [simp]: "d < 10 \<Longrightarrow> code (digit_char d) = 48 + d"
  by (simp add: digit_char_def)

lemma digits_value_snoc: "digits_value (ds @ [d]) = 10 * digits_value ds + (code d - 48)"
  by (simp add: digits_value_def)

lemma digits_value_show: "digits_value (show_nat n) = n"
proof (induction n rule: show_nat.induct)
  case (1 n)
  then show ?case
    by (cases "n < 10") (simp_all add: show_nat.simps [of n] digits_value_snoc, simp add: digits_value_def)
qed

lemma is_digit_show: "d \<in> set (show_nat n) \<Longrightarrow> is_digit d"
  using show_nat_digits [of d n] by (auto simp: is_digit_def)

lemma hd_show_nat: "n > 0 \<Longrightarrow> hd (show_nat n) \<noteq> CHR ''0''"
proof (induction n rule: show_nat.induct)
  case (1 n)
  have "code (CHR ''0'') = 48" by (simp add: code_def)
  then show ?case using 1
    by (cases "n < 10") (auto simp: show_nat.simps [of n] hd_append dest!: arg_cong [where f = code])
qed

lemma length_show_small: "length (show_nat n) > 1 \<Longrightarrow> n > 0"
  by (cases n) (simp_all add: show_nat.simps)

lemma parse_nat_show:
  assumes "r = [] \<or> (\<not> is_digit (hd r) \<and> hd r \<notin> {CHR ''.'', CHR ''e'', CHR ''E''})"
  shows "parse_nat (show_nat n @ r) = Some (n, r)"
proof -
  have all: "\<forall>d \<in> set (show_nat n). is_digit d" using is_digit_show by blast
  have "dropWhile is_digit r = r" "takeWhile is_digit r = []" using assms by (cases r; simp)+
  then have "takeWhile is_digit (show_nat n @ r) = show_nat n" "dropWhile is_digit (show_nat n @ r) = r"
    using all by (simp_all add: takeWhile_append2 dropWhile_append2)
  then show ?thesis
    using assms hd_show_nat [of n] length_show_small [of n]
    by (auto simp: parse_nat_def Let_def digits_value_show)
qed

text \<open>What may follow a value in printed text: nothing, a comma or a closing bracket.\<close>

definition ends_value :: "string \<Rightarrow> bool" where
  "ends_value r \<longleftrightarrow> r = [] \<or> hd r \<in> {CHR '','', CHR '']'', CHR ''}''}"

lemma ends_value_simps [simp]:
  "ends_value []" "ends_value (CHR '','' # r)" "ends_value (CHR '']'' # r)" "ends_value (CHR ''}'' # r)"
  by (simp_all add: ends_value_def)

lemma parse_number_show:
  assumes "ends_value r"
  shows "parse_number (show_int n @ r) = Some (JNum n, r)"
proof -
  have r: "r = [] \<or> (\<not> is_digit (hd r) \<and> hd r \<notin> {CHR ''.'', CHR ''e'', CHR ''E''})"
    using assms by (auto simp: ends_value_def is_digit_def code_def)
  have minus: "hd (show_nat k) \<noteq> CHR ''-''" for k
    using is_digit_show [of "hd (show_nat k)" k] by (auto simp: is_digit_def code_def)
  show ?thesis
    using parse_nat_show [OF r, of "nat n"] parse_nat_show [OF r, of "nat (- n)"] minus [of "nat n"]
    by (auto simp: parse_number_def show_int_def hd_append)
qed


lemma dquote_neq [simp]:
  "dquote \<noteq> CHR '']''" "dquote \<noteq> CHR ''}''" "CHR '']'' \<noteq> dquote" "CHR ''}'' \<noteq> dquote"
  by (simp_all add: dquote_def)

lemma code_dquote [simp]: "code dquote = 34"
  by (simp add: dquote_def code_def)

lemma not_ws_first [simp]:
  "\<not> is_json_ws (CHR '','')" "\<not> is_json_ws (CHR '']'')" "\<not> is_json_ws (CHR ''}'')" "\<not> is_json_ws (CHR '':'')"
  "\<not> is_json_ws (CHR ''['')" "\<not> is_json_ws (CHR ''{'')" "\<not> is_json_ws dquote"
  by (simp_all add: is_json_ws_def code_def dquote_def)

lemma skip_ws_first [simp]: "skip_ws [] = []" "\<not> is_json_ws x \<Longrightarrow> skip_ws (x # r) = x # r"
  by (simp_all add: skip_ws_def)

lemma show_int_head: "\<exists>x xs. show_int n = x # xs \<and> (is_digit x \<or> x = CHR ''-'')"
proof (cases "n < 0")
  case False
  have "hd (show_nat (nat n)) \<in> set (show_nat (nat n))" by (rule hd_in_set) simp
  then have "is_digit (hd (show_nat (nat n)))" by (rule is_digit_show)
  then show ?thesis using False by (cases "show_nat (nat n)") (simp_all add: show_int_def)
qed (simp add: show_int_def)

lemma print_head: "\<exists>x xs. json_stringify j = x # xs \<and> \<not> is_json_ws x \<and> x \<noteq> CHR '']'' \<and> x \<noteq> CHR ''}''"
proof (cases j)
  case (JNum n)
  obtain x xs where "show_int n = x # xs" "is_digit x \<or> x = CHR ''-''" using show_int_head by blast
  with JNum show ?thesis by (auto simp: is_digit_def is_json_ws_def code_def)
qed (auto simp: stringify_str_def is_json_ws_def code_def dquote_def)

lemma skip_ws_print [simp]: "skip_ws (json_stringify j @ r) = json_stringify j @ r"
  using print_head [of j] by auto

lemma skip_ws_str [simp]: "skip_ws (stringify_str k @ r) = stringify_str k @ r"
  by (simp add: stringify_str_def)

lemma put_entry_new: "k \<notin> fst ` set es \<Longrightarrow> put_entry es k v = es @ [(k, v)]"
  by (simp add: put_entry_def)

abbreviation print_entry :: "string \<times> json \<Rightarrow> string" where
  "print_entry \<equiv> \<lambda>(k, v). stringify_str k @ '':'' @ json_stringify v"

text \<open>The three claims of the induction, each for any fuel that covers the printed text.\<close>

definition value_ok :: "json \<Rightarrow> bool" where
  "value_ok j \<longleftrightarrow> (\<forall>n r. length (json_stringify j) \<le> n \<longrightarrow> ends_value r \<longrightarrow>
     parse_value n (json_stringify j @ r) = Some (j, r))"

lemma parse_elems_print:
  assumes "js \<noteq> []" "\<forall>j \<in> set js. value_ok j"
    and "length (join_with '','' (map json_stringify js)) < n"
  shows "parse_elems n (join_with '','' (map json_stringify js) @ CHR '']'' # r) = Some (js, r)"
  using assms
proof (induction js arbitrary: n rule: induct_list012)
  case (2 j)
  then obtain m where "n = Suc m" by (cases n) auto
  with 2 show ?case by (simp add: value_ok_def)
next
  case (3 j k js)
  then obtain m where m: "n = Suc m" by (cases n) auto
  have "parse_value m (json_stringify j @ CHR '','' # join_with '','' (map json_stringify (k # js)) @ CHR '']'' # r)
      = Some (j, CHR '','' # join_with '','' (map json_stringify (k # js)) @ CHR '']'' # r)"
    using 3 m by (simp add: value_ok_def)
  moreover have "parse_elems m (join_with '','' (map json_stringify (k # js)) @ CHR '']'' # r) = Some (k # js, r)"
    using 3 m by simp
  ultimately show ?case using m by simp
qed simp

lemma parse_members_print:
  assumes "fs \<noteq> []" "\<forall>f \<in> set fs. value_ok (snd f)" "distinct (map fst (es @ fs))"
    and "length (join_with '','' (map print_entry fs)) < n"
  shows "parse_members n es (join_with '','' (map print_entry fs) @ CHR ''}'' # r) = Some (es @ fs, r)"
  using assms
proof (induction fs arbitrary: n es rule: induct_list012)
  case (2 f)
  obtain k v where f: "f = (k, v)" by (cases f)
  obtain m where m: "n = Suc m" using 2 by (cases n) auto
  have "parse_value m (json_stringify v @ CHR ''}'' # r) = Some (v, CHR ''}'' # r)"
    using 2 m f by (simp add: value_ok_def)
  then show ?case using 2 m f by (simp add: parse_str_print put_entry_new)
next
  case (3 f g fs)
  obtain k v where f: "f = (k, v)" by (cases f)
  obtain m where m: "n = Suc m" using 3 by (cases n) auto
  let ?rest = "join_with '','' (map print_entry (g # fs)) @ CHR ''}'' # r"
  have "parse_value m (json_stringify v @ CHR '','' # ?rest) = Some (v, CHR '','' # ?rest)"
    using 3 m f by (simp add: value_ok_def)
  moreover have "parse_members m (es @ [f]) ?rest = Some ((es @ [f]) @ g # fs, r)"
    using 3(4-) m f by (intro 3(2)) auto
  ultimately show ?case using 3 m f by (simp add: parse_str_print put_entry_new)
qed simp

lemma join_member_length: "w \<in> set ws \<Longrightarrow> length w \<le> length (join_with sep ws)"
  by (induction ws rule: induct_list012) auto

lemma literal_simps:
  "parse_literal (''null'' @ r) = Some (JNull, r)"
  "parse_literal (''true'' @ r) = Some (JBool True, r)"
  "parse_literal (''false'' @ r) = Some (JBool False, r)"
  "\<not> is_json_ws (CHR ''n'')" "\<not> is_json_ws (CHR ''t'')" "\<not> is_json_ws (CHR ''f'')"
  "\<not> is_digit (CHR ''n'')" "\<not> is_digit (CHR ''t'')" "\<not> is_digit (CHR ''f'')"
  "code (CHR ''n'') \<noteq> 34" "code (CHR ''t'') \<noteq> 34" "code (CHR ''f'') \<noteq> 34"
  by (simp_all add: parse_literal_def literals_def is_json_ws_def is_digit_def code_def)

lemma parse_value_print: "wf_json j \<Longrightarrow> value_ok j"
proof (induction j)
  case (JNum n)
  obtain x xs where x: "show_int n = x # xs" "is_digit x \<or> x = CHR ''-''" using show_int_head by blast
  have cls: "code x \<noteq> 34" "x \<noteq> CHR ''[''" "x \<noteq> CHR ''{''" "\<not> is_json_ws x"
    using x(2) by (auto simp: is_digit_def is_json_ws_def code_def)
  have "parse_value m (show_int n @ r) = Some (JNum n, r)"
    if m: "length (show_int n) \<le> m" and "ends_value r" for m r
  proof -
    have "m \<noteq> 0" using m x(1) by auto
    then obtain k where "m = Suc k" using not0_implies_Suc by blast
    then show ?thesis using parse_number_show [OF that(2), of n] x cls by simp
  qed
  then show ?case by (simp add: value_ok_def)
next
  case (JStr s)
  have "parse_value m (stringify_str s @ r) = Some (JStr s, r)" if len: "length (stringify_str s) \<le> m" for m r
  proof -
    obtain k where k: "m = Suc k" using len by (cases m) (auto simp: stringify_str_def)
    obtain xs where xs: "stringify_str s @ r = dquote # xs" by (simp add: stringify_str_def)
    have "parse_str (dquote # xs) = Some (s, r)" using parse_str_print [of s r] xs by simp
    then show ?thesis using k xs by simp
  qed
  then show ?case by (simp add: value_ok_def)
next
  case (JArr js)
  show ?case
  proof (cases "js = []")
    case True
    have "parse_value n (''[]'' @ r) = Some (JArr [], r)" if len: "2 \<le> n" for n r
    proof -
      obtain m where "n = Suc m" using len by (cases n) auto
      then show ?thesis by (simp add: code_def)
    qed
    then show ?thesis using True by (simp add: value_ok_def numeral_2_eq_2)
  next
    case False
    have ok: "\<forall>j \<in> set js. value_ok j" using JArr by (simp add: list_all_iff)
    obtain x xs where x: "join_with '','' (map json_stringify js) = x # xs" "\<not> is_json_ws x" "x \<noteq> CHR '']''"
      using False print_head [of "hd js"] by (cases js; cases "tl js") auto
    show ?thesis unfolding value_ok_def
    proof (intro allI impI)
      fix n r assume n: "length (json_stringify (JArr js)) \<le> n"
      then obtain m where m: "n = Suc m" by (cases n) auto
      have "parse_elems m (join_with '','' (map json_stringify js) @ CHR '']'' # r) = Some (js, r)"
        using n m by (intro parse_elems_print [OF False ok]) simp
      then show "parse_value n (json_stringify (JArr js) @ r) = Some (JArr js, r)"
        using m x by (simp add: code_def)
    qed
  qed
next
  case (JObj es)
  show ?case
  proof (cases "es = []")
    case True
    have "parse_value n (''{}'' @ r) = Some (JObj [], r)" if len: "2 \<le> n" for n r
    proof -
      obtain m where "n = Suc m" using len by (cases n) auto
      then show ?thesis by (simp add: code_def)
    qed
    then show ?thesis using True by (simp add: value_ok_def numeral_2_eq_2)
  next
    case False
    have ok: "\<forall>f \<in> set es. value_ok (snd f)"
      using JObj by (fastforce simp: list_all_iff)
    obtain xs where x: "join_with '','' (map print_entry es) = dquote # xs"
      using False by (cases es; cases "tl es") (auto simp: stringify_str_def split_beta)
    show ?thesis unfolding value_ok_def
    proof (intro allI impI)
      fix n r assume n: "length (json_stringify (JObj es)) \<le> n"
      then obtain m where m: "n = Suc m" by (cases n) auto
      have "parse_members m [] (join_with '','' (map print_entry es) @ CHR ''}'' # r) = Some ([] @ es, r)"
        using n m JObj by (intro parse_members_print [OF False ok]) simp_all
      then show "parse_value n (json_stringify (JObj es) @ r) = Some (JObj es, r)"
        using m x by (simp add: code_def)
    qed
  qed
next
  case JNull
  show ?case unfolding value_ok_def
  proof (intro allI impI)
    fix n r assume "length (json_stringify JNull) \<le> n"
    then obtain m where "n = Suc m" by (cases n) auto
    then show "parse_value n (json_stringify JNull @ r) = Some (JNull, r)" using literal_simps by simp
  qed
next
  case (JBool b)
  show ?case unfolding value_ok_def
  proof (intro allI impI)
    fix n r assume "length (json_stringify (JBool b)) \<le> n"
    then obtain m where "n = Suc m" by (cases n) (auto split: if_splits)
    then show "parse_value n (json_stringify (JBool b) @ r) = Some (JBool b, r)" using literal_simps by simp
  qed
qed

lemma json_parse_print: "wf_json j \<Longrightarrow> json_parse (json_stringify j) = Some j"
proof -
  assume "wf_json j"
  then have all: "\<forall>n r. length (json_stringify j) \<le> n \<longrightarrow> ends_value r \<longrightarrow>
      parse_value n (json_stringify j @ r) = Some (j, r)"
    using parse_value_print unfolding value_ok_def by blast
  have "parse_value (Suc (length (json_stringify j))) (json_stringify j @ []) = Some (j, [])"
    by (rule all [rule_format]) simp_all
  then show ?thesis unfolding json_parse_def append_Nil2 by (simp only: option.case prod.case skip_ws_first if_True refl simp_thms)
qed

lemma json_stringify_inj: "wf_json i \<Longrightarrow> wf_json j \<Longrightarrow> json_stringify i = json_stringify j \<Longrightarrow> i = j"
  by (metis json_parse_print option.inject)


subsection \<open>The canonical text determines the value up to key order\<close>

fun canon :: "json \<Rightarrow> json" where
  "canon (JArr js) = JArr (map canon js)"
| "canon (JObj es) = JObj (sorted_entries (map (\<lambda>(k, v). (k, canon v)) es))"
| "canon j = j"

lemma insort_key_map: "insort_key f (g x) (map g xs) = map g (insort_key (\<lambda>a. f (g a)) x xs)"
  by (induction xs) auto

lemma sort_key_map: "sort_key f (map g xs) = map g (sort_key (\<lambda>a. f (g a)) xs)"
  by (induction xs) (simp_all add: insort_key_map)

lemma sorted_entries_map:
  "sorted_entries (map (\<lambda>(k, v). (k, h v)) es) = map (\<lambda>(k, v). (k, h v)) (sorted_entries es)"
proof -
  have "(\<lambda>a. fst (case a of (k, v) \<Rightarrow> (k, h v))) = fst" by (auto simp: split_beta)
  then show ?thesis unfolding sorted_entries_def sort_key_map
    by (rule arg_cong [where f = "\<lambda>f. map (\<lambda>(k, v). (k, h v)) (sort_key f es)"])
qed

lemma mset_sorted_entries [simp]: "mset (sorted_entries es) = mset es"
  by (simp add: sorted_entries_def)

lemma set_sorted_entries [simp]: "set (sorted_entries es) = set es"
  by (simp add: sorted_entries_def)

lemma stable_stringify_canon: "stable_stringify j = json_stringify (canon j)"
proof (induction j)
  case (JArr js)
  then have "map stable_stringify js = map (\<lambda>x. json_stringify (canon x)) js" by simp
  then show ?case by (simp add: comp_def del: map_eq_conv)
next
  case (JObj es)
  have "map (\<lambda>(k, v). (k, stable_stringify v)) es
      = map (\<lambda>(k, v). (k, json_stringify v)) (map (\<lambda>(k, v). (k, canon v)) es)"
    using JObj by fastforce
  then have "sorted_entries (map (\<lambda>(k, v). (k, stable_stringify v)) es)
      = map (\<lambda>(k, v). (k, json_stringify v)) (sorted_entries (map (\<lambda>(k, v). (k, canon v)) es))"
    by (simp only: sorted_entries_map)
  then show ?case by (simp add: comp_def case_prod_beta')
qed simp_all

lemma wf_canon: "wf_json j \<Longrightarrow> wf_json (canon j)"
proof (induction j)
  case (JObj es)
  have "map fst (map (\<lambda>(k, v). (k, canon v)) es) = map fst es" by auto
  then have "distinct (map fst (sorted_entries (map (\<lambda>(k, v). (k, canon v)) es)))"
    using JObj by (metis mset_eq_imp_distinct_iff mset_map mset_sorted_entries wf_json.simps(2))
  then show ?case using JObj by (fastforce simp: list_all_iff)
qed (auto simp: list_all_iff)

lemma mset_map_lift:
  "mset (map g xs) = mset ys \<Longrightarrow> \<exists>zs. mset zs = mset xs \<and> map g zs = ys"
proof (induction ys arbitrary: xs)
  case (Cons y ys)
  then have "y \<in> set (map g xs)" by (metis list.set_intros(1) set_mset_mset)
  then obtain us x vs where x: "xs = us @ x # vs" "g x = y" by (auto dest!: split_list)
  then have "mset (map g (us @ vs)) = mset ys" using Cons.prems by simp
  then obtain zs where "mset zs = mset (us @ vs)" "map g zs = ys" using Cons.IH by blast
  then show ?case using x by (intro exI [of _ "x # zs"]) simp
qed simp

lemma canon_shape:
  "JArr ys = canon j \<Longrightarrow> \<exists>zs. j = JArr zs \<and> ys = map canon zs"
  "JObj es = canon j \<Longrightarrow> \<exists>fs. j = JObj fs \<and> es = sorted_entries (map (\<lambda>(k, v). (k, canon v)) fs)"
  "JNull = canon j \<Longrightarrow> j = JNull" "JBool b = canon j \<Longrightarrow> j = JBool b"
  "JNum n = canon j \<Longrightarrow> j = JNum n" "JStr s = canon j \<Longrightarrow> j = JStr s"
  by (cases j; simp)+

lemma canon_eq_same: "canon i = canon j \<Longrightarrow> same_json i j"
proof (induction i arbitrary: j)
  case (JArr xs)
  then obtain ys where j: "j = JArr ys" "map canon xs = map canon ys"
    using canon_shape(1) [of "map canon xs" j] by auto
  have len: "length xs = length ys" using j(2) map_eq_imp_length_eq by blast
  have "same_json (xs ! n) (ys ! n)" if "n < length xs" for n
  proof -
    have "canon (xs ! n) = canon (ys ! n)" using that j(2) len by (metis nth_map)
    then show ?thesis using JArr.IH that by simp
  qed
  then have "list_all2 same_json xs ys" using len by (simp add: list_all2_conv_all_nth)
  then show ?case using j(1) by (simp add: same_arr)
next
  case (JObj es)
  let ?g = "\<lambda>(k, v). (k, canon v)"
  obtain fs where j: "j = JObj fs" "sorted_entries (map ?g es) = sorted_entries (map ?g fs)"
    using canon_shape(2) [of "sorted_entries (map ?g es)" j] JObj.prems by auto
  then have "mset (map ?g es) = mset (map ?g fs)" by (metis mset_sorted_entries)
  then obtain zs where zs: "mset zs = mset es" "map ?g zs = map ?g fs" using mset_map_lift by blast
  have sub: "same_json (snd z) k" if "z \<in> set zs" "canon (snd z) = canon k" for z k
  proof -
    have "z \<in> set es" using that(1) zs(1) by (metis set_mset_mset)
    then show ?thesis using JObj.IH [of z "snd z"] that(2) by (simp add: snds.simps)
  qed
  have len: "length zs = length fs" using zs(2) map_eq_imp_length_eq by blast
  have "fst (zs ! n) = fst (fs ! n) \<and> same_json (snd (zs ! n)) (snd (fs ! n))" if "n < length zs" for n
  proof -
    have "map ?g zs ! n = map ?g fs ! n" by (simp only: zs(2))
    then have "?g (zs ! n) = ?g (fs ! n)" using that len by (simp only: nth_map)
    then show ?thesis using sub that by (simp add: split_beta)
  qed
  then have "list_all2 (\<lambda>e f. fst e = fst f \<and> same_json (snd e) (snd f)) zs fs"
    using len by (simp add: list_all2_conv_all_nth)
  then have "same_json (JObj es) (JObj fs)" by (rule same_obj [OF zs(1) [symmetric]])
  then show ?case using j(1) by simp
next
  case (JBool b)
  then show ?case using canon_shape(4) [of b j] same_refl by simp
next
  case (JNum n)
  then show ?case using canon_shape(5) [of n j] same_refl by simp
next
  case (JStr t)
  then show ?case using canon_shape(6) [of t j] same_refl by simp
qed (use canon_shape(3) same_refl in auto)

theorem stable_stringify_iff:
  assumes "wf_json i" "wf_json j"
  shows "stable_stringify i = stable_stringify j \<longleftrightarrow> same_json i j"
proof
  assume "stable_stringify i = stable_stringify j"
  then have "canon i = canon j"
    using json_stringify_inj wf_canon assms by (simp add: stable_stringify_canon)
  then show "same_json i j" by (rule canon_eq_same)
qed (use stable_stringify_same assms in blast)

end
