(* ===== verification/Errors.thy ===== *)
theory Errors
  imports JsText
begin

text \<open>
  The error taxonomy of \<open>packages/errors/src/index.ts\<close>, the ingestion errors of
  \<open>packages/ingestion/src/errors.ts\<close>, the translation of database errors of
  \<open>apps/api/src/common/prisma-error.ts\<close> and the exception filter of
  \<open>apps/api/src/common/filters/all-exceptions.filter.ts\<close>.  A thrown value is an
  \<open>AppError\<close>, an error object of the database client with its \<open>code\<close>, an HTTP
  exception of the framework with its status, or any other error object with its message.
  The \<open>cause\<close> of an error is diagnostic only and is left out.
\<close>

subsection \<open>Categories\<close>

datatype error_category =
    VALIDATION | MALFORMED | AUTHENTICATION | AUTHORIZATION | NOT_FOUND
  | METHOD_NOT_ALLOWED | GONE | CONFLICT | PAYLOAD_TOO_LARGE | UNSUPPORTED_MEDIA
  | QUOTA | DEPENDENCY_FAILURE | QUEUE_FAILURE | STORAGE_FAILURE | INTERNAL

fun category_http_status :: "error_category \<Rightarrow> nat" where
  "category_http_status VALIDATION = 422"
| "category_http_status MALFORMED = 400"
| "category_http_status AUTHENTICATION = 401"
| "category_http_status AUTHORIZATION = 403"
| "category_http_status NOT_FOUND = 404"
| "category_http_status METHOD_NOT_ALLOWED = 405"
| "category_http_status GONE = 410"
| "category_http_status CONFLICT = 409"
| "category_http_status PAYLOAD_TOO_LARGE = 413"
| "category_http_status UNSUPPORTED_MEDIA = 415"
| "category_http_status QUOTA = 429"
| "category_http_status DEPENDENCY_FAILURE = 502"
| "category_http_status QUEUE_FAILURE = 503"
| "category_http_status STORAGE_FAILURE = 503"
| "category_http_status INTERNAL = 500"

fun default_retryable :: "error_category \<Rightarrow> bool" where
  "default_retryable VALIDATION = False"
| "default_retryable MALFORMED = False"
| "default_retryable AUTHENTICATION = False"
| "default_retryable AUTHORIZATION = False"
| "default_retryable NOT_FOUND = False"
| "default_retryable METHOD_NOT_ALLOWED = False"
| "default_retryable GONE = False"
| "default_retryable CONFLICT = False"
| "default_retryable PAYLOAD_TOO_LARGE = False"
| "default_retryable UNSUPPORTED_MEDIA = False"
| "default_retryable QUOTA = True"
| "default_retryable DEPENDENCY_FAILURE = True"
| "default_retryable QUEUE_FAILURE = True"
| "default_retryable STORAGE_FAILURE = True"
| "default_retryable INTERNAL = False"

subsection \<open>The error object\<close>

record error_detail =
  ed_field :: "string option"
  ed_issue :: string

record app_error_options =
  opt_code :: string
  opt_message :: string
  opt_category :: error_category
  opt_details :: "error_detail list option"
  opt_retryable :: "bool option"
  opt_documentation_url :: "string option"

text \<open>\<open>err_class\<close> is the class of the object, which \<open>instanceof\<close> tests.\<close>

record app_error =
  err_class :: string
  err_code :: string
  err_message :: string
  err_category :: error_category
  err_http_status :: nat
  err_details :: "error_detail list option"
  err_retryable :: bool
  err_documentation_url :: "string option"

definition app_error_of :: "string \<Rightarrow> app_error_options \<Rightarrow> app_error" where
  "app_error_of cls opts =
     \<lparr> err_class = cls,
       err_code = opt_code opts,
       err_message = opt_message opts,
       err_category = opt_category opts,
       err_http_status = category_http_status (opt_category opts),
       err_details = opt_details opts,
       err_retryable = (case opt_retryable opts of Some b \<Rightarrow> b
                        | None \<Rightarrow> default_retryable (opt_category opts)),
       err_documentation_url = opt_documentation_url opts \<rparr>"

text \<open>The options of a subclass: code and message may be left to the class.\<close>

record sub_options =
  so_code :: "string option"
  so_message :: string
  so_details :: "error_detail list option"
  so_retryable :: "bool option"

definition msg_only :: "string \<Rightarrow> sub_options" where
  "msg_only m = \<lparr> so_code = None, so_message = m, so_details = None, so_retryable = None \<rparr>"

definition coded :: "string \<Rightarrow> string \<Rightarrow> sub_options" where
  "coded c m = (msg_only m)\<lparr> so_code := Some c \<rparr>"

definition detailed :: "sub_options \<Rightarrow> string option \<Rightarrow> string \<Rightarrow> sub_options" where
  "detailed opts f i = opts\<lparr> so_details := Some [\<lparr> ed_field = f, ed_issue = i \<rparr>] \<rparr>"

definition subclass_error :: "string \<Rightarrow> string \<Rightarrow> error_category \<Rightarrow> sub_options \<Rightarrow> app_error" where
  "subclass_error cls dflt cat opts = app_error_of cls
     \<lparr> opt_code = (case so_code opts of Some c \<Rightarrow> c | None \<Rightarrow> dflt),
       opt_message = so_message opts, opt_category = cat,
       opt_details = so_details opts, opt_retryable = so_retryable opts,
       opt_documentation_url = None \<rparr>"

definition ValidationError :: "sub_options \<Rightarrow> app_error" where
  "ValidationError = subclass_error ''ValidationError'' ''VALIDATION_FAILED'' VALIDATION"
definition MalformedRequestError :: "sub_options \<Rightarrow> app_error" where
  "MalformedRequestError = subclass_error ''MalformedRequestError'' ''MALFORMED_REQUEST'' MALFORMED"
definition AuthenticationError :: "sub_options \<Rightarrow> app_error" where
  "AuthenticationError = subclass_error ''AuthenticationError'' ''UNAUTHENTICATED'' AUTHENTICATION"
definition AuthorizationError :: "sub_options \<Rightarrow> app_error" where
  "AuthorizationError = subclass_error ''AuthorizationError'' ''FORBIDDEN'' AUTHORIZATION"
definition NotFoundError :: "sub_options \<Rightarrow> app_error" where
  "NotFoundError = subclass_error ''NotFoundError'' ''RESOURCE_NOT_FOUND'' NOT_FOUND"
definition MethodNotAllowedError :: "sub_options \<Rightarrow> app_error" where
  "MethodNotAllowedError = subclass_error ''MethodNotAllowedError'' ''METHOD_NOT_ALLOWED'' METHOD_NOT_ALLOWED"
definition GoneError :: "sub_options \<Rightarrow> app_error" where
  "GoneError = subclass_error ''GoneError'' ''RESOURCE_GONE'' GONE"
definition ConflictError :: "sub_options \<Rightarrow> app_error" where
  "ConflictError = subclass_error ''ConflictError'' ''CONFLICT'' CONFLICT"
definition PayloadTooLargeError :: "sub_options \<Rightarrow> app_error" where
  "PayloadTooLargeError = subclass_error ''PayloadTooLargeError'' ''REQUEST_TOO_LARGE'' PAYLOAD_TOO_LARGE"
definition UnsupportedMediaTypeError :: "sub_options \<Rightarrow> app_error" where
  "UnsupportedMediaTypeError = subclass_error ''UnsupportedMediaTypeError'' ''UNSUPPORTED_MEDIA_TYPE'' UNSUPPORTED_MEDIA"
definition QuotaExceededError :: "sub_options \<Rightarrow> app_error" where
  "QuotaExceededError = subclass_error ''QuotaExceededError'' ''RATE_LIMITED'' QUOTA"
definition DependencyFailureError :: "sub_options \<Rightarrow> app_error" where
  "DependencyFailureError = subclass_error ''DependencyFailureError'' ''DEPENDENCY_UNAVAILABLE'' DEPENDENCY_FAILURE"
definition QueueFailureError :: "sub_options \<Rightarrow> app_error" where
  "QueueFailureError = subclass_error ''QueueFailureError'' ''QUEUE_UNAVAILABLE'' QUEUE_FAILURE"
definition StorageFailureError :: "sub_options \<Rightarrow> app_error" where
  "StorageFailureError = subclass_error ''StorageFailureError'' ''STORAGE_UNAVAILABLE'' STORAGE_FAILURE"
definition InternalError :: "sub_options \<Rightarrow> app_error" where
  "InternalError = subclass_error ''InternalError'' ''INTERNAL_ERROR'' INTERNAL"

lemmas error_classes = ValidationError_def MalformedRequestError_def AuthenticationError_def
  AuthorizationError_def NotFoundError_def MethodNotAllowedError_def GoneError_def
  ConflictError_def PayloadTooLargeError_def UnsupportedMediaTypeError_def QuotaExceededError_def
  DependencyFailureError_def QueueFailureError_def StorageFailureError_def InternalError_def

lemma subclass_error_sel [simp]:
  "err_class (subclass_error cls dflt cat opts) = cls"
  "err_category (subclass_error cls dflt cat opts) = cat"
  "err_http_status (subclass_error cls dflt cat opts) = category_http_status cat"
  "err_code (subclass_error cls dflt cat opts) = (case so_code opts of Some c \<Rightarrow> c | None \<Rightarrow> dflt)"
  "err_message (subclass_error cls dflt cat opts) = so_message opts"
  "err_retryable (subclass_error cls dflt cat opts) =
     (case so_retryable opts of Some b \<Rightarrow> b | None \<Rightarrow> default_retryable cat)"
  by (simp_all add: subclass_error_def app_error_of_def split: option.split)

lemma sub_options_sel [simp]:
  "so_code (msg_only m) = None" "so_message (msg_only m) = m" "so_retryable (msg_only m) = None"
  "so_code (coded c m) = Some c" "so_message (coded c m) = m" "so_retryable (coded c m) = None"
  "so_code (detailed opts f i) = so_code opts" "so_message (detailed opts f i) = so_message opts"
  "so_retryable (detailed opts f i) = so_retryable opts"
  by (simp_all add: msg_only_def coded_def detailed_def)

subsection \<open>Thrown values and the envelope\<close>

datatype thrown =
    AppErr app_error
  | CodedErr string string    \<comment> \<open>an error object with a string \<open>code\<close>, and its message\<close>
  | HttpErr nat               \<comment> \<open>\<open>HttpException\<close> of the framework, with its status\<close>
  | OtherErr string           \<comment> \<open>any other error object, with its message\<close>

fun is_app_error :: "thrown \<Rightarrow> bool" where
  "is_app_error (AppErr e) = True"
| "is_app_error _ = False"

record error_envelope =
  env_code :: string
  env_message :: string
  env_details :: "error_detail list option"
  env_request_id :: string
  env_trace_id :: string
  env_retryable :: bool
  env_documentation_url :: "string option"

fun to_error_envelope :: "thrown \<Rightarrow> string \<Rightarrow> string \<Rightarrow> error_envelope" where
  "to_error_envelope (AppErr e) request_id trace_id =
     \<lparr> env_code = err_code e, env_message = err_message e, env_details = err_details e,
       env_request_id = request_id, env_trace_id = trace_id,
       env_retryable = err_retryable e, env_documentation_url = err_documentation_url e \<rparr>"
| "to_error_envelope _ request_id trace_id =
     \<lparr> env_code = ''INTERNAL_ERROR'', env_message = ''An unexpected error occurred.'',
       env_details = None, env_request_id = request_id, env_trace_id = trace_id,
       env_retryable = False, env_documentation_url = None \<rparr>"

fun http_status_for_error :: "thrown \<Rightarrow> nat" where
  "http_status_for_error (AppErr e) = err_http_status e"
| "http_status_for_error _ = 500"

subsection \<open>Database errors at the boundary\<close>

text \<open>\<open>/^P\d{4}$/\<close>\<close>

definition is_prisma_code :: "string \<Rightarrow> bool" where
  "is_prisma_code c = (case c of
     x # ds \<Rightarrow> x = CHR ''P'' \<and> length ds = 4 \<and> list_all is_digit ds
   | [] \<Rightarrow> False)"

fun is_prisma_known_error :: "thrown \<Rightarrow> bool" where
  "is_prisma_known_error (CodedErr c _) = is_prisma_code c"
| "is_prisma_known_error (AppErr e) = is_prisma_code (err_code e)"
| "is_prisma_known_error _ = False"

definition normalize_prisma_error :: "thrown \<Rightarrow> thrown" where
  "normalize_prisma_error err =
     (if is_app_error err then err
      else if \<not> is_prisma_known_error err then err
      else case err of
        CodedErr c _ \<Rightarrow>
          (if c = ''P2023'' then AppErr (ValidationError
             (detailed (coded ''INVALID_IDENTIFIER''
               ''An identifier in this request is not a valid UUID.'') None ''invalid_format''))
           else if c = ''P2025'' then AppErr (NotFoundError (msg_only ''Resource not found.''))
           else err)
      | _ \<Rightarrow> err)"

definition normalize_exception :: "thrown \<Rightarrow> thrown" where
  "normalize_exception exc =
     (if is_app_error exc then exc
      else let from_prisma = normalize_prisma_error exc in
      if is_app_error from_prisma then from_prisma
      else case exc of
        HttpErr status \<Rightarrow> AppErr
          (if status = 404 then NotFoundError (coded ''RESOURCE_NOT_FOUND'' ''No such resource.'')
           else if status = 405 then MethodNotAllowedError (msg_only ''That method is not supported for this resource.'')
           else if status = 400 then MalformedRequestError (msg_only ''The request could not be parsed.'')
           else if status = 413 then PayloadTooLargeError (msg_only ''Request payload too large.'')
           else if status = 415 then UnsupportedMediaTypeError (msg_only ''Unsupported media type.'')
           else InternalError (msg_only ''Request could not be processed.''))
      | _ \<Rightarrow> exc)"

text \<open>The filter: status and body of the response.  Logging of status 500 and above is left out.\<close>

definition exception_response :: "string option \<Rightarrow> string option \<Rightarrow> thrown \<Rightarrow> nat \<times> error_envelope" where
  "exception_response x_request_id x_trace_id exc =
     (let request_id = (case x_request_id of Some v \<Rightarrow> v | None \<Rightarrow> ''unknown'');
          trace_id = (case x_trace_id of Some v \<Rightarrow> v | None \<Rightarrow> ''unknown'');
          normalized = normalize_exception exc
      in (http_status_for_error normalized, to_error_envelope normalized request_id trace_id))"

subsection \<open>Ingestion errors\<close>

definition ingestion_error :: "string \<Rightarrow> string \<Rightarrow> error_category \<Rightarrow> bool \<Rightarrow> string \<Rightarrow> app_error" where
  "ingestion_error cls c cat r m = app_error_of cls
     \<lparr> opt_code = c, opt_message = m, opt_category = cat, opt_details = None,
       opt_retryable = Some r, opt_documentation_url = None \<rparr>"

definition UnsupportedFormatError :: "string \<Rightarrow> app_error" where
  "UnsupportedFormatError = ingestion_error ''UnsupportedFormatError'' ''UNSUPPORTED_FORMAT'' UNSUPPORTED_MEDIA False"
definition InvalidFileError :: "string \<Rightarrow> app_error" where
  "InvalidFileError = ingestion_error ''InvalidFileError'' ''INVALID_FILE'' VALIDATION False"
definition CorruptedFileError :: "string \<Rightarrow> app_error" where
  "CorruptedFileError = ingestion_error ''CorruptedFileError'' ''CORRUPTED_FILE'' VALIDATION False"
definition FileTooLargeError :: "string \<Rightarrow> app_error" where
  "FileTooLargeError = ingestion_error ''FileTooLargeError'' ''FILE_TOO_LARGE'' PAYLOAD_TOO_LARGE False"
definition SecurityViolationError :: "string \<Rightarrow> app_error" where
  "SecurityViolationError = ingestion_error ''SecurityViolationError'' ''SECURITY_VIOLATION'' VALIDATION False"
definition ParserFailedError :: "string \<Rightarrow> app_error" where
  "ParserFailedError = ingestion_error ''ParserFailedError'' ''PARSER_FAILED'' INTERNAL True"
definition NormalizationFailedError :: "string \<Rightarrow> app_error" where
  "NormalizationFailedError = ingestion_error ''NormalizationFailedError'' ''NORMALIZATION_FAILED'' INTERNAL True"
definition StructureDetectionFailedError :: "string \<Rightarrow> app_error" where
  "StructureDetectionFailedError = ingestion_error ''StructureDetectionFailedError'' ''STRUCTURE_DETECTION_FAILED'' INTERNAL True"
definition OutputValidationFailedError :: "string \<Rightarrow> app_error" where
  "OutputValidationFailedError = ingestion_error ''OutputValidationFailedError'' ''OUTPUT_VALIDATION_FAILED'' INTERNAL False"
definition IngestionTimeoutError :: "string \<Rightarrow> app_error" where
  "IngestionTimeoutError = ingestion_error ''IngestionTimeoutError'' ''TIMEOUT'' DEPENDENCY_FAILURE True"

definition is_terminal_ingestion_error :: "thrown \<Rightarrow> bool" where
  "is_terminal_ingestion_error err = (case err of
     AppErr e \<Rightarrow> err_class e = ''UnsupportedFormatError'' \<or> err_class e = ''InvalidFileError''
       \<or> err_class e = ''CorruptedFileError'' \<or> err_class e = ''FileTooLargeError''
       \<or> err_class e = ''SecurityViolationError'' \<or> err_class e = ''OutputValidationFailedError''
   | _ \<Rightarrow> False)"

lemmas ingestion_error_classes = UnsupportedFormatError_def InvalidFileError_def
  CorruptedFileError_def FileTooLargeError_def SecurityViolationError_def ParserFailedError_def
  NormalizationFailedError_def StructureDetectionFailedError_def OutputValidationFailedError_def
  IngestionTimeoutError_def

subsection \<open>Laws\<close>

lemma app_error_status_of_category:
  "err_http_status (app_error_of cls opts) = category_http_status (err_category (app_error_of cls opts))"
  by (simp add: app_error_of_def)

lemma status_in_error_range: "400 \<le> category_http_status c \<and> category_http_status c \<le> 503"
  by (cases c) simp_all

lemma normalize_exception_idem: "normalize_exception (normalize_exception e) = normalize_exception e"
  by (cases e) (auto simp: normalize_exception_def normalize_prisma_error_def Let_def)

text \<open>
  What the filter lets through of an unrecognised value: nothing.  The response of two unrecognised
  errors is the same, whatever they print.
\<close>

lemma exception_response_opaque:
  assumes "\<And>a. e \<noteq> AppErr a" "\<And>n. e \<noteq> HttpErr n"
    and "\<And>c m. e = CodedErr c m \<Longrightarrow> c \<noteq> ''P2023'' \<and> c \<noteq> ''P2025''"
  shows "exception_response r t e = exception_response r t (OtherErr [])"
proof (cases e)
  case (CodedErr c m)
  with assms(3) have "c \<noteq> ''P2023''" "c \<noteq> ''P2025''" by blast+
  with CodedErr show ?thesis
    by (simp add: exception_response_def normalize_exception_def normalize_prisma_error_def)
qed (use assms in \<open>simp_all add: exception_response_def normalize_exception_def normalize_prisma_error_def\<close>)

end
