(* ===== verification/Pagination.thy ===== *)
theory Pagination
  imports JsonParse Errors
begin

text \<open>
  \<open>apps/api/src/common/pagination.ts\<close>: opaque cursors, the page limit and the slicing of
  \<open>limit + 1\<close> fetched rows into a page.  A cursor is the base64url text of the UTF-8 bytes of
  a JSON object, so the byte encodings of the platform are written out here too; on characters up to
  U+00FF they are exact, a byte sequence that decodes beyond that range is \<open>None\<close>.  The locale
  \<open>keyset\<close> is the contract between a listing query and a client that follows
  \<open>next_cursor\<close>: its lemma says that the walk returns every row once, in order.
\<close>

subsection \<open>Bits, UTF-8 and base64url\<close>

fun bits_of :: "nat \<Rightarrow> nat \<Rightarrow> bool list" where
  "bits_of 0 n = []"
| "bits_of (Suc w) n = bits_of w (n div 2) @ [odd n]"

definition bits_value :: "bool list \<Rightarrow> nat" where
  "bits_value bs = foldl (\<lambda>n b. 2 * n + of_bool b) 0 bs"

function chunks :: "nat \<Rightarrow> 'a list \<Rightarrow> 'a list list" where
  "chunks k xs = (if k = 0 \<or> length xs < k then [] else take k xs # chunks k (drop k xs))"
  by pat_completeness auto
termination
  by (relation "measure (\<lambda>(k, xs). length xs)") auto

declare chunks.simps [simp del]

definition b64_index :: "char \<Rightarrow> nat option" where
  "b64_index c = (if is_ascii_upper c then Some (code c - 65)
     else if is_ascii_lower c then Some (code c - 71)
     else if is_digit c then Some (code c + 4)
     else if c = CHR ''-'' \<or> c = CHR ''+'' then Some 62
     else if c = CHR ''_'' \<or> c = CHR ''/'' then Some 63 else None)"

definition b64_char :: "nat \<Rightarrow> char" where
  "b64_char n = (if n < 26 then char_of (n + 65) else if n < 52 then char_of (n + 71)
     else if n < 62 then char_of (n - 4) else if n = 62 then CHR ''-'' else CHR ''_'')"

definition b64url_encode :: "nat list \<Rightarrow> string" where
  "b64url_encode bytes =
     (let bs = concat (map (bits_of 8) bytes);
          padded = bs @ replicate ((6 - length bs mod 6) mod 6) False
      in map (\<lambda>ch. b64_char (bits_value ch)) (chunks 6 padded))"

text \<open>Characters outside the alphabet are skipped.\<close>

definition b64url_decode :: "string \<Rightarrow> nat list" where
  "b64url_decode s = map bits_value (chunks 8 (concat (map (bits_of 6) (List.map_filter b64_index s))))"

definition utf8_char :: "char \<Rightarrow> nat list" where
  "utf8_char c = (if code c < 128 then [code c] else [192 + code c div 64, 128 + code c mod 64])"

definition utf8_encode :: "string \<Rightarrow> nat list" where
  "utf8_encode s = concat (map utf8_char s)"

fun utf8_decode :: "nat list \<Rightarrow> string option" where
  "utf8_decode [] = Some []"
| "utf8_decode (b # bs) =
     (if b < 128 then map_option (\<lambda>s. char_of b # s) (utf8_decode bs)
      else case bs of
        b' # bs' \<Rightarrow> if (b = 194 \<or> b = 195) \<and> 128 \<le> b' \<and> b' < 192
          then map_option (\<lambda>s. char_of ((b - 192) * 64 + (b' - 128)) # s) (utf8_decode bs') else None
      | [] \<Rightarrow> None)"

subsection \<open>Cursors\<close>

datatype sort_value = SVNum int | SVStr string

fun sort_value_json :: "sort_value \<Rightarrow> json" where
  "sort_value_json (SVNum n) = JNum n"
| "sort_value_json (SVStr s) = JStr s"

text \<open>\<open>cp_v\<close> is any JSON value: the decoder only checks that it is present.\<close>

record cursor_payload =
  cp_v :: json
  cp_id :: string

definition invalid_cursor :: thrown where
  "invalid_cursor = AppErr (ValidationError (detailed (coded ''INVALID_CURSOR''
     ''The cursor query parameter is not valid.'') (Some ''cursor'') ''invalid''))"

definition decode_cursor :: "string option \<Rightarrow> thrown + cursor_payload option" where
  "decode_cursor cursor = (case cursor of
     None \<Rightarrow> Inr None
   | Some c \<Rightarrow>
       if c = [] then Inr None
       else case Option.bind (utf8_decode (b64url_decode c)) json_parse of
         None \<Rightarrow> Inl invalid_cursor
       | Some decoded \<Rightarrow>
           (case (json_field decoded ''id'', json_field decoded ''v'') of
              (Some (JStr i), Some v) \<Rightarrow> Inr (Some \<lparr> cp_v = v, cp_id = i \<rparr>)
            | _ \<Rightarrow> Inl invalid_cursor))"

definition encode_cursor :: "sort_value \<Rightarrow> string \<Rightarrow> string" where
  "encode_cursor value i = b64url_encode (utf8_encode (json_stringify
     (JObj [(''v'', sort_value_json value), (''id'', JStr i)])))"

lemma pad_to_six: "(l + (6 - l mod 6) mod 6) mod 6 = (0::nat)"
proof -
  have "l + (6 - l mod 6) = 6 * (l div 6) + 6"
    using mod_less_divisor [of 6 l] mult_div_mod_eq [of 6 l] by linarith
  then have "(l + (6 - l mod 6)) mod 6 = 0" by simp
  then show ?thesis by (simp add: mod_simps)
qed

lemma bits_value_snoc: "bits_value (bs @ [b]) = 2 * bits_value bs + of_bool b"
  by (simp add: bits_value_def)

lemma length_bits_of [simp]: "length (bits_of w n) = w"
  by (induction w arbitrary: n) simp_all

lemma bits_value_of: "n < 2 ^ w \<Longrightarrow> bits_value (bits_of w n) = n"
proof (induction w arbitrary: n)
  case (Suc w)
  then have "bits_value (bits_of w (n div 2)) = n div 2" by simp
  then show ?case by (simp add: bits_value_snoc)
qed (simp add: bits_value_def)

lemma bits_of_value: "bits_of (length bs) (bits_value bs) = bs"
  by (induction bs rule: rev_induct) (simp_all add: bits_value_snoc)

lemma bits_value_lt: "bits_value bs < 2 ^ length bs"
proof (induction bs rule: rev_induct)
  case (snoc b bs)
  then show ?case by (cases b) (simp_all add: bits_value_snoc)
qed (simp add: bits_value_def)

lemma chunks_concat:
  "0 < k \<Longrightarrow> (\<And>x. x \<in> set xss \<Longrightarrow> length x = k) \<Longrightarrow> length r < k \<Longrightarrow> chunks k (concat xss @ r) = xss"
proof (induction xss)
  case (Cons x xss)
  then have "chunks k (concat xss @ r) = xss" "length x = k" by auto
  then show ?case using Cons.prems(1) by (simp add: chunks.simps [of k "x @ concat xss @ r"])
qed (simp add: chunks.simps)

lemma chunks_length: "x \<in> set (chunks k xs) \<Longrightarrow> length x = k"
proof (induction k xs rule: chunks.induct)
  case (1 k xs)
  then show ?case by (auto simp: chunks.simps [of k xs] split: if_splits)
qed

lemma concat_chunks: "0 < k \<Longrightarrow> length xs mod k = 0 \<Longrightarrow> concat (chunks k xs) = xs"
proof (induction k xs rule: chunks.induct)
  case (1 k xs)
  show ?case
  proof (cases "length xs < k")
    case False
    then have "(length xs - k) mod k = 0" using 1(3) by (simp add: le_mod_geq)
    then show ?thesis using 1 False by (simp add: chunks.simps [of k xs])
  qed (use 1 in \<open>simp add: chunks.simps [of k "[]"] chunks.simps [of k xs]\<close>)
qed

lemma b64_index_char: "n < 64 \<Longrightarrow> b64_index (b64_char n) = Some n"
proof -
  assume "n < 64"
  then consider "n < 26" | "26 \<le> n" "n < 52" | "52 \<le> n" "n < 62" | "n = 62" | "n = 63" by linarith
  then show ?thesis
  proof cases
    case 3
    then have "code (char_of (n - 4)) = n - 4" "48 \<le> n - 4" "n - 4 \<le> 57" by simp_all
    then show ?thesis using 3
      by (simp add: b64_char_def b64_index_def is_ascii_upper_def is_ascii_lower_def is_digit_def)
  qed (simp_all add: b64_char_def b64_index_def is_ascii_upper_def is_ascii_lower_def is_digit_def code_def)
qed

lemma b64url_roundtrip: "\<forall>b \<in> set bytes. b < 256 \<Longrightarrow> b64url_decode (b64url_encode bytes) = bytes"
proof -
  assume bytes: "\<forall>b \<in> set bytes. b < 256"
  define bs where "bs = concat (map (bits_of 8) bytes)"
  define pad where "pad = replicate ((6 - length bs mod 6) mod 6) False"
  have len: "length (bs @ pad) mod 6 = 0" unfolding pad_def length_append length_replicate by (rule pad_to_six)
  have pad6: "length pad < 8" by (simp add: pad_def)
  have enc: "b64url_encode bytes = map (\<lambda>ch. b64_char (bits_value ch)) (chunks 6 (bs @ pad))"
    by (simp add: b64url_encode_def bs_def pad_def Let_def)
  have idx: "b64_index (b64_char (bits_value ch)) = Some (bits_value ch)" "bits_of 6 (bits_value ch) = ch"
    if "ch \<in> set (chunks 6 (bs @ pad))" for ch
    using chunks_length [OF that] bits_value_lt [of ch] bits_of_value [of ch] b64_index_char by simp_all
  have "List.map_filter b64_index (b64url_encode bytes) = map bits_value (chunks 6 (bs @ pad))"
    unfolding enc using idx(1) by (induction "chunks 6 (bs @ pad)") (simp_all add: List.map_filter_simps map_filter_def)
  then have "concat (map (bits_of 6) (List.map_filter b64_index (b64url_encode bytes))) = concat (chunks 6 (bs @ pad))"
    using idx(2) by (simp cong: map_cong)
  also have "\<dots> = bs @ pad" using concat_chunks [OF _ len] by simp
  finally have "b64url_decode (b64url_encode bytes) = map bits_value (chunks 8 (bs @ pad))"
    by (simp add: b64url_decode_def)
  also have "chunks 8 (bs @ pad) = map (bits_of 8) bytes"
    unfolding bs_def by (rule chunks_concat) (use pad6 in auto)
  finally show ?thesis using bytes bits_value_of [of _ 8] by (simp add: map_idI)
qed

lemma utf8_roundtrip: "utf8_decode (utf8_encode s) = Some s"
proof (induction s)
  case (Cons c s)
  have "2 \<le> code c div 64" "code c div 64 < 4" if "128 \<le> code c"
    using that code_lt [of c] by auto
  then have "128 \<le> code c \<Longrightarrow> code c div 64 = 2 \<or> code c div 64 = 3" by linarith
  then show ?case using Cons mult_div_mod_eq [of 64 "code c"]
    by (auto simp: utf8_encode_def utf8_char_def)
qed (simp add: utf8_encode_def)

lemma utf8_bytes: "b \<in> set (utf8_encode s) \<Longrightarrow> b < 256"
proof -
  have "b < 256" if "b \<in> set (utf8_char c)" for c
    using that code_lt [of c] by (auto simp: utf8_char_def split: if_splits)
  then show "b \<in> set (utf8_encode s) \<Longrightarrow> b < 256" by (auto simp: utf8_encode_def)
qed

lemma encode_cursor_nonempty: "encode_cursor v i \<noteq> []"
proof
  assume "encode_cursor v i = []"
  then have "b64url_decode (encode_cursor v i) = []"
    by (simp add: b64url_decode_def chunks.simps map_filter_def)
  then have "utf8_encode (json_stringify (JObj [(''v'', sort_value_json v), (''id'', JStr i)])) = []"
    using b64url_roundtrip utf8_bytes by (metis encode_cursor_def)
  then show False by (simp add: utf8_encode_def utf8_char_def split: if_splits)
qed

theorem cursor_roundtrip:
  "decode_cursor (Some (encode_cursor v i)) = Inr (Some \<lparr> cp_v = sort_value_json v, cp_id = i \<rparr>)"
proof -
  let ?j = "JObj [(''v'', sort_value_json v), (''id'', JStr i)]"
  have wf: "wf_json ?j" by (cases v) simp_all
  have "b64url_decode (encode_cursor v i) = utf8_encode (json_stringify ?j)"
    unfolding encode_cursor_def using b64url_roundtrip utf8_bytes by blast
  then have "Option.bind (utf8_decode (b64url_decode (encode_cursor v i))) json_parse = Some ?j"
    by (simp add: utf8_roundtrip json_parse_print [OF wf] del: json_stringify.simps)
  then show ?thesis using encode_cursor_nonempty [of v i] by (simp add: decode_cursor_def)
qed

subsection \<open>The page limit\<close>

text \<open>
  \<open>Number(raw)\<close>: white space trimmed, the empty string is zero, hexadecimal, octal and binary
  integers, a decimal with an optional sign, fraction and exponent, as a rational \<open>m / 10 ^ d\<close> with
  integer \<open>m\<close>.  \<open>None\<close> stands for \<open>NaN\<close> and the infinities.
\<close>

fun radix_value :: "nat \<Rightarrow> nat \<Rightarrow> string \<Rightarrow> nat option" where
  "radix_value r acc [] = Some acc"
| "radix_value r acc (c # cs) = (case hex_value c of
     Some d \<Rightarrow> if d < r then radix_value r (acc * r + d) cs else None | None \<Rightarrow> None)"

definition js_int_digits :: "nat \<Rightarrow> string \<Rightarrow> (int \<times> nat) option" where
  "js_int_digits r ds = (if ds = [] then None else map_option (\<lambda>n. (int n, 0)) (radix_value r 0 ds))"

definition js_exponent :: "string \<Rightarrow> int option" where
  "js_exponent s = (case s of
     [] \<Rightarrow> Some 0
   | e # r \<Rightarrow>
       if e \<noteq> CHR ''e'' \<and> e \<noteq> CHR ''E'' then None
       else let (sg, ds) = (case r of
              CHR ''-'' # ds \<Rightarrow> (- 1, ds) | CHR ''+'' # ds \<Rightarrow> (1, ds) | _ \<Rightarrow> (1, r))
            in if ds \<noteq> [] \<and> list_all is_digit ds then Some (sg * int (digits_value ds)) else None)"

text \<open>A decimal literal as numerator and power of ten of the denominator.\<close>

definition js_decimal :: "string \<Rightarrow> (int \<times> nat) option" where
  "js_decimal s =
     (let (neg, body) = (case s of CHR ''-'' # r \<Rightarrow> (True, r) | CHR ''+'' # r \<Rightarrow> (False, r) | _ \<Rightarrow> (False, s));
          whole = takeWhile is_digit body; r1 = dropWhile is_digit body;
          frac = (case r1 of CHR ''.'' # r \<Rightarrow> takeWhile is_digit r | _ \<Rightarrow> []);
          r2 = (case r1 of CHR ''.'' # r \<Rightarrow> dropWhile is_digit r | _ \<Rightarrow> r1)
      in if whole = [] \<and> frac = [] then None
         else case js_exponent r2 of
           None \<Rightarrow> None
         | Some e \<Rightarrow>
             let m = (if neg then - 1 else 1) * int (digits_value (whole @ frac));
                 d = int (length frac) - e
             in Some (if 0 \<le> d then (m, nat d) else (m * 10 ^ nat (- d), 0)))"

definition js_number :: "string \<Rightarrow> (int \<times> nat) option" where
  "js_number raw = (let s = trim raw in
     if s = [] then Some (0, 0)
     else case s of
       CHR ''0'' # x # ds \<Rightarrow>
         if x = CHR ''x'' \<or> x = CHR ''X'' then js_int_digits 16 ds
         else if x = CHR ''o'' \<or> x = CHR ''O'' then js_int_digits 8 ds
         else if x = CHR ''b'' \<or> x = CHR ''B'' then js_int_digits 2 ds
         else js_decimal s
     | _ \<Rightarrow> js_decimal s)"

text \<open>\<open>Number.isInteger\<close> of such a number, with its value.\<close>

definition js_integer :: "(int \<times> nat) option \<Rightarrow> int option" where
  "js_integer v = (case v of Some (m, d) \<Rightarrow> if m mod 10 ^ d = 0 then Some (m div 10 ^ d) else None | None \<Rightarrow> None)"

definition DEFAULT_PAGE_LIMIT :: nat where "DEFAULT_PAGE_LIMIT = 25"
definition MAX_PAGE_LIMIT :: nat where "MAX_PAGE_LIMIT = 100"

definition parse_limit :: "string option \<Rightarrow> thrown + nat" where
  "parse_limit raw = (case raw of
     None \<Rightarrow> Inr DEFAULT_PAGE_LIMIT
   | Some r \<Rightarrow>
       let bad = Inl (AppErr (ValidationError (detailed (coded ''VALIDATION_FAILED''
             (''limit must be an integer between 1 and '' @ show_nat MAX_PAGE_LIMIT @ ''.''))
             (Some ''limit'') ''out_of_range'')))
       in case js_integer (js_number r) of
            None \<Rightarrow> bad
          | Some v \<Rightarrow> if v < 1 \<or> v > int MAX_PAGE_LIMIT then bad else Inr (nat v))"

lemma parse_limit_bounds: "parse_limit raw = Inr n \<Longrightarrow> 1 \<le> n \<and> n \<le> MAX_PAGE_LIMIT"
  by (auto simp: parse_limit_def DEFAULT_PAGE_LIMIT_def MAX_PAGE_LIMIT_def Let_def
      split: option.splits if_splits)

subsection \<open>Pages\<close>

record 'r cursor_page =
  pg_data :: "'r list"
  pg_limit :: nat
  pg_has_more :: bool
  pg_next_cursor :: "string option"

definition paginate :: "'r list \<Rightarrow> nat \<Rightarrow> ('r \<Rightarrow> sort_value) \<Rightarrow> ('r \<Rightarrow> string) \<Rightarrow> 'r cursor_page" where
  "paginate rows limit sort_value_of id_of =
     (let has_more = length rows > limit;
          page = (if has_more then take limit rows else rows)
      in \<lparr> pg_data = page, pg_limit = limit, pg_has_more = has_more,
           pg_next_cursor = (if has_more \<and> page \<noteq> []
             then Some (encode_cursor (sort_value_of (last page)) (id_of (last page))) else None) \<rparr>)"

lemma paginate_bounded: "length (pg_data (paginate rows limit sv i)) \<le> limit"
  by (simp add: paginate_def Let_def)

lemma paginate_prefix: "pg_data (paginate rows limit sv i) = take limit rows"
  by (simp add: paginate_def Let_def)

lemma paginate_cursor_iff: "0 < limit \<Longrightarrow> pg_next_cursor (paginate rows limit sv i) \<noteq> None \<longleftrightarrow> limit < length rows"
  by (auto simp: paginate_def Let_def)

subsection \<open>Walking a listing\<close>

text \<open>
  A client that follows \<open>next_cursor\<close> for at most \<open>fuel\<close> pages: \<open>request\<close> is the listing as a
  function of the cursor.  \<open>None\<close> when a request fails or the pages do not end.
\<close>

fun follow :: "(string option \<Rightarrow> thrown + 'd cursor_page) \<Rightarrow> nat \<Rightarrow> string option \<Rightarrow> 'd list option" where
  "follow request 0 c = None"
| "follow request (Suc fuel) c = (case request c of
     Inl _ \<Rightarrow> None
   | Inr p \<Rightarrow> (case pg_next_cursor p of
       None \<Rightarrow> Some (pg_data p)
     | Some c' \<Rightarrow> map_option (append (pg_data p)) (follow request fuel (Some c'))))"

text \<open>
  The contract of a keyset query: \<open>rows_after t b\<close> are the rows of the table \<open>t\<close> it returns for
  the boundary \<open>b\<close> (\<open>None\<close> on the first page) before \<open>take\<close>.  Resuming at a returned row gives
  the rows behind it.
\<close>

locale keyset =
  fixes table_ok :: "'t \<Rightarrow> bool" and rows_after :: "'t \<Rightarrow> 'b option \<Rightarrow> 'r list" and boundary :: "'r \<Rightarrow> 'b"
  assumes resume: "table_ok t \<Longrightarrow> rows_after t b = xs @ r # ys \<Longrightarrow> rows_after t (Some (boundary r)) = ys"
begin

text \<open>
  What a listing endpoint makes of it: a page of \<open>limit\<close> rows, with a cursor that stands for
  (\<open>stands_for\<close>) the boundary of its last row exactly when rows are left.
\<close>

definition serves ::
  "(string option \<Rightarrow> thrown + 'd cursor_page) \<Rightarrow> ('r \<Rightarrow> 'd) \<Rightarrow> nat \<Rightarrow> 't \<Rightarrow> (string option \<Rightarrow> 'b option \<Rightarrow> bool) \<Rightarrow> bool" where
  "serves request dto limit t stands_for \<longleftrightarrow> (\<forall>c b. stands_for c b \<longrightarrow>
     (\<exists>p. request c = Inr p \<and> pg_data p = map dto (take limit (rows_after t b))
        \<and> (if limit < length (rows_after t b)
           then \<exists>c'. pg_next_cursor p = Some c' \<and> stands_for (Some c') (Some (boundary (last (take limit (rows_after t b)))))
           else pg_next_cursor p = None)))"

lemma after_page:
  assumes "table_ok t" "0 < limit" "limit < length (rows_after t b)"
  shows "rows_after t (Some (boundary (last (take limit (rows_after t b))))) = drop limit (rows_after t b)"
proof -
  let ?page = "take limit (rows_after t b)"
  have "?page \<noteq> []" using assms by auto
  then have "rows_after t b = butlast ?page @ last ?page # drop limit (rows_after t b)"
    by (metis append_butlast_last_id append_Cons append_Nil append_assoc append_take_drop_id)
  then show ?thesis by (rule resume [OF assms(1)])
qed

text \<open>The walk returns every row once, in the order of the listing.\<close>

lemma follow_complete:
  assumes "table_ok t" "0 < limit" "serves request dto limit t stands_for"
    and "stands_for c b" "length (rows_after t b) < fuel"
  shows "follow request fuel c = Some (map dto (rows_after t b))"
  using assms(4,5)
proof (induction fuel arbitrary: c b)
  case (Suc fuel)
  obtain p where p: "request c = Inr p" "pg_data p = map dto (take limit (rows_after t b))"
    "if limit < length (rows_after t b)
     then \<exists>c'. pg_next_cursor p = Some c' \<and> stands_for (Some c') (Some (boundary (last (take limit (rows_after t b)))))
     else pg_next_cursor p = None"
    using assms(3) Suc.prems(1) unfolding serves_def by meson
  show ?case
  proof (cases "limit < length (rows_after t b)")
    case False
    then show ?thesis using p by simp
  next
    case True
    then obtain c' where c': "pg_next_cursor p = Some c'"
      "stands_for (Some c') (Some (boundary (last (take limit (rows_after t b)))))" using p(3) by auto
    note rest = after_page [OF assms(1,2) True]
    have "follow request fuel (Some c') = Some (map dto (drop limit (rows_after t b)))"
      using Suc.IH [OF c'(2)] Suc.prems(2) assms(2) True by (simp add: rest)
    then show ?thesis using p c'(1) by (simp flip: map_append)
  qed
qed simp

end

text \<open>
  Keeping the rows strictly beyond a row of a sorted listing leaves its tail: the step a keyset
  query makes, for ascending and for descending order.
\<close>

lemma strictly_after:
  fixes f :: "'r \<Rightarrow> 'k :: linorder"
  assumes "sorted (map f (xs @ r # ys))" "distinct (map f (xs @ r # ys))"
  shows "filter (\<lambda>x. f r < f x) (xs @ r # ys) = ys"
proof -
  have "\<forall>x \<in> set xs. \<not> f r < f x" "\<forall>y \<in> set ys. f r < f y"
    using assms by (auto simp: sorted_append image_iff less_le)
  then show ?thesis by (simp add: filter_empty_conv filter_id_conv)
qed

lemma strictly_before:
  fixes f :: "'r \<Rightarrow> 'k :: linorder"
  assumes "sorted (map f (rev (xs @ r # ys)))" "distinct (map f (xs @ r # ys))"
  shows "filter (\<lambda>x. f x < f r) (xs @ r # ys) = ys"
proof -
  have "filter (\<lambda>x. f x < f r) xs = []" "filter (\<lambda>x. f x < f r) ys = ys"
    using assms by (auto simp: sorted_append image_iff less_le filter_empty_conv filter_id_conv)
  then show ?thesis by simp
qed

end
