(* ===== verification/Queue.thy ===== *)
theory Queue
  imports Complex_Main Pagination
begin

text \<open>
  The queue package (\<open>packages/queue/src\<close>): queue names, payloads and their size budget,
  full-jitter backoff, the cancellation flag, and the queue manager.  The broker (BullMQ) is the
  parameter \<open>broker\<close>: its calls on a state \<open>'q\<close>, each of which may throw.  The Redis client of
  the flag is the parameter \<open>redis_ops\<close>; the locale \<open>redis_client\<close> states the three laws of
  SET, GET and DEL that the flag relies on, and the locale \<open>flag_store\<close> the contract of the
  interface \<open>CancellationFlagStore\<close>, which they give.  A payload is JSON, as the broker and the
  column \<open>dispatch_envelope\<close> hold it.
\<close>

subsection \<open>Names\<close>

definition QUEUE_NAMES :: "string list" where
  "QUEUE_NAMES = [''parse'', ''ai'', ''gpu'', ''audio'', ''maintenance'']"

definition is_queue_name :: "string \<Rightarrow> bool" where
  "is_queue_name v \<longleftrightarrow> v \<in> set QUEUE_NAMES"

definition dlq_name :: "string \<Rightarrow> string" where
  "dlq_name name = name @ ''-dlq''"

lemma dlq_not_queue: "is_queue_name name \<Longrightarrow> \<not> is_queue_name (dlq_name name)"
  by (auto simp: is_queue_name_def QUEUE_NAMES_def dlq_name_def)

lemma dlq_name_inj: "dlq_name a = dlq_name b \<Longrightarrow> a = b"
  by (simp add: dlq_name_def)

subsection \<open>Payloads\<close>

record queue_job_envelope =
  qe_job_id :: string
  qe_entity_id :: "string option"
  qe_version_id :: "string option"
  qe_correlation_id :: string
  qe_causation_id :: "string option"
  qe_tenant_id :: string
  qe_payload :: json

definition opt_field :: "string \<Rightarrow> string option \<Rightarrow> (string \<times> json) list" where
  "opt_field k v = (case v of None \<Rightarrow> [] | Some s \<Rightarrow> [(k, JStr s)])"

definition envelope_json :: "queue_job_envelope \<Rightarrow> json" where
  "envelope_json e = JObj
     ([(''job_id'', JStr (qe_job_id e))] @ opt_field ''entity_id'' (qe_entity_id e)
      @ opt_field ''version_id'' (qe_version_id e) @ [(''correlation_id'', JStr (qe_correlation_id e))]
      @ opt_field ''causation_id'' (qe_causation_id e) @ [(''tenant_id'', JStr (qe_tenant_id e)),
        (''payload'', qe_payload e)])"

text \<open>A string property of an envelope, as the code reads it.\<close>

definition str_field :: "json \<Rightarrow> string \<Rightarrow> string option" where
  "str_field j k = (case json_field j k of Some (JStr s) \<Rightarrow> Some s | _ \<Rightarrow> None)"

lemma envelope_json_fields [simp]:
  "str_field (envelope_json e) ''job_id'' = Some (qe_job_id e)"
  "str_field (envelope_json e) ''entity_id'' = qe_entity_id e"
  "str_field (envelope_json e) ''correlation_id'' = Some (qe_correlation_id e)"
  "str_field (envelope_json e) ''tenant_id'' = Some (qe_tenant_id e)"
  "json_field (envelope_json e) ''payload'' = Some (qe_payload e)"
  by (simp_all add: envelope_json_def str_field_def opt_field_def split: option.split)

definition QUEUE_PAYLOAD_TARGET_BYTES :: nat where "QUEUE_PAYLOAD_TARGET_BYTES = 4096"
definition QUEUE_PAYLOAD_CEILING_BYTES :: nat where "QUEUE_PAYLOAD_CEILING_BYTES = 65536"

definition assert_queue_payload_size_budget :: "json \<Rightarrow> thrown + unit" where
  "assert_queue_payload_size_budget envelope =
     (let size_bytes = length (utf8_encode (json_stringify envelope))
      in if size_bytes > QUEUE_PAYLOAD_CEILING_BYTES
         then Inl (OtherErr (''Queue job payload is '' @ show_nat size_bytes @ '' bytes, exceeding the ''
           @ show_nat QUEUE_PAYLOAD_CEILING_BYTES @ ''-byte ceiling. Queue payloads must carry identifiers only (job_id, entity_id, version_id, correlation_id) - never full book/IR/binary content.''))
         else Inr ())"

subsection \<open>Backoff\<close>

text \<open>\<open>r\<close> is the value of \<open>Math.random()\<close>.\<close>

definition full_jitter_backoff_ms :: "rat \<Rightarrow> int \<Rightarrow> int \<Rightarrow> int \<Rightarrow> int" where
  "full_jitter_backoff_ms r attempt base_ms ceiling_ms =
     (let exponential = min (base_ms * 2 ^ nat (max (attempt - 1) 0)) ceiling_ms
      in \<lfloor>r * rat_of_int exponential\<rfloor>)"

definition bullmq_full_jitter_backoff :: "int \<Rightarrow> int \<Rightarrow> rat \<Rightarrow> int \<Rightarrow> int" where
  "bullmq_full_jitter_backoff base_ms ceiling_ms r attempts_made =
     full_jitter_backoff_ms r attempts_made base_ms ceiling_ms"

lemma full_jitter_bounds:
  assumes "0 \<le> r" "r < 1" "0 < base_ms" "0 < ceiling_ms"
  shows "0 \<le> full_jitter_backoff_ms r attempt base_ms ceiling_ms
    \<and> full_jitter_backoff_ms r attempt base_ms ceiling_ms < min (base_ms * 2 ^ nat (max (attempt - 1) 0)) ceiling_ms"
proof -
  define x where "x = min (base_ms * 2 ^ nat (max (attempt - 1) 0)) ceiling_ms"
  have pos: "0 < x" using assms by (simp add: x_def)
  then have "r * rat_of_int x < rat_of_int x" "0 \<le> r * rat_of_int x" using assms by simp_all
  then have "\<lfloor>r * rat_of_int x\<rfloor> < x" "0 \<le> \<lfloor>r * rat_of_int x\<rfloor>" by (simp_all add: floor_less_iff)
  then show ?thesis by (simp add: full_jitter_backoff_ms_def x_def Let_def)
qed

subsection \<open>The cancellation flag\<close>

definition cancellation_flag_key :: "string \<Rightarrow> string \<Rightarrow> string" where
  "cancellation_flag_key t j = ''job:cancel:'' @ t @ '':'' @ j"

definition CANCELLATION_FLAG_TTL_SECONDS :: nat where
  "CANCELLATION_FLAG_TTL_SECONDS = 24 * 60 * 60"

lemma split_at_unique: "x \<notin> set xs \<Longrightarrow> x \<notin> set ys \<Longrightarrow> xs @ x # us = ys @ x # vs \<Longrightarrow> xs = ys \<and> us = vs"
  by (induction xs arbitrary: ys) (case_tac ys; auto)+

lemma cancellation_flag_key_inj:
  assumes "CHR '':'' \<notin> set t" "CHR '':'' \<notin> set t'" "cancellation_flag_key t j = cancellation_flag_key t' j'"
  shows "t = t' \<and> j = j'"
  using assms split_at_unique [of "CHR '':''" t t' j j'] by (simp add: cancellation_flag_key_def)

record 'r redis_ops =
  redis_set_ex :: "string \<Rightarrow> string \<Rightarrow> nat \<Rightarrow> 'r \<Rightarrow> (thrown + unit) \<times> 'r"
  redis_get :: "string \<Rightarrow> 'r \<Rightarrow> thrown + string option"
  redis_del :: "string \<Rightarrow> 'r \<Rightarrow> (thrown + unit) \<times> 'r"

definition flags_set :: "'r redis_ops \<Rightarrow> string \<Rightarrow> string \<Rightarrow> 'r \<Rightarrow> (thrown + unit) \<times> 'r" where
  "flags_set redis t j = redis_set_ex redis (cancellation_flag_key t j) ''1'' CANCELLATION_FLAG_TTL_SECONDS"

definition flags_is_set :: "'r redis_ops \<Rightarrow> string \<Rightarrow> string \<Rightarrow> 'r \<Rightarrow> thrown + bool" where
  "flags_is_set redis t j r = bindE (redis_get redis (cancellation_flag_key t j) r) (\<lambda>v. Inr (v \<noteq> None))"

definition flags_clear :: "'r redis_ops \<Rightarrow> string \<Rightarrow> string \<Rightarrow> 'r \<Rightarrow> (thrown + unit) \<times> 'r" where
  "flags_clear redis t j = redis_del redis (cancellation_flag_key t j)"

text \<open>
  The check at a unit boundary.  \<open>flag\<close> is the flag store's answer (\<open>None\<close>: no store is
  configured), \<open>durable\<close> the database column.
\<close>

definition is_cancellation_requested :: "(thrown + bool) option \<Rightarrow> thrown + bool \<Rightarrow> thrown + bool" where
  "is_cancellation_requested flag durable = (case flag of
     Some (Inr True) \<Rightarrow> Inr True
   | Some (Inr False) \<Rightarrow> Inr False
   | Some (Inl _) \<Rightarrow> durable
   | None \<Rightarrow> durable)"

lemma is_cancellation_requested_simps [simp]:
  "is_cancellation_requested (Some (Inr b)) d = Inr b"
  "is_cancellation_requested (Some (Inl e)) d = d"
  "is_cancellation_requested None d = d"
  by (simp_all add: is_cancellation_requested_def split: bool.split)

text \<open>
  Redis while it answers and before the flag's lifetime is over: a key that was set reads back,
  a deleted one does not, and no other key changes.
\<close>

locale redis_client =
  fixes redis :: "'r redis_ops"
  assumes get_set: "redis_get redis k (snd (redis_set_ex redis k' v ttl r))
            = (if k = k' then Inr (Some v) else redis_get redis k r)"
    and get_del: "redis_get redis k (snd (redis_del redis k' r)) = (if k = k' then Inr None else redis_get redis k r)"

locale flag_store =
  fixes fset :: "string \<Rightarrow> string \<Rightarrow> 'r \<Rightarrow> (thrown + unit) \<times> 'r"
    and is_set :: "string \<Rightarrow> string \<Rightarrow> 'r \<Rightarrow> thrown + bool"
    and clear :: "string \<Rightarrow> string \<Rightarrow> 'r \<Rightarrow> (thrown + unit) \<times> 'r"
  assumes set_is_set: "is_set t j (snd (fset t j r)) = Inr True"
    and clear_is_set: "is_set t j (snd (clear t j r)) = Inr False"
    and set_other: "CHR '':'' \<notin> set t \<Longrightarrow> CHR '':'' \<notin> set t' \<Longrightarrow> (t, j) \<noteq> (t', j')
      \<Longrightarrow> is_set t j (snd (fset t' j' r)) = is_set t j r"
begin

definition set_all :: "(string \<times> string) list \<Rightarrow> 'r \<Rightarrow> 'r" where
  "set_all tjs r = fold (\<lambda>(t, j) r. snd (fset t j r)) tjs r"

lemma set_all_is_set:
  assumes "\<forall>(t, j) \<in> set tjs. CHR '':'' \<notin> set t" "CHR '':'' \<notin> set t"
  shows "is_set t j (set_all tjs r) = (if (t, j) \<in> set tjs then Inr True else is_set t j r)"
  using assms(1)
proof (induction tjs rule: rev_induct)
  case (snoc x xs)
  obtain t' j' where x: "x = (t', j')" by force
  show ?case
  proof (cases "(t, j) = (t', j')")
    case True
    then show ?thesis using x set_is_set by (simp add: set_all_def)
  next
    case False
    then have "is_set t j (snd (fset t' j' (set_all xs r))) = is_set t j (set_all xs r)"
      using snoc.prems x assms(2) by (intro set_other) auto
    then show ?thesis using snoc x False by (auto simp: set_all_def)
  qed
qed (simp add: set_all_def)

end

sublocale redis_client \<subseteq> flags: flag_store "flags_set redis" "flags_is_set redis" "flags_clear redis"
proof unfold_locales
  fix t t' j j' r
  show "flags_is_set redis t j (snd (flags_set redis t j r)) = Inr True"
    by (simp add: flags_is_set_def flags_set_def get_set)
  show "flags_is_set redis t j (snd (flags_clear redis t j r)) = Inr False"
    by (simp add: flags_is_set_def flags_clear_def get_del)
  assume "CHR '':'' \<notin> set t" "CHR '':'' \<notin> set t'" "(t, j) \<noteq> (t', j')"
  then have "cancellation_flag_key t j \<noteq> cancellation_flag_key t' j'"
    using cancellation_flag_key_inj by blast
  then show "flags_is_set redis t j (snd (flags_set redis t' j' r)) = flags_is_set redis t j r"
    by (simp add: flags_is_set_def flags_set_def get_set)
qed

text \<open>An instance of the client's laws: a map from keys to values.\<close>

definition map_redis :: "(string \<Rightarrow> string option) redis_ops" where
  "map_redis = \<lparr> redis_set_ex = (\<lambda>k v ttl m. (Inr (), m(k := Some v))), redis_get = (\<lambda>k m. Inr (m k)),
     redis_del = (\<lambda>k m. (Inr (), m(k := None))) \<rparr>"

interpretation map_client: redis_client map_redis
  by unfold_locales (simp_all add: map_redis_def)

subsection \<open>The queue manager\<close>

record enqueue_options =
  eo_job_name :: string
  eo_max_attempts :: nat
  eo_priority :: "nat option"

text \<open>The arguments of \<open>queue.add\<close>; \<open>remove_on_complete_age\<close> and the backoff type are constants of the call.\<close>

record broker_job =
  bj_name :: string
  bj_data :: json
  bj_id :: string
  bj_attempts :: "nat option"
  bj_priority :: "nat option"
  bj_custom_backoff :: bool
  bj_complete_age :: "nat option"

record 'q broker =
  bq_add :: "string \<Rightarrow> broker_job \<Rightarrow> 'q \<Rightarrow> (thrown + unit) \<times> 'q"
  bq_get :: "string \<Rightarrow> string \<Rightarrow> 'q \<Rightarrow> thrown + bool"
  bq_remove :: "string \<Rightarrow> string \<Rightarrow> 'q \<Rightarrow> (thrown + unit) \<times> 'q"

text \<open>\<open>envelope.job_id\<close>; every envelope has one, and BullMQ receives the text it holds.\<close>

definition envelope_job_id :: "json \<Rightarrow> string" where
  "envelope_job_id envelope = (case str_field envelope ''job_id'' of Some i \<Rightarrow> i | None \<Rightarrow> [])"

definition enqueue :: "'q broker \<Rightarrow> string \<Rightarrow> json \<Rightarrow> enqueue_options \<Rightarrow> 'q \<Rightarrow> (thrown + unit) \<times> 'q" where
  "enqueue bq name envelope options q = (case assert_queue_payload_size_budget envelope of
     Inl e \<Rightarrow> (Inl e, q)
   | Inr _ \<Rightarrow> bq_add bq name
       \<lparr> bj_name = eo_job_name options, bj_data = envelope, bj_id = envelope_job_id envelope,
         bj_attempts = Some (eo_max_attempts options), bj_priority = eo_priority options,
         bj_custom_backoff = True, bj_complete_age = Some (24 * 60 * 60) \<rparr> q)"

definition remove_queued_job :: "'q broker \<Rightarrow> string \<Rightarrow> string \<Rightarrow> 'q \<Rightarrow> (thrown + bool) \<times> 'q" where
  "remove_queued_job bq name job_id q = (case bq_get bq name job_id q of
     Inl e \<Rightarrow> (Inl e, q)
   | Inr False \<Rightarrow> (Inr False, q)
   | Inr True \<Rightarrow> (case bq_remove bq name job_id q of
       (Inr _, q') \<Rightarrow> (Inr True, q') | (Inl _, q') \<Rightarrow> (Inr False, q')))"

text \<open>
  The \<open>failed\<close> listener of a worker: \<open>job\<close> is the broker's job with its attempt count, and the
  spread of its data is followed by the two diagnostic fields.
\<close>

record failed_job =
  fj_job :: broker_job
  fj_attempts_made :: nat

definition set_field :: "string \<Rightarrow> json \<Rightarrow> (string \<times> json) list \<Rightarrow> (string \<times> json) list" where
  "set_field k v es = (if k \<in> fst ` set es then map (\<lambda>e. if fst e = k then (k, v) else e) es else es @ [(k, v)])"

fun spread_with :: "json \<Rightarrow> (string \<times> json) list \<Rightarrow> json" where
  "spread_with (JObj es) upds = JObj (fold (\<lambda>(k, v). set_field k v) upds es)"
| "spread_with _ upds = JObj upds"

lemma map_of_replace:
  "map_of (map (\<lambda>e. if fst e = k then (k, v) else e) es) k'
     = (if k' = k then (if k \<in> fst ` set es then Some v else None) else map_of es k')"
proof (induction es)
  case (Cons e es)
  then show ?case by (cases e; cases "k' = k"; cases "k \<in> fst ` set es") simp_all
qed simp

lemma map_of_set_field: "map_of (set_field k v es) k' = (if k' = k then Some v else map_of es k')"
proof (cases "k \<in> fst ` set es")
  case True
  then show ?thesis using map_of_replace [of k v es k'] by (simp add: set_field_def)
next
  case False
  then have "map_of es k = None" by (simp add: map_of_eq_None_iff)
  then show ?thesis using False by (auto simp: set_field_def map_add_def split: option.split)
qed

definition is_final_attempt :: "nat \<Rightarrow> failed_job \<Rightarrow> bool" where
  "is_final_attempt worker_max_attempts fj \<longleftrightarrow> fj_attempts_made fj \<ge>
     (case bj_attempts (fj_job fj) of Some n \<Rightarrow> n | None \<Rightarrow> worker_max_attempts)"

definition on_failed ::
  "'q broker \<Rightarrow> string \<Rightarrow> nat \<Rightarrow> string \<Rightarrow> failed_job option \<Rightarrow> string \<Rightarrow> 'q \<Rightarrow> 'q" where
  "on_failed bq name worker_max_attempts now_iso job error_message q = (case job of
     None \<Rightarrow> q
   | Some fj \<Rightarrow>
       if \<not> is_final_attempt worker_max_attempts fj then q
       else snd (bq_add bq (dlq_name name)
         \<lparr> bj_name = bj_name (fj_job fj),
           bj_data = spread_with (bj_data (fj_job fj))
             [(''dead_lettered_at'', JStr now_iso), (''last_error'', JStr error_message)],
           bj_id = bj_id (fj_job fj), bj_attempts = None, bj_priority = None,
           bj_custom_backoff = False, bj_complete_age = None \<rparr> q))"

lemma enqueue_too_large:
  "length (utf8_encode (json_stringify envelope)) > QUEUE_PAYLOAD_CEILING_BYTES \<Longrightarrow>
   \<exists>e. enqueue bq name envelope options q = (Inl e, q)"
  by (simp add: enqueue_def assert_queue_payload_size_budget_def)

text \<open>Bounds on the size of a payload, and the budget they give.\<close>

lemma length_utf8_encode: "length (utf8_encode s) \<le> 2 * length s"
  by (induction s) (simp_all add: utf8_encode_def utf8_char_def)

lemma length_stringify_str: "length (stringify_str s) \<le> 6 * length s + 2"
proof -
  have "length (concat (map escape_char s)) \<le> 6 * length s"
    by (induction s) (simp_all add: escape_char_def)
  then show ?thesis by (simp add: stringify_str_def)
qed

lemma budget_ok: "2 * length (json_stringify e) \<le> QUEUE_PAYLOAD_CEILING_BYTES \<Longrightarrow> assert_queue_payload_size_budget e = Inr ()"
  using length_utf8_encode [of "json_stringify e"] by (simp add: assert_queue_payload_size_budget_def)

text \<open>The data of a dead letter still holds every field of the original.\<close>

lemma spread_with_keeps:
  "k \<notin> fst ` set upds \<Longrightarrow> json_field (spread_with (JObj es) upds) k = map_of es k"
proof (induction upds arbitrary: es)
  case (Cons f upds)
  obtain k' v where f: "f = (k', v)" by force
  then show ?case using Cons.IH [of "set_field k' v es"] Cons.prems by (simp add: map_of_set_field)
qed simp

end
