(* ===== verification/Outbox.thy ===== *)
theory Outbox
  imports Json Errors
begin

text \<open>
  The transactional outbox and the inbox (\<open>packages/events/src/outbox.ts\<close>,
  \<open>outbox-publisher.ts\<close>, \<open>inbox.ts\<close>) and the message envelopes (\<open>envelope.ts\<close>).  A
  publisher's poll selects pending rows, skipping those another publisher has locked, and publishes
  each; the transport is the parameter \<open>publish\<close> on a state \<open>'e\<close> of its own, and it may throw.
\<close>

subsection \<open>Writing a message\<close>

record outbox_draft =
  od_event_type :: string
  od_schema_version :: string
  od_tenant_id :: string
  od_book_id :: "string option"
  od_job_id :: "string option"
  od_correlation_id :: string
  od_causation_id :: string
  od_traceparent :: "string option"
  od_producer :: string
  od_producer_version :: string
  od_payload :: json
  od_aggregate_type :: string
  od_aggregate_id :: string

datatype outbox_status = PENDING | PUBLISHED

record outbox_row =
  ob_id :: string
  ob_event_id :: string
  ob_draft :: outbox_draft
  ob_occurred_at :: int
  ob_created_at :: int
  ob_status :: outbox_status
  ob_attempts :: nat
  ob_published_at :: "int option"
  ob_last_error :: "string option"

definition write_outbox_message ::
  "string \<Rightarrow> string \<Rightarrow> int \<Rightarrow> outbox_draft \<Rightarrow> outbox_row list \<Rightarrow> (string \<times> string) \<times> outbox_row list" where
  "write_outbox_message i event_id now draft t =
     ((i, event_id), insert_row
       \<lparr> ob_id = i, ob_event_id = event_id, ob_draft = draft, ob_occurred_at = now, ob_created_at = now,
         ob_status = PENDING, ob_attempts = 0, ob_published_at = None, ob_last_error = None \<rparr> t)"

definition outbox_add :: "string \<Rightarrow> string \<Rightarrow> int \<Rightarrow> outbox_draft \<Rightarrow> outbox_row list \<Rightarrow> outbox_row list" where
  "outbox_add i event_id now draft t = snd (write_outbox_message i event_id now draft t)"

lemma set_outbox_add: "ob_draft ` set (outbox_add i e now d t) = insert d (ob_draft ` set t)"
  by (simp add: outbox_add_def write_outbox_message_def)

subsection \<open>The publisher\<close>

text \<open>\<open>ORDER BY aggregate_type, aggregate_id, created_at\<close>\<close>

definition outbox_order :: "outbox_row \<Rightarrow> string \<times> string \<times> int" where
  "outbox_order r = (od_aggregate_type (ob_draft r), od_aggregate_id (ob_draft r), ob_created_at r)"

definition lex3_le :: "string \<times> string \<times> int \<Rightarrow> string \<times> string \<times> int \<Rightarrow> bool" where
  "lex3_le a b \<longleftrightarrow> (case (a, b) of ((a1, a2, a3), (b1, b2, b3)) \<Rightarrow>
     a1 < b1 \<or> (a1 = b1 \<and> (a2 < b2 \<or> (a2 = b2 \<and> a3 \<le> b3))))"

fun insert_by :: "('a \<Rightarrow> 'a \<Rightarrow> bool) \<Rightarrow> 'a \<Rightarrow> 'a list \<Rightarrow> 'a list" where
  "insert_by le x [] = [x]"
| "insert_by le x (y # ys) = (if le x y then x # y # ys else y # insert_by le x ys)"

definition sort_by :: "('a \<Rightarrow> 'a \<Rightarrow> bool) \<Rightarrow> 'a list \<Rightarrow> 'a list" where
  "sort_by le xs = foldr (insert_by le) xs []"

lemma mset_insert_by [simp]: "mset (insert_by le x xs) = add_mset x (mset xs)"
  by (induction xs) auto

lemma mset_sort_by [simp]: "mset (sort_by le xs) = mset xs"
  by (induction xs) (simp_all add: sort_by_def)

lemma set_sort_by [simp]: "set (sort_by le xs) = set xs"
  by (metis mset_sort_by set_mset_mset)

lemma distinct_sort_by [simp]: "distinct (map f (sort_by le xs)) = distinct (map f xs)"
  by (metis mset_sort_by mset_map mset_eq_imp_distinct_iff)

definition claim_rows :: "string set \<Rightarrow> nat \<Rightarrow> outbox_row list \<Rightarrow> outbox_row list" where
  "claim_rows locked batch_size t = take batch_size (sort_by (\<lambda>a b. lex3_le (outbox_order a) (outbox_order b))
     (filter (\<lambda>r. ob_status r = PENDING \<and> ob_id r \<notin> locked) t))"

definition mark_published :: "int \<Rightarrow> outbox_row \<Rightarrow> outbox_row" where
  "mark_published now r = r\<lparr> ob_status := PUBLISHED, ob_published_at := Some now, ob_attempts := Suc (ob_attempts r) \<rparr>"

text \<open>\<open>String(err)\<close>\<close>

fun show_thrown :: "thrown \<Rightarrow> string" where
  "show_thrown (AppErr e) = ''AppError: '' @ err_message e"
| "show_thrown (CodedErr c m) = ''Error: '' @ m"
| "show_thrown (HttpErr n) = ''HttpException'' @ show_nat n"
| "show_thrown (OtherErr m) = ''Error: '' @ m"

definition mark_attempted :: "thrown \<Rightarrow> outbox_row \<Rightarrow> outbox_row" where
  "mark_attempted err r = r\<lparr> ob_attempts := Suc (ob_attempts r), ob_last_error := Some (show_thrown err) \<rparr>"

fun publish_rows ::
  "(outbox_row \<Rightarrow> 'e \<Rightarrow> (thrown + unit) \<times> 'e) \<Rightarrow> int \<Rightarrow> outbox_row list \<Rightarrow> 'e \<times> outbox_row list
     \<Rightarrow> 'e \<times> outbox_row list" where
  "publish_rows publish now [] et = et"
| "publish_rows publish now (row # rows) (e, t) =
     (case publish row e of
        (Inr _, e') \<Rightarrow> publish_rows publish now rows (e', update_where (\<lambda>r. ob_id r = ob_id row) (mark_published now) t)
      | (Inl err, e') \<Rightarrow> publish_rows publish now rows (e', update_where (\<lambda>r. ob_id r = ob_id row) (mark_attempted err) t))"

definition outbox_poll_once ::
  "(outbox_row \<Rightarrow> 'e \<Rightarrow> (thrown + unit) \<times> 'e) \<Rightarrow> string set \<Rightarrow> nat \<Rightarrow> int \<Rightarrow> 'e \<times> outbox_row list
     \<Rightarrow> nat \<times> 'e \<times> outbox_row list" where
  "outbox_poll_once publish locked batch_size now et =
     (let rows = claim_rows locked batch_size (snd et)
      in (length rows, publish_rows publish now rows et))"

subsection \<open>Laws of a poll\<close>

interpretation published_row: keyed_update ob_id "mark_published now" for now
  by unfold_locales (simp add: mark_published_def)
interpretation attempted_row: keyed_update ob_id "mark_attempted err" for err
  by unfold_locales (simp add: mark_attempted_def)

text \<open>The calls of a poll with their outcomes, in order.\<close>

fun publish_calls ::
  "(outbox_row \<Rightarrow> 'e \<Rightarrow> (thrown + unit) \<times> 'e) \<Rightarrow> outbox_row list \<Rightarrow> 'e \<Rightarrow> (outbox_row \<times> (thrown + unit)) list" where
  "publish_calls publish [] e = []"
| "publish_calls publish (row # rows) e =
     (case publish row e of (res, e') \<Rightarrow> (row, res) # publish_calls publish rows e')"

lemma publish_calls_rows [simp]: "map fst (publish_calls publish rows e) = rows"
  by (induction rows arbitrary: e) (simp_all split: prod.split)

definition settle_row :: "int \<Rightarrow> (thrown + unit) \<Rightarrow> outbox_row \<Rightarrow> outbox_row" where
  "settle_row now res r = (case res of Inr _ \<Rightarrow> mark_published now r | Inl err \<Rightarrow> mark_attempted err r)"

lemma settle_row_id [simp]: "ob_id (settle_row now res r) = ob_id r"
  by (simp add: settle_row_def mark_published_def mark_attempted_def split: sum.split)

lemma publish_rows_table:
  assumes "distinct (map ob_id rows)"
  shows "snd (publish_rows publish now rows (e, t)) = map (\<lambda>r.
      case map_of (map (\<lambda>(q, res). (ob_id q, res)) (publish_calls publish rows e)) (ob_id r) of
        None \<Rightarrow> r | Some res \<Rightarrow> settle_row now res r) t"
  using assms
proof (induction rows arbitrary: e t)
  case (Cons row rows)
  obtain res e' where p: "publish row e = (res, e')" by (cases "publish row e")
  let ?later = "map (\<lambda>(q, res). (ob_id q, res)) (publish_calls publish rows e')"
  have notin: "map_of ?later (ob_id row) = None"
  proof -
    have "fst ` set ?later = ob_id ` set (map fst (publish_calls publish rows e'))"
      by (simp add: image_image split_beta del: publish_calls_rows)
    also have "\<dots> = ob_id ` set rows" by (simp only: publish_calls_rows)
    finally have "fst ` set ?later = ob_id ` set rows" .
    then show ?thesis using Cons.prems unfolding map_of_eq_None_iff by simp
  qed
  have "publish_rows publish now (row # rows) (e, t)
      = publish_rows publish now rows (e', update_where (\<lambda>r. ob_id r = ob_id row) (settle_row now res) t)"
    using p by (cases res) (simp_all add: settle_row_def [abs_def])
  then show ?case using Cons p notin by (simp add: update_where_def)
qed simp

lemma claim_rows_pending: "r \<in> set (claim_rows locked n t) \<Longrightarrow> r \<in> set t \<and> ob_status r = PENDING \<and> ob_id r \<notin> locked"
  using set_take_subset by (fastforce simp: claim_rows_def)

lemma claim_rows_distinct: "distinct (map ob_id t) \<Longrightarrow> distinct (map ob_id (claim_rows locked n t))"
  by (simp add: claim_rows_def distinct_map_filter flip: take_map)

subsection \<open>The inbox\<close>

record inbox_row =
  ib_consumer :: string
  ib_event_id :: string
  ib_processed_at :: int

datatype inbox_outcome = PROCESSED | SKIPPED

text \<open>
  Inside a transaction on the pair of the consumer's state and the inbox.  The primary key
  violation of the insert is the only error that is caught.
\<close>

definition with_inbox ::
  "string \<Rightarrow> string \<Rightarrow> int \<Rightarrow> ('w \<Rightarrow> (thrown + 'a) \<times> 'w) \<Rightarrow> 'w \<times> inbox_row list
     \<Rightarrow> (thrown + inbox_outcome \<times> 'a option) \<times> ('w \<times> inbox_row list)" where
  "with_inbox consumer event_id now handler wt = (case wt of (w, t) \<Rightarrow>
     if find_row (\<lambda>r. ib_consumer r = consumer \<and> ib_event_id r = event_id) t \<noteq> None
     then (Inr (SKIPPED, None), (w, t))
     else let t' = insert_row \<lparr> ib_consumer = consumer, ib_event_id = event_id, ib_processed_at = now \<rparr> t
          in case handler w of
               (Inl e, w') \<Rightarrow> (Inl e, (w', t'))
             | (Inr x, w') \<Rightarrow> (Inr (PROCESSED, Some x), (w', t')))"

definition deliver ::
  "string \<Rightarrow> string \<Rightarrow> int \<Rightarrow> ('w \<Rightarrow> (thrown + 'a) \<times> 'w) \<Rightarrow> 'w \<times> inbox_row list
     \<Rightarrow> (thrown + inbox_outcome \<times> 'a option) \<times> ('w \<times> inbox_row list)" where
  "deliver consumer event_id now handler = with_transaction (with_inbox consumer event_id now handler)"

definition has_been_processed :: "string \<Rightarrow> string \<Rightarrow> inbox_row list \<Rightarrow> bool" where
  "has_been_processed consumer event_id t \<longleftrightarrow>
     find_row (\<lambda>r. ib_consumer r = consumer \<and> ib_event_id r = event_id) t \<noteq> None"

fun redeliver ::
  "string \<Rightarrow> string \<Rightarrow> int list \<Rightarrow> ('w \<Rightarrow> (thrown + 'a) \<times> 'w) \<Rightarrow> 'w \<times> inbox_row list \<Rightarrow> 'w \<times> inbox_row list" where
  "redeliver c i [] handler wt = wt"
| "redeliver c i (now # rest) handler wt = redeliver c i rest handler (snd (deliver c i now handler wt))"

lemma deliver_skips: "has_been_processed c i t \<Longrightarrow> snd (deliver c i now handler (w, t)) = (w, t)"
  by (simp add: deliver_def with_transaction_def with_inbox_def has_been_processed_def)

lemma redeliver_processed: "has_been_processed c i t \<Longrightarrow> redeliver c i nows handler (w, t) = (w, t)"
  by (induction nows) (simp_all add: deliver_skips)

lemma deliver_fails:
  "\<not> has_been_processed c i t \<Longrightarrow> handler w = (Inl e, w') \<Longrightarrow> snd (deliver c i now handler (w, t)) = (w, t)"
  by (simp add: deliver_def with_transaction_def with_inbox_def has_been_processed_def)

lemma deliver_succeeds:
  "\<not> has_been_processed c i t \<Longrightarrow> handler w = (Inr x, w') \<Longrightarrow>
   \<exists>t'. snd (deliver c i now handler (w, t)) = (w', t') \<and> has_been_processed c i t'"
  by (simp add: deliver_def with_transaction_def with_inbox_def has_been_processed_def insert_row_def
      find_row_append split: option.split)

subsection \<open>Envelopes\<close>

record command_envelope =
  ce_message_id :: string
  ce_message_type :: string
  ce_schema_version :: string
  ce_enqueued_at :: int
  ce_correlation_id :: string
  ce_causation_id :: string
  ce_tenant_id :: string
  ce_book_id :: "string option"
  ce_book_version_id :: "string option"
  ce_job_id :: string
  ce_attempt :: nat
  ce_lease_fence :: nat
  ce_idempotency_key :: string
  ce_priority :: string
  ce_producer :: string
  ce_producer_version :: string
  ce_traceparent :: "string option"
  ce_payload :: json

definition next_attempt_envelope :: "string \<Rightarrow> int \<Rightarrow> command_envelope \<Rightarrow> nat \<Rightarrow> command_envelope" where
  "next_attempt_envelope new_id now previous lease_fence = previous
     \<lparr> ce_message_id := new_id, ce_enqueued_at := now,
       ce_attempt := ce_attempt previous + 1, ce_lease_fence := lease_fence \<rparr>"

end
