(* ===== verification/JsDate.thy ===== *)
theory JsDate
  imports JsonParse
begin

text \<open>
  Time values of the language: milliseconds since 1970-01-01 UTC as integers, the proleptic
  Gregorian calendar as the language specification computes it (day of a year, year of a day),
  \<open>Date.prototype.toISOString\<close> and the parsing of the format it prints.  What the date
  constructor makes of any other text is implementation-defined; it is the parameter
  \<open>other_date\<close> of the parser.
\<close>

subsection \<open>The calendar\<close>

definition day_from_year :: "int \<Rightarrow> int" where
  "day_from_year y = 365 * (y - 1970) + (y - 1969) div 4 - (y - 1901) div 100 + (y - 1601) div 400"

definition year_from_day :: "int \<Rightarrow> int" where
  "year_from_day d =
     (let y = 1970 + (d * 400) div 146097
      in if day_from_year (y + 1) \<le> d then y + 1 else if d < day_from_year y then y - 1 else y)"

definition is_leap :: "int \<Rightarrow> bool" where
  "is_leap y \<longleftrightarrow> (y mod 4 = 0 \<and> y mod 100 \<noteq> 0) \<or> y mod 400 = 0"

text \<open>The first day of each month within its year, and its length.\<close>

definition month_start :: "bool \<Rightarrow> nat \<Rightarrow> int" where
  "month_start leap m = [0, 31, 59, 90, 120, 151, 181, 212, 243, 273, 304, 334] ! (m - 1)
     + (if leap \<and> m > 2 then 1 else 0)"

definition month_length :: "bool \<Rightarrow> nat \<Rightarrow> int" where
  "month_length leap m = [31, 28, 31, 30, 31, 30, 31, 31, 30, 31, 30, 31] ! (m - 1)
     + (if leap \<and> m = 2 then 1 else 0)"

definition month_from_doy :: "bool \<Rightarrow> int \<Rightarrow> nat" where
  "month_from_doy leap doy = length (filter (\<lambda>m. month_start leap m \<le> doy) [1..<13])"

definition make_day :: "int \<Rightarrow> nat \<Rightarrow> int \<Rightarrow> int" where
  "make_day y m d = day_from_year y + month_start (is_leap y) m + d - 1"

definition civil_from_day :: "int \<Rightarrow> int \<times> nat \<times> int" where
  "civil_from_day d =
     (let y = year_from_day d; doy = d - day_from_year y; m = month_from_doy (is_leap y) doy
      in (y, m, doy - month_start (is_leap y) m + 1))"

lemma div_bounds: "0 < (n :: int) \<Longrightarrow> x div n * n \<le> x \<and> x < x div n * n + n"
  by (metis add.commute add_less_cancel_left div_mult_mod_eq le_add_same_cancel1 pos_mod_bound pos_mod_sign)

lemma div_step: "1 < (n :: int) \<Longrightarrow> (x + 1) div n = x div n + (if (x + 1) mod n = 0 then 1 else 0)"
proof -
  assume n: "1 < n"
  define q where "q = x div n"
  define r where "r = x mod n"
  have r: "0 \<le> r" "r < n" "x = q * n + r" using n by (simp_all add: q_def r_def)
  show ?thesis
  proof (cases "r + 1 = n")
    case True
    then have "x + 1 = (q + 1) * n" using r(3) by (simp add: distrib_right)
    then have "(x + 1) div n = q + 1" "(x + 1) mod n = 0" using n by simp_all
    then show ?thesis by (simp add: q_def)
  next
    case False
    then have small: "r + 1 < n" using r by simp
    have eq: "x + 1 = q * n + (r + 1)" using r(3) by simp
    have "(x + 1) div n = q" unfolding eq using n r(1) small by (simp add: div_mult_self3 div_pos_pos_trivial)
    moreover have "(x + 1) mod n = r + 1" unfolding eq using n r(1) small by (simp add: mod_mult_self3 mod_pos_pos_trivial)
    ultimately show ?thesis using r(1) by (simp add: q_def)
  qed
qed

lemma mod_shift: "(y - c * n) mod n = y mod (n :: int)"
  using mod_mult_self1 [of y "- c" n] by simp

lemma year_length: "day_from_year (y + 1) - day_from_year y = (if is_leap y then 366 else 365)"
proof -
  have "(y - 1968) div 4 = (y - 1969) div 4 + (if y mod 4 = 0 then 1 else 0)"
    using div_step [of 4 "y - 1969"] mod_shift [of y 492 4] by simp
  moreover have "(y - 1900) div 100 = (y - 1901) div 100 + (if y mod 100 = 0 then 1 else 0)"
    using div_step [of 100 "y - 1901"] mod_shift [of y 19 100] by simp
  moreover have "(y - 1600) div 400 = (y - 1601) div 400 + (if y mod 400 = 0 then 1 else 0)"
    using div_step [of 400 "y - 1601"] mod_shift [of y 4 400] by simp
  moreover have "y mod 400 = 0 \<Longrightarrow> y mod 100 = 0" "y mod 100 = 0 \<Longrightarrow> y mod 4 = 0"
    using mod_mod_cancel [of 100 400 y] mod_mod_cancel [of 4 100 y] by simp_all
  moreover define A B C where "A = (y - 1969) div 4" and "B = (y - 1901) div 100" and "C = (y - 1601) div 400"
  moreover have "day_from_year (y + 1) = 365 * (y - 1969) + (y - 1968) div 4 - (y - 1900) div 100 + (y - 1600) div 400"
    "day_from_year y = 365 * (y - 1970) + A - B + C"
    unfolding A_def B_def C_def day_from_year_def by (simp_all only: diff_add_eq [symmetric] add.commute) simp_all
  ultimately have "day_from_year (y + 1) = 365 * (y - 1969) + (A + (if y mod 4 = 0 then 1 else 0))
      - (B + (if y mod 100 = 0 then 1 else 0)) + (C + (if y mod 400 = 0 then 1 else 0))"
    "day_from_year y = 365 * (y - 1970) + A - B + C" "y mod 400 = 0 \<Longrightarrow> y mod 100 = 0" "y mod 100 = 0 \<Longrightarrow> y mod 4 = 0"
    by metis+
  then show ?thesis unfolding is_leap_def
    by (cases "y mod 4 = 0"; cases "y mod 100 = 0"; cases "y mod 400 = 0") simp_all
qed

lemma year_from_day_bounds: "day_from_year (year_from_day d) \<le> d \<and> d < day_from_year (year_from_day d + 1)"
proof -
  define k where "k = (d * 400) div 146097"
  have k: "k * 146097 \<le> d * 400" "d * 400 < k * 146097 + 146097"
    using div_bounds [of 146097 "d * 400"] by (simp_all add: k_def)
  have low: "day_from_year (1970 + k - 1) \<le> d"
    using k div_bounds [of 4 "1970 + k - 1 - 1969"] div_bounds [of 100 "1970 + k - 1 - 1901"]
      div_bounds [of 400 "1970 + k - 1 - 1601"] by (simp add: day_from_year_def)
  have high: "d < day_from_year (1970 + k + 2)"
    using k div_bounds [of 4 "1970 + k + 2 - 1969"] div_bounds [of 100 "1970 + k + 2 - 1901"]
      div_bounds [of 400 "1970 + k + 2 - 1601"] by (simp add: day_from_year_def)
  show ?thesis using low high by (auto simp: year_from_day_def Let_def add.assoc simp flip: k_def)
qed

lemma month_from_doy_bounds:
  assumes "0 \<le> doy" "doy < (if leap then 366 else 365)"
  shows "1 \<le> month_from_doy leap doy \<and> month_from_doy leap doy \<le> 12
    \<and> month_start leap (month_from_doy leap doy) \<le> doy
    \<and> doy < month_start leap (month_from_doy leap doy) + month_length leap (month_from_doy leap doy)"
proof -
  let ?l = "if leap then 1 else (0 :: int)"
  consider "doy < 31" | "31 \<le> doy" "doy < 59 + ?l" | "59 + ?l \<le> doy" "doy < 90 + ?l"
    | "90 + ?l \<le> doy" "doy < 120 + ?l" | "120 + ?l \<le> doy" "doy < 151 + ?l" | "151 + ?l \<le> doy" "doy < 181 + ?l"
    | "181 + ?l \<le> doy" "doy < 212 + ?l" | "212 + ?l \<le> doy" "doy < 243 + ?l" | "243 + ?l \<le> doy" "doy < 273 + ?l"
    | "273 + ?l \<le> doy" "doy < 304 + ?l" | "304 + ?l \<le> doy" "doy < 334 + ?l" | "334 + ?l \<le> doy"
    by linarith
  then show ?thesis
    using assms
    by cases (cases leap; simp add: month_from_doy_def month_start_def month_length_def upt_rec numeral_nat)+
qed

lemma civil_from_day:
  assumes "civil_from_day n = (y, m, d)"
  shows "make_day y m d = n" "1 \<le> m" "m \<le> 12" "1 \<le> d" "d \<le> month_length (is_leap y) m"
proof -
  define doy where "doy = n - day_from_year (year_from_day n)"
  have doy: "0 \<le> doy" "doy < (if is_leap (year_from_day n) then 366 else 365)"
    using year_from_day_bounds [of n] year_length [of "year_from_day n"] by (simp_all add: doy_def)
  have eqs: "y = year_from_day n" "m = month_from_doy (is_leap y) doy" "d = doy - month_start (is_leap y) m + 1"
    using assms by (auto simp: civil_from_day_def doy_def Let_def)
  show "make_day y m d = n" using eqs by (simp add: make_day_def doy_def)
  show "1 \<le> m" "m \<le> 12" "1 \<le> d" "d \<le> month_length (is_leap y) m"
    using month_from_doy_bounds [OF doy] eqs by simp_all
qed

lemma month_length_le: "1 \<le> m \<Longrightarrow> m \<le> 12 \<Longrightarrow> month_length leap m \<le> 31"
proof -
  assume "1 \<le> m" "m \<le> 12"
  moreover have "list_all (\<lambda>m. month_length leap m \<le> 31) [1..<13]"
    by (simp add: month_length_def upt_rec numeral_nat)
  ultimately show ?thesis by (auto simp: list_all_iff)
qed

subsection \<open>The ISO format\<close>

fun pad :: "nat \<Rightarrow> nat \<Rightarrow> string" where
  "pad 0 k = []"
| "pad (Suc n) k = pad n (k div 10) @ [digit_char (k mod 10)]"

definition ms_per_day :: int where "ms_per_day = 86400000"

definition year_text :: "int \<Rightarrow> string" where
  "year_text y = (if 0 \<le> y \<and> y \<le> 9999 then pad 4 (nat y)
     else (if y < 0 then ''-'' else ''+'') @ pad 6 (nat \<bar>y\<bar>))"

definition to_iso :: "int \<Rightarrow> string" where
  "to_iso t = (case civil_from_day (t div ms_per_day) of (y, m, d) \<Rightarrow>
     let ms = nat (t mod ms_per_day)
     in year_text y @ ''-'' @ pad 2 m @ ''-'' @ pad 2 (nat d) @ ''T''
        @ pad 2 (ms div 3600000) @ '':'' @ pad 2 (ms div 60000 mod 60) @ '':''
        @ pad 2 (ms div 1000 mod 60) @ ''.'' @ pad 3 (ms mod 1000) @ ''Z'')"

definition scan_num :: "nat \<Rightarrow> string \<Rightarrow> (nat \<times> string) option" where
  "scan_num n s = (if n \<le> length s \<and> list_all is_digit (take n s)
     then Some (digits_value (take n s), drop n s) else None)"

definition scan_char :: "char \<Rightarrow> string \<Rightarrow> string option" where
  "scan_char c s = (case s of x # r \<Rightarrow> if x = c then Some r else None | [] \<Rightarrow> None)"

text \<open>The fields of a text in the printed format.\<close>

definition scan_iso :: "string \<Rightarrow> (nat \<times> nat \<times> nat \<times> nat \<times> nat \<times> nat \<times> nat) option" where
  "scan_iso s =
     Option.bind (scan_num 4 s) (\<lambda>(y, s). Option.bind (scan_char CHR ''-'' s) (\<lambda>s.
     Option.bind (scan_num 2 s) (\<lambda>(m, s). Option.bind (scan_char CHR ''-'' s) (\<lambda>s.
     Option.bind (scan_num 2 s) (\<lambda>(d, s). Option.bind (scan_char CHR ''T'' s) (\<lambda>s.
     Option.bind (scan_num 2 s) (\<lambda>(h, s). Option.bind (scan_char CHR '':'' s) (\<lambda>s.
     Option.bind (scan_num 2 s) (\<lambda>(mi, s). Option.bind (scan_char CHR '':'' s) (\<lambda>s.
     Option.bind (scan_num 2 s) (\<lambda>(sec, s). Option.bind (scan_char CHR ''.'' s) (\<lambda>s.
     Option.bind (scan_num 3 s) (\<lambda>(ms, s). if s = ''Z'' then Some (y, m, d, h, mi, sec, ms) else None)))))))))))))"

text \<open>\<open>new Date(text)\<close>; \<open>None\<close> is the invalid date.\<close>

definition parse_date :: "(string \<Rightarrow> int option) \<Rightarrow> string \<Rightarrow> int option" where
  "parse_date other_date s = (case scan_iso s of
     Some (y, m, d, h, mi, sec, ms) \<Rightarrow>
       if 1 \<le> m \<and> m \<le> 12 \<and> 1 \<le> d \<and> int d \<le> month_length (is_leap (int y)) m \<and> h < 24 \<and> mi < 60 \<and> sec < 60
       then Some (make_day (int y) m (int d) * ms_per_day + int (((h * 60 + mi) * 60 + sec) * 1000 + ms))
       else other_date s
   | None \<Rightarrow> other_date s)"

lemma length_pad [simp]: "length (pad n k) = n"
  by (induction n arbitrary: k) simp_all

lemma pad_digits: "list_all is_digit (pad n k)"
  by (induction n arbitrary: k) (simp_all add: is_digit_def)

lemma digits_value_pad: "k < 10 ^ n \<Longrightarrow> digits_value (pad n k) = k"
proof (induction n arbitrary: k)
  case (Suc n)
  then have "k div 10 < 10 ^ n" by (simp add: div_less_iff_less_mult mult.commute)
  then show ?case using Suc.IH by (simp add: digits_value_snoc)
qed (simp add: digits_value_def)

lemma scan_num_pad: "k < 10 ^ n \<Longrightarrow> scan_num n (pad n k @ s) = Some (k, s)"
  by (simp add: scan_num_def pad_digits digits_value_pad)

lemma scan_char_same: "scan_char c (c # s) = Some s"
  by (simp add: scan_char_def)

lemma scan_iso_fields:
  assumes "y < 10000" "m < 100" "d < 100" "h < 100" "mi < 100" "sec < 100" "ms < 1000"
  shows "scan_iso (pad 4 y @ ''-'' @ pad 2 m @ ''-'' @ pad 2 d @ ''T'' @ pad 2 h @ '':'' @ pad 2 mi @ '':''
    @ pad 2 sec @ ''.'' @ pad 3 ms @ ''Z'') = Some (y, m, d, h, mi, sec, ms)"
  using assms by (simp add: scan_iso_def scan_num_pad scan_char_same del: pad.simps)

definition iso_range :: "int \<Rightarrow> bool" where
  "iso_range t \<longleftrightarrow> 0 \<le> year_from_day (t div ms_per_day) \<and> year_from_day (t div ms_per_day) \<le> 9999"

lemma ms_split: "((ms div 3600000 * 60 + ms div 60000 mod 60) * 60 + ms div 1000 mod 60) * 1000 + ms mod 1000 = (ms :: nat)"
proof -
  have "ms div 60000 div 60 = ms div 3600000" "ms div 1000 div 60 = ms div 60000" by (simp_all flip: div_mult2_eq)
  then show ?thesis
    using div_mult_mod_eq [of "ms div 60000" 60] div_mult_mod_eq [of "ms div 1000" 60] div_mult_mod_eq [of ms 1000]
    by simp
qed

lemma parse_date_iso:
  assumes "iso_range t"
  shows "parse_date other_date (to_iso t) = Some t"
proof -
  obtain y m d where c: "civil_from_day (t div ms_per_day) = (y, m, d)" by (cases "civil_from_day (t div ms_per_day)")
  note cal = civil_from_day [OF c]
  define ms where "ms = nat (t mod ms_per_day)"
  have y: "0 \<le> y" "y \<le> 9999" using assms c by (auto simp: iso_range_def civil_from_day_def Let_def)
  have ms: "ms < 86400000" "int ms = t mod ms_per_day" by (simp_all add: ms_def ms_per_day_def nat_less_iff)
  have d31: "d \<le> 31" using cal month_length_le by (meson order_trans)
  have "to_iso t = pad 4 (nat y) @ ''-'' @ pad 2 m @ ''-'' @ pad 2 (nat d) @ ''T'' @ pad 2 (ms div 3600000) @ '':''
      @ pad 2 (ms div 60000 mod 60) @ '':'' @ pad 2 (ms div 1000 mod 60) @ ''.'' @ pad 3 (ms mod 1000) @ ''Z''"
    using y by (simp add: to_iso_def c year_text_def ms_def Let_def del: pad.simps)
  moreover have "ms div 3600000 < 24" using ms(1) by (simp add: div_less_iff_less_mult)
  ultimately have "scan_iso (to_iso t) = Some (nat y, m, nat d, ms div 3600000, ms div 60000 mod 60, ms div 1000 mod 60, ms mod 1000)"
    using y cal d31 scan_iso_fields [of "nat y" m "nat d" "ms div 3600000"] by simp
  moreover have "1 \<le> nat d" "int (nat d) = d" "int (nat y) = y" using cal y by simp_all
  ultimately have "parse_date other_date (to_iso t) = Some (make_day y m d * ms_per_day + int ms)"
    using cal \<open>ms div 3600000 < 24\<close> unfolding parse_date_def
    by (simp only: option.case prod.case if_True simp_thms ms_split mod_less_divisor zero_less_numeral)
  then show ?thesis using ms(2) cal(1) by simp
qed

text \<open>1970 to 9999: every time the services record.\<close>

lemma iso_range_epoch: "iso_range 0"
  by (simp add: iso_range_def ms_per_day_def year_from_day_def day_from_year_def)

end
