(* ===== verification/JobStore.thy ===== *)
theory JobStore
  imports Queue Outbox JsDate "HOL-Library.Product_Lexorder"
begin

text \<open>
  The table \<open>processing_job\<close> as the services and the worker use it: the row (its columns in
  groups), the closed vocabularies of \<open>jobs.service.ts\<close>, the update by id, and the dispatch of
  \<open>packages/queue/src/dispatch.ts\<close>.  Timestamps are milliseconds; a nullable timestamp column
  sorts with its nulls last, as PostgreSQL does, which the type \<open>pg_time\<close> states as a linear
  order.  The base record \<open>job_db\<close> holds the tables every operation on jobs touches; the API and
  the worker extend it with the rest of their world.
\<close>

subsection \<open>Vocabularies\<close>

datatype job_status = CREATED | QUEUED | RUNNING | RETRYING | BLOCKED | SUCCEEDED | FAILED | CANCELLED | DEAD_LETTERED

definition all_job_statuses :: "job_status list" where
  "all_job_statuses = [CREATED, QUEUED, RUNNING, RETRYING, BLOCKED, SUCCEEDED, FAILED, CANCELLED, DEAD_LETTERED]"

fun show_status :: "job_status \<Rightarrow> string" where
  "show_status CREATED = ''CREATED''"
| "show_status QUEUED = ''QUEUED''"
| "show_status RUNNING = ''RUNNING''"
| "show_status RETRYING = ''RETRYING''"
| "show_status BLOCKED = ''BLOCKED''"
| "show_status SUCCEEDED = ''SUCCEEDED''"
| "show_status FAILED = ''FAILED''"
| "show_status CANCELLED = ''CANCELLED''"
| "show_status DEAD_LETTERED = ''DEAD_LETTERED''"

definition JOB_STATUSES :: "string list" where
  "JOB_STATUSES = [''CREATED'', ''QUEUED'', ''RUNNING'', ''RETRYING'', ''BLOCKED'', ''SUCCEEDED'',
     ''FAILED'', ''CANCELLED'', ''DEAD_LETTERED'']"

definition JOB_TYPES :: "string list" where
  "JOB_TYPES = [''parse_book'', ''ocr_page'', ''normalize_text'', ''analyze_structure'',
     ''analyze_scene'', ''build_story_bible_delta'', ''generate_director_ir'', ''revise_director_ir'',
     ''generate_voice_preview'', ''generate_tts_chunk'', ''validate_audio'', ''process_audio'',
     ''verify_transcript'', ''assemble_chapter'', ''assemble_audiobook'', ''encode_delivery_format'',
     ''cleanup_artifacts'']"

definition TERMINAL_JOB_STATUSES :: "job_status list" where
  "TERMINAL_JOB_STATUSES = [SUCCEEDED, FAILED, CANCELLED, DEAD_LETTERED]"

definition IMMEDIATELY_CANCELLABLE :: "job_status list" where
  "IMMEDIATELY_CANCELLABLE = [CREATED, QUEUED, BLOCKED, RETRYING]"

lemma all_job_statuses_complete: "s \<in> set all_job_statuses"
  by (cases s) (simp_all add: all_job_statuses_def)

lemma job_statuses_show: "JOB_STATUSES = map show_status all_job_statuses"
  by (simp add: JOB_STATUSES_def all_job_statuses_def)

lemma show_status_inj: "show_status a = show_status b \<Longrightarrow> a = b"
  by (cases a; cases b) simp_all

text \<open>Every status is terminal, immediately cancellable, or \<open>RUNNING\<close>, and only one of these.\<close>

lemma status_partition:
  "s \<in> set TERMINAL_JOB_STATUSES \<longleftrightarrow> s \<noteq> RUNNING \<and> s \<notin> set IMMEDIATELY_CANCELLABLE"
  by (cases s) (simp_all add: TERMINAL_JOB_STATUSES_def IMMEDIATELY_CANCELLABLE_def)

lemmas status_sets = TERMINAL_JOB_STATUSES_def IMMEDIATELY_CANCELLABLE_def

subsection \<open>Nullable timestamps\<close>

datatype pg_time = At int | NullTime

instantiation pg_time :: linorder
begin

fun less_eq_pg_time :: "pg_time \<Rightarrow> pg_time \<Rightarrow> bool" where
  "less_eq_pg_time (At a) (At b) = (a \<le> b)"
| "less_eq_pg_time (At a) NullTime = True"
| "less_eq_pg_time NullTime (At b) = False"
| "less_eq_pg_time NullTime NullTime = True"

definition less_pg_time :: "pg_time \<Rightarrow> pg_time \<Rightarrow> bool" where
  "less_pg_time a b = (a \<le> b \<and> \<not> b \<le> (a :: pg_time))"

instance
proof
  fix x y z :: pg_time
  show "x < y \<longleftrightarrow> x \<le> y \<and> \<not> y \<le> x" by (simp add: less_pg_time_def)
  show "x \<le> x" by (cases x) simp_all
  show "x \<le> z" if "x \<le> y" "y \<le> z" using that by (cases x; cases y; cases z) simp_all
  show "x = y" if "x \<le> y" "y \<le> x" using that by (cases x; cases y) simp_all
  show "x \<le> y \<or> y \<le> x" by (cases x; cases y) auto
qed

end

lemma less_pg_time_simps [simp]:
  "At a < At b \<longleftrightarrow> a < b" "At a < NullTime" "\<not> NullTime < x"
  by (auto simp: less_pg_time_def) (cases x; simp)

definition pg_time_of :: "int option \<Rightarrow> pg_time" where
  "pg_time_of t = (case t of Some n \<Rightarrow> At n | None \<Rightarrow> NullTime)"

subsection \<open>The row\<close>

record job_progress =
  jp_value :: rat
  jp_stage :: "string option"
  jp_completed_units :: nat
  jp_total_units :: "nat option"

record job_error =
  je_code :: "string option"
  je_class :: "string option"
  je_message :: "string option"
  je_retryable :: "bool option"
  je_terminal :: "bool option"

record job_result =
  jr_type :: "string option"
  jr_id :: "string option"
  jr_version :: "nat option"

record job_cancellation =
  jc_requested :: bool
  jc_requested_at :: "int option"
  jc_requested_by :: "string option"
  jc_effective_at :: "int option"

record job_times =
  jt_status_changed :: int
  jt_created :: int
  jt_queued :: "int option"
  jt_started :: "int option"
  jt_completed :: "int option"
  jt_updated :: int
  jt_heartbeat :: "int option"

record job =
  jb_id :: string
  jb_tenant_id :: string
  jb_book_id :: "string option"
  jb_type :: string
  jb_queue :: string
  jb_priority :: string
  jb_related_type :: string
  jb_related_id :: string
  jb_scope :: "json option"
  jb_envelope :: "json option"
  jb_parent :: "string option"
  jb_child_count :: nat
  jb_status :: job_status
  jb_blocked_reason :: "string option"
  jb_attempt_count :: nat
  jb_max_attempts :: nat
  jb_retry_count :: nat
  jb_next_attempt_at :: "int option"
  jb_progress :: job_progress
  jb_idem_key :: string
  jb_idem_fingerprint :: string
  jb_forced :: bool
  jb_forced_by :: "string option"
  jb_error :: job_error
  jb_result :: job_result
  jb_cancel :: job_cancellation
  jb_correlation_id :: string
  jb_causation_id :: "string option"
  jb_created_by :: "string option"
  jb_times :: job_times

definition no_error :: job_error where
  "no_error = \<lparr> je_code = None, je_class = None, je_message = None, je_retryable = None, je_terminal = None \<rparr>"

definition no_result :: job_result where
  "no_result = \<lparr> jr_type = None, jr_id = None, jr_version = None \<rparr>"

definition not_cancelled :: job_cancellation where
  "not_cancelled = \<lparr> jc_requested = False, jc_requested_at = None, jc_requested_by = None, jc_effective_at = None \<rparr>"

definition no_progress :: job_progress where
  "no_progress = \<lparr> jp_value = 0, jp_stage = None, jp_completed_units = 0, jp_total_units = None \<rparr>"

definition created_now :: "int \<Rightarrow> job_times" where
  "created_now now = \<lparr> jt_status_changed = now, jt_created = now, jt_queued = None, jt_started = None,
     jt_completed = None, jt_updated = now, jt_heartbeat = None \<rparr>"

text \<open>Every update sets \<open>updated_at\<close>.\<close>

definition touch :: "int \<Rightarrow> job \<Rightarrow> job" where
  "touch now j = j\<lparr> jb_times := (jb_times j)\<lparr> jt_updated := now \<rparr> \<rparr>"

text \<open>The status of a job with its time of change, and its end.\<close>

definition set_status :: "job_status \<Rightarrow> int \<Rightarrow> job \<Rightarrow> job" where
  "set_status s now j = j\<lparr> jb_status := s, jb_times := (jb_times j)\<lparr> jt_status_changed := now \<rparr> \<rparr>"

definition set_completed :: "int \<Rightarrow> job \<Rightarrow> job" where
  "set_completed now j = j\<lparr> jb_times := (jb_times j)\<lparr> jt_completed := Some now \<rparr> \<rparr>"

definition set_queued :: "int \<Rightarrow> job \<Rightarrow> job" where
  "set_queued now j = j\<lparr> jb_times := (jb_times j)\<lparr> jt_queued := Some now \<rparr> \<rparr>"

definition terminal_job :: "job \<Rightarrow> bool" where
  "terminal_job j \<longleftrightarrow> jb_status j \<in> set TERMINAL_JOB_STATUSES"

subsection \<open>The database\<close>

record job_db =
  db_jobs :: "job list"
  db_outbox :: "outbox_row list"

text \<open>\<open>update\<close> by id throws when no row has the id.\<close>

definition update_job :: "string \<Rightarrow> (job \<Rightarrow> job) \<Rightarrow> job list \<Rightarrow> thrown + job list" where
  "update_job i f jobs = (case find_row (\<lambda>j. jb_id j = i) jobs of
     None \<Rightarrow> Inl (CodedErr ''P2025'' ''Record to update not found.'')
   | Some _ \<Rightarrow> Inr (update_where (\<lambda>j. jb_id j = i) f jobs))"

definition find_job :: "string \<Rightarrow> job list \<Rightarrow> job option" where
  "find_job i jobs = find_row (\<lambda>j. jb_id j = i) jobs"

lemma find_job_append [table_simps]:
  "find_job i (xs @ ys) = (case find_job i xs of None \<Rightarrow> find_job i ys | Some j \<Rightarrow> Some j)"
  by (simp add: find_job_def find_row_append split: option.split)

lemma find_job_Some: "find_job i jobs = Some j \<Longrightarrow> j \<in> set jobs \<and> jb_id j = i"
  unfolding find_job_def by (drule find_row_Some) simp

lemma find_job_Cons [simp]: "find_job i (j # js) = (if jb_id j = i then Some j else find_job i js)"
  by (simp add: find_job_def)

lemma find_job_Nil [simp]: "find_job i [] = None"
  by (simp add: find_job_def)

lemma find_job_map: "(\<And>j. jb_id (f j) = jb_id j) \<Longrightarrow> find_job i (map f jobs) = map_option f (find_job i jobs)"
  by (induction jobs) simp_all

lemma update_job_Inr:
  "update_job i f jobs = Inr jobs' \<longleftrightarrow> find_job i jobs \<noteq> None \<and> jobs' = update_where (\<lambda>j. jb_id j = i) f jobs"
  by (auto simp: update_job_def find_job_def split: option.splits)

lemma update_job_total: "find_job i jobs = Some j \<Longrightarrow> update_job i f jobs = Inr (update_where (\<lambda>j. jb_id j = i) f jobs)"
  by (simp add: update_job_def find_job_def)

interpretation touched: keyed_update jb_id "touch now" for now
  by unfold_locales (simp add: touch_def)

lemma job_setters_id [simp]:
  "jb_id (touch now j) = jb_id j" "jb_id (set_status s now j) = jb_id j"
  "jb_id (set_completed now j) = jb_id j" "jb_id (set_queued now j) = jb_id j"
  by (simp_all add: touch_def set_status_def set_completed_def set_queued_def)

lemma job_setters_status [simp]:
  "jb_status (touch now j) = jb_status j" "jb_status (set_status s now j) = s"
  "jb_status (set_completed now j) = jb_status j" "jb_status (set_queued now j) = jb_status j"
  by (simp_all add: touch_def set_status_def set_completed_def set_queued_def)

lemma job_setters_cancel [simp]:
  "jb_cancel (touch now j) = jb_cancel j" "jb_cancel (set_status s now j) = jb_cancel j"
  "jb_cancel (set_completed now j) = jb_cancel j" "jb_cancel (set_queued now j) = jb_cancel j"
  by (simp_all add: touch_def set_status_def set_completed_def set_queued_def)

lemma job_setters_misc [simp]:
  "jb_tenant_id (touch now j) = jb_tenant_id j" "jb_tenant_id (set_status s now j) = jb_tenant_id j"
  "jb_tenant_id (set_completed now j) = jb_tenant_id j" "jb_tenant_id (set_queued now j) = jb_tenant_id j"
  "jb_parent (touch now j) = jb_parent j" "jb_parent (set_status s now j) = jb_parent j"
  "jb_parent (set_completed now j) = jb_parent j" "jb_parent (set_queued now j) = jb_parent j"
  by (simp_all add: touch_def set_status_def set_completed_def set_queued_def)

lemma job_setters_times [simp]:
  "jt_completed (jb_times (touch now j)) = jt_completed (jb_times j)"
  "jt_completed (jb_times (set_status s now j)) = jt_completed (jb_times j)"
  "jt_completed (jb_times (set_completed now j)) = Some now"
  "jt_completed (jb_times (set_queued now j)) = jt_completed (jb_times j)"
  "jt_queued (jb_times (touch now j)) = jt_queued (jb_times j)"
  "jt_queued (jb_times (set_queued now j)) = Some now"
  by (simp_all add: touch_def set_status_def set_completed_def set_queued_def)

subsection \<open>Dispatch\<close>

record enqueue_args =
  ea_processing_job_id :: string
  ea_queue :: string
  ea_envelope :: json
  ea_job_name :: string
  ea_max_attempts :: nat
  ea_priority :: "nat option"

text \<open>Enqueue, then mark: on an exception of the broker the row is as it was.\<close>

definition enqueue_processing_job ::
  "'q broker \<Rightarrow> int \<Rightarrow> enqueue_args \<Rightarrow> job list \<times> 'q \<Rightarrow> (thrown + unit) \<times> (job list \<times> 'q)" where
  "enqueue_processing_job bq now args jq = (case jq of (jobs, q) \<Rightarrow>
     (case enqueue bq (ea_queue args) (ea_envelope args)
        \<lparr> eo_job_name = ea_job_name args, eo_max_attempts = ea_max_attempts args, eo_priority = ea_priority args \<rparr> q of
        (Inl e, q') \<Rightarrow> (Inl e, (jobs, q'))
      | (Inr _, q') \<Rightarrow>
          (case update_job (ea_processing_job_id args) (touch now \<circ> set_queued now) jobs of
             Inl e \<Rightarrow> (Inl e, (jobs, q'))
           | Inr jobs' \<Rightarrow> (Inr (), (jobs', q')))))"

lemma enqueue_processing_job_marks:
  assumes "enqueue_processing_job bq now args (jobs, q) = (Inr u, (jobs', q'))" "find_job (ea_processing_job_id args) jobs' = Some j"
  shows "jt_queued (jb_times j) = Some now"
proof -
  have "jobs' = update_where (\<lambda>j. jb_id j = ea_processing_job_id args) (touch now \<circ> set_queued now) jobs"
    using assms(1) by (auto simp: enqueue_processing_job_def update_job_Inr split: prod.splits sum.splits)
  then have "j \<in> set (update_where (\<lambda>j. jb_id j = ea_processing_job_id args) (touch now \<circ> set_queued now) jobs)"
    "jb_id j = ea_processing_job_id args" using find_job_Some [OF assms(2)] by simp_all
  then show ?thesis by (auto simp: set_update_where)
qed

lemma enqueue_processing_job_fails:
  assumes "enqueue_processing_job bq now args (jobs, q) = (Inl e, (jobs', q'))"
  shows "jobs' = jobs"
  using assms by (auto simp: enqueue_processing_job_def split: prod.splits sum.splits)

end
