(* ===== verification/Normalize.thy ===== *)
theory Normalize
  imports Complex_Main JsText
begin

text \<open>
  Text normalisation and page-noise detection of the ingestion package
  (\<open>normalize/normalize.ts\<close>, \<open>normalize/noise-detection.ts\<close>).  Each regular expression
  replacement is a recursive function on the characters.  On characters up to U+00FF the Unicode
  composition of the first step is the identity.  What the laws show: normalising twice is
  normalising once, and no character other than white space, hyphens and soft hyphens is added,
  lost or reordered.
\<close>

subsection \<open>Replacements\<close>

definition SOFT_HYPHEN :: char where "SOFT_HYPHEN = CHR 0xAD"
definition newline :: char where "newline = CHR 0x0A"
definition carriage_return :: char where "carriage_return = CHR 0x0D"
definition tab :: char where "tab = CHR 0x09"
definition space :: char where "space = CHR '' ''"
definition hyphen :: char where "hyphen = CHR ''-''"

lemmas special_chars = SOFT_HYPHEN_def newline_def carriage_return_def tab_def space_def hyphen_def

text \<open>\<open>replace(/\r\n/g, '\n')\<close>\<close>

fun replace_crlf :: "string \<Rightarrow> string" where
  "replace_crlf (c # d # s) = (if c = carriage_return \<and> d = newline then newline # replace_crlf s
     else c # replace_crlf (d # s))"
| "replace_crlf s = s"

text \<open>\<open>replace(/[..]+/g, r)\<close>: every maximal run of a class becomes one character.\<close>

fun squeeze :: "(char \<Rightarrow> bool) \<Rightarrow> char \<Rightarrow> string \<Rightarrow> string" where
  "squeeze cls r [] = []"
| "squeeze cls r (c # s) =
     (if \<not> cls c then c # squeeze cls r s
      else if s \<noteq> [] \<and> cls (hd s) then squeeze cls r s
      else r # squeeze cls r s)"

definition LOWERCASE_WORD :: "char \<Rightarrow> bool" where
  "LOWERCASE_WORD c \<longleftrightarrow> is_ascii_lower c"

text \<open>
  \<open>/(\p{L}+)-\n(\p{L}+)/gu\<close>: matches do not overlap, so the letters after a match cannot open the
  next one.
\<close>

definition hyphen_break :: "string \<Rightarrow> (string \<times> string) option" where
  "hyphen_break rest = (case rest of
     h # n # s \<Rightarrow> if h = hyphen \<and> n = newline \<and> takeWhile is_letter s \<noteq> []
       then Some (takeWhile is_letter s, dropWhile is_letter s) else None
   | _ \<Rightarrow> None)"

lemma hyphen_break_Some:
  "hyphen_break rest = Some (after, rest') \<Longrightarrow> rest = hyphen # newline # after @ rest' \<and> after \<noteq> []"
  by (auto simp: hyphen_break_def split: list.splits if_splits)

function dehyphenate :: "string \<Rightarrow> string" where
  "dehyphenate [] = []"
| "dehyphenate (c # s) =
     (if \<not> is_letter c then c # dehyphenate s
      else let word = c # takeWhile is_letter s; rest = dropWhile is_letter s
      in case hyphen_break rest of
           None \<Rightarrow> word @ dehyphenate rest
         | Some (after, rest') \<Rightarrow>
             (if LOWERCASE_WORD (last word) \<and> LOWERCASE_WORD (hd after)
              then word @ after else word @ hyphen # after) @ dehyphenate rest')"
  by pat_completeness auto

termination
proof (relation "measure length")
  fix c s x rest word after rest'
  assume "rest = dropWhile is_letter s" "hyphen_break rest = Some x" "(after, rest') = x"
  moreover have "length (dropWhile is_letter s) \<le> length s" by (rule length_dropWhile_le)
  ultimately have "length rest' < length rest" "length rest \<le> length s"
    using hyphen_break_Some [of rest after rest'] by auto
  then show "(rest', c # s) \<in> measure length" by simp
qed (simp_all add: length_dropWhile_le less_Suc_eq_le)

definition normalize_text :: "bool \<Rightarrow> string \<Rightarrow> string" where
  "normalize_text dehyphenate_words text =
     (let r1 = filter (\<lambda>c. c \<noteq> SOFT_HYPHEN) text;
          r2 = squeeze (\<lambda>c. c = space \<or> c = tab) space (replace_crlf r1);
          r3 = squeeze (\<lambda>c. c = newline) (if dehyphenate_words then newline else space) r2;
          r4 = (if dehyphenate_words
            then map (\<lambda>c. if c = newline then space else c) (dehyphenate r3) else r3)
      in trim (squeeze (\<lambda>c. c = space) space r4))"

subsection \<open>Content is kept\<close>

definition content_char :: "char \<Rightarrow> bool" where
  "content_char c \<longleftrightarrow> \<not> is_space c \<and> c \<noteq> hyphen \<and> c \<noteq> SOFT_HYPHEN"

definition content :: "string \<Rightarrow> string" where
  "content s = filter content_char s"

lemma content_simps [simp]:
  "content [] = []"
  "content (a @ b) = content a @ content b"
  "content (c # s) = (if content_char c then c # content s else content s)"
  by (simp_all add: content_def)

lemma content_special [simp]:
  "\<not> content_char newline" "\<not> content_char carriage_return" "\<not> content_char tab"
  "\<not> content_char space" "\<not> content_char hyphen" "\<not> content_char SOFT_HYPHEN"
  by (simp_all add: content_char_def is_space_def code_def special_chars)

lemma content_filter: "(\<And>c. content_char c \<Longrightarrow> P c) \<Longrightarrow> content (filter P s) = content s"
  by (induction s) auto

lemma content_crlf: "content (replace_crlf s) = content s"
  by (induction s rule: replace_crlf.induct) auto

lemma content_squeeze:
  assumes "\<And>c. cls c \<Longrightarrow> \<not> content_char c" "\<not> content_char r"
  shows "content (squeeze cls r s) = content s"
  by (induction s) (simp_all add: assms)

lemma content_dehyphenate: "content (dehyphenate s) = content s"
proof (induction s rule: dehyphenate.induct)
  case (2 c s)
  show ?case
  proof (cases "is_letter c")
    case True
    let ?before = "c # takeWhile is_letter s" and ?rest = "dropWhile is_letter s"
    have split: "content (c # s) = content ?before @ content ?rest"
      by (metis append_Cons content_simps(2) takeWhile_dropWhile_id)
    show ?thesis
    proof (cases "hyphen_break ?rest")
      case None
      then have "content (dehyphenate ?rest) = content ?rest" using "2.IH"(2) True by simp
      then have "content (dehyphenate (c # s)) = content ?before @ content ?rest"
        using True None by (simp add: Let_def)
      then show ?thesis unfolding split .
    next
      case (Some p)
      obtain after rest' where p: "p = (after, rest')" by force
      have rest: "?rest = hyphen # newline # after @ rest'" using hyphen_break_Some Some p by blast
      have IH: "content (dehyphenate rest') = content rest'" using "2.IH"(3) True Some p by simp
      have "content (dehyphenate (c # s)) = content ?before @ content after @ content rest'"
        using True Some p IH by (simp add: Let_def)
      also have "\<dots> = content (c # s)" unfolding split rest by simp
      finally show ?thesis .
    qed
  qed (use 2 in simp)
qed simp

lemma content_trim: "content (trim s) = content s"
proof -
  have drop: "content (dropWhile is_space t) = content t" for t
    by (induction t) (auto simp: content_char_def)
  have rev: "content (rev t) = rev (content t)" for t by (simp add: content_def rev_filter)
  show ?thesis by (simp add: trim_def trim_end_def trim_start_def drop rev)
qed

lemma content_normalize_text: "content (normalize_text d text) = content text"
proof -
  have nl: "content (map (\<lambda>c. if c = newline then space else c) s) = content s" for s
    by (induction s) auto
  have sq: "content (squeeze (\<lambda>c. c = newline) space s) = content s" for s
    by (rule content_squeeze) auto
  have sp: "content (squeeze (\<lambda>c. c = space \<or> c = tab) space s) = content s" for s
    by (rule content_squeeze) auto
  have sp': "content (squeeze (\<lambda>c. c = space) space s) = content s" for s
    by (rule content_squeeze) auto
  have sh: "content (filter (\<lambda>c. c \<noteq> SOFT_HYPHEN) s) = content s" for s
    by (rule content_filter) auto
  have d1: "content (squeeze (\<lambda>c. c = newline) newline s) = content s" for s
    by (rule content_squeeze) auto
  show ?thesis
    by (cases d) (simp_all add: normalize_text_def content_trim sp' nl content_dehyphenate d1 sq sp
        content_crlf sh Let_def)
qed

subsection \<open>Normalising twice\<close>

fun single_run :: "(char \<Rightarrow> bool) \<Rightarrow> string \<Rightarrow> bool" where
  "single_run cls (c # d # s) = (\<not> (cls c \<and> cls d) \<and> single_run cls (d # s))"
| "single_run cls s = True"

lemma single_run_append: "single_run cls (a @ b) \<Longrightarrow> single_run cls a \<and> single_run cls b"
proof (induction a rule: induct_list012)
  case (2 x)
  then show ?case by (cases b) simp_all
qed simp_all

lemma single_run_Cons: "single_run cls (c # s) \<longleftrightarrow> single_run cls s \<and> (s = [] \<or> \<not> (cls c \<and> cls (hd s)))"
  by (cases s) auto

lemma single_run_none: "\<forall>c \<in> set s. \<not> cls c \<Longrightarrow> single_run cls s"
  by (induction s) (simp_all add: single_run_Cons)

lemma squeeze_id: "\<forall>c \<in> set s. cls c \<longrightarrow> c = r \<Longrightarrow> single_run (\<lambda>c. c = r) s \<Longrightarrow> squeeze cls r s = s"
proof (induction s)
  case (Cons c s)
  have "s \<noteq> [] \<Longrightarrow> cls (hd s) \<Longrightarrow> hd s = r" using Cons.prems(1) by (cases s) simp_all
  then show ?case using Cons by (auto simp: single_run_Cons)
qed simp

lemma hd_squeeze: "s \<noteq> [] \<Longrightarrow> \<not> cls (hd s) \<Longrightarrow> squeeze cls r s \<noteq> [] \<and> hd (squeeze cls r s) = hd s"
  by (cases s) simp_all

lemma squeeze_single_run: "single_run (\<lambda>c. c = r) (squeeze (\<lambda>c. c = r) r s)"
proof (induction s)
  case (Cons c s)
  show ?case
  proof (cases "s \<noteq> [] \<and> hd s = r")
    case False
    then have "squeeze (\<lambda>c. c = r) r s = [] \<or> hd (squeeze (\<lambda>c. c = r) r s) \<noteq> r"
      using hd_squeeze [of s "\<lambda>c. c = r" r] by (cases s) auto
    then show ?thesis using Cons False by (auto simp: single_run_Cons)
  qed (use Cons in \<open>auto simp: single_run_Cons\<close>)
qed simp

lemma set_squeeze: "set (squeeze cls r s) \<subseteq> insert r {c \<in> set s. \<not> cls c}"
  by (induction s) auto

lemma set_crlf: "set (replace_crlf s) \<subseteq> insert newline (set s)"
  by (induction s rule: replace_crlf.induct) auto

lemma crlf_id: "newline \<notin> set s \<Longrightarrow> replace_crlf s = s"
  by (induction s rule: replace_crlf.induct) auto

lemma set_dehyphenate: "set (dehyphenate s) \<subseteq> set s"
proof (induction s rule: dehyphenate.induct)
  case (2 c s)
  show ?case
  proof (cases "is_letter c")
    case True
    let ?rest = "dropWhile is_letter s"
    have parts: "set (takeWhile is_letter s) \<subseteq> set s" "set ?rest \<subseteq> set s"
      by (auto dest: set_takeWhileD set_dropWhileD)
    show ?thesis
    proof (cases "hyphen_break ?rest")
      case None
      then have "set (dehyphenate ?rest) \<subseteq> set ?rest" using "2.IH"(2) True by simp
      then show ?thesis using True None parts by (auto simp: Let_def)
    next
      case (Some p)
      obtain after rest' where p: "p = (after, rest')" by force
      have rest: "?rest = hyphen # newline # after @ rest'" using hyphen_break_Some Some p by blast
      have "set (dehyphenate rest') \<subseteq> set rest'" using "2.IH"(3) True Some p by simp
      moreover have "set after \<subseteq> set s" "set rest' \<subseteq> set s" "hyphen \<in> set s" using parts(2) unfolding rest by auto
      ultimately show ?thesis using True Some p parts(1) by (auto simp: Let_def)
    qed
  qed (use 2 in auto)
qed simp

lemma dehyphenate_id: "newline \<notin> set s \<Longrightarrow> dehyphenate s = s"
proof (induction s rule: dehyphenate.induct)
  case (2 c s)
  show ?case
  proof (cases "is_letter c")
    case True
    have no: "newline \<notin> set (dropWhile is_letter s)" using "2.prems" by (auto dest: set_dropWhileD)
    then have none: "hyphen_break (dropWhile is_letter s) = None"
      using hyphen_break_Some [of "dropWhile is_letter s"] by (cases "hyphen_break (dropWhile is_letter s)") auto
    have "dehyphenate (dropWhile is_letter s) = dropWhile is_letter s" using "2.IH"(2) True none no by simp
    then show ?thesis using True none by (simp add: Let_def)
  qed (use 2 in auto)
qed simp

definition normal_form :: "string \<Rightarrow> bool" where
  "normal_form s \<longleftrightarrow> newline \<notin> set s \<and> tab \<notin> set s \<and> SOFT_HYPHEN \<notin> set s
     \<and> single_run (\<lambda>c. c = space) s \<and> trim s = s"

lemma trim_factor: "\<exists>a b. s = a @ trim s @ b"
proof -
  obtain b where "trim_start s = trim s @ b"
    using trim_end_prefix [of "trim_start s"] by (auto simp: trim_def prefix_def)
  moreover have "s = takeWhile is_space s @ trim_start s" by (simp add: trim_start_def)
  ultimately show ?thesis by metis
qed

lemma normalize_text_normal: "normal_form (normalize_text d text)"
proof -
  define r1 where "r1 = filter (\<lambda>c. c \<noteq> SOFT_HYPHEN) text"
  define r2 where "r2 = squeeze (\<lambda>c. c = space \<or> c = tab) space (replace_crlf r1)"
  define r3 where "r3 = squeeze (\<lambda>c. c = newline) (if d then newline else space) r2"
  define r4 where "r4 = (if d then map (\<lambda>c. if c = newline then space else c) (dehyphenate r3) else r3)"
  define r5 where "r5 = squeeze (\<lambda>c. c = space) space r4"
  have ne: "newline \<noteq> tab" "newline \<noteq> space" "space \<noteq> tab" "SOFT_HYPHEN \<noteq> newline" "SOFT_HYPHEN \<noteq> space"
    by (simp_all add: special_chars)
  have r2: "tab \<notin> set r2" "SOFT_HYPHEN \<notin> set r2"
    using set_squeeze [of "\<lambda>c. c = space \<or> c = tab" space "replace_crlf r1"] set_crlf [of r1] ne
    by (auto simp: r2_def r1_def)
  have r3: "tab \<notin> set r3" "SOFT_HYPHEN \<notin> set r3" "\<not> d \<Longrightarrow> newline \<notin> set r3"
    using set_squeeze [of "\<lambda>c. c = newline" "if d then newline else space" r2] r2 ne by (auto simp: r3_def)
  have r4: "tab \<notin> set r4" "SOFT_HYPHEN \<notin> set r4" "newline \<notin> set r4"
    using set_dehyphenate [of r3] r3 ne by (auto simp: r4_def)
  have r5: "tab \<notin> set r5" "SOFT_HYPHEN \<notin> set r5" "newline \<notin> set r5"
    using set_squeeze [of "\<lambda>c. c = space" space r4] r4 ne by (auto simp: r5_def)
  have single: "single_run (\<lambda>c. c = space) r5" unfolding r5_def by (rule squeeze_single_run)
  obtain a b where "r5 = a @ trim r5 @ b" using trim_factor by blast
  then have "single_run (\<lambda>c. c = space) (trim r5)" using single single_run_append by metis
  moreover have "normalize_text d text = trim r5"
    by (simp add: normalize_text_def r1_def r2_def r3_def r4_def r5_def Let_def)
  ultimately show ?thesis using r5 set_trim [of r5] by (auto simp: normal_form_def)
qed

lemma normalize_text_id: "normal_form s \<Longrightarrow> normalize_text d s = s"
proof -
  assume nf: "normal_form s"
  then have no: "newline \<notin> set s" "tab \<notin> set s" "SOFT_HYPHEN \<notin> set s" "single_run (\<lambda>c. c = space) s" "trim s = s"
    by (simp_all add: normal_form_def)
  have 1: "filter (\<lambda>c. c \<noteq> SOFT_HYPHEN) s = s" using no(3) by (auto simp: filter_id_conv)
  have 2: "squeeze (\<lambda>c. c = space \<or> c = tab) space s = s" using no by (intro squeeze_id) auto
  have 3: "squeeze (\<lambda>c. c = newline) r s = s" for r
  proof -
    have "\<forall>c \<in> set s. \<not> c = newline" using no(1) by auto
    then show ?thesis by (induction s) auto
  qed
  have 4: "map (\<lambda>c. if c = newline then space else c) s = s" using no(1) by (auto intro: map_idI)
  have 5: "squeeze (\<lambda>c. c = space) space s = s" using no by (intro squeeze_id) auto
  show ?thesis
    by (simp add: normalize_text_def 1 2 3 4 5 crlf_id [OF no(1)] dehyphenate_id [OF no(1)] no(5) Let_def)
qed

lemma normalize_text_idem: "normalize_text d (normalize_text d' text) = normalize_text d' text"
  by (rule normalize_text_id [OF normalize_text_normal])

subsection \<open>Page noise\<close>

datatype page_position = First | Last | Other

record page_level_block =
  pb_page_number :: nat
  pb_position :: page_position
  pb_text :: string

definition normalize_for_comparison :: "string \<Rightarrow> string" where
  "normalize_for_comparison text = to_lower (squeeze is_space space (trim text))"

definition digits_upto :: "nat \<Rightarrow> string \<Rightarrow> bool" where
  "digits_upto n s \<longleftrightarrow> s \<noteq> [] \<and> length s \<le> n \<and> list_all is_digit s"

text \<open>\<open>/^(page\s+)?\d{1,4}$/i\<close>\<close>

definition PAGE_NUMBER_PATTERN :: "string \<Rightarrow> bool" where
  "PAGE_NUMBER_PATTERN s \<longleftrightarrow> digits_upto 4 s \<or>
     (to_lower (take 4 s) = ''page'' \<and> takeWhile is_space (drop 4 s) \<noteq> []
      \<and> digits_upto 4 (dropWhile is_space (drop 4 s)))"

definition roman_char :: "char \<Rightarrow> bool" where
  "roman_char c \<longleftrightarrow> lower_char c \<in> set ''ivxlcdm''"

definition ROMAN_NUMERAL_PATTERN :: "string \<Rightarrow> bool" where
  "ROMAN_NUMERAL_PATTERN s \<longleftrightarrow> s \<noteq> [] \<and> length s \<le> 8 \<and> list_all roman_char s"

definition is_page_number_like :: "string \<Rightarrow> bool" where
  "is_page_number_like text = (let normalized = normalize_for_comparison text
     in PAGE_NUMBER_PATTERN normalized \<or> ROMAN_NUMERAL_PATTERN normalized)"

text \<open>A \<open>Map\<close> of counters, in insertion order.\<close>

fun bump :: "'k \<Rightarrow> ('k \<times> nat) list \<Rightarrow> ('k \<times> nat) list" where
  "bump k [] = [(k, 1)]"
| "bump k ((k', n) # m) = (if k' = k then (k', n + 1) # m else (k', n) # bump k m)"

definition count_keys :: "'k list \<Rightarrow> ('k \<times> nat) list" where
  "count_keys ks = fold bump ks []"

record noise_detection_result =
  nd_removed_texts :: "string list"
  nd_page_number_pattern :: bool

definition edge_blocks :: "page_level_block list \<Rightarrow> page_level_block list" where
  "edge_blocks blocks = filter (\<lambda>b. pb_position b \<noteq> Other) blocks"

definition noise_keys :: "page_level_block list \<Rightarrow> string list" where
  "noise_keys blocks = filter (\<lambda>key. key \<noteq> [] \<and> length key \<le> 120)
     (map (\<lambda>b. normalize_for_comparison (pb_text b)) (edge_blocks blocks))"

definition numeric_positions :: "page_level_block list \<Rightarrow> page_position list" where
  "numeric_positions blocks = map pb_position (filter (\<lambda>b. let n = normalize_for_comparison (pb_text b)
     in PAGE_NUMBER_PATTERN n \<or> ROMAN_NUMERAL_PATTERN n) (edge_blocks blocks))"

definition detect_noise :: "page_level_block list \<Rightarrow> rat \<Rightarrow> noise_detection_result" where
  "detect_noise blocks confidence_threshold =
     (let total_pages = length (remdups (map pb_page_number blocks))
      in if total_pages < 3 then \<lparr> nd_removed_texts = [], nd_page_number_pattern = False \<rparr>
         else let removed = map fst (filter (\<lambda>(key, n). \<not> of_nat n / of_nat total_pages < confidence_threshold)
                    (count_keys (noise_keys blocks)));
                  repeated = list_ex (\<lambda>key. PAGE_NUMBER_PATTERN key \<or> ROMAN_NUMERAL_PATTERN key) removed;
                  numeric = list_ex (\<lambda>(pos, n). of_nat n / of_nat total_pages \<ge> confidence_threshold)
                    (count_keys (numeric_positions blocks))
              in \<lparr> nd_removed_texts = removed, nd_page_number_pattern = (repeated \<or> numeric) \<rparr>)"

lemma bump_keys: "fst ` set (bump k m) = insert k (fst ` set m)"
  by (induction k m rule: bump.induct) auto

lemma map_of_bump: "map_of (bump k m) k' = (if k' = k then Some (case map_of m k of None \<Rightarrow> 1 | Some n \<Rightarrow> n + 1) else map_of m k')"
  by (induction k m rule: bump.induct) auto

lemma distinct_bump: "distinct (map fst m) \<Longrightarrow> distinct (map fst (bump k m))"
proof (induction k m rule: bump.induct)
  case (2 k k' n m)
  then show ?case using bump_keys [of k m] by auto
qed simp

lemma count_keys_spec:
  "distinct (map fst (count_keys ks)) \<and>
   map_of (count_keys ks) k = (if k \<in> set ks then Some (count_list ks k) else None)"
proof (induction ks rule: rev_induct)
  case (snoc x xs)
  have step: "count_keys (xs @ [x]) = bump x (count_keys xs)" by (simp add: count_keys_def)
  have "count_list xs x = 0" if "x \<notin> set xs" using that by (simp add: count_list_0_iff)
  then show ?case unfolding step using snoc distinct_bump by (auto simp: map_of_bump)
qed (simp add: count_keys_def)

text \<open>A line is removed exactly when it repeats, at an edge, on the given share of the pages.\<close>

lemma detect_noise_removed:
  "key \<in> set (nd_removed_texts (detect_noise blocks \<theta>)) \<longleftrightarrow>
     (let total = card (pb_page_number ` set blocks)
      in 3 \<le> total \<and> key \<in> set (noise_keys blocks)
         \<and> \<theta> \<le> of_nat (count_list (noise_keys blocks) key) / of_nat total)"
proof -
  let ?m = "count_keys (noise_keys blocks)"
  have total: "length (remdups (map pb_page_number blocks)) = card (pb_page_number ` set blocks)"
    by (simp add: length_remdups_card_conv)
  have "(key, n) \<in> set ?m \<longleftrightarrow> key \<in> set (noise_keys blocks) \<and> n = count_list (noise_keys blocks) key" for n
    using count_keys_spec [of "noise_keys blocks" key] map_of_eq_Some_iff [of ?m key n] by (auto split: if_splits)
  then show ?thesis
    by (force simp: detect_noise_def total Let_def not_less)
qed

text \<open>A word of the letters of roman numerals is taken for a page number.\<close>

lemma is_page_number_like_word: "is_page_number_like ''mild''"
  by (simp add: is_page_number_like_def normalize_for_comparison_def trim_def trim_end_def trim_start_def
      to_lower_def ROMAN_NUMERAL_PATTERN_def roman_char_def text_simps)

end
