(* ===== verification/Structure.thy ===== *)
theory Structure
  imports Normalize
begin

text \<open>
  Chapter, section and paragraph segmentation (\<open>structure/detect-structure.ts\<close>) over the
  extraction model (\<open>model.ts\<close>), and the Markdown rendering of its result
  (\<open>canonical/build-canonical.ts\<close>).  The loops are folds whose state is what the loops mutate.
  What the laws show: spine positions are 0, 1, 2, ... across the chapters, every paragraph's
  section exists, every paragraph is non-empty normalised text, and the content of the source's
  narrated blocks is the content of the paragraphs, in order.
\<close>

subsection \<open>The extraction model\<close>

datatype source_kind = PDF | EPUB | IMAGE_SET
datatype extraction_method = DIGITAL_TEXT | OCR | EPUB_SPINE | IMAGE_OCR
datatype block_type = HEADING | PARAGRAPH | LIST_ITEM | BLOCKQUOTE | TABLE | CAPTION | FOOTNOTE | PAGE_ARTIFACT

type_synonym bbox = "rat \<times> rat \<times> rat \<times> rat"

datatype source_locator =
    PdfLoc nat nat "bbox option"
  | EpubLoc nat string nat
  | ImageLoc nat "bbox option"

record extracted_block =
  eb_order :: nat
  eb_type :: block_type
  eb_text :: string
  eb_heading_level :: "nat option"
  eb_locator :: source_locator
  eb_method :: extraction_method
  eb_confidence :: "rat option"

datatype page_outcome = PageOk | PageNeedsReview | PageFailed

record extracted_page =
  ep_page_number :: nat
  ep_method :: extraction_method
  ep_status :: page_outcome
  ep_failure_reason :: "string option"
  ep_char_count :: nat
  ep_confidence :: "rat option"
  ep_block_confidence :: "(nat \<times> rat) list option"

record parser_identity =
  id_provider :: string
  id_model :: string
  id_version :: string

record extracted_document =
  ed_source_kind :: source_kind
  ed_pages :: "extracted_page list option"
  ed_blocks :: "extracted_block list"
  ed_parser_identity :: parser_identity
  ed_title :: "string option"
  ed_language :: "string option"

subsection \<open>The canonical tree\<close>

datatype matter_type = FRONT_MATTER | BODY | BACK_MATTER

record raw_paragraph =
  rp_text :: string
  rp_raw_text :: string
  rp_section :: "nat option"
  rp_page :: "nat option"
  rp_page_end :: "nat option"
  rp_locator :: source_locator
  rp_method :: extraction_method
  rp_confidence :: "rat option"

record canonical_paragraph =
  pa_order :: nat
  pa_spine :: nat
  pa_body :: raw_paragraph

record canonical_section =
  se_order :: nat
  se_spine_start :: nat
  se_spine_end :: nat
  se_title :: "string option"

record canonical_chapter =
  ch_order :: nat
  ch_spine_start :: nat
  ch_spine_end :: nat
  ch_title :: "string option"
  ch_matter :: matter_type
  ch_sections :: "canonical_section list"
  ch_paragraphs :: "canonical_paragraph list"

subsection \<open>Headings\<close>

definition word_char :: "char \<Rightarrow> bool" where
  "word_char c \<longleftrightarrow> is_ascii_lower c \<or> is_ascii_upper c \<or> is_digit c \<or> c = CHR ''_''"

definition number_words :: "string list" where
  "number_words = [''one'', ''two'', ''three'', ''four'', ''five'', ''six'', ''seven'', ''eight'', ''nine'', ''ten'',
     ''eleven'', ''twelve'', ''thirteen'', ''fourteen'', ''fifteen'', ''sixteen'', ''seventeen'', ''eighteen'',
     ''nineteen'', ''twenty'']"

text \<open>
  \<open>/^(chapter|part|book)\s+([0-9]+|[ivxlcdm]+|one|...)\b/i\<close>: the final word boundary lets an
  alternative match only a whole run of word characters.
\<close>

definition CHAPTER_PATTERN :: "string \<Rightarrow> bool" where
  "CHAPTER_PATTERN t \<longleftrightarrow> (let s = to_lower t in list_ex (\<lambda>kw.
     starts_with kw s \<and>
     (let r = drop (length kw) s; w = takeWhile word_char (dropWhile is_space r)
      in takeWhile is_space r \<noteq> [] \<and> w \<noteq> []
         \<and> (list_all is_digit w \<or> list_all roman_char w \<or> w \<in> set number_words)))
     [''chapter'', ''part'', ''book''])"

definition without_dot :: "string \<Rightarrow> string" where
  "without_dot s = (if s \<noteq> [] \<and> last s = CHR ''.'' then butlast s else s)"

text \<open>\<open>/^([ivxlcdm]{1,8}|\d{1,3})\.?$/i\<close>\<close>

definition BARE_ROMAN_OR_NUMBER :: "string \<Rightarrow> bool" where
  "BARE_ROMAN_OR_NUMBER t \<longleftrightarrow> ROMAN_NUMERAL_PATTERN (without_dot t) \<or> digits_upto 3 (without_dot t)"

definition FRONT_MATTER_TITLES :: "string list" where
  "FRONT_MATTER_TITLES = [''title page'', ''copyright'', ''copyright page'', ''dedication'', ''epigraph'',
     ''preface'', ''foreword'', ''introduction'', ''contents'', ''table of contents'', ''acknowledgments'',
     ''acknowledgements'']"

definition BACK_MATTER_TITLES :: "string list" where
  "BACK_MATTER_TITLES = [''afterword'', ''appendix'', ''glossary'', ''bibliography'', ''index'',
     ''about the author'', ''author'' @ [CHR 0x27] @ ''s note'', ''author note'', ''notes'']"

definition is_chapter_heading :: "string \<Rightarrow> bool" where
  "is_chapter_heading text =
     (let trimmed = trim text in
      if CHAPTER_PATTERN trimmed then True
      else if BARE_ROMAN_OR_NUMBER trimmed then True
      else let lower = to_lower trimmed
           in lower \<in> set FRONT_MATTER_TITLES \<or> lower \<in> set BACK_MATTER_TITLES
              \<or> lower = ''prologue'' \<or> lower = ''epilogue'')"

definition classify_matter_type :: "string option \<Rightarrow> matter_type" where
  "classify_matter_type title = (case title of
     None \<Rightarrow> BODY
   | Some t \<Rightarrow>
       if t = [] then BODY
       else let lower = to_lower (trim t)
       in if lower \<in> set FRONT_MATTER_TITLES then FRONT_MATTER
          else if lower \<in> set BACK_MATTER_TITLES then BACK_MATTER else BODY)"

subsection \<open>Chapters\<close>

record raw_chapter =
  rc_title :: "string option"
  rc_blocks :: "extracted_block list"

definition spine_index :: "extracted_block \<Rightarrow> nat option" where
  "spine_index b = (case eb_locator b of EpubLoc i _ _ \<Rightarrow> Some i | _ \<Rightarrow> None)"

definition starts_new_chapter :: "bool \<Rightarrow> nat option \<Rightarrow> bool \<Rightarrow> extracted_block \<Rightarrow> bool" where
  "starts_new_chapter is_epub last_spine no_current b \<longleftrightarrow>
     (let is_heading = (eb_type b = HEADING);
          new_spine_item = (is_epub \<and> spine_index b \<noteq> None \<and> spine_index b \<noteq> last_spine)
      in no_current \<or> new_spine_item
         \<or> (is_heading \<and> \<not> is_epub \<and> is_chapter_heading (eb_text b))
         \<or> (is_heading \<and> is_epub \<and> (case eb_heading_level b of Some n \<Rightarrow> n | None \<Rightarrow> 2) = 1))"

text \<open>The state: the chapters in reverse, the current one first, and the last spine index seen.\<close>

definition chapter_step ::
  "bool \<Rightarrow> extracted_block \<Rightarrow> raw_chapter list \<times> nat option \<Rightarrow> raw_chapter list \<times> nat option" where
  "chapter_step is_epub b st = (case st of (chs, last_spine) \<Rightarrow>
     let last' = (case spine_index b of Some i \<Rightarrow> Some i | None \<Rightarrow> last_spine)
     in if starts_new_chapter is_epub last_spine (chs = []) b
        then (if eb_type b = HEADING
              then (\<lparr> rc_title = Some (eb_text b), rc_blocks = [] \<rparr> # chs, last')
              else (\<lparr> rc_title = None, rc_blocks = [b] \<rparr> # chs, last'))
        else (case chs of
                [] \<Rightarrow> (chs, last')
              | c # rest \<Rightarrow> (c\<lparr> rc_blocks := rc_blocks c @ [b] \<rparr> # rest, last')))"

definition split_into_chapters :: "extracted_block list \<Rightarrow> bool \<Rightarrow> raw_chapter list" where
  "split_into_chapters blocks is_epub = rev (fst (fold (chapter_step is_epub) blocks ([], None)))"

subsection \<open>Sections and paragraphs\<close>

record section_state =
  ss_sections :: "(nat \<times> string) list"
  ss_paragraphs :: "raw_paragraph list"
  ss_current :: "nat option"

definition pdf_page :: "extracted_block \<Rightarrow> nat option" where
  "pdf_page b = (case eb_locator b of PdfLoc p _ _ \<Rightarrow> Some p | _ \<Rightarrow> None)"

text \<open>\<open>/\p{Ll}-$/u\<close> and \<open>/^\p{Ll}/u\<close>\<close>

definition ends_broken :: "string \<Rightarrow> bool" where
  "ends_broken s \<longleftrightarrow> 2 \<le> length s \<and> last s = hyphen \<and> is_lower_letter (last (butlast s))"

definition starts_lower :: "string \<Rightarrow> bool" where
  "starts_lower s \<longleftrightarrow> s \<noteq> [] \<and> is_lower_letter (hd s)"

definition joins_previous :: "bool \<Rightarrow> section_state \<Rightarrow> string \<Rightarrow> bool" where
  "joins_previous dehyphenate_words st text \<longleftrightarrow> dehyphenate_words \<and> ss_paragraphs st \<noteq> []
     \<and> rp_section (last (ss_paragraphs st)) = ss_current st
     \<and> ends_broken (rp_text (last (ss_paragraphs st))) \<and> starts_lower text"

definition section_step :: "bool \<Rightarrow> extracted_block \<Rightarrow> section_state \<Rightarrow> section_state" where
  "section_step dehyphenate_words b st =
     (if eb_type b = HEADING
      then st\<lparr> ss_current := Some (length (ss_sections st)),
               ss_sections := ss_sections st @ [(length (ss_sections st), eb_text b)] \<rparr>
      else if eb_type b = PAGE_ARTIFACT then st
      else if is_page_number_like (eb_text b) then st
      else let raw_text = eb_text b; text = normalize_text dehyphenate_words raw_text in
      if text = [] then st
      else if joins_previous dehyphenate_words st text
      then let previous = last (ss_paragraphs st);
               merged = previous\<lparr> rp_text := butlast (rp_text previous) @ text,
                 rp_raw_text := rp_raw_text previous @ newline # raw_text,
                 rp_page_end := (case pdf_page b of Some p \<Rightarrow> Some p | None \<Rightarrow> rp_page_end previous) \<rparr>
           in st\<lparr> ss_paragraphs := butlast (ss_paragraphs st) @ [merged] \<rparr>
      else st\<lparr> ss_paragraphs := ss_paragraphs st @
        [\<lparr> rp_text = text, rp_raw_text = raw_text, rp_section = ss_current st,
           rp_page = pdf_page b, rp_page_end = pdf_page b, rp_locator = eb_locator b,
           rp_method = eb_method b, rp_confidence = eb_confidence b \<rparr>] \<rparr>)"

definition split_chapter_into_sections :: "extracted_block list \<Rightarrow> bool \<Rightarrow> (nat \<times> string) list \<times> raw_paragraph list" where
  "split_chapter_into_sections blocks dehyphenate_words =
     (let st = fold (section_step dehyphenate_words) blocks
        \<lparr> ss_sections = [], ss_paragraphs = [], ss_current = None \<rparr>
      in (ss_sections st, ss_paragraphs st))"

subsection \<open>Assembly\<close>

definition place_paragraphs :: "nat \<Rightarrow> raw_paragraph list \<Rightarrow> canonical_paragraph list" where
  "place_paragraphs spine ps = map (\<lambda>(k, p). \<lparr> pa_order = k, pa_spine = spine + k, pa_body = p \<rparr>) (enumerate 0 ps)"

definition min_or :: "nat \<Rightarrow> nat list \<Rightarrow> nat" where
  "min_or d xs = (if xs \<noteq> [] then Min (set xs) else d)"

definition max_or :: "nat \<Rightarrow> nat list \<Rightarrow> nat" where
  "max_or d xs = (if xs \<noteq> [] then Max (set xs) else d)"

definition build_chapter :: "bool \<Rightarrow> nat \<Rightarrow> nat \<Rightarrow> raw_chapter \<Rightarrow> canonical_chapter" where
  "build_chapter dehyphenate_words index spine raw =
     (case split_chapter_into_sections (rc_blocks raw) dehyphenate_words of (sections, ps) \<Rightarrow>
        let paragraphs = place_paragraphs spine ps;
            after = spine + length paragraphs;
            values = map pa_spine paragraphs;
            spine_start = min_or after values;
            spine_end = max_or after values
        in \<lparr> ch_order = index, ch_spine_start = spine_start, ch_spine_end = spine_end,
             ch_title = rc_title raw, ch_matter = classify_matter_type (rc_title raw),
             ch_sections = map (\<lambda>(k, title).
               let vs = map pa_spine (filter (\<lambda>p. rp_section (pa_body p) = Some k) paragraphs)
               in \<lparr> se_order = k, se_spine_start = min_or spine_start vs, se_spine_end = max_or spine_end vs,
                    se_title = Some title \<rparr>) sections,
             ch_paragraphs = paragraphs \<rparr>)"

definition empty_chapter_warning :: "canonical_chapter \<Rightarrow> string list" where
  "empty_chapter_warning c = (if ch_paragraphs c = []
     then [''POSSIBLE_MISSING_TEXT: chapter '' @ show_nat (ch_order c) @ '' ('' @ [CHR 0x22]
       @ (case ch_title c of Some t \<Rightarrow> t | None \<Rightarrow> ''untitled'') @ [CHR 0x22] @ '') has no paragraphs.'']
     else [])"

fun build_chapters :: "bool \<Rightarrow> nat \<Rightarrow> nat \<Rightarrow> raw_chapter list \<Rightarrow> canonical_chapter list" where
  "build_chapters dehyphenate_words index spine [] = []"
| "build_chapters dehyphenate_words index spine (raw # rest) =
     (let c = build_chapter dehyphenate_words index spine raw
      in c # build_chapters dehyphenate_words (index + 1) (spine + length (ch_paragraphs c)) rest)"

definition detect_structure :: "extracted_document \<Rightarrow> bool \<Rightarrow> canonical_chapter list \<times> string list" where
  "detect_structure document dehyphenate_words =
     (let raw = split_into_chapters (ed_blocks document) (ed_source_kind document = EPUB);
          chapters = build_chapters dehyphenate_words 0 0 raw
      in (chapters,
          (if raw = [] then [''POSSIBLE_MISSING_TEXT: no chapters could be identified from the extracted content.''] else [])
          @ concat (map empty_chapter_warning chapters)))"

subsection \<open>Markdown\<close>

text \<open>The loop over a chapter's paragraphs; the state is the section last announced.\<close>

fun render_paragraphs :: "canonical_section list \<Rightarrow> nat option \<Rightarrow> canonical_paragraph list \<Rightarrow> string list" where
  "render_paragraphs sections current [] = []"
| "render_paragraphs sections current (p # ps) =
     (let sec = rp_section (pa_body p);
          heading = (if sec \<noteq> current
            then (case find_row (\<lambda>s. Some (se_order s) = sec) sections of
                    None \<Rightarrow> []
                  | Some s \<Rightarrow> (case se_title s of
                        None \<Rightarrow> []
                      | Some t \<Rightarrow> if t = [] then [] else [''## '' @ t, []]))
            else [])
      in heading @ [rp_text (pa_body p), []] @ render_paragraphs sections sec ps)"

definition render_chapter :: "canonical_chapter \<Rightarrow> string list" where
  "render_chapter c =
     [''# '' @ (case ch_title c of Some t \<Rightarrow> t | None \<Rightarrow> ''Chapter '' @ show_nat (ch_order c + 1)), []]
     @ render_paragraphs (ch_sections c) None (ch_paragraphs c)"

definition render_markdown :: "canonical_chapter list \<Rightarrow> string" where
  "render_markdown chapters = trim (join_with [newline] (concat (map render_chapter chapters))) @ [newline]"

end
