(* ===== verification/StructureLaws.thy ===== *)
theory StructureLaws
  imports Structure
begin

text \<open>
  Laws of the structure detection: where the blocks of the source go, what a paragraph's text is,
  and how positions and sections are numbered.
\<close>

subsection \<open>Blocks\<close>

definition narrated :: "extracted_block \<Rightarrow> bool" where
  "narrated b \<longleftrightarrow> eb_type b \<noteq> HEADING \<and> eb_type b \<noteq> PAGE_ARTIFACT \<and> \<not> is_page_number_like (eb_text b)"

lemma chapter_step_blocks:
  "filter (\<lambda>b. eb_type b \<noteq> HEADING) (concat (map rc_blocks (rev (fst (chapter_step e b st)))))
     = filter (\<lambda>b. eb_type b \<noteq> HEADING) (concat (map rc_blocks (rev (fst st))) @ [b])"
  by (cases st; cases "fst st")
    (auto simp: chapter_step_def Let_def starts_new_chapter_def)

lemma split_into_chapters_blocks:
  "filter (\<lambda>b. eb_type b \<noteq> HEADING) (concat (map rc_blocks (split_into_chapters blocks e)))
     = filter (\<lambda>b. eb_type b \<noteq> HEADING) blocks"
proof -
  have "filter (\<lambda>b. eb_type b \<noteq> HEADING) (concat (map rc_blocks (rev (fst (fold (chapter_step e) blocks st)))))
      = filter (\<lambda>b. eb_type b \<noteq> HEADING) (concat (map rc_blocks (rev (fst st))) @ blocks)" for st
  proof (induction blocks arbitrary: st)
    case (Cons b bs)
    show ?case unfolding fold.simps o_def Cons.IH using chapter_step_blocks [of e b st] by simp
  qed simp
  from this [of "([], None)"] show ?thesis by (simp add: split_into_chapters_def)
qed

lemma split_into_chapters_narrated:
  "filter narrated (concat (map rc_blocks (split_into_chapters blocks e))) = filter narrated blocks"
proof -
  have "filter narrated bs = filter narrated (filter (\<lambda>b. eb_type b \<noteq> HEADING) bs)" for bs
    by (auto simp: narrated_def intro: filter_cong)
  then show ?thesis using split_into_chapters_blocks by metis
qed

subsection \<open>Paragraph texts\<close>

definition paragraph_text_ok :: "string \<Rightarrow> bool" where
  "paragraph_text_ok s \<longleftrightarrow> s \<noteq> [] \<and> normal_form s"

definition section_inv :: "section_state \<Rightarrow> bool" where
  "section_inv st \<longleftrightarrow> (\<forall>p \<in> set (ss_paragraphs st). paragraph_text_ok (rp_text p)
       \<and> (\<forall>k \<in> set_option (rp_section p). k < length (ss_sections st)))
     \<and> map fst (ss_sections st) = [0..<length (ss_sections st)]
     \<and> (\<forall>k \<in> set_option (ss_current st). k < length (ss_sections st))"

lemma lower_letter_not_space: "is_lower_letter c \<Longrightarrow> \<not> is_space c \<and> c \<noteq> space"
  by (auto simp: text_simps special_chars)

lemma trim_hd_last:
  assumes "trim s = s" "s \<noteq> []"
  shows "\<not> is_space (hd s) \<and> \<not> is_space (last s)"
  using hd_trim [of s] last_trim [of s] assms by simp

text \<open>Joining a broken word leaves normalised text.\<close>

lemma join_broken_ok:
  assumes "paragraph_text_ok a" "ends_broken a" "paragraph_text_ok b" "starts_lower b"
  shows "paragraph_text_ok (butlast a @ b)"
proof -
  have a: "a \<noteq> []" "normal_form a" and b: "b \<noteq> []" "normal_form b"
    using assms(1,3) by (simp_all add: paragraph_text_ok_def)
  have ba: "butlast a \<noteq> []" "is_lower_letter (last (butlast a))"
    using assms(2) by (cases a; auto simp: ends_broken_def)+
  then obtain x xs where xs: "butlast a = xs @ [x]" "is_lower_letter x" by (metis append_butlast_last_id)
  obtain y ys where ys: "b = y # ys" "is_lower_letter y"
    using assms(4) by (cases b) (auto simp: starts_lower_def)
  have sub: "set (butlast a) \<subseteq> set a" by (auto dest: in_set_butlastD)
  have "a = butlast a @ [last a]" using a(1) by simp
  then have run: "single_run (\<lambda>c. c = space) (butlast a)"
    using a(2) single_run_append unfolding normal_form_def by metis
  have run_join: "single_run (\<lambda>c. c = space) (us @ vs)"
    if "single_run (\<lambda>c. c = space) us" "single_run (\<lambda>c. c = space) vs" "us \<noteq> [] \<Longrightarrow> last us \<noteq> space" for us vs
    using that by (induction us) (auto simp: single_run_Cons hd_append split: if_splits)
  have "single_run (\<lambda>c. c = space) (butlast a @ b)"
    using run b(2) xs lower_letter_not_space by (intro run_join) (auto simp: normal_form_def)
  moreover have "trim (butlast a @ b) = butlast a @ b"
  proof (rule trim_id)
    have "hd (butlast a @ b) = hd a" using ba(1) a(1) by (cases a) auto
    moreover have "last (butlast a @ b) = last b" using b(1) by simp
    ultimately show "butlast a @ b = [] \<or> (\<not> is_space (hd (butlast a @ b)) \<and> \<not> is_space (last (butlast a @ b)))"
      using trim_hd_last a b by (simp add: normal_form_def)
  qed
  ultimately show ?thesis using a(2) b sub by (auto simp: paragraph_text_ok_def normal_form_def)
qed

lemma section_step_inv:
  assumes "section_inv st"
  shows "section_inv (section_step d b st)"
proof -
  let ?text = "normalize_text d (eb_text b)"
  consider "eb_type b = HEADING" | "eb_type b \<noteq> HEADING" "eb_type b = PAGE_ARTIFACT \<or> is_page_number_like (eb_text b) \<or> ?text = []"
    | "eb_type b \<noteq> HEADING" "eb_type b \<noteq> PAGE_ARTIFACT" "\<not> is_page_number_like (eb_text b)" "?text \<noteq> []"
    by blast
  then show ?thesis
  proof cases
    case 1
    then show ?thesis using assms by (auto simp: section_step_def section_inv_def less_Suc_eq)
  next
    case 2
    then show ?thesis using assms by (auto simp: section_step_def)
  next
    case 3
    have ok: "paragraph_text_ok ?text" using 3(4) normalize_text_normal by (simp add: paragraph_text_ok_def)
    show ?thesis
    proof (cases "joins_previous d st ?text")
      case True
      then have prev: "last (ss_paragraphs st) \<in> set (ss_paragraphs st)" "ends_broken (rp_text (last (ss_paragraphs st)))"
        "starts_lower ?text"
        unfolding joins_previous_def by (blast intro: last_in_set)+
      then have "paragraph_text_ok (butlast (rp_text (last (ss_paragraphs st))) @ ?text)"
        using assms ok by (intro join_broken_ok) (auto simp: section_inv_def)
      then show ?thesis using True 3 assms prev(1)
        by (auto simp: section_step_def section_inv_def Let_def dest: in_set_butlastD)
    next
      case False
      then show ?thesis using 3 assms ok by (auto simp: section_step_def section_inv_def Let_def)
    qed
  qed
qed

text \<open>The content of the paragraphs grows by the content of every narrated block.\<close>

lemma section_step_content:
  "content (concat (map rp_text (ss_paragraphs (section_step d b st))))
     = content (concat (map rp_text (ss_paragraphs st))) @ (if narrated b then content (eb_text b) else [])"
proof -
  let ?text = "normalize_text d (eb_text b)"
  have kept: "content ?text = content (eb_text b)" by (rule content_normalize_text)
  show ?thesis
  proof (cases "narrated b \<and> ?text \<noteq> [] \<and> joins_previous d st ?text")
    case True
    let ?ps = "ss_paragraphs st"
    have ne: "?ps \<noteq> []" "ends_broken (rp_text (last ?ps))" using True by (simp_all add: joins_previous_def)
    obtain qs q where q: "?ps = qs @ [q]" using ne(1) by (metis append_butlast_last_id)
    have "rp_text q = butlast (rp_text q) @ [hyphen]"
      using ne(2) q by (metis append_butlast_last_id ends_broken_def last_snoc list.size(3) not_numeral_le_zero)
    then have "content (rp_text q) = content (butlast (rp_text q))" by (metis append_Nil2 content_simps content_special(5))
    then show ?thesis using True q kept by (simp add: section_step_def narrated_def Let_def)
  next
    case False
    then show ?thesis using kept by (auto simp: section_step_def narrated_def Let_def)
  qed
qed

lemma split_chapter_into_sections_laws:
  assumes "split_chapter_into_sections blocks d = (sections, ps)"
  shows "\<forall>p \<in> set ps. paragraph_text_ok (rp_text p)"
    and "\<forall>p \<in> set ps. \<forall>k. rp_section p = Some k \<longrightarrow> k < length sections"
    and "map fst sections = [0..<length sections]"
    and "content (concat (map rp_text ps)) = content (concat (map eb_text (filter narrated blocks)))"
proof -
  define st0 where "st0 = \<lparr> ss_sections = [], ss_paragraphs = [], ss_current = None \<rparr>"
  have inv: "section_inv st \<Longrightarrow> section_inv (fold (section_step d) bs st)" for bs st
    by (induction bs arbitrary: st) (simp_all add: section_step_inv)
  have "section_inv st0" by (simp add: section_inv_def st0_def)
  then have final: "section_inv (fold (section_step d) blocks st0)" by (rule inv)
  have eqs: "sections = ss_sections (fold (section_step d) blocks st0)" "ps = ss_paragraphs (fold (section_step d) blocks st0)"
    using assms by (simp_all add: split_chapter_into_sections_def st0_def Let_def)
  show "\<forall>p \<in> set ps. paragraph_text_ok (rp_text p)" "map fst sections = [0..<length sections]"
    using final by (simp_all add: section_inv_def eqs)
  show "\<forall>p \<in> set ps. \<forall>k. rp_section p = Some k \<longrightarrow> k < length sections"
    using final by (simp add: section_inv_def eqs)
  have "content (concat (map rp_text (ss_paragraphs (fold (section_step d) bs st))))
      = content (concat (map rp_text (ss_paragraphs st))) @ content (concat (map eb_text (filter narrated bs)))" for bs st
    by (induction bs arbitrary: st) (simp_all add: section_step_content)
  from this [of blocks st0] show "content (concat (map rp_text ps)) = content (concat (map eb_text (filter narrated blocks)))"
    by (simp add: eqs st0_def)
qed

subsection \<open>Positions\<close>

lemma place_paragraphs_sel [simp]:
  "map pa_body (place_paragraphs spine ps) = ps"
  "map pa_order (place_paragraphs spine ps) = [0..<length ps]"
  "map pa_spine (place_paragraphs spine ps) = [spine..<spine + length ps]"
  "length (place_paragraphs spine ps) = length ps"
  "place_paragraphs spine ps = [] \<longleftrightarrow> ps = []"
proof -
  have spine: "map (\<lambda>k. spine + k) [0..<n] = [spine..<spine + n]" for n
    using map_add_upt [of spine n] by (simp add: add.commute)
  have "map (\<lambda>e. spine + fst e) (enumerate 0 ps) = map (\<lambda>k. spine + k) (map fst (enumerate 0 ps))"
    by (simp only: map_map comp_def)
  then show "map pa_spine (place_paragraphs spine ps) = [spine..<spine + length ps]"
    by (simp add: place_paragraphs_def comp_def split_beta spine)
  show "map pa_body (place_paragraphs spine ps) = ps" "map pa_order (place_paragraphs spine ps) = [0..<length ps]"
    "length (place_paragraphs spine ps) = length ps"
    using map_snd_enumerate [of 0 ps] map_fst_enumerate [of 0 ps]
    by (simp_all add: place_paragraphs_def comp_def split_beta)
  then show "place_paragraphs spine ps = [] \<longleftrightarrow> ps = []" by (metis length_0_conv)
qed

lemma ch_paragraphs_build:
  "ch_paragraphs (build_chapter d i s raw) = place_paragraphs s (snd (split_chapter_into_sections (rc_blocks raw) d))"
  by (simp add: build_chapter_def Let_def split: prod.split)

lemma build_chapters_spine:
  "map pa_spine (concat (map ch_paragraphs (build_chapters d i s raws)))
     = [s..<s + length (concat (map ch_paragraphs (build_chapters d i s raws)))]"
proof (induction d i s raws rule: build_chapters.induct)
  case (2 d i s raw rest)
  let ?c = "build_chapter d i s raw"
  let ?n = "length (ch_paragraphs ?c)"
  let ?rest = "concat (map ch_paragraphs (build_chapters d (i + 1) (s + ?n) rest))"
  have "map pa_spine (ch_paragraphs ?c) = [s..<s + ?n]"
    unfolding ch_paragraphs_build by simp
  moreover have "map pa_spine ?rest = [s + ?n..<s + ?n + length ?rest]" by (rule 2) (rule refl)
  moreover have "[s..<s + ?n] @ [s + ?n..<s + ?n + length ?rest] = [s..<s + (?n + length ?rest)]"
    using upt_add_eq_append [of s "s + ?n" "length ?rest"] by (simp only: add.assoc le_add1)
  ultimately show ?case by (simp only: build_chapters.simps Let_def list.map concat.simps map_append length_append)
qed simp

lemma build_chapters_order: "map ch_order (build_chapters d i s raws) = [i..<i + length raws]"
proof (induction d i s raws rule: build_chapters.induct)
  case (2 d i s raw rest)
  have "ch_order (build_chapter d i s raw) = i" by (simp add: build_chapter_def Let_def split: prod.split)
  then show ?case using 2 [OF refl] upt_conv_Cons [of i "i + length (raw # rest)"]
    by (simp only: build_chapters.simps Let_def list.map list.size) simp
qed simp

lemma build_chapters_mem:
  "c \<in> set (build_chapters d i s raws) \<Longrightarrow> \<exists>j t raw. raw \<in> set raws \<and> c = build_chapter d j t raw"
  by (induction d i s raws rule: build_chapters.induct) (auto simp: Let_def)

lemma build_chapters_content:
  "content (concat (map (rp_text \<circ> pa_body) (concat (map ch_paragraphs (build_chapters d i s raws)))))
     = content (concat (map eb_text (filter narrated (concat (map rc_blocks raws)))))"
proof (induction d i s raws rule: build_chapters.induct)
  case (2 d i s raw rest)
  obtain sections ps where sp: "split_chapter_into_sections (rc_blocks raw) d = (sections, ps)" by force
  have "map (rp_text \<circ> pa_body) (ch_paragraphs (build_chapter d i s raw)) = map rp_text ps"
    by (simp add: ch_paragraphs_build sp flip: map_map)
  then show ?case using 2 split_chapter_into_sections_laws(4) [OF sp] by (simp add: Let_def comp_def)
qed simp

subsection \<open>The whole document\<close>

definition all_paragraphs :: "canonical_chapter list \<Rightarrow> canonical_paragraph list" where
  "all_paragraphs chapters = concat (map ch_paragraphs chapters)"

lemma detect_structure_positions:
  assumes "detect_structure document d = (chapters, warnings)"
  shows "map pa_spine (all_paragraphs chapters) = [0..<length (all_paragraphs chapters)]"
    and "map ch_order chapters = [0..<length chapters]"
proof -
  have c: "chapters = build_chapters d 0 0 (split_into_chapters (ed_blocks document) (ed_source_kind document = EPUB))"
    using assms by (simp add: detect_structure_def Let_def)
  show "map pa_spine (all_paragraphs chapters) = [0..<length (all_paragraphs chapters)]"
    unfolding all_paragraphs_def c by (subst build_chapters_spine) simp
  show "map ch_order chapters = [0..<length chapters]"
    unfolding c by (simp add: build_chapters_order) (metis build_chapters_order length_map length_upt minus_nat.diff_0 plus_nat.add_0)
qed

lemma detect_structure_content:
  assumes "detect_structure document d = (chapters, warnings)"
  shows "content (concat (map (rp_text \<circ> pa_body) (all_paragraphs chapters)))
    = content (concat (map eb_text (filter narrated (ed_blocks document))))"
  using assms
  by (auto simp: detect_structure_def Let_def all_paragraphs_def build_chapters_content split_into_chapters_narrated)

lemma detect_structure_paragraphs:
  assumes "detect_structure document d = (chapters, warnings)" "c \<in> set chapters" "p \<in> set (ch_paragraphs c)"
  shows "paragraph_text_ok (rp_text (pa_body p))"
    and "rp_section (pa_body p) = Some k \<Longrightarrow> k < length (ch_sections c) \<and> se_order (ch_sections c ! k) = k"
proof -
  obtain j t raw where c: "c = build_chapter d j t raw"
    using assms(1,2) build_chapters_mem by (fastforce simp: detect_structure_def Let_def)
  obtain sections ps where sp: "split_chapter_into_sections (rc_blocks raw) d = (sections, ps)" by force
  have "pa_body p \<in> set (map pa_body (ch_paragraphs c))" using assms(3) by simp
  then have body: "pa_body p \<in> set ps" by (simp only: c ch_paragraphs_build sp snd_conv place_paragraphs_sel(1))
  show "paragraph_text_ok (rp_text (pa_body p))"
    using split_chapter_into_sections_laws(1) [OF sp] body by blast
  have secs: "map se_order (ch_sections c) = map fst sections"
    by (simp add: c build_chapter_def sp Let_def comp_def split_beta)
  assume "rp_section (pa_body p) = Some k"
  then have k: "k < length sections" using split_chapter_into_sections_laws(2) [OF sp] body by blast
  moreover have "length (ch_sections c) = length sections" using secs by (metis length_map)
  moreover have "map se_order (ch_sections c) ! k = k"
    unfolding secs split_chapter_into_sections_laws(3) [OF sp] using k by simp
  ultimately show "k < length (ch_sections c) \<and> se_order (ch_sections c ! k) = k" by simp
qed

end
