(* ===== verification/Storage.thy ===== *)
theory Storage
  imports Errors
begin

text \<open>
  Object storage (\<open>packages/storage/src\<close>): keys (\<open>key.ts\<close>), checksums (\<open>checksum.ts\<close>) and
  the in-memory provider.  The interface \<open>StorageProvider\<close> is the locale \<open>storage_provider\<close>;
  its laws are the contract test of \<open>contract.ts\<close>, and it is interpreted on the in-memory
  provider.  The hash function is the parameter \<open>sha256\<close> (hexadecimal digest of a byte string).
  Bytes are natural numbers below 256.
\<close>

subsection \<open>Keys\<close>

text \<open>\<open>/^[a-zA-Z0-9._-]+$/\<close>\<close>

definition safe_segment_char :: "char \<Rightarrow> bool" where
  "safe_segment_char c \<longleftrightarrow> is_letter c \<and> code c < 128 \<or> is_digit c \<or> c = CHR ''.'' \<or> c = CHR ''_'' \<or> c = CHR ''-''"

definition safe_segment :: "string \<Rightarrow> bool" where
  "safe_segment s \<longleftrightarrow> s \<noteq> [] \<and> list_all safe_segment_char s"

fun check_segments :: "string list \<Rightarrow> thrown + unit" where
  "check_segments [] = Inr ()"
| "check_segments (segment # rest) =
     (if contains_str ''..'' segment \<or> contains_str ''/'' segment \<or> \<not> safe_segment segment
      then Inl (OtherErr (''Invalid storage key segment: '' @ segment))
      else check_segments rest)"

definition build_storage_key :: "string \<Rightarrow> string list \<Rightarrow> thrown + string" where
  "build_storage_key t segments =
     (if \<not> safe_segment t then Inl (OtherErr (''Invalid tenantId for storage key: '' @ t))
      else bindE (check_segments segments) (\<lambda>_. Inr (join_with ''/'' (t # segments))))"

text \<open>\<open>/^[0-9a-f]{64}$/\<close>\<close>

definition is_valid_sha256_hex :: "string \<Rightarrow> bool" where
  "is_valid_sha256_hex v \<longleftrightarrow> length v = 64 \<and> list_all (\<lambda>c. is_digit c \<or> 97 \<le> code c \<and> code c \<le> 102) v"

lemma check_segments_Inr:
  "check_segments segs = Inr u \<longleftrightarrow> (\<forall>s \<in> set segs. safe_segment s \<and> \<not> contains_str ''..'' s \<and> \<not> contains_str ''/'' s)"
  by (induction segs) auto

lemma safe_segment_no_slash: "safe_segment s \<Longrightarrow> CHR ''/'' \<notin> set s"
  by (auto simp: safe_segment_def list_all_iff safe_segment_char_def text_simps)

text \<open>A key determines the tenant and the path it was built from.\<close>

lemma build_storage_key_inj:
  assumes "build_storage_key t segs = Inr k" "build_storage_key t' segs' = Inr k"
  shows "t = t' \<and> segs = segs'"
proof -
  have parts: "w \<in> set (t # segs) \<Longrightarrow> CHR ''/'' \<notin> set w" "w \<in> set (t' # segs') \<Longrightarrow> CHR ''/'' \<notin> set w" for w
    using assms safe_segment_no_slash
    by (auto simp: build_storage_key_def bindE_eq_Inr check_segments_Inr split: if_splits)
  have "join_with ''/'' (t # segs) = join_with ''/'' (t' # segs')"
    using assms by (auto simp: build_storage_key_def bindE_eq_Inr split: if_splits)
  then have "t # segs = t' # segs'" using join_with_inj [of "t # segs" "t' # segs'"] parts by blast
  then show ?thesis by simp
qed

text \<open>
  No segment of a key but the tenant's can lead upwards: split at its slashes, a key is the tenant
  followed by segments that are neither empty nor contain two dots in a row.
\<close>

lemma build_storage_key_path:
  assumes "build_storage_key t segs = Inr k"
  shows "split_on CHR ''/'' k = t # segs \<and> (\<forall>s \<in> set segs. s \<noteq> [] \<and> \<not> contains_str ''..'' s)"
proof -
  have parts: "w \<in> set (t # segs) \<Longrightarrow> CHR ''/'' \<notin> set w" for w
    using assms safe_segment_no_slash
    by (auto simp: build_storage_key_def bindE_eq_Inr check_segments_Inr split: if_splits)
  have "k = join_with ''/'' (t # segs)" "\<forall>s \<in> set segs. safe_segment s \<and> \<not> contains_str ''..'' s"
    using assms by (auto simp: build_storage_key_def bindE_eq_Inr check_segments_Inr split: if_splits)
  then show ?thesis using split_join [of "t # segs" "CHR ''/''"] parts by (auto simp: safe_segment_def)
qed

subsection \<open>The provider interface\<close>

type_synonym bytes = "nat list"

record checksum =
  ck_hash :: string
  ck_size_bytes :: nat

definition checksum_buffer :: "(bytes \<Rightarrow> string) \<Rightarrow> bytes \<Rightarrow> checksum" where
  "checksum_buffer sha256 buffer = \<lparr> ck_hash = sha256 buffer, ck_size_bytes = length buffer \<rparr>"

text \<open>A stream is the list of its chunks.\<close>

definition checksum_stream :: "(bytes \<Rightarrow> string) \<Rightarrow> bytes list \<Rightarrow> checksum" where
  "checksum_stream sha256 chunks =
     (case fold (\<lambda>chunk (hashed, sz). (hashed @ chunk, sz + length chunk)) chunks ([], 0) of
        (hashed, sz) \<Rightarrow> \<lparr> ck_hash = sha256 hashed, ck_size_bytes = sz \<rparr>)"

lemma checksum_stream_buffer: "checksum_stream sha256 chunks = checksum_buffer sha256 (concat chunks)"
proof -
  have "fold (\<lambda>chunk (hashed, sz). (hashed @ chunk, sz + length chunk)) chunks (h, n)
      = (h @ concat chunks, n + length (concat chunks))" for h :: bytes and n
    by (induction chunks arbitrary: h n) simp_all
  from this [of "[]" 0] show ?thesis by (simp add: checksum_stream_def checksum_buffer_def)
qed

record object_meta =
  om_key :: string
  om_bucket :: string
  om_size_bytes :: nat
  om_content_type :: string
  om_checksum :: checksum

record put_input =
  pi_key :: string
  pi_body :: bytes
  pi_content_type :: string

text \<open>The contract of \<open>contract.ts\<close>: put, head, get, exists and delete agree on every key.\<close>

locale storage_provider =
  fixes sput :: "put_input \<Rightarrow> 's \<Rightarrow> object_meta \<times> 's"
    and sget :: "string \<Rightarrow> 's \<Rightarrow> thrown + bytes \<times> object_meta"
    and sdelete :: "string \<Rightarrow> 's \<Rightarrow> 's"
    and sexists :: "string \<Rightarrow> 's \<Rightarrow> bool"
    and shead :: "string \<Rightarrow> 's \<Rightarrow> object_meta option"
  assumes get_put: "sget (pi_key i) (snd (sput i s)) = Inr (pi_body i, fst (sput i s))"
    and get_put_other: "k \<noteq> pi_key i \<Longrightarrow> sget k (snd (sput i s)) = sget k s"
    and get_delete: "sget k (sdelete k' s) = (if k = k' then Inl (OtherErr (''Object not found: '' @ k)) else sget k s)"
    and exists_get: "sexists k s \<longleftrightarrow> (\<exists>x. sget k s = Inr x)"
    and head_get: "shead k s = (case sget k s of Inl _ \<Rightarrow> None | Inr (_, meta) \<Rightarrow> Some meta)"
begin

text \<open>Writing again under a key that holds the same object changes nothing a client can see.\<close>

lemma put_overwrites: "sget k (snd (sput i (snd (sput i' s)))) =
    (if k = pi_key i then Inr (pi_body i, fst (sput i (snd (sput i' s)))) else
     if k = pi_key i' then Inr (pi_body i', fst (sput i' s)) else sget k s)"
  by (cases "k = pi_key i") (auto simp: get_put get_put_other)

lemma head_put: "shead (pi_key i) (snd (sput i s)) = Some (fst (sput i s))"
  by (simp add: head_get get_put)

lemma delete_absent: "\<not> sexists k (sdelete k s) \<and> shead k (sdelete k s) = None"
  by (simp add: exists_get head_get get_delete)

lemma delete_put_other: "k \<noteq> pi_key i \<Longrightarrow> sget k (sdelete (pi_key i) (snd (sput i s))) = sget k s"
  by (simp add: get_delete get_put_other)

end

subsection \<open>The in-memory provider\<close>

type_synonym memory = "string \<rightharpoonup> bytes \<times> object_meta"

definition mem_put :: "(bytes \<Rightarrow> string) \<Rightarrow> string \<Rightarrow> put_input \<Rightarrow> memory \<Rightarrow> object_meta \<times> memory" where
  "mem_put sha256 bucket i objects =
     (let c = checksum_buffer sha256 (pi_body i);
          meta = \<lparr> om_key = pi_key i, om_bucket = bucket, om_size_bytes = ck_size_bytes c,
                   om_content_type = pi_content_type i, om_checksum = c \<rparr>
      in (meta, objects(pi_key i \<mapsto> (pi_body i, meta))))"

definition mem_get :: "string \<Rightarrow> memory \<Rightarrow> thrown + bytes \<times> object_meta" where
  "mem_get k objects = (case objects k of
     None \<Rightarrow> Inl (OtherErr (''Object not found: '' @ k)) | Some entry \<Rightarrow> Inr entry)"

definition mem_delete :: "string \<Rightarrow> memory \<Rightarrow> memory" where
  "mem_delete k objects = objects(k := None)"

definition mem_exists :: "string \<Rightarrow> memory \<Rightarrow> bool" where
  "mem_exists k objects \<longleftrightarrow> objects k \<noteq> None"

definition mem_head :: "string \<Rightarrow> memory \<Rightarrow> object_meta option" where
  "mem_head k objects = map_option snd (objects k)"

definition mem_signed_url :: "string \<Rightarrow> string \<Rightarrow> string \<Rightarrow> string" where
  "mem_signed_url bucket k m = ''https://test-storage.local/'' @ bucket @ ''/'' @ k @ ''?method='' @ m"

interpretation mem: storage_provider "mem_put sha256 bucket" mem_get mem_delete mem_exists mem_head
  for sha256 bucket
  by unfold_locales (auto simp: mem_put_def mem_get_def mem_delete_def mem_exists_def mem_head_def Let_def
      split: option.splits)

lemma mem_put_checksum: "om_checksum (fst (mem_put sha256 bucket i s)) = checksum_buffer sha256 (pi_body i)"
  by (simp add: mem_put_def Let_def)

end
