(* ===== verification/Pipeline.thy ===== *)
theory Pipeline
  imports StructureLaws Errors Pagination Storage
begin

text \<open>
  Format detection, the quality report, hashing and the orchestration of the ingestion package
  (\<open>detect-format.ts\<close>, \<open>quality-report.ts\<close>, \<open>hashing.ts\<close>, \<open>config.ts\<close>,
  \<open>pipeline.ts\<close>).  The content sniffer (package \<open>file-type\<close>), SHA-256 and the three document
  parsers are parameters; a configuration is a record of the limits the pipeline reads, with its
  JSON form for the fingerprint.
\<close>

subsection \<open>Hashing and configuration\<close>

definition sha256_hex :: "(bytes \<Rightarrow> string) \<Rightarrow> string \<Rightarrow> string" where
  "sha256_hex sha256 text = sha256 (utf8_encode text)"

definition config_hash :: "(bytes \<Rightarrow> string) \<Rightarrow> json \<Rightarrow> string" where
  "config_hash sha256 config = sha256_hex sha256 (stable_stringify config)"

record ingestion_config =
  cf_pipeline_version :: string
  cf_normalization_version :: string
  cf_max_file_size_bytes :: nat
  cf_max_pages :: nat
  cf_max_epub_entry_count :: nat
  cf_max_epub_uncompressed_bytes :: nat
  cf_max_epub_entry_uncompressed_bytes :: nat
  cf_parser_timeout_ms :: nat
  cf_normalization_timeout_ms :: nat
  cf_dehyphenate :: bool
  cf_header_footer_threshold :: rat
  cf_min_chars_per_page :: nat
  cf_ocr_language :: string
  cf_ocr_timeout_ms :: nat
  cf_ocr_raster_scale :: rat
  cf_max_image_dimension_px :: nat
  cf_max_image_pixels :: nat
  cf_max_image_pages :: nat
  cf_ocr_low_confidence :: rat

definition DEFAULT_INGESTION_CONFIG :: ingestion_config where
  "DEFAULT_INGESTION_CONFIG =
     \<lparr> cf_pipeline_version = ''ingestion.v1'', cf_normalization_version = ''normalize.v2'',
       cf_max_file_size_bytes = 200 * 1024 * 1024, cf_max_pages = 3000,
       cf_max_epub_entry_count = 10000, cf_max_epub_uncompressed_bytes = 500 * 1024 * 1024,
       cf_max_epub_entry_uncompressed_bytes = 100 * 1024 * 1024, cf_parser_timeout_ms = 120000,
       cf_normalization_timeout_ms = 60000, cf_dehyphenate = True,
       cf_header_footer_threshold = 6 / 10, cf_min_chars_per_page = 20, cf_ocr_language = ''eng'',
       cf_ocr_timeout_ms = 60000, cf_ocr_raster_scale = 2, cf_max_image_dimension_px = 10000,
       cf_max_image_pixels = 100000000, cf_max_image_pages = 3000, cf_ocr_low_confidence = 6 / 10 \<rparr>"

text \<open>Two configurations have the same fingerprint text exactly when they are the same up to key order.\<close>

lemma config_hash_key_order: "wf_json a \<Longrightarrow> same_json a b \<Longrightarrow> config_hash sha256 a = config_hash sha256 b"
  using stable_stringify_same by (simp add: config_hash_def)

subsection \<open>Format detection\<close>

record format_detection_result =
  fd_source_kind :: source_kind
  fd_sniffed_mime :: string
  fd_match :: bool

definition PDF_MAGIC :: bytes where "PDF_MAGIC = [37, 80, 68, 70, 45]"

definition IMAGE_MIME_TYPES :: "string list" where
  "IMAGE_MIME_TYPES = [''image/jpeg'', ''image/png'', ''image/webp'', ''image/tiff'']"

definition detect_format :: "(bytes \<Rightarrow> string option) \<Rightarrow> bytes \<Rightarrow> string \<Rightarrow> thrown + format_detection_result" where
  "detect_format file_type buffer declared =
     (if buffer = [] then Inl (AppErr (InvalidFileError ''Uploaded file is empty.''))
      else if take 5 buffer = PDF_MAGIC
      then Inr \<lparr> fd_source_kind = PDF, fd_sniffed_mime = ''application/pdf'', fd_match = (declared = ''application/pdf'') \<rparr>
      else let sniffed = file_type buffer in
      if sniffed = Some ''application/epub+zip''
      then Inr \<lparr> fd_source_kind = EPUB, fd_sniffed_mime = ''application/epub+zip'', fd_match = (declared = ''application/epub+zip'') \<rparr>
      else if sniffed \<noteq> None \<and> the sniffed \<in> set IMAGE_MIME_TYPES
      then Inr \<lparr> fd_source_kind = IMAGE_SET, fd_sniffed_mime = the sniffed, fd_match = (declared = the sniffed) \<rparr>
      else if sniffed = Some ''application/zip'' \<and> declared = ''application/epub+zip''
      then Inr \<lparr> fd_source_kind = EPUB, fd_sniffed_mime = ''application/zip'', fd_match = False \<rparr>
      else Inl (AppErr (UnsupportedFormatError (''Unrecognized or unsupported file format (sniffed: ''
        @ (case sniffed of Some m \<Rightarrow> m | None \<Rightarrow> ''unknown'') @ '').''))))"

text \<open>A PDF is recognised by its bytes whatever the client declares, and a failure is terminal.\<close>

lemma detect_format_pdf: "take 5 buffer = PDF_MAGIC \<Longrightarrow>
  \<exists>r. detect_format ft buffer declared = Inr r \<and> fd_source_kind r = PDF"
  by (auto simp: detect_format_def PDF_MAGIC_def)

lemma detect_format_error: "detect_format ft buffer declared = Inl e \<Longrightarrow> is_terminal_ingestion_error e"
  by (auto simp: detect_format_def Let_def is_terminal_ingestion_error_def ingestion_error_classes
      ingestion_error_def app_error_of_def split: if_splits)

subsection \<open>The quality report\<close>

datatype qc_outcome = PASS | WARN | NEEDS_REVIEW

fun OUTCOME_RANK :: "qc_outcome \<Rightarrow> nat" where
  "OUTCOME_RANK PASS = 0"
| "OUTCOME_RANK WARN = 1"
| "OUTCOME_RANK NEEDS_REVIEW = 2"

text \<open>The detail of a check, as the values its text prints.\<close>

datatype qc_detail = Retained rat | MissingPages "nat list" | PagesNeedReview nat

record qc_check =
  qc_name :: string
  qc_check_outcome :: qc_outcome
  qc_affected :: "nat list"
  qc_info :: "qc_detail option"

record quality_report =
  qr_outcome :: qc_outcome
  qr_checks :: "qc_check list"

definition check_content_loss_ratio :: "nat \<Rightarrow> nat \<Rightarrow> qc_check" where
  "check_content_loss_ratio raw_chars normalized_chars =
     (if raw_chars = 0
      then \<lparr> qc_name = ''content_loss_ratio'', qc_check_outcome = PASS, qc_affected = [], qc_info = None \<rparr>
      else let retained = (of_nat normalized_chars / of_nat raw_chars :: rat)
      in \<lparr> qc_name = ''content_loss_ratio'',
           qc_check_outcome = (if retained < 4 / 10 then NEEDS_REVIEW else if retained < 7 / 10 then WARN else PASS),
           qc_affected = [], qc_info = Some (Retained retained) \<rparr>)"

definition check_empty_chapters :: "canonical_chapter list \<Rightarrow> qc_check" where
  "check_empty_chapters chapters =
     (let empty = map ch_order (filter (\<lambda>c. length (ch_paragraphs c) = 0) chapters)
      in \<lparr> qc_name = ''empty_chapters'', qc_check_outcome = (if length empty > 0 then NEEDS_REVIEW else PASS),
           qc_affected = empty, qc_info = None \<rparr>)"

text \<open>The loop's state: the chapter each long text was first seen in, and the affected chapters.\<close>

definition duplicate_step :: "nat \<times> string \<Rightarrow> (string \<times> nat) list \<times> nat list \<Rightarrow> (string \<times> nat) list \<times> nat list" where
  "duplicate_step p st = (case (p, st) of ((chapter, text), (seen, affected)) \<Rightarrow>
     if length text < 40 then (seen, affected)
     else (case map_of seen text of
         Some existing \<Rightarrow> (seen, List.insert chapter (List.insert existing affected))
       | None \<Rightarrow> (seen @ [(text, chapter)], affected)))"

definition chapter_texts :: "canonical_chapter list \<Rightarrow> (nat \<times> string) list" where
  "chapter_texts chapters = concat (map (\<lambda>c. map (\<lambda>p. (ch_order c, rp_text (pa_body p))) (ch_paragraphs c)) chapters)"

definition check_duplicate_paragraphs :: "canonical_chapter list \<Rightarrow> qc_check" where
  "check_duplicate_paragraphs chapters =
     (let affected = snd (fold duplicate_step (chapter_texts chapters) ([], []))
      in \<lparr> qc_name = ''duplicate_paragraphs'', qc_check_outcome = (if length affected > 0 then WARN else PASS),
           qc_affected = sort affected, qc_info = None \<rparr>)"

definition check_page_coverage :: "extracted_page list \<Rightarrow> qc_check" where
  "check_page_coverage pages =
     (let numbers = sort (map ep_page_number pages);
          max_page = (if numbers = [] then 0 else last numbers);
          missing = filter (\<lambda>n. n \<notin> set numbers) [1..<max_page + 1];
          needs_review = length (filter (\<lambda>p. ep_status p \<noteq> PageOk) pages)
      in \<lparr> qc_name = ''page_coverage'',
           qc_check_outcome = (if length missing > 0 then NEEDS_REVIEW else if needs_review > 0 then WARN else PASS),
           qc_affected = [],
           qc_info = (if length missing > 0 then Some (MissingPages missing)
             else if needs_review > 0 then Some (PagesNeedReview needs_review) else None) \<rparr>)"

definition worst_outcome :: "qc_check list \<Rightarrow> qc_outcome" where
  "worst_outcome checks = fold (\<lambda>c worst. if OUTCOME_RANK (qc_check_outcome c) > OUTCOME_RANK worst
     then qc_check_outcome c else worst) checks PASS"

definition build_quality_report ::
  "canonical_chapter list \<Rightarrow> nat \<Rightarrow> nat \<Rightarrow> extracted_page list option \<Rightarrow> quality_report" where
  "build_quality_report chapters raw_chars normalized_chars pages =
     (let checks = [check_content_loss_ratio raw_chars normalized_chars, check_empty_chapters chapters,
            check_duplicate_paragraphs chapters]
          @ (case pages of None \<Rightarrow> [] | Some ps \<Rightarrow> [check_page_coverage ps])
      in \<lparr> qr_outcome = worst_outcome checks, qr_checks = checks \<rparr>)"

lemma outcome_rank_inj: "OUTCOME_RANK a = OUTCOME_RANK b \<Longrightarrow> a = b"
  by (cases a; cases b) simp_all

lemma worst_outcome_rank:
  "OUTCOME_RANK (worst_outcome checks) = Max (insert 0 (OUTCOME_RANK ` qc_check_outcome ` set checks))"
proof (induction checks rule: rev_induct)
  case (snoc c cs)
  let ?S = "insert 0 (OUTCOME_RANK ` qc_check_outcome ` set cs)"
  have "OUTCOME_RANK (worst_outcome (cs @ [c])) = max (OUTCOME_RANK (qc_check_outcome c)) (OUTCOME_RANK (worst_outcome cs))"
    by (auto simp: worst_outcome_def)
  also have "\<dots> = Max (insert (OUTCOME_RANK (qc_check_outcome c)) ?S)" using snoc by simp
  also have "insert (OUTCOME_RANK (qc_check_outcome c)) ?S = insert 0 (OUTCOME_RANK ` qc_check_outcome ` set (cs @ [c]))" by auto
  finally show ?case .
qed (simp add: worst_outcome_def)

lemma duplicate_step_fold:
  assumes "fold duplicate_step ps ([], []) = (seen, affected)"
  shows "map_of seen t = (if length t < 40 then None else map_option fst (find_row (\<lambda>p. snd p = t) ps))"
  using assms
proof (induction ps arbitrary: seen affected rule: rev_induct)
  case (snoc p ps)
  obtain seen0 affected0 where st: "fold duplicate_step ps ([], []) = (seen0, affected0)" by force
  obtain c x where p: "p = (c, x)" by force
  have "duplicate_step p (seen0, affected0) = (seen, affected)" using snoc.prems st by simp
  then show ?case using snoc.IH [OF st]
    by (cases "find_row (\<lambda>p. snd p = t) ps")
      (auto simp: duplicate_step_def p find_row_append map_add_def split: if_splits option.splits)
qed simp

subsection \<open>The pipeline\<close>

record ingestion_result =
  ir_source_kind :: source_kind
  ir_chapters :: "canonical_chapter list"
  ir_pages :: "extracted_page list option"
  ir_warnings :: "string list"
  ir_quality_report :: quality_report
  ir_parser_identity :: parser_identity
  ir_ocr_identity :: "parser_identity option"
  ir_normalization_version :: string
  ir_config_hash :: string
  ir_raw_text_content_hash :: string
  ir_content_hash :: string
  ir_markdown :: string
  ir_title :: "string option"
  ir_language :: "string option"

definition sum_block_chars :: "extracted_block list \<Rightarrow> nat" where
  "sum_block_chars blocks = fold (\<lambda>b n. n + length (eb_text b)) blocks 0"

definition paragraph_texts :: "canonical_chapter list \<Rightarrow> string list" where
  "paragraph_texts chapters = map (rp_text \<circ> pa_body) (all_paragraphs chapters)"

text \<open>
  \<open>parse\<close> is the parser of a source kind applied to the buffer, the declared type, the
  configuration and the OCR provider; it may throw.
\<close>

definition run_ingestion_pipeline ::
  "(bytes \<Rightarrow> string) \<Rightarrow> (bytes \<Rightarrow> string option) \<Rightarrow> (source_kind \<Rightarrow> bytes \<Rightarrow> string \<Rightarrow> thrown + extracted_document)
     \<Rightarrow> parser_identity option \<Rightarrow> ingestion_config \<Rightarrow> json \<Rightarrow> bytes \<Rightarrow> string \<Rightarrow> thrown + ingestion_result" where
  "run_ingestion_pipeline sha256 file_type parse ocr_identity config config_json buffer declared =
     (if length buffer > cf_max_file_size_bytes config
      then Inl (AppErr (FileTooLargeError (''File is '' @ show_nat (length buffer)
        @ '' bytes, exceeding the configured limit of '' @ show_nat (cf_max_file_size_bytes config) @ ''.'')))
      else bindE (detect_format file_type buffer declared) (\<lambda>format.
      bindE (parse (fd_source_kind format) buffer declared) (\<lambda>document.
      let raw_char_count = sum_block_chars (ed_blocks document) in
      case detect_structure document (cf_dehyphenate config) of (chapters, warnings) \<Rightarrow>
      let normalized_char_count = sum_list (map length (paragraph_texts chapters))
      in Inr \<lparr> ir_source_kind = fd_source_kind format, ir_chapters = chapters, ir_pages = ed_pages document,
           ir_warnings = warnings,
           ir_quality_report = build_quality_report chapters raw_char_count normalized_char_count (ed_pages document),
           ir_parser_identity = ed_parser_identity document, ir_ocr_identity = ocr_identity,
           ir_normalization_version = cf_normalization_version config,
           ir_config_hash = config_hash sha256 config_json,
           ir_raw_text_content_hash = sha256_hex sha256 (join_with [newline] (map eb_text (ed_blocks document))),
           ir_content_hash = sha256_hex sha256 (join_with [newline] (paragraph_texts chapters)),
           ir_markdown = render_markdown chapters,
           ir_title = ed_title document, ir_language = ed_language document \<rparr>)))"

lemma run_ingestion_pipeline_Inr:
  assumes "run_ingestion_pipeline sha256 ft parse ocr cf cj buffer declared = Inr r"
  obtains format document where "detect_format ft buffer declared = Inr format"
    "parse (fd_source_kind format) buffer declared = Inr document"
    "detect_structure document (cf_dehyphenate cf) = (ir_chapters r, ir_warnings r)"
    "ir_pages r = ed_pages document"
    "ir_content_hash r = sha256_hex sha256 (join_with [newline] (paragraph_texts (ir_chapters r)))"
    "ir_quality_report r = build_quality_report (ir_chapters r) (sum_block_chars (ed_blocks document))
       (sum_list (map length (paragraph_texts (ir_chapters r)))) (ed_pages document)"
proof -
  obtain format document where fd: "detect_format ft buffer declared = Inr format"
    "parse (fd_source_kind format) buffer declared = Inr document"
    using assms by (auto simp: run_ingestion_pipeline_def bindE_eq_Inr split: if_splits)
  obtain chapters warnings where "detect_structure document (cf_dehyphenate cf) = (chapters, warnings)" by force
  then show ?thesis using assms fd that [of format document]
    by (auto simp: run_ingestion_pipeline_def Let_def split: if_splits)
qed

text \<open>The content of a paragraph text has no line break, so the hashed text determines the texts.\<close>

lemma pipeline_texts_normal:
  assumes "run_ingestion_pipeline sha256 ft parse ocr cf cj buffer declared = Inr r" "t \<in> set (paragraph_texts (ir_chapters r))"
  shows "paragraph_text_ok t"
proof -
  obtain document where d: "detect_structure document (cf_dehyphenate cf) = (ir_chapters r, ir_warnings r)"
    using run_ingestion_pipeline_Inr [OF assms(1)] by blast
  obtain c p where "c \<in> set (ir_chapters r)" "p \<in> set (ch_paragraphs c)" "t = rp_text (pa_body p)"
    using assms(2) by (auto simp: paragraph_texts_def all_paragraphs_def)
  then show ?thesis using detect_structure_paragraphs(1) [OF d] by blast
qed

lemma pipeline_texts_determined:
  assumes "run_ingestion_pipeline sha256 ft parse ocr cf cj buffer declared = Inr r"
    and "run_ingestion_pipeline sha256 ft' parse' ocr' cf' cj' buffer' declared' = Inr r'"
    and "join_with [newline] (paragraph_texts (ir_chapters r)) = join_with [newline] (paragraph_texts (ir_chapters r'))"
  shows "paragraph_texts (ir_chapters r) = paragraph_texts (ir_chapters r')"
proof -
  let ?a = "paragraph_texts (ir_chapters r)" and ?b = "paragraph_texts (ir_chapters r')"
  have no: "newline \<notin> set t" "t \<noteq> []" if "t \<in> set ?a \<union> set ?b" for t
    using that pipeline_texts_normal [OF assms(1)] pipeline_texts_normal [OF assms(2)]
    by (auto simp: paragraph_text_ok_def normal_form_def)
  have nil: "join_with [newline] ws = [] \<longleftrightarrow> ws = [] \<or> ws = [[]]" for ws :: "string list"
    by (induction "[newline]" ws rule: join_with.induct) simp_all
  show ?thesis
  proof (cases "?a = [] \<or> ?b = []")
    case True
    then show ?thesis using assms(3) no nil [of ?a] nil [of ?b] by fastforce
  next
    case False
    then show ?thesis using join_with_inj [of ?a ?b newline] no assms(3) by blast
  qed
qed

end
