(* ===== verification/BookStore.thy ===== *)
theory BookStore
  imports JobStore Pipeline
begin

text \<open>
  The tables of the library an ingestion writes: books and their versions, the parsed pages, the
  chapters, sections and paragraphs, with the unique indexes that
  \<open>prisma/migrations/0001_init/migration.sql\<close> declares on versions.
\<close>

datatype book_status =
    BCreated | BUploaded | BParsing | BParsed | BStructured | BAnalyzing | BAnalyzed | BCasting
  | BScripting | BScripted | BGenerating | BAssembling | BCompleted | BFailed | BCancelled | BNeedsReview

fun show_book_status :: "book_status \<Rightarrow> string" where
  "show_book_status BCreated = ''CREATED''"
| "show_book_status BUploaded = ''UPLOADED''"
| "show_book_status BParsing = ''PARSING''"
| "show_book_status BParsed = ''PARSED''"
| "show_book_status BStructured = ''STRUCTURED''"
| "show_book_status BAnalyzing = ''ANALYZING''"
| "show_book_status BAnalyzed = ''ANALYZED''"
| "show_book_status BCasting = ''CASTING''"
| "show_book_status BScripting = ''SCRIPTING''"
| "show_book_status BScripted = ''SCRIPTED''"
| "show_book_status BGenerating = ''GENERATING''"
| "show_book_status BAssembling = ''ASSEMBLING''"
| "show_book_status BCompleted = ''COMPLETED''"
| "show_book_status BFailed = ''FAILED''"
| "show_book_status BCancelled = ''CANCELLED''"
| "show_book_status BNeedsReview = ''NEEDS_REVIEW''"

text \<open>The metadata a user edits.\<close>

record book_info =
  bm_title :: string
  bm_author :: "string option"
  bm_language :: string
  bm_description :: "string option"
  bm_series :: "string option"
  bm_series_index :: "int option"
  bm_publication_year :: "int option"
  bm_publisher :: "string option"

record book =
  bk_id :: string
  bk_tenant_id :: string
  bk_status :: book_status
  bk_status_changed :: int
  bk_needs_review :: bool
  bk_current_version :: "string option"
  bk_deleted_at :: "int option"
  bk_info :: book_info
  bk_pipeline_version :: string
  bk_current_script :: "string option"
  bk_current_audiobook :: "string option"
  bk_row_version :: nat
  bk_created_by :: string
  bk_created :: int
  bk_updated :: int

datatype version_status = READY | PARTIAL_OCR | VERSION_NEEDS_REVIEW

record book_version =
  bv_id :: string
  bv_tenant_id :: string
  bv_book_id :: string
  bv_file_id :: string
  bv_version :: nat
  bv_structure_label :: string
  bv_is_current :: bool
  bv_content_hash :: string
  bv_raw_text_hash :: string
  bv_pipeline_version :: string
  bv_parser_strategy :: string
  bv_parser_model :: string
  bv_ocr_model :: "string option"
  bv_normalizer_model :: string
  bv_parser_options :: json
  bv_manifest_key :: string
  bv_manifest_hash :: string
  bv_manifest_verified_at :: int
  bv_bucket :: string
  bv_status :: version_status
  bv_qc :: quality_report
  bv_pages_total :: "nat option"
  bv_pages_ok :: "nat option"
  bv_pages_needs_review :: "nat option"
  bv_degraded :: bool
  bv_started :: int
  bv_completed :: int
  bv_superseded_at :: "int option"
  bv_superseded_by :: "string option"

datatype file_status = ADMITTED | REJECTED | QUARANTINED

datatype storage_class = STANDARD | INFREQUENT | ARCHIVED | EXPIRED

record book_file =
  bf_id :: string
  bf_storage_key :: string
  bf_mime :: string
  bf_sniffed_mime :: "string option"
  bf_tenant_id :: string
  bf_book_id :: string
  bf_kind :: source_kind
  bf_original_name :: string
  bf_size :: nat
  bf_content_hash :: string
  bf_status :: file_status
  bf_validation :: "json option"
  bf_bucket :: string
  bf_dedup_from :: "string option"
  bf_class :: storage_class
  bf_created :: int

record parsed_page =
  pp_id :: string
  pp_tenant_id :: string
  pp_book_id :: string
  pp_version_id :: string
  pp_page :: extracted_page
  pp_ocr_model :: "string option"

record chapter_row =
  cr_id :: string
  cr_tenant_id :: string
  cr_book_id :: string
  cr_version_id :: string
  cr_order :: nat
  cr_spine_start :: nat
  cr_spine_end :: nat
  cr_title :: "string option"
  cr_matter :: matter_type
  cr_char_count :: nat

record section_row =
  sr_id :: string
  sr_tenant_id :: string
  sr_book_id :: string
  sr_version_id :: string
  sr_chapter_id :: string
  sr_order :: nat
  sr_spine_start :: nat
  sr_spine_end :: nat
  sr_title :: "string option"

record paragraph_row =
  pr_id :: string
  pr_tenant_id :: string
  pr_book_id :: string
  pr_version_id :: string
  pr_chapter_id :: string
  pr_section_id :: "string option"
  pr_order :: nat
  pr_spine :: nat
  pr_text :: string
  pr_content_hash :: string
  pr_char_count :: nat
  pr_page :: "nat option"
  pr_page_end :: "nat option"
  pr_locator :: source_locator
  pr_raw_hash :: string
  pr_method :: extraction_method
  pr_confidence :: "rat option"
  pr_parsed_page_id :: "string option"

record 's ingest_world = job_db +
  iw_books :: "book list"
  iw_versions :: "book_version list"
  iw_pages :: "parsed_page list"
  iw_chapters :: "chapter_row list"
  iw_sections :: "section_row list"
  iw_paragraphs :: "paragraph_row list"
  iw_store :: 's

definition update_book :: "string \<Rightarrow> (book \<Rightarrow> book) \<Rightarrow> book list \<Rightarrow> thrown + book list" where
  "update_book i f books = (case find_row (\<lambda>b. bk_id b = i) books of
     None \<Rightarrow> Inl (CodedErr ''P2025'' ''Record to update not found.'')
   | Some _ \<Rightarrow> Inr (update_where (\<lambda>b. bk_id b = i) f books))"

text \<open>
  An insert is checked, when it is executed, against the primary key and the partial unique indexes
  \<open>book_version_current_key\<close> (one current version of a book) and
  \<open>book_version_pipeline_content_hash_key\<close>.
\<close>

definition version_conflict :: "book_version \<Rightarrow> book_version list \<Rightarrow> bool" where
  "version_conflict v vs \<longleftrightarrow> list_ex (\<lambda>u. bv_id u = bv_id v
     \<or> (bv_is_current v \<and> bv_is_current u \<and> bv_book_id u = bv_book_id v)
     \<or> (bv_superseded_at v = None \<and> bv_superseded_at u = None \<and> bv_book_id u = bv_book_id v
        \<and> bv_pipeline_version u = bv_pipeline_version v \<and> bv_content_hash u = bv_content_hash v)) vs"

definition create_version :: "book_version \<Rightarrow> book_version list \<Rightarrow> thrown + book_version list" where
  "create_version v vs = (if version_conflict v vs
     then Inl (CodedErr ''P2002'' ''Unique constraint failed'') else Inr (insert_row v vs))"

text \<open>What the indexes guarantee of the table.\<close>

definition versions_ok :: "book_version list \<Rightarrow> bool" where
  "versions_ok vs \<longleftrightarrow> distinct (map bv_id vs) \<and>
     (\<forall>b. length (filter (\<lambda>v. bv_is_current v \<and> bv_book_id v = b) vs) \<le> 1)"

interpretation book_update: keyed_update bk_id "\<lambda>b. b\<lparr> bk_status := s, bk_status_changed := now, bk_needs_review := r,
    bk_current_version := v \<rparr>" for s now r v
  by unfold_locales simp

lemma create_version_ok:
  assumes "versions_ok vs" "create_version v vs = Inr vs'"
  shows "versions_ok vs'"
proof -
  have no: "\<not> version_conflict v vs" and vs': "vs' = vs @ [v]"
    using assms(2) by (auto simp: create_version_def insert_row_def split: if_splits)
  have "bv_id v \<notin> bv_id ` set vs" using no by (auto simp: version_conflict_def list_ex_iff)
  moreover have "filter (\<lambda>u. bv_is_current u \<and> bv_book_id u = bv_book_id v) vs = []" if "bv_is_current v"
    using no that by (auto simp: version_conflict_def list_ex_iff filter_empty_conv)
  ultimately show ?thesis using assms(1) by (auto simp: vs' versions_ok_def)
qed

end
