(* ===== verification/Access.thy ===== *)
theory Access
  imports Json Errors
begin

text \<open>
  Authentication and authorisation: the principal of \<open>jwt-auth.guard.ts\<close>, the guards of
  \<open>apps/api/src/common/guards/\<close>, the ownership checks of \<open>common/tenant.ts\<close> and the
  audit trail of \<open>common/audit.service.ts\<close>.  A guard returns \<open>Inr True\<close> or throws.  Token
  verification (package \<open>jose\<close>) and key import are the parameter \<open>jwt_verify\<close>; claims are a
  JSON object.
\<close>

record principal =
  sub :: string
  tenant_id :: string
  roles :: "string list"
  scopes :: "string list"

subsection \<open>Bearer tokens\<close>

datatype key_source = JwksUrl string | PublicKeyPem string

record auth_config =
  jwt_jwks_url :: "string option"
  jwt_public_key :: "string option"
  jwt_issuer :: string
  jwt_audience :: string

text \<open>An optional string is true when it is present and not empty.\<close>

definition truthy :: "string option \<Rightarrow> bool" where
  "truthy s = (case s of None \<Rightarrow> False | Some t \<Rightarrow> t \<noteq> [])"

definition resolve_key :: "auth_config \<Rightarrow> key_source" where
  "resolve_key auth = (case jwt_jwks_url auth of
     Some url \<Rightarrow> if url \<noteq> [] then JwksUrl url
       else PublicKeyPem (case jwt_public_key auth of Some k \<Rightarrow> k | None \<Rightarrow> [])
   | None \<Rightarrow> PublicKeyPem (case jwt_public_key auth of Some k \<Rightarrow> k | None \<Rightarrow> []))"

definition require_string_claim :: "json \<Rightarrow> string \<Rightarrow> thrown + string" where
  "require_string_claim payload key = (case json_field payload key of
     Some (JStr v) \<Rightarrow> if v = [] then Inl (AppErr (AuthenticationError
         (msg_only (''Token missing required claim: '' @ key)))) else Inr v
   | _ \<Rightarrow> Inl (AppErr (AuthenticationError (msg_only (''Token missing required claim: '' @ key)))))"

text \<open>\<open>Array.isArray(v) ? v : []\<close>; entries that are not strings match no role and are dropped.\<close>

definition string_array_claim :: "json \<Rightarrow> string \<Rightarrow> string list" where
  "string_array_claim payload key = (case json_field payload key of
     Some (JArr js) \<Rightarrow> List.map_filter (\<lambda>j. case j of JStr s \<Rightarrow> Some s | _ \<Rightarrow> None) js
   | _ \<Rightarrow> [])"

definition jwt_auth_guard ::
  "(key_source \<Rightarrow> string \<Rightarrow> string \<Rightarrow> string \<Rightarrow> thrown + json) \<Rightarrow> auth_config option \<Rightarrow> string option
     \<Rightarrow> thrown + principal" where
  "jwt_auth_guard jwt_verify config header =
     (case header of
        None \<Rightarrow> Inl (AppErr (AuthenticationError (msg_only ''Missing bearer token.'')))
      | Some h \<Rightarrow>
          if \<not> starts_with ''Bearer '' h
          then Inl (AppErr (AuthenticationError (msg_only ''Missing bearer token.'')))
          else let token = drop (length ''Bearer '') h in
          (case config of
             None \<Rightarrow> Inl (AppErr (AuthenticationError
               (msg_only ''Authentication is not configured for this service.'')))
           | Some auth \<Rightarrow>
               (case bindE (jwt_verify (resolve_key auth) token (jwt_issuer auth) (jwt_audience auth))
                  (\<lambda>payload. bindE (require_string_claim payload ''sub'')
                  (\<lambda>s. bindE (require_string_claim payload ''tenant_id'')
                  (\<lambda>t. Inr \<lparr> sub = s, tenant_id = t,
                     roles = string_array_claim payload ''roles'',
                     scopes = string_array_claim payload ''scopes'' \<rparr>)))
                of Inl _ \<Rightarrow> Inl (AppErr (AuthenticationError (msg_only ''Invalid or expired token.'')))
                 | Inr p \<Rightarrow> Inr p)))"

definition metrics_auth_guard :: "string \<Rightarrow> string option \<Rightarrow> thrown + bool" where
  "metrics_auth_guard metrics_service_token header =
     (if header \<noteq> Some (''Bearer '' @ metrics_service_token)
      then Inl (AppErr (AuthenticationError (msg_only ''Invalid or missing service token.'')))
      else Inr True)"

subsection \<open>Roles\<close>

definition TENANT_ROLES :: "string list" where
  "TENANT_ROLES = [''TENANT_OWNER'', ''TENANT_MEMBER'']"

definition PLATFORM_ADMIN :: string where
  "PLATFORM_ADMIN = ''PLATFORM_ADMIN''"

definition tenant_role_guard :: "principal option \<Rightarrow> thrown + bool" where
  "tenant_role_guard who = (case who of
     None \<Rightarrow> Inl (AppErr (AuthorizationError
       (coded ''FORBIDDEN'' ''No authenticated principal for an authorized route.'')))
   | Some p \<Rightarrow>
       if PLATFORM_ADMIN \<in> set (roles p)
       then Inl (AppErr (AuthorizationError (coded ''ADMIN_CONTENT_ACCESS_DENIED''
         ''Administrative principals cannot reach tenant content or mint artifact access URLs.'')))
       else if \<not> list_ex (\<lambda>role. role \<in> set TENANT_ROLES) (roles p)
       then Inl (AppErr (AuthorizationError
         (coded ''FORBIDDEN'' ''Principal lacks a tenant role for this resource.'')))
       else Inr True)"

definition platform_admin_guard :: "principal option \<Rightarrow> thrown + bool" where
  "platform_admin_guard who = (case who of
     None \<Rightarrow> Inl (AppErr (AuthorizationError
       (coded ''FORBIDDEN'' ''No authenticated principal for an administrative route.'')))
   | Some p \<Rightarrow>
       if PLATFORM_ADMIN \<notin> set (roles p)
       then Inl (AppErr (AuthorizationError
         (coded ''FORBIDDEN'' ''This endpoint requires the PLATFORM_ADMIN role.'')))
       else Inr True)"

subsection \<open>Ownership\<close>

text \<open>The resource is given by its tenant, \<open>None\<close> when it was not found.\<close>

definition assert_tenant_ownership :: "string option \<Rightarrow> principal \<Rightarrow> string \<Rightarrow> thrown + unit" where
  "assert_tenant_ownership resource_tenant p not_found_message =
     (case resource_tenant of
        None \<Rightarrow> Inl (AppErr (NotFoundError (msg_only not_found_message)))
      | Some t \<Rightarrow> if t \<noteq> tenant_id p then Inl (AppErr (NotFoundError (msg_only not_found_message)))
                  else Inr ())"

definition require_role :: "principal \<Rightarrow> string \<Rightarrow> thrown + unit" where
  "require_role p role =
     (if role \<notin> set (roles p)
      then Inl (AppErr (AuthorizationError
        (msg_only (''This operation requires the '' @ role @ '' role.''))))
      else Inr ())"

subsection \<open>The audit trail\<close>

record correlation_context =
  cc_correlation_id :: "string option"
  cc_trace_id :: "string option"
  cc_request_id :: "string option"

datatype audit_outcome = SUCCESS | FAILURE

record audit_entry =
  ae_principal :: principal
  ae_action :: string
  ae_resource_type :: string
  ae_resource_id :: "string option"
  ae_book_id :: "string option"
  ae_tenant_id :: "string option"
  ae_outcome :: "audit_outcome option"
  ae_correlation :: "correlation_context option"
  ae_metadata :: "json option"

record audit_row =
  au_id :: string
  au_occurred_at :: int
  au_tenant_id :: string
  au_actor_kind :: string
  au_actor_user_id :: string
  au_action :: string
  au_resource_type :: string
  au_resource_id :: "string option"
  au_book_id :: "string option"
  au_request_id :: "string option"
  au_trace_id :: "string option"
  au_correlation_id :: "string option"
  au_outcome :: audit_outcome
  au_metadata :: "json option"

definition audit_build_row :: "string \<Rightarrow> int \<Rightarrow> audit_entry \<Rightarrow> audit_row" where
  "audit_build_row new_id now entry =
     (let corr = ae_correlation entry;
          correlation_id = Option.bind corr cc_correlation_id;
          request_id = Option.bind corr cc_request_id
      in \<lparr> au_id = new_id, au_occurred_at = now,
           au_tenant_id = (case ae_tenant_id entry of Some t \<Rightarrow> t | None \<Rightarrow> tenant_id (ae_principal entry)),
           au_actor_kind = ''USER'', au_actor_user_id = sub (ae_principal entry),
           au_action = ae_action entry, au_resource_type = ae_resource_type entry,
           au_resource_id = ae_resource_id entry, au_book_id = ae_book_id entry,
           au_request_id = (case request_id of Some r \<Rightarrow> Some r | None \<Rightarrow> correlation_id),
           au_trace_id = Option.bind corr cc_trace_id,
           au_correlation_id = correlation_id,
           au_outcome = (case ae_outcome entry of Some x \<Rightarrow> x | None \<Rightarrow> SUCCESS),
           au_metadata = ae_metadata entry \<rparr>)"

text \<open>
  \<open>record\<close> is best effort: a failing write (\<open>write_ok = False\<close>) is swallowed.  \<open>recordIn\<close> runs
  inside the caller's transaction and its failure is the caller's.
\<close>

definition audit_record :: "bool \<Rightarrow> string \<Rightarrow> int \<Rightarrow> audit_entry \<Rightarrow> audit_row list \<Rightarrow> audit_row list" where
  "audit_record write_ok new_id now entry trail =
     (if write_ok then insert_row (audit_build_row new_id now entry) trail else trail)"

definition audit_record_in :: "string \<Rightarrow> int \<Rightarrow> audit_entry \<Rightarrow> audit_row list \<Rightarrow> audit_row list" where
  "audit_record_in new_id now entry trail = insert_row (audit_build_row new_id now entry) trail"

datatype header_value = HNum nat | HStr string | HArr "string list"

definition first_header_value :: "header_value option \<Rightarrow> string option" where
  "first_header_value v = (case v of
     None \<Rightarrow> None | Some (HArr xs) \<Rightarrow> (case xs of [] \<Rightarrow> None | x # _ \<Rightarrow> Some x)
   | Some (HNum n) \<Rightarrow> Some (show_nat n) | Some (HStr s) \<Rightarrow> Some s)"

definition correlation_from_reply :: "(string \<Rightarrow> header_value option) \<Rightarrow> correlation_context" where
  "correlation_from_reply get_header =
     (let request_id = first_header_value (get_header ''X-Request-Id'')
      in \<lparr> cc_correlation_id = request_id,
           cc_trace_id = first_header_value (get_header ''X-Trace-Id''),
           cc_request_id = request_id \<rparr>)"

text \<open>A purged book is known by its audit row, which is never deleted.\<close>

definition book_purge_guard :: "audit_row list \<Rightarrow> string option \<Rightarrow> thrown + bool" where
  "book_purge_guard trail book_id =
     (if \<not> truthy book_id then Inr True
      else case find_row (\<lambda>a. au_resource_type a = ''book'' \<and> au_resource_id a = book_id
                            \<and> au_action a = ''BOOK_PURGED'') trail of
        Some _ \<Rightarrow> Inl (AppErr (GoneError (coded ''RESOURCE_PURGED''
          ''This book was permanently deleted and can no longer be accessed.'')))
      | None \<Rightarrow> Inr True)"

subsection \<open>Laws\<close>

definition thrown_status :: "thrown + 'a \<Rightarrow> nat option" where
  "thrown_status r = (case r of Inl e \<Rightarrow> Some (http_status_for_error e) | Inr _ \<Rightarrow> None)"

lemma jwt_auth_guard_error: "jwt_auth_guard v c h = Inl e \<Longrightarrow> http_status_for_error e = 401"
  by (auto simp: jwt_auth_guard_def AuthenticationError_def Let_def split: option.splits if_splits sum.splits)

lemma require_string_claim_nonempty: "require_string_claim p k = Inr v \<Longrightarrow> v \<noteq> []"
  by (auto simp: require_string_claim_def split: option.splits json.splits if_splits)

lemma jwt_auth_guard_claims:
  "jwt_auth_guard v c h = Inr p \<Longrightarrow> sub p \<noteq> [] \<and> tenant_id p \<noteq> []"
  by (auto simp: jwt_auth_guard_def Let_def bindE_eq_Inr dest: require_string_claim_nonempty
      split: option.splits if_splits sum.splits)

lemma book_purge_guard_append:
  "book_purge_guard trail b = Inl e \<Longrightarrow> book_purge_guard (trail @ later) b = Inl e"
  by (auto simp: book_purge_guard_def find_row_append split: option.splits if_splits)

end
