(* ===== verification/Jobs.thy ===== *)
theory Jobs
  imports JobStore Access
begin

text \<open>
  \<open>apps/api/src/jobs/jobs.service.ts\<close>: listing jobs and attempts with keyset cursors, reading a
  job, cooperative cancellation and operator replay.  The database client's transaction is
  \<open>with_transaction\<close>; the broker, the flag store and the success of an audit write are
  parameters, so what is proved of cancellation holds whatever they do.  Identifiers are compared
  as text; one reading of the clock serves one operation.
\<close>

subsection \<open>Queries\<close>

record list_jobs_query =
  lq_book_id :: "string option"
  lq_type :: "string option"
  lq_status :: "string option"
  lq_related_resource_id :: "string option"
  lq_created_after :: "string option"
  lq_created_before :: "string option"
  lq_sort :: "string option"
  lq_cursor :: "string option"
  lq_limit :: "string option"

datatype direction = Asc | Desc

definition SORT_FIELDS :: "string list" where
  "SORT_FIELDS = [''created_at'', ''completed_at'']"

text \<open>\<open>field in SORT_FIELDS\<close> is true of the names every object inherits, too.\<close>

definition inherited_names :: "string list" where
  "inherited_names = [''constructor'', ''__defineGetter__'', ''__defineSetter__'', ''hasOwnProperty'',
     ''__lookupGetter__'', ''__lookupSetter__'', ''isPrototypeOf'', ''propertyIsEnumerable'', ''toString'',
     ''valueOf'', ''__proto__'', ''toLocaleString'']"

definition parse_sort :: "string option \<Rightarrow> thrown + string \<times> direction" where
  "parse_sort raw = (if \<not> truthy raw then Inr (''created_at'', Desc)
     else let parts = split_on CHR '':'' (the raw);
              field = hd parts;
              dir = (if length parts > 1 then parts ! 1 else ''desc'')
          in if field = [] \<or> (field \<notin> set SORT_FIELDS \<and> field \<notin> set inherited_names)
                \<or> (dir \<noteq> ''asc'' \<and> dir \<noteq> ''desc'')
             then Inl (AppErr (ValidationError (detailed (msg_only
               (''sort must be one of '' @ join_with '', '' SORT_FIELDS @ '' with :asc or :desc.''))
               (Some ''sort'') ''invalid_enum'')))
             else Inr (field, if dir = ''asc'' then Asc else Desc))"

definition parse_multi :: "string option \<Rightarrow> string list \<Rightarrow> string \<Rightarrow> thrown + string list" where
  "parse_multi raw allowed field = (if \<not> truthy raw then Inr []
     else let values = filter (\<lambda>v. v \<noteq> []) (map trim (split_on CHR '','' (the raw)));
              invalid = filter (\<lambda>v. v \<notin> set allowed) values
          in if invalid \<noteq> []
             then Inl (AppErr (ValidationError (detailed (msg_only
               (field @ '' contains '' @ show_nat (length invalid) @ '' unrecognized value(s).''))
               (Some field) ''invalid_enum'')))
             else Inr values)"

definition parse_timestamp :: "(string \<Rightarrow> int option) \<Rightarrow> string \<Rightarrow> string \<Rightarrow> thrown + int" where
  "parse_timestamp other_date raw field = (case parse_date other_date raw of
     None \<Rightarrow> Inl (AppErr (ValidationError (detailed (msg_only
       (field @ '' must be an RFC 3339 timestamp.'')) (Some field) ''invalid_format'')))
   | Some t \<Rightarrow> Inr t)"

text \<open>An optional bound, absent when the parameter is not given.\<close>

definition parse_bound :: "(string \<Rightarrow> int option) \<Rightarrow> string option \<Rightarrow> string \<Rightarrow> thrown + int option" where
  "parse_bound other_date raw field = (if \<not> truthy raw then Inr None
     else bindE (parse_timestamp other_date (the raw) field) (\<lambda>t. Inr (Some t)))"

definition opt_match :: "string option \<Rightarrow> string option \<Rightarrow> bool" where
  "opt_match wanted actual \<longleftrightarrow> \<not> truthy wanted \<or> actual = wanted"

definition build_job_where ::
  "(string \<Rightarrow> int option) \<Rightarrow> (job \<Rightarrow> bool) \<Rightarrow> list_jobs_query \<Rightarrow> thrown + (job \<Rightarrow> bool)" where
  "build_job_where other_date base query =
     bindE (parse_multi (lq_status query) JOB_STATUSES ''status'') (\<lambda>statuses.
     bindE (parse_multi (lq_type query) JOB_TYPES ''type'') (\<lambda>types.
     bindE (parse_bound other_date (lq_created_after query) ''created_after'') (\<lambda>lower.
     bindE (parse_bound other_date (lq_created_before query) ''created_before'') (\<lambda>upper.
     Inr (\<lambda>j. base j
       \<and> opt_match (lq_book_id query) (jb_book_id j)
       \<and> opt_match (lq_related_resource_id query) (Some (jb_related_id j))
       \<and> (statuses = [] \<or> show_status (jb_status j) \<in> set statuses)
       \<and> (types = [] \<or> jb_type j \<in> set types)
       \<and> (case lower of None \<Rightarrow> True | Some t \<Rightarrow> t < jt_created (jb_times j))
       \<and> (case upper of None \<Rightarrow> True | Some t \<Rightarrow> jt_created (jb_times j) < t))))))"

text \<open>\<open>String(cursor.v)\<close>\<close>

fun js_string :: "json \<Rightarrow> string" where
  "js_string JNull = ''null''"
| "js_string (JBool b) = (if b then ''true'' else ''false'')"
| "js_string (JNum n) = show_int n"
| "js_string (JStr s) = s"
| "js_string (JArr js) = join_with '','' (map (\<lambda>j. case j of JNull \<Rightarrow> [] | _ \<Rightarrow> js_string j) js)"
| "js_string (JObj es) = ''[object Object]''"

text \<open>The column a listing is sorted by.\<close>

definition sort_column :: "string \<Rightarrow> job \<Rightarrow> int option" where
  "sort_column field j = (if field = ''created_at'' then Some (jt_created (jb_times j)) else jt_completed (jb_times j))"

definition sort_key_of :: "string \<Rightarrow> job \<Rightarrow> pg_time \<times> string" where
  "sort_key_of field j = (pg_time_of (sort_column field j), jb_id j)"

text \<open>
  The keyset boundary.  An invalid date is refused by the database client; comparisons with a null
  column are not true.
\<close>

definition cursor_boundary ::
  "(string \<Rightarrow> int option) \<Rightarrow> string \<Rightarrow> cursor_payload \<Rightarrow> direction \<Rightarrow> thrown + (job \<Rightarrow> bool)" where
  "cursor_boundary other_date field cursor direction =
     (case parse_date other_date (js_string (cp_v cursor)) of
        None \<Rightarrow> Inl (OtherErr ''Invalid value for argument: Provided Date object is invalid.'')
      | Some value \<Rightarrow> Inr (\<lambda>j. case sort_column field j of
            None \<Rightarrow> False
          | Some t \<Rightarrow> (case direction of
                Desc \<Rightarrow> t < value \<or> (t = value \<and> jb_id j < cp_id cursor)
              | Asc \<Rightarrow> value < t \<or> (t = value \<and> cp_id cursor < jb_id j))))"

definition order_jobs :: "string \<Rightarrow> direction \<Rightarrow> job list \<Rightarrow> job list" where
  "order_jobs field direction js = (case direction of
     Asc \<Rightarrow> sort_key (sort_key_of field) js
   | Desc \<Rightarrow> rev (sort_key (sort_key_of field) js))"

subsection \<open>The public shapes\<close>

record job_dto =
  jd_id :: string
  jd_type :: string
  jd_status :: string
  jd_tenant_id :: string
  jd_book_id :: "string option"
  jd_related_resource :: "string \<times> string"
  jd_parent_job_id :: "string option"
  jd_child_job_count :: nat
  jd_priority :: string
  jd_queue :: string
  jd_progress :: job_progress
  jd_blocked_reason :: "string option"
  jd_attempt_count :: nat
  jd_max_attempts :: nat
  jd_retry_count :: nat
  jd_next_attempt_at :: "string option"
  jd_cancel_requested :: bool
  jd_cancel_requested_at :: "string option"
  jd_cancel_requested_by :: "string option"
  jd_cancel_effective :: bool
  jd_error :: "(string \<times> string option \<times> string option \<times> bool \<times> bool \<times> nat) option"
  jd_result :: "(string \<times> string \<times> nat option) option"
  jd_idempotency_fingerprint :: string
  jd_forced :: bool
  jd_correlation_id :: string
  jd_created_at :: string
  jd_queued_at :: "string option"
  jd_started_at :: "string option"
  jd_completed_at :: "string option"
  jd_updated_at :: string
  jd_heartbeat_at :: "string option"
  jd_links :: "(string \<times> string option) list"

definition job_error_dto :: "job \<Rightarrow> (string \<times> string option \<times> string option \<times> bool \<times> bool \<times> nat) option" where
  "job_error_dto j = (if \<not> truthy (je_code (jb_error j)) then None
     else Some (the (je_code (jb_error j)), je_class (jb_error j), je_message (jb_error j),
       (case je_retryable (jb_error j) of Some b \<Rightarrow> b | None \<Rightarrow> False),
       (case je_terminal (jb_error j) of Some b \<Rightarrow> b | None \<Rightarrow> False), jb_attempt_count j))"

definition job_result_dto :: "job \<Rightarrow> (string \<times> string \<times> nat option) option" where
  "job_result_dto j = (if jb_status j = SUCCEEDED \<and> truthy (jr_type (jb_result j)) \<and> truthy (jr_id (jb_result j))
     then Some (the (jr_type (jb_result j)), the (jr_id (jb_result j)), jr_version (jb_result j)) else None)"

definition to_job_dto :: "job \<Rightarrow> job_dto" where
  "to_job_dto j =
     \<lparr> jd_id = jb_id j, jd_type = jb_type j, jd_status = show_status (jb_status j),
       jd_tenant_id = jb_tenant_id j, jd_book_id = jb_book_id j,
       jd_related_resource = (jb_related_type j, jb_related_id j),
       jd_parent_job_id = jb_parent j, jd_child_job_count = jb_child_count j,
       jd_priority = jb_priority j, jd_queue = jb_queue j, jd_progress = jb_progress j,
       jd_blocked_reason = jb_blocked_reason j, jd_attempt_count = jb_attempt_count j,
       jd_max_attempts = jb_max_attempts j, jd_retry_count = jb_retry_count j,
       jd_next_attempt_at = map_option to_iso (jb_next_attempt_at j),
       jd_cancel_requested = jc_requested (jb_cancel j),
       jd_cancel_requested_at = map_option to_iso (jc_requested_at (jb_cancel j)),
       jd_cancel_requested_by = jc_requested_by (jb_cancel j),
       jd_cancel_effective = (jc_effective_at (jb_cancel j) \<noteq> None),
       jd_error = job_error_dto j, jd_result = job_result_dto j,
       jd_idempotency_fingerprint = jb_idem_fingerprint j, jd_forced = jb_forced j,
       jd_correlation_id = jb_correlation_id j,
       jd_created_at = to_iso (jt_created (jb_times j)),
       jd_queued_at = map_option to_iso (jt_queued (jb_times j)),
       jd_started_at = map_option to_iso (jt_started (jb_times j)),
       jd_completed_at = map_option to_iso (jt_completed (jb_times j)),
       jd_updated_at = to_iso (jt_updated (jb_times j)),
       jd_heartbeat_at = map_option to_iso (jt_heartbeat (jb_times j)),
       jd_links = [(''self'', Some (''/api/v1/jobs/'' @ jb_id j)),
         (''attempts'', Some (''/api/v1/jobs/'' @ jb_id j @ ''/attempts'')),
         (''cancellation'', Some (''/api/v1/jobs/'' @ jb_id j @ ''/cancellation'')),
         (''events'', Some (''/api/v1/jobs/'' @ jb_id j @ ''/events'')),
         (''book'', if truthy (jb_book_id j) then Some (''/api/v1/books/'' @ the (jb_book_id j)) else None)] \<rparr>"

record attempt =
  at_id :: string
  at_job_id :: string
  at_number :: nat
  at_status :: string
  at_worker_id :: string
  at_lease_fence :: nat
  at_model_versions :: "json option"
  at_started :: int
  at_ended :: "int option"
  at_duration_ms :: "int option"
  at_error_code :: "string option"
  at_error_class :: "string option"
  at_error_message :: "string option"
  at_resource_usage :: "json option"
  at_output_type :: "string option"
  at_output_id :: "string option"
  at_created :: int

record attempt_dto =
  ad_id :: string
  ad_number :: nat
  ad_status :: string
  ad_worker_id :: string
  ad_started_at :: string
  ad_ended_at :: "string option"
  ad_duration_ms :: "int option"
  ad_model_versions :: json
  ad_error :: "(string \<times> string option \<times> string option) option"
  ad_resource_usage :: json
  ad_output_artifact :: "(string \<times> string) option"
  ad_created_at :: string
  ad_updated_at :: string

definition to_attempt_dto :: "attempt \<Rightarrow> attempt_dto" where
  "to_attempt_dto a =
     \<lparr> ad_id = at_id a, ad_number = at_number a, ad_status = at_status a, ad_worker_id = at_worker_id a,
       ad_started_at = to_iso (at_started a), ad_ended_at = map_option to_iso (at_ended a),
       ad_duration_ms = at_duration_ms a,
       ad_model_versions = (case at_model_versions a of Some j \<Rightarrow> if j = JNull then JArr [] else j | None \<Rightarrow> JArr []),
       ad_error = (if truthy (at_error_code a)
         then Some (the (at_error_code a), at_error_class a, at_error_message a) else None),
       ad_resource_usage = (case at_resource_usage a of Some j \<Rightarrow> j | None \<Rightarrow> JNull),
       ad_output_artifact = (if truthy (at_output_type a) \<and> truthy (at_output_id a)
         then Some (the (at_output_type a), the (at_output_id a)) else None),
       ad_created_at = to_iso (at_created a), ad_updated_at = to_iso (at_created a) \<rparr>"

subsection \<open>Reads\<close>

definition page_of_jobs :: "job list \<Rightarrow> nat \<Rightarrow> string \<Rightarrow> job_dto cursor_page" where
  "page_of_jobs rows limit field =
     (let has_more = length rows > limit;
          page = (if has_more then take limit rows else rows)
      in \<lparr> pg_data = map to_job_dto page, pg_limit = limit, pg_has_more = has_more,
           pg_next_cursor = (if has_more \<and> page \<noteq> []
             then Some (encode_cursor
               (SVStr (to_iso (case sort_column field (last page) of Some t \<Rightarrow> t | None \<Rightarrow> 0))) (jb_id (last page)))
             else None) \<rparr>)"

text \<open>The query both listings end with; a sort column that is no column is refused by the client.\<close>

definition query_jobs ::
  "(string \<Rightarrow> int option) \<Rightarrow> nat \<Rightarrow> string \<Rightarrow> direction \<Rightarrow> (job \<Rightarrow> bool) \<Rightarrow> string option \<Rightarrow> job list
     \<Rightarrow> thrown + job_dto cursor_page" where
  "query_jobs other_date limit field direction P cursor jobs =
     bindE (decode_cursor cursor) (\<lambda>c.
     bindE (case c of None \<Rightarrow> Inr (\<lambda>_. True) | Some cp \<Rightarrow> cursor_boundary other_date field cp direction) (\<lambda>boundary.
     if field \<notin> set SORT_FIELDS then Inl (OtherErr ''Unknown argument in orderBy.'')
     else Inr (page_of_jobs
       (take (limit + 1) (order_jobs field direction (filter (\<lambda>j. P j \<and> boundary j) jobs))) limit field)))"

definition list_jobs ::
  "(string \<Rightarrow> int option) \<Rightarrow> principal \<Rightarrow> list_jobs_query \<Rightarrow> job list \<Rightarrow> thrown + job_dto cursor_page" where
  "list_jobs other_date who query jobs =
     bindE (parse_limit (lq_limit query)) (\<lambda>limit.
     bindE (parse_sort (lq_sort query)) (\<lambda>(field, direction).
     bindE (build_job_where other_date (\<lambda>j. jb_tenant_id j = tenant_id who) query) (\<lambda>P.
     query_jobs other_date limit field direction P (lq_cursor query) jobs)))"

definition list_jobs_across_tenants ::
  "(string \<Rightarrow> int option) \<Rightarrow> list_jobs_query \<Rightarrow> string option \<Rightarrow> string option \<Rightarrow> job list
     \<Rightarrow> thrown + job_dto cursor_page" where
  "list_jobs_across_tenants other_date query tenant_filter queue_filter jobs =
     bindE (parse_limit (lq_limit query)) (\<lambda>limit.
     bindE (parse_sort (lq_sort query)) (\<lambda>(field, direction).
     bindE (build_job_where other_date (\<lambda>j. True) query) (\<lambda>P.
     bindE (if truthy queue_filter \<and> \<not> is_queue_name (the queue_filter)
        then Inl (AppErr (ValidationError (detailed (msg_only ''queue is not a known queue name.'')
          (Some ''queue'') ''invalid_enum'')))
        else Inr ()) (\<lambda>_.
     query_jobs other_date limit field direction
       (\<lambda>j. P j \<and> opt_match tenant_filter (Some (jb_tenant_id j)) \<and> opt_match queue_filter (Some (jb_queue j)))
       (lq_cursor query) jobs))))"

definition job_not_found :: thrown where
  "job_not_found = AppErr (NotFoundError (coded ''JOB_NOT_FOUND'' ''Job not found.''))"

definition require_owned_job :: "principal \<Rightarrow> string \<Rightarrow> job list \<Rightarrow> thrown + job" where
  "require_owned_job who job_id jobs =
     (case find_row (\<lambda>j. jb_id j = job_id \<and> jb_tenant_id j = tenant_id who) jobs of
        None \<Rightarrow> Inl job_not_found | Some j \<Rightarrow> Inr j)"

definition require_any_job :: "string \<Rightarrow> job list \<Rightarrow> thrown + job" where
  "require_any_job job_id jobs = (case find_job job_id jobs of None \<Rightarrow> Inl job_not_found | Some j \<Rightarrow> Inr j)"

definition get_job :: "principal \<Rightarrow> string \<Rightarrow> job list \<Rightarrow> thrown + job_dto" where
  "get_job who job_id jobs = bindE (require_owned_job who job_id jobs) (\<lambda>j. Inr (to_job_dto j))"

text \<open>\<open>Number(cursor.v)\<close>\<close>

fun js_number_of :: "json \<Rightarrow> (int \<times> nat) option" where
  "js_number_of JNull = Some (0, 0)"
| "js_number_of (JBool b) = Some (if b then 1 else 0, 0)"
| "js_number_of (JNum n) = Some (n, 0)"
| "js_number_of (JStr s) = js_number s"
| "js_number_of j = js_number (js_string j)"

definition list_attempts ::
  "principal \<Rightarrow> string \<Rightarrow> string option \<Rightarrow> string option \<Rightarrow> job list \<Rightarrow> attempt list
     \<Rightarrow> thrown + attempt_dto cursor_page" where
  "list_attempts who job_id cursor raw_limit jobs attempts =
     bindE (require_owned_job who job_id jobs) (\<lambda>_.
     bindE (parse_limit raw_limit) (\<lambda>limit.
     bindE (decode_cursor cursor) (\<lambda>c.
     bindE (case c of None \<Rightarrow> Inr (\<lambda>_. True)
        | Some cp \<Rightarrow> (case js_integer (js_number_of (cp_v cp)) of
            None \<Rightarrow> Inl (OtherErr ''Invalid value for argument: expected an integer.'')
          | Some n \<Rightarrow> Inr (\<lambda>a. n < int (at_number a)))) (\<lambda>boundary.
     let rows = take (limit + 1) (sort_key at_number (filter (\<lambda>a. at_job_id a = job_id \<and> boundary a) attempts));
         has_more = length rows > limit;
         page = (if has_more then take limit rows else rows)
     in Inr \<lparr> pg_data = map to_attempt_dto page, pg_limit = limit, pg_has_more = has_more,
          pg_next_cursor = (if has_more \<and> page \<noteq> []
            then Some (encode_cursor (SVNum (int (at_number (last page)))) (at_id (last page))) else None) \<rparr>))))"

subsection \<open>Cancellation\<close>

record ('q, 'r) jobs_world = job_db +
  jw_trail :: "audit_row list"
  jw_queue :: 'q
  jw_redis :: 'r

text \<open>
  What one call is given: the clock, the pairs of ids the outbox mints in order, the id of the audit
  row and whether its write succeeds.
\<close>

record call_env =
  ev_now :: int
  ev_event_ids :: "nat \<Rightarrow> string \<times> string"
  ev_audit_id :: string
  ev_audit_ok :: bool

definition cancellation_patch :: "string \<Rightarrow> int \<Rightarrow> bool \<Rightarrow> job \<Rightarrow> job" where
  "cancellation_patch user_id now immediate j =
     (let j1 = touch now (j\<lparr> jb_cancel := (jb_cancel j)
            \<lparr> jc_requested := True, jc_requested_at := Some now, jc_requested_by := Some user_id \<rparr> \<rparr>)
      in if \<not> immediate then j1
         else set_completed now (set_status CANCELLED now
           (j1\<lparr> jb_cancel := (jb_cancel j1)\<lparr> jc_effective_at := Some now \<rparr> \<rparr>)))"

definition immediately_cancellable :: "job \<Rightarrow> bool" where
  "immediately_cancellable j \<longleftrightarrow> jb_status j \<in> set IMMEDIATELY_CANCELLABLE"

definition open_children :: "string \<Rightarrow> job list \<Rightarrow> job list" where
  "open_children job_id jobs = filter (\<lambda>c. jb_parent c = Some job_id \<and> \<not> terminal_job c) jobs"

definition cancelled_draft :: "string \<Rightarrow> int \<Rightarrow> job \<Rightarrow> job \<Rightarrow> outbox_draft" where
  "cancelled_draft user_id now parent cancelled =
     \<lparr> od_event_type = ''job.cancelled'', od_schema_version = ''events.v1'',
       od_tenant_id = jb_tenant_id cancelled, od_book_id = jb_book_id parent,
       od_job_id = Some (jb_id cancelled), od_correlation_id = jb_correlation_id parent,
       od_causation_id = jb_correlation_id parent, od_traceparent = None,
       od_producer = ''api'', od_producer_version = ''1.0.0'',
       od_payload = JObj [(''cancelled_by_user_id'', JStr user_id),
         (''cancellation_effective_at'', JStr (to_iso now)), (''partial_units_retained'', JBool True)],
       od_aggregate_type = ''job'', od_aggregate_id = jb_id cancelled \<rparr>"

text \<open>The updates and the events of the transaction; the jobs are those read before it began.\<close>

fun patch_jobs :: "string \<Rightarrow> int \<Rightarrow> job list \<Rightarrow> job list \<Rightarrow> thrown + job list" where
  "patch_jobs user_id now [] jobs = Inr jobs"
| "patch_jobs user_id now (c # cs) jobs =
     bindE (update_job (jb_id c) (cancellation_patch user_id now (immediately_cancellable c)) jobs)
       (patch_jobs user_id now cs)"

fun add_events :: "(nat \<Rightarrow> string \<times> string) \<Rightarrow> nat \<Rightarrow> int \<Rightarrow> outbox_draft list \<Rightarrow> outbox_row list \<Rightarrow> outbox_row list" where
  "add_events ids k now [] t = t"
| "add_events ids k now (d # ds) t =
     add_events ids (Suc k) now ds (outbox_add (fst (ids k)) (snd (ids k)) now d t)"

definition cancel_commit ::
  "call_env \<Rightarrow> string \<Rightarrow> job \<Rightarrow> job list \<Rightarrow> 'z job_db_scheme \<Rightarrow> (thrown + unit) \<times> 'z job_db_scheme" where
  "cancel_commit ev user_id j children = with_transaction (\<lambda>w.
     (case patch_jobs user_id (ev_now ev) (children @ [j]) (db_jobs w) of
        Inl e \<Rightarrow> (Inl e, w)
      | Inr jobs' \<Rightarrow> (Inr (), w\<lparr> db_jobs := jobs',
          db_outbox := add_events (ev_event_ids ev) 0 (ev_now ev)
            (map (cancelled_draft user_id (ev_now ev) j) (filter immediately_cancellable (children @ [j])))
            (db_outbox w) \<rparr>)))"

text \<open>Best effort outside the database: exceptions are dropped.\<close>

definition drop_queued :: "'q broker \<Rightarrow> job list \<Rightarrow> 'q \<Rightarrow> 'q" where
  "drop_queued bq cs q = fold (\<lambda>c q. if is_queue_name (jb_queue c)
     then snd (remove_queued_job bq (jb_queue c) (jb_id c) q) else q) cs q"

definition raise_flags :: "'r redis_ops \<Rightarrow> job list \<Rightarrow> 'r \<Rightarrow> 'r" where
  "raise_flags redis cs r = fold (\<lambda>c r. snd (flags_set redis (jb_tenant_id c) (jb_id c) r)) cs r"

definition cancel_audit_entry :: "principal \<Rightarrow> job \<Rightarrow> nat \<Rightarrow> bool \<Rightarrow> string option \<Rightarrow> correlation_context option \<Rightarrow> audit_entry" where
  "cancel_audit_entry who j child_count cross_tenant reason correlation =
     \<lparr> ae_principal = who, ae_action = ''JOB_CANCELLED'', ae_resource_type = ''job'',
       ae_resource_id = Some (jb_id j), ae_book_id = jb_book_id j, ae_tenant_id = Some (jb_tenant_id j),
       ae_outcome = None, ae_correlation = correlation,
       ae_metadata = Some (JObj [(''previous_status'', JStr (show_status (jb_status j))),
         (''effective'', JBool (immediately_cancellable j)),
         (''cascaded_child_count'', JNum (int child_count)), (''cross_tenant'', JBool cross_tenant),
         (''has_reason'', JBool (truthy reason))]) \<rparr>"

definition cancel_job ::
  "'q broker \<Rightarrow> 'r redis_ops \<Rightarrow> call_env \<Rightarrow> principal \<Rightarrow> string \<Rightarrow> string option \<Rightarrow> bool \<Rightarrow> correlation_context option
     \<Rightarrow> ('q, 'r) jobs_world \<Rightarrow> (thrown + job_dto) \<times> ('q, 'r) jobs_world" where
  "cancel_job bq redis ev who job_id reason cross_tenant correlation w =
     (case (if cross_tenant then require_any_job job_id (db_jobs w) else require_owned_job who job_id (db_jobs w)) of
        Inl e \<Rightarrow> (Inl e, w)
      | Inr j \<Rightarrow>
          if terminal_job j then (Inr (to_job_dto j), w)
          else let children = open_children job_id (db_jobs w) in
          (case cancel_commit ev (sub who) j children w of
             (Inl e, w1) \<Rightarrow> (Inl e, w1)
           | (Inr _, w1) \<Rightarrow>
               let targets = children @ [j];
                   w2 = w1\<lparr> jw_queue := drop_queued bq (filter immediately_cancellable targets) (jw_queue w1),
                            jw_redis := raise_flags redis
                              (filter immediately_cancellable targets @ filter (\<lambda>c. \<not> immediately_cancellable c) targets)
                              (jw_redis w1) \<rparr>;
                   w3 = w2\<lparr> jw_trail := audit_record (ev_audit_ok ev) (ev_audit_id ev) (ev_now ev)
                     (cancel_audit_entry who j (length children) cross_tenant reason correlation) (jw_trail w2) \<rparr>
               in (case find_job job_id (db_jobs w3) of
                     None \<Rightarrow> (Inl (CodedErr ''P2025'' ''No ProcessingJob found''), w3)
                   | Some refreshed \<Rightarrow> (Inr (to_job_dto refreshed), w3))))"

subsection \<open>Replay\<close>

text \<open>\<open>!original.dispatchEnvelope\<close>\<close>

definition falsy_json :: "json option \<Rightarrow> bool" where
  "falsy_json e \<longleftrightarrow> e \<in> {None, Some JNull, Some (JBool False), Some (JNum 0), Some (JStr [])}"

definition replay_envelope :: "json \<Rightarrow> string \<Rightarrow> json" where
  "replay_envelope original new_job_id = spread_with original [(''job_id'', JStr new_job_id)]"

definition replayed_job :: "job \<Rightarrow> string \<Rightarrow> int \<Rightarrow> string \<Rightarrow> json \<Rightarrow> job" where
  "replayed_job original new_job_id now user_id envelope =
     \<lparr> jb_id = new_job_id, jb_tenant_id = jb_tenant_id original, jb_book_id = jb_book_id original,
       jb_type = jb_type original, jb_queue = jb_queue original, jb_priority = jb_priority original,
       jb_related_type = jb_related_type original, jb_related_id = jb_related_id original,
       jb_scope = jb_scope original, jb_envelope = Some envelope, jb_parent = None, jb_child_count = 0,
       jb_status = CREATED, jb_blocked_reason = None, jb_attempt_count = 0,
       jb_max_attempts = jb_max_attempts original, jb_retry_count = 0, jb_next_attempt_at = None,
       jb_progress = no_progress,
       jb_idem_key = ''replay:'' @ jb_id original @ '':'' @ new_job_id,
       jb_idem_fingerprint = jb_idem_fingerprint original,
       jb_forced = True, jb_forced_by = Some user_id, jb_error = no_error, jb_result = no_result,
       jb_cancel = not_cancelled, jb_correlation_id = jb_correlation_id original,
       jb_causation_id = Some (jb_id original), jb_created_by = Some user_id, jb_times = created_now now \<rparr>"

definition not_replayable :: "string \<Rightarrow> thrown" where
  "not_replayable m = AppErr (ConflictError (coded ''JOB_NOT_REPLAYABLE'' m))"

text \<open>
  An insert is checked against the primary key and the partial unique index on tenant and
  idempotency key of the table (\<open>prisma/migrations/0001_init/migration.sql\<close>).
\<close>

definition create_job :: "job \<Rightarrow> job list \<Rightarrow> thrown + job list" where
  "create_job j jobs = (if find_job (jb_id j) jobs \<noteq> None
       \<or> find_row (\<lambda>r. jb_tenant_id r = jb_tenant_id j \<and> jb_idem_key r = jb_idem_key j
           \<and> jb_status r \<notin> {FAILED, CANCELLED, DEAD_LETTERED}) jobs \<noteq> None
     then Inl (CodedErr ''P2002'' ''Unique constraint failed'') else Inr (insert_row j jobs))"

definition replay_job ::
  "'q broker \<Rightarrow> call_env \<Rightarrow> string \<Rightarrow> principal \<Rightarrow> string \<Rightarrow> correlation_context option
     \<Rightarrow> ('q, 'r) jobs_world \<Rightarrow> (thrown + job_dto) \<times> ('q, 'r) jobs_world" where
  "replay_job bq ev new_job_id who job_id correlation w =
     (case require_any_job job_id (db_jobs w) of
        Inl e \<Rightarrow> (Inl e, w)
      | Inr original \<Rightarrow>
          if jb_status original \<noteq> DEAD_LETTERED \<and> jb_status original \<noteq> FAILED
          then (Inl (not_replayable (''Only DEAD_LETTERED or FAILED jobs can be replayed; this job is ''
            @ show_status (jb_status original) @ ''.'')), w)
          else if falsy_json (jb_envelope original)
          then (Inl (not_replayable ''This job has no recorded dispatch envelope, so it cannot be re-dispatched without inventing a payload.''), w)
          else if \<not> is_queue_name (jb_queue original)
          then (Inl (not_replayable ''This job targets a queue that no longer exists.''), w)
          else let envelope = replay_envelope (the (jb_envelope original)) new_job_id in
          (case create_job (replayed_job original new_job_id (ev_now ev) (sub who) envelope) (db_jobs w) of
             Inl e \<Rightarrow> (Inl e, w)
           | Inr jobs1 \<Rightarrow>
               (case enqueue_processing_job bq (ev_now ev)
                  \<lparr> ea_processing_job_id = new_job_id, ea_queue = jb_queue original, ea_envelope = envelope,
                    ea_job_name = jb_type original, ea_max_attempts = jb_max_attempts original,
                    ea_priority = None \<rparr> (jobs1, jw_queue w) of
                  (Inl e, (jobs2, q2)) \<Rightarrow> (Inl e, w\<lparr> db_jobs := jobs2, jw_queue := q2 \<rparr>)
                | (Inr _, (jobs2, q2)) \<Rightarrow>
                    let w3 = w\<lparr> db_jobs := jobs2, jw_queue := q2,
                          jw_trail := audit_record (ev_audit_ok ev) (ev_audit_id ev) (ev_now ev)
                            \<lparr> ae_principal = who, ae_action = ''JOB_REPLAYED'', ae_resource_type = ''job'',
                              ae_resource_id = Some new_job_id, ae_book_id = jb_book_id original,
                              ae_tenant_id = Some (jb_tenant_id original), ae_outcome = None,
                              ae_correlation = correlation,
                              ae_metadata = Some (JObj [(''replayed_from_job_id'', JStr (jb_id original)),
                                (''original_status'', JStr (show_status (jb_status original)))]) \<rparr> (jw_trail w) \<rparr>
                    in (case find_job new_job_id (db_jobs w3) of
                          None \<Rightarrow> (Inl (CodedErr ''P2025'' ''No ProcessingJob found''), w3)
                        | Some created \<Rightarrow> (Inr (to_job_dto created), w3)))))"

end
