(* ===== verification/JobListing.thy ===== *)
theory JobListing
  imports Jobs
begin

text \<open>
  Correctness of the job and attempt listings of \<open>Jobs\<close>: the keyset contract holds of the query by
  \<open>created_at\<close> in both directions and of the query of attempts, so a client that follows the
  cursors is handed every row once, in order.  For \<open>completed_at\<close> it does not hold: a page that
  ends on a job that has not completed hands out a cursor at which the walk cannot go on.
\<close>

subsection \<open>The query by creation time\<close>

definition created_boundary :: "job \<Rightarrow> int \<times> string" where
  "created_boundary j = (jt_created (jb_times j), jb_id j)"

definition beyond :: "direction \<Rightarrow> int \<times> string \<Rightarrow> job \<Rightarrow> bool" where
  "beyond dir b j = (case dir of Asc \<Rightarrow> b < created_boundary j | Desc \<Rightarrow> created_boundary j < b)"

definition jobs_after :: "direction \<Rightarrow> (job \<Rightarrow> bool) \<Rightarrow> job list \<Rightarrow> (int \<times> string) option \<Rightarrow> job list" where
  "jobs_after dir P jobs b = order_jobs ''created_at'' dir
     (filter (\<lambda>j. P j \<and> (case b of None \<Rightarrow> True | Some k \<Rightarrow> beyond dir k j)) jobs)"

lemma filter_order: "filter P (order_jobs f dir js) = order_jobs f dir (filter P js)"
  by (cases dir) (simp_all add: order_jobs_def filter_sort flip: rev_filter)

lemma set_order [simp]: "set (order_jobs f dir js) = set js"
  by (cases dir) (simp_all add: order_jobs_def)

lemma length_order [simp]: "length (order_jobs f dir js) = length js"
  by (cases dir) (simp_all add: order_jobs_def)

lemma distinct_order: "distinct (map g js) \<Longrightarrow> distinct (map g (order_jobs f dir js))"
proof -
  assume d: "distinct (map g js)"
  have "mset (order_jobs f dir js) = mset js" by (cases dir) (simp_all add: order_jobs_def)
  then have "mset (map g (order_jobs f dir js)) = mset (map g js)" by (simp only: mset_map)
  then show ?thesis using d mset_eq_imp_distinct_iff by blast
qed

lemma sort_key_created: "sort_key_of ''created_at'' j = (At (fst (created_boundary j)), snd (created_boundary j))"
  by (simp add: sort_key_of_def sort_column_def pg_time_of_def created_boundary_def)

lemma created_less: "sort_key_of ''created_at'' i < sort_key_of ''created_at'' j \<longleftrightarrow> created_boundary i < created_boundary j"
  by (auto simp: sort_key_created less_prod_def less_eq_pg_time.simps)

lemma distinct_keys: "distinct (map jb_id js) \<Longrightarrow> distinct (map (sort_key_of f) js)"
  by (induction js) (auto simp: sort_key_of_def image_iff)

interpretation created: keyset "\<lambda>jobs. distinct (map jb_id jobs)" "jobs_after dir P" created_boundary for dir P
proof unfold_locales
  fix jobs b xs r ys
  assume ids: "distinct (map jb_id jobs)" and rows: "jobs_after dir P jobs b = xs @ r # ys"
  let ?B = "\<lambda>j. case b of None \<Rightarrow> True | Some k \<Rightarrow> beyond dir k j"
  have key: "distinct (map (sort_key_of ''created_at'') (xs @ r # ys))"
    unfolding rows [symmetric] jobs_after_def by (intro distinct_order distinct_keys distinct_map_filter ids)
  have "r \<in> set (jobs_after dir P jobs b)" using rows by simp
  then have "?B r" by (simp add: jobs_after_def)
  then have mono: "beyond dir (created_boundary r) j \<Longrightarrow> ?B j" for j
    by (cases dir) (auto simp: beyond_def split: option.splits)
  have "jobs_after dir P jobs (Some (created_boundary r))
      = order_jobs ''created_at'' dir (filter (\<lambda>j. beyond dir (created_boundary r) j \<and> P j \<and> ?B j) jobs)"
    unfolding jobs_after_def using mono by (intro arg_cong [where f = "order_jobs _ _"] filter_cong) auto
  also have "\<dots> = filter (beyond dir (created_boundary r)) (xs @ r # ys)"
    unfolding rows [symmetric] jobs_after_def filter_order by (simp add: conj_commute)
  also have "\<dots> = ys"
  proof (cases dir)
    case Asc
    then have "sorted (map (sort_key_of ''created_at'') (xs @ r # ys))"
      unfolding rows [symmetric] jobs_after_def order_jobs_def by simp
    moreover have "beyond dir (created_boundary r) = (\<lambda>x. sort_key_of ''created_at'' r < sort_key_of ''created_at'' x)"
      by (rule ext) (simp add: beyond_def created_less Asc)
    ultimately show ?thesis using strictly_after [OF _ key] by simp
  next
    case Desc
    then have "sorted (map (sort_key_of ''created_at'') (rev (xs @ r # ys)))"
      unfolding rows [symmetric] jobs_after_def order_jobs_def by (simp del: rev_append)
    moreover have "beyond dir (created_boundary r) = (\<lambda>x. sort_key_of ''created_at'' x < sort_key_of ''created_at'' r)"
      by (rule ext) (simp add: beyond_def created_less Desc)
    ultimately show ?thesis using strictly_before [OF _ key] by simp
  qed
  finally show "jobs_after dir P jobs (Some (created_boundary r)) = ys" .
qed

text \<open>A cursor stands for the boundary of a row of the table.\<close>

definition created_cursor :: "job list \<Rightarrow> string option \<Rightarrow> (int \<times> string) option \<Rightarrow> bool" where
  "created_cursor jobs c b \<longleftrightarrow> (c = None \<and> b = None) \<or>
     (\<exists>j \<in> set jobs. c = Some (encode_cursor (SVStr (to_iso (jt_created (jb_times j)))) (jb_id j))
        \<and> b = Some (created_boundary j))"

lemma cursor_boundary_created:
  assumes "parse_date od (to_iso t) = Some t"
  shows "cursor_boundary od ''created_at'' \<lparr> cp_v = JStr (to_iso t), cp_id = i \<rparr> dir = Inr (beyond dir (t, i))"
proof -
  have "(\<lambda>x. case sort_column ''created_at'' x of None \<Rightarrow> False | Some t' \<Rightarrow> (case dir of
          Desc \<Rightarrow> t' < t \<or> (t' = t \<and> jb_id x < i) | Asc \<Rightarrow> t < t' \<or> (t' = t \<and> i < jb_id x))) = beyond dir (t, i)"
    by (rule ext) (cases dir; auto simp: sort_column_def beyond_def created_boundary_def less_prod_def)
  then show ?thesis using assms by (simp only: cursor_boundary_def js_string.simps cursor_payload.simps option.case)
qed

lemma created_cursor_decodes:
  assumes "created_cursor jobs c b" "\<forall>j \<in> set jobs. iso_range (jt_created (jb_times j))"
  shows "bindE (decode_cursor c) (\<lambda>c. bindE (case c of None \<Rightarrow> Inr (\<lambda>_. True)
            | Some cp \<Rightarrow> cursor_boundary od ''created_at'' cp dir) f)
         = f (\<lambda>j. case b of None \<Rightarrow> True | Some k \<Rightarrow> beyond dir k j)"
proof (cases "c = None \<and> b = None")
  case True
  then show ?thesis by (simp add: decode_cursor_def)
next
  case False
  then obtain j where j: "j \<in> set jobs" "b = Some (created_boundary j)"
    "c = Some (encode_cursor (SVStr (to_iso (jt_created (jb_times j)))) (jb_id j))"
    using assms(1) by (auto simp: created_cursor_def)
  then have "parse_date od (to_iso (jt_created (jb_times j))) = Some (jt_created (jb_times j))"
    using assms(2) parse_date_iso by blast
  then show ?thesis
    using j by (simp add: cursor_roundtrip cursor_boundary_created created_boundary_def)
qed

lemma query_jobs_created:
  assumes "created_cursor jobs c b" "\<forall>j \<in> set jobs. iso_range (jt_created (jb_times j))"
  shows "query_jobs od limit ''created_at'' dir P c jobs
    = Inr (page_of_jobs (take (limit + 1) (jobs_after dir P jobs b)) limit ''created_at'')"
  unfolding query_jobs_def created_cursor_decodes [OF assms]
  by (simp add: SORT_FIELDS_def jobs_after_def)

lemma set_jobs_after: "set (jobs_after dir P jobs b) \<subseteq> set jobs"
  by (auto simp: jobs_after_def)

lemma query_jobs_serves:
  assumes "\<forall>j \<in> set jobs. iso_range (jt_created (jb_times j))" "0 < limit"
  shows "created.serves dir P (\<lambda>c. query_jobs od limit ''created_at'' dir P c jobs) to_job_dto limit jobs (created_cursor jobs)"
  unfolding created.serves_def
proof (intro allI impI)
  fix c b
  assume c: "created_cursor jobs c b"
  let ?rows = "jobs_after dir P jobs b"
  let ?p = "page_of_jobs (take (limit + 1) ?rows) limit ''created_at''"
  have data: "pg_data ?p = map to_job_dto (take limit ?rows)"
    by (simp add: page_of_jobs_def Let_def take_map min_def)
  have "(if limit < length ?rows
     then \<exists>c'. pg_next_cursor ?p = Some c' \<and> created_cursor jobs (Some c') (Some (created_boundary (last (take limit ?rows))))
     else pg_next_cursor ?p = None)"
  proof (cases "limit < length ?rows")
    case True
    let ?l = "last (take limit ?rows)"
    have ne: "take limit ?rows \<noteq> []" using True assms(2) by auto
    have "?l \<in> set ?rows" by (rule in_set_takeD [OF last_in_set [OF ne]])
    then have "?l \<in> set jobs" by (rule subsetD [OF set_jobs_after])
    moreover have "pg_next_cursor ?p = Some (encode_cursor (SVStr (to_iso (jt_created (jb_times ?l)))) (jb_id ?l))"
      using True ne by (simp add: page_of_jobs_def Let_def min_def sort_column_def)
    ultimately show ?thesis using True by (auto simp: created_cursor_def)
  qed (simp add: page_of_jobs_def Let_def)
  then show "\<exists>p. query_jobs od limit ''created_at'' dir P c jobs = Inr p \<and> pg_data p = map to_job_dto (take limit ?rows) \<and>
     (if limit < length ?rows
      then \<exists>c'. pg_next_cursor p = Some c' \<and> created_cursor jobs (Some c') (Some (created_boundary (last (take limit ?rows))))
      else pg_next_cursor p = None)"
    using query_jobs_created [OF c assms(1)] data by blast
qed

lemma list_jobs_request:
  assumes "parse_limit (lq_limit query) = Inr limit" "parse_sort (lq_sort query) = Inr (field, dir)"
    and "build_job_where od (\<lambda>j. jb_tenant_id j = tenant_id who) query = Inr P"
  shows "list_jobs od who (query\<lparr> lq_cursor := c \<rparr>) jobs = query_jobs od limit field dir P c jobs"
proof -
  have "build_job_where od base (query\<lparr> lq_cursor := c \<rparr>) = build_job_where od base query" for base
    by (simp add: build_job_where_def)
  then show ?thesis using assms by (simp add: list_jobs_def)
qed

lemma follow_list_jobs:
  assumes "parse_limit (lq_limit query) = Inr limit" "parse_sort (lq_sort query) = Inr (''created_at'', dir)"
    and "build_job_where od (\<lambda>j. jb_tenant_id j = tenant_id who) query = Inr P"
    and "distinct (map jb_id jobs)" "\<forall>j \<in> set jobs. iso_range (jt_created (jb_times j))"
    and "length jobs < fuel"
  shows "follow (\<lambda>c. list_jobs od who (query\<lparr> lq_cursor := c \<rparr>) jobs) fuel None
    = Some (map to_job_dto (order_jobs ''created_at'' dir (filter P jobs)))"
proof -
  have limit: "0 < limit" using parse_limit_bounds [OF assms(1)] by simp
  have "length (jobs_after dir P jobs None) < fuel"
    using assms(6) by (simp add: jobs_after_def order_le_less_trans [OF length_filter_le])
  moreover have "created_cursor jobs None None" by (simp add: created_cursor_def)
  ultimately have "follow (\<lambda>c. query_jobs od limit ''created_at'' dir P c jobs) fuel None
      = Some (map to_job_dto (jobs_after dir P jobs None))"
    using created.follow_complete [OF assms(4) limit query_jobs_serves [OF assms(5) limit]] by blast
  then show ?thesis by (simp add: list_jobs_request [OF assms(1-3)] jobs_after_def)
qed

subsection \<open>Attempts\<close>

definition attempts_after :: "string \<Rightarrow> attempt list \<Rightarrow> nat option \<Rightarrow> attempt list" where
  "attempts_after job_id attempts b = sort_key at_number (filter (\<lambda>a. at_job_id a = job_id
     \<and> (case b of None \<Rightarrow> True | Some n \<Rightarrow> n < at_number a)) attempts)"

interpretation attempts: keyset
  "\<lambda>attempts. distinct (map (\<lambda>a. (at_job_id a, at_number a)) attempts)" "attempts_after job_id" at_number for job_id
proof unfold_locales
  fix attempts b xs r ys
  assume key: "distinct (map (\<lambda>a. (at_job_id a, at_number a)) attempts)"
    and rows: "attempts_after job_id attempts b = xs @ r # ys"
  let ?B = "\<lambda>a. case b of None \<Rightarrow> True | Some n \<Rightarrow> n < at_number a"
  let ?sel = "filter (\<lambda>a. at_job_id a = job_id \<and> ?B a) attempts"
  have "distinct (map at_number ?sel)"
    using key by (induction attempts) (auto simp: image_iff)
  moreover have "mset (map at_number (sort_key at_number ?sel)) = mset (map at_number ?sel)"
    by (simp only: mset_map mset_sort)
  ultimately have "distinct (map at_number (sort_key at_number ?sel))"
    using mset_eq_imp_distinct_iff by blast
  then have d: "distinct (map at_number (xs @ r # ys))" using rows by (simp only: attempts_after_def)
  have s: "sorted (map at_number (xs @ r # ys))"
    using sorted_sort_key [of at_number ?sel] rows by (simp only: attempts_after_def)
  have "r \<in> set (attempts_after job_id attempts b)" using rows by simp
  then have "?B r" by (simp add: attempts_after_def)
  then have mono: "at_number r < at_number a \<Longrightarrow> ?B a" for a by (auto split: option.splits)
  have "attempts_after job_id attempts (Some (at_number r))
      = sort_key at_number (filter (\<lambda>a. at_number r < at_number a \<and> at_job_id a = job_id \<and> ?B a) attempts)"
    unfolding attempts_after_def using mono by (intro arg_cong [where f = "sort_key _"] filter_cong) auto
  also have "\<dots> = filter (\<lambda>a. at_number r < at_number a) (xs @ r # ys)"
    unfolding rows [symmetric] attempts_after_def filter_sort by (simp add: conj_commute)
  also have "\<dots> = ys" by (rule strictly_after [OF s d])
  finally show "attempts_after job_id attempts (Some (at_number r)) = ys" .
qed

definition attempt_cursor :: "string option \<Rightarrow> nat option \<Rightarrow> bool" where
  "attempt_cursor c b \<longleftrightarrow> (c = None \<and> b = None) \<or>
     (\<exists>n i. c = Some (encode_cursor (SVNum (int n)) i) \<and> b = Some n)"

lemma list_attempts_serves:
  assumes "require_owned_job who job_id jobs = Inr j" "parse_limit raw_limit = Inr limit"
  shows "attempts.serves job_id (\<lambda>c. list_attempts who job_id c raw_limit jobs ats) to_attempt_dto limit ats attempt_cursor"
  unfolding attempts.serves_def
proof (intro allI impI)
  fix c b
  assume c: "attempt_cursor c b"
  have limit: "0 < limit" using parse_limit_bounds [OF assms(2)] by simp
  let ?rows = "attempts_after job_id ats b"
  have dec: "bindE (decode_cursor c) (\<lambda>c. bindE (case c of None \<Rightarrow> Inr (\<lambda>_. True)
        | Some cp \<Rightarrow> (case js_integer (js_number_of (cp_v cp)) of
            None \<Rightarrow> Inl (OtherErr ''Invalid value for argument: expected an integer.'')
          | Some n \<Rightarrow> Inr (\<lambda>a. n < int (at_number a)))) f)
      = f (\<lambda>a. case b of None \<Rightarrow> True | Some n \<Rightarrow> n < at_number a)" for f
    using c by (auto simp: attempt_cursor_def decode_cursor_def [of None] cursor_roundtrip js_integer_def)
  show "\<exists>p. list_attempts who job_id c raw_limit jobs ats = Inr p \<and> pg_data p = map to_attempt_dto (take limit ?rows) \<and>
     (if limit < length ?rows
      then \<exists>c'. pg_next_cursor p = Some c' \<and> attempt_cursor (Some c') (Some (at_number (last (take limit ?rows))))
      else pg_next_cursor p = None)"
    using limit unfolding list_attempts_def assms bindE_simps dec
    by (auto simp: Let_def min_def take_map attempt_cursor_def simp flip: attempts_after_def)
qed

lemma follow_list_attempts:
  assumes "require_owned_job who job_id jobs = Inr j" "parse_limit raw_limit = Inr limit"
    and "distinct (map (\<lambda>a. (at_job_id a, at_number a)) ats)" "length ats < fuel"
  shows "follow (\<lambda>c. list_attempts who job_id c raw_limit jobs ats) fuel None
    = Some (map to_attempt_dto (sort_key at_number (filter (\<lambda>a. at_job_id a = job_id) ats)))"
proof -
  have "0 < limit" using parse_limit_bounds [OF assms(2)] by simp
  moreover have "length (attempts_after job_id ats None) < fuel"
    using assms(4) by (simp add: attempts_after_def order_le_less_trans [OF length_filter_le])
  moreover have "attempt_cursor None None" by (simp add: attempt_cursor_def)
  ultimately show ?thesis
    using attempts.follow_complete [OF assms(3) _ list_attempts_serves [OF assms(1,2)]]
    by (simp add: attempts_after_def)
qed

subsection \<open>The query by completion time\<close>

lemma upper_split:
  "sorted (map f xs) \<Longrightarrow> (\<And>x y. N x \<Longrightarrow> f x \<le> f y \<Longrightarrow> N y) \<Longrightarrow> filter (\<lambda>x. \<not> N x) xs @ filter N xs = xs"
  by (induction xs) (auto simp: filter_empty_conv filter_id_conv)

definition open_ended :: "job \<Rightarrow> bool" where
  "open_ended j \<longleftrightarrow> jt_completed (jb_times j) = None"

lemma open_ended_upper: "open_ended i \<Longrightarrow> sort_key_of ''completed_at'' i \<le> sort_key_of ''completed_at'' j \<Longrightarrow> open_ended j"
  by (cases "jt_completed (jb_times j)")
    (auto simp: sort_key_of_def sort_column_def pg_time_of_def open_ended_def less_eq_prod_def)

lemma completed_desc_open_first:
  assumes "limit \<le> length (filter open_ended js)" "j \<in> set (take limit (order_jobs ''completed_at'' Desc js))"
  shows "open_ended j"
proof -
  let ?s = "sort_key (sort_key_of ''completed_at'') js"
  have "filter (\<lambda>x. \<not> open_ended x) ?s @ filter open_ended ?s = ?s"
    by (rule upper_split [of "sort_key_of ''completed_at''"]) (simp, rule open_ended_upper)
  then have "rev ?s = rev (filter open_ended ?s) @ rev (filter (\<lambda>x. \<not> open_ended x) ?s)"
    by (metis rev_append)
  moreover have "length (filter open_ended ?s) = length (filter open_ended js)" by (simp add: filter_sort)
  ultimately have "take limit (rev ?s) = take limit (rev (filter open_ended ?s))" using assms(1) by simp
  then have "j \<in> set (take limit (rev (filter open_ended ?s)))" using assms(2) by (simp add: order_jobs_def)
  from in_set_takeD [OF this] show ?thesis by simp
qed

lemma cursor_boundary_completed:
  "cursor_boundary od ''completed_at'' \<lparr> cp_v = JStr (to_iso 0), cp_id = i \<rparr> Desc
    = Inr (\<lambda>j. \<exists>t. jt_completed (jb_times j) = Some t \<and> (t < 0 \<or> t = 0 \<and> jb_id j < i))"
proof -
  have date: "parse_date od (to_iso 0) = Some 0" by (rule parse_date_iso [OF iso_range_epoch])
  have "(\<lambda>j. case sort_column ''completed_at'' j of None \<Rightarrow> False | Some t \<Rightarrow> t < 0 \<or> (t = 0 \<and> jb_id j < i))
      = (\<lambda>j. \<exists>t. jt_completed (jb_times j) = Some t \<and> (t < 0 \<or> t = 0 \<and> jb_id j < i))"
    by (rule ext) (simp add: sort_column_def split: option.split)
  then show ?thesis
    using date by (simp only: cursor_boundary_def js_string.simps cursor_payload.simps option.case direction.case)
qed

lemma completed_cursor_empty:
  assumes "\<And>j t. j \<in> set jobs \<Longrightarrow> jt_completed (jb_times j) = Some t \<Longrightarrow> 0 < t"
  shows "query_jobs od limit ''completed_at'' Desc P (Some (encode_cursor (SVStr (to_iso 0)) i)) jobs
    = Inr \<lparr> pg_data = [], pg_limit = limit, pg_has_more = False, pg_next_cursor = None \<rparr>"
proof -
  have none: "filter (\<lambda>j. P j \<and> (\<exists>t. jt_completed (jb_times j) = Some t \<and> (t < 0 \<or> t = 0 \<and> jb_id j < i))) jobs = []"
    using assms by (fastforce simp: filter_empty_conv)
  show ?thesis
    by (simp add: query_jobs_def cursor_roundtrip cursor_boundary_completed SORT_FIELDS_def none
        order_jobs_def page_of_jobs_def)
qed

lemma follow_completed_desc:
  assumes "parse_limit (lq_limit query) = Inr limit" "parse_sort (lq_sort query) = Inr (''completed_at'', Desc)"
    and "build_job_where od (\<lambda>j. jb_tenant_id j = tenant_id who) query = Inr P"
    and "limit \<le> length (filter open_ended (filter P jobs))" "limit < length (filter P jobs)"
    and "\<And>j t. j \<in> set jobs \<Longrightarrow> jt_completed (jb_times j) = Some t \<Longrightarrow> 0 < t"
  shows "follow (\<lambda>c. list_jobs od who (query\<lparr> lq_cursor := c \<rparr>) jobs) (Suc (Suc fuel)) None
    = Some (map to_job_dto (take limit (order_jobs ''completed_at'' Desc (filter P jobs))))"
proof -
  let ?o = "order_jobs ''completed_at'' Desc (filter P jobs)"
  have limit: "0 < limit" using parse_limit_bounds [OF assms(1)] by simp
  have "0 < length ?o" using assms(5) by (simp only: length_order)
  then have ne: "take limit ?o \<noteq> []" using limit by (simp only: length_greater_0_conv take_eq_Nil) simp
  have "open_ended (last (take limit ?o))" by (rule completed_desc_open_first [OF assms(4) last_in_set [OF ne]])
  then have col: "sort_column ''completed_at'' (last (take limit ?o)) = None"
    by (simp add: sort_column_def open_ended_def)
  have first: "query_jobs od limit ''completed_at'' Desc P None jobs = Inr (page_of_jobs (take (limit + 1) ?o) limit ''completed_at'')"
    by (simp add: query_jobs_def decode_cursor_def SORT_FIELDS_def)
  have page: "pg_data (page_of_jobs (take (limit + 1) ?o) limit ''completed_at'') = map to_job_dto (take limit ?o)"
    "pg_next_cursor (page_of_jobs (take (limit + 1) ?o) limit ''completed_at'')
      = Some (encode_cursor (SVStr (to_iso 0)) (jb_id (last (take limit ?o))))"
    using assms(5) ne col by (simp_all add: page_of_jobs_def Let_def min_def)
  have second: "query_jobs od limit ''completed_at'' Desc P (Some (encode_cursor (SVStr (to_iso 0)) i)) jobs
    = Inr \<lparr> pg_data = [], pg_limit = limit, pg_has_more = False, pg_next_cursor = None \<rparr>" for i
    by (rule completed_cursor_empty) (rule assms(6))
  show ?thesis
    unfolding list_jobs_request [OF assms(1-3)] follow.simps first sum.case page option.case second by simp
qed

subsection \<open>Isolation\<close>

lemma build_job_where_base:
  "build_job_where od base query = Inr P \<Longrightarrow> P j \<Longrightarrow> base j"
  by (auto simp: build_job_where_def bindE_eq_Inr)

text \<open>What a principal is shown does not depend on the rows of other tenants.\<close>

lemma list_jobs_own:
  "list_jobs od who query jobs = list_jobs od who query (filter (\<lambda>j. jb_tenant_id j = tenant_id who) jobs)"
proof -
  let ?own = "\<lambda>j. jb_tenant_id j = tenant_id who"
  have "query_jobs od limit f dir P c jobs = query_jobs od limit f dir P c (filter ?own jobs)"
    if "build_job_where od ?own query = Inr P" for limit f dir P c
  proof -
    have "filter (\<lambda>j. P j \<and> B j) jobs = filter (\<lambda>j. P j \<and> B j) (filter ?own jobs)" for B
      using build_job_where_base [OF that] by (auto intro!: filter_cong)
    then show ?thesis by (simp only: query_jobs_def)
  qed
  then show ?thesis
    by (cases "build_job_where od ?own query") (simp_all add: list_jobs_def bindE_def split: sum.splits prod.splits)
qed

lemma require_owned_job_Inr:
  "require_owned_job who i jobs = Inr j \<Longrightarrow> j \<in> set jobs \<and> jb_id j = i \<and> jb_tenant_id j = tenant_id who"
  by (auto simp: require_owned_job_def split: option.splits dest: find_row_Some)

lemma require_owned_job_find:
  assumes "distinct (map jb_id jobs)" "require_owned_job who i jobs = Inr j"
  shows "find_job i jobs = Some j"
proof -
  have "j \<in> set jobs" "jb_id j = i" using require_owned_job_Inr [OF assms(2)] by simp_all
  then show ?thesis using find_row_key_unique [OF assms(1)] by (auto simp: find_job_def)
qed

end
