(* ===== verification/JobCancellation.thy ===== *)
theory JobCancellation
  imports JobListing
begin

text \<open>
  Correctness of cancellation and replay.  The reference for \<open>cancelJob\<close> is \<open>cancel_effect\<close>, one
  function of a row: the target and its open children carry the request, and those whose work has
  not started are \<open>CANCELLED\<close>.  The service, which reads the rows first and then updates them one
  by one in a transaction, computes the same table, whatever the broker, the flag store and the
  audit trail do.
\<close>

subsection \<open>The patch\<close>

lemma cancellation_patch_simps [simp]:
  "jb_id (cancellation_patch u now imm j) = jb_id j"
  "jb_tenant_id (cancellation_patch u now imm j) = jb_tenant_id j"
  "jb_parent (cancellation_patch u now imm j) = jb_parent j"
  "jb_status (cancellation_patch u now imm j) = (if imm then CANCELLED else jb_status j)"
  "jc_requested (jb_cancel (cancellation_patch u now imm j)) = True"
  "jc_requested_at (jb_cancel (cancellation_patch u now imm j)) = Some now"
  "jc_requested_by (jb_cancel (cancellation_patch u now imm j)) = Some u"
  "jc_effective_at (jb_cancel (cancellation_patch u now imm j))
     = (if imm then Some now else jc_effective_at (jb_cancel j))"
  "jt_completed (jb_times (cancellation_patch u now imm j)) = (if imm then Some now else jt_completed (jb_times j))"
  by (simp_all add: cancellation_patch_def Let_def touch_def set_status_def set_completed_def)

interpretation patched: keyed_update jb_id "cancellation_patch u now imm" for u now imm
  by unfold_locales simp

text \<open>Updating the rows one by one is one pass over the table.\<close>

lemma patch_jobs_map:
  assumes "distinct (map jb_id cs)" "\<forall>c \<in> set cs. find_job (jb_id c) jobs \<noteq> None"
  shows "patch_jobs u now cs jobs = Inr (map (\<lambda>r. case find_job (jb_id r) cs of
      None \<Rightarrow> r | Some c \<Rightarrow> cancellation_patch u now (immediately_cancellable c) r) jobs)"
  using assms
proof (induction cs arbitrary: jobs)
  case (Cons c cs)
  let ?p = "cancellation_patch u now (immediately_cancellable c)"
  let ?jobs = "update_where (\<lambda>j. jb_id j = jb_id c) ?p jobs"
  obtain j where "find_job (jb_id c) jobs = Some j" using Cons.prems(2) by auto
  then have step: "update_job (jb_id c) ?p jobs = Inr ?jobs" by (rule update_job_total)
  have "\<forall>d \<in> set cs. find_job (jb_id d) ?jobs \<noteq> None"
    using Cons.prems(2) by (simp add: find_job_def patched.find_where)
  then have IH: "patch_jobs u now cs ?jobs = Inr (map (\<lambda>r. case find_job (jb_id r) cs of
      None \<Rightarrow> r | Some c \<Rightarrow> cancellation_patch u now (immediately_cancellable c) r) ?jobs)"
    using Cons.IH Cons.prems(1) by simp
  have "find_job (jb_id c) cs = None" using Cons.prems(1)
    by (auto simp: find_job_def find_row_None image_iff)
  then have "(case find_job (jb_id (if jb_id r = jb_id c then ?p r else r)) cs of
        None \<Rightarrow> if jb_id r = jb_id c then ?p r else r
      | Some d \<Rightarrow> cancellation_patch u now (immediately_cancellable d) (if jb_id r = jb_id c then ?p r else r))
    = (case find_job (jb_id r) (c # cs) of
        None \<Rightarrow> r | Some d \<Rightarrow> cancellation_patch u now (immediately_cancellable d) r)" for r
    by (cases "jb_id r = jb_id c") simp_all
  then show ?case using step IH by (simp add: update_where_def)
qed simp

definition cancel_target :: "string \<Rightarrow> job \<Rightarrow> bool" where
  "cancel_target job_id c \<longleftrightarrow> jb_id c = job_id \<or> (jb_parent c = Some job_id \<and> \<not> terminal_job c)"

definition cancel_effect :: "string \<Rightarrow> int \<Rightarrow> string \<Rightarrow> job \<Rightarrow> job" where
  "cancel_effect u now job_id c =
     (if cancel_target job_id c then cancellation_patch u now (immediately_cancellable c) c else c)"

lemma cancel_effect_id [simp]: "jb_id (cancel_effect u now i c) = jb_id c"
  by (simp add: cancel_effect_def)

lemma open_children_set: "set (open_children i jobs) = {c \<in> set jobs. jb_parent c = Some i \<and> \<not> terminal_job c}"
  by (auto simp: open_children_def)

lemma patch_jobs_effect:
  assumes ids: "distinct (map jb_id jobs)" and j: "j \<in> set jobs" "jb_id j = i" "jb_parent j \<noteq> Some i"
  shows "patch_jobs u now (open_children i jobs @ [j]) jobs = Inr (map (cancel_effect u now i) jobs)"
proof -
  let ?cs = "open_children i jobs @ [j]"
  have same: "c = r" if "c \<in> set jobs" "r \<in> set jobs" "jb_id c = jb_id r" for c r
    using ids that by (metis (no_types, lifting) distinct_map inj_onD)
  have sub: "set ?cs \<subseteq> set jobs" using j by (auto simp: open_children_set)
  have notin: "j \<notin> set (open_children i jobs)" using j by (simp add: open_children_set)
  have dc: "distinct (map jb_id (open_children i jobs))"
    unfolding open_children_def by (rule distinct_map_filter [OF ids])
  have "jb_id j \<notin> jb_id ` set (open_children i jobs)"
  proof
    assume "jb_id j \<in> jb_id ` set (open_children i jobs)"
    then obtain c where "c \<in> set (open_children i jobs)" "jb_id j = jb_id c" by auto
    then show False using same [of j c] j sub notin by (auto simp: open_children_set)
  qed
  then have d: "distinct (map jb_id ?cs)" using dc by simp
  have "find_job (jb_id c) jobs \<noteq> None" if "c \<in> set ?cs" for c
    using that sub by (auto simp: find_job_def find_row_None)
  then have "patch_jobs u now ?cs jobs = Inr (map (\<lambda>r. case find_job (jb_id r) ?cs of
      None \<Rightarrow> r | Some c \<Rightarrow> cancellation_patch u now (immediately_cancellable c) r) jobs)"
    using patch_jobs_map [OF d] by blast
  moreover have "(case find_job (jb_id r) ?cs of None \<Rightarrow> r
      | Some c \<Rightarrow> cancellation_patch u now (immediately_cancellable c) r) = cancel_effect u now i r"
    if r: "r \<in> set jobs" for r
  proof (cases "find_job (jb_id r) ?cs")
    case None
    then have "r \<notin> set ?cs" by (auto simp: find_job_def find_row_None)
    then show ?thesis using None r j same [of r j] by (auto simp: cancel_effect_def cancel_target_def open_children_set)
  next
    case (Some c)
    then have "c \<in> set ?cs" "jb_id c = jb_id r" using find_job_Some by blast+
    then have "c = r" "r \<in> set ?cs" using same sub r by blast+
    then show ?thesis using Some j r same by (auto simp: cancel_effect_def cancel_target_def open_children_set)
  qed
  ultimately show ?thesis by simp
qed

lemma add_events_drafts: "map ob_draft (add_events ids k now ds t) = map ob_draft t @ ds"
  by (induction ds arbitrary: k t) (simp_all add: outbox_add_def write_outbox_message_def insert_row_def)

subsection \<open>The operation\<close>

text \<open>The world after a cancellation, up to the best-effort parts.\<close>

lemma cancel_job_spec:
  assumes ids: "distinct (map jb_id (db_jobs w))" and j: "require_owned_job who i (db_jobs w) = Inr j"
    and "\<not> terminal_job j" "jb_parent j \<noteq> Some i"
  shows "\<exists>w'. cancel_job bq redis ev who i reason False corr w
        = (Inr (to_job_dto (cancel_effect (sub who) (ev_now ev) i j)), w')
    \<and> db_jobs w' = map (cancel_effect (sub who) (ev_now ev) i) (db_jobs w)
    \<and> map ob_draft (db_outbox w') = map ob_draft (db_outbox w) @
        map (cancelled_draft (sub who) (ev_now ev) j)
          (filter immediately_cancellable (open_children i (db_jobs w) @ [j]))"
proof -
  let ?jobs = "map (cancel_effect (sub who) (ev_now ev) i) (db_jobs w)"
  have own: "j \<in> set (db_jobs w)" "jb_id j = i" using require_owned_job_Inr [OF j] by simp_all
  have patch: "patch_jobs (sub who) (ev_now ev) (open_children i (db_jobs w) @ [j]) (db_jobs w) = Inr ?jobs"
    by (rule patch_jobs_effect [OF ids own assms(4)])
  have "find_job i ?jobs = map_option (cancel_effect (sub who) (ev_now ev) i) (find_job i (db_jobs w))"
    by (rule find_job_map) simp
  then have found: "find_job i ?jobs = Some (cancel_effect (sub who) (ev_now ev) i j)"
    using require_owned_job_find [OF ids j] by simp
  show ?thesis
    using assms(3) patch found
    by (simp add: cancel_job_def j cancel_commit_def with_transaction_def Let_def add_events_drafts
        del: patch_jobs.simps filter_append)
qed

lemma cancel_job_terminal:
  "require_owned_job who i (db_jobs w) = Inr j \<Longrightarrow> terminal_job j \<Longrightarrow>
   cancel_job bq redis ev who i reason False corr w = (Inr (to_job_dto j), w)"
  by (simp add: cancel_job_def)

lemma cancel_job_foreign:
  "(\<And>j. j \<in> set (db_jobs w) \<Longrightarrow> jb_id j = i \<Longrightarrow> jb_tenant_id j \<noteq> tenant_id who) \<Longrightarrow>
   cancel_job bq redis ev who i reason False corr w = (Inl job_not_found, w)"
proof -
  assume foreign: "\<And>j. j \<in> set (db_jobs w) \<Longrightarrow> jb_id j = i \<Longrightarrow> jb_tenant_id j \<noteq> tenant_id who"
  then have "find_row (\<lambda>j. jb_id j = i \<and> jb_tenant_id j = tenant_id who) (db_jobs w) = None"
    by (auto simp: find_row_None)
  then show ?thesis by (simp add: cancel_job_def require_owned_job_def)
qed

text \<open>Repeating a cancellation changes no status and cancels nothing a second time.\<close>

lemma cancel_effect_target: "cancel_target i c \<Longrightarrow> \<not> immediately_cancellable (cancel_effect u now i c)"
  by (cases "jb_status c")
    (simp_all add: cancel_effect_def immediately_cancellable_def IMMEDIATELY_CANCELLABLE_def)

lemma cancel_effect_again: "jb_status (cancel_effect u' now' i (cancel_effect u now i c)) = jb_status (cancel_effect u now i c)"
proof (cases "cancel_target i (cancel_effect u now i c)")
  case True
  have "cancel_target i c"
    using True by (cases "cancel_target i c") (simp_all add: cancel_effect_def)
  then show ?thesis
    using cancel_effect_target [of i c u now] by (subst cancel_effect_def) simp
qed (simp add: cancel_effect_def [of u' now'])

subsection \<open>Replay\<close>

lemma replay_envelope_fields:
  "json_field (replay_envelope (JObj es) new_id) k = (if k = ''job_id'' then Some (JStr new_id) else map_of es k)"
  by (simp add: replay_envelope_def map_of_set_field)

text \<open>Whatever the broker does, the rows that were there are there unchanged, and at most one is added.\<close>

lemma replay_job_rows:
  assumes "replay_job bq ev new_id who i corr w = (res, w')" "find_job new_id (db_jobs w) = None"
  shows "db_jobs w' = db_jobs w \<or> (\<exists>j. db_jobs w' = db_jobs w @ [j] \<and> jb_id j = new_id)"
proof -
  have upd: "update_where (\<lambda>j. jb_id j = new_id) f (db_jobs w @ [r]) = db_jobs w @ [f r]" if "jb_id r = new_id" for f r
  proof -
    have "\<forall>j \<in> set (db_jobs w). jb_id j \<noteq> new_id" using assms(2) by (simp add: find_job_def find_row_None)
    then have "update_where (\<lambda>j. jb_id j = new_id) f (db_jobs w) = db_jobs w" by (intro update_where_id) auto
    then show ?thesis using that by (simp add: update_where_def)
  qed
  show ?thesis
    using assms
    by (auto simp: replay_job_def require_any_job_def create_job_def enqueue_processing_job_def Let_def
        update_job_Inr insert_row_def upd replayed_job_def split: sum.splits option.splits if_splits prod.splits)
qed

lemma replay_job_created:
  assumes "replay_job bq ev new_id who i corr w = (Inr dto, w')" "find_job new_id (db_jobs w) = None"
  obtains original where "find_job i (db_jobs w) = Some original"
    "jb_status original = DEAD_LETTERED \<or> jb_status original = FAILED"
    "db_jobs w' = db_jobs w @ [touch (ev_now ev) (set_queued (ev_now ev)
       (replayed_job original new_id (ev_now ev) (sub who) (replay_envelope (the (jb_envelope original)) new_id)))]"
proof -
  have upd: "update_where (\<lambda>j. jb_id j = new_id) f (db_jobs w @ [r]) = db_jobs w @ [f r]" if "jb_id r = new_id" for f r
  proof -
    have "\<forall>j \<in> set (db_jobs w). jb_id j \<noteq> new_id" using assms(2) by (simp add: find_job_def find_row_None)
    then have "update_where (\<lambda>j. jb_id j = new_id) f (db_jobs w) = db_jobs w" by (intro update_where_id) auto
    then show ?thesis using that by (simp add: update_where_def)
  qed
  have idr: "jb_id (replayed_job original new_id now u e) = new_id" for original now u e by (simp add: replayed_job_def)
  show ?thesis
    using assms
    by (auto simp: replay_job_def require_any_job_def create_job_def enqueue_processing_job_def Let_def
        update_job_Inr insert_row_def upd idr split: sum.splits option.splits if_splits prod.splits intro: that)
qed

end
