(* ===== verification/Worker.thy ===== *)
theory Worker
  imports JobCancellation
begin

text \<open>
  The worker's side of the job system (\<open>apps/worker-cpu/src\<close>): the cancellation gate every
  delivery passes (\<open>cancellation-gate.ts\<close>) and the sweeper that re-enqueues jobs whose dispatch
  was lost (\<open>processing-job-sweeper.ts\<close>).  The gate works on any world that extends \<open>job_db\<close>;
  the answer of the flag store is the parameter \<open>flag\<close>, which may be an exception.
\<close>

subsection \<open>The gate\<close>

definition gate_draft :: "int \<Rightarrow> job \<Rightarrow> outbox_draft" where
  "gate_draft now j =
     \<lparr> od_event_type = ''job.cancelled'', od_schema_version = ''events.v1'',
       od_tenant_id = jb_tenant_id j, od_book_id = jb_book_id j, od_job_id = Some (jb_id j),
       od_correlation_id = jb_correlation_id j, od_causation_id = jb_correlation_id j,
       od_traceparent = None, od_producer = ''worker-cpu'', od_producer_version = ''1.0.0'',
       od_payload = JObj [(''cancellation_effective_at'', JStr (to_iso now)),
         (''partial_units_retained'', JBool True), (''acknowledged_by'', JStr ''worker-cpu'')],
       od_aggregate_type = ''job'', od_aggregate_id = jb_id j \<rparr>"

definition gate_patch :: "int \<Rightarrow> job \<Rightarrow> job" where
  "gate_patch now j = touch now (set_completed now (set_status CANCELLED now
     (j\<lparr> jb_cancel := (jb_cancel j)\<lparr> jc_requested := True, jc_effective_at := Some now \<rparr> \<rparr>)))"

definition gate_commit :: "int \<Rightarrow> string \<times> string \<Rightarrow> job \<Rightarrow> 'z job_db_scheme \<Rightarrow> (thrown + unit) \<times> 'z job_db_scheme" where
  "gate_commit now ids j = with_transaction (\<lambda>w.
     (case update_job (jb_id j) (gate_patch now) (db_jobs w) of
        Inl e \<Rightarrow> (Inl e, w)
      | Inr jobs' \<Rightarrow> (Inr (), w\<lparr> db_jobs := jobs',
          db_outbox := outbox_add (fst ids) (snd ids) now (gate_draft now j) (db_outbox w) \<rparr>)))"

definition halt_if_cancelled ::
  "(string \<Rightarrow> string \<Rightarrow> thrown + bool) \<Rightarrow> int \<Rightarrow> string \<times> string \<Rightarrow> string \<Rightarrow> 'z job_db_scheme
     \<Rightarrow> (thrown + bool) \<times> 'z job_db_scheme" where
  "halt_if_cancelled flag now ids job_id w = (case find_job job_id (db_jobs w) of
     None \<Rightarrow> (Inr False, w)
   | Some j \<Rightarrow>
       if jb_status j = CANCELLED then (Inr True, w)
       else (case is_cancellation_requested (Some (flag (jb_tenant_id j) (jb_id j)))
               (Inr (jc_requested (jb_cancel j))) of
           Inl e \<Rightarrow> (Inl e, w)
         | Inr False \<Rightarrow> (Inr False, w)
         | Inr True \<Rightarrow> (case gate_commit now ids j w of
             (Inl e, w') \<Rightarrow> (Inl e, w') | (Inr _, w') \<Rightarrow> (Inr True, w'))))"

lemma gate_patch_simps [simp]:
  "jb_id (gate_patch now j) = jb_id j" "jb_status (gate_patch now j) = CANCELLED"
  "jc_requested (jb_cancel (gate_patch now j)) = True" "jc_effective_at (jb_cancel (gate_patch now j)) = Some now"
  "jt_completed (jb_times (gate_patch now j)) = Some now" "jb_tenant_id (gate_patch now j) = jb_tenant_id j"
  by (simp_all add: gate_patch_def)

interpretation gated: keyed_update jb_id "gate_patch now" for now
  by unfold_locales simp

lemma gate_commit_found:
  "find_job (jb_id j) (db_jobs w) \<noteq> None \<Longrightarrow> gate_commit now ids j w =
    (Inr (), w\<lparr> db_jobs := update_where (\<lambda>r. jb_id r = jb_id j) (gate_patch now) (db_jobs w),
      db_outbox := outbox_add (fst ids) (snd ids) now (gate_draft now j) (db_outbox w) \<rparr>)"
  by (auto simp: gate_commit_def with_transaction_def update_job_total)

text \<open>The gate never throws, and halts exactly the jobs that are cancelled or asked to be.\<close>

definition asked_to_cancel :: "(string \<Rightarrow> string \<Rightarrow> thrown + bool) \<Rightarrow> job \<Rightarrow> bool" where
  "asked_to_cancel flag j = (case flag (jb_tenant_id j) (jb_id j) of
     Inr b \<Rightarrow> b | Inl _ \<Rightarrow> jc_requested (jb_cancel j))"

lemma halt_if_cancelled_cases:
  "halt_if_cancelled flag now ids i w =
    (case find_job i (db_jobs w) of
       None \<Rightarrow> (Inr False, w)
     | Some j \<Rightarrow> if jb_status j = CANCELLED then (Inr True, w)
         else if asked_to_cancel flag j
         then (Inr True, w\<lparr> db_jobs := update_where (\<lambda>r. jb_id r = i) (gate_patch now) (db_jobs w),
                db_outbox := outbox_add (fst ids) (snd ids) now (gate_draft now j) (db_outbox w) \<rparr>)
         else (Inr False, w))"
proof (cases "find_job i (db_jobs w)")
  case (Some j)
  then have i: "jb_id j = i" using find_job_Some by blast
  then have c: "gate_commit now ids j w = (Inr (), w\<lparr> db_jobs := update_where (\<lambda>r. jb_id r = i) (gate_patch now) (db_jobs w),
      db_outbox := outbox_add (fst ids) (snd ids) now (gate_draft now j) (db_outbox w) \<rparr>)"
    using gate_commit_found [of j w] Some by simp
  show ?thesis
    by (cases "flag (jb_tenant_id j) i"; simp add: halt_if_cancelled_def Some asked_to_cancel_def i c split: bool.split)
qed (simp add: halt_if_cancelled_def)

text \<open>When the flag store is down the column decides: a requested cancellation still stops the job.\<close>

lemma halt_if_cancelled_durable:
  assumes "find_job i (db_jobs w) = Some j" "jc_requested (jb_cancel j)" "flag (jb_tenant_id j) i = Inl e"
  shows "fst (halt_if_cancelled flag now ids i w) = Inr True"
  using assms find_job_Some [OF assms(1)] by (simp add: halt_if_cancelled_cases asked_to_cancel_def)

subsection \<open>The sweeper\<close>

definition orphaned :: "int \<Rightarrow> int \<Rightarrow> job \<Rightarrow> bool" where
  "orphaned now stale_after_ms j \<longleftrightarrow> jb_status j = CREATED \<and> jt_queued (jb_times j) = None
     \<and> jb_envelope j \<noteq> None \<and> jt_created (jb_times j) < now - stale_after_ms"

definition orphaned_rows :: "string set \<Rightarrow> int \<Rightarrow> int \<Rightarrow> nat \<Rightarrow> job list \<Rightarrow> job list" where
  "orphaned_rows locked now stale_after_ms batch_size jobs =
     take batch_size (sort_key (\<lambda>j. jt_created (jb_times j))
       (filter (\<lambda>j. orphaned now stale_after_ms j \<and> jb_id j \<notin> locked) jobs))"

definition sweep_args :: "job \<Rightarrow> enqueue_args" where
  "sweep_args row =
     \<lparr> ea_processing_job_id = jb_id row, ea_queue = jb_queue row, ea_envelope = the (jb_envelope row),
       ea_job_name = jb_type row, ea_max_attempts = jb_max_attempts row, ea_priority = None \<rparr>"

text \<open>
  One row: a queue this build does not know is left alone, an exception is reported and the loop
  goes on.  The count is of the rows dispatched.
\<close>

definition sweep_row :: "'q broker \<Rightarrow> int \<Rightarrow> job \<Rightarrow> nat \<times> job list \<times> 'q \<Rightarrow> nat \<times> job list \<times> 'q" where
  "sweep_row bq now row st = (case st of (dispatched, jobs, q) \<Rightarrow>
     if \<not> is_queue_name (jb_queue row) then (dispatched, jobs, q)
     else (case enqueue_processing_job bq now (sweep_args row) (jobs, q) of
         (Inl _, (jobs', q')) \<Rightarrow> (dispatched, jobs', q')
       | (Inr _, (jobs', q')) \<Rightarrow> (dispatched + 1, jobs', q')))"

definition sweeper_poll_once ::
  "'q broker \<Rightarrow> string set \<Rightarrow> int \<Rightarrow> int \<Rightarrow> nat \<Rightarrow> job list \<times> 'q \<Rightarrow> nat \<times> job list \<times> 'q" where
  "sweeper_poll_once bq locked now stale_after_ms batch_size jq =
     fold (sweep_row bq now) (orphaned_rows locked now stale_after_ms batch_size (fst jq)) (0, fst jq, snd jq)"

text \<open>Only the mark \<open>queued_at\<close> of a swept row ever changes.\<close>

definition marked_queued :: "int \<Rightarrow> string set \<Rightarrow> job \<Rightarrow> job" where
  "marked_queued now ids j = (if jb_id j \<in> ids then touch now (set_queued now j) else j)"

lemma touch_queued_idem: "touch now (set_queued now (touch now (set_queued now j))) = touch now (set_queued now j)"
  by (simp add: touch_def set_queued_def)

lemma sweep_row_rows:
  assumes "sweep_row bq now row (n, jobs, q) = (n', jobs', q')"
  shows "\<exists>ids \<subseteq> {jb_id row}. jobs' = map (marked_queued now ids) jobs \<and> n' = n + card ids"
proof (cases "is_queue_name (jb_queue row)")
  case True
  obtain res jobs1 q1 where e: "enqueue_processing_job bq now (sweep_args row) (jobs, q) = (res, (jobs1, q1))"
    by (metis prod.collapse)
  show ?thesis
  proof (cases res)
    case (Inl x)
    then have "jobs' = jobs" "n' = n"
      using assms True e enqueue_processing_job_fails by (auto simp: sweep_row_def)
    then show ?thesis by (intro exI [of _ "{}"]) (simp add: marked_queued_def map_idI)
  next
    case (Inr u)
    then have "jobs' = update_where (\<lambda>j. jb_id j = jb_id row) (touch now \<circ> set_queued now) jobs" "n' = n + 1"
      using assms True e
      by (auto simp: sweep_row_def enqueue_processing_job_def sweep_args_def update_job_Inr split: prod.splits sum.splits)
    then show ?thesis
      by (intro exI [of _ "{jb_id row}"]) (auto simp: update_where_def marked_queued_def)
  qed
next
  case False
  then show ?thesis using assms by (intro exI [of _ "{}"]) (simp add: sweep_row_def marked_queued_def map_idI)
qed

lemma sweep_rows:
  assumes "fold (sweep_row bq now) rows (n, jobs, q) = (n', jobs', q')"
  shows "\<exists>ids \<subseteq> jb_id ` set rows. jobs' = map (marked_queued now ids) jobs \<and> n' \<le> n + length rows"
  using assms
proof (induction rows arbitrary: n jobs q)
  case Nil
  then show ?case by (intro exI [of _ "{}"]) (simp add: marked_queued_def map_idI)
next
  case (Cons row rows)
  obtain n1 jobs1 q1 where s: "sweep_row bq now row (n, jobs, q) = (n1, jobs1, q1)" by (metis prod.collapse)
  obtain ids1 where ids1: "ids1 \<subseteq> {jb_id row}" "jobs1 = map (marked_queued now ids1) jobs" "n1 = n + card ids1"
    using sweep_row_rows [OF s] by blast
  have c: "card ids1 \<le> 1" using card_mono [OF _ ids1(1)] by simp
  obtain ids2 where ids2: "ids2 \<subseteq> jb_id ` set rows" "jobs' = map (marked_queued now ids2) jobs1" "n' \<le> n1 + length rows"
    using Cons.IH [of n1 jobs1 q1] Cons.prems s by auto
  have "marked_queued now ids2 (marked_queued now ids1 j) = marked_queued now (ids1 \<union> ids2) j" for j
    by (simp add: marked_queued_def touch_queued_idem)
  then have "jobs' = map (marked_queued now (ids1 \<union> ids2)) jobs" using ids1(2) ids2(2) by simp
  moreover have "ids1 \<union> ids2 \<subseteq> jb_id ` set (row # rows)" using ids1(1) ids2(1) by auto
  moreover have "n' \<le> n + length (row # rows)" using ids1(3) ids2(3) c by simp
  ultimately show ?case by blast
qed

lemma orphaned_rows_mem:
  "r \<in> set (orphaned_rows locked now stale n jobs) \<Longrightarrow> r \<in> set jobs \<and> orphaned now stale r \<and> jb_id r \<notin> locked"
  by (auto simp: orphaned_rows_def dest!: in_set_takeD)

lemma length_orphaned_rows: "length (orphaned_rows locked now stale n jobs) \<le> n"
  by (simp add: orphaned_rows_def)

lemma sweeper_poll_rows:
  assumes "sweeper_poll_once bq locked now stale n (jobs, q) = (k, jobs', q')" "distinct (map jb_id jobs)"
  shows "k \<le> n \<and> (\<exists>ids. jobs' = map (marked_queued now ids) jobs
    \<and> (\<forall>j \<in> set jobs. jb_id j \<in> ids \<longrightarrow> orphaned now stale j \<and> jb_id j \<notin> locked))"
proof -
  let ?rows = "orphaned_rows locked now stale n jobs"
  obtain ids where ids: "ids \<subseteq> jb_id ` set ?rows" "jobs' = map (marked_queued now ids) jobs" "k \<le> length ?rows"
    using sweep_rows [of bq now ?rows 0 jobs q k jobs' q'] assms(1) by (auto simp: sweeper_poll_once_def)
  have "orphaned now stale j \<and> jb_id j \<notin> locked" if j: "j \<in> set jobs" "jb_id j \<in> ids" for j
  proof -
    obtain r where r: "r \<in> set ?rows" "jb_id j = jb_id r" using ids(1) j(2) by auto
    then have "r = j" using assms(2) j(1) orphaned_rows_mem [OF r(1)]
      by (metis (no_types, lifting) distinct_map inj_onD)
    then show ?thesis using orphaned_rows_mem [OF r(1)] by blast
  qed
  moreover have "k \<le> n" using ids(3) length_orphaned_rows [of locked now stale n jobs] by simp
  ultimately show ?thesis using ids(2) by blast
qed

end
