(* ===== verification/IngestionJob.thy ===== *)
theory IngestionJob
  imports BookStore Worker
begin

text \<open>
  The processor of \<open>parse_book\<close> (\<open>apps/worker-cpu/src/processors/ingestion.ts\<close>): the job is
  marked running, the source is downloaded under the size limit, the pipeline runs, and its result
  is persisted in one transaction, or the failure is recorded in one.  Object storage, the parsers,
  the hash and the class names of foreign errors are parameters (\<open>ingest_deps\<close>); fresh ids and the
  clock come with the call (\<open>ingest_env\<close>).  The job row \<open>j\<close> that the later steps use is the one
  read before the attempt was marked, as in the code.
\<close>

subsection \<open>Dependencies\<close>

record 's ingest_deps =
  dp_sha256 :: "bytes \<Rightarrow> string"
  dp_file_type :: "bytes \<Rightarrow> string option"
  dp_parse :: "source_kind \<Rightarrow> bytes \<Rightarrow> string \<Rightarrow> thrown + extracted_document"
  dp_ocr_identity :: "parser_identity option"
  dp_config :: ingestion_config
  dp_config_json :: json
  dp_get :: "string \<Rightarrow> 's \<Rightarrow> thrown + bytes list"
  dp_put :: "put_input \<Rightarrow> 's \<Rightarrow> (thrown + object_meta) \<times> 's"
  dp_files :: "book_file list"
  dp_registry :: "((string \<times> string \<times> string) \<times> string) list"
  dp_model_versions :: "((string \<times> string) \<times> string) list"
  dp_class_of :: "thrown \<Rightarrow> string"

record ingest_env =
  ie_now :: int
  ie_version_id :: string
  ie_page_id :: "nat \<Rightarrow> string"
  ie_chapter_id :: "nat \<Rightarrow> string"
  ie_section_id :: "nat \<Rightarrow> nat \<Rightarrow> string"
  ie_paragraph_id :: "nat \<Rightarrow> nat \<Rightarrow> string"
  ie_event_ids :: "nat \<Rightarrow> string \<times> string"
  ie_attempts_made :: nat
  ie_max_attempts :: nat

definition resolve_model_version_id :: "'s ingest_deps \<Rightarrow> string \<Rightarrow> string \<Rightarrow> string \<Rightarrow> string \<Rightarrow> thrown + string" where
  "resolve_model_version_id dp role provider model version =
     (case map_of (dp_registry dp) (role, provider, model) of
        None \<Rightarrow> Inl (AppErr (DependencyFailureError (msg_only (''No ModelRegistry entry for '' @ role @ ''/'' @ provider
          @ ''/'' @ model @ ''. Run the seed script before ingesting.''))))
      | Some registry_id \<Rightarrow>
          (case map_of (dp_model_versions dp) (registry_id, version) of
             None \<Rightarrow> Inl (AppErr (DependencyFailureError (msg_only (''No ModelVersion '' @ version @ '' registered for ''
               @ role @ ''/'' @ provider @ ''/'' @ model @ ''. Run the seed script before ingesting.''))))
           | Some i \<Rightarrow> Inr i))"

text \<open>The loop over the chunks of a stream, with the bytes read so far.\<close>

fun read_chunks :: "nat \<Rightarrow> bytes \<Rightarrow> bytes list \<Rightarrow> thrown + bytes" where
  "read_chunks max_bytes acc [] = Inr acc"
| "read_chunks max_bytes acc (chunk # rest) =
     (if length (acc @ chunk) > max_bytes
      then Inl (AppErr (FileTooLargeError (''Source object exceeds the configured size limit of ''
        @ show_nat max_bytes @ '' bytes.'')))
      else read_chunks max_bytes (acc @ chunk) rest)"

definition download_to_buffer :: "'s ingest_deps \<Rightarrow> string \<Rightarrow> nat \<Rightarrow> 's \<Rightarrow> thrown + bytes" where
  "download_to_buffer dp key max_bytes store = bindE (dp_get dp key store) (read_chunks max_bytes [])"

lemma read_chunks_Inr: "read_chunks m acc cs = Inr b \<Longrightarrow> b = acc @ concat cs"
proof (induction cs arbitrary: acc)
  case (Cons c cs)
  then show ?case using Cons.IH [of "acc @ c"] by (simp split: if_splits)
qed simp

lemma read_chunks_bound: "length acc \<le> m \<Longrightarrow> read_chunks m acc cs = Inr b \<Longrightarrow> length b \<le> m"
proof (induction cs arbitrary: acc)
  case (Cons c cs)
  then show ?case using Cons.IH [of "acc @ c"] by (simp split: if_splits)
qed simp

lemma read_chunks_complete: "length (acc @ concat cs) \<le> m \<Longrightarrow> read_chunks m acc cs = Inr (acc @ concat cs)"
  by (induction cs arbitrary: acc) auto

subsection \<open>Derived facts\<close>

definition derive_book_version_status :: "ingestion_result \<Rightarrow> version_status" where
  "derive_book_version_status r =
     (let has_failed = (case ir_pages r of None \<Rightarrow> False | Some ps \<Rightarrow> list_ex (\<lambda>p. ep_status p = PageFailed) ps);
          has_review = (case ir_pages r of None \<Rightarrow> False | Some ps \<Rightarrow> list_ex (\<lambda>p. ep_status p = PageNeedsReview) ps)
      in if qr_outcome (ir_quality_report r) = NEEDS_REVIEW \<or> has_failed then VERSION_NEEDS_REVIEW
         else if has_review then PARTIAL_OCR else READY)"

definition pages_ok_count :: "ingestion_result \<Rightarrow> nat option" where
  "pages_ok_count r = map_option (\<lambda>ps. length (filter (\<lambda>p. ep_status p = PageOk) ps)) (ir_pages r)"

definition pages_review_count :: "ingestion_result \<Rightarrow> nat option" where
  "pages_review_count r = map_option (\<lambda>ps. length (filter (\<lambda>p. ep_status p \<noteq> PageOk) ps)) (ir_pages r)"

definition degraded_result :: "ingestion_result \<Rightarrow> bool" where
  "degraded_result r \<longleftrightarrow> (case pages_review_count r of Some n \<Rightarrow> n | None \<Rightarrow> 0) > 0
     \<or> qr_outcome (ir_quality_report r) \<noteq> PASS"

fun show_qc :: "qc_outcome \<Rightarrow> string" where
  "show_qc PASS = ''PASS''"
| "show_qc WARN = ''WARN''"
| "show_qc NEEDS_REVIEW = ''NEEDS_REVIEW''"

fun error_message :: "thrown \<Rightarrow> string" where
  "error_message (AppErr e) = err_message e"
| "error_message (CodedErr c m) = m"
| "error_message (HttpErr n) = ''HttpException''"
| "error_message (OtherErr m) = m"

fun error_code :: "thrown \<Rightarrow> string" where
  "error_code (AppErr e) = err_code e"
| "error_code (CodedErr c m) = c"
| "error_code _ = ''INGESTION_FAILED''"

definition error_class :: "'s ingest_deps \<Rightarrow> thrown \<Rightarrow> string" where
  "error_class dp err = (case err of AppErr e \<Rightarrow> err_class e | OtherErr _ \<Rightarrow> ''Error'' | _ \<Rightarrow> dp_class_of dp err)"

subsection \<open>Rows\<close>

definition page_number_ids :: "ingest_env \<Rightarrow> extracted_page list \<Rightarrow> nat \<Rightarrow> string option" where
  "page_number_ids ev pages = map_of (rev (map (\<lambda>(k, p). (ep_page_number p, ie_page_id ev k)) (enumerate 0 pages)))"

definition page_rows :: "ingest_env \<Rightarrow> string \<Rightarrow> string \<Rightarrow> string option \<Rightarrow> extracted_page list \<Rightarrow> parsed_page list" where
  "page_rows ev t book_id ocr_model pages = map (\<lambda>p.
     \<lparr> pp_id = the (page_number_ids ev pages (ep_page_number p)), pp_tenant_id = t, pp_book_id = book_id,
       pp_version_id = ie_version_id ev, pp_page = p,
       pp_ocr_model = (if ep_method p = OCR \<or> ep_method p = IMAGE_OCR then ocr_model else None) \<rparr>) pages"

definition chapter_rows :: "ingest_env \<Rightarrow> string \<Rightarrow> string \<Rightarrow> canonical_chapter list \<Rightarrow> chapter_row list" where
  "chapter_rows ev t book_id chapters = map (\<lambda>(i, c).
     \<lparr> cr_id = ie_chapter_id ev i, cr_tenant_id = t, cr_book_id = book_id, cr_version_id = ie_version_id ev,
       cr_order = ch_order c, cr_spine_start = ch_spine_start c, cr_spine_end = ch_spine_end c,
       cr_title = ch_title c, cr_matter = ch_matter c,
       cr_char_count = sum_list (map (\<lambda>p. length (rp_text (pa_body p))) (ch_paragraphs c)) \<rparr>) (enumerate 0 chapters)"

definition section_rows :: "ingest_env \<Rightarrow> string \<Rightarrow> string \<Rightarrow> canonical_chapter list \<Rightarrow> section_row list" where
  "section_rows ev t book_id chapters = concat (map (\<lambda>(i, c). map (\<lambda>(k, s).
     \<lparr> sr_id = ie_section_id ev i k, sr_tenant_id = t, sr_book_id = book_id, sr_version_id = ie_version_id ev,
       sr_chapter_id = ie_chapter_id ev i, sr_order = se_order s, sr_spine_start = se_spine_start s,
       sr_spine_end = se_spine_end s, sr_title = se_title s \<rparr>) (enumerate 0 (ch_sections c))) (enumerate 0 chapters))"

definition paragraph_row_of ::
  "'s ingest_deps \<Rightarrow> ingest_env \<Rightarrow> string \<Rightarrow> string \<Rightarrow> (nat \<Rightarrow> string option) \<Rightarrow> nat \<Rightarrow> canonical_chapter
     \<Rightarrow> nat \<Rightarrow> canonical_paragraph \<Rightarrow> paragraph_row" where
  "paragraph_row_of dp ev t book_id page_id i c k p =
     \<lparr> pr_id = ie_paragraph_id ev i k, pr_tenant_id = t, pr_book_id = book_id, pr_version_id = ie_version_id ev,
       pr_chapter_id = ie_chapter_id ev i,
       pr_section_id = (case rp_section (pa_body p) of None \<Rightarrow> None
         | Some n \<Rightarrow> if n < length (ch_sections c) then Some (ie_section_id ev i n) else None),
       pr_order = pa_order p, pr_spine = pa_spine p, pr_text = rp_text (pa_body p),
       pr_content_hash = sha256_hex (dp_sha256 dp) (rp_text (pa_body p)),
       pr_char_count = length (rp_text (pa_body p)), pr_page = rp_page (pa_body p),
       pr_page_end = rp_page_end (pa_body p), pr_locator = rp_locator (pa_body p),
       pr_raw_hash = sha256_hex (dp_sha256 dp) (rp_raw_text (pa_body p)),
       pr_method = rp_method (pa_body p), pr_confidence = rp_confidence (pa_body p),
       pr_parsed_page_id = (case rp_page (pa_body p) of None \<Rightarrow> None | Some n \<Rightarrow> page_id n) \<rparr>"

definition paragraph_rows ::
  "'s ingest_deps \<Rightarrow> ingest_env \<Rightarrow> string \<Rightarrow> string \<Rightarrow> (nat \<Rightarrow> string option) \<Rightarrow> canonical_chapter list \<Rightarrow> paragraph_row list" where
  "paragraph_rows dp ev t book_id page_id chapters = concat (map (\<lambda>(i, c).
     map (\<lambda>(k, p). paragraph_row_of dp ev t book_id page_id i c k p) (enumerate 0 (ch_paragraphs c))) (enumerate 0 chapters))"

definition persist_structure ::
  "'s ingest_deps \<Rightarrow> ingest_env \<Rightarrow> string \<Rightarrow> string \<Rightarrow> (nat \<Rightarrow> string option) \<Rightarrow> canonical_chapter list
     \<Rightarrow> 's ingest_world \<Rightarrow> 's ingest_world" where
  "persist_structure dp ev t book_id page_id chapters w =
     w\<lparr> iw_chapters := iw_chapters w @ chapter_rows ev t book_id chapters,
        iw_sections := iw_sections w @ section_rows ev t book_id chapters,
        iw_paragraphs := iw_paragraphs w @ paragraph_rows dp ev t book_id page_id chapters \<rparr>"

subsection \<open>Persisting a result\<close>

text \<open>What the steps before the transaction have resolved.\<close>

record persist_args =
  ps_book_id :: string
  ps_version :: nat
  ps_parser_model :: string
  ps_normalizer_model :: string
  ps_ocr_model :: "string option"
  ps_manifest_key :: string
  ps_manifest :: object_meta

definition succeed_patch :: "int \<Rightarrow> string option \<Rightarrow> string \<Rightarrow> nat \<Rightarrow> job \<Rightarrow> job" where
  "succeed_patch now stage version_id version j =
     touch now (set_completed now (set_status SUCCEEDED now
       (j\<lparr> jb_progress := (jb_progress j)\<lparr> jp_value := 1,
             jp_stage := (case stage of Some s \<Rightarrow> Some s | None \<Rightarrow> jp_stage (jb_progress j)) \<rparr>,
           jb_result := \<lparr> jr_type = Some ''book_version'', jr_id = Some version_id, jr_version = Some version \<rparr> \<rparr>)))"

definition new_version :: "'s ingest_deps \<Rightarrow> ingest_env \<Rightarrow> persist_args \<Rightarrow> job \<Rightarrow> book_file \<Rightarrow> ingestion_result \<Rightarrow> book_version" where
  "new_version dp ev args j f r =
     \<lparr> bv_id = ie_version_id ev, bv_tenant_id = jb_tenant_id j, bv_book_id = ps_book_id args, bv_file_id = bf_id f,
       bv_version = ps_version args, bv_structure_label = ''structure.v1'', bv_is_current = True,
       bv_content_hash = ir_content_hash r, bv_raw_text_hash = ir_raw_text_content_hash r,
       bv_pipeline_version = cf_pipeline_version (dp_config dp),
       bv_parser_strategy = id_provider (ir_parser_identity r), bv_parser_model = ps_parser_model args,
       bv_ocr_model = ps_ocr_model args, bv_normalizer_model = ps_normalizer_model args,
       bv_parser_options = JObj [(''force_ocr'', JBool False),
         (''ocr_language_hints'', JArr [JStr (cf_ocr_language (dp_config dp))])],
       bv_manifest_key = ps_manifest_key args, bv_manifest_hash = ck_hash (om_checksum (ps_manifest args)),
       bv_manifest_verified_at = ie_now ev, bv_bucket = om_bucket (ps_manifest args),
       bv_status = derive_book_version_status r, bv_qc = ir_quality_report r,
       bv_pages_total = map_option length (ir_pages r), bv_pages_ok = pages_ok_count r,
       bv_pages_needs_review = pages_review_count r, bv_degraded = degraded_result r,
       bv_started = (case jt_started (jb_times j) of Some s \<Rightarrow> s | None \<Rightarrow> ie_now ev),
       bv_completed = ie_now ev, bv_superseded_at = None, bv_superseded_by = None \<rparr>"

definition supersede :: "int \<Rightarrow> string \<Rightarrow> book_version \<Rightarrow> book_version" where
  "supersede now by_id v = v\<lparr> bv_is_current := False, bv_superseded_at := Some now, bv_superseded_by := Some by_id \<rparr>"

definition ingestion_draft :: "job \<Rightarrow> string \<Rightarrow> string option \<Rightarrow> string \<Rightarrow> string \<Rightarrow> json \<Rightarrow> outbox_draft" where
  "ingestion_draft j event_type book_id aggregate_type aggregate_id payload =
     \<lparr> od_event_type = event_type, od_schema_version = ''1.0'', od_tenant_id = jb_tenant_id j, od_book_id = book_id,
       od_job_id = Some (jb_id j), od_correlation_id = jb_correlation_id j, od_causation_id = jb_correlation_id j,
       od_traceparent = None, od_producer = ''worker-cpu'', od_producer_version = ''1.0.0'', od_payload = payload,
       od_aggregate_type = aggregate_type, od_aggregate_id = aggregate_id \<rparr>"

definition parsed_draft :: "ingest_env \<Rightarrow> persist_args \<Rightarrow> job \<Rightarrow> ingestion_result \<Rightarrow> outbox_draft" where
  "parsed_draft ev args j r =
     (let paragraph_count = length (all_paragraphs (ir_chapters r))
      in ingestion_draft j ''book.parsed'' (Some (ps_book_id args)) ''book_version'' (ie_version_id ev)
        (JObj [(''book_version_id'', JStr (ie_version_id ev)), (''content_hash'', JStr (ir_content_hash r)),
          (''pages_ok'', JNum (int (case pages_ok_count r of Some n \<Rightarrow> n | None \<Rightarrow> paragraph_count))),
          (''pages_needs_review'', JNum (int (case pages_review_count r of Some n \<Rightarrow> n | None \<Rightarrow> 0))),
          (''extraction_method'', JStr (if ir_source_kind r = EPUB then ''EPUB_SPINE'' else ''DIGITAL_TEXT'')),
          (''degraded'', JBool (degraded_result r))]))"

definition structure_ready_draft :: "ingest_env \<Rightarrow> persist_args \<Rightarrow> job \<Rightarrow> ingestion_result \<Rightarrow> outbox_draft" where
  "structure_ready_draft ev args j r =
     ingestion_draft j ''book.structure_ready'' (Some (ps_book_id args)) ''book_version'' (ie_version_id ev)
       (JObj [(''book_version_id'', JStr (ie_version_id ev)), (''structure_version_label'', JStr ''structure.v1''),
         (''chapter_count'', JNum (int (length (ir_chapters r)))),
         (''paragraph_count'', JNum (int (length (all_paragraphs (ir_chapters r))))),
         (''text_qc_outcome'', JStr (show_qc (qr_outcome (ir_quality_report r))))])"

definition same_content :: "'s ingest_deps \<Rightarrow> string \<Rightarrow> ingestion_result \<Rightarrow> book_version \<Rightarrow> bool" where
  "same_content dp book_id r v \<longleftrightarrow> bv_book_id v = book_id \<and> bv_pipeline_version v = cf_pipeline_version (dp_config dp)
     \<and> bv_content_hash v = ir_content_hash r \<and> bv_superseded_at v = None"

definition book_parsed_patch :: "ingest_env \<Rightarrow> ingestion_result \<Rightarrow> book \<Rightarrow> book" where
  "book_parsed_patch ev r b =
     (let st = derive_book_version_status r; needs_review = (st = VERSION_NEEDS_REVIEW \<or> st = PARTIAL_OCR)
      in b\<lparr> bk_status := (if needs_review then BNeedsReview else BStructured), bk_status_changed := ie_now ev,
            bk_needs_review := needs_review, bk_current_version := Some (ie_version_id ev), bk_updated := ie_now ev \<rparr>)"

text \<open>The transaction: identical content is a merge, anything else a new version with all its rows.\<close>

definition merge_version :: "ingest_env \<Rightarrow> job \<Rightarrow> book_version \<Rightarrow> 's ingest_world \<Rightarrow> (thrown + string) \<times> 's ingest_world" where
  "merge_version ev j existing w =
     (case update_job (jb_id j) (succeed_patch (ie_now ev) None (bv_id existing) (bv_version existing)) (db_jobs w) of
        Inl e \<Rightarrow> (Inl e, w)
      | Inr jobs' \<Rightarrow> (Inr (bv_id existing), w\<lparr> db_jobs := jobs' \<rparr>))"

definition write_library ::
  "'s ingest_deps \<Rightarrow> ingest_env \<Rightarrow> persist_args \<Rightarrow> job \<Rightarrow> ingestion_result \<Rightarrow> book_version list \<Rightarrow> 's ingest_world \<Rightarrow> 's ingest_world" where
  "write_library dp ev args j r versions w =
     (let pages = (case ir_pages r of Some ps \<Rightarrow> ps | None \<Rightarrow> [])
      in persist_structure dp ev (jb_tenant_id j) (ps_book_id args) (page_number_ids ev pages) (ir_chapters r)
        (w\<lparr> iw_versions := update_where (\<lambda>v. bv_book_id v = ps_book_id args \<and> bv_is_current v \<and> bv_id v \<noteq> ie_version_id ev)
               (supersede (ie_now ev) (ie_version_id ev)) versions,
            iw_pages := iw_pages w @ page_rows ev (jb_tenant_id j) (ps_book_id args) (ps_ocr_model args) pages \<rparr>))"

definition finish_version ::
  "ingest_env \<Rightarrow> persist_args \<Rightarrow> job \<Rightarrow> ingestion_result \<Rightarrow> 's ingest_world \<Rightarrow> (thrown + string) \<times> 's ingest_world" where
  "finish_version ev args j r w =
     (case update_book (ps_book_id args) (book_parsed_patch ev r) (iw_books w) of
        Inl e \<Rightarrow> (Inl e, w)
      | Inr books' \<Rightarrow>
          (case update_job (jb_id j) (succeed_patch (ie_now ev) (Some ''DONE'') (ie_version_id ev) (ps_version args)) (db_jobs w) of
             Inl e \<Rightarrow> (Inl e, w)
           | Inr jobs' \<Rightarrow>
               (Inr (ie_version_id ev),
                w\<lparr> iw_books := books', db_jobs := jobs',
                   db_outbox := add_events (ie_event_ids ev) 0 (ie_now ev)
                     [parsed_draft ev args j r, structure_ready_draft ev args j r] (db_outbox w) \<rparr>)))"

definition write_version ::
  "'s ingest_deps \<Rightarrow> ingest_env \<Rightarrow> persist_args \<Rightarrow> job \<Rightarrow> book_file \<Rightarrow> ingestion_result \<Rightarrow> 's ingest_world
     \<Rightarrow> (thrown + string) \<times> 's ingest_world" where
  "write_version dp ev args j f r w =
     (case create_version (new_version dp ev args j f r) (iw_versions w) of
        Inl e \<Rightarrow> (Inl e, w)
      | Inr versions \<Rightarrow> finish_version ev args j r (write_library dp ev args j r versions w))"

definition persist_transaction ::
  "'s ingest_deps \<Rightarrow> ingest_env \<Rightarrow> persist_args \<Rightarrow> job \<Rightarrow> book_file \<Rightarrow> ingestion_result \<Rightarrow> 's ingest_world
     \<Rightarrow> (thrown + string) \<times> 's ingest_world" where
  "persist_transaction dp ev args j f r = with_transaction (\<lambda>w.
     (case find_row (same_content dp (ps_book_id args) r) (iw_versions w) of
        Some existing \<Rightarrow> merge_version ev j existing w
      | None \<Rightarrow> write_version dp ev args j f r w))"

definition next_version :: "string \<Rightarrow> book_version list \<Rightarrow> nat" where
  "next_version book_id vs = fold max (map bv_version (filter (\<lambda>v. bv_book_id v = book_id) vs)) 0 + 1"

text \<open>What is resolved before anything is written: the model versions, the number and the storage key.\<close>

definition resolve_ocr_model :: "'s ingest_deps \<Rightarrow> parser_identity option \<Rightarrow> thrown + string option" where
  "resolve_ocr_model dp identity = (case identity of
     None \<Rightarrow> Inr None
   | Some o' \<Rightarrow> bindE (resolve_model_version_id dp ''OCR'' (id_provider o') (id_model o') (id_version o')) (\<lambda>m. Inr (Some m)))"

definition resolve_persist_args ::
  "'s ingest_deps \<Rightarrow> string \<Rightarrow> string \<Rightarrow> ingestion_result \<Rightarrow> book_version list \<Rightarrow> thrown + string \<times> (object_meta \<Rightarrow> persist_args)" where
  "resolve_persist_args dp t book_id r versions =
     bindE (resolve_model_version_id dp ''PARSER'' (id_provider (ir_parser_identity r)) (id_model (ir_parser_identity r))
        (id_version (ir_parser_identity r))) (\<lambda>parser_model.
     bindE (resolve_model_version_id dp ''NORMALIZER'' ''audio-book-normalizer'' ''text-normalizer''
        (cf_normalization_version (dp_config dp))) (\<lambda>normalizer_model.
     bindE (resolve_ocr_model dp (ir_ocr_identity r)) (\<lambda>ocr_model.
     let version = next_version book_id versions in
     bindE (build_storage_key t [''books'', book_id, ''versions'', show_nat version, ''normalized'', ''canonical.md'']) (\<lambda>key.
     Inr (key, \<lambda>meta. \<lparr> ps_book_id = book_id, ps_version = version, ps_parser_model = parser_model,
       ps_normalizer_model = normalizer_model, ps_ocr_model = ocr_model, ps_manifest_key = key, ps_manifest = meta \<rparr>)))))"

definition persist_ingestion_result ::
  "'s ingest_deps \<Rightarrow> ingest_env \<Rightarrow> job \<Rightarrow> book_file \<Rightarrow> ingestion_result \<Rightarrow> 's ingest_world
     \<Rightarrow> (thrown + string) \<times> 's ingest_world" where
  "persist_ingestion_result dp ev j f r w =
     (if \<not> truthy (jb_book_id j) then (Inl (OtherErr (''ProcessingJob '' @ jb_id j @ '' has no bookId'')), w)
      else (case resolve_persist_args dp (jb_tenant_id j) (the (jb_book_id j)) r (iw_versions w) of
         Inl e \<Rightarrow> (Inl e, w)
       | Inr (key, args_of) \<Rightarrow>
           (case dp_put dp \<lparr> pi_key = key, pi_body = utf8_encode (ir_markdown r),
                  pi_content_type = ''text/markdown; charset=utf-8'' \<rparr> (iw_store w) of
              (Inl e, store') \<Rightarrow> (Inl e, w\<lparr> iw_store := store' \<rparr>)
            | (Inr meta, store') \<Rightarrow> persist_transaction dp ev (args_of meta) j f r (w\<lparr> iw_store := store' \<rparr>))))"

subsection \<open>Failure\<close>

definition fail_patch :: "'s ingest_deps \<Rightarrow> int \<Rightarrow> thrown \<Rightarrow> bool \<Rightarrow> job \<Rightarrow> job" where
  "fail_patch dp now err terminal j =
     touch now (set_completed now (set_status FAILED now
       (j\<lparr> jb_error := \<lparr> je_code = Some (error_code err), je_class = Some (error_class dp err),
             je_message = Some (error_message err), je_retryable = Some (\<not> terminal), je_terminal = Some terminal \<rparr> \<rparr>)))"

definition parse_failed_draft :: "'s ingest_deps \<Rightarrow> job \<Rightarrow> thrown \<Rightarrow> bool \<Rightarrow> outbox_draft" where
  "parse_failed_draft dp j err terminal =
     ingestion_draft j ''book.parse_failed'' (jb_book_id j) ''processing_job'' (jb_id j)
       (JObj [(''book_version_id'', JNull), (''error_code'', JStr (error_code err)),
         (''error_class'', JStr (error_class dp err)),
         (''failed_stage'', JStr (case jp_stage (jb_progress j) of Some s \<Rightarrow> s | None \<Rightarrow> ''UNKNOWN'')),
         (''retryable'', JBool (\<not> terminal))])"

definition record_failure ::
  "'s ingest_deps \<Rightarrow> ingest_env \<Rightarrow> job \<Rightarrow> thrown \<Rightarrow> bool \<Rightarrow> 's ingest_world \<Rightarrow> (thrown + unit) \<times> 's ingest_world" where
  "record_failure dp ev j err terminal = with_transaction (\<lambda>w.
     (case find_job (jb_id j) (db_jobs w) of
        None \<Rightarrow> (Inr (), w)
      | Some current \<Rightarrow>
          if jb_status current = FAILED then (Inr (), w)
          else (case update_job (jb_id j) (fail_patch dp (ie_now ev) err terminal) (db_jobs w) of
             Inl e \<Rightarrow> (Inl e, w)
           | Inr jobs' \<Rightarrow>
               (case (if truthy (jb_book_id j)
                      then update_book (the (jb_book_id j))
                        (\<lambda>b. b\<lparr> bk_status := BFailed, bk_status_changed := ie_now ev, bk_needs_review := True, bk_updated := ie_now ev \<rparr>) (iw_books w)
                      else Inr (iw_books w)) of
                  Inl e \<Rightarrow> (Inl e, w)
                | Inr books' \<Rightarrow> (Inr (), w\<lparr> db_jobs := jobs', iw_books := books',
                    db_outbox := outbox_add (fst (ie_event_ids ev 0)) (snd (ie_event_ids ev 0)) (ie_now ev)
                      (parse_failed_draft dp j err terminal) (db_outbox w) \<rparr>)))))"

definition handle_ingestion_failure ::
  "'s ingest_deps \<Rightarrow> ingest_env \<Rightarrow> job \<Rightarrow> thrown \<Rightarrow> 's ingest_world \<Rightarrow> (thrown + unit) \<times> 's ingest_world" where
  "handle_ingestion_failure dp ev j err w =
     (let terminal = is_terminal_ingestion_error err;
          final_attempt = ie_attempts_made ev + 1 \<ge> ie_max_attempts ev
      in if \<not> terminal \<and> \<not> final_attempt then (Inr (), w)
         else record_failure dp ev j err terminal w)"

subsection \<open>The processor\<close>

definition start_patch :: "int \<Rightarrow> job \<Rightarrow> job \<Rightarrow> job" where
  "start_patch now read j = touch now (set_status RUNNING now
     (j\<lparr> jb_times := (jb_times j)\<lparr> jt_started := Some (case jt_started (jb_times read) of Some s \<Rightarrow> s | None \<Rightarrow> now) \<rparr>,
         jb_progress := (jb_progress j)\<lparr> jp_stage := Some ''FETCHING_SOURCE'' \<rparr>,
         jb_attempt_count := jb_attempt_count j + 1 \<rparr>))"

definition progress_patch :: "int \<Rightarrow> string \<Rightarrow> rat \<Rightarrow> job \<Rightarrow> job" where
  "progress_patch now stage value j = touch now (j\<lparr> jb_progress := (jb_progress j)\<lparr> jp_stage := Some stage, jp_value := value \<rparr> \<rparr>)"

definition update_job_in :: "string \<Rightarrow> (job \<Rightarrow> job) \<Rightarrow> 's ingest_world \<Rightarrow> (thrown + unit) \<times> 's ingest_world" where
  "update_job_in i f w = (case update_job i f (db_jobs w) of
     Inl e \<Rightarrow> (Inl e, w) | Inr jobs' \<Rightarrow> (Inr (), w\<lparr> db_jobs := jobs' \<rparr>))"

text \<open>The body of the \<open>try\<close> block.\<close>

definition ingest_body ::
  "'s ingest_deps \<Rightarrow> ingest_env \<Rightarrow> job \<Rightarrow> book_file \<Rightarrow> 's ingest_world \<Rightarrow> (thrown + string) \<times> 's ingest_world" where
  "ingest_body dp ev j f w =
     (case download_to_buffer dp (bf_storage_key f) (cf_max_file_size_bytes (dp_config dp)) (iw_store w) of
        Inl e \<Rightarrow> (Inl e, w)
      | Inr buffer \<Rightarrow>
          (case update_job_in (jb_id j) (progress_patch (ie_now ev) ''PARSING'' (2 / 10)) w of
             (Inl e, w1) \<Rightarrow> (Inl e, w1)
           | (Inr _, w1) \<Rightarrow>
               (case run_ingestion_pipeline (dp_sha256 dp) (dp_file_type dp) (dp_parse dp) (dp_ocr_identity dp)
                       (dp_config dp) (dp_config_json dp) buffer
                       (case bf_sniffed_mime f of Some m \<Rightarrow> m | None \<Rightarrow> bf_mime f) of
                  Inl e \<Rightarrow> (Inl e, w1)
                | Inr result \<Rightarrow>
                    (case update_job_in (jb_id j) (progress_patch (ie_now ev) ''PERSISTING'' (8 / 10)) w1 of
                       (Inl e, w2) \<Rightarrow> (Inl e, w2)
                     | (Inr _, w2) \<Rightarrow> persist_ingestion_result dp ev j f result w2))))"

text \<open>The check of the table on \<open>attempt_count\<close>.\<close>

definition attempt_allowed :: "job \<Rightarrow> bool" where
  "attempt_allowed j \<longleftrightarrow> jb_attempt_count j + 1 \<le> jb_max_attempts j + 1"

definition process_ingestion_job ::
  "'s ingest_deps \<Rightarrow> ingest_env \<Rightarrow> json \<Rightarrow> 's ingest_world \<Rightarrow> (thrown + unit) \<times> 's ingest_world" where
  "process_ingestion_job dp ev envelope w =
     (if \<not> truthy (str_field envelope ''entity_id'')
      then (Inl (OtherErr ''parse_book envelope is missing entity_id (the ProcessingJob id)''), w)
      else let processing_job_id = the (str_field envelope ''entity_id'') in
      (case find_job processing_job_id (db_jobs w) of
         None \<Rightarrow> (Inl (OtherErr (''ProcessingJob '' @ processing_job_id @ '' not found'')), w)
       | Some j \<Rightarrow>
           if jb_status j = SUCCEEDED \<or> jb_status j = FAILED then (Inr (), w)
           else let file_id = (case json_field envelope ''payload'' of Some p \<Rightarrow> str_field p ''book_file_id'' | None \<Rightarrow> None) in
           (case find_row (\<lambda>f. Some (bf_id f) = file_id) (dp_files dp) of
              None \<Rightarrow> (Inl (OtherErr (''BookFile '' @ (case file_id of Some i \<Rightarrow> i | None \<Rightarrow> ''undefined'') @ '' not found'')), w)
            | Some f \<Rightarrow>
                if \<not> attempt_allowed j then (Inl (OtherErr ''processing_job_attempt_count_chk''), w)
                else (case update_job_in processing_job_id (start_patch (ie_now ev) j) w of
                   (Inl e, w1) \<Rightarrow> (Inl e, w1)
                 | (Inr _, w1) \<Rightarrow>
                     (case ingest_body dp ev j f w1 of
                        (Inr _, w2) \<Rightarrow> (Inr (), w2)
                      | (Inl err, w2) \<Rightarrow>
                          (case handle_ingestion_failure dp ev j err w2 of
                             (Inl e, w3) \<Rightarrow> (Inl e, w3)
                           | (Inr _, w3) \<Rightarrow> (Inl err, w3)))))))"

text \<open>The consumer of the queue \<open>parse\<close> in \<open>main.ts\<close>: the gate, then the processor.\<close>

definition consume_parse ::
  "(string \<Rightarrow> string \<Rightarrow> thrown + bool) \<Rightarrow> 's ingest_deps \<Rightarrow> ingest_env \<Rightarrow> string \<times> string \<Rightarrow> json \<Rightarrow> 's ingest_world
     \<Rightarrow> (thrown + unit) \<times> 's ingest_world" where
  "consume_parse flag dp ev ids envelope w =
     (case halt_if_cancelled flag (ie_now ev) ids (envelope_job_id envelope) w of
        (Inl e, w1) \<Rightarrow> (Inl e, w1)
      | (Inr True, w1) \<Rightarrow> (Inr (), w1)
      | (Inr False, w1) \<Rightarrow> process_ingestion_job dp ev envelope w1)"

end
