(* ===== verification/IngestionLaws.thy ===== *)
theory IngestionLaws
  imports IngestionJob
begin

text \<open>
  Laws of the ingestion processor: the library changes only by a complete version or not at all,
  what a success and a failure record, and where the rows of a version refer to.
\<close>

subsection \<open>Patches\<close>

lemma ingestion_patches [simp]:
  "jb_id (succeed_patch now st v n j) = jb_id j" "jb_status (succeed_patch now st v n j) = SUCCEEDED"
  "jb_cancel (succeed_patch now st v n j) = jb_cancel j" "jt_completed (jb_times (succeed_patch now st v n j)) = Some now"
  "jb_result (succeed_patch now st v n j) = \<lparr> jr_type = Some ''book_version'', jr_id = Some v, jr_version = Some n \<rparr>"
  "jb_id (fail_patch dp now e t j) = jb_id j" "jb_status (fail_patch dp now e t j) = FAILED"
  "jb_cancel (fail_patch dp now e t j) = jb_cancel j" "jt_completed (jb_times (fail_patch dp now e t j)) = Some now"
  "je_code (jb_error (fail_patch dp now e t j)) = Some (error_code e)"
  "je_terminal (jb_error (fail_patch dp now e t j)) = Some t"
  "je_retryable (jb_error (fail_patch dp now e t j)) = Some (\<not> t)"
  "jb_id (start_patch now r j) = jb_id j" "jb_status (start_patch now r j) = RUNNING"
  "jb_cancel (start_patch now r j) = jb_cancel j"
  "jt_completed (jb_times (start_patch now r j)) = jt_completed (jb_times j)"
  "jb_id (progress_patch now s x j) = jb_id j" "jb_status (progress_patch now s x j) = jb_status j"
  "jb_cancel (progress_patch now s x j) = jb_cancel j"
  "jt_completed (jb_times (progress_patch now s x j)) = jt_completed (jb_times j)"
  "jb_error (progress_patch now s x j) = jb_error j"
  by (simp_all add: succeed_patch_def fail_patch_def start_patch_def progress_patch_def touch_def
      set_status_def set_completed_def)

interpretation succeeded: keyed_update jb_id "succeed_patch now st v n" for now st v n
  by unfold_locales simp
interpretation failed: keyed_update jb_id "fail_patch dp now e t" for dp now e t
  by unfold_locales simp
interpretation started: keyed_update jb_id "start_patch now r" for now r
  by unfold_locales simp
interpretation progressed: keyed_update jb_id "progress_patch now s x" for now s x
  by unfold_locales simp
interpretation superseded: keyed_update bv_id "supersede now v" for now v
  by unfold_locales (simp add: supersede_def)

text \<open>The tables of the library, and that two worlds agree on them.\<close>

definition same_library :: "'s ingest_world \<Rightarrow> 's ingest_world \<Rightarrow> bool" where
  "same_library w w' \<longleftrightarrow> iw_versions w' = iw_versions w \<and> iw_pages w' = iw_pages w \<and> iw_chapters w' = iw_chapters w
     \<and> iw_sections w' = iw_sections w \<and> iw_paragraphs w' = iw_paragraphs w"

lemma same_library_refl [simp]: "same_library w w"
  by (simp add: same_library_def)

lemma same_library_trans: "same_library w w1 \<Longrightarrow> same_library w1 w2 \<Longrightarrow> same_library w w2"
  by (simp add: same_library_def)

subsection \<open>Persisting\<close>

lemma persist_transaction_rollback: "persist_transaction dp ev args j f r w = (Inl e, w') \<Longrightarrow> w' = w"
  unfolding persist_transaction_def by (rule with_transaction_Inl)

lemma persist_result_error:
  assumes "persist_ingestion_result dp ev j f r w = (Inl e, w')"
  shows "w' = w\<lparr> iw_store := iw_store w' \<rparr>"
  using assms
  by (auto simp: persist_ingestion_result_def split: if_splits sum.splits prod.splits
      dest!: persist_transaction_rollback)

text \<open>The two ways to succeed: the content is already there, or a new version is written whole.\<close>

definition version_merged :: "'s ingest_deps \<Rightarrow> ingest_env \<Rightarrow> persist_args \<Rightarrow> job \<Rightarrow> ingestion_result \<Rightarrow> string
     \<Rightarrow> 's ingest_world \<Rightarrow> 's ingest_world \<Rightarrow> bool" where
  "version_merged dp ev args j r vid w w' \<longleftrightarrow> (\<exists>u \<in> set (iw_versions w). same_content dp (ps_book_id args) r u \<and> vid = bv_id u
     \<and> w' = w\<lparr> db_jobs := update_where (\<lambda>x. jb_id x = jb_id j)
          (succeed_patch (ie_now ev) None (bv_id u) (bv_version u)) (db_jobs w) \<rparr>)"

definition version_written ::
  "'s ingest_deps \<Rightarrow> ingest_env \<Rightarrow> persist_args \<Rightarrow> job \<Rightarrow> book_file \<Rightarrow> ingestion_result \<Rightarrow> 's ingest_world \<Rightarrow> 's ingest_world \<Rightarrow> bool" where
  "version_written dp ev args j f r w w' \<longleftrightarrow>
     \<not> version_conflict (new_version dp ev args j f r) (iw_versions w)
     \<and> (\<exists>books'. w' = (write_library dp ev args j r (iw_versions w @ [new_version dp ev args j f r]) w)
          \<lparr> iw_books := books',
            db_jobs := update_where (\<lambda>x. jb_id x = jb_id j)
              (succeed_patch (ie_now ev) (Some ''DONE'') (ie_version_id ev) (ps_version args)) (db_jobs w),
            db_outbox := add_events (ie_event_ids ev) 0 (ie_now ev)
              [parsed_draft ev args j r, structure_ready_draft ev args j r] (db_outbox w) \<rparr>)"

lemma write_library_frame [simp]:
  "db_jobs (write_library dp ev args j r vs w) = db_jobs w" "db_outbox (write_library dp ev args j r vs w) = db_outbox w"
  "iw_books (write_library dp ev args j r vs w) = iw_books w"
  by (simp_all add: write_library_def persist_structure_def Let_def)

lemma finish_version_Inr:
  assumes "finish_version ev args j r w = (Inr vid, w')"
  shows "vid = ie_version_id ev \<and> (\<exists>books'. w' = w\<lparr> iw_books := books',
      db_jobs := update_where (\<lambda>x. jb_id x = jb_id j)
        (succeed_patch (ie_now ev) (Some ''DONE'') (ie_version_id ev) (ps_version args)) (db_jobs w),
      db_outbox := add_events (ie_event_ids ev) 0 (ie_now ev)
        [parsed_draft ev args j r, structure_ready_draft ev args j r] (db_outbox w) \<rparr>)"
proof -
  obtain books' where b: "update_book (ps_book_id args) (book_parsed_patch ev r) (iw_books w) = Inr books'"
    using assms by (cases "update_book (ps_book_id args) (book_parsed_patch ev r) (iw_books w)") (simp_all add: finish_version_def)
  obtain jobs' where j: "update_job (jb_id j) (succeed_patch (ie_now ev) (Some ''DONE'') (ie_version_id ev) (ps_version args))
      (db_jobs w) = Inr jobs'"
    using assms b by (cases "update_job (jb_id j) (succeed_patch (ie_now ev) (Some ''DONE'') (ie_version_id ev) (ps_version args))
      (db_jobs w)") (simp_all add: finish_version_def)
  have upd: "jobs' = update_where (\<lambda>x. jb_id x = jb_id j)
      (succeed_patch (ie_now ev) (Some ''DONE'') (ie_version_id ev) (ps_version args)) (db_jobs w)"
    using j unfolding update_job_Inr by blast
  have "Inr (ie_version_id ev) = (Inr vid :: thrown + string) \<and>
      w\<lparr> iw_books := books', db_jobs := jobs', db_outbox := add_events (ie_event_ids ev) 0 (ie_now ev)
        [parsed_draft ev args j r, structure_ready_draft ev args j r] (db_outbox w) \<rparr> = w'"
    using assms unfolding finish_version_def b j sum.case prod.inject .
  then show ?thesis unfolding upd by blast
qed

lemma write_version_Inr:
  assumes "write_version dp ev args j f r w = (Inr vid, w')"
  shows "vid = ie_version_id ev \<and> version_written dp ev args j f r w w'"
proof -
  let ?v = "new_version dp ev args j f r"
  have no: "\<not> version_conflict ?v (iw_versions w)"
    using assms by (auto simp: write_version_def create_version_def split: if_splits)
  then have "finish_version ev args j r (write_library dp ev args j r (iw_versions w @ [?v]) w) = (Inr vid, w')"
    using assms by (simp add: write_version_def create_version_def insert_row_def)
  from finish_version_Inr [OF this] show ?thesis
    unfolding version_written_def write_library_frame using no by blast
qed

lemma persist_transaction_cases:
  assumes "persist_transaction dp ev args j f r w = (Inr vid, w')"
  shows "version_merged dp ev args j r vid w w' \<or> (vid = ie_version_id ev \<and> version_written dp ev args j f r w w')"
proof -
  have body: "(case find_row (same_content dp (ps_book_id args) r) (iw_versions w) of
      Some existing \<Rightarrow> merge_version ev j existing w | None \<Rightarrow> write_version dp ev args j f r w) = (Inr vid, w')"
    using assms unfolding persist_transaction_def by (rule with_transaction_Inr)
  show ?thesis
  proof (cases "find_row (same_content dp (ps_book_id args) r) (iw_versions w)")
    case (Some u)
    then have "u \<in> set (iw_versions w)" "same_content dp (ps_book_id args) r u" by (auto dest: find_row_Some)
    moreover have "vid = bv_id u \<and> w' = w\<lparr> db_jobs := update_where (\<lambda>x. jb_id x = jb_id j)
          (succeed_patch (ie_now ev) None (bv_id u) (bv_version u)) (db_jobs w) \<rparr>"
      using body Some by (auto simp: merge_version_def update_job_Inr split: sum.splits)
    ultimately show ?thesis unfolding version_merged_def by blast
  next
    case None
    then have "write_version dp ev args j f r w = (Inr vid, w')" using body by simp
    from write_version_Inr [OF this] show ?thesis by blast
  qed
qed

lemma resolve_persist_args_Inr:
  assumes "resolve_persist_args dp t book_id r vs = Inr (key, args_of)"
  shows "ps_book_id (args_of m) = book_id \<and> ps_version (args_of m) = next_version book_id vs
    \<and> build_storage_key t [''books'', book_id, ''versions'', show_nat (next_version book_id vs), ''normalized'', ''canonical.md''] = Inr key
    \<and> ps_manifest_key (args_of m) = key"
  using assms by (auto simp: resolve_persist_args_def bindE_eq_Inr Let_def)

lemma persist_result_transaction:
  assumes "persist_ingestion_result dp ev j f r w = (Inr vid, w')"
  obtains args store' where "jb_book_id j = Some (ps_book_id args)" "ps_version args = next_version (ps_book_id args) (iw_versions w)"
    "persist_transaction dp ev args j f r (w\<lparr> iw_store := store' \<rparr>) = (Inr vid, w')"
proof -
  obtain b where b: "jb_book_id j = Some b" "b \<noteq> []"
    using assms by (cases "jb_book_id j") (auto simp: persist_ingestion_result_def truthy_def split: if_splits)
  obtain key args_of where ra: "resolve_persist_args dp (jb_tenant_id j) b r (iw_versions w) = Inr (key, args_of)"
    using assms b by (auto simp: persist_ingestion_result_def truthy_def split: sum.splits)
  obtain meta store' where "persist_transaction dp ev (args_of meta) j f r (w\<lparr> iw_store := store' \<rparr>) = (Inr vid, w')"
    using assms b ra by (auto simp: persist_ingestion_result_def truthy_def split: sum.splits prod.splits)
  then show ?thesis using that [of "args_of meta" store'] resolve_persist_args_Inr [OF ra] b by simp
qed

subsection \<open>The body of an attempt\<close>

text \<open>
  Everything before the transaction touches only the object store and, in the rows of the jobs,
  neither the id nor the status nor the cancellation.
\<close>

definition row_state :: "job \<Rightarrow> string \<times> job_status \<times> job_cancellation" where
  "row_state j = (jb_id j, jb_status j, jb_cancel j)"

interpretation progressed_state: keyed_update row_state "progress_patch now s x" for now s x
  by unfold_locales (simp add: row_state_def)

definition only_jobs :: "'s ingest_world \<Rightarrow> 's ingest_world \<Rightarrow> bool" where
  "only_jobs w w' \<longleftrightarrow> (\<exists>js st. w' = w\<lparr> db_jobs := js, iw_store := st \<rparr> \<and> map row_state js = map row_state (db_jobs w))"

lemma only_jobs_refl [simp, intro]: "only_jobs w w"
  unfolding only_jobs_def by (intro exI [of _ "db_jobs w"] exI [of _ "iw_store w"]) simp

lemma only_jobs_trans:
  assumes "only_jobs w w1" "only_jobs w1 w2"
  shows "only_jobs w w2"
proof -
  obtain js st where 1: "w1 = w\<lparr> db_jobs := js, iw_store := st \<rparr>" "map row_state js = map row_state (db_jobs w)"
    using assms(1) unfolding only_jobs_def by blast
  obtain js2 st2 where 2: "w2 = w1\<lparr> db_jobs := js2, iw_store := st2 \<rparr>" "map row_state js2 = map row_state (db_jobs w1)"
    using assms(2) unfolding only_jobs_def by blast
  have "w2 = w\<lparr> db_jobs := js2, iw_store := st2 \<rparr>" "map row_state js2 = map row_state (db_jobs w)"
    using 1 2 by simp_all
  then show ?thesis unfolding only_jobs_def by blast
qed

lemma only_jobs_store [intro]: "only_jobs w (w\<lparr> iw_store := st \<rparr>)"
  unfolding only_jobs_def by (intro exI [of _ "db_jobs w"] exI [of _ st]) simp

lemma only_jobs_tables:
  assumes "only_jobs w w'"
  shows "same_library w w'" "iw_books w' = iw_books w" "db_outbox w' = db_outbox w"
    "map row_state (db_jobs w') = map row_state (db_jobs w)"
  using assms by (auto simp: only_jobs_def same_library_def)

lemma find_row_state:
  "map row_state js' = map row_state js \<Longrightarrow>
   map_option row_state (find_job i js') = map_option row_state (find_job i js)"
proof (induction js arbitrary: js')
  case (Cons j js)
  then obtain j' js2 where "js' = j' # js2" "row_state j' = row_state j" "map row_state js2 = map row_state js" by auto
  moreover have "jb_id j' = jb_id j" using calculation(2) by (simp add: row_state_def)
  ultimately show ?case using Cons.IH [of js2] by simp
qed simp

lemma only_jobs_find:
  assumes "only_jobs w w'" "find_job i (db_jobs w) = Some j"
  obtains j' where "find_job i (db_jobs w') = Some j'" "jb_status j' = jb_status j" "jb_cancel j' = jb_cancel j"
proof -
  have "map_option row_state (find_job i (db_jobs w')) = Some (row_state j)"
    using find_row_state [OF only_jobs_tables(4) [OF assms(1)], of i] assms(2) by simp
  then show ?thesis using that by (auto simp: row_state_def)
qed

lemma update_job_in_Inl: "update_job_in i f w = (Inl e, w') \<Longrightarrow> w' = w"
  by (auto simp: update_job_in_def split: sum.splits)

lemma update_job_in_Inr:
  "update_job_in i f w = (Inr u, w') \<longleftrightarrow>
     find_job i (db_jobs w) \<noteq> None \<and> w' = w\<lparr> db_jobs := update_where (\<lambda>j. jb_id j = i) f (db_jobs w) \<rparr>"
  by (auto simp: update_job_in_def update_job_def find_job_def split: option.splits)

lemma update_job_in_only:
  assumes "map row_state (update_where (\<lambda>j. jb_id j = i) f (db_jobs w)) = map row_state (db_jobs w)"
    "update_job_in i f w = (r, w')"
  shows "only_jobs w w'"
proof (cases r)
  case (Inl e)
  then show ?thesis using assms(2) update_job_in_Inl by blast
next
  case (Inr u)
  then have "w' = w\<lparr> db_jobs := update_where (\<lambda>j. jb_id j = i) f (db_jobs w), iw_store := iw_store w \<rparr>"
    using assms(2) by (simp add: update_job_in_Inr)
  then show ?thesis unfolding only_jobs_def using assms(1) by blast
qed

text \<open>An attempt fails before it has written anything of the library, or it ran the transaction to its end.\<close>

lemma persist_result_cases:
  assumes "persist_ingestion_result dp ev j f r w = (res, w')"
  shows "(\<exists>e. res = Inl e \<and> only_jobs w w')
    \<or> (\<exists>vid args w1. res = Inr vid \<and> only_jobs w w1 \<and> jb_book_id j = Some (ps_book_id args)
        \<and> ps_version args = next_version (ps_book_id args) (iw_versions w1)
        \<and> persist_transaction dp ev args j f r w1 = (Inr vid, w'))"
proof (cases res)
  case (Inl e)
  then have "w' = w\<lparr> iw_store := iw_store w' \<rparr>" using persist_result_error assms by blast
  then have "only_jobs w w'" by (metis only_jobs_store)
  then show ?thesis using Inl by blast
next
  case (Inr vid)
  obtain args store' where a: "jb_book_id j = Some (ps_book_id args)"
    "ps_version args = next_version (ps_book_id args) (iw_versions w)"
    "persist_transaction dp ev args j f r (w\<lparr> iw_store := store' \<rparr>) = (Inr vid, w')"
    using persist_result_transaction assms Inr by metis
  then show ?thesis using Inr
    by (intro disjI2 exI [of _ vid] exI [of _ args] exI [of _ "w\<lparr> iw_store := store' \<rparr>"]) auto
qed

definition attempt_committed ::
  "'s ingest_deps \<Rightarrow> ingest_env \<Rightarrow> job \<Rightarrow> book_file \<Rightarrow> string \<Rightarrow> 's ingest_world \<Rightarrow> 's ingest_world \<Rightarrow> bool" where
  "attempt_committed dp ev j f vid w w' \<longleftrightarrow> (\<exists>r args w1. only_jobs w w1 \<and> jb_book_id j = Some (ps_book_id args)
     \<and> ps_version args = next_version (ps_book_id args) (iw_versions w1)
     \<and> (version_merged dp ev args j r vid w1 w'
        \<or> (vid = ie_version_id ev \<and> version_written dp ev args j f r w1 w')))"

lemma ingest_body_cases:
  assumes "ingest_body dp ev j f w = (res, w')"
  shows "(\<exists>e. res = Inl e \<and> only_jobs w w') \<or> (\<exists>vid. res = Inr vid \<and> attempt_committed dp ev j f vid w w')"
proof -
  consider (early) e where "res = Inl e" "only_jobs w w'"
    | (late) r w2 where "only_jobs w w2" "persist_ingestion_result dp ev j f r w2 = (res, w')"
  proof (cases "download_to_buffer dp (bf_storage_key f) (cf_max_file_size_bytes (dp_config dp)) (iw_store w)")
    case (Inl e)
    then show ?thesis using assms early [of e] by (simp add: ingest_body_def)
  next
    case b: (Inr buffer)
    obtain u1 w1 where s1: "update_job_in (jb_id j) (progress_patch (ie_now ev) ''PARSING'' (2 / 10)) w = (u1, w1)"
      by (cases "update_job_in (jb_id j) (progress_patch (ie_now ev) ''PARSING'' (2 / 10)) w")
    have o1: "only_jobs w w1" using update_job_in_only [OF progressed_state.keys_update s1] .
    show ?thesis
    proof (cases u1)
      case (Inl e)
      then show ?thesis using assms b s1 o1 early [of e] by (simp add: ingest_body_def)
    next
      case u1: (Inr u)
      show ?thesis
      proof (cases "run_ingestion_pipeline (dp_sha256 dp) (dp_file_type dp) (dp_parse dp) (dp_ocr_identity dp)
          (dp_config dp) (dp_config_json dp) buffer (case bf_sniffed_mime f of Some m \<Rightarrow> m | None \<Rightarrow> bf_mime f)")
        case (Inl e)
        then show ?thesis using assms b s1 u1 o1 early [of e] by (simp add: ingest_body_def)
      next
        case r: (Inr r)
        obtain u2 w2 where s2: "update_job_in (jb_id j) (progress_patch (ie_now ev) ''PERSISTING'' (8 / 10)) w1 = (u2, w2)"
          by (cases "update_job_in (jb_id j) (progress_patch (ie_now ev) ''PERSISTING'' (8 / 10)) w1")
        have o2: "only_jobs w w2" using only_jobs_trans [OF o1 update_job_in_only [OF progressed_state.keys_update s2]] .
        show ?thesis
        proof (cases u2)
          case (Inl e)
          then show ?thesis using assms b s1 u1 r s2 o2 early [of e] by (simp add: ingest_body_def)
        next
          case (Inr u)
          then show ?thesis using assms b s1 u1 r s2 o2 late by (simp add: ingest_body_def)
        qed
      qed
    qed
  qed
  then show ?thesis
  proof cases
    case (late r w2)
    from persist_result_cases [OF late(2)] show ?thesis
    proof (elim disjE exE conjE)
      fix e assume "res = Inl e" "only_jobs w2 w'"
      then show ?thesis using only_jobs_trans [OF late(1)] by blast
    next
      fix vid args w1
      assume a: "res = Inr vid" "only_jobs w2 w1" "jb_book_id j = Some (ps_book_id args)"
        "ps_version args = next_version (ps_book_id args) (iw_versions w1)"
        "persist_transaction dp ev args j f r w1 = (Inr vid, w')"
      have "attempt_committed dp ev j f vid w w'" unfolding attempt_committed_def
        using only_jobs_trans [OF late(1) a(2)] a(3,4) persist_transaction_cases [OF a(5)] by blast
      then show ?thesis using a(1) by blast
    qed
  qed blast
qed

subsection \<open>The failure handler\<close>

text \<open>It never touches the tables of the library; when it throws it has changed nothing.\<close>

lemma record_failure_library: "same_library w (snd (record_failure dp ev j err terminal w))"
  by (auto simp: record_failure_def with_transaction_def same_library_def
      split: option.split sum.split prod.split if_split)

lemma handle_failure_library: "same_library w (snd (handle_ingestion_failure dp ev j err w))"
  by (simp add: handle_ingestion_failure_def Let_def record_failure_library)

lemma handle_failure_pending:
  "\<not> is_terminal_ingestion_error err \<Longrightarrow> ie_attempts_made ev + 1 < ie_max_attempts ev
     \<Longrightarrow> handle_ingestion_failure dp ev j err w = (Inr (), w)"
  by (simp add: handle_ingestion_failure_def Let_def)

text \<open>What a recorded failure leaves in the row of the job.\<close>

definition failure_recorded :: "'s ingest_deps \<Rightarrow> ingest_env \<Rightarrow> job \<Rightarrow> thrown \<Rightarrow> 's ingest_world \<Rightarrow> 's ingest_world \<Rightarrow> bool" where
  "failure_recorded dp ev j err w w' \<longleftrightarrow> (\<exists>books'.
     w' = w\<lparr> db_jobs := update_where (\<lambda>x. jb_id x = jb_id j) (fail_patch dp (ie_now ev) err (is_terminal_ingestion_error err)) (db_jobs w),
        iw_books := books',
        db_outbox := outbox_add (fst (ie_event_ids ev 0)) (snd (ie_event_ids ev 0)) (ie_now ev)
          (parse_failed_draft dp j err (is_terminal_ingestion_error err)) (db_outbox w) \<rparr>)"

lemma record_failure_fresh:
  assumes "find_job (jb_id j) (db_jobs w) = Some current" "jb_status current \<noteq> FAILED"
    "record_failure dp ev j err (is_terminal_ingestion_error err) w = (Inr u, w')"
  shows "failure_recorded dp ev j err w w'"
proof -
  let ?t = "is_terminal_ingestion_error err"
  have j: "update_job (jb_id j) (fail_patch dp (ie_now ev) err ?t) (db_jobs w)
      = Inr (update_where (\<lambda>x. jb_id x = jb_id j) (fail_patch dp (ie_now ev) err ?t) (db_jobs w))"
    using update_job_total [OF assms(1)] .
  let ?books = "if truthy (jb_book_id j) then update_book (the (jb_book_id j))
      (\<lambda>b. b\<lparr> bk_status := BFailed, bk_status_changed := ie_now ev, bk_needs_review := True, bk_updated := ie_now ev \<rparr>) (iw_books w) else Inr (iw_books w)"
  show ?thesis
  proof (cases ?books)
    case (Inl e)
    then show ?thesis using assms j by (simp add: record_failure_def with_transaction_def)
  next
    case (Inr books')
    then have "w' = w\<lparr> db_jobs := update_where (\<lambda>x. jb_id x = jb_id j) (fail_patch dp (ie_now ev) err ?t) (db_jobs w),
        iw_books := books', db_outbox := outbox_add (fst (ie_event_ids ev 0)) (snd (ie_event_ids ev 0)) (ie_now ev)
          (parse_failed_draft dp j err ?t) (db_outbox w) \<rparr>"
      using assms j by (simp add: record_failure_def with_transaction_def)
    then show ?thesis unfolding failure_recorded_def by blast
  qed
qed

subsection \<open>The processor\<close>

text \<open>A redelivery of a job that has ended changes nothing.\<close>

lemma process_terminal_noop:
  assumes "str_field envelope ''entity_id'' = Some i" "i \<noteq> []" "find_job i (db_jobs w) = Some j"
    "jb_status j = SUCCEEDED \<or> jb_status j = FAILED"
  shows "process_ingestion_job dp ev envelope w = (Inr (), w)"
  using assms by (simp add: process_ingestion_job_def truthy_def)

text \<open>
  An attempt is made when the job and its file are found, the job has not ended and the row still
  allows one; otherwise nothing happens.
\<close>

definition ready :: "'s ingest_deps \<Rightarrow> json \<Rightarrow> 's ingest_world \<Rightarrow> job \<Rightarrow> book_file \<Rightarrow> bool" where
  "ready dp envelope w j f \<longleftrightarrow>
     truthy (str_field envelope ''entity_id'') \<and> find_job (the (str_field envelope ''entity_id'')) (db_jobs w) = Some j
     \<and> jb_status j \<noteq> SUCCEEDED \<and> jb_status j \<noteq> FAILED
     \<and> find_row (\<lambda>f. Some (bf_id f) = (case json_field envelope ''payload'' of Some p \<Rightarrow> str_field p ''book_file_id'' | None \<Rightarrow> None))
         (dp_files dp) = Some f
     \<and> attempt_allowed j"

definition started_world :: "ingest_env \<Rightarrow> job \<Rightarrow> 's ingest_world \<Rightarrow> 's ingest_world" where
  "started_world ev j w =
     w\<lparr> db_jobs := update_where (\<lambda>x. jb_id x = jb_id j) (start_patch (ie_now ev) j) (db_jobs w) \<rparr>"

lemma ready_entity:
  assumes "ready dp envelope w j f"
  shows "str_field envelope ''entity_id'' = Some (jb_id j)" "find_job (jb_id j) (db_jobs w) = Some j" "j \<in> set (db_jobs w)"
proof -
  obtain i where i: "str_field envelope ''entity_id'' = Some i" "find_job i (db_jobs w) = Some j"
    using assms by (cases "str_field envelope ''entity_id''") (auto simp: ready_def truthy_def)
  moreover have "jb_id j = i" "j \<in> set (db_jobs w)" using find_job_Some [OF i(2)] by simp_all
  ultimately show "str_field envelope ''entity_id'' = Some (jb_id j)" "find_job (jb_id j) (db_jobs w) = Some j"
    "j \<in> set (db_jobs w)" by simp_all
qed

lemma process_ready:
  assumes "ready dp envelope w j f"
  shows "process_ingestion_job dp ev envelope w =
    (case ingest_body dp ev j f (started_world ev j w) of
       (Inr _, w2) \<Rightarrow> (Inr (), w2)
     | (Inl err, w2) \<Rightarrow> (case handle_ingestion_failure dp ev j err w2 of
         (Inl e, w3) \<Rightarrow> (Inl e, w3) | (Inr _, w3) \<Rightarrow> (Inl err, w3)))"
proof -
  have u: "update_job_in (jb_id j) (start_patch (ie_now ev) j) w = (Inr (), started_world ev j w)"
    using ready_entity(2) [OF assms] by (simp add: update_job_in_Inr started_world_def)
  show ?thesis using assms unfolding process_ingestion_job_def ready_def
    by (simp add: Let_def ready_entity [OF assms] u)
qed

lemma process_not_ready:
  assumes "process_ingestion_job dp ev envelope w = (res, w')" "\<And>j f. \<not> ready dp envelope w j f"
  shows "w' = w" and "res = Inr () \<Longrightarrow> \<exists>i j. str_field envelope ''entity_id'' = Some i \<and> find_job i (db_jobs w) = Some j
    \<and> (jb_status j = SUCCEEDED \<or> jb_status j = FAILED)"
proof -
  have "w' = w \<and> (res = Inr () \<longrightarrow> (\<exists>i j. str_field envelope ''entity_id'' = Some i \<and> find_job i (db_jobs w) = Some j
    \<and> (jb_status j = SUCCEEDED \<or> jb_status j = FAILED)))"
  proof (cases "truthy (str_field envelope ''entity_id'')")
    case t: True
    then obtain i where i: "str_field envelope ''entity_id'' = Some i"
      by (cases "str_field envelope ''entity_id''") (auto simp: truthy_def)
    show ?thesis
    proof (cases "find_job i (db_jobs w)")
      case None
      then show ?thesis using assms(1) t i by (auto simp: process_ingestion_job_def)
    next
      case j: (Some j)
      show ?thesis
      proof (cases "jb_status j = SUCCEEDED \<or> jb_status j = FAILED")
        case True
        then show ?thesis using assms(1) t i j by (auto simp: process_ingestion_job_def)
      next
        case st: False
        let ?fid = "case json_field envelope ''payload'' of Some p \<Rightarrow> str_field p ''book_file_id'' | None \<Rightarrow> None"
        show ?thesis
        proof (cases "find_row (\<lambda>f. Some (bf_id f) = ?fid) (dp_files dp)")
          case None
          then show ?thesis using assms(1) t i j st by (auto simp: process_ingestion_job_def Let_def)
        next
          case (Some f)
          then have "\<not> attempt_allowed j" using assms(2) [of j f] t i j st by (simp add: ready_def)
          then show ?thesis using assms(1) t i j st Some by (auto simp: process_ingestion_job_def Let_def)
        qed
      qed
    qed
  qed (use assms(1) in \<open>auto simp: process_ingestion_job_def\<close>)
  then show "w' = w" "res = Inr () \<Longrightarrow> \<exists>i j. str_field envelope ''entity_id'' = Some i \<and> find_job i (db_jobs w) = Some j
    \<and> (jb_status j = SUCCEEDED \<or> jb_status j = FAILED)" by blast+
qed

text \<open>The possible runs of the processor.\<close>

lemma process_cases:
  assumes "process_ingestion_job dp ev envelope w = (res, w')"
  obtains (refused) "w' = w" "\<And>j f. \<not> ready dp envelope w j f"
  | (committed) j f vid where "res = Inr ()" "ready dp envelope w j f"
      "attempt_committed dp ev j f vid (started_world ev j w) w'"
  | (failed) j f err w2 e where "res = Inl e" "ready dp envelope w j f"
      "ingest_body dp ev j f (started_world ev j w) = (Inl err, w2)"
      "only_jobs (started_world ev j w) w2" "w' = snd (handle_ingestion_failure dp ev j err w2)"
proof (cases "\<exists>j f. ready dp envelope w j f")
  case True
  then obtain j f where r: "ready dp envelope w j f" by blast
  obtain b w2 where b: "ingest_body dp ev j f (started_world ev j w) = (b, w2)"
    by (cases "ingest_body dp ev j f (started_world ev j w)")
  show ?thesis
  proof (cases b)
    case (Inl err)
    obtain h w3 where h: "handle_ingestion_failure dp ev j err w2 = (h, w3)"
      by (cases "handle_ingestion_failure dp ev j err w2")
    have o: "only_jobs (started_world ev j w) w2" using ingest_body_cases [OF b] Inl by blast
    have "(case h of Inl e \<Rightarrow> (Inl e, w3) | Inr _ \<Rightarrow> (Inl err, w3)) = (res, w')"
      using assms process_ready [OF r, of ev] b Inl h by simp
    then have "w' = snd (handle_ingestion_failure dp ev j err w2)" "\<exists>e. res = Inl e" using h by (cases h; auto)+
    then show ?thesis using failed [OF _ r _ o] b Inl by blast
  next
    case (Inr vid)
    then have "attempt_committed dp ev j f vid (started_world ev j w) w2" using ingest_body_cases [OF b] by blast
    moreover have "res = Inr ()" "w' = w2" using assms process_ready [OF r, of ev] b Inr by simp_all
    ultimately show ?thesis using committed [OF _ r] by blast
  qed
next
  case False
  then show ?thesis using refused process_not_ready(1) [OF assms] by blast
qed

subsection \<open>What the tables of the library keep\<close>

text \<open>A successful attempt adds at most its own version, and only when the indexes allow it.\<close>

lemma version_written_versions:
  assumes "version_written dp ev args j f r w w'"
  shows "iw_versions w' = iw_versions w @ [new_version dp ev args j f r]"
    "create_version (new_version dp ev args j f r) (iw_versions w) = Inr (iw_versions w')"
proof -
  let ?v = "new_version dp ev args j f r"
  have no: "\<not> version_conflict ?v (iw_versions w)" using assms by (simp add: version_written_def)
  have "\<not> (bv_book_id u = ps_book_id args \<and> bv_is_current u \<and> bv_id u \<noteq> ie_version_id ev)" if "u \<in> set (iw_versions w @ [?v])" for u
    using no that by (auto simp: version_conflict_def list_ex_iff new_version_def)
  then have "update_where (\<lambda>v. bv_book_id v = ps_book_id args \<and> bv_is_current v \<and> bv_id v \<noteq> ie_version_id ev)
      (supersede (ie_now ev) (ie_version_id ev)) (iw_versions w @ [?v]) = iw_versions w @ [?v]"
    by (rule update_where_id)
  then show "iw_versions w' = iw_versions w @ [?v]"
    using assms by (auto simp: version_written_def write_library_def persist_structure_def Let_def)
  then show "create_version ?v (iw_versions w) = Inr (iw_versions w')"
    using no by (simp add: create_version_def insert_row_def)
qed

lemma version_merged_library: "version_merged dp ev args j r vid w w' \<Longrightarrow> same_library w w'"
  by (auto simp: version_merged_def same_library_def)

lemma started_library [simp]: "same_library w (started_world ev j w)"
  by (simp add: started_world_def same_library_def)

text \<open>A property of the tables that complete versions keep is kept by every attempt, however it ends.\<close>

lemma process_library_induct:
  assumes "process_ingestion_job dp ev envelope w = (res, w')" "Q w"
    and same: "\<And>a b. same_library a b \<Longrightarrow> Q a \<Longrightarrow> Q b"
    and written: "\<And>args j f r a b. version_written dp ev args j f r a b \<Longrightarrow> Q a \<Longrightarrow> Q b"
  shows "Q w'"
  using assms(1)
proof (cases rule: process_cases)
  case refused
  then show ?thesis using assms(2) by simp
next
  case (committed j f vid)
  then obtain r args w1 where w1: "only_jobs (started_world ev j w) w1"
    and c: "version_merged dp ev args j r vid w1 w' \<or> (vid = ie_version_id ev \<and> version_written dp ev args j f r w1 w')"
    unfolding attempt_committed_def by blast
  have "Q w1" using same same_library_trans [OF started_library only_jobs_tables(1) [OF w1]] assms(2) by blast
  then show ?thesis using c same version_merged_library written by blast
next
  case (failed j f err w2 e)
  then have "same_library w w'"
    using same_library_trans [OF started_library same_library_trans [OF only_jobs_tables(1) handle_failure_library]] by simp
  then show ?thesis using same assms(2) by blast
qed

lemma process_versions_ok:
  assumes "process_ingestion_job dp ev envelope w = (res, w')" "versions_ok (iw_versions w)"
  shows "versions_ok (iw_versions w')"
  using assms(1,2)
proof (rule process_library_induct [where Q = "\<lambda>w. versions_ok (iw_versions w)"])
  show "versions_ok (iw_versions b)" if "version_written dp ev args j f r a b" "versions_ok (iw_versions a)" for args j f r a b
    using create_version_ok [OF that(2) version_written_versions(2) [OF that(1)]] .
qed (simp add: same_library_def)

text \<open>No row of the library refers to a row that is not there.\<close>

definition references_ok :: "'s ingest_world \<Rightarrow> bool" where
  "references_ok w \<longleftrightarrow>
     (\<forall>c \<in> set (iw_chapters w). cr_version_id c \<in> bv_id ` set (iw_versions w))
     \<and> (\<forall>s \<in> set (iw_sections w). sr_chapter_id s \<in> cr_id ` set (iw_chapters w))
     \<and> (\<forall>p \<in> set (iw_paragraphs w). pr_chapter_id p \<in> cr_id ` set (iw_chapters w)
          \<and> (\<forall>s. pr_section_id p = Some s \<longrightarrow> s \<in> sr_id ` set (iw_sections w)))
     \<and> (\<forall>p \<in> set (iw_pages w). pp_version_id p \<in> bv_id ` set (iw_versions w))"

lemma version_written_tables:
  assumes "version_written dp ev args j f r w w'"
  obtains pages page_id where
    "iw_pages w' = iw_pages w @ page_rows ev (jb_tenant_id j) (ps_book_id args) (ps_ocr_model args) pages"
    "iw_chapters w' = iw_chapters w @ chapter_rows ev (jb_tenant_id j) (ps_book_id args) (ir_chapters r)"
    "iw_sections w' = iw_sections w @ section_rows ev (jb_tenant_id j) (ps_book_id args) (ir_chapters r)"
    "iw_paragraphs w' = iw_paragraphs w @ paragraph_rows dp ev (jb_tenant_id j) (ps_book_id args) page_id (ir_chapters r)"
  using assms by (auto simp: version_written_def write_library_def persist_structure_def Let_def)

lemma chapter_rows_ids: "i < length chs \<Longrightarrow> ie_chapter_id ev i \<in> cr_id ` set (chapter_rows ev t b chs)"
  by (force simp: chapter_rows_def in_set_enumerate_eq)

lemma chapter_rows_version: "c \<in> set (chapter_rows ev t b chs) \<Longrightarrow> cr_version_id c = ie_version_id ev"
  by (auto simp: chapter_rows_def)

lemma page_rows_version: "p \<in> set (page_rows ev t b m pages) \<Longrightarrow> pp_version_id p = ie_version_id ev"
  by (auto simp: page_rows_def)

lemma section_rows_chapter:
  "s \<in> set (section_rows ev t b chs) \<Longrightarrow> \<exists>i < length chs. sr_chapter_id s = ie_chapter_id ev i"
  by (auto simp: section_rows_def in_set_enumerate_eq)

lemma section_rows_ids:
  "i < length chs \<Longrightarrow> k < length (ch_sections (chs ! i)) \<Longrightarrow> ie_section_id ev i k \<in> sr_id ` set (section_rows ev t b chs)"
proof -
  assume i: "i < length chs" and k: "k < length (ch_sections (chs ! i))"
  let ?row = "\<lambda>i (k, s). \<lparr> sr_id = ie_section_id ev i k, sr_tenant_id = t, sr_book_id = b, sr_version_id = ie_version_id ev,
       sr_chapter_id = ie_chapter_id ev i, sr_order = se_order s, sr_spine_start = se_spine_start s,
       sr_spine_end = se_spine_end s, sr_title = se_title s \<rparr>"
  have "(i, chs ! i) \<in> set (enumerate 0 chs)" "(k, ch_sections (chs ! i) ! k) \<in> set (enumerate 0 (ch_sections (chs ! i)))"
    using i k by (simp_all add: in_set_enumerate_eq)
  then have "?row i (k, ch_sections (chs ! i) ! k) \<in> set (section_rows ev t b chs)"
    unfolding section_rows_def by fastforce
  then show ?thesis by (rule rev_image_eqI) simp
qed

lemma paragraph_rows_refs:
  assumes "p \<in> set (paragraph_rows dp ev t b page_id chs)"
  shows "\<exists>i < length chs. pr_chapter_id p = ie_chapter_id ev i
    \<and> (\<forall>s. pr_section_id p = Some s \<longrightarrow> (\<exists>k < length (ch_sections (chs ! i)). s = ie_section_id ev i k))"
proof -
  obtain i k q where "i < length chs" "p = paragraph_row_of dp ev t b page_id i (chs ! i) k q"
    using assms by (auto simp: paragraph_rows_def in_set_enumerate_eq)
  then show ?thesis by (intro exI [of _ i]) (auto simp: paragraph_row_of_def split: option.splits if_splits)
qed

lemma written_references_ok:
  assumes wr: "version_written dp ev args j f r w w'" and ok: "references_ok w"
  shows "references_ok w'"
proof -
  have v: "iw_versions w' = iw_versions w @ [new_version dp ev args j f r]" using version_written_versions [OF wr] by simp
  have vid: "ie_version_id ev \<in> bv_id ` set (iw_versions w')" by (simp add: v new_version_def)
  obtain pages page_id where t:
    "iw_pages w' = iw_pages w @ page_rows ev (jb_tenant_id j) (ps_book_id args) (ps_ocr_model args) pages"
    "iw_chapters w' = iw_chapters w @ chapter_rows ev (jb_tenant_id j) (ps_book_id args) (ir_chapters r)"
    "iw_sections w' = iw_sections w @ section_rows ev (jb_tenant_id j) (ps_book_id args) (ir_chapters r)"
    "iw_paragraphs w' = iw_paragraphs w @ paragraph_rows dp ev (jb_tenant_id j) (ps_book_id args) page_id (ir_chapters r)"
    using version_written_tables [OF wr] by blast
  have ch: "ie_chapter_id ev i \<in> cr_id ` set (iw_chapters w')" if "i < length (ir_chapters r)" for i
    unfolding t(2) set_append image_Un using chapter_rows_ids [OF that] by (rule UnI2)
  have se: "ie_section_id ev i k \<in> sr_id ` set (iw_sections w')"
    if "i < length (ir_chapters r)" "k < length (ch_sections (ir_chapters r ! i))" for i k
    unfolding t(3) set_append image_Un using section_rows_ids [OF that] by (rule UnI2)
  have "cr_version_id c \<in> bv_id ` set (iw_versions w')" if "c \<in> set (iw_chapters w')" for c
    using that ok vid by (auto simp: t(2) v references_ok_def dest: chapter_rows_version)
  moreover have "pp_version_id p \<in> bv_id ` set (iw_versions w')" if "p \<in> set (iw_pages w')" for p
    using that ok vid by (auto simp: t(1) v references_ok_def dest: page_rows_version)
  moreover have "sr_chapter_id s \<in> cr_id ` set (iw_chapters w')" if "s \<in> set (iw_sections w')" for s
  proof (cases "s \<in> set (iw_sections w)")
    case True
    then show ?thesis using ok by (auto simp: references_ok_def t(2))
  next
    case False
    then have "s \<in> set (section_rows ev (jb_tenant_id j) (ps_book_id args) (ir_chapters r))" using that by (simp add: t(3))
    from section_rows_chapter [OF this] show ?thesis using ch by auto
  qed
  moreover have "pr_chapter_id p \<in> cr_id ` set (iw_chapters w')
      \<and> (\<forall>s. pr_section_id p = Some s \<longrightarrow> s \<in> sr_id ` set (iw_sections w'))" if "p \<in> set (iw_paragraphs w')" for p
  proof (cases "p \<in> set (iw_paragraphs w)")
    case True
    then show ?thesis using ok unfolding references_ok_def t(2,3) set_append image_Un by blast
  next
    case False
    then have "p \<in> set (paragraph_rows dp ev (jb_tenant_id j) (ps_book_id args) page_id (ir_chapters r))"
      using that by (simp add: t(4))
    from paragraph_rows_refs [OF this] obtain i where i: "i < length (ir_chapters r)" "pr_chapter_id p = ie_chapter_id ev i"
      "\<forall>s. pr_section_id p = Some s \<longrightarrow> (\<exists>k < length (ch_sections (ir_chapters r ! i)). s = ie_section_id ev i k)" by blast
    show ?thesis using ch [OF i(1)] se [OF i(1)] i(2,3) by auto
  qed
  ultimately show ?thesis unfolding references_ok_def by blast
qed

lemma process_references_ok:
  assumes "process_ingestion_job dp ev envelope w = (res, w')" "references_ok w"
  shows "references_ok w'"
  using assms
proof (rule process_library_induct [where Q = references_ok])
  show "references_ok b" if "same_library a b" "references_ok a" for a b :: "'a ingest_world"
    using that by (simp add: same_library_def references_ok_def)
qed (rule written_references_ok)

subsection \<open>Success, failure and a second ingestion\<close>

text \<open>Returning normally means the job has ended, either before the delivery or by this attempt.\<close>

lemma find_job_update:
  "(\<And>j. jb_id (f j) = jb_id j) \<Longrightarrow> find_job i (update_where (\<lambda>x. jb_id x = i) f jobs) = map_option f (find_job i jobs)"
  unfolding find_job_def by (rule keyed_update.find_updated) (unfold_locales, simp)

lemma committed_job:
  assumes "attempt_committed dp ev j f vid w w'" "find_job (jb_id j) (db_jobs w) = Some j0"
  obtains j1 stage n where "find_job (jb_id j) (db_jobs w') = Some (succeed_patch (ie_now ev) stage vid n j1)"
    "jb_cancel j1 = jb_cancel j0" "vid \<in> bv_id ` set (iw_versions w')"
proof -
  obtain r args w1 where w1: "only_jobs w w1"
    and c: "version_merged dp ev args j r vid w1 w' \<or> (vid = ie_version_id ev \<and> version_written dp ev args j f r w1 w')"
    using assms(1) unfolding attempt_committed_def by blast
  obtain j1 where j1: "find_job (jb_id j) (db_jobs w1) = Some j1" "jb_cancel j1 = jb_cancel j0"
    using only_jobs_find [OF w1 assms(2)] .
  from c show ?thesis
  proof (elim disjE conjE)
    assume "version_merged dp ev args j r vid w1 w'"
    then obtain u where u: "u \<in> set (iw_versions w1)" "vid = bv_id u" "w' = w1\<lparr> db_jobs := update_where (\<lambda>x. jb_id x = jb_id j)
          (succeed_patch (ie_now ev) None (bv_id u) (bv_version u)) (db_jobs w1) \<rparr>"
      unfolding version_merged_def by blast
    then have "find_job (jb_id j) (db_jobs w') = Some (succeed_patch (ie_now ev) None vid (bv_version u) j1)"
      using j1(1) by (simp add: find_job_update)
    moreover have "vid \<in> bv_id ` set (iw_versions w')" using u by simp
    ultimately show ?thesis using that j1(2) by blast
  next
    assume v: "vid = ie_version_id ev" and wr: "version_written dp ev args j f r w1 w'"
    have "db_jobs w' = update_where (\<lambda>x. jb_id x = jb_id j)
        (succeed_patch (ie_now ev) (Some ''DONE'') (ie_version_id ev) (ps_version args)) (db_jobs w1)"
      using wr by (auto simp: version_written_def)
    then have "find_job (jb_id j) (db_jobs w') = Some (succeed_patch (ie_now ev) (Some ''DONE'') vid (ps_version args) j1)"
      using j1(1) v by (simp add: find_job_update)
    moreover have "vid \<in> bv_id ` set (iw_versions w')"
      using version_written_versions(1) [OF wr] v by (simp add: new_version_def)
    ultimately show ?thesis using that j1(2) by blast
  qed
qed

lemma started_find:
  "find_job (jb_id j) (db_jobs w) = Some j \<Longrightarrow>
   find_job (jb_id j) (db_jobs (started_world ev j w)) = Some (start_patch (ie_now ev) j j)"
  by (simp add: started_world_def find_job_update)

text \<open>A failed attempt of a ready job that is recorded: the row and the event.\<close>

lemma process_failure_recorded:
  assumes r: "ready dp envelope w j f"
    and b: "ingest_body dp ev j f (started_world ev j w) = (Inl err, w2)"
    and last: "is_terminal_ingestion_error err \<or> ie_attempts_made ev + 1 \<ge> ie_max_attempts ev"
    and res: "process_ingestion_job dp ev envelope w = (Inl err, w')"
    and ok: "\<And>e. fst (record_failure dp ev j err (is_terminal_ingestion_error err) w2) \<noteq> Inl e"
  shows "failure_recorded dp ev j err w2 w'"
proof -
  obtain w3 where h: "record_failure dp ev j err (is_terminal_ingestion_error err) w2 = (Inr (), w3)"
    using ok by (cases "record_failure dp ev j err (is_terminal_ingestion_error err) w2"; cases "fst (record_failure dp ev j err (is_terminal_ingestion_error err) w2)") auto
  have "handle_ingestion_failure dp ev j err w2 = record_failure dp ev j err (is_terminal_ingestion_error err) w2"
    using last by (auto simp: handle_ingestion_failure_def Let_def)
  then have w': "w' = w3" using res process_ready [OF r, of ev] b h by simp
  have "only_jobs (started_world ev j w) w2" using ingest_body_cases [OF b] by blast
  then obtain c where "find_job (jb_id j) (db_jobs w2) = Some c" "jb_status c = jb_status (start_patch (ie_now ev) j j)"
    using only_jobs_find started_find [OF ready_entity(2) [OF r]] by metis
  then show ?thesis using record_failure_fresh [of j w2 c dp ev err "()" w3] h w' by simp
qed

text \<open>
  The insert of a current version conflicts with the current version of the book, so a book that
  has one never gets another.
\<close>

lemma version_written_no_current:
  assumes "version_written dp ev args j f r w w'" "u \<in> set (iw_versions w)" "bv_is_current u"
  shows "bv_book_id u \<noteq> ps_book_id args"
  using assms by (auto simp: version_written_def version_conflict_def list_ex_iff new_version_def)

lemma reingest_library:
  assumes "process_ingestion_job dp ev envelope w = (res, w')"
    and "str_field envelope ''entity_id'' = Some i" "find_job i (db_jobs w) = Some j" "jb_book_id j = Some (bv_book_id u)"
    and "u \<in> set (iw_versions w)" "bv_is_current u"
  shows "same_library w w'"
  using assms(1)
proof (cases rule: process_cases)
  case refused
  then show ?thesis by simp
next
  case (committed k f vid)
  have k: "k = j" using ready_entity [OF committed(2)] assms(2,3) by simp
  obtain r args w1 where w1: "only_jobs (started_world ev k w) w1" "jb_book_id k = Some (ps_book_id args)"
    and c: "version_merged dp ev args k r vid w1 w' \<or> (vid = ie_version_id ev \<and> version_written dp ev args k f r w1 w')"
    using committed(3) unfolding attempt_committed_def by blast
  have s: "same_library w w1" using same_library_trans [OF started_library only_jobs_tables(1) [OF w1(1)]] .
  have "\<not> version_written dp ev args k f r w1 w'"
    using version_written_no_current [of dp ev args k f r w1 w' u] s assms(4,5,6) w1(2) k by (auto simp: same_library_def)
  then show ?thesis using c version_merged_library same_library_trans [OF s] by blast
next
  case (failed k f err w2 e)
  then show ?thesis
    using same_library_trans [OF started_library same_library_trans [OF only_jobs_tables(1) handle_failure_library]] by simp
qed

text \<open>A book whose versions come from another pipeline version cannot be ingested again: the attempt fails.\<close>

lemma reingest_fails:
  assumes "process_ingestion_job dp ev envelope w = (res, w')" "ready dp envelope w j f"
    and "jb_book_id j = Some b" "u \<in> set (iw_versions w)" "bv_is_current u" "bv_book_id u = b"
    and "\<And>v. v \<in> set (iw_versions w) \<Longrightarrow> bv_book_id v = b \<Longrightarrow> bv_pipeline_version v \<noteq> cf_pipeline_version (dp_config dp)"
  shows "\<exists>e. res = Inl e"
  using assms(1)
proof (cases rule: process_cases)
  case refused
  then show ?thesis using assms(2) by blast
next
  case (committed k g vid)
  have k: "k = j" using ready_entity [OF committed(2)] ready_entity [OF assms(2)] by simp
  obtain r args w1 where w1: "only_jobs (started_world ev k w) w1" "jb_book_id k = Some (ps_book_id args)"
    and c: "version_merged dp ev args k r vid w1 w' \<or> (vid = ie_version_id ev \<and> version_written dp ev args k g r w1 w')"
    using committed(3) unfolding attempt_committed_def by blast
  have s: "same_library w w1" using same_library_trans [OF started_library only_jobs_tables(1) [OF w1(1)]] .
  have "\<not> version_written dp ev args k g r w1 w'"
    using version_written_no_current [of dp ev args k g r w1 w' u] s assms(3-6) w1(2) k by (auto simp: same_library_def)
  moreover have "\<not> version_merged dp ev args k r vid w1 w'"
    using assms(3,7) s w1(2) k by (auto simp: version_merged_def same_content_def same_library_def)
  ultimately show ?thesis using c by blast
qed blast

subsection \<open>When the steps succeed\<close>

lemma update_job_in_found:
  "find_job i (db_jobs w) = Some j \<Longrightarrow>
   update_job_in i f w = (Inr (), w\<lparr> db_jobs := update_where (\<lambda>j. jb_id j = i) f (db_jobs w) \<rparr>)"
  by (simp add: update_job_in_Inr)

definition parsing_world :: "ingest_env \<Rightarrow> job \<Rightarrow> string \<Rightarrow> rat \<Rightarrow> 's ingest_world \<Rightarrow> 's ingest_world" where
  "parsing_world ev j stage value w =
     w\<lparr> db_jobs := update_where (\<lambda>x. jb_id x = jb_id j) (progress_patch (ie_now ev) stage value) (db_jobs w) \<rparr>"

lemma parsing_world_find:
  "find_job (jb_id j) (db_jobs w) = Some k \<Longrightarrow>
   find_job (jb_id j) (db_jobs (parsing_world ev j stage value w)) = Some (progress_patch (ie_now ev) stage value k)"
  by (simp add: parsing_world_def find_job_update)

lemma ingest_body_steps:
  assumes "find_job (jb_id j) (db_jobs w) = Some k"
    and "download_to_buffer dp (bf_storage_key f) (cf_max_file_size_bytes (dp_config dp)) (iw_store w) = Inr buffer"
  shows "ingest_body dp ev j f w =
    (case run_ingestion_pipeline (dp_sha256 dp) (dp_file_type dp) (dp_parse dp) (dp_ocr_identity dp)
        (dp_config dp) (dp_config_json dp) buffer (case bf_sniffed_mime f of Some m \<Rightarrow> m | None \<Rightarrow> bf_mime f) of
       Inl e \<Rightarrow> (Inl e, parsing_world ev j ''PARSING'' (2 / 10) w)
     | Inr r \<Rightarrow> persist_ingestion_result dp ev j f r
         (parsing_world ev j ''PERSISTING'' (8 / 10) (parsing_world ev j ''PARSING'' (2 / 10) w)))"
proof -
  let ?w1 = "parsing_world ev j ''PARSING'' (2 / 10) w"
  have 1: "update_job_in (jb_id j) (progress_patch (ie_now ev) ''PARSING'' (2 / 10)) w = (Inr (), ?w1)"
    using update_job_in_found [OF assms(1)] by (simp add: parsing_world_def)
  have 2: "update_job_in (jb_id j) (progress_patch (ie_now ev) ''PERSISTING'' (8 / 10)) ?w1
      = (Inr (), parsing_world ev j ''PERSISTING'' (8 / 10) ?w1)"
    using update_job_in_found [OF parsing_world_find [OF assms(1)]]
    by (simp add: parsing_world_def [of ev j "''PERSISTING''"])
  show ?thesis unfolding ingest_body_def assms(2) 1 by (simp add: 2 [simplified] split: sum.split)
qed

lemma write_version_total:
  assumes "\<not> version_conflict (new_version dp ev args j f r) (iw_versions w)"
    and "find_row (\<lambda>b. bk_id b = ps_book_id args) (iw_books w) \<noteq> None" "find_job (jb_id j) (db_jobs w) = Some k"
  shows "\<exists>w'. write_version dp ev args j f r w = (Inr (ie_version_id ev), w')"
proof -
  let ?w = "write_library dp ev args j r (iw_versions w @ [new_version dp ev args j f r]) w"
  obtain books' where b: "update_book (ps_book_id args) (book_parsed_patch ev r) (iw_books ?w) = Inr books'"
    using assms(2) by (auto simp: update_book_def)
  have "update_job (jb_id j) (succeed_patch (ie_now ev) (Some ''DONE'') (ie_version_id ev) (ps_version args)) (db_jobs ?w)
      = Inr (update_where (\<lambda>x. jb_id x = jb_id j)
          (succeed_patch (ie_now ev) (Some ''DONE'') (ie_version_id ev) (ps_version args)) (db_jobs ?w))"
    using update_job_total [of "jb_id j" "db_jobs ?w" k] assms(3) by simp
  then show ?thesis using assms(1) b by (simp add: write_version_def create_version_def insert_row_def finish_version_def)
qed

end
