(* ===== verification/Samples.thy ===== *)
theory Samples
  imports IngestionLaws
begin

text \<open>
  Concrete inputs for the witnesses: rows of jobs in a given state, a caller, a broker and a flag
  store that answer, and the dependencies of one small ingestion of a two-paragraph document.
\<close>

subsection \<open>Jobs\<close>

definition sample_job :: "string \<Rightarrow> string \<Rightarrow> job_status \<Rightarrow> job" where
  "sample_job i t s =
     \<lparr> jb_id = i, jb_tenant_id = t, jb_book_id = Some ''b1'', jb_type = ''parse_book'', jb_queue = ''parse'',
       jb_priority = ''NORMAL'', jb_related_type = ''book'', jb_related_id = ''b1'', jb_scope = None,
       jb_envelope = None, jb_parent = None, jb_child_count = 0, jb_status = s, jb_blocked_reason = None,
       jb_attempt_count = 0, jb_max_attempts = 3, jb_retry_count = 0, jb_next_attempt_at = None,
       jb_progress = no_progress, jb_idem_key = i, jb_idem_fingerprint = [], jb_forced = False,
       jb_forced_by = None, jb_error = no_error, jb_result = no_result, jb_cancel = not_cancelled,
       jb_correlation_id = ''c1'', jb_causation_id = None, jb_created_by = None,
       jb_times = created_now 1000 \<rparr>"

definition sample_who :: principal where
  "sample_who = \<lparr> sub = ''u1'', tenant_id = ''t1'', roles = [''TENANT_OWNER''], scopes = [] \<rparr>"

definition sample_ids :: "nat \<Rightarrow> string \<times> string" where
  "sample_ids k = (''m'' @ show_nat k, ''e'' @ show_nat k)"

definition sample_call :: call_env where
  "sample_call = \<lparr> ev_now = 2000, ev_event_ids = sample_ids, ev_audit_id = ''a1'', ev_audit_ok = True \<rparr>"

definition sample_broker :: "unit broker" where
  "sample_broker = \<lparr> bq_add = (\<lambda>_ _ q. (Inr (), q)), bq_get = (\<lambda>_ _ _. Inr False), bq_remove = (\<lambda>_ _ q. (Inr (), q)) \<rparr>"

definition sample_jobs_world :: "job list \<Rightarrow> (unit, string \<rightharpoonup> string) jobs_world" where
  "sample_jobs_world jobs = \<lparr> db_jobs = jobs, db_outbox = [], jw_trail = [], jw_queue = (), jw_redis = Map.empty \<rparr>"

definition any_query :: list_jobs_query where
  "any_query = \<lparr> lq_book_id = None, lq_type = None, lq_status = None, lq_related_resource_id = None,
     lq_created_after = None, lq_created_before = None, lq_sort = None, lq_cursor = None, lq_limit = Some ''1'' \<rparr>"

subsection \<open>One ingestion\<close>

definition sample_block :: "nat \<Rightarrow> block_type \<Rightarrow> string \<Rightarrow> extracted_block" where
  "sample_block n ty s = \<lparr> eb_order = n, eb_type = ty, eb_text = s, eb_heading_level = None,
     eb_locator = PdfLoc 1 n None, eb_method = DIGITAL_TEXT, eb_confidence = None \<rparr>"

definition sample_document :: extracted_document where
  "sample_document = \<lparr> ed_source_kind = PDF, ed_pages = None,
     ed_blocks = [sample_block 0 HEADING ''Chapter 1'', sample_block 1 PARAGRAPH ''It was a bright day.'',
       sample_block 2 HEADING ''Noon'', sample_block 3 PARAGRAPH ''The clock struck.''],
     ed_parser_identity = \<lparr> id_provider = ''p'', id_model = ''m'', id_version = ''1'' \<rparr>,
     ed_title = None, ed_language = None \<rparr>"

definition sample_source :: book_file where
  "sample_source = \<lparr> bf_id = ''f1'', bf_storage_key = ''k'', bf_mime = ''application/pdf'', bf_sniffed_mime = None,
     bf_tenant_id = ''t1'', bf_book_id = ''b1'', bf_kind = PDF, bf_original_name = ''a.pdf'', bf_size = 5,
     bf_content_hash = ''h5'', bf_status = ADMITTED, bf_validation = None, bf_bucket = ''bk'',
     bf_dedup_from = None, bf_class = STANDARD, bf_created = 1 \<rparr>"

definition sample_deps :: "(source_kind \<Rightarrow> bytes \<Rightarrow> string \<Rightarrow> thrown + extracted_document) \<Rightarrow> unit ingest_deps" where
  "sample_deps parse =
     \<lparr> dp_sha256 = (\<lambda>b. ''h'' @ show_nat (length b)), dp_file_type = (\<lambda>_. None), dp_parse = parse, dp_ocr_identity = None,
       dp_config = DEFAULT_INGESTION_CONFIG\<lparr> cf_max_file_size_bytes := 10 \<rparr>, dp_config_json = JObj [],
       dp_get = (\<lambda>_ _. Inr [[37, 80, 68], [70, 45]]),
       dp_put = (\<lambda>i s. (Inr \<lparr> om_key = pi_key i, om_bucket = ''bk'', om_size_bytes = length (pi_body i),
          om_content_type = pi_content_type i, om_checksum = \<lparr> ck_hash = ''h'', ck_size_bytes = length (pi_body i) \<rparr> \<rparr>, s)),
       dp_files = [sample_source],
       dp_registry = [((''PARSER'', ''p'', ''m''), ''r1''), ((''NORMALIZER'', ''audio-book-normalizer'', ''text-normalizer''), ''r2'')],
       dp_model_versions = [((''r1'', ''1''), ''mv1''), ((''r2'', ''normalize.v2''), ''mv2'')],
       dp_class_of = (\<lambda>_. ''Error'') \<rparr>"

definition good_deps :: "unit ingest_deps" where
  "good_deps = sample_deps (\<lambda>_ _ _. Inr sample_document)"

definition corrupt_deps :: "unit ingest_deps" where
  "corrupt_deps = sample_deps (\<lambda>_ _ _. Inl (AppErr (CorruptedFileError ''broken'')))"

definition sample_env :: ingest_env where
  "sample_env = \<lparr> ie_now = 3000, ie_version_id = ''v1'', ie_page_id = (\<lambda>k. ''pg'' @ show_nat k),
     ie_chapter_id = (\<lambda>k. ''ch'' @ show_nat k), ie_section_id = (\<lambda>i k. ''se'' @ show_nat i @ ''.'' @ show_nat k),
     ie_paragraph_id = (\<lambda>i k. ''pa'' @ show_nat i @ ''.'' @ show_nat k),
     ie_event_ids = sample_ids, ie_attempts_made = 0, ie_max_attempts = 3 \<rparr>"

definition parse_command :: "string \<Rightarrow> string \<Rightarrow> json" where
  "parse_command job_id entity_id = JObj [(''job_id'', JStr job_id), (''entity_id'', JStr entity_id),
     (''payload'', JObj [(''book_file_id'', JStr ''f1''), (''parser_version'', JStr ''1'')])]"

definition sample_book :: book where
  "sample_book = \<lparr> bk_id = ''b1'', bk_tenant_id = ''t1'', bk_status = BUploaded, bk_status_changed = 1,
     bk_needs_review = False, bk_current_version = None, bk_deleted_at = None,
     bk_info = \<lparr> bm_title = ''A Book'', bm_author = None, bm_language = ''en'', bm_description = None, bm_series = None,
       bm_series_index = None, bm_publication_year = None, bm_publisher = None \<rparr>,
     bk_pipeline_version = ''ingestion.v1'', bk_current_script = None, bk_current_audiobook = None,
     bk_row_version = 0, bk_created_by = ''u1'', bk_created = 1, bk_updated = 1 \<rparr>"

definition sample_world :: "job list \<Rightarrow> book_version list \<Rightarrow> unit ingest_world" where
  "sample_world jobs versions = \<lparr> db_jobs = jobs, db_outbox = [], iw_books = [sample_book], iw_versions = versions,
     iw_pages = [], iw_chapters = [], iw_sections = [], iw_paragraphs = [], iw_store = () \<rparr>"

lemmas sample_defs = sample_job_def sample_who_def sample_ids_def sample_call_def sample_broker_def
  sample_jobs_world_def any_query_def sample_block_def sample_document_def sample_source_def sample_deps_def good_deps_def
  corrupt_deps_def sample_env_def parse_command_def sample_book_def sample_world_def

end
