(* ===== verification/Idempotency.thy ===== *)
theory Idempotency
  imports Access JsonParse
begin

text \<open>
  The HTTP idempotency registry (\<open>apps/api/src/common/idempotency.service.ts\<close>).  A request is three
  steps separated by awaits: look the key up, claim it (an upsert), run the handler and settle the
  row.  \<open>idem_run\<close> is one request with no other request in between; the steps are definitions of
  their own, so that interleavings of two requests can be stated.  The handler is a function on the
  state \<open>'w\<close> of the application; \<open>sha\<close> is the hash of the platform.
\<close>

datatype idem_status = IN_PROGRESS | COMPLETED | FAILED

record idem_row =
  ir_id :: string
  ir_tenant_id :: string
  ir_principal_id :: string
  ir_method :: string
  ir_path_template :: string
  ir_key :: string
  ir_body_hash :: string
  ir_status :: idem_status
  ir_response_status :: "nat option"
  ir_response_body :: "json option"
  ir_response_location :: "string option"
  ir_expires_at :: int
  ir_completed_at :: "int option"

record idem_response =
  rs_status :: nat
  rs_body :: json
  rs_location :: "string option"

record idem_params =
  ip_principal :: principal
  ip_method :: string
  ip_path_template :: string
  ip_key :: string
  ip_body :: json

definition IDEMPOTENCY_TTL_MS :: int where
  "IDEMPOTENCY_TTL_MS = 24 * 60 * 60 * 1000"

text \<open>The unique index of the table: tenant, principal, method, path, key.\<close>

definition idem_matches :: "idem_params \<Rightarrow> idem_row \<Rightarrow> bool" where
  "idem_matches p r \<longleftrightarrow> ir_tenant_id r = tenant_id (ip_principal p) \<and> ir_principal_id r = sub (ip_principal p)
     \<and> ir_method r = ip_method p \<and> ir_path_template r = ip_path_template p \<and> ir_key r = ip_key p"

definition body_hash :: "(string \<Rightarrow> string) \<Rightarrow> idem_params \<Rightarrow> string" where
  "body_hash sha p = sha (stable_stringify (ip_body p))"

definition idem_lookup :: "idem_params \<Rightarrow> idem_row list \<Rightarrow> idem_row option" where
  "idem_lookup p rows = find_row (idem_matches p) rows"

definition key_conflict :: thrown where
  "key_conflict = AppErr (ConflictError (coded ''IDEMPOTENCY_KEY_CONFLICT''
     ''This Idempotency-Key was already used with a different request body.''))"

definition in_progress_conflict :: thrown where
  "in_progress_conflict = AppErr (ConflictError (coded ''REQUEST_IN_PROGRESS''
     ''A request with this Idempotency-Key is already in progress.''))"

datatype idem_decision = Reject thrown | Replay idem_response | Execute string

definition idem_decide :: "string \<Rightarrow> string \<Rightarrow> idem_row option \<Rightarrow> idem_decision" where
  "idem_decide new_id hash existing = (case existing of
     None \<Rightarrow> Execute new_id
   | Some row \<Rightarrow>
       if ir_body_hash row \<noteq> hash then Reject key_conflict
       else (case ir_status row of
         COMPLETED \<Rightarrow> Replay \<lparr>
             rs_status = (case ir_response_status row of Some c \<Rightarrow> c | None \<Rightarrow> 200),
             rs_body = (case ir_response_body row of Some b \<Rightarrow> b | None \<Rightarrow> JNull),
             rs_location = ir_response_location row \<rparr>
       | IN_PROGRESS \<Rightarrow> Reject in_progress_conflict
       | FAILED \<Rightarrow> Execute (ir_id row)))"

text \<open>The upsert: update the row of the unique index, or create it under the id given.\<close>

definition idem_claim :: "idem_params \<Rightarrow> string \<Rightarrow> string \<Rightarrow> int \<Rightarrow> idem_row list \<Rightarrow> idem_row list" where
  "idem_claim p i hash now rows =
     (case idem_lookup p rows of
        Some _ \<Rightarrow> update_where (idem_matches p) (\<lambda>r. r\<lparr> ir_status := IN_PROGRESS, ir_body_hash := hash \<rparr>) rows
      | None \<Rightarrow> insert_row
          \<lparr> ir_id = i, ir_tenant_id = tenant_id (ip_principal p), ir_principal_id = sub (ip_principal p),
            ir_method = ip_method p, ir_path_template = ip_path_template p, ir_key = ip_key p,
            ir_body_hash = hash, ir_status = IN_PROGRESS, ir_response_status = None,
            ir_response_body = None, ir_response_location = None,
            ir_expires_at = now + IDEMPOTENCY_TTL_MS, ir_completed_at = None \<rparr> rows)"

definition idem_complete :: "idem_response \<Rightarrow> int \<Rightarrow> idem_row \<Rightarrow> idem_row" where
  "idem_complete result now r = r\<lparr> ir_status := COMPLETED, ir_response_status := Some (rs_status result),
     ir_response_body := Some (rs_body result), ir_response_location := rs_location result,
     ir_completed_at := Some now \<rparr>"

definition idem_fail :: "idem_row \<Rightarrow> idem_row" where
  "idem_fail r = r\<lparr> ir_status := FAILED \<rparr>"

text \<open>
  An update by id of a row that is not there is the database client's \<open>P2025\<close>.  It is thrown inside
  the \<open>try\<close>, so it is rethrown after the attempt to mark the row failed.
\<close>

definition idem_settle ::
  "string \<Rightarrow> int \<Rightarrow> thrown + idem_response \<Rightarrow> idem_row list \<Rightarrow> (thrown + idem_response) \<times> idem_row list" where
  "idem_settle i now outcome rows = (case outcome of
     Inr result \<Rightarrow>
       if find_row (\<lambda>r. ir_id r = i) rows = None
       then (Inl (CodedErr ''P2025'' ''Record to update not found.''), rows)
       else (Inr result, update_where (\<lambda>r. ir_id r = i) (idem_complete result now) rows)
   | Inl e \<Rightarrow> (Inl e, update_where (\<lambda>r. ir_id r = i) idem_fail rows))"

definition idem_run ::
  "(string \<Rightarrow> string) \<Rightarrow> string \<Rightarrow> int \<Rightarrow> idem_params \<Rightarrow> ('w \<Rightarrow> (thrown + idem_response) \<times> 'w)
     \<Rightarrow> 'w \<times> idem_row list \<Rightarrow> (thrown + idem_response) \<times> 'w \<times> idem_row list" where
  "idem_run sha new_id now p handler wr =
     (case wr of (w, rows) \<Rightarrow>
       let hash = body_hash sha p in
       (case idem_decide new_id hash (idem_lookup p rows) of
          Reject e \<Rightarrow> (Inl e, w, rows)
        | Replay resp \<Rightarrow> (Inr resp, w, rows)
        | Execute i \<Rightarrow>
            let rows1 = idem_claim p i hash now rows;
                (outcome, w') = handler w;
                (result, rows2) = idem_settle i now outcome rows1
            in (result, w', rows2)))"

subsection \<open>Laws\<close>

text \<open>The registry is well formed: ids are unique, and so is the unique index.\<close>

definition idem_key :: "idem_row \<Rightarrow> string \<times> string \<times> string \<times> string \<times> string" where
  "idem_key r = (ir_tenant_id r, ir_principal_id r, ir_method r, ir_path_template r, ir_key r)"

definition params_key :: "idem_params \<Rightarrow> string \<times> string \<times> string \<times> string \<times> string" where
  "params_key p = (tenant_id (ip_principal p), sub (ip_principal p), ip_method p, ip_path_template p, ip_key p)"

definition idem_inv :: "idem_row list \<Rightarrow> bool" where
  "idem_inv rows \<longleftrightarrow> distinct (map ir_id rows) \<and> distinct (map idem_key rows)"

lemma idem_matches_key: "idem_matches p = (\<lambda>r. idem_key r = params_key p)"
  by (auto simp: idem_matches_def idem_key_def params_key_def)

interpretation claim_id: keyed_update ir_id "\<lambda>r. r\<lparr> ir_status := IN_PROGRESS, ir_body_hash := h \<rparr>" for h
  by unfold_locales simp
interpretation claim_key: keyed_update idem_key "\<lambda>r. r\<lparr> ir_status := IN_PROGRESS, ir_body_hash := h \<rparr>" for h
  by unfold_locales (simp add: idem_key_def)
interpretation complete_id: keyed_update ir_id "idem_complete result now" for result now
  by unfold_locales (simp add: idem_complete_def)
interpretation complete_key: keyed_update idem_key "idem_complete result now" for result now
  by unfold_locales (simp add: idem_complete_def idem_key_def)
interpretation fail_id: keyed_update ir_id idem_fail
  by unfold_locales (simp add: idem_fail_def)
interpretation fail_key: keyed_update idem_key idem_fail
  by unfold_locales (simp add: idem_fail_def idem_key_def)

lemma idem_claim_lookup:
  assumes "idem_lookup p rows = None \<or> (\<exists>r. idem_lookup p rows = Some r \<and> ir_id r = i)"
  shows "\<exists>r. idem_lookup p (idem_claim p i h now rows) = Some r \<and> ir_id r = i \<and> ir_body_hash r = h
    \<and> ir_status r = IN_PROGRESS"
proof (cases "idem_lookup p rows")
  case None
  then show ?thesis
    by (simp add: idem_claim_def insert_row_def idem_lookup_def find_row_append idem_matches_def)
next
  case (Some r)
  then show ?thesis using assms claim_key.find_updated [of "params_key p" h rows]
    by (simp add: idem_claim_def idem_lookup_def idem_matches_key)
qed

lemma idem_claim_inv:
  assumes "idem_inv rows" and "idem_lookup p rows = None \<Longrightarrow> i \<notin> ir_id ` set rows"
  shows "idem_inv (idem_claim p i h now rows)"
proof (cases "idem_lookup p rows")
  case None
  then have "\<forall>r \<in> set rows. idem_key r \<noteq> params_key p"
    by (simp add: idem_lookup_def idem_matches_key find_row_None)
  then show ?thesis using None assms
    by (auto simp: idem_claim_def idem_inv_def insert_row_def idem_key_def params_key_def)
next
  case (Some r)
  then show ?thesis using assms
    by (simp add: idem_claim_def idem_inv_def claim_id.keys_update claim_key.keys_update)
qed

lemma idem_settle_inv: "idem_inv rows \<Longrightarrow> idem_inv (snd (idem_settle i now outcome rows))"
  by (auto simp: idem_settle_def idem_inv_def complete_id.keys_update complete_key.keys_update
      fail_id.keys_update fail_key.keys_update split: sum.splits)

text \<open>Under the invariant, the row found by key is the row found by its id.\<close>

lemma idem_lookup_id:
  assumes "idem_inv rows" "idem_lookup p rows = Some r"
  shows "find_row (\<lambda>x. ir_id x = ir_id r) rows = Some r"
proof -
  have "r \<in> set rows" using find_row_Some assms(2) unfolding idem_lookup_def by fast
  then show ?thesis using assms(1) find_row_key_unique [of ir_id rows r] by (simp add: idem_inv_def)
qed

lemma idem_settle_ok:
  assumes "idem_inv rows" "idem_lookup p rows = Some r"
  shows "fst (idem_settle (ir_id r) now (Inr result) rows) = Inr result"
    and "idem_lookup p (snd (idem_settle (ir_id r) now (Inr result) rows)) = Some (idem_complete result now r)"
proof -
  have found: "find_row (\<lambda>x. ir_id x = ir_id r) rows = Some r" using idem_lookup_id assms by blast
  then show "fst (idem_settle (ir_id r) now (Inr result) rows) = Inr result" by (simp add: idem_settle_def)
  show "idem_lookup p (snd (idem_settle (ir_id r) now (Inr result) rows)) = Some (idem_complete result now r)"
    using assms(2) found complete_key.find_where [of "params_key p" "\<lambda>x. ir_id x = ir_id r"]
    by (simp add: idem_settle_def idem_lookup_def idem_matches_key)
qed

lemma idem_settle_fail:
  assumes "idem_inv rows" "idem_lookup p rows = Some r"
  shows "idem_lookup p (snd (idem_settle (ir_id r) now (Inl e) rows)) = Some (idem_fail r)"
  using assms(2) fail_key.find_where [of "params_key p" "\<lambda>x. ir_id x = ir_id r" rows]
  by (simp add: idem_settle_def idem_lookup_def idem_matches_key)

text \<open>What one request leaves behind: completed with the response, or failed and open to a retry.\<close>

definition idem_open :: "idem_params \<Rightarrow> string \<Rightarrow> idem_row list \<Rightarrow> bool" where
  "idem_open p h rows \<longleftrightarrow> idem_inv rows \<and> (case idem_lookup p rows of
     None \<Rightarrow> True | Some r \<Rightarrow> ir_status r = FAILED \<and> ir_body_hash r = h)"

definition idem_done :: "idem_params \<Rightarrow> string \<Rightarrow> idem_response \<Rightarrow> idem_row list \<Rightarrow> bool" where
  "idem_done p h resp rows \<longleftrightarrow> idem_inv rows \<and> (case idem_lookup p rows of
     None \<Rightarrow> False
   | Some r \<Rightarrow> ir_status r = COMPLETED \<and> ir_body_hash r = h \<and> ir_response_status r = Some (rs_status resp)
       \<and> ir_response_body r = Some (rs_body resp) \<and> ir_response_location r = rs_location resp)"

lemma idem_run_open:
  assumes op: "idem_open p (body_hash sha p) rows"
    and fresh: "idem_lookup p rows = None \<Longrightarrow> new_id \<notin> ir_id ` set rows"
    and h: "handler w = (outcome, w')"
  shows "\<exists>rows'. idem_run sha new_id now p handler (w, rows) = (outcome, w', rows')
    \<and> (case outcome of Inr resp \<Rightarrow> idem_done p (body_hash sha p) resp rows'
       | Inl e \<Rightarrow> idem_open p (body_hash sha p) rows')"
proof -
  let ?h = "body_hash sha p"
  obtain i where dec: "idem_decide new_id ?h (idem_lookup p rows) = Execute i"
    and ids: "idem_lookup p rows = None \<or> (\<exists>r. idem_lookup p rows = Some r \<and> ir_id r = i)"
    and frsh: "idem_lookup p rows = None \<Longrightarrow> i \<notin> ir_id ` set rows"
    using op fresh by (cases "idem_lookup p rows") (auto simp: idem_open_def idem_decide_def)
  define rows1 where "rows1 = idem_claim p i ?h now rows"
  obtain r where r: "idem_lookup p rows1 = Some r" "ir_id r = i" "ir_body_hash r = ?h"
    using idem_claim_lookup [OF ids] rows1_def by blast
  have inv1: "idem_inv rows1" unfolding rows1_def
    by (rule idem_claim_inv) (use op frsh in \<open>auto simp: idem_open_def\<close>)
  have run: "idem_run sha new_id now p handler (w, rows)
      = (fst (idem_settle i now outcome rows1), w', snd (idem_settle i now outcome rows1))"
    using dec h by (simp add: idem_run_def Let_def rows1_def split: prod.splits)
  have inv2: "idem_inv (snd (idem_settle i now outcome rows1))" by (rule idem_settle_inv [OF inv1])
  show ?thesis
  proof (cases outcome)
    case (Inl e)
    then show ?thesis using run inv2 idem_settle_fail [OF inv1 r(1)] r
      by (auto simp: idem_open_def idem_fail_def idem_settle_def)
  next
    case (Inr resp)
    then show ?thesis using run inv2 idem_settle_ok [OF inv1 r(1)] r
      by (auto simp: idem_done_def idem_complete_def)
  qed
qed

lemma idem_run_done:
  "idem_done p (body_hash sha p) resp rows \<Longrightarrow> idem_run sha new_id now p handler (w, rows) = (Inr resp, w, rows)"
  by (auto simp: idem_done_def idem_run_def idem_decide_def Let_def split: option.splits)

text \<open>A client that retries: the same request, a fresh id and a clock value per attempt.\<close>

fun idem_retry ::
  "(string \<Rightarrow> string) \<Rightarrow> (string \<times> int) list \<Rightarrow> idem_params \<Rightarrow> ('w \<Rightarrow> (thrown + idem_response) \<times> 'w)
     \<Rightarrow> 'w \<times> idem_row list \<Rightarrow> (thrown + idem_response) list \<times> 'w" where
  "idem_retry sha [] p handler wr = ([], fst wr)"
| "idem_retry sha ((i, now) # rest) p handler wr =
     (case idem_run sha i now p handler wr of (res, wr') \<Rightarrow>
       case idem_retry sha rest p handler wr' of (ress, w) \<Rightarrow> (res # ress, w))"

text \<open>The effect the retries should have: run the handler until it succeeds once, then repeat its answer.\<close>

fun until_success :: "nat \<Rightarrow> ('w \<Rightarrow> (thrown + idem_response) \<times> 'w) \<Rightarrow> 'w \<Rightarrow> (thrown + idem_response) list \<times> 'w" where
  "until_success 0 handler w = ([], w)"
| "until_success (Suc n) handler w = (case handler w of
     (Inr resp, w') \<Rightarrow> (replicate (Suc n) (Inr resp), w')
   | (Inl e, w') \<Rightarrow> (case until_success n handler w' of (ress, w'') \<Rightarrow> (Inl e # ress, w'')))"

lemma idem_retry_done:
  "idem_done p (body_hash sha p) resp rows \<Longrightarrow>
   idem_retry sha attempts p handler (w, rows) = (replicate (length attempts) (Inr resp), w)"
  by (induction attempts) (auto simp: idem_run_done)

lemma idem_settle_ids: "map ir_id (snd (idem_settle i now outcome rows)) = map ir_id rows"
  by (auto simp: idem_settle_def complete_id.keys_update fail_id.keys_update split: sum.splits)

lemma idem_claim_ids: "ir_id ` set (idem_claim p i h now rows) \<subseteq> insert i (ir_id ` set rows)"
proof (cases "idem_lookup p rows")
  case (Some r)
  then show ?thesis using claim_id.keys_update [of "idem_matches p" h rows]
    by (auto simp: idem_claim_def simp flip: set_map)
qed (simp add: idem_claim_def)

lemma idem_claim_known_ids:
  "idem_lookup p rows = Some r \<Longrightarrow> ir_id ` set (idem_claim p i h now rows) = ir_id ` set rows"
  using claim_id.keys_update [of "idem_matches p" h rows] by (simp add: idem_claim_def flip: set_map)

lemma idem_run_ids:
  assumes run: "idem_run sha i now p handler (w, rows) = (res, w', rows')"
  shows "ir_id ` set rows' \<subseteq> insert i (ir_id ` set rows)"
proof (cases "idem_decide i (body_hash sha p) (idem_lookup p rows)")
  case (Execute j)
  obtain outcome w1 where h: "handler w = (outcome, w1)" by (cases "handler w")
  let ?claimed = "idem_claim p j (body_hash sha p) now rows"
  have "rows' = snd (idem_settle j now outcome ?claimed)"
    using run Execute h by (auto simp: idem_run_def Let_def split: prod.splits)
  then have "ir_id ` set rows' = ir_id ` set ?claimed" by (metis idem_settle_ids set_map)
  moreover have "j = i \<or> (\<exists>r. idem_lookup p rows = Some r)"
    using Execute by (cases "idem_lookup p rows") (auto simp: idem_decide_def)
  ultimately show ?thesis using idem_claim_ids [of p i "body_hash sha p" now rows] idem_claim_known_ids
    by (elim disjE exE) (simp, metis subset_insertI)
qed (use run in \<open>auto simp: idem_run_def Let_def\<close>)

lemma idem_retry_open:
  assumes "idem_open p (body_hash sha p) rows"
    and "distinct (map fst attempts)" "fst ` set attempts \<inter> ir_id ` set rows = {}"
  shows "idem_retry sha attempts p handler (w, rows) = until_success (length attempts) handler w"
  using assms
proof (induction attempts arbitrary: w rows)
  case (Cons a rest)
  obtain i now where a: "a = (i, now)" by (cases a)
  obtain outcome w' where h: "handler w = (outcome, w')" by (cases "handler w")
  have fresh: "i \<notin> ir_id ` set rows" using Cons.prems(3) a by auto
  obtain rows' where run: "idem_run sha i now p handler (w, rows) = (outcome, w', rows')"
    and after: "case outcome of Inr resp \<Rightarrow> idem_done p (body_hash sha p) resp rows'
       | Inl e \<Rightarrow> idem_open p (body_hash sha p) rows'"
    using idem_run_open [where sha = sha and p = p and new_id = i and now = now and handler = handler,
        OF Cons.prems(1) fresh h] by blast
  have dist: "distinct (map fst rest)" using Cons.prems(2) by simp
  have ids: "fst ` set rest \<inter> ir_id ` set rows' = {}"
  proof -
    have "i \<notin> fst ` set rest" "fst ` set rest \<inter> ir_id ` set rows = {}" using Cons.prems(2,3) a by auto
    then show ?thesis using idem_run_ids [OF run] by blast
  qed
  show ?case
  proof (cases outcome)
    case (Inl e)
    then show ?thesis using run h a after Cons.IH [OF _ dist ids] by simp
  next
    case (Inr resp)
    then show ?thesis using run h a after idem_retry_done [of p sha resp rows' rest handler w'] by simp
  qed
qed simp

end
