(* ===== verification/RateLimit.thy ===== *)
theory RateLimit
  imports Access
begin

text \<open>
  Request admission by rate: bucket assignment (\<open>common/rate-limit/buckets.ts\<close>), the fixed-window
  limiter (\<open>common/rate-limit/rate-limiter.ts\<close>) and its guard
  (\<open>common/guards/rate-limit.guard.ts\<close>).  The Redis pipeline is the parameter \<open>exec\<close>: it takes
  the queued commands and the server's state and returns one result per command, or \<open>None\<close> when
  the pipeline returned nothing.  What the limiter relies on is the hypothesis \<open>counts_hits\<close>.
\<close>

subsection \<open>Buckets\<close>

datatype rate_limit_bucket = BRead | BWrite | BUpload | BExpensive | BAccessUrl | BAuth

fun bucket_name :: "rate_limit_bucket \<Rightarrow> string" where
  "bucket_name BRead = ''read''"
| "bucket_name BWrite = ''write''"
| "bucket_name BUpload = ''upload''"
| "bucket_name BExpensive = ''expensive''"
| "bucket_name BAccessUrl = ''access_url''"
| "bucket_name BAuth = ''auth''"

definition EXPENSIVE_SEGMENTS :: "string list" where
  "EXPENSIVE_SEGMENTS = [''ingestion'', ''analysis'', ''director'', ''tts'', ''assembly'',
     ''previews'', ''casting'', ''character-merges'']"

definition path_segments :: "string \<Rightarrow> string list" where
  "path_segments path =
     (let pathname = rev (dropWhile (\<lambda>c. c = CHR ''/'') (rev (hd (split_on (CHR ''?'') path))))
      in filter (\<lambda>s. s \<noteq> []) (split_on (CHR ''/'') pathname))"

definition resolve_bucket :: "string \<Rightarrow> string \<Rightarrow> rate_limit_bucket" where
  "resolve_bucket method path =
     (let verb = map upper_ascii method;
          segments = path_segments path;
          last_seg = (if segments = [] then [] else last segments)
      in if take 3 segments = [''api'', ''v1'', ''auth''] then BAuth
         else if verb = ''GET'' \<or> verb = ''HEAD'' then BRead
         else if last_seg = ''access-urls'' then BAccessUrl
         else if ''upload-sessions'' \<in> set segments then BUpload
         else if last_seg \<in> set EXPENSIVE_SEGMENTS then BExpensive
         else if list_ex (\<lambda>s. s \<in> set EXPENSIVE_SEGMENTS) segments \<and> verb = ''POST'' then BExpensive
         else BWrite)"

subsection \<open>The limiter\<close>

record rate_limit_dimension =
  dim_kind :: string
  dim_id :: string
  dim_limit :: nat

record rate_limit_decision =
  rl_allowed :: bool
  rl_limit :: nat
  rl_remaining :: nat
  rl_reset_at :: int
  rl_retry_after :: int
  rl_degraded :: bool

datatype redis_cmd = INCR string | EXPIRE string int

definition ratelimit_key :: "rate_limit_bucket \<Rightarrow> int \<Rightarrow> rate_limit_dimension \<Rightarrow> string" where
  "ratelimit_key bucket window_index d =
     ''ratelimit:'' @ bucket_name bucket @ '':'' @ dim_kind d @ '':'' @ dim_id d @ '':'' @ show_int window_index"

definition window_commands :: "rate_limit_bucket \<Rightarrow> int \<Rightarrow> int \<Rightarrow> rate_limit_dimension list \<Rightarrow> redis_cmd list" where
  "window_commands bucket window_seconds window_index dims =
     concat (map (\<lambda>d. [INCR (ratelimit_key bucket window_index d),
                        EXPIRE (ratelimit_key bucket window_index d) (window_seconds + 1)]) dims)"

text \<open>The result at each even index, \<open>None\<close> as soon as one is missing or an error.\<close>

fun read_counts :: "(thrown + nat) list \<Rightarrow> nat \<Rightarrow> nat list option" where
  "read_counts results 0 = Some []"
| "read_counts (Inr c # _ # rest) (Suc n) = map_option (\<lambda>cs. c # cs) (read_counts rest n)"
| "read_counts (Inr c # []) (Suc n) = map_option (\<lambda>cs. c # cs) (read_counts [] n)"
| "read_counts _ (Suc n) = None"

text \<open>The tightest dimension so far: \<open>None\<close> is the initial infinity.\<close>

definition tighten :: "(nat \<times> nat) option \<Rightarrow> rate_limit_dimension \<times> nat \<Rightarrow> (nat \<times> nat) option" where
  "tighten binding du = (case du of (d, used) \<Rightarrow>
     let remaining = dim_limit d - used
     in case binding of
          None \<Rightarrow> Some (dim_limit d, remaining)
        | Some (l, r) \<Rightarrow> if remaining < r then Some (dim_limit d, remaining) else binding)"

definition consume ::
  "('s \<Rightarrow> redis_cmd list \<Rightarrow> (thrown + nat) list option \<times> 's) \<Rightarrow> int \<Rightarrow> int \<Rightarrow> rate_limit_bucket
     \<Rightarrow> rate_limit_dimension list \<Rightarrow> 's \<Rightarrow> rate_limit_decision \<times> 's" where
  "consume exec window_seconds now_ms bucket dims s =
     (let now_seconds = now_ms div 1000;
          window_index = now_seconds div window_seconds;
          reset_at = (window_index + 1) * window_seconds;
          (results, s') = exec s (window_commands bucket window_seconds window_index dims);
          counts = (case results of None \<Rightarrow> None | Some rs \<Rightarrow> read_counts rs (length dims));
          first_limit = (case dims of [] \<Rightarrow> 0 | d # _ \<Rightarrow> dim_limit d)
      in case counts of
           None \<Rightarrow> (\<lparr> rl_allowed = True, rl_limit = first_limit, rl_remaining = first_limit,
                      rl_reset_at = reset_at, rl_retry_after = 0, rl_degraded = True \<rparr>, s')
         | Some cs \<Rightarrow>
             let used = zip dims cs;
                 binding = foldl tighten None used
             in (\<lparr> rl_allowed = list_all (\<lambda>(d, u). u \<le> dim_limit d) used,
                   rl_limit = (case binding of None \<Rightarrow> 0 | Some (l, _) \<Rightarrow> l),
                   rl_remaining = (case binding of None \<Rightarrow> 0 | Some (_, r) \<Rightarrow> r),
                   rl_reset_at = reset_at,
                   rl_retry_after = max 1 (reset_at - now_seconds),
                   rl_degraded = False \<rparr>, s'))"

subsection \<open>The guard\<close>

record rate_limit_config =
  rlc_enabled :: bool
  rlc_window_seconds :: int
  rlc_bucket_limit :: "rate_limit_bucket \<Rightarrow> nat"

definition TENANT_LIMIT_MULTIPLIER :: nat where
  "TENANT_LIMIT_MULTIPLIER = 10"

definition guard_dimensions :: "nat \<Rightarrow> principal option \<Rightarrow> string \<Rightarrow> rate_limit_dimension list" where
  "guard_dimensions limit who ip =
     (case who of None \<Rightarrow> []
      | Some p \<Rightarrow> [\<lparr> dim_kind = ''user'', dim_id = sub p, dim_limit = limit \<rparr>,
                   \<lparr> dim_kind = ''tenant'', dim_id = tenant_id p,
                     dim_limit = limit * TENANT_LIMIT_MULTIPLIER \<rparr>])
     @ (if ip = [] then [] else [\<lparr> dim_kind = ''ip'', dim_id = ip, dim_limit = limit \<rparr>])"

text \<open>The result, the reply headers set and the state of the server.\<close>

definition rate_limit_guard ::
  "('s \<Rightarrow> redis_cmd list \<Rightarrow> (thrown + nat) list option \<times> 's) \<Rightarrow> rate_limit_config \<Rightarrow> int
     \<Rightarrow> string \<Rightarrow> string \<Rightarrow> principal option \<Rightarrow> string \<Rightarrow> 's
     \<Rightarrow> (thrown + bool) \<times> (string \<times> string) list \<times> 's" where
  "rate_limit_guard exec config now_ms method url who ip s =
     (if \<not> rlc_enabled config then (Inr True, [], s)
      else let bucket = resolve_bucket method url;
               dims = guard_dimensions (rlc_bucket_limit config bucket) who ip
           in if dims = [] then (Inr True, [], s)
              else case consume exec (rlc_window_seconds config) now_ms bucket dims s of (decision, s') \<Rightarrow>
                if rl_degraded decision then (Inr True, [], s')
                else let headers = [(''RateLimit-Limit'', show_nat (rl_limit decision)),
                                    (''RateLimit-Remaining'', show_nat (rl_remaining decision)),
                                    (''RateLimit-Reset'', show_int (rl_reset_at decision))]
                     in if \<not> rl_allowed decision
                        then (Inl (AppErr (QuotaExceededError (coded ''RATE_LIMITED''
                               (''Rate limit exceeded for the '' @ bucket_name bucket @ '' bucket. Retry after ''
                                 @ show_int (rl_retry_after decision) @ ''s.'')))),
                              headers @ [(''Retry-After'', show_int (rl_retry_after decision))], s')
                        else (Inr True, headers, s'))"

subsection \<open>What the limiter relies on, and what follows\<close>

text \<open>
  Documented behaviour of a pipeline of \<open>INCR\<close> and \<open>EXPIRE\<close> with keys that have not expired:
  \<open>hits s key\<close> is the counter, an \<open>INCR\<close> returns the incremented counter.
\<close>

fun hits_of :: "redis_cmd list \<Rightarrow> string \<Rightarrow> nat" where
  "hits_of [] k = 0"
| "hits_of (INCR k' # cs) k = (if k' = k then Suc (hits_of cs k) else hits_of cs k)"
| "hits_of (EXPIRE _ _ # cs) k = hits_of cs k"

fun replies_of :: "(string \<Rightarrow> nat) \<Rightarrow> redis_cmd list \<Rightarrow> (thrown + nat) list" where
  "replies_of c [] = []"
| "replies_of c (INCR k # cs) = Inr (Suc (c k)) # replies_of (c(k := Suc (c k))) cs"
| "replies_of c (EXPIRE k t # cs) = Inr 1 # replies_of c cs"

definition counts_hits ::
  "('s \<Rightarrow> redis_cmd list \<Rightarrow> (thrown + nat) list option \<times> 's) \<Rightarrow> ('s \<Rightarrow> string \<Rightarrow> nat) \<Rightarrow> bool" where
  "counts_hits exec hits \<longleftrightarrow> (\<forall>s cmds. case exec s cmds of (results, s') \<Rightarrow>
     results = Some (replies_of (hits s) cmds) \<and> (\<forall>k. hits s' k = hits s k + hits_of cmds k))"

abbreviation win_key :: "rate_limit_bucket \<Rightarrow> int \<Rightarrow> int \<Rightarrow> rate_limit_dimension \<Rightarrow> string" where
  "win_key bucket window_seconds now_ms \<equiv> ratelimit_key bucket (now_ms div 1000 div window_seconds)"

lemma window_commands_simps [simp]:
  "window_commands b ws i [] = []"
  "window_commands b ws i (d # ds) =
     INCR (ratelimit_key b i d) # EXPIRE (ratelimit_key b i d) (ws + 1) # window_commands b ws i ds"
  by (simp_all add: window_commands_def)

lemma hits_of_window:
  "hits_of (window_commands b ws i dims) k = length (filter (\<lambda>d. ratelimit_key b i d = k) dims)"
  by (induction dims) auto

lemma replies_window:
  "distinct (map (ratelimit_key b i) dims) \<Longrightarrow>
   read_counts (replies_of c (window_commands b ws i dims)) (length dims)
     = Some (map (\<lambda>d. Suc (c (ratelimit_key b i d))) dims)"
proof (induction dims arbitrary: c)
  case (Cons d dims)
  define c' where "c' = c(ratelimit_key b i d := Suc (c (ratelimit_key b i d)))"
  have upd: "map (\<lambda>e. Suc (c' (ratelimit_key b i e))) dims = map (\<lambda>e. Suc (c (ratelimit_key b i e))) dims"
    using Cons.prems by (auto simp: c'_def rev_image_eqI)
  have "distinct (map (ratelimit_key b i) dims)" using Cons.prems by simp
  from Cons.IH [OF this, of c'] show ?case unfolding upd by (simp flip: c'_def)
qed simp

lemma tighten_Some [simp]:
  "tighten (Some (l, r)) (d, u) =
     (if dim_limit d - u < r then Some (dim_limit d, dim_limit d - u) else Some (l, r))"
  by (simp add: tighten_def Let_def)

lemma tighten_keeps: "foldl tighten (Some x) used \<noteq> None"
proof (induction used arbitrary: x)
  case (Cons du used)
  show ?case using Cons.IH by (cases du; cases x) simp
qed simp

lemma tighten_min:
  "foldl tighten (Some (l, r)) used = Some (l', r') \<Longrightarrow>
   r' \<le> r \<and> (\<forall>(d, u) \<in> set used. r' \<le> dim_limit d - u)
     \<and> ((l', r') = (l, r) \<or> (\<exists>(d, u) \<in> set used. l' = dim_limit d \<and> r' = dim_limit d - u))"
proof (induction used arbitrary: l r)
  case (Cons du used)
  obtain d u where du: "du = (d, u)" by (cases du)
  show ?case
  proof (cases "dim_limit d - u < r")
    case True
    then have "foldl tighten (Some (dim_limit d, dim_limit d - u)) used = Some (l', r')"
      using Cons.prems du by simp
    from Cons.IH [OF this] show ?thesis using True du by fastforce
  next
    case False
    then have "foldl tighten (Some (l, r)) used = Some (l', r')"
      using Cons.prems du by simp
    from Cons.IH [OF this] show ?thesis using False du by fastforce
  qed
qed simp

text \<open>The two facts the properties rest on: the verdict, and the counters afterwards.\<close>

lemma consume_verdict:
  assumes "counts_hits exec hits"
    and "distinct (map (win_key bucket ws now) dims)"
  shows "rl_allowed (fst (consume exec ws now bucket dims s)) \<longleftrightarrow>
           (\<forall>d \<in> set dims. hits s (win_key bucket ws now d) < dim_limit d)"
    and "hits (snd (consume exec ws now bucket dims s)) k
           = hits s k + (if k \<in> win_key bucket ws now ` set dims then 1 else 0)"
proof -
  let ?cmds = "window_commands bucket ws (now div 1000 div ws) dims"
  obtain results s' where ex: "exec s ?cmds = (results, s')" by (cases "exec s ?cmds")
  have res: "results = Some (replies_of (hits s) ?cmds)" "\<And>k. hits s' k = hits s k + hits_of ?cmds k"
    using assms(1) ex unfolding counts_hits_def by (auto split: prod.splits)
  have "read_counts (replies_of (hits s) ?cmds) (length dims)
      = Some (map (\<lambda>d. Suc (hits s (win_key bucket ws now d))) dims)"
    using replies_window [OF assms(2)] .
  then show "rl_allowed (fst (consume exec ws now bucket dims s)) \<longleftrightarrow>
           (\<forall>d \<in> set dims. hits s (win_key bucket ws now d) < dim_limit d)"
    using ex res(1) by (auto simp: consume_def Let_def list_all_iff set_zip Suc_le_eq all_set_conv_all_nth)
  have "snd (consume exec ws now bucket dims s) = s'"
    using ex by (simp add: consume_def Let_def split: option.splits)
  moreover have "hits_of ?cmds k = (if k \<in> win_key bucket ws now ` set dims then 1 else 0)"
    using assms(2) unfolding hits_of_window
    by (induction dims) (auto simp: image_iff filter_empty_conv)
  ultimately show "hits (snd (consume exec ws now bucket dims s)) k
      = hits s k + (if k \<in> win_key bucket ws now ` set dims then 1 else 0)" using res(2) by simp
qed

text \<open>\<open>n\<close> further requests with the same dimensions in the same window: the verdicts in order.\<close>

fun consume_times ::
  "('s \<Rightarrow> redis_cmd list \<Rightarrow> (thrown + nat) list option \<times> 's) \<Rightarrow> int \<Rightarrow> int \<Rightarrow> rate_limit_bucket
     \<Rightarrow> rate_limit_dimension list \<Rightarrow> nat \<Rightarrow> 's \<Rightarrow> bool list" where
  "consume_times exec ws now bucket dims 0 s = []"
| "consume_times exec ws now bucket dims (Suc n) s =
     (case consume exec ws now bucket dims s of (d, s') \<Rightarrow>
        rl_allowed d # consume_times exec ws now bucket dims n s')"

lemma consume_times_from:
  assumes "counts_hits exec hits" and "distinct (map (win_key bucket ws now) dims)"
    and "\<And>d. d \<in> set dims \<Longrightarrow> hits s (win_key bucket ws now d) = m"
  shows "consume_times exec ws now bucket dims n s
    = map (\<lambda>i. \<forall>d \<in> set dims. i < dim_limit d) [m ..< m + n]"
  using assms(3)
proof (induction n arbitrary: s m)
  case (Suc n)
  obtain dec s' where c: "consume exec ws now bucket dims s = (dec, s')"
    by (cases "consume exec ws now bucket dims s")
  have "hits s' (win_key bucket ws now d) = Suc m" if "d \<in> set dims" for d
    using consume_verdict(2) [OF assms(1,2), of s "win_key bucket ws now d"] c that Suc.prems by simp
  then have "consume_times exec ws now bucket dims n s'
      = map (\<lambda>i. \<forall>d \<in> set dims. i < dim_limit d) [Suc m ..< Suc m + n]"
    by (rule Suc.IH)
  moreover have "rl_allowed dec \<longleftrightarrow> (\<forall>d \<in> set dims. m < dim_limit d)"
    using consume_verdict(1) [OF assms(1,2), of s] c Suc.prems by simp
  ultimately show ?case using c by (simp add: upt_rec)
qed simp

end
