(* ===== verification/ApiProperties.thy ===== *)
theory ApiProperties
  imports Samples Idempotency RateLimit
begin

text \<open>
  Properties of the API's building blocks and of the job service: cursors and listings,
  idempotency keys, rate limits, guards and errors, cancellation and replay.  Each is one theorem
  over the definitions that model the code, with a concrete instance where it has hypotheses.
\<close>

subsection \<open>Listings\<close>

lemma any_query_where: "build_job_where od base any_query = Inr base"
  by (simp add: build_job_where_def any_query_def parse_multi_def parse_bound_def opt_match_def truthy_def bindE_def)

lemma sort_cursor_query [simp]:
  "build_job_where od base (query\<lparr> lq_sort := s \<rparr>) = build_job_where od base query"
  by (simp add: build_job_where_def)

lemma any_query_limit: "parse_limit (lq_limit any_query) = Inr 1"
  by (simp add: any_query_def) code_simp

lemma any_query_sort: "parse_sort (lq_sort any_query) = Inr (''created_at'', Desc)"
  by (simp add: any_query_def parse_sort_def truthy_def)

lemma sample_created: "iso_range 1000"
  by code_simp

definition done_job :: "string \<Rightarrow> string \<Rightarrow> int \<Rightarrow> job" where
  "done_job i t ended = (sample_job i t SUCCEEDED)\<lparr> jb_times := (created_now 1000)\<lparr> jt_completed := Some ended \<rparr> \<rparr>"

text \<open>
  C1: Following the cursors of the job listing in the default order, page after page from the first
  request, returns every job of the tenant that the filters select, each once, in the order of the
  listing, whatever the page size; and the walk ends.
\<close>

theorem job_listing_complete:
  assumes "parse_limit (lq_limit query) = Inr limit" "parse_sort (lq_sort query) = Inr (''created_at'', dir)"
    and "build_job_where od (\<lambda>j. jb_tenant_id j = tenant_id who) query = Inr P"
    and "distinct (map jb_id jobs)" "\<forall>j \<in> set jobs. iso_range (jt_created (jb_times j))"
    and "length jobs < fuel"
  shows "follow (\<lambda>c. list_jobs od who (query\<lparr> lq_cursor := c \<rparr>) jobs) fuel None
    = Some (map to_job_dto (order_jobs ''created_at'' dir (filter P jobs)))"
  using assms by (rule follow_list_jobs)

theorem job_listing_complete_witness:
  "follow (\<lambda>c. list_jobs (\<lambda>_. None) sample_who (any_query\<lparr> lq_cursor := c \<rparr>)
      [sample_job ''j1'' ''t1'' RUNNING, sample_job ''j2'' ''t1'' QUEUED]) 3 None
    = Some (map to_job_dto (order_jobs ''created_at'' Desc (filter (\<lambda>j. jb_tenant_id j = tenant_id sample_who)
        [sample_job ''j1'' ''t1'' RUNNING, sample_job ''j2'' ''t1'' QUEUED])))"
  by (rule job_listing_complete [OF any_query_limit any_query_sort any_query_where])
    (simp_all add: sample_job_def created_now_def sample_created)

text \<open>
  Sorted by completion time, newest first, the listing loses jobs: when a page or more of the
  selected jobs have not completed, the walk over the cursors stops after the first page, so no
  completed job is ever shown.  The cursor of a row without a completion time carries the epoch,
  and every completed job is later than that.
\<close>

theorem completed_listing_stops:
  assumes "parse_limit (lq_limit query) = Inr limit" "parse_sort (lq_sort query) = Inr (''completed_at'', Desc)"
    and "build_job_where od (\<lambda>j. jb_tenant_id j = tenant_id who) query = Inr P"
    and "limit \<le> length (filter open_ended (filter P jobs))" "limit < length (filter P jobs)"
    and "\<And>j t. j \<in> set jobs \<Longrightarrow> jt_completed (jb_times j) = Some t \<Longrightarrow> 0 < t"
  shows "follow (\<lambda>c. list_jobs od who (query\<lparr> lq_cursor := c \<rparr>) jobs) (Suc (Suc fuel)) None
    = Some (map to_job_dto (take limit (order_jobs ''completed_at'' Desc (filter P jobs))))"
  using assms by (rule follow_completed_desc)

theorem completed_listing_stops_witness:
  "follow (\<lambda>c. list_jobs (\<lambda>_. None) sample_who (any_query\<lparr> lq_sort := Some ''completed_at:desc'', lq_cursor := c \<rparr>)
      [sample_job ''j1'' ''t1'' RUNNING, done_job ''j2'' ''t1'' 5]) (Suc (Suc 7)) None
    = Some (map to_job_dto (take 1 (order_jobs ''completed_at'' Desc
        (filter (\<lambda>j. jb_tenant_id j = tenant_id sample_who) [sample_job ''j1'' ''t1'' RUNNING, done_job ''j2'' ''t1'' 5]))))"
proof -
  let ?q = "any_query\<lparr> lq_sort := Some ''completed_at:desc'' \<rparr>"
  have "parse_limit (lq_limit ?q) = Inr 1" using any_query_limit by simp
  moreover have "parse_sort (lq_sort ?q) = Inr (''completed_at'', Desc)" by code_simp
  moreover have "build_job_where (\<lambda>_. None) (\<lambda>j. jb_tenant_id j = tenant_id sample_who) ?q
      = Inr (\<lambda>j. jb_tenant_id j = tenant_id sample_who)" using any_query_where by simp
  ultimately show ?thesis
    by (rule completed_listing_stops)
      (auto simp: done_job_def sample_job_def sample_who_def created_now_def open_ended_def)
qed

text \<open>
  The listing of one tenant does not depend on the jobs of any other tenant: whatever the query
  and the cursor, it is the listing over the tenant's own jobs.
\<close>

theorem job_listing_isolated:
  "list_jobs od who query jobs = list_jobs od who query (filter (\<lambda>j. jb_tenant_id j = tenant_id who) jobs)"
  by (rule list_jobs_own)

text \<open>
  Following the cursors of a job's attempts returns all its attempts, each once, by attempt number.
\<close>

theorem attempt_listing_complete:
  assumes "require_owned_job who job_id jobs = Inr j" "parse_limit raw_limit = Inr limit"
    and "distinct (map (\<lambda>a. (at_job_id a, at_number a)) ats)" "length ats < fuel"
  shows "follow (\<lambda>c. list_attempts who job_id c raw_limit jobs ats) fuel None
    = Some (map to_attempt_dto (sort_key at_number (filter (\<lambda>a. at_job_id a = job_id) ats)))"
  using assms by (rule follow_list_attempts)

theorem attempt_listing_complete_witness:
  "follow (\<lambda>c. list_attempts sample_who ''j1'' c None [sample_job ''j1'' ''t1'' RUNNING] []) 1 None = Some []"
  using attempt_listing_complete [of sample_who "''j1''" "[sample_job ''j1'' ''t1'' RUNNING]" "sample_job ''j1'' ''t1'' RUNNING"
      None DEFAULT_PAGE_LIMIT "[]" 1]
  by (simp add: require_owned_job_def sample_job_def sample_who_def parse_limit_def)

text \<open>A cursor of the API decodes to the sort value and the id it was made from.\<close>

theorem cursor_decodes:
  "decode_cursor (Some (encode_cursor v i)) = Inr (Some \<lparr> cp_v = sort_value_json v, cp_id = i \<rparr>)"
  by (rule cursor_roundtrip)

subsection \<open>Idempotency keys\<close>

definition sample_params :: idem_params where
  "sample_params = \<lparr> ip_principal = sample_who, ip_method = ''POST'', ip_path_template = ''/books'', ip_key = ''k1'',
     ip_body = JObj [(''title'', JStr ''A'')] \<rparr>"

definition flaky :: "nat \<Rightarrow> (thrown + idem_response) \<times> nat" where
  "flaky n = (if n = 0 then (Inl (OtherErr ''down''), 1)
     else (Inr \<lparr> rs_status = 201, rs_body = JNull, rs_location = None \<rparr>, n + 1))"

text \<open>
  C28: A client that repeats one request under one idempotency key, with any number of attempts, gets
  the answers, and leaves the effects, of running the handler until it first succeeds and repeating
  that answer from then on.
\<close>

theorem idempotent_retries:
  assumes "idem_open p (body_hash sha p) rows"
    and "distinct (map fst attempts)" "fst ` set attempts \<inter> ir_id ` set rows = {}"
  shows "idem_retry sha attempts p handler (w, rows) = until_success (length attempts) handler w"
  using assms by (rule idem_retry_open)

theorem idempotent_retries_witness:
  "idem_retry id [(''i1'', 1), (''i2'', 2), (''i3'', 3)] sample_params flaky (0, [])
    = ([Inl (OtherErr ''down''), Inr \<lparr> rs_status = 201, rs_body = JNull, rs_location = None \<rparr>,
        Inr \<lparr> rs_status = 201, rs_body = JNull, rs_location = None \<rparr>], 2)"
  using idempotent_retries [of sample_params id "[]" "[(''i1'', 1), (''i2'', 2), (''i3'', 3)]" flaky 0]
  by (simp add: idem_open_def idem_inv_def idem_lookup_def flaky_def)

text \<open>
  The registry does not stop two requests that arrive together.  When both have looked the key up
  before either has claimed it, both are told to execute: the handler runs twice, and the second
  request fails because the row it would complete belongs to the first.
\<close>

theorem idempotency_race:
  assumes "idem_lookup p rows = None" "id1 \<notin> ir_id ` set rows" "id2 \<notin> ir_id ` set rows" "id1 \<noteq> id2"
  shows "idem_decide id1 h (idem_lookup p rows) = Execute id1 \<and> idem_decide id2 h (idem_lookup p rows) = Execute id2
    \<and> (let both = idem_claim p id2 h now2 (idem_claim p id1 h now1 rows)
       in fst (idem_settle id1 now1 (Inr r1) both) = Inr r1
          \<and> fst (idem_settle id2 now2 (Inr r2) (snd (idem_settle id1 now1 (Inr r1) both)))
              = Inl (CodedErr ''P2025'' ''Record to update not found.''))"
proof -
  define row where "row = \<lparr> ir_id = id1, ir_tenant_id = tenant_id (ip_principal p),
      ir_principal_id = sub (ip_principal p), ir_method = ip_method p, ir_path_template = ip_path_template p,
      ir_key = ip_key p, ir_body_hash = h, ir_status = IN_PROGRESS, ir_response_status = None,
      ir_response_body = None, ir_response_location = None, ir_expires_at = now1 + IDEMPOTENCY_TTL_MS, ir_completed_at = None \<rparr>"
  have none: "\<forall>r \<in> set rows. \<not> idem_matches p r" using assms(1) by (simp add: idem_lookup_def find_row_None)
  have m: "idem_matches p row" "ir_id row = id1" by (simp_all add: idem_matches_def row_def)
  have again: "row\<lparr> ir_status := IN_PROGRESS, ir_body_hash := h \<rparr> = row" by (simp add: row_def)
  have c1: "idem_claim p id1 h now1 rows = rows @ [row]" using assms(1) by (simp add: idem_claim_def insert_row_def row_def)
  have "idem_lookup p (rows @ [row]) = Some row"
    using none m by (simp add: idem_lookup_def find_row_append find_row_None [THEN iffD2])
  then have c2: "idem_claim p id2 h now2 (rows @ [row]) = rows @ [row]"
    using none m again by (simp add: idem_claim_def update_where_def map_idI)
  define settled where "settled = update_where (\<lambda>r. ir_id r = id1) (idem_complete r1 now1) (rows @ [row])"
  have "\<exists>r. find_row (\<lambda>r. ir_id r = id1) (rows @ [row]) = Some r"
    using m(2) by (cases "find_row (\<lambda>r. ir_id r = id1) (rows @ [row])") (auto simp: find_row_None)
  then have s1: "idem_settle id1 now1 (Inr r1) (rows @ [row]) = (Inr r1, settled)" by (auto simp: idem_settle_def settled_def)
  have "find_row (\<lambda>r. ir_id r = id2) settled = None"
    using assms(3,4) m(2) by (auto simp: settled_def find_row_None set_update_where idem_complete_def)
  then have "idem_settle id2 now2 (Inr r2) settled = (Inl (CodedErr ''P2025'' ''Record to update not found.''), settled)"
    by (simp add: idem_settle_def)
  then show ?thesis using assms(1) by (simp add: idem_decide_def c1 c2 s1)
qed

definition created_response :: idem_response where
  "created_response = \<lparr> rs_status = 201, rs_body = JNull, rs_location = None \<rparr>"

theorem idempotency_race_witness:
  "fst (idem_settle ''i2'' 2 (Inr created_response) (snd (idem_settle ''i1'' 1 (Inr created_response)
      (idem_claim sample_params ''i2'' ''h'' 2 (idem_claim sample_params ''i1'' ''h'' 1 [])))))
    = Inl (CodedErr ''P2025'' ''Record to update not found.'')"
  using idempotency_race [of sample_params "[]" "''i1''" "''i2''" "''h''" 2 1 created_response created_response]
  by (simp add: idem_lookup_def Let_def)

end
