(* ===== verification/JobProperties.thy ===== *)
theory JobProperties
  imports Samples
begin

text \<open>
  Properties of the job system across the API and the worker: cancellation against its one-pass
  reference, the gate, the sweeper and replay.
\<close>

subsection \<open>Helpers\<close>

lemma cancel_effect_frame [simp]:
  "jb_tenant_id (cancel_effect u now i c) = jb_tenant_id c" "jb_parent (cancel_effect u now i c) = jb_parent c"
  by (simp_all add: cancel_effect_def)

lemma require_owned_job_map:
  "(\<And>j. jb_id (f j) = jb_id j) \<Longrightarrow> (\<And>j. jb_tenant_id (f j) = jb_tenant_id j) \<Longrightarrow>
   require_owned_job who i jobs = Inr j \<Longrightarrow> require_owned_job who i (map f jobs) = Inr (f j)"
  by (induction jobs) (auto simp: require_owned_job_def split: if_splits option.splits)

lemma cancel_effect_self:
  "jb_id j = i \<Longrightarrow> cancel_effect u now i j = cancellation_patch u now (immediately_cancellable j) j"
  by (simp add: cancel_effect_def cancel_target_def)

lemma cancel_effect_self_terminal:
  assumes "jb_id j = i" "\<not> terminal_job j"
  shows "terminal_job (cancel_effect u now i j) \<longleftrightarrow> immediately_cancellable j"
  using assms by (simp add: cancel_effect_self terminal_job_def TERMINAL_JOB_STATUSES_def)

subsection \<open>Cancellation\<close>



text \<open>
  Cancelling twice is cancelling once: the second call changes the status of no row, and when the
  job was cancelled at once the second call changes nothing at all.
\<close>

theorem cancellation_idempotent:
  assumes ids: "distinct (map jb_id (db_jobs w))" and own: "require_owned_job who i (db_jobs w) = Inr j"
    and open': "\<not> terminal_job j" "jb_parent j \<noteq> Some i"
    and first: "cancel_job bq redis ev who i reason False corr w = (r1, w1)"
    and second: "cancel_job bq2 redis2 ev2 who i reason2 False corr2 w1 = (r2, w2)"
  shows "map jb_status (db_jobs w2) = map jb_status (db_jobs w1) \<and> (immediately_cancellable j \<longrightarrow> w2 = w1)"
proof -
  let ?e = "cancel_effect (sub who) (ev_now ev) i"
  have w1: "db_jobs w1 = map ?e (db_jobs w)"
    using cancel_job_spec [OF ids own open', of bq redis ev reason corr] first by auto
  have j: "jb_id j = i" using require_owned_job_Inr [OF own] by simp
  have own1: "require_owned_job who i (db_jobs w1) = Inr (?e j)"
    unfolding w1 by (rule require_owned_job_map [OF _ _ own]) simp_all
  show ?thesis
  proof (cases "immediately_cancellable j")
    case True
    then have "terminal_job (?e j)" using cancel_effect_self_terminal [OF j open'(1)] by simp
    then have "w2 = w1" using cancel_job_terminal [OF own1] second by simp
    then show ?thesis by simp
  next
    case False
    then have "\<not> terminal_job (?e j)" "jb_parent (?e j) \<noteq> Some i"
      using cancel_effect_self_terminal [OF j open'(1)] open'(2) by simp_all
    moreover have "distinct (map jb_id (db_jobs w1))" using ids by (simp add: w1 comp_def)
    ultimately obtain w' where "cancel_job bq2 redis2 ev2 who i reason2 False corr2 w1
        = (Inr (to_job_dto (cancel_effect (sub who) (ev_now ev2) i (?e j))), w')"
      "db_jobs w' = map (cancel_effect (sub who) (ev_now ev2) i) (db_jobs w1)"
      using cancel_job_spec [OF _ own1, of bq2 redis2 ev2 reason2 corr2] by blast
    then show ?thesis using second False by (simp add: w1 cancel_effect_again)
  qed
qed

theorem cancellation_idempotent_witness:
  "let w = sample_jobs_world [sample_job ''j1'' ''t1'' QUEUED];
       w1 = snd (cancel_job sample_broker map_redis sample_call sample_who ''j1'' None False None w)
   in snd (cancel_job sample_broker map_redis sample_call sample_who ''j1'' None False None w1) = w1"
proof -
  let ?w = "sample_jobs_world [sample_job ''j1'' ''t1'' QUEUED]"
  have "require_owned_job sample_who ''j1'' (db_jobs ?w) = Inr (sample_job ''j1'' ''t1'' QUEUED)"
    by (simp add: require_owned_job_def sample_defs)
  moreover have "\<not> terminal_job (sample_job ''j1'' ''t1'' QUEUED)" "immediately_cancellable (sample_job ''j1'' ''t1'' QUEUED)"
    by (simp_all add: terminal_job_def immediately_cancellable_def status_sets sample_job_def)
  moreover have "distinct (map jb_id (db_jobs ?w))" "jb_parent (sample_job ''j1'' ''t1'' QUEUED) \<noteq> Some ''j1''"
    by (simp_all add: sample_defs)
  ultimately show ?thesis
    using cancellation_idempotent [of ?w sample_who "''j1''" "sample_job ''j1'' ''t1'' QUEUED", OF _ _ _ _ surjective_pairing surjective_pairing]
    unfolding Let_def by blast
qed

text \<open>
  A job of another tenant cannot be cancelled, nor told apart from one that does not exist: the
  answer is \<open>JOB_NOT_FOUND\<close> and nothing changes.
\<close>

theorem cancellation_foreign:
  assumes "\<And>j. j \<in> set (db_jobs w) \<Longrightarrow> jb_id j = i \<Longrightarrow> jb_tenant_id j \<noteq> tenant_id who"
  shows "cancel_job bq redis ev who i reason False corr w = (Inl job_not_found, w)"
  using assms by (rule cancel_job_foreign)

theorem cancellation_foreign_witness:
  "cancel_job sample_broker map_redis sample_call sample_who ''j2'' None False None
     (sample_jobs_world [sample_job ''j2'' ''t2'' RUNNING])
   = (Inl job_not_found, sample_jobs_world [sample_job ''j2'' ''t2'' RUNNING])"
  by (rule cancellation_foreign) (simp add: sample_defs)

subsection \<open>The gate\<close>

definition running_requested :: job where
  "running_requested = (sample_job ''j1'' ''t1'' RUNNING)\<lparr> jb_cancel := not_cancelled\<lparr> jc_requested := True \<rparr> \<rparr>"

text \<open>
  While the flag store is down the database column decides: the gate halts every job whose
  cancellation was requested.
\<close>

theorem gate_durable:
  assumes "find_job i (db_jobs w) = Some j" "jc_requested (jb_cancel j)" "flag (jb_tenant_id j) i = Inl e"
  shows "fst (halt_if_cancelled flag now ids i w) = Inr True"
  using assms by (rule halt_if_cancelled_durable)

theorem gate_durable_witness:
  "fst (halt_if_cancelled (\<lambda>_ _. Inl (OtherErr ''down'')) 5 (''m'', ''e'') ''j1''
     \<lparr> db_jobs = [running_requested], db_outbox = [] \<rparr>) = Inr True"
  by (rule gate_durable [of _ _ running_requested]) (simp_all add: running_requested_def sample_job_def)

text \<open>
  A cancellation can be lost.  When the flag could not be written at the time of the call, or has
  expired, and the flag store answers again, the gate lets the running job continue and changes
  nothing, although the row says that cancellation was requested: the column is read only while the
  store is down.
\<close>

theorem cancellation_lost:
  assumes "distinct (map jb_id (db_jobs w))" "require_owned_job who i (db_jobs w) = Inr j" "jb_status j = RUNNING"
    and "jb_parent j \<noteq> Some i" and "cancel_job bq redis ev who i reason False corr w = (res, w1)"
    and "flag (jb_tenant_id j) i = Inr False"
  shows "(\<exists>j'. find_job i (db_jobs w1) = Some j' \<and> jc_requested (jb_cancel j'))
    \<and> halt_if_cancelled flag now ids i w1 = (Inr False, w1)"
proof -
  have j: "jb_id j = i" using require_owned_job_Inr [OF assms(2)] by simp
  have "\<not> terminal_job j" using assms(3) by (simp add: terminal_job_def TERMINAL_JOB_STATUSES_def)
  then have w1: "db_jobs w1 = map (cancel_effect (sub who) (ev_now ev) i) (db_jobs w)"
    using cancel_job_spec [OF assms(1,2) _ assms(4), of bq redis ev reason corr] assms(5) by auto
  have "\<not> immediately_cancellable j" using assms(3) by (simp add: immediately_cancellable_def IMMEDIATELY_CANCELLABLE_def)
  then have e: "cancel_effect (sub who) (ev_now ev) i j = cancellation_patch (sub who) (ev_now ev) False j"
    using cancel_effect_self [OF j] by simp
  have "find_job i (db_jobs w1) = Some (cancellation_patch (sub who) (ev_now ev) False j)"
    unfolding w1 using require_owned_job_find [OF assms(1,2)] by (simp add: find_job_map e)
  then show ?thesis using assms(3,6) by (simp add: halt_if_cancelled_cases asked_to_cancel_def j)
qed

definition deaf_redis :: "(string \<Rightarrow> string option) redis_ops" where
  "deaf_redis = map_redis\<lparr> redis_set_ex := \<lambda>k v ttl m. (Inl (OtherErr ''down''), m) \<rparr>"

theorem cancellation_lost_witness:
  "let w1 = snd (cancel_job sample_broker deaf_redis sample_call sample_who ''j1'' None False None
                   (sample_jobs_world [sample_job ''j1'' ''t1'' RUNNING]))
   in halt_if_cancelled (\<lambda>_ _. Inr False) 5 (''m'', ''e'') ''j1'' w1 = (Inr False, w1)"
proof -
  let ?w = "sample_jobs_world [sample_job ''j1'' ''t1'' RUNNING]"
  have "require_owned_job sample_who ''j1'' (db_jobs ?w) = Inr (sample_job ''j1'' ''t1'' RUNNING)"
    by (simp add: require_owned_job_def sample_defs)
  moreover have "distinct (map jb_id (db_jobs ?w))" "jb_status (sample_job ''j1'' ''t1'' RUNNING) = RUNNING"
    "jb_parent (sample_job ''j1'' ''t1'' RUNNING) \<noteq> Some ''j1''" by (simp_all add: sample_defs)
  ultimately show ?thesis
    using cancellation_lost [of ?w sample_who "''j1''" "sample_job ''j1'' ''t1'' RUNNING", OF _ _ _ _ surjective_pairing,
        where flag = "\<lambda>_ _. Inr False"]
    unfolding Let_def by blast
qed

text \<open>
  The gate turns a finished job into a cancelled one: on a redelivery of a job that has already
  succeeded or failed, with its cancellation requested while it ran, the status becomes \<open>CANCELLED\<close>
  and a \<open>job.cancelled\<close> event is added.
\<close>

theorem gate_overwrites_terminal:
  assumes "find_job i (db_jobs w) = Some j" "jb_status j = SUCCEEDED \<or> jb_status j = FAILED"
    and "flag (jb_tenant_id j) (jb_id j) = Inr True"
  shows "let w' = snd (halt_if_cancelled flag now ids i w)
    in map_option jb_status (find_job i (db_jobs w')) = Some CANCELLED
       \<and> map ob_draft (db_outbox w') = map ob_draft (db_outbox w) @ [gate_draft now j]"
  using assms
  by (auto simp: halt_if_cancelled_cases asked_to_cancel_def find_job_update Let_def outbox_add_def
      write_outbox_message_def insert_row_def)

theorem gate_overwrites_terminal_witness:
  "map jb_status (db_jobs (snd (halt_if_cancelled (\<lambda>_ _. Inr True) 5 (''m'', ''e'') ''j1''
     \<lparr> db_jobs = [sample_job ''j1'' ''t1'' SUCCEEDED], db_outbox = [] \<rparr>))) = [CANCELLED]"
  using gate_overwrites_terminal [of "''j1''" "\<lparr> db_jobs = [sample_job ''j1'' ''t1'' SUCCEEDED], db_outbox = [] \<rparr>"
      "sample_job ''j1'' ''t1'' SUCCEEDED" "\<lambda>_ _. Inr True" 5 "(''m'', ''e'')"]
  by (simp add: sample_job_def halt_if_cancelled_cases asked_to_cancel_def)

subsection \<open>The sweeper and replay\<close>

text \<open>
  A poll of the sweeper changes nothing but the mark \<open>queued_at\<close> of rows that were orphaned,
  unlocked and stale, and dispatches at most a batch of them.
\<close>

theorem sweeper_marks_orphans:
  assumes "sweeper_poll_once bq locked now stale n (jobs, q) = (k, jobs', q')" "distinct (map jb_id jobs)"
  shows "k \<le> n \<and> (\<exists>ids. jobs' = map (marked_queued now ids) jobs
    \<and> (\<forall>j \<in> set jobs. jb_id j \<in> ids \<longrightarrow> orphaned now stale j \<and> jb_id j \<notin> locked))"
  using assms by (rule sweeper_poll_rows)

definition stale_job :: job where
  "stale_job = (sample_job ''j1'' ''t1'' CREATED)\<lparr> jb_envelope := Some (parse_command ''j1'' ''j1'') \<rparr>"

theorem sweeper_marks_orphans_witness:
  "\<exists>k ids. fst (sweeper_poll_once sample_broker {} 99000 60 10 ([stale_job, sample_job ''j2'' ''t1'' RUNNING], ())) = k
     \<and> k \<le> 10 \<and> fst (snd (sweeper_poll_once sample_broker {} 99000 60 10 ([stale_job, sample_job ''j2'' ''t1'' RUNNING], ())))
       = [marked_queued 99000 ids stale_job, sample_job ''j2'' ''t1'' RUNNING]"
proof -
  obtain k jobs' q' where run: "sweeper_poll_once sample_broker {} 99000 60 10 ([stale_job, sample_job ''j2'' ''t1'' RUNNING], ())
      = (k, jobs', q')" by (metis prod.collapse)
  have ids: "jb_id stale_job = ''j1''" "jb_id (sample_job ''j2'' ''t1'' RUNNING) = ''j2''"
    by (simp_all add: stale_job_def sample_job_def)
  have "\<not> orphaned 99000 60 (sample_job ''j2'' ''t1'' RUNNING)" by (simp add: orphaned_def sample_job_def)
  then obtain marks where "k \<le> 10" "jobs' = map (marked_queued 99000 marks) [stale_job, sample_job ''j2'' ''t1'' RUNNING]"
    "''j2'' \<notin> marks" using sweeper_marks_orphans [OF run] ids by auto
  then show ?thesis using run ids(2) by (auto simp: marked_queued_def [of _ _ "sample_job ''j2'' ''t1'' RUNNING"])
qed

text \<open>
  A replay never changes a row that is there: whatever the broker answers, the table is as it was
  or has one more row, the one of the new job.
\<close>

theorem replay_appends:
  assumes "replay_job bq ev new_id who i corr w = (res, w')" "find_job new_id (db_jobs w) = None"
  shows "db_jobs w' = db_jobs w \<or> (\<exists>j. db_jobs w' = db_jobs w @ [j] \<and> jb_id j = new_id)"
  using assms by (rule replay_job_rows)

definition failed_parse :: job where
  "failed_parse = (sample_job ''j1'' ''t1'' FAILED)\<lparr> jb_envelope := Some (parse_command ''j1'' ''j1'') \<rparr>"

theorem replay_appends_witness:
  "let w' = snd (replay_job sample_broker sample_call ''j9'' sample_who ''j1'' None (sample_jobs_world [failed_parse]))
   in db_jobs w' = [failed_parse] \<or> (\<exists>j. db_jobs w' = [failed_parse, j] \<and> jb_id j = ''j9'')"
  using replay_appends [of sample_broker sample_call "''j9''" sample_who "''j1''" None "sample_jobs_world [failed_parse]",
      OF surjective_pairing]
  by (simp add: failed_parse_def sample_defs Let_def)

text \<open>
  C36: A replayed ingestion never runs.  Its envelope differs from the recorded one in \<open>job_id\<close> only,
  the processor looks the job up by \<open>entity_id\<close>, which still names the job that failed, and so
  returns at once with nothing changed.
\<close>

theorem replayed_ingestion_noop:
  assumes "replay_job bq call new_id who i corr w = (Inr dto, w')" "find_job new_id (db_jobs w) = None"
    and "find_job i (db_jobs w) = Some original" "jb_status original = FAILED" "i \<noteq> []"
    and "jb_envelope original = Some (JObj es)" "map_of es ''entity_id'' = Some (JStr i)"
    and "find_job i (db_jobs world) = Some original"
  shows "\<exists>envelope. jb_envelope (last (db_jobs w')) = Some envelope
    \<and> envelope_job_id envelope = new_id
    \<and> process_ingestion_job dp ev envelope world = (Inr (), world)"
proof -
  obtain o' where o': "find_job i (db_jobs w) = Some o'"
    "db_jobs w' = db_jobs w @ [touch (ev_now call) (set_queued (ev_now call)
       (replayed_job o' new_id (ev_now call) (sub who) (replay_envelope (the (jb_envelope o')) new_id)))]"
    using replay_job_created [OF assms(1,2)] by blast
  let ?e = "replay_envelope (JObj es) new_id"
  have "jb_envelope (last (db_jobs w')) = Some ?e"
    using o' assms(3,6) by (simp add: touch_def set_queued_def replayed_job_def)
  moreover have "str_field ?e ''entity_id'' = Some i" "envelope_job_id ?e = new_id"
    using assms(7) by (simp_all add: str_field_def envelope_job_id_def replay_envelope_fields)
  ultimately show ?thesis using process_terminal_noop [of ?e i world original] assms(4,5,8) by blast
qed

lemma replay_job_succeeds:
  assumes "find_job i (db_jobs w) = Some original" "jb_status original = FAILED" "\<not> falsy_json (jb_envelope original)"
    and "is_queue_name (jb_queue original)" "find_job new_id (db_jobs w) = None"
    and "\<forall>r \<in> set (db_jobs w). jb_idem_key r \<noteq> ''replay:'' @ jb_id original @ '':'' @ new_id"
    and "\<And>name b q. \<exists>q'. bq_add bq name b q = (Inr (), q')"
    and "assert_queue_payload_size_budget (replay_envelope (the (jb_envelope original)) new_id) = Inr ()"
  shows "\<exists>dto w'. replay_job bq ev new_id who i corr w = (Inr dto, w')"
proof -
  let ?e = "replay_envelope (the (jb_envelope original)) new_id"
  let ?j = "replayed_job original new_id (ev_now ev) (sub who) ?e"
  let ?args = "\<lparr> ea_processing_job_id = new_id, ea_queue = jb_queue original, ea_envelope = ?e,
    ea_job_name = jb_type original, ea_max_attempts = jb_max_attempts original, ea_priority = None \<rparr>"
  have nj: "jb_id ?j = new_id" "jb_idem_key ?j = ''replay:'' @ jb_id original @ '':'' @ new_id" by (simp_all add: replayed_job_def)
  have "find_row (\<lambda>r. jb_tenant_id r = jb_tenant_id ?j \<and> jb_idem_key r = jb_idem_key ?j
      \<and> jb_status r \<notin> {FAILED, CANCELLED, DEAD_LETTERED}) (db_jobs w) = None"
    using assms(6) nj(2) by (simp add: find_row_None)
  then have c: "create_job ?j (db_jobs w) = Inr (db_jobs w @ [?j])"
    using assms(5) nj(1) by (simp add: create_job_def insert_row_def)
  have f: "find_job new_id (db_jobs w @ [?j]) = Some ?j" using assms(5) nj(1) by (simp add: find_job_append)
  obtain q' where "enqueue bq (jb_queue original) ?e
      \<lparr> eo_job_name = jb_type original, eo_max_attempts = jb_max_attempts original, eo_priority = None \<rparr> (jw_queue w) = (Inr (), q')"
    using assms(7,8) by (simp add: enqueue_def) blast
  then have q: "enqueue_processing_job bq (ev_now ev) ?args (db_jobs w @ [?j], jw_queue w)
      = (Inr (), (update_where (\<lambda>j. jb_id j = new_id) (touch (ev_now ev) \<circ> set_queued (ev_now ev)) (db_jobs w @ [?j]), q'))"
    using update_job_total [OF f] by (simp add: enqueue_processing_job_def)
  have "find_job new_id (update_where (\<lambda>j. jb_id j = new_id) (touch (ev_now ev) \<circ> set_queued (ev_now ev)) (db_jobs w @ [?j]))
      = Some (touch (ev_now ev) (set_queued (ev_now ev) ?j))"
    using f by (simp add: find_job_update)
  then show ?thesis
    using assms(1-4) by (simp add: replay_job_def require_any_job_def Let_def c q)
qed

lemma sample_replay_budget: "assert_queue_payload_size_budget (replay_envelope (parse_command ''j1'' ''j1'') ''j9'') = Inr ()"
proof (rule budget_ok)
  show "2 * length (json_stringify (replay_envelope (parse_command ''j1'' ''j1'') ''j9'')) \<le> QUEUE_PAYLOAD_CEILING_BYTES"
    using length_stringify_str [of "''job_id''"] length_stringify_str [of "''entity_id''"] length_stringify_str [of "''j9''"]
      length_stringify_str [of "''j1''"] length_stringify_str [of "''payload''"] length_stringify_str [of "''book_file_id''"]
      length_stringify_str [of "''parser_version''"] length_stringify_str [of "''f1''"] length_stringify_str [of "''1''"]
    by (simp add: parse_command_def replay_envelope_def set_field_def QUEUE_PAYLOAD_CEILING_BYTES_def)
qed

theorem replayed_ingestion_noop_witness:
  "\<exists>envelope. process_ingestion_job good_deps sample_env envelope (sample_world [failed_parse] [])
     = (Inr (), sample_world [failed_parse] [])"
proof -
  let ?w = "sample_jobs_world [failed_parse]"
  have "\<exists>dto w'. replay_job sample_broker sample_call ''j9'' sample_who ''j1'' None ?w = (Inr dto, w')"
  proof (rule replay_job_succeeds)
    show "find_job ''j1'' (db_jobs ?w) = Some failed_parse" by (simp add: failed_parse_def sample_job_def sample_jobs_world_def)
    show "assert_queue_payload_size_budget (replay_envelope (the (jb_envelope failed_parse)) ''j9'') = Inr ()"
      using sample_replay_budget by (simp add: failed_parse_def)
  qed (simp_all add: failed_parse_def sample_job_def sample_jobs_world_def falsy_json_def parse_command_def is_queue_name_def
      QUEUE_NAMES_def sample_broker_def)
  then obtain dto w' where r: "replay_job sample_broker sample_call ''j9'' sample_who ''j1'' None ?w = (Inr dto, w')" by blast
  show ?thesis
    using replayed_ingestion_noop [OF r, of failed_parse _ "sample_world [failed_parse] []" good_deps sample_env]
    by (auto simp: failed_parse_def sample_defs)
qed

end
