(* ===== verification/GuardProperties.thy ===== *)
theory GuardProperties
  imports RateLimit Storage Queue Outbox
begin

text \<open>
  Properties of the guards, the rate limiter, the outbox and inbox, the storage keys, the queue's
  backoff and the canonical text that requests are compared by.
\<close>

subsection \<open>Guards and errors\<close>

text \<open>No principal, and no request without one, passes both the guard of tenant content and the guard of administration.\<close>

theorem guards_exclusive:
  "\<not> (tenant_role_guard who = Inr True \<and> platform_admin_guard who = Inr True)"
  by (cases who) (simp_all add: tenant_role_guard_def platform_admin_guard_def)

text \<open>
  The bearer guard fails closed: whatever the verifier does, the outcome is a \<open>401\<close>, or a
  principal whose subject and tenant are both present.
\<close>

theorem jwt_guard_closed:
  "case jwt_auth_guard verify config header of Inl e \<Rightarrow> http_status_for_error e = 401 | Inr p \<Rightarrow> sub p \<noteq> [] \<and> tenant_id p \<noteq> []"
  using jwt_auth_guard_error [of verify config header] jwt_auth_guard_claims [of verify config header]
  by (cases "jwt_auth_guard verify config header") simp_all

text \<open>
  An exception the API did not raise on purpose tells the client nothing: the response does not
  depend on its kind, code or message.
\<close>

theorem unexpected_errors_opaque:
  assumes "\<And>a. e \<noteq> AppErr a" "\<And>n. e \<noteq> HttpErr n"
    and "\<And>c m. e = CodedErr c m \<Longrightarrow> c \<noteq> ''P2023'' \<and> c \<noteq> ''P2025''"
  shows "exception_response r t e = exception_response r t (OtherErr [])"
  using assms by (rule exception_response_opaque)

theorem unexpected_errors_opaque_witness:
  "exception_response None None (CodedErr ''P1001'' ''secret'') = exception_response None None (OtherErr [])"
  by (rule unexpected_errors_opaque) simp_all

subsection \<open>The rate limiter\<close>

text \<open>
  Within one window the requests of one principal are admitted exactly until the first of its
  limits is used up: the \<open>i\<close>-th request, from zero, passes when \<open>i\<close> is below the limit of every dimension.
\<close>

theorem rate_limit_window:
  assumes "counts_hits exec hits" and "distinct (map (win_key bucket ws now) dims)"
    and "\<And>d. d \<in> set dims \<Longrightarrow> hits s (win_key bucket ws now d) = m"
  shows "consume_times exec ws now bucket dims n s = map (\<lambda>i. \<forall>d \<in> set dims. i < dim_limit d) [m ..< m + n]"
  using assms by (rule consume_times_from)

definition counter_exec :: "(string \<Rightarrow> nat) \<Rightarrow> redis_cmd list \<Rightarrow> (thrown + nat) list option \<times> (string \<Rightarrow> nat)" where
  "counter_exec c cmds = (Some (replies_of c cmds), \<lambda>k. c k + hits_of cmds k)"

theorem rate_limit_window_witness:
  "consume_times counter_exec 60 0 BWrite [\<lparr> dim_kind = ''user'', dim_id = ''u1'', dim_limit = 2 \<rparr>] 3 (\<lambda>_. 0)
    = [True, True, False]"
  using rate_limit_window [of counter_exec "\<lambda>s. s" BWrite 0 60 "[\<lparr> dim_kind = ''user'', dim_id = ''u1'', dim_limit = 2 \<rparr>]"
      "\<lambda>_. 0" 0 3]
  by (simp add: counts_hits_def counter_exec_def upt_rec)

text \<open>When Redis gives no results the guard lets every request pass, sets no header and raises nothing.\<close>

theorem rate_limit_fails_open:
  assumes "\<And>cmds. fst (exec s cmds) = None"
  shows "fst (rate_limit_guard exec config now m u who ip s) = Inr True
    \<and> fst (snd (rate_limit_guard exec config now m u who ip s)) = []"
proof -
  have "rl_degraded (fst (consume exec ws now b dims s))" for ws b dims
    using assms [of "window_commands b ws (now div 1000 div ws) dims"]
    by (cases "exec s (window_commands b ws (now div 1000 div ws) dims)") (simp add: consume_def Let_def)
  then have "consume exec ws now b dims s = (d, s') \<Longrightarrow> rl_degraded d" for ws b dims d s' by (metis fst_conv)
  then show ?thesis by (auto simp: rate_limit_guard_def Let_def split: prod.split)
qed

theorem rate_limit_fails_open_witness:
  "fst (rate_limit_guard (\<lambda>s cmds. (None, s)) \<lparr> rlc_enabled = True, rlc_window_seconds = 60, rlc_bucket_limit = (\<lambda>_. 0) \<rparr>
     0 ''POST'' ''/api/v1/books'' None ''10.0.0.1'' ()) = Inr True"
  using rate_limit_fails_open [of "\<lambda>s cmds. (None, s)" "()"] by simp

subsection \<open>Outbox and inbox\<close>

text \<open>
  A poll of the outbox claims at most a batch of unlocked pending rows and settles each by the
  outcome of its own publication: published when it succeeded, left pending with one more attempt
  and the error when it threw.  A failure changes no other row, so a later event of an aggregate is
  published although an earlier one of the same aggregate is still pending.
\<close>

theorem outbox_poll_settles:
  assumes "distinct (map ob_id t)" "outbox_poll_once publish locked n now (e, t) = (k, e', t')"
  shows "k \<le> n \<and> t' = map (\<lambda>r.
      case map_of (map (\<lambda>(q, res). (ob_id q, res)) (publish_calls publish (claim_rows locked n t) e)) (ob_id r) of
        None \<Rightarrow> r | Some res \<Rightarrow> settle_row now res r) t"
proof -
  have "length (claim_rows locked n t) \<le> n" by (simp add: claim_rows_def)
  moreover have "t' = snd (publish_rows publish now (claim_rows locked n t) (e, t))" "k = length (claim_rows locked n t)"
    using assms(2) by (auto simp: outbox_poll_once_def Let_def)
  ultimately show ?thesis using publish_rows_table [OF claim_rows_distinct [OF assms(1)]] by simp
qed

definition sample_row :: "string \<Rightarrow> int \<Rightarrow> outbox_row" where
  "sample_row i created =
     hd (outbox_add i (''e'' @ i) created
       \<lparr> od_event_type = ''book.parsed'', od_schema_version = ''1.0'', od_tenant_id = ''t1'', od_book_id = None, od_job_id = None,
         od_correlation_id = ''c1'', od_causation_id = ''c1'', od_traceparent = None, od_producer = ''api'',
         od_producer_version = ''1.0.0'', od_payload = JNull, od_aggregate_type = ''book'', od_aggregate_id = ''b1'' \<rparr> [])"

theorem outbox_poll_settles_witness:
  "map ob_status (snd (snd (outbox_poll_once (\<lambda>r (e :: unit). if ob_id r = ''m1'' then (Inl (OtherErr ''down''), e) else (Inr (), e))
      {} 10 9 ((), [sample_row ''m1'' 1, sample_row ''m2'' 2])))) = [PENDING, PUBLISHED]"
proof -
  let ?p = "\<lambda>r (e :: unit). if ob_id r = ''m1'' then (Inl (OtherErr ''down''), e) else (Inr (), e)"
  let ?t = "[sample_row ''m1'' 1, sample_row ''m2'' 2]"
  have ids: "ob_id (sample_row i c) = i" "ob_status (sample_row i c) = PENDING" for i c
    by (simp_all add: sample_row_def outbox_add_def write_outbox_message_def insert_row_def)
  have le: "lex3_le (outbox_order (sample_row ''m1'' 1)) (outbox_order (sample_row ''m2'' 2))"
    by (simp add: lex3_le_def outbox_order_def sample_row_def outbox_add_def write_outbox_message_def insert_row_def)
  obtain k e' t' where run: "outbox_poll_once ?p {} 10 9 ((), ?t) = (k, e', t')"
    by (cases "outbox_poll_once ?p {} 10 9 ((), ?t)") auto
  have d: "distinct (map ob_id ?t)" by (simp add: ids)
  have "claim_rows {} 10 ?t = ?t" by (simp add: claim_rows_def ids sort_by_def le)
  then show ?thesis using outbox_poll_settles [OF d run] run
    by (simp add: ids settle_row_def mark_published_def mark_attempted_def)
qed

text \<open>
  A consumer behind the inbox handles an event at most once: once a delivery has succeeded, any
  number of redeliveries leaves its state as that delivery left it, and a delivery whose handler
  throws leaves no trace, so the next one starts over.
\<close>

theorem inbox_at_most_once:
  assumes "\<not> has_been_processed c i t"
  shows "case handler w of
      (Inr x, w1) \<Rightarrow> fst (redeliver c i (now # nows) handler (w, t)) = w1
    | (Inl e, w1) \<Rightarrow> redeliver c i (now # nows) handler (w, t) = redeliver c i nows handler (w, t)"
proof (cases "handler w")
  case (Pair out w1)
  show ?thesis
  proof (cases out)
    case (Inl e)
    then show ?thesis using Pair deliver_fails [OF assms, of handler w e w1 now] by simp
  next
    case (Inr x)
    then obtain t' where t': "snd (deliver c i now handler (w, t)) = (w1, t')" "has_been_processed c i t'"
      using deliver_succeeds [OF assms, of handler w x w1 now] Pair by auto
    then show ?thesis using Pair Inr by (simp add: redeliver_processed [OF t'(2)])
  qed
qed

theorem inbox_at_most_once_witness:
  "fst (redeliver ''worker'' ''e1'' [1, 2, 3] (\<lambda>n. (Inr (), n + 1)) (0 :: nat, [])) = 1"
  using inbox_at_most_once [of "''worker''" "''e1''" "[]" 1 "[2, 3]" "\<lambda>n. (Inr (), n + 1)" "0 :: nat"]
  by (simp add: has_been_processed_def)

subsection \<open>Keys, canonical text and backoff\<close>

text \<open>
  Two storage keys are equal only when tenant and path are: no tenant can address an object of
  another through the builder.
\<close>

theorem storage_keys_distinct:
  assumes "build_storage_key t segs = Inr k" "build_storage_key t' segs' = Inr k"
  shows "t = t' \<and> segs = segs'"
  using assms by (rule build_storage_key_inj)

theorem storage_keys_distinct_witness:
  "build_storage_key ''t1'' [''books'', ''b1''] = Inr ''t1/books/b1'' \<and> build_storage_key ''t2'' [''books'', ''b1''] \<noteq> Inr ''t1/books/b1''"
proof -
  have k: "build_storage_key ''t1'' [''books'', ''b1''] = Inr ''t1/books/b1''" by code_simp
  then show ?thesis using storage_keys_distinct [OF k, of "''t2''" "[''books'', ''b1'']"] by auto
qed

text \<open>
  The canonical text a request body or a configuration is hashed as is the same for two values
  exactly when they are the same value up to the order of keys.
\<close>

theorem canonical_text_exact:
  assumes "wf_json i" "wf_json j"
  shows "stable_stringify i = stable_stringify j \<longleftrightarrow> same_json i j"
  using assms by (rule stable_stringify_iff)

theorem canonical_text_exact_witness:
  "stable_stringify (JObj [(''a'', JNum 1), (''b'', JNull)]) = stable_stringify (JObj [(''b'', JNull), (''a'', JNum 1)])
    \<longleftrightarrow> same_json (JObj [(''a'', JNum 1), (''b'', JNull)]) (JObj [(''b'', JNull), (''a'', JNum 1)])"
  by (rule canonical_text_exact) simp_all

text \<open>The delay before a retry is never negative and lies below both the exponential bound of the attempt and the ceiling.\<close>

theorem backoff_bounds:
  assumes "0 \<le> r" "r < 1" "0 < base_ms" "0 < ceiling_ms"
  shows "0 \<le> full_jitter_backoff_ms r attempt base_ms ceiling_ms
    \<and> full_jitter_backoff_ms r attempt base_ms ceiling_ms < min (base_ms * 2 ^ nat (max (attempt - 1) 0)) ceiling_ms"
  using assms by (rule full_jitter_bounds)

theorem backoff_bounds_witness:
  "full_jitter_backoff_ms (1 / 2) 3 1000 30000 < 4000"
  using backoff_bounds [of "1 / 2" 1000 30000 3] by simp

text \<open>
  The cancellation flags of two jobs share a key only when tenant and job are the same, for
  tenant ids without a colon.
\<close>

theorem flag_keys_distinct:
  assumes "CHR '':'' \<notin> set t" "CHR '':'' \<notin> set t'" "cancellation_flag_key t j = cancellation_flag_key t' j'"
  shows "t = t' \<and> j = j'"
  using assms by (rule cancellation_flag_key_inj)

theorem flag_keys_distinct_witness:
  "cancellation_flag_key ''t1'' ''j1'' \<noteq> cancellation_flag_key ''t2'' ''j1''"
  using flag_keys_distinct [of "''t1''" "''t2''" "''j1''" "''j1''"] by auto

end
