(* ===== verification/IngestProperties.thy ===== *)
theory IngestProperties
  imports Samples
begin

text \<open>
  Properties of ingestion: text normalisation, structure, the quality report and the pipeline, and
  what an attempt of the processor may leave in the database.
\<close>

subsection \<open>Text and structure\<close>

text \<open>
  Normalising a text changes only white space, hyphens and soft hyphens, gives a text with no line
  break, no double space and no space at either end, and doing it twice, even with the other
  dehyphenation setting, is doing it once.
\<close>

theorem normalisation_faithful:
  "content (normalize_text d text) = content text \<and> normal_form (normalize_text d text)
    \<and> normalize_text d' (normalize_text d text) = normalize_text d text"
  using content_normalize_text normalize_text_normal normalize_text_idem by blast

text \<open>
  C29: Nothing narrated is lost, repeated or reordered by the segmentation: the content of the
  paragraphs, chapter after chapter, is the content of the narrated blocks of the document.
\<close>

theorem structure_keeps_content:
  assumes "detect_structure document d = (chapters, warnings)"
  shows "content (concat (map (rp_text \<circ> pa_body) (all_paragraphs chapters)))
    = content (concat (map eb_text (filter narrated (ed_blocks document))))"
  using assms by (rule detect_structure_content)

theorem structure_keeps_content_witness:
  "content (concat (map (rp_text \<circ> pa_body) (all_paragraphs (fst (detect_structure sample_document True)))))
    = content (concat (map eb_text (filter narrated (ed_blocks sample_document))))"
  using structure_keeps_content [OF surjective_pairing] .

text \<open>
  C30: The spine positions of a book's paragraphs are 0, 1, 2, ... across its chapters, the chapters are
  numbered in order, and every paragraph is a non-empty normalised text whose section exists in its chapter.
\<close>

theorem structure_well_formed:
  assumes "detect_structure document d = (chapters, warnings)"
  shows "map pa_spine (all_paragraphs chapters) = [0..<length (all_paragraphs chapters)]
    \<and> map ch_order chapters = [0..<length chapters]
    \<and> (\<forall>c \<in> set chapters. \<forall>p \<in> set (ch_paragraphs c). paragraph_text_ok (rp_text (pa_body p))
         \<and> (\<forall>k. rp_section (pa_body p) = Some k \<longrightarrow> k < length (ch_sections c)))"
  using detect_structure_positions [OF assms] detect_structure_paragraphs [OF assms] by blast

theorem structure_well_formed_witness:
  "map ch_order (fst (detect_structure sample_document True)) = [0..<length (fst (detect_structure sample_document True))]"
  using structure_well_formed [OF surjective_pairing, of sample_document True] by blast

text \<open>
  A line is taken for a running header exactly when, over at least three pages, its normalised text
  occurs at the edge of at least the configured share of the pages.
\<close>

theorem noise_is_repetition:
  "key \<in> set (nd_removed_texts (detect_noise blocks \<theta>)) \<longleftrightarrow>
     (let total = card (pb_page_number ` set blocks)
      in 3 \<le> total \<and> key \<in> set (noise_keys blocks)
         \<and> \<theta> \<le> of_nat (count_list (noise_keys blocks) key) / of_nat total)"
  by (rule detect_noise_removed)

text \<open>
  A paragraph that is one word of Roman-numeral letters is taken for a page number and lost: a
  document whose only paragraph is "mild" has no paragraph.
\<close>

theorem roman_word_lost:
  "all_paragraphs (fst (detect_structure (sample_document\<lparr> ed_blocks := [sample_block 0 PARAGRAPH ''mild''] \<rparr>) True)) = []"
  using is_page_number_like_word
  by (simp add: detect_structure_def sample_document_def sample_block_def split_into_chapters_def chapter_step_def
      starts_new_chapter_def spine_index_def build_chapters.simps split_chapter_into_sections_def section_step_def
      build_chapter_def all_paragraphs_def Let_def place_paragraphs_def)

text \<open>The outcome of the quality report is the worst outcome of its checks.\<close>

theorem quality_is_worst:
  "OUTCOME_RANK (worst_outcome checks) = Max (insert 0 (OUTCOME_RANK ` qc_check_outcome ` set checks))"
  by (rule worst_outcome_rank)

subsection \<open>One run on the sample\<close>

abbreviation sample_file :: book_file where
  "sample_file \<equiv> sample_source"

abbreviation sample_buffer :: bytes where
  "sample_buffer \<equiv> [37, 80, 68, 70, 45]"

lemma sample_deps_sel [simp]:
  "dp_files (sample_deps p) = [sample_file]" "dp_get (sample_deps p) k s = Inr [[37, 80, 68], [70, 45]]"
  "cf_max_file_size_bytes (dp_config (sample_deps p)) = 10" "dp_parse (sample_deps p) = p"
  "cf_pipeline_version (dp_config (sample_deps p)) = ''ingestion.v1''"
  by (simp_all add: sample_deps_def DEFAULT_INGESTION_CONFIG_def)

lemma sample_source_sel [simp]: "bf_id sample_source = ''f1''" "bf_storage_key sample_source = ''k''"
  "bf_mime sample_source = ''application/pdf''" "bf_sniffed_mime sample_source = None"
  by (simp_all add: sample_source_def)

lemma sample_ready:
  "s \<noteq> SUCCEEDED \<Longrightarrow> s \<noteq> FAILED \<Longrightarrow>
   ready (sample_deps p) (parse_command ''j1'' ''j1'') (sample_world [sample_job ''j1'' ''t1'' s] vs) (sample_job ''j1'' ''t1'' s) sample_file"
  by (simp add: ready_def parse_command_def str_field_def truthy_def sample_world_def sample_job_def attempt_allowed_def sample_source_def)

lemma sample_download: "download_to_buffer (sample_deps p) k 10 s = Inr sample_buffer"
  by (simp add: download_to_buffer_def bindE_def)

lemma sample_pipeline_error:
  "p PDF sample_buffer d = Inl e \<Longrightarrow>
   run_ingestion_pipeline sha ft p ocr (dp_config (sample_deps q)) cj sample_buffer d = Inl e"
  by (simp add: run_ingestion_pipeline_def detect_format_def PDF_MAGIC_def bindE_def)

lemma sample_pipeline_ok:
  "p PDF sample_buffer d = Inr document \<Longrightarrow>
   \<exists>r. run_ingestion_pipeline sha ft p ocr (dp_config (sample_deps q)) cj sample_buffer d = Inr r
     \<and> ir_parser_identity r = ed_parser_identity document \<and> ir_ocr_identity r = ocr
     \<and> ir_chapters r = fst (detect_structure document (cf_dehyphenate (dp_config (sample_deps q))))"
  by (simp add: run_ingestion_pipeline_def detect_format_def PDF_MAGIC_def bindE_def Let_def split: prod.split)

abbreviation queued :: job where
  "queued \<equiv> sample_job ''j1'' ''t1'' QUEUED"

lemma sample_started: "find_job (jb_id j) (db_jobs (started_world sample_env j (sample_world [j] vs))) = Some (start_patch 3000 j j)"
  using started_find [of j "sample_world [j] vs" sample_env] by (simp add: sample_world_def sample_env_def)

lemma sample_corrupt_body:
  "\<exists>w2. ingest_body corrupt_deps sample_env queued sample_file (started_world sample_env queued (sample_world [queued] vs))
    = (Inl (AppErr (CorruptedFileError ''broken'')), w2) \<and> iw_books w2 = [sample_book] \<and> db_outbox w2 = []"
proof -
  have "run_ingestion_pipeline sha ft (\<lambda>_ _ _. Inl (AppErr (CorruptedFileError ''broken''))) ocr
      (dp_config (sample_deps q)) cj sample_buffer d = Inl (AppErr (CorruptedFileError ''broken''))" for sha ft ocr q cj d
    by (rule sample_pipeline_error) simp
  then show ?thesis
    using ingest_body_steps [OF sample_started, where dp = corrupt_deps and f = sample_file and buffer = sample_buffer]
    by (simp add: corrupt_deps_def sample_download parsing_world_def started_world_def sample_world_def)
qed

lemma sample_good_run_from:
  assumes "s \<noteq> SUCCEEDED" "s \<noteq> FAILED"
  shows "\<exists>w'. process_ingestion_job good_deps sample_env (parse_command ''j1'' ''j1'') (sample_world [(sample_job ''j1'' ''t1'' s)] []) = (Inr (), w')"
proof -
  let ?w = "started_world sample_env (sample_job ''j1'' ''t1'' s) (sample_world [(sample_job ''j1'' ''t1'' s)] [])"
  let ?w2 = "parsing_world sample_env (sample_job ''j1'' ''t1'' s) ''PERSISTING'' (8 / 10) (parsing_world sample_env (sample_job ''j1'' ''t1'' s) ''PARSING'' (2 / 10) ?w)"
  obtain r where r: "run_ingestion_pipeline (dp_sha256 good_deps) (dp_file_type good_deps) (dp_parse good_deps) (dp_ocr_identity good_deps)
      (dp_config good_deps) (dp_config_json good_deps) sample_buffer ''application/pdf'' = Inr r"
    "ir_parser_identity r = ed_parser_identity sample_document" "ir_ocr_identity r = None"
    using sample_pipeline_ok [of "\<lambda>_ _ _. Inr sample_document" "''application/pdf''" sample_document]
    by (fastforce simp: good_deps_def sample_deps_def)
  have body: "ingest_body good_deps sample_env (sample_job ''j1'' ''t1'' s) sample_file ?w = persist_ingestion_result good_deps sample_env (sample_job ''j1'' ''t1'' s) sample_file r ?w2"
    using ingest_body_steps [OF sample_started, where dp = good_deps and f = sample_file and buffer = sample_buffer] r(1)
    by (simp add: good_deps_def sample_download)
  have f: "find_job (jb_id (sample_job ''j1'' ''t1'' s)) (db_jobs ?w2) \<noteq> None"
    using parsing_world_find [OF parsing_world_find [OF sample_started]] by simp
  have t: "iw_versions ?w2 = []" "iw_books ?w2 = [sample_book]"
    by (simp_all add: parsing_world_def started_world_def sample_world_def)
  have key: "build_storage_key ''t1'' [''books'', ''b1'', ''versions'', show_nat (next_version ''b1'' []), ''normalized'', ''canonical.md'']
      = Inr ''t1/books/b1/versions/1/normalized/canonical.md''" by code_simp
  obtain args_of where ra: "resolve_persist_args good_deps ''t1'' ''b1'' r [] = Inr (''t1/books/b1/versions/1/normalized/canonical.md'', args_of)"
    using r(2,3) key
    by (simp add: resolve_persist_args_def resolve_model_version_id_def resolve_ocr_model_def good_deps_def sample_deps_def
        sample_document_def DEFAULT_INGESTION_CONFIG_def bindE_def Let_def)
  have ids: "\<And>m. ps_book_id (args_of m) = ''b1''" using resolve_persist_args_Inr [OF ra] by simp
  have "\<exists>w'. persist_transaction good_deps sample_env (args_of m) (sample_job ''j1'' ''t1'' s) sample_file r (?w2\<lparr> iw_store := st \<rparr>) = (Inr (ie_version_id sample_env), w')" for m st
  proof -
    let ?v = "?w2\<lparr> iw_store := st \<rparr>"
    obtain w' where "write_version good_deps sample_env (args_of m) (sample_job ''j1'' ''t1'' s) sample_file r ?v = (Inr (ie_version_id sample_env), w')"
      using write_version_total [of good_deps sample_env "args_of m" "sample_job ''j1'' ''t1'' s" sample_file r ?v] f t ids
      by (auto simp: version_conflict_def sample_book_def)
    then show ?thesis using t by (simp add: persist_transaction_def)
  qed
  then obtain w' where "persist_ingestion_result good_deps sample_env (sample_job ''j1'' ''t1'' s) sample_file r ?w2 = (Inr (ie_version_id sample_env), w')"
    using ra t by (simp add: persist_ingestion_result_def truthy_def sample_job_def good_deps_def sample_deps_def) blast
  then have "process_ingestion_job good_deps sample_env (parse_command ''j1'' ''j1'') (sample_world [(sample_job ''j1'' ''t1'' s)] []) = (Inr (), w')"
    using process_ready [OF sample_ready [OF assms, of "\<lambda>_ _ _. Inr sample_document" "[]"], of sample_env] body
    by (simp add: good_deps_def)
  then show ?thesis by blast
qed

lemmas sample_good_run = sample_good_run_from [of QUEUED, simplified]

text \<open>
  The text that is hashed as the content of a version determines its paragraphs: two runs that hash
  the same text have the same paragraph texts.
\<close>

theorem content_hash_text_exact:
  assumes "run_ingestion_pipeline sha256 ft parse ocr cf cj buffer declared = Inr r"
    and "run_ingestion_pipeline sha256 ft' parse' ocr' cf' cj' buffer' declared' = Inr r'"
    and "join_with [newline] (paragraph_texts (ir_chapters r)) = join_with [newline] (paragraph_texts (ir_chapters r'))"
  shows "paragraph_texts (ir_chapters r) = paragraph_texts (ir_chapters r')"
  using assms by (rule pipeline_texts_determined)

theorem content_hash_text_exact_witness:
  "\<exists>r r'. run_ingestion_pipeline (\<lambda>b. ''h'') (\<lambda>_. None) (\<lambda>_ _ _. Inr sample_document) None (dp_config good_deps) JNull
        sample_buffer ''application/pdf'' = Inr r
    \<and> run_ingestion_pipeline (\<lambda>b. ''h'') (\<lambda>_. None) (\<lambda>_ _ _. Inr sample_document) None (dp_config good_deps) JNull
        sample_buffer ''text/plain'' = Inr r'
    \<and> paragraph_texts (ir_chapters r) = paragraph_texts (ir_chapters r')"
proof -
  note ok = sample_pipeline_ok [where p = "\<lambda>_ _ _. Inr sample_document" and document = sample_document
      and q = "\<lambda>_ _ _. Inr sample_document", OF refl, folded good_deps_def]
  obtain r where r: "run_ingestion_pipeline (\<lambda>b. ''h'') (\<lambda>_. None) (\<lambda>_ _ _. Inr sample_document) None (dp_config good_deps) JNull
      sample_buffer ''application/pdf'' = Inr r" "ir_chapters r = fst (detect_structure sample_document (cf_dehyphenate (dp_config good_deps)))"
    using ok by metis
  obtain r' where r': "run_ingestion_pipeline (\<lambda>b. ''h'') (\<lambda>_. None) (\<lambda>_ _ _. Inr sample_document) None (dp_config good_deps) JNull
      sample_buffer ''text/plain'' = Inr r'" "ir_chapters r' = fst (detect_structure sample_document (cf_dehyphenate (dp_config good_deps)))"
    using ok by metis
  show ?thesis using content_hash_text_exact [OF r(1) r'(1)] r r' by auto
qed

subsection \<open>The processor\<close>

text \<open>
  The source object is read whole or refused: what the download returns is the concatenation of
  the chunks and within the configured limit, and a source within the limit is never refused.
\<close>

theorem download_bounded:
  assumes "dp_get dp key store = Inr parts"
  shows "case download_to_buffer dp key limit store of
      Inr buffer \<Rightarrow> buffer = concat parts \<and> length buffer \<le> limit
    | Inl e \<Rightarrow> limit < length (concat parts)"
proof (cases "read_chunks limit [] parts")
  case (Inl e)
  then have "\<not> length (concat parts) \<le> limit" using read_chunks_complete [of "[]" parts limit] by auto
  then show ?thesis using assms Inl by (simp add: download_to_buffer_def bindE_def)
next
  case (Inr b)
  then show ?thesis using assms read_chunks_Inr [OF Inr] read_chunks_bound [OF _ Inr]
    by (simp add: download_to_buffer_def bindE_def)
qed

theorem download_bounded_witness:
  "download_to_buffer good_deps ''k'' 10 () = Inr sample_buffer \<and> length sample_buffer \<le> 10"
  using download_bounded [of good_deps "''k''" "()" "[[37, 80, 68], [70, 45]]" 10]
  by (simp add: good_deps_def sample_download)

text \<open>
  C8: Whatever happens to an attempt, the tables of the library are as they were, or the attempt
  returned normally and they have one complete new version, which the unique indexes allowed.
\<close>

theorem ingestion_all_or_nothing:
  assumes "process_ingestion_job dp ev envelope w = (res, w')"
  shows "same_library w w' \<or> (res = Inr () \<and> (\<exists>args j f r w1. same_library w w1 \<and> version_written dp ev args j f r w1 w'
    \<and> iw_versions w' = iw_versions w @ [new_version dp ev args j f r]))"
  using assms
proof (cases rule: process_cases)
  case refused
  then show ?thesis by simp
next
  case (committed j f vid)
  then obtain r args w1 where w1: "only_jobs (started_world ev j w) w1"
    and c: "version_merged dp ev args j r vid w1 w' \<or> (vid = ie_version_id ev \<and> version_written dp ev args j f r w1 w')"
    unfolding attempt_committed_def by blast
  have s: "same_library w w1" using same_library_trans [OF started_library only_jobs_tables(1) [OF w1]] .
  from c show ?thesis
  proof (elim disjE conjE)
    assume "version_merged dp ev args j r vid w1 w'"
    then show ?thesis using same_library_trans [OF s version_merged_library] by blast
  next
    assume wr: "version_written dp ev args j f r w1 w'"
    have "iw_versions w' = iw_versions w @ [new_version dp ev args j f r]"
      using version_written_versions(1) [OF wr] s by (simp add: same_library_def)
    then show ?thesis using committed(1) s wr by blast
  qed
next
  case (failed j f err w2 e)
  then show ?thesis
    using same_library_trans [OF started_library same_library_trans [OF only_jobs_tables(1) handle_failure_library]] by simp
qed

theorem ingestion_all_or_nothing_witness:
  "\<exists>w'. process_ingestion_job good_deps sample_env (parse_command ''j1'' ''j1'') (sample_world [queued] []) = (Inr (), w')
    \<and> (same_library (sample_world [queued] []) w' \<or> length (iw_versions w') = 1)"
proof -
  obtain w' where r: "process_ingestion_job good_deps sample_env (parse_command ''j1'' ''j1'') (sample_world [queued] []) = (Inr (), w')"
    using sample_good_run by blast
  then show ?thesis using ingestion_all_or_nothing [OF r] by (auto simp: sample_world_def)
qed






lemma sample_corrupt_terminal: "is_terminal_ingestion_error (AppErr (CorruptedFileError ''broken''))"
  by code_simp

lemma sample_corrupt_run:
  obtains w2 w' where "ingest_body corrupt_deps sample_env queued sample_file (started_world sample_env queued (sample_world [queued] []))
      = (Inl (AppErr (CorruptedFileError ''broken'')), w2)"
    "process_ingestion_job corrupt_deps sample_env (parse_command ''j1'' ''j1'') (sample_world [queued] [])
      = (Inl (AppErr (CorruptedFileError ''broken'')), w')"
    "fst (record_failure corrupt_deps sample_env queued (AppErr (CorruptedFileError ''broken''))
      (is_terminal_ingestion_error (AppErr (CorruptedFileError ''broken''))) w2) = Inr ()"
    "ready corrupt_deps (parse_command ''j1'' ''j1'') (sample_world [queued] []) queued sample_file"
proof -
  let ?err = "AppErr (CorruptedFileError ''broken'')"
  obtain w2 where b: "ingest_body corrupt_deps sample_env queued sample_file (started_world sample_env queued (sample_world [queued] []))
      = (Inl ?err, w2)" and books: "iw_books w2 = [sample_book]" using sample_corrupt_body by blast
  have r: "ready corrupt_deps (parse_command ''j1'' ''j1'') (sample_world [queued] []) queued sample_file"
    unfolding corrupt_deps_def by (rule sample_ready) simp_all
  have o: "only_jobs (started_world sample_env queued (sample_world [queued] [])) w2" using ingest_body_cases [OF b] by blast
  obtain c where c: "find_job (jb_id queued) (db_jobs w2) = Some c" "jb_status c = jb_status (start_patch 3000 queued queued)"
    using only_jobs_find [OF o sample_started] .
  have rec: "\<exists>w3. record_failure corrupt_deps sample_env queued ?err True w2 = (Inr (), w3)"
    using c books update_job_total [OF c(1)]
    by (simp add: record_failure_def with_transaction_def truthy_def update_book_def sample_book_def sample_job_def)
  then have "\<exists>w'. process_ingestion_job corrupt_deps sample_env (parse_command ''j1'' ''j1'') (sample_world [queued] []) = (Inl ?err, w')"
    using process_ready [OF r, of sample_env] b sample_corrupt_terminal
    by (auto simp: handle_ingestion_failure_def Let_def)
  then show ?thesis using that b r rec sample_corrupt_terminal by auto
qed


text \<open>
  A retryable failure that is not the last attempt is not recorded: the library, the books and the
  outbox are as they were, and the job is \<open>RUNNING\<close>.
\<close>

theorem retryable_failure_silent:
  assumes "ready dp envelope w j f" "ingest_body dp ev j f (started_world ev j w) = (Inl err, w2)"
    and "\<not> is_terminal_ingestion_error err" "ie_attempts_made ev + 1 < ie_max_attempts ev"
  shows "\<exists>w'. process_ingestion_job dp ev envelope w = (Inl err, w') \<and> same_library w w' \<and> iw_books w' = iw_books w
    \<and> db_outbox w' = db_outbox w \<and> map_option jb_status (find_job (jb_id j) (db_jobs w')) = Some RUNNING"
proof -
  have o: "only_jobs (started_world ev j w) w2" using ingest_body_cases [OF assms(2)] by blast
  obtain c where "find_job (jb_id j) (db_jobs w2) = Some c" "jb_status c = jb_status (start_patch (ie_now ev) j j)"
    using only_jobs_find [OF o started_find [OF ready_entity(2) [OF assms(1)]]] .
  moreover have "process_ingestion_job dp ev envelope w = (Inl err, w2)"
    using process_ready [OF assms(1), of ev] assms(2) by (simp add: handle_failure_pending [OF assms(3,4)])
  ultimately show ?thesis
    using same_library_trans [OF started_library only_jobs_tables(1) [OF o]] only_jobs_tables(2,3) [OF o]
    by (auto simp: started_world_def)
qed

definition down_deps :: "unit ingest_deps" where
  "down_deps = sample_deps (\<lambda>_ _ _. Inl (OtherErr ''down''))"

theorem retryable_failure_silent_witness:
  "\<exists>w'. process_ingestion_job down_deps sample_env (parse_command ''j1'' ''j1'') (sample_world [queued] []) = (Inl (OtherErr ''down''), w')
    \<and> db_outbox w' = []"
proof -
  have p: "run_ingestion_pipeline sha ft (\<lambda>_ _ _. Inl (OtherErr ''down'')) ocr (dp_config (sample_deps q)) cj sample_buffer d
      = Inl (OtherErr ''down'')" for sha ft ocr q cj d
    by (rule sample_pipeline_error) simp
  have r: "ready down_deps (parse_command ''j1'' ''j1'') (sample_world [queued] []) queued sample_file"
    unfolding down_deps_def by (rule sample_ready) simp_all
  obtain w2 where b: "ingest_body down_deps sample_env queued sample_file (started_world sample_env queued (sample_world [queued] []))
      = (Inl (OtherErr ''down''), w2)"
    using ingest_body_steps [OF sample_started, where dp = down_deps and f = sample_file and buffer = sample_buffer] p
    by (simp add: down_deps_def sample_download)
  have "\<not> is_terminal_ingestion_error (OtherErr ''down'')" by code_simp
  moreover have "ie_attempts_made sample_env + 1 < ie_max_attempts sample_env" by (simp add: sample_env_def)
  ultimately show ?thesis using retryable_failure_silent [OF r b] by (auto simp: sample_world_def)
qed

end
