(* ===== verification/RedeliveryProperties.thy ===== *)
theory RedeliveryProperties
  imports IngestProperties
begin

text \<open>
  What a second delivery or a second ingestion does: redelivered commands of finished jobs, dead
  letters, jobs cancelled between the gate and the processor, and books that already have a version.
\<close>

subsection \<open>A second ingestion of a book\<close>

definition old_version :: "string \<Rightarrow> book_version" where
  "old_version pipeline =
     \<lparr> bv_id = ''v0'', bv_tenant_id = ''t1'', bv_book_id = ''b1'', bv_file_id = ''f0'', bv_version = 1,
       bv_structure_label = ''structure.v1'', bv_is_current = True, bv_content_hash = ''h0'', bv_raw_text_hash = ''h0'',
       bv_pipeline_version = pipeline, bv_parser_strategy = ''p'', bv_parser_model = ''mv0'', bv_ocr_model = None,
       bv_normalizer_model = ''mv0'', bv_parser_options = JNull, bv_manifest_key = ''k0'', bv_manifest_hash = ''h0'',
       bv_manifest_verified_at = 1, bv_bucket = ''bk'', bv_status = READY, bv_qc = \<lparr> qr_outcome = PASS, qr_checks = [] \<rparr>,
       bv_pages_total = None, bv_pages_ok = None, bv_pages_needs_review = None, bv_degraded = False, bv_started = 1,
       bv_completed = 1, bv_superseded_at = None, bv_superseded_by = None \<rparr>"

text \<open>
  C37: A book that has a current version never gets another one: whatever the command, the parser and
  the content, the ingestion of the book leaves the tables of the library as they are.  The new row
  is inserted as current before the old one is superseded, and the unique index on the current
  version refuses it.
\<close>

theorem reingestion_never_writes:
  assumes "process_ingestion_job dp ev envelope w = (res, w')"
    and "str_field envelope ''entity_id'' = Some i" "find_job i (db_jobs w) = Some j" "jb_book_id j = Some (bv_book_id u)"
    and "u \<in> set (iw_versions w)" "bv_is_current u"
  shows "same_library w w'"
  using assms by (rule reingest_library)

theorem reingestion_never_writes_witness:
  "iw_versions (snd (process_ingestion_job good_deps sample_env (parse_command ''j1'' ''j1'')
     (sample_world [queued] [old_version ''ingestion.v1'']))) = [old_version ''ingestion.v1'']"
proof -
  have "same_library (sample_world [queued] [old_version ''ingestion.v1'']) (snd (process_ingestion_job good_deps sample_env
      (parse_command ''j1'' ''j1'') (sample_world [queued] [old_version ''ingestion.v1''])))"
    by (rule reingestion_never_writes [OF surjective_pairing, where i = "''j1''" and j = queued and u = "old_version ''ingestion.v1''"])
      (simp_all add: parse_command_def str_field_def sample_world_def sample_job_def old_version_def)
  then show ?thesis by (simp add: same_library_def sample_world_def)
qed

text \<open>
  After a change of the pipeline version no book that was ingested before can be ingested again:
  every attempt throws.
\<close>

theorem upgrade_reingestion_fails:
  assumes "process_ingestion_job dp ev envelope w = (res, w')" "ready dp envelope w j f"
    and "jb_book_id j = Some b" "u \<in> set (iw_versions w)" "bv_is_current u" "bv_book_id u = b"
    and "\<And>v. v \<in> set (iw_versions w) \<Longrightarrow> bv_book_id v = b \<Longrightarrow> bv_pipeline_version v \<noteq> cf_pipeline_version (dp_config dp)"
  shows "\<exists>e. res = Inl e"
  using assms by (rule reingest_fails)

theorem upgrade_reingestion_fails_witness:
  "\<exists>e. fst (process_ingestion_job good_deps sample_env (parse_command ''j1'' ''j1'')
     (sample_world [queued] [old_version ''ingestion.v0''])) = Inl e"
proof -
  have "ready good_deps (parse_command ''j1'' ''j1'') (sample_world [queued] [old_version ''ingestion.v0'']) queued sample_file"
    unfolding good_deps_def by (rule sample_ready) simp_all
  then show ?thesis
    by (rule upgrade_reingestion_fails [OF surjective_pairing, where b = "''b1''" and u = "old_version ''ingestion.v0''"])
      (simp_all add: sample_world_def sample_job_def old_version_def good_deps_def)
qed

subsection \<open>Failures\<close>

text \<open>
  The failure event of a job that fails on its first attempt says that the stage is
  \<open>UNKNOWN\<close>, although the row has carried a stage since the attempt began: the event is built from
  the row as it was read before.
\<close>

theorem failed_stage_stale:
  assumes "ready dp envelope w j f" "jp_stage (jb_progress j) = None"
  shows "map_option (\<lambda>r. jp_stage (jb_progress r)) (find_job (jb_id j) (db_jobs (started_world ev j w))) = Some (Some ''FETCHING_SOURCE'')
    \<and> json_field (od_payload (parse_failed_draft dp j err terminal)) ''failed_stage'' = Some (JStr ''UNKNOWN'')"
  using started_find [OF ready_entity(2) [OF assms(1)], of ev] assms(2)
  by (simp add: start_patch_def touch_def set_status_def parse_failed_draft_def ingestion_draft_def)

theorem failed_stage_stale_witness:
  "json_field (od_payload (parse_failed_draft corrupt_deps queued (OtherErr ''x'') False)) ''failed_stage'' = Some (JStr ''UNKNOWN'')"
proof -
  have "ready corrupt_deps (parse_command ''j1'' ''j1'') (sample_world [queued] []) queued sample_file"
    unfolding corrupt_deps_def by (rule sample_ready) simp_all
  moreover have "jp_stage (jb_progress queued) = None" by (simp add: sample_job_def no_progress_def)
  ultimately show ?thesis using failed_stage_stale by blast
qed

text \<open>
  An ingestion that fails terminally is never dead-lettered.  The failed delivery is not the
  broker's last attempt, so the listener copies nothing; the broker delivers the command again, and
  that delivery finds the job \<open>FAILED\<close> and succeeds, changing nothing.
\<close>

theorem terminal_failure_not_dead_lettered:
  assumes "ready dp envelope w j f"
    and "ingest_body dp ev j f (started_world ev j w) = (Inl err, w2)" "is_terminal_ingestion_error err"
    and "process_ingestion_job dp ev envelope w = (Inl err, w')"
    and "\<And>e. fst (record_failure dp ev j err (is_terminal_ingestion_error err) w2) \<noteq> Inl e"
    and "bj_attempts (fj_job fj) = Some (ie_max_attempts ev)" "fj_attempts_made fj < ie_max_attempts ev"
  shows "on_failed bq queue_name n now_iso (Some fj) m q = q
    \<and> process_ingestion_job dp ev' envelope w' = (Inr (), w')"
proof -
  have fr: "failure_recorded dp ev j err w2 w'"
    using process_failure_recorded [OF assms(1,2) disjI1 [OF assms(3)] assms(4,5)] .
  have o: "only_jobs (started_world ev j w) w2" using ingest_body_cases [OF assms(2)] by blast
  obtain c where c: "find_job (jb_id j) (db_jobs w2) = Some c"
    using only_jobs_find [OF o started_find [OF ready_entity(2) [OF assms(1)]]] .
  have "\<exists>c'. find_job (jb_id j) (db_jobs w') = Some c' \<and> jb_status c' = FAILED"
    using fr c by (auto simp: failure_recorded_def find_job_update)
  moreover have "jb_id j \<noteq> []" using assms(1) ready_entity(1) [OF assms(1)] by (auto simp: ready_def truthy_def)
  ultimately have "process_ingestion_job dp ev' envelope w' = (Inr (), w')"
    using process_terminal_noop [OF ready_entity(1) [OF assms(1)]] by blast
  then show ?thesis using assms(6,7) by (simp add: on_failed_def is_final_attempt_def)
qed

theorem terminal_failure_not_dead_lettered_witness:
  "let w' = snd (process_ingestion_job corrupt_deps sample_env (parse_command ''j1'' ''j1'') (sample_world [queued] []))
   in process_ingestion_job corrupt_deps sample_env (parse_command ''j1'' ''j1'') w' = (Inr (), w')"
proof -
  obtain w2 w' where run: "ingest_body corrupt_deps sample_env queued sample_file (started_world sample_env queued (sample_world [queued] []))
      = (Inl (AppErr (CorruptedFileError ''broken'')), w2)"
    "process_ingestion_job corrupt_deps sample_env (parse_command ''j1'' ''j1'') (sample_world [queued] [])
      = (Inl (AppErr (CorruptedFileError ''broken'')), w')"
    "fst (record_failure corrupt_deps sample_env queued (AppErr (CorruptedFileError ''broken''))
      (is_terminal_ingestion_error (AppErr (CorruptedFileError ''broken''))) w2) = Inr ()"
    "ready corrupt_deps (parse_command ''j1'' ''j1'') (sample_world [queued] []) queued sample_file"
    using sample_corrupt_run .
  define fj where "fj = \<lparr> fj_job = \<lparr> bj_name = ''parse_book'', bj_data = JNull, bj_id = ''j1'', bj_attempts = Some 3,
    bj_priority = None, bj_custom_backoff = True, bj_complete_age = None \<rparr>, fj_attempts_made = 1 \<rparr>"
  have "bj_attempts (fj_job fj) = Some (ie_max_attempts sample_env)" "fj_attempts_made fj < ie_max_attempts sample_env"
    by (simp_all add: fj_def sample_env_def)
  moreover have "\<And>e. fst (record_failure corrupt_deps sample_env queued (AppErr (CorruptedFileError ''broken''))
      (is_terminal_ingestion_error (AppErr (CorruptedFileError ''broken''))) w2) \<noteq> Inl e" using run(3) by simp
  ultimately have "on_failed sample_broker ''parse'' 3 [] (Some fj) [] () = ()
    \<and> process_ingestion_job corrupt_deps sample_env (parse_command ''j1'' ''j1'') w' = (Inr (), w')"
    by (intro terminal_failure_not_dead_lettered [OF run(4,1) sample_corrupt_terminal run(2)])
  then show ?thesis using run(2) by simp
qed

subsection \<open>Cancelled jobs\<close>

text \<open>
  The processor itself does not look at the cancellation: a job that was cancelled after the gate
  let its delivery pass is run all the same, and ends \<open>SUCCEEDED\<close> when the attempt returns, with
  its cancellation still recorded as effective.
\<close>

theorem cancelled_job_runs:
  assumes "ready dp envelope w j f" "jb_status j = CANCELLED"
    and "process_ingestion_job dp ev envelope w = (Inr (), w')"
  shows "\<exists>j'. find_job (jb_id j) (db_jobs w') = Some j' \<and> jb_status j' = SUCCEEDED \<and> jb_cancel j' = jb_cancel j"
  using assms(3)
proof (cases rule: process_cases)
  case refused
  then show ?thesis using assms(1) by blast
next
  case (committed k g vid)
  have k: "k = j" using ready_entity [OF committed(2)] ready_entity [OF assms(1)] by simp
  obtain j1 stage n where "find_job (jb_id j) (db_jobs w') = Some (succeed_patch (ie_now ev) stage vid n j1)"
    "jb_cancel j1 = jb_cancel (start_patch (ie_now ev) j j)" "vid \<in> bv_id ` set (iw_versions w')"
    using committed_job [OF committed(3)] started_find [OF ready_entity(2) [OF assms(1)], of ev] k by metis
  then show ?thesis by auto
qed simp

theorem cancelled_job_runs_witness:
  "map_option jb_status (find_job ''j1'' (db_jobs (snd (process_ingestion_job good_deps sample_env (parse_command ''j1'' ''j1'')
     (sample_world [sample_job ''j1'' ''t1'' CANCELLED] []))))) = Some SUCCEEDED"
proof -
  obtain w' where r: "process_ingestion_job good_deps sample_env (parse_command ''j1'' ''j1'')
      (sample_world [sample_job ''j1'' ''t1'' CANCELLED] []) = (Inr (), w')"
    using sample_good_run_from [of CANCELLED] by auto
  have "ready good_deps (parse_command ''j1'' ''j1'') (sample_world [sample_job ''j1'' ''t1'' CANCELLED] [])
      (sample_job ''j1'' ''t1'' CANCELLED) sample_file"
    unfolding good_deps_def by (rule sample_ready) simp_all
  moreover have "jb_id (sample_job ''j1'' ''t1'' CANCELLED) = ''j1''" "jb_status (sample_job ''j1'' ''t1'' CANCELLED) = CANCELLED"
    by (simp_all add: sample_job_def)
  ultimately show ?thesis using cancelled_job_runs [OF _ _ r] r by fastforce
qed

end
