(* ===== verification/Cookies.thy ===== *)
theory Cookies
  imports Pagination "HOL-Library.AList"
begin

text \<open>
  \<open>apps/api/src/auth/cookies.ts\<close>: writing a \<open>Set-Cookie\<close> header and reading a
  \<open>Cookie\<close> header, with the platform's percent encoding.  As for cursors, characters beyond
  U+00FF are outside the model: an escape of one is taken for malformed.
\<close>

subsection \<open>Percent encoding\<close>

definition uri_unreserved :: "char \<Rightarrow> bool" where
  "uri_unreserved c \<longleftrightarrow> is_ascii_upper c \<or> is_ascii_lower c \<or> is_digit c \<or> c \<in> set ''-_.!~*()'' \<or> code c = 39"

definition hex_upper :: "nat \<Rightarrow> char" where
  "hex_upper n = (if n < 10 then char_of (n + 48) else char_of (n + 55))"

definition percent_byte :: "nat \<Rightarrow> string" where
  "percent_byte b = [CHR ''%'', hex_upper (b div 16), hex_upper (b mod 16)]"

definition encode_uri_char :: "char \<Rightarrow> string" where
  "encode_uri_char c = (if uri_unreserved c then [c] else concat (map percent_byte (utf8_char c)))"

definition encode_uri_component :: "string \<Rightarrow> string" where
  "encode_uri_component s = concat (map encode_uri_char s)"

definition take_escape :: "string \<Rightarrow> (nat \<times> string) option" where
  "take_escape s = (case s of
     p # a # b # rest \<Rightarrow> if p \<noteq> CHR ''%'' then None
       else (case (hex_value a, hex_value b) of (Some x, Some y) \<Rightarrow> Some (16 * x + y, rest) | _ \<Rightarrow> None)
   | _ \<Rightarrow> None)"

lemma take_escape_length: "take_escape s = Some (b, rest) \<Longrightarrow> length rest < length s"
  by (auto simp: take_escape_def split: list.splits if_splits option.splits)

text \<open>\<open>None\<close> is the URIError of a malformed sequence.\<close>

function decode_uri_component :: "string \<Rightarrow> string option" where
  "decode_uri_component s = (case s of
     [] \<Rightarrow> Some []
   | c # cs \<Rightarrow>
       if c \<noteq> CHR ''%'' then map_option ((#) c) (decode_uri_component cs)
       else (case take_escape s of
         None \<Rightarrow> None
       | Some (b, rest) \<Rightarrow>
           if b < 128 then map_option ((#) (char_of b)) (decode_uri_component rest)
           else if b = 194 \<or> b = 195 then (case take_escape rest of
               None \<Rightarrow> None
             | Some (b2, rest2) \<Rightarrow>
                 if 128 \<le> b2 \<and> b2 < 192
                 then map_option ((#) (char_of ((b - 192) * 64 + (b2 - 128)))) (decode_uri_component rest2) else None)
           else None))"
  by pat_completeness auto
termination
proof (relation "measure length")
  fix s c cs x b rest
  assume "s = c # cs" "take_escape s = Some x" "(b, rest) = x"
  then have "length rest < length s" by (auto dest: take_escape_length)
  then show "(rest, s) \<in> measure length" by simp
next
  fix s c cs x b rest x2 b2 rest2
  assume "s = c # cs" "take_escape s = Some x" "(b, rest) = x" "take_escape rest = Some x2" "(b2, rest2) = x2"
  then have "length rest < length s" "length rest2 < length rest" by (auto dest: take_escape_length)
  then show "(rest2, s) \<in> measure length" by simp
qed auto

declare decode_uri_component.simps [simp del]

subsection \<open>Cookies\<close>

datatype same_site = Strict | Lax | SameSiteNone

record cookie_options =
  co_http_only :: "bool option"
  co_secure :: "bool option"
  co_same_site :: "same_site option"
  co_path :: "string option"
  co_max_age :: "int option"

definition SESSION_COOKIE_NAME :: string where "SESSION_COOKIE_NAME = ''session''"
definition CSRF_COOKIE_NAME :: string where "CSRF_COOKIE_NAME = ''csrf''"

fun show_same_site :: "same_site \<Rightarrow> string" where
  "show_same_site Strict = ''Strict''"
| "show_same_site Lax = ''Lax''"
| "show_same_site SameSiteNone = ''None''"

definition serialize_cookie :: "string \<Rightarrow> string \<Rightarrow> cookie_options \<Rightarrow> string" where
  "serialize_cookie name value opts = join_with ''; ''
     ([name @ ''='' @ encode_uri_component value]
      @ [''Path='' @ (case co_path opts of Some p \<Rightarrow> p | None \<Rightarrow> ''/'')]
      @ (case co_max_age opts of Some n \<Rightarrow> [''Max-Age='' @ show_int (max 0 n)] | None \<Rightarrow> [])
      @ (if co_http_only opts = Some True then [''HttpOnly''] else [])
      @ (if co_secure opts = Some True then [''Secure''] else [])
      @ [''SameSite='' @ show_same_site (case co_same_site opts of Some s \<Rightarrow> s | None \<Rightarrow> Lax)])"

definition cleared_cookie :: "string \<Rightarrow> bool option \<Rightarrow> string option \<Rightarrow> string" where
  "cleared_cookie name secure path = serialize_cookie name []
     \<lparr> co_http_only = None, co_secure = secure, co_same_site = None, co_path = path, co_max_age = Some 0 \<rparr>"

text \<open>Splitting at the first equals sign; assigning to \<open>__proto__\<close> of an object stores nothing.\<close>

definition cookie_parts :: "string \<Rightarrow> (string \<times> string) option" where
  "cookie_parts part = (if CHR ''='' \<notin> set part then None
     else Some (trim (takeWhile (\<lambda>c. c \<noteq> CHR ''='') part), trim (tl (dropWhile (\<lambda>c. c \<noteq> CHR ''='') part))))"

definition uri_error :: thrown where
  "uri_error = OtherErr ''URI malformed''"

definition add_cookie :: "(string \<times> string) list \<Rightarrow> string \<Rightarrow> thrown + (string \<times> string) list" where
  "add_cookie out part = (case cookie_parts part of
     None \<Rightarrow> Inr out
   | Some (key, value) \<Rightarrow>
       if key = [] then Inr out
       else (case decode_uri_component value of
           None \<Rightarrow> Inl uri_error
         | Some v \<Rightarrow> Inr (if key = ''__proto__'' then out else AList.update key v out)))"

fun add_cookies :: "(string \<times> string) list \<Rightarrow> string list \<Rightarrow> thrown + (string \<times> string) list" where
  "add_cookies out [] = Inr out"
| "add_cookies out (p # ps) = bindE (add_cookie out p) (\<lambda>out'. add_cookies out' ps)"

definition parse_cookies :: "string option \<Rightarrow> thrown + (string \<times> string) list" where
  "parse_cookies header = (if \<not> (header \<noteq> None \<and> header \<noteq> Some []) then Inr []
     else add_cookies [] (split_on CHR '';'' (the header)))"

subsection \<open>Laws\<close>

lemma hex_upper_value: "n < 16 \<Longrightarrow> hex_value (hex_upper n) = Some n"
  by (auto simp: hex_value_def hex_upper_def code_char_of is_digit_def)

lemma take_escape_percent: "b < 256 \<Longrightarrow> take_escape (percent_byte b @ rest) = Some (b, rest)"
proof -
  assume "b < 256"
  then have "b div 16 < 16" "b mod 16 < 16" by auto
  then have "hex_value (hex_upper (b div 16)) = Some (b div 16)" "hex_value (hex_upper (b mod 16)) = Some (b mod 16)"
    by (simp_all only: hex_upper_value)
  then show ?thesis using mult_div_mod_eq [of 16 b] by (simp add: take_escape_def percent_byte_def)
qed

lemma unreserved_not_percent: "uri_unreserved c \<Longrightarrow> c \<noteq> CHR ''%''"
  by (auto simp: uri_unreserved_def is_ascii_upper_def is_ascii_lower_def is_digit_def code_def)

lemma decode_plain: "c \<noteq> CHR ''%'' \<Longrightarrow> decode_uri_component (c # s) = map_option ((#) c) (decode_uri_component s)"
  by (subst decode_uri_component.simps) simp

lemma decode_escape:
  "b < 128 \<Longrightarrow> decode_uri_component (percent_byte b @ s) = map_option ((#) (char_of b)) (decode_uri_component s)"
  using take_escape_percent [of b s]
  by (subst decode_uri_component.simps) (simp add: percent_byte_def)

lemma decode_two_bytes:
  assumes "b = 194 \<or> b = 195" "128 \<le> b2" "b2 < 192"
  shows "decode_uri_component (percent_byte b @ percent_byte b2 @ s)
    = map_option ((#) (char_of ((b - 192) * 64 + (b2 - 128)))) (decode_uri_component s)"
proof -
  have "take_escape (percent_byte b @ percent_byte b2 @ s) = Some (b, percent_byte b2 @ s)"
    "take_escape (percent_byte b2 @ s) = Some (b2, s)" using assms take_escape_percent by auto
  moreover have "\<not> b < 128" using assms(1) by auto
  ultimately show ?thesis using assms
    by (subst decode_uri_component.simps) (simp add: percent_byte_def)
qed

lemma decode_encode_char:
  "decode_uri_component (encode_uri_char c @ s) = map_option ((#) c) (decode_uri_component s)"
proof (cases "uri_unreserved c")
  case True
  then show ?thesis using unreserved_not_percent by (simp add: encode_uri_char_def decode_plain)
next
  case False
  show ?thesis
  proof (cases "code c < 128")
    case True
    then show ?thesis using False decode_escape [OF True, of s] by (simp add: encode_uri_char_def utf8_char_def char_of_code)
  next
    case lg: False
    then have "2 \<le> code c div 64" "code c div 64 < 4" using code_lt [of c] by auto
    then have "code c div 64 = 2 \<or> code c div 64 = 3" by linarith
    then have b: "192 + code c div 64 = 194 \<or> 192 + code c div 64 = 195" by auto
    have "(192 + code c div 64 - 192) * 64 + (128 + code c mod 64 - 128) = code c"
      using mult_div_mod_eq [of 64 "code c"] by simp
    then show ?thesis using False lg decode_two_bytes [OF b, of "128 + code c mod 64" s]
      by (simp add: encode_uri_char_def utf8_char_def char_of_code)
  qed
qed

lemma decode_encode: "decode_uri_component (encode_uri_component s) = Some s"
proof (induction s)
  case Nil
  then show ?case by (simp add: encode_uri_component_def decode_uri_component.simps)
next
  case (Cons c s)
  then show ?case using decode_encode_char [of c "encode_uri_component s"] by (simp add: encode_uri_component_def)
qed

text \<open>An encoded value has none of the characters that separate cookies, and no space.\<close>

definition cookie_safe :: "char \<Rightarrow> bool" where
  "cookie_safe c \<longleftrightarrow> c \<noteq> CHR '';'' \<and> c \<noteq> CHR ''='' \<and> \<not> is_space c"

lemma unreserved_safe: "uri_unreserved c \<Longrightarrow> cookie_safe c"
  by (auto simp: uri_unreserved_def cookie_safe_def is_ascii_upper_def is_ascii_lower_def is_digit_def code_def is_space_def)

lemma hex_upper_safe: "n < 16 \<Longrightarrow> cookie_safe (hex_upper n)"
proof -
  assume "n < 16"
  then have "uri_unreserved (hex_upper n)"
    by (auto simp: uri_unreserved_def is_ascii_upper_def is_digit_def hex_upper_def code_char_of)
  then show ?thesis by (rule unreserved_safe)
qed

lemma encoded_safe: "c \<in> set (encode_uri_component s) \<Longrightarrow> cookie_safe c"
proof -
  have pct: "cookie_safe CHR ''%''" by code_simp
  have bytes: "b < 256" if "b \<in> set (utf8_char x)" for b x
    using that code_lt [of x] by (auto simp: utf8_char_def split: if_splits)
  have byte: "cookie_safe y" if "y \<in> set (percent_byte b)" "b < 256" for y b
    using that pct hex_upper_safe [of "b div 16"] hex_upper_safe [of "b mod 16"] by (auto simp: percent_byte_def)
  have "cookie_safe y" if "y \<in> set (encode_uri_char x)" for x y
    using that unreserved_safe bytes byte by (auto simp: encode_uri_char_def split: if_splits)
  then show "c \<in> set (encode_uri_component s) \<Longrightarrow> cookie_safe c" by (auto simp: encode_uri_component_def)
qed

text \<open>The header a browser sends back.\<close>

definition cookie_header :: "(string \<times> string) list \<Rightarrow> string" where
  "cookie_header cs = join_with ''; '' (map (\<lambda>(n, v). n @ ''='' @ encode_uri_component v) cs)"

definition cookie_names_ok :: "(string \<times> string) list \<Rightarrow> bool" where
  "cookie_names_ok cs \<longleftrightarrow> distinct (map fst cs)
     \<and> list_all (\<lambda>(n, v). n \<noteq> [] \<and> n \<noteq> ''__proto__'' \<and> list_all cookie_safe n) cs"

lemma trim_no_space: "\<forall>c \<in> set s. \<not> is_space c \<Longrightarrow> trim s = s"
  by (rule trim_id) (cases s, auto)

lemma trim_blank: "trim (CHR '' '' # s) = trim s"
  by (simp add: trim_def trim_start_def trim_end_def is_space_def code_def)

lemma cookie_parts_pair:
  assumes "list_all cookie_safe n" "sp = [] \<or> sp = '' ''"
  shows "cookie_parts (sp @ n @ ''='' @ encode_uri_component v) = Some (n, encode_uri_component v)"
proof -
  have n: "\<forall>c \<in> set (sp @ n). c \<noteq> CHR ''=''" "\<forall>c \<in> set n. \<not> is_space c"
  proof -
    have "c \<noteq> CHR ''='' \<and> \<not> is_space c" if "c \<in> set n" for c using assms(1) that unfolding list_all_iff cookie_safe_def by blast
    then show "\<forall>c \<in> set (sp @ n). c \<noteq> CHR ''=''" "\<forall>c \<in> set n. \<not> is_space c" using assms(2) by (elim disjE; simp)+
  qed
  have v: "\<forall>c \<in> set (encode_uri_component v). \<not> is_space c" using encoded_safe cookie_safe_def by metis
  have "takeWhile (\<lambda>c. c \<noteq> CHR ''='') ((sp @ n) @ CHR ''='' # encode_uri_component v) = sp @ n"
    "dropWhile (\<lambda>c. c \<noteq> CHR ''='') ((sp @ n) @ CHR ''='' # encode_uri_component v) = CHR ''='' # encode_uri_component v"
    using n(1) by (subst takeWhile_append2 dropWhile_append2; simp)+
  moreover have "trim (sp @ n) = n" using assms(2) trim_no_space [OF n(2)] trim_blank by auto
  ultimately show ?thesis using trim_no_space [OF v] by (simp add: cookie_parts_def)
qed

lemma update_new_key: "k \<notin> fst ` set al \<Longrightarrow> AList.update k v al = al @ [(k, v)]"
  by (induction al) auto

lemma add_cookies_pairs:
  assumes "cookie_names_ok (out @ cs)" "list_all2 (\<lambda>p (n, v). \<exists>sp. (sp = [] \<or> sp = '' '') \<and> p = sp @ n @ ''='' @ encode_uri_component v) ps cs"
  shows "add_cookies out ps = Inr (out @ cs)"
  using assms(2,1)
proof (induction arbitrary: out rule: list_all2_induct)
  case (Cons p ps nv cs)
  obtain n v where nv: "nv = (n, v)" by (cases nv)
  obtain sp where sp: "sp = [] \<or> sp = '' ''" "p = sp @ n @ ''='' @ encode_uri_component v" using Cons(1) nv by auto
  have ok: "n \<noteq> []" "n \<noteq> ''__proto__''" "list_all cookie_safe n" "n \<notin> fst ` set out"
    using Cons.prems by (auto simp: cookie_names_ok_def nv)
  have "add_cookie out p = Inr (out @ [(n, v)])"
    using cookie_parts_pair [OF ok(3) sp(1), of v] ok by (simp add: add_cookie_def sp(2) decode_encode update_new_key)
  moreover have "add_cookies (out @ [(n, v)]) ps = Inr ((out @ [(n, v)]) @ cs)"
    by (rule Cons.IH) (use Cons.prems in \<open>simp add: nv\<close>)
  ultimately show ?case by (simp add: nv)
qed simp

lemma join_with_cons: "join_with sep ((c # p) # ps) = c # join_with sep (p # ps)"
  by (cases ps) auto

lemma join_blank: "join_with ''; '' (p # ps) = join_with '';'' (p # map ((#) CHR '' '') ps)"
  by (induction ps arbitrary: p) (auto simp: join_with_cons)

lemma parse_cookie_header:
  assumes "cookie_names_ok cs"
  shows "parse_cookies (Some (cookie_header cs)) = Inr cs"
proof (cases cs)
  case Nil
  then show ?thesis by (simp add: parse_cookies_def cookie_header_def)
next
  case (Cons c rest)
  let ?f = "\<lambda>(n, v). n @ ''='' @ encode_uri_component v"
  let ?ps = "?f c # map ((#) CHR '' '') (map ?f rest)"
  have safe: "CHR '';'' \<notin> set (?f x)" if "x \<in> set cs" for x
    using that assms encoded_safe by (auto simp: cookie_names_ok_def list_all_iff cookie_safe_def)
  have h: "cookie_header cs = join_with '';'' ?ps"
    unfolding cookie_header_def Cons list.map by (rule join_blank)
  have sp: "split_on CHR '';'' (cookie_header cs) = ?ps"
    unfolding h
  proof (rule split_join)
    fix w assume "w \<in> set ?ps"
    then consider "w = ?f c" | x where "x \<in> set rest" "w = CHR '' '' # ?f x" by (auto simp del: append_Cons)
    then show "CHR '';'' \<notin> set w" 
    proof cases
      case 1
      then show ?thesis using safe [of c] Cons by (simp only: list.set_intros simp_thms)
    next
      case (2 x)
      then show ?thesis using safe [of x] Cons by (simp only: set_simps insert_iff list.set_intros) simp
    qed
  qed simp
  have "list_all2 (\<lambda>p (n, v). \<exists>sp. (sp = [] \<or> sp = '' '') \<and> p = sp @ n @ ''='' @ encode_uri_component v) ?ps cs"
    by (cases c) (auto simp: Cons list_all2_map1 list_all2_same)
  then have "add_cookies [] ?ps = Inr cs" using add_cookies_pairs [of "[]" cs ?ps] assms by simp
  moreover have "cookie_header cs \<noteq> []" using sp by (cases c) auto
  ultimately show ?thesis by (simp add: parse_cookies_def sp)
qed

end
