(* ===== verification/Actions.thy ===== *)
theory Actions
  imports Errors
begin

text \<open>
  Handlers as sequences of awaited steps.  A step takes the state and returns its result or an
  exception together with the state it leaves; \<open>seqE\<close> awaits a step and goes on with its result,
  and an exception ends the handler with the writes made so far.  The database client's calls are
  steps on a table, reached through a lens (\<open>get\<close>, \<open>put\<close>): \<open>update\<close> by a unique key
  throws when there is no such row, \<open>updateMany\<close> never does, \<open>create\<close> throws on a unique
  constraint.
\<close>

definition seqE :: "('w \<Rightarrow> (thrown + 'a) \<times> 'w) \<Rightarrow> ('a \<Rightarrow> 'w \<Rightarrow> (thrown + 'b) \<times> 'w) \<Rightarrow> 'w \<Rightarrow> (thrown + 'b) \<times> 'w" where
  "seqE m f w = (case m w of (Inl e, w') \<Rightarrow> (Inl e, w') | (Inr x, w') \<Rightarrow> f x w')"

definition returnE :: "'a \<Rightarrow> 'w \<Rightarrow> (thrown + 'a) \<times> 'w" where
  "returnE x w = (Inr x, w)"

definition throwE :: "thrown \<Rightarrow> 'w \<Rightarrow> (thrown + 'a) \<times> 'w" where
  "throwE e w = (Inl e, w)"

definition doE :: "('w \<Rightarrow> 'w) \<Rightarrow> 'w \<Rightarrow> (thrown + unit) \<times> 'w" where
  "doE f w = (Inr (), f w)"

lemma step_simps [simp]:
  "returnE x w = (Inr x, w)" "throwE e w = (Inl e, w)" "doE f w = (Inr (), f w)"
  by (simp_all add: returnE_def throwE_def doE_def)

lemma seqE_simps [simp]:
  "m w = (Inl e, w') \<Longrightarrow> seqE m f w = (Inl e, w')"
  "m w = (Inr x, w') \<Longrightarrow> seqE m f w = f x w'"
  by (simp_all add: seqE_def)

lemma seqE_Inr:
  "seqE m f w = (Inr y, w') \<longleftrightarrow> (\<exists>x w1. m w = (Inr x, w1) \<and> f x w1 = (Inr y, w'))"
  by (auto simp: seqE_def split: prod.splits sum.splits)

lemma seqE_cases:
  assumes "seqE m f w = (r, w')"
  obtains (stop) e where "m w = (Inl e, w')" "r = Inl e"
    | (go) x w1 where "m w = (Inr x, w1)" "f x w1 = (r, w')"
  using assms by (auto simp: seqE_def split: prod.splits sum.splits)

subsection \<open>The database client's calls\<close>

definition record_not_found :: thrown where
  "record_not_found = CodedErr ''P2025'' ''Record to update not found.''"

definition unique_violation :: thrown where
  "unique_violation = CodedErr ''P2002'' ''Unique constraint failed''"

definition update_row :: "('r \<Rightarrow> bool) \<Rightarrow> ('r \<Rightarrow> 'r) \<Rightarrow> 'r list \<Rightarrow> thrown + 'r list" where
  "update_row P f t = (if find_row P t = None then Inl record_not_found else Inr (update_where P f t))"

definition create_row :: "('r \<Rightarrow> 'r \<Rightarrow> bool) \<Rightarrow> 'r \<Rightarrow> 'r list \<Rightarrow> thrown + 'r list" where
  "create_row clash r t = (if find_row (clash r) t = None then Inr (insert_row r t) else Inl unique_violation)"

text \<open>A step on one table of the state.\<close>

definition on_table :: "('w \<Rightarrow> 't) \<Rightarrow> ('t \<Rightarrow> 'w \<Rightarrow> 'w) \<Rightarrow> ('t \<Rightarrow> thrown + 't) \<Rightarrow> 'w \<Rightarrow> (thrown + unit) \<times> 'w" where
  "on_table get put f w = (case f (get w) of Inl e \<Rightarrow> (Inl e, w) | Inr t \<Rightarrow> (Inr (), put t w))"

lemma update_row_total: "r \<in> set t \<Longrightarrow> P r \<Longrightarrow> update_row P f t = Inr (update_where P f t)"
  by (auto simp: update_row_def find_row_None)

lemma update_row_Inr: "update_row P f t = Inr t' \<Longrightarrow> t' = update_where P f t \<and> (\<exists>r \<in> set t. P r)"
  by (auto simp: update_row_def find_row_None split: if_splits)

lemma create_row_Inr: "create_row clash r t = Inr t' \<Longrightarrow> t' = t @ [r] \<and> (\<forall>x \<in> set t. \<not> clash r x)"
  by (auto simp: create_row_def find_row_None insert_row_def split: if_splits)

lemma create_row_total: "(\<And>x. x \<in> set t \<Longrightarrow> \<not> clash r x) \<Longrightarrow> create_row clash r t = Inr (t @ [r])"
  by (auto simp: create_row_def find_row_None insert_row_def)

lemma on_table_cases:
  assumes "on_table get put f w = (res, w')"
  obtains (threw) e where "f (get w) = Inl e" "res = Inl e" "w' = w"
    | (wrote) t where "f (get w) = Inr t" "res = Inr ()" "w' = put t w"
  using assms by (auto simp: on_table_def split: sum.splits)

lemma on_table_Inr [simp]: "f (get w) = Inr t \<Longrightarrow> on_table get put f w = (Inr (), put t w)"
  by (simp add: on_table_def)

lemma on_table_Inl [simp]: "f (get w) = Inl e \<Longrightarrow> on_table get put f w = (Inl e, w)"
  by (simp add: on_table_def)

end
