(* ===== verification/Quota.thy ===== *)
theory Quota
  imports BookStore RateLimit Actions
begin

text \<open>
  Tenant quotas: \<open>common/quota.service.ts\<close> and \<open>common/guards/quota.guard.ts\<close>, the calendar
  month that meters usage, and the usage counters.  A tenant without a quota row is unlimited.
\<close>

datatype quota_dimension = CONCURRENT_BOOKS | GPU_MINUTES | STORAGE_BYTES | BOOKS_TOTAL

record tenant_quota =
  tq_tenant_id :: string
  tq_concurrent_books :: nat
  tq_gpu_minutes_monthly :: nat
  tq_storage_bytes :: nat
  tq_books_total :: nat

record usage_counter =
  tu_id :: string
  tu_tenant_id :: string
  tu_period_start :: int
  tu_period_end :: int
  tu_metric :: quota_dimension
  tu_used :: int

definition ACTIVE_BOOK_STATUSES :: "book_status list" where
  "ACTIVE_BOOK_STATUSES = [BParsing, BAnalyzing, BCasting, BScripting, BGenerating, BAssembling]"

definition quota_for :: "string \<Rightarrow> tenant_quota list \<Rightarrow> tenant_quota option" where
  "quota_for t quotas = find_row (\<lambda>q. tq_tenant_id q = t) quotas"

definition quota_exceeded :: "string \<Rightarrow> thrown" where
  "quota_exceeded m = AppErr (QuotaExceededError ((coded ''QUOTA_EXCEEDED'' m)\<lparr> so_retryable := Some False \<rparr>))"

definition active_book :: "string \<Rightarrow> book \<Rightarrow> bool" where
  "active_book t b \<longleftrightarrow> bk_tenant_id b = t \<and> bk_deleted_at b = None \<and> bk_status b \<in> set ACTIVE_BOOK_STATUSES"

definition assert_can_start_generation :: "tenant_quota list \<Rightarrow> book list \<Rightarrow> principal \<Rightarrow> string \<Rightarrow> thrown + unit" where
  "assert_can_start_generation quotas books who book_id = (case quota_for (tenant_id who) quotas of
     None \<Rightarrow> Inr ()
   | Some q \<Rightarrow>
       let active = count_rows (\<lambda>b. active_book (tenant_id who) b \<and> bk_id b \<noteq> book_id) books
       in if active \<ge> tq_concurrent_books q
          then Inl (quota_exceeded (''This tenant may have '' @ show_nat (tq_concurrent_books q)
            @ '' book(s) in active generation at once; '' @ show_nat active @ '' are active.''))
          else Inr ())"

definition assert_can_create_book :: "tenant_quota list \<Rightarrow> book list \<Rightarrow> principal \<Rightarrow> thrown + unit" where
  "assert_can_create_book quotas books who = (case quota_for (tenant_id who) quotas of
     None \<Rightarrow> Inr ()
   | Some q \<Rightarrow>
       if count_rows (\<lambda>b. bk_tenant_id b = tenant_id who \<and> bk_deleted_at b = None) books \<ge> tq_books_total q
       then Inl (quota_exceeded (''This tenant's book limit of '' @ show_nat (tq_books_total q) @ '' has been reached.''))
       else Inr ())"

definition quota_guard ::
  "tenant_quota list \<Rightarrow> book list \<Rightarrow> string \<Rightarrow> string \<Rightarrow> principal option \<Rightarrow> string option \<Rightarrow> thrown + bool" where
  "quota_guard quotas books method url who book_id = (case who of
     None \<Rightarrow> Inr True
   | Some p \<Rightarrow>
       let verb = map upper_ascii method in
       if verb = ''GET'' \<or> verb = ''HEAD'' then Inr True
       else if resolve_bucket verb url \<noteq> BExpensive \<and> resolve_bucket verb url \<noteq> BUpload then Inr True
       else if \<not> truthy book_id then Inr True
       else bindE (assert_can_start_generation quotas books p (the book_id)) (\<lambda>_. Inr True))"

subsection \<open>Periods and usage\<close>

text \<open>\<open>Date.UTC(y, m, 1)\<close> and \<open>Date.UTC(y, m + 1, 1)\<close>; month 13 is January of the next year.\<close>

definition current_period :: "int \<Rightarrow> int \<times> int" where
  "current_period now = (case civil_from_day (now div ms_per_day) of (y, m, d) \<Rightarrow>
     (make_day y m 1 * ms_per_day,
      (if m = 12 then make_day (y + 1) 1 1 else make_day y (m + 1) 1) * ms_per_day))"

definition counter_matches :: "string \<Rightarrow> int \<Rightarrow> quota_dimension \<Rightarrow> usage_counter \<Rightarrow> bool" where
  "counter_matches t start metric c \<longleftrightarrow> tu_tenant_id c = t \<and> tu_period_start c = start \<and> tu_metric c = metric"

text \<open>\<open>write_ok\<close>: whether the database answers; a failure is logged and dropped.\<close>

definition record_usage ::
  "bool \<Rightarrow> string \<Rightarrow> int \<Rightarrow> string \<Rightarrow> quota_dimension \<Rightarrow> int \<Rightarrow> usage_counter list \<Rightarrow> usage_counter list" where
  "record_usage write_ok new_id now t metric delta counters =
     (let (start, stop) = current_period now
      in if \<not> write_ok then counters
         else if find_row (counter_matches t start metric) counters = None
         then insert_row \<lparr> tu_id = new_id, tu_tenant_id = t, tu_period_start = start, tu_period_end = stop,
                tu_metric = metric, tu_used = delta \<rparr> counters
         else update_where (counter_matches t start metric) (\<lambda>c. c\<lparr> tu_used := tu_used c + delta \<rparr>) counters)"

definition usage_of :: "string \<Rightarrow> int \<Rightarrow> quota_dimension \<Rightarrow> usage_counter list \<Rightarrow> int" where
  "usage_of t start metric counters = (case find_row (counter_matches t start metric) counters of
     None \<Rightarrow> 0 | Some c \<Rightarrow> tu_used c)"

subsection \<open>Laws\<close>

lemma current_period_bounds:
  assumes "current_period now = (start, stop)"
  shows "start \<le> now" "now < stop"
proof -
  obtain y m d where civ: "civil_from_day (now div ms_per_day) = (y, m, d)" by (cases "civil_from_day (now div ms_per_day)") auto
  note c = civil_from_day [OF civ]
  have s: "start = make_day y m 1 * ms_per_day"
    and e: "stop = (if m = 12 then make_day (y + 1) 1 1 else make_day y (m + 1) 1) * ms_per_day"
    using assms by (simp_all add: current_period_def civ)
  have n: "now div ms_per_day * ms_per_day \<le> now" "now < (now div ms_per_day + 1) * ms_per_day"
    using div_bounds [of ms_per_day now] by (simp_all add: ms_per_day_def)
  have "make_day y m 1 \<le> now div ms_per_day" using c(1,4) by (simp add: make_day_def)
  then have "start \<le> now div ms_per_day * ms_per_day" unfolding s by (simp add: ms_per_day_def)
  then show "start \<le> now" using n by simp
  have next': "make_day y m (month_length (is_leap y) m) + 1 = (if m = 12 then make_day (y + 1) 1 1 else make_day y (m + 1) 1)"
  proof (cases "m = 12")
    case True
    then show ?thesis using year_length [of y]
      by (simp add: make_day_def month_start_def month_length_def split: if_splits)
  next
    case False
    then have "m \<in> set [1..<12]" using c(2,3) by simp
    then show ?thesis
      by (auto simp: make_day_def month_start_def month_length_def upt_rec numeral_nat)
  qed
  have "now div ms_per_day < make_day y m (month_length (is_leap y) m) + 1" using c(1,5) by (simp add: make_day_def)
  then have "now div ms_per_day + 1 \<le> stop div ms_per_day" unfolding next' e by (simp add: ms_per_day_def)
  moreover have "stop div ms_per_day * ms_per_day = stop" unfolding e by (simp add: ms_per_day_def)
  ultimately have "(now div ms_per_day + 1) * ms_per_day \<le> stop" by (metis mult_right_mono ms_per_day_def zero_le_numeral)
  then show "now < stop" using n by simp
qed

lemma usage_of_record:
  "usage_of t start metric (record_usage ok i now t metric delta cs)
    = usage_of t start metric cs + (if ok \<and> start = fst (current_period now) then delta else 0)"
proof -
  have keep: "find_row (counter_matches t start metric)
      (update_where (counter_matches t s' metric) (\<lambda>c. c\<lparr> tu_used := tu_used c + delta \<rparr>) cs)
    = map_option (\<lambda>c. if counter_matches t s' metric c then c\<lparr> tu_used := tu_used c + delta \<rparr> else c)
        (find_row (counter_matches t start metric) cs)" for s'
    by (rule find_row_update_where) (simp add: counter_matches_def)
  obtain s' e' where p: "current_period now = (s', e')" by (cases "current_period now") auto
  show ?thesis
  proof (cases "ok \<and> find_row (counter_matches t s' metric) cs = None")
    case True
    then show ?thesis
      by (auto simp: record_usage_def p usage_of_def insert_row_def find_row_append counter_matches_def split: option.splits)
  next
    case False
    show ?thesis
    proof (cases "find_row (counter_matches t start metric) cs")
      case None
      then show ?thesis using False by (auto simp: record_usage_def p usage_of_def keep)
    next
      case (Some c)
      then have "counter_matches t start metric c" using find_row_Some by metis
      then have "counter_matches t s' metric c \<longleftrightarrow> s' = start" by (auto simp: counter_matches_def)
      then show ?thesis using False Some by (auto simp: record_usage_def p usage_of_def keep)
    qed
  qed
qed

text \<open>
  Starting a book: the guard's check followed by the change of status, with no other request in
  between.
\<close>

definition start_book :: "tenant_quota list \<Rightarrow> principal \<Rightarrow> string \<Rightarrow> book_status \<Rightarrow> book list \<Rightarrow> thrown + book list" where
  "start_book quotas who book_id status books =
     bindE (assert_can_start_generation quotas books who book_id)
       (\<lambda>_. Inr (update_where (\<lambda>b. bk_id b = book_id) (\<lambda>b. b\<lparr> bk_status := status \<rparr>) books))"

lemma count_active_except:
  assumes "distinct (map bk_id books)"
  shows "count_rows (active_book t) books
    \<le> count_rows (\<lambda>b. active_book t b \<and> bk_id b \<noteq> i) books + 1"
  using assms
proof (induction books)
  case (Cons b books)
  show ?case
  proof (cases "bk_id b = i")
    case True
    have "filter (active_book t) books = filter (\<lambda>b. active_book t b \<and> bk_id b \<noteq> i) books"
      using Cons.prems True by (intro filter_cong) (auto simp: image_iff)
    then show ?thesis using True by (simp add: count_rows_def)
  next
    case False
    then show ?thesis using Cons by (simp add: count_rows_def)
  qed
qed (simp add: count_rows_def)

lemma start_book_within_quota:
  assumes "start_book quotas who i s books = Inr books'" "quota_for (tenant_id who) quotas = Some q"
    and "distinct (map bk_id books)"
  shows "count_rows (active_book (tenant_id who)) books' \<le> tq_concurrent_books q"
proof -
  let ?f = "\<lambda>b. b\<lparr> bk_status := s \<rparr>"
  have ok: "count_rows (\<lambda>b. active_book (tenant_id who) b \<and> bk_id b \<noteq> i) books < tq_concurrent_books q"
    and b: "books' = update_where (\<lambda>b. bk_id b = i) ?f books"
    using assms(1,2) by (auto simp: start_book_def assert_can_start_generation_def bindE_eq_Inr Let_def split: if_splits)
  have "count_rows (\<lambda>b. active_book (tenant_id who) b \<and> bk_id b \<noteq> i) books'
      = count_rows (\<lambda>b. active_book (tenant_id who) b \<and> bk_id b \<noteq> i) books"
    unfolding b by (induction books) (auto simp: count_rows_def)
  moreover have "distinct (map bk_id books')" unfolding b update_where_def using assms(3) by (simp add: o_def if_distrib cong: if_cong)
  ultimately show ?thesis using count_active_except [of books' "tenant_id who" i] ok by simp
qed

end
