(* ===== verification/AuthStore.thy ===== *)
theory AuthStore
  imports Actions Access Outbox Queue
begin

text \<open>
  The tables of identity: tenants, users, credentials, sessions and refresh tokens, with the unique
  indexes of \<open>prisma/schema.prisma\<close>, and the issuance of access tokens
  (\<open>apps/api/src/auth/token.service.ts\<close>).  Signing is the parameter \<open>ad_sign\<close>.
\<close>

record tenant =
  tn_id :: string
  tn_name :: string
  tn_status :: string
  tn_plan :: string

record user =
  us_id :: string
  us_tenant_id :: string
  us_email :: string
  us_display_name :: string
  us_status :: string
  us_roles :: "string list"
  us_preferences :: json
  us_locale :: "string option"
  us_last_login :: "int option"
  us_row_version :: nat
  us_created :: int
  us_updated :: int
  us_deleted_at :: "int option"

record credential =
  uc_id :: string
  uc_user_id :: string
  uc_hash :: string
  uc_algorithm :: string
  uc_password_updated :: int
  uc_mfa_enrolled :: bool
  uc_mfa_secret :: "string option"
  uc_failed :: nat
  uc_locked_until :: "int option"

record auth_session =
  se_id :: string
  se_user_id :: string
  se_tenant_id :: string
  se_created :: int
  se_last_seen :: "int option"
  se_expires :: int
  se_revoked_at :: "int option"
  se_reason :: "string option"
  se_agent_family :: "string option"
  se_ip_country :: "string option"

record refresh_token =
  rt_id :: string
  rt_session_id :: string
  rt_user_id :: string
  rt_family_id :: string
  rt_hash :: string
  rt_issued :: int
  rt_expires :: int
  rt_rotated_at :: "int option"
  rt_rotated_to :: "string option"
  rt_revoked_at :: "int option"
  rt_reuse_at :: "int option"

record 'r auth_db =
  ab_tenants :: "tenant list"
  ab_users :: "user list"
  ab_credentials :: "credential list"
  ab_sessions :: "auth_session list"
  ab_tokens :: "refresh_token list"
  ab_outbox :: "outbox_row list"
  ab_trail :: "audit_row list"
  ab_redis :: 'r

subsection \<open>Steps on one table\<close>

definition create_tenant :: "tenant \<Rightarrow> 'r auth_db \<Rightarrow> (thrown + unit) \<times> 'r auth_db" where
  "create_tenant t = on_table ab_tenants (\<lambda>x. ab_tenants_update (\<lambda>_. x)) (create_row (\<lambda>a b. tn_id a = tn_id b) t)"

definition create_user :: "user \<Rightarrow> 'r auth_db \<Rightarrow> (thrown + unit) \<times> 'r auth_db" where
  "create_user u = on_table ab_users (\<lambda>x. ab_users_update (\<lambda>_. x))
     (create_row (\<lambda>a b. us_id a = us_id b \<or> us_email a = us_email b) u)"

definition update_user :: "string \<Rightarrow> (user \<Rightarrow> user) \<Rightarrow> 'r auth_db \<Rightarrow> (thrown + unit) \<times> 'r auth_db" where
  "update_user i f = on_table ab_users (\<lambda>x. ab_users_update (\<lambda>_. x)) (update_row (\<lambda>u. us_id u = i) f)"

definition create_credential :: "credential \<Rightarrow> 'r auth_db \<Rightarrow> (thrown + unit) \<times> 'r auth_db" where
  "create_credential c = on_table ab_credentials (\<lambda>x. ab_credentials_update (\<lambda>_. x))
     (create_row (\<lambda>a b. uc_id a = uc_id b \<or> uc_user_id a = uc_user_id b) c)"

definition update_credential :: "string \<Rightarrow> (credential \<Rightarrow> credential) \<Rightarrow> 'r auth_db \<Rightarrow> (thrown + unit) \<times> 'r auth_db" where
  "update_credential i f = on_table ab_credentials (\<lambda>x. ab_credentials_update (\<lambda>_. x)) (update_row (\<lambda>c. uc_user_id c = i) f)"

definition create_session :: "auth_session \<Rightarrow> 'r auth_db \<Rightarrow> (thrown + unit) \<times> 'r auth_db" where
  "create_session s = on_table ab_sessions (\<lambda>x. ab_sessions_update (\<lambda>_. x)) (create_row (\<lambda>a b. se_id a = se_id b) s)"

definition update_session :: "string \<Rightarrow> (auth_session \<Rightarrow> auth_session) \<Rightarrow> 'r auth_db \<Rightarrow> (thrown + unit) \<times> 'r auth_db" where
  "update_session i f = on_table ab_sessions (\<lambda>x. ab_sessions_update (\<lambda>_. x)) (update_row (\<lambda>s. se_id s = i) f)"

definition update_sessions :: "(auth_session \<Rightarrow> bool) \<Rightarrow> (auth_session \<Rightarrow> auth_session) \<Rightarrow> 'r auth_db \<Rightarrow> 'r auth_db" where
  "update_sessions P f = ab_sessions_update (update_where P f)"

definition create_token :: "refresh_token \<Rightarrow> 'r auth_db \<Rightarrow> (thrown + unit) \<times> 'r auth_db" where
  "create_token t = on_table ab_tokens (\<lambda>x. ab_tokens_update (\<lambda>_. x))
     (create_row (\<lambda>a b. rt_id a = rt_id b \<or> rt_hash a = rt_hash b) t)"

definition update_token :: "string \<Rightarrow> (refresh_token \<Rightarrow> refresh_token) \<Rightarrow> 'r auth_db \<Rightarrow> (thrown + unit) \<times> 'r auth_db" where
  "update_token i f = on_table ab_tokens (\<lambda>x. ab_tokens_update (\<lambda>_. x)) (update_row (\<lambda>t. rt_id t = i) f)"

definition update_tokens :: "(refresh_token \<Rightarrow> bool) \<Rightarrow> (refresh_token \<Rightarrow> refresh_token) \<Rightarrow> 'r auth_db \<Rightarrow> 'r auth_db" where
  "update_tokens P f = ab_tokens_update (update_where P f)"

definition redis_step :: "('r \<Rightarrow> (thrown + unit) \<times> 'r) \<Rightarrow> 'r auth_db \<Rightarrow> (thrown + unit) \<times> 'r auth_db" where
  "redis_step op w = (case op (ab_redis w) of (res, r) \<Rightarrow> (res, w\<lparr> ab_redis := r \<rparr>))"

definition add_outbox :: "string \<Rightarrow> string \<Rightarrow> int \<Rightarrow> outbox_draft \<Rightarrow> 'r auth_db \<Rightarrow> 'r auth_db" where
  "add_outbox i e now d = ab_outbox_update (outbox_add i e now d)"

definition trail_record :: "bool \<Rightarrow> string \<Rightarrow> int \<Rightarrow> audit_entry \<Rightarrow> 'r auth_db \<Rightarrow> 'r auth_db" where
  "trail_record ok i now entry = ab_trail_update (audit_record ok i now entry)"

subsection \<open>Policy, environment and tokens\<close>

record auth_policy =
  ap_password_min_length :: nat
  ap_enumeration_protection :: bool
  ap_refresh_ttl_seconds :: nat
  ap_access_ttl_seconds :: nat
  ap_max_failed_attempts :: nat
  ap_lockout_seconds :: nat

record 'r auth_deps =
  ad_policy :: auth_policy
  ad_auth :: "auth_config option"
  ad_private_key :: "string option"
  ad_sha :: "string \<Rightarrow> string"
  ad_verify :: "string \<Rightarrow> string \<Rightarrow> bool"
  ad_verify_totp :: "string \<Rightarrow> string \<Rightarrow> int \<Rightarrow> bool"
  ad_sign :: "string \<Rightarrow> json \<Rightarrow> thrown + string"
  ad_redis :: "'r redis_ops"

text \<open>
  One call: its clock, the identifiers it mints in order, the random token it draws, the salted hash
  it computes, and whether a best-effort audit write succeeds.
\<close>

record auth_env =
  av_now :: int
  av_ids :: "nat \<Rightarrow> string"
  av_random :: string
  av_hash :: "string \<Rightarrow> string"
  av_audit_ok :: bool

record access_principal =
  xp_sub :: string
  xp_tenant_id :: string
  xp_roles :: "string list"
  xp_scopes :: "string list"
  xp_session_id :: string

definition issuance_not_configured :: thrown where
  "issuance_not_configured = AppErr (AuthenticationError
     (coded ''AUTH_ISSUANCE_NOT_CONFIGURED'' ''Token issuance is not configured for this service.''))"

definition access_claims :: "auth_config \<Rightarrow> int \<Rightarrow> string \<Rightarrow> nat \<Rightarrow> access_principal \<Rightarrow> json" where
  "access_claims auth now jti expires_in p = JObj
     [(''tenant_id'', JStr (xp_tenant_id p)), (''roles'', JArr (map JStr (xp_roles p))),
      (''scopes'', JArr (map JStr (xp_scopes p))), (''sid'', JStr (xp_session_id p)), (''sub'', JStr (xp_sub p)),
      (''iat'', JNum (now div 1000)), (''iss'', JStr (jwt_issuer auth)), (''aud'', JStr (jwt_audience auth)),
      (''jti'', JStr jti), (''exp'', JNum (now div 1000 + int expires_in))]"

definition issue_access_token ::
  "'r auth_deps \<Rightarrow> int \<Rightarrow> string \<Rightarrow> access_principal \<Rightarrow> thrown + string \<times> nat" where
  "issue_access_token dp now jti p = (case ad_auth dp of
     None \<Rightarrow> Inl issuance_not_configured
   | Some auth \<Rightarrow>
       if \<not> truthy (ad_private_key dp) then Inl issuance_not_configured
       else let expires_in = ap_access_ttl_seconds (ad_policy dp) in
         bindE (ad_sign dp (the (ad_private_key dp)) (access_claims auth now jti expires_in p))
           (\<lambda>token. Inr (token, expires_in)))"

text \<open>\<open>decodeSessionId\<close>, on the claims of a verified token.\<close>

definition decode_session_id :: "json \<Rightarrow> string option" where
  "decode_session_id claims = (case json_field claims ''sid'' of Some (JStr s) \<Rightarrow> Some s | _ \<Rightarrow> None)"

subsection \<open>Laws\<close>

lemma decode_access_claims: "decode_session_id (access_claims auth now jti e p) = Some (xp_session_id p)"
  by (simp add: decode_session_id_def access_claims_def)

lemmas table_step_defs = create_tenant_def create_user_def update_user_def create_credential_def update_credential_def
  create_session_def update_session_def create_token_def update_token_def

end
