(* ===== verification/Auth.thy ===== *)
theory Auth
  imports AuthStore JsonParse
begin

text \<open>
  \<open>apps/api/src/auth/auth.service.ts\<close>: registration, login, MFA exchange, refresh rotation with
  reuse detection, logout and password reset.  Each operation is the sequence of its awaited steps,
  so an exception leaves the writes made before it outside a transaction.  One clock reading serves
  one call.  The comparison that only equalises timing for an unknown account has no effect and is
  left out, as is the salted hash computed for a duplicate registration.
\<close>

record register_body =
  rb_email :: string
  rb_password :: string
  rb_display_name :: "string option"

record login_body =
  lb_email :: string
  lb_password :: string
  lb_client_type :: string

record request_meta =
  rm_agent_family :: "string option"
  rm_ip_country :: "string option"

record authenticated =
  an_access_token :: string
  an_expires_in :: nat
  an_refresh_token :: string
  an_session_id :: string

datatype login_result = Authenticated authenticated | MfaRequired string
datatype register_result = RegistrationPending | Created user string

definition MFA_TOKEN_TTL_SECONDS :: nat where "MFA_TOKEN_TTL_SECONDS = 300"
definition PASSWORD_RESET_TOKEN_TTL_SECONDS :: nat where "PASSWORD_RESET_TOKEN_TTL_SECONDS = 1800"

definition normalize_email :: "string \<Rightarrow> string" where
  "normalize_email email = to_lower (trim email)"

definition mfa_key :: "'r auth_deps \<Rightarrow> string \<Rightarrow> string" where
  "mfa_key dp token = ''mfa:'' @ ad_sha dp token"

definition reset_key :: "'r auth_deps \<Rightarrow> string \<Rightarrow> string" where
  "reset_key dp token = ''pwreset:'' @ ad_sha dp token"

definition auth_draft :: "string \<Rightarrow> string \<Rightarrow> string \<Rightarrow> string \<Rightarrow> json \<Rightarrow> outbox_draft" where
  "auth_draft event_type t correlation_id user_id payload =
     \<lparr> od_event_type = event_type, od_schema_version = ''1.0'', od_tenant_id = t, od_book_id = None,
       od_job_id = None, od_correlation_id = correlation_id, od_causation_id = correlation_id,
       od_traceparent = None, od_producer = ''api'', od_producer_version = ''1.0.0'', od_payload = payload,
       od_aggregate_type = ''user'', od_aggregate_id = user_id \<rparr>"

definition auth_audit :: "principal \<Rightarrow> string \<Rightarrow> audit_outcome option \<Rightarrow> json option \<Rightarrow> string option \<Rightarrow> audit_entry" where
  "auth_audit who action outcome metadata t =
     \<lparr> ae_principal = who, ae_action = action, ae_resource_type = ''user'', ae_resource_id = Some (sub who),
       ae_book_id = None, ae_tenant_id = t, ae_outcome = outcome, ae_correlation = None, ae_metadata = metadata \<rparr>"

subsection \<open>Registration\<close>

definition password_too_short :: "auth_policy \<Rightarrow> string \<Rightarrow> thrown" where
  "password_too_short policy field = AppErr (ValidationError (detailed (msg_only
     (''password must be at least '' @ show_nat (ap_password_min_length policy) @ '' characters.''))
     (Some field) ''too_short''))"

definition email_registered :: thrown where
  "email_registered = AppErr (ConflictError (detailed (coded ''EMAIL_ALREADY_REGISTERED''
     ''This email address is already registered.'') (Some ''email'') ''duplicate''))"

definition duplicate_registration :: "auth_policy \<Rightarrow> thrown + register_result" where
  "duplicate_registration policy =
     (if ap_enumeration_protection policy then Inr RegistrationPending else Inl email_registered)"

definition registered_user :: "auth_env \<Rightarrow> string \<Rightarrow> string \<Rightarrow> user" where
  "registered_user ev email display_name =
     \<lparr> us_id = av_ids ev 1, us_tenant_id = av_ids ev 0, us_email = email, us_display_name = display_name,
       us_status = ''ACTIVE'', us_roles = [''TENANT_OWNER''], us_preferences = JObj [], us_locale = None,
       us_last_login = None, us_row_version = 0, us_created = av_now ev, us_updated = av_now ev, us_deleted_at = None \<rparr>"

definition register_commit :: "auth_env \<Rightarrow> string \<Rightarrow> string \<Rightarrow> string \<Rightarrow> 'r auth_db \<Rightarrow> (thrown + user) \<times> 'r auth_db" where
  "register_commit ev email display_name password = with_transaction (
     seqE (create_tenant \<lparr> tn_id = av_ids ev 0, tn_name = display_name, tn_status = ''ACTIVE'', tn_plan = ''default'' \<rparr>) (\<lambda>_.
     seqE (create_user (registered_user ev email display_name)) (\<lambda>_.
     seqE (create_credential \<lparr> uc_id = av_ids ev 2, uc_user_id = av_ids ev 1, uc_hash = av_hash ev password,
         uc_algorithm = ''argon2id'', uc_password_updated = av_now ev, uc_mfa_enrolled = False,
         uc_mfa_secret = None, uc_failed = 0, uc_locked_until = None \<rparr>) (\<lambda>_.
     seqE (doE (add_outbox (av_ids ev 4) (av_ids ev 5) (av_now ev)
         (auth_draft ''user.registered'' (av_ids ev 0) (av_ids ev 3) (av_ids ev 1)
           (JObj [(''user_id'', JStr (av_ids ev 1)), (''tenant_id'', JStr (av_ids ev 0))])))) (\<lambda>_.
     seqE (doE (ab_trail_update (audit_record_in (av_ids ev 6) (av_now ev)
         (auth_audit \<lparr> sub = av_ids ev 1, tenant_id = av_ids ev 0, roles = [''TENANT_OWNER''], scopes = [] \<rparr>
           ''USER_REGISTERED'' None None (Some (av_ids ev 0)))))) (\<lambda>_.
     returnE (registered_user ev email display_name)))))))"

definition register :: "'r auth_deps \<Rightarrow> auth_env \<Rightarrow> register_body \<Rightarrow> 'r auth_db \<Rightarrow> (thrown + register_result) \<times> 'r auth_db" where
  "register dp ev body w =
     (let email = normalize_email (rb_email body);
          display_name = (case rb_display_name body of Some n \<Rightarrow> if trim n = [] then email else trim n | None \<Rightarrow> email)
      in if length (rb_password body) < ap_password_min_length (ad_policy dp)
         then (Inl (password_too_short (ad_policy dp) ''password''), w)
         else if find_row (\<lambda>u. us_email u = email) (ab_users w) \<noteq> None
         then (duplicate_registration (ad_policy dp), w)
         else (case register_commit ev email display_name (rb_password body) w of
             (Inr u, w') \<Rightarrow> (Inr (Created u (av_ids ev 0)), w')
           | (Inl e, w') \<Rightarrow> (if (case e of CodedErr c m \<Rightarrow> c = ''P2002'' | _ \<Rightarrow> False)
               then (duplicate_registration (ad_policy dp), w') else (Inl e, w'))))"

subsection \<open>Sessions\<close>

definition refresh_expiry :: "'r auth_deps \<Rightarrow> int \<Rightarrow> int" where
  "refresh_expiry dp now = now + int (ap_refresh_ttl_seconds (ad_policy dp)) * 1000"

definition new_session :: "'r auth_deps \<Rightarrow> auth_env \<Rightarrow> user \<Rightarrow> request_meta \<Rightarrow> auth_session" where
  "new_session dp ev u meta =
     \<lparr> se_id = av_ids ev 0, se_user_id = us_id u, se_tenant_id = us_tenant_id u, se_created = av_now ev,
       se_last_seen = None, se_expires = refresh_expiry dp (av_now ev), se_revoked_at = None, se_reason = None,
       se_agent_family = rm_agent_family meta, se_ip_country = rm_ip_country meta \<rparr>"

definition new_token :: "'r auth_deps \<Rightarrow> int \<Rightarrow> string \<Rightarrow> string \<Rightarrow> string \<Rightarrow> string \<Rightarrow> string \<Rightarrow> refresh_token" where
  "new_token dp now i session_id user_id family_id plain =
     \<lparr> rt_id = i, rt_session_id = session_id, rt_user_id = user_id, rt_family_id = family_id,
       rt_hash = ad_sha dp plain, rt_issued = now, rt_expires = refresh_expiry dp now,
       rt_rotated_at = None, rt_rotated_to = None, rt_revoked_at = None, rt_reuse_at = None \<rparr>"

definition issue_session ::
  "'r auth_deps \<Rightarrow> auth_env \<Rightarrow> user \<Rightarrow> request_meta \<Rightarrow> 'r auth_db \<Rightarrow> (thrown + authenticated) \<times> 'r auth_db" where
  "issue_session dp ev u meta =
     seqE (create_session (new_session dp ev u meta)) (\<lambda>_.
     seqE (create_token (new_token dp (av_now ev) (av_ids ev 1) (av_ids ev 0) (us_id u) (av_ids ev 2) (av_random ev))) (\<lambda>_.
     seqE (\<lambda>w. (issue_access_token dp (av_now ev) (av_ids ev 3)
         \<lparr> xp_sub = us_id u, xp_tenant_id = us_tenant_id u, xp_roles = us_roles u, xp_scopes = [],
           xp_session_id = av_ids ev 0 \<rparr>, w)) (\<lambda>issued.
     seqE (doE (trail_record (av_audit_ok ev) (av_ids ev 4) (av_now ev)
         (auth_audit \<lparr> sub = us_id u, tenant_id = us_tenant_id u, roles = us_roles u, scopes = [] \<rparr>
           ''LOGIN_SUCCEEDED'' None None None))) (\<lambda>_.
     returnE \<lparr> an_access_token = fst issued, an_expires_in = snd issued, an_refresh_token = av_random ev,
       an_session_id = av_ids ev 0 \<rparr>))))"

subsection \<open>Login\<close>

definition invalid_credentials :: thrown where
  "invalid_credentials = AppErr (AuthenticationError (msg_only ''Invalid email or password.''))"

definition account_locked :: thrown where
  "account_locked = AppErr (QuotaExceededError ((coded ''ACCOUNT_LOCKED''
     ''Too many failed sign-in attempts. Try again later.'')\<lparr> so_retryable := Some True \<rparr>))"

definition login_account :: "string \<Rightarrow> 'r auth_db \<Rightarrow> (user \<times> credential) option" where
  "login_account email w = (case find_row (\<lambda>u. us_email u = email \<and> us_deleted_at u = None) (ab_users w) of
     None \<Rightarrow> None
   | Some u \<Rightarrow> (case find_row (\<lambda>c. uc_user_id c = us_id u) (ab_credentials w) of
         None \<Rightarrow> None
       | Some c \<Rightarrow> if us_status u = ''ACTIVE'' then Some (u, c) else None))"

definition locked_now :: "int \<Rightarrow> credential \<Rightarrow> bool" where
  "locked_now now c = (case uc_locked_until c of None \<Rightarrow> False | Some t \<Rightarrow> now < t)"

definition failed_patch :: "auth_policy \<Rightarrow> int \<Rightarrow> nat \<Rightarrow> credential \<Rightarrow> credential" where
  "failed_patch policy now current_count c =
     (let next_count = current_count + 1; locking_now = next_count \<ge> ap_max_failed_attempts policy
      in c\<lparr> uc_failed := (if locking_now then 0 else next_count),
            uc_locked_until := (if locking_now then Some (now + int (ap_lockout_seconds policy) * 1000)
                                else uc_locked_until c) \<rparr>)"

text \<open>The password was right.\<close>

definition login_success ::
  "'r auth_deps \<Rightarrow> auth_env \<Rightarrow> login_body \<Rightarrow> request_meta \<Rightarrow> user \<Rightarrow> credential \<Rightarrow> 'r auth_db
     \<Rightarrow> (thrown + login_result) \<times> 'r auth_db" where
  "login_success dp ev body meta u c =
     seqE (update_credential (us_id u) (\<lambda>c. c\<lparr> uc_failed := 0, uc_locked_until := None \<rparr>)) (\<lambda>_.
     seqE (update_user (us_id u) (\<lambda>u. u\<lparr> us_last_login := Some (av_now ev), us_updated := av_now ev \<rparr>)) (\<lambda>_.
     if uc_mfa_enrolled c
     then seqE (redis_step (redis_set_ex (ad_redis dp) (mfa_key dp (av_random ev))
            (json_stringify (JObj [(''userId'', JStr (us_id u)), (''clientType'', JStr (lb_client_type body))]))
            MFA_TOKEN_TTL_SECONDS))
          (\<lambda>_. returnE (MfaRequired (av_random ev)))
     else seqE (issue_session dp ev u meta) (\<lambda>a. returnE (Authenticated a))))"

definition login_failure :: "'r auth_deps \<Rightarrow> auth_env \<Rightarrow> user \<Rightarrow> credential \<Rightarrow> 'r auth_db \<Rightarrow> (thrown + login_result) \<times> 'r auth_db" where
  "login_failure dp ev u c =
     seqE (update_credential (us_id u) (failed_patch (ad_policy dp) (av_now ev) (uc_failed c)))
       (\<lambda>_. throwE invalid_credentials)"

definition login ::
  "'r auth_deps \<Rightarrow> auth_env \<Rightarrow> login_body \<Rightarrow> request_meta \<Rightarrow> 'r auth_db \<Rightarrow> (thrown + login_result) \<times> 'r auth_db" where
  "login dp ev body meta w = (case login_account (normalize_email (lb_email body)) w of
     None \<Rightarrow> (Inl invalid_credentials, w)
   | Some (u, c) \<Rightarrow>
       if locked_now (av_now ev) c then (Inl account_locked, w)
       else if \<not> ad_verify dp (uc_hash c) (lb_password body) then login_failure dp ev u c w
       else login_success dp ev body meta u c w)"

definition mfa_failed :: "string \<Rightarrow> thrown" where
  "mfa_failed m = AppErr (AuthenticationError (coded ''MFA_FAILED'' m))"

text \<open>An absent \<open>userId\<close> is no filter.  \<open>!raw\<close> is true of an empty value, too.\<close>

definition exchange_mfa ::
  "'r auth_deps \<Rightarrow> auth_env \<Rightarrow> string \<Rightarrow> string \<Rightarrow> request_meta \<Rightarrow> 'r auth_db \<Rightarrow> (thrown + authenticated) \<times> 'r auth_db" where
  "exchange_mfa dp ev mfa_token otp meta w =
     (case redis_get (ad_redis dp) (mfa_key dp mfa_token) (ab_redis w) of
        Inl e \<Rightarrow> (Inl e, w)
      | Inr raw \<Rightarrow>
          if \<not> truthy raw then (Inl (mfa_failed ''Invalid or expired MFA token.''), w)
          else (case json_parse (the raw) of
             None \<Rightarrow> (Inl (OtherErr ''Unexpected token in JSON''), w)
           | Some state \<Rightarrow>
               (case find_row (\<lambda>u. (case str_field state ''userId'' of None \<Rightarrow> True | Some i \<Rightarrow> us_id u = i)
                      \<and> us_deleted_at u = None) (ab_users w) of
                  None \<Rightarrow> (Inl (mfa_failed ''Invalid MFA code.''), w)
                | Some u \<Rightarrow>
                    (case Option.bind (find_row (\<lambda>c. uc_user_id c = us_id u) (ab_credentials w)) uc_mfa_secret of
                       None \<Rightarrow> (Inl (mfa_failed ''Invalid MFA code.''), w)
                     | Some secret \<Rightarrow>
                         if secret = [] \<or> \<not> ad_verify_totp dp secret otp (av_now ev)
                         then (Inl (mfa_failed ''Invalid MFA code.''), w)
                         else seqE (redis_step (redis_del (ad_redis dp) (mfa_key dp mfa_token)))
                           (\<lambda>_. issue_session dp ev u meta) w))))"

subsection \<open>Refresh\<close>

definition token_error :: "string \<Rightarrow> string \<Rightarrow> thrown" where
  "token_error c m = AppErr (AuthenticationError (coded c m))"

definition token_revoked :: thrown where
  "token_revoked = token_error ''TOKEN_REVOKED'' ''Invalid refresh token.''"

definition token_expired :: thrown where
  "token_expired = token_error ''TOKEN_EXPIRED'' ''Refresh token has expired.''"

definition token_reused :: thrown where
  "token_reused = token_error ''REFRESH_TOKEN_REUSED''
     ''This refresh token was already used. The session has been revoked for safety.''"

definition revoke_token :: "int \<Rightarrow> refresh_token \<Rightarrow> refresh_token" where
  "revoke_token now t = t\<lparr> rt_revoked_at := Some now \<rparr>"

definition revoke_reused :: "int \<Rightarrow> refresh_token \<Rightarrow> refresh_token" where
  "revoke_reused now t = t\<lparr> rt_revoked_at := Some now, rt_reuse_at := Some now \<rparr>"

definition revoke_session_row :: "int \<Rightarrow> string \<Rightarrow> auth_session \<Rightarrow> auth_session" where
  "revoke_session_row now reason s = s\<lparr> se_revoked_at := Some now, se_reason := Some reason \<rparr>"

definition rotate_token :: "int \<Rightarrow> string \<Rightarrow> refresh_token \<Rightarrow> refresh_token" where
  "rotate_token now new_id t = t\<lparr> rt_rotated_at := Some now, rt_rotated_to := Some new_id \<rparr>"

definition revoke_family :: "int \<Rightarrow> string \<Rightarrow> string \<Rightarrow> 'r auth_db \<Rightarrow> 'r auth_db" where
  "revoke_family now family_id reason w =
     (let session_ids = map rt_session_id (filter (\<lambda>t. rt_family_id t = family_id) (ab_tokens w))
      in update_sessions (\<lambda>s. se_id s \<in> set session_ids \<and> se_revoked_at s = None) (revoke_session_row now reason)
        (update_tokens (\<lambda>t. rt_family_id t = family_id \<and> rt_revoked_at t = None) (revoke_reused now) w))"

text \<open>
  What a request has read: the row of the token with its user and its session.  The relations are
  required, so the client throws when one is missing.
\<close>

datatype refresh_decision = RefuseToken thrown | ReuseDetected refresh_token user | Rotate refresh_token user

definition refresh_read :: "string \<Rightarrow> int \<Rightarrow> 'r auth_db \<Rightarrow> refresh_decision" where
  "refresh_read token_hash now w = (case find_row (\<lambda>t. rt_hash t = token_hash) (ab_tokens w) of
     None \<Rightarrow> RefuseToken token_revoked
   | Some t \<Rightarrow>
       (case (find_row (\<lambda>u. us_id u = rt_user_id t) (ab_users w), find_row (\<lambda>s. se_id s = rt_session_id t) (ab_sessions w)) of
          (Some u, Some s) \<Rightarrow>
            if rt_revoked_at t \<noteq> None \<or> se_revoked_at s \<noteq> None then RefuseToken token_revoked
            else if rt_expires t < now then RefuseToken token_expired
            else if rt_rotated_at t \<noteq> None then ReuseDetected t u
            else Rotate t u
        | _ \<Rightarrow> RefuseToken (OtherErr ''Inconsistent query result: a required relation is null.'')))"

definition refresh_rotate ::
  "'r auth_deps \<Rightarrow> auth_env \<Rightarrow> refresh_token \<Rightarrow> user \<Rightarrow> 'r auth_db \<Rightarrow> (thrown + authenticated) \<times> 'r auth_db" where
  "refresh_rotate dp ev t u =
     seqE (with_transaction (
       seqE (create_token (new_token dp (av_now ev) (av_ids ev 0) (rt_session_id t) (rt_user_id t) (rt_family_id t) (av_random ev))) (\<lambda>_.
       seqE (update_token (rt_id t) (rotate_token (av_now ev) (av_ids ev 0))) (\<lambda>_.
       update_session (rt_session_id t) (\<lambda>s. s\<lparr> se_last_seen := Some (av_now ev) \<rparr>))))) (\<lambda>_.
     seqE (\<lambda>w. (issue_access_token dp (av_now ev) (av_ids ev 1)
         \<lparr> xp_sub = rt_user_id t, xp_tenant_id = us_tenant_id u, xp_roles = us_roles u, xp_scopes = [],
           xp_session_id = rt_session_id t \<rparr>, w)) (\<lambda>issued.
     returnE \<lparr> an_access_token = fst issued, an_expires_in = snd issued, an_refresh_token = av_random ev,
       an_session_id = rt_session_id t \<rparr>))"

definition refresh_act ::
  "'r auth_deps \<Rightarrow> auth_env \<Rightarrow> refresh_decision \<Rightarrow> 'r auth_db \<Rightarrow> (thrown + authenticated) \<times> 'r auth_db" where
  "refresh_act dp ev decision w = (case decision of
     RefuseToken e \<Rightarrow> (Inl e, w)
   | ReuseDetected t u \<Rightarrow> (Inl token_reused,
       trail_record (av_audit_ok ev) (av_ids ev 0) (av_now ev)
         (auth_audit \<lparr> sub = rt_user_id t, tenant_id = us_tenant_id u, roles = us_roles u, scopes = [] \<rparr>
           ''REFRESH_TOKEN_REUSE_DETECTED'' (Some FAILURE) None None)
         (revoke_family (av_now ev) (rt_family_id t) ''REFRESH_TOKEN_REUSE_DETECTED'' w))
   | Rotate t u \<Rightarrow> refresh_rotate dp ev t u w)"

definition refresh :: "'r auth_deps \<Rightarrow> auth_env \<Rightarrow> string \<Rightarrow> 'r auth_db \<Rightarrow> (thrown + authenticated) \<times> 'r auth_db" where
  "refresh dp ev plain w = refresh_act dp ev (refresh_read (ad_sha dp plain) (av_now ev) w) w"

subsection \<open>Logout and password reset\<close>

text \<open>
  Closing one session: its row and its tokens.  \<open>logout\<close> and the session list of the user
  (\<open>users.service.ts\<close>) do the same with another reason.
\<close>

definition close_session :: "int \<Rightarrow> string \<Rightarrow> string \<Rightarrow> 'r auth_db \<Rightarrow> (thrown + unit) \<times> 'r auth_db" where
  "close_session now session_id reason = with_transaction (
     seqE (update_session session_id (revoke_session_row now reason)) (\<lambda>_.
     doE (update_tokens (\<lambda>t. rt_session_id t = session_id \<and> rt_revoked_at t = None) (revoke_token now))))"

definition session_metadata :: "string \<Rightarrow> string \<Rightarrow> json" where
  "session_metadata session_id reason = JObj [(''session_id'', JStr session_id), (''reason'', JStr reason)]"

definition logout :: "auth_env \<Rightarrow> string \<Rightarrow> string option \<Rightarrow> 'r auth_db \<Rightarrow> (thrown + unit) \<times> 'r auth_db" where
  "logout ev user_id session_id w =
     (if \<not> truthy session_id then (Inr (), w)
      else (case find_row (\<lambda>s. se_id s = the session_id \<and> se_user_id s = user_id) (ab_sessions w) of
         None \<Rightarrow> (Inr (), w)
       | Some s \<Rightarrow>
           if se_revoked_at s \<noteq> None then (Inr (), w)
           else seqE (close_session (av_now ev) (the session_id) ''LOGOUT'') (\<lambda>_.
             doE (trail_record (av_audit_ok ev) (av_ids ev 0) (av_now ev)
               (auth_audit \<lparr> sub = user_id, tenant_id = se_tenant_id s, roles = [], scopes = [] \<rparr> ''SESSION_REVOKED''
                 None (Some (session_metadata (the session_id) ''LOGOUT'')) None))) w))"

definition request_password_reset :: "'r auth_deps \<Rightarrow> auth_env \<Rightarrow> string \<Rightarrow> 'r auth_db \<Rightarrow> (thrown + unit) \<times> 'r auth_db" where
  "request_password_reset dp ev email w =
     (case find_row (\<lambda>u. us_email u = normalize_email email \<and> us_deleted_at u = None) (ab_users w) of
        None \<Rightarrow> (Inr (), w)
      | Some u \<Rightarrow>
          seqE (redis_step (redis_set_ex (ad_redis dp) (reset_key dp (av_random ev)) (us_id u) PASSWORD_RESET_TOKEN_TTL_SECONDS)) (\<lambda>_.
          doE (add_outbox (av_ids ev 1) (av_ids ev 2) (av_now ev)
            (auth_draft ''auth.password_reset_requested'' (us_tenant_id u) (av_ids ev 0) (us_id u)
              (JObj [(''user_id'', JStr (us_id u))])))) w)"

definition reset_commit :: "auth_env \<Rightarrow> string \<Rightarrow> string \<Rightarrow> 'r auth_db \<Rightarrow> (thrown + unit) \<times> 'r auth_db" where
  "reset_commit ev user_id new_password = with_transaction (
     seqE (update_credential user_id (\<lambda>c. c\<lparr> uc_hash := av_hash ev new_password, uc_algorithm := ''argon2id'',
         uc_password_updated := av_now ev, uc_failed := 0, uc_locked_until := None \<rparr>)) (\<lambda>_.
     seqE (doE (update_sessions (\<lambda>s. se_user_id s = user_id \<and> se_revoked_at s = None)
         (revoke_session_row (av_now ev) ''PASSWORD_RESET''))) (\<lambda>_.
     doE (update_tokens (\<lambda>t. rt_user_id t = user_id \<and> rt_revoked_at t = None) (revoke_token (av_now ev))))))"

text \<open>What follows the commit: the reset token is consumed and the reset is recorded.\<close>

definition reset_finish :: "'r auth_deps \<Rightarrow> auth_env \<Rightarrow> string \<Rightarrow> string \<Rightarrow> 'r auth_db \<Rightarrow> (thrown + unit) \<times> 'r auth_db" where
  "reset_finish dp ev reset_token i = seqE (redis_step (redis_del (ad_redis dp) (reset_key dp reset_token))) (\<lambda>_ w1.
     (Inr (), case find_row (\<lambda>u. us_id u = i) (ab_users w1) of
        None \<Rightarrow> w1
      | Some u \<Rightarrow> trail_record (av_audit_ok ev) (av_ids ev 0) (av_now ev)
          (auth_audit \<lparr> sub = i, tenant_id = us_tenant_id u, roles = us_roles u, scopes = [] \<rparr>
            ''SESSION_REVOKED'' None (Some (JObj [(''reason'', JStr ''PASSWORD_RESET_ALL_SESSIONS'')])) None) w1))"

definition confirm_password_reset ::
  "'r auth_deps \<Rightarrow> auth_env \<Rightarrow> string \<Rightarrow> string \<Rightarrow> 'r auth_db \<Rightarrow> (thrown + unit) \<times> 'r auth_db" where
  "confirm_password_reset dp ev reset_token new_password w =
     (if length new_password < ap_password_min_length (ad_policy dp)
      then (Inl (password_too_short (ad_policy dp) ''new_password''), w)
      else (case redis_get (ad_redis dp) (reset_key dp reset_token) (ab_redis w) of
         Inl e \<Rightarrow> (Inl e, w)
       | Inr user_id \<Rightarrow>
           if \<not> truthy user_id then (Inl (token_error ''TOKEN_EXPIRED'' ''Invalid or expired reset token.''), w)
           else seqE (reset_commit ev (the user_id) new_password) (\<lambda>_. reset_finish dp ev reset_token (the user_id)) w))"

end
