(* ===== verification/Users.thy ===== *)
theory Users
  imports Quota Auth
begin

text \<open>
  \<open>apps/api/src/users/users.service.ts\<close>: the profile of the authenticated user with its entity
  tag, the quota summary and the list of sessions.  Locale and preferences are those of the schema;
  \<open>sha\<close> is the platform's hash.
\<close>

subsection \<open>Profile\<close>

record update_user_body =
  ub_display_name :: "string option"
  ub_preferences :: "(string \<times> json) list option"

definition is_record_json :: "json \<Rightarrow> bool" where
  "is_record_json j = (case j of JObj es \<Rightarrow> True | _ \<Rightarrow> False)"

definition user_etag :: "(string \<Rightarrow> string) \<Rightarrow> user \<Rightarrow> string" where
  "user_etag sha u = dquote # take 32 (sha (us_id u @ '':'' @ show_nat (us_row_version u))) @ [dquote]"

definition to_user_dto :: "user \<Rightarrow> json" where
  "to_user_dto u = JObj
     [(''id'', JStr (us_id u)), (''object'', JStr ''user''), (''email'', JStr (us_email u)),
      (''display_name'', JStr (us_display_name u)), (''tenant_id'', JStr (us_tenant_id u)),
      (''roles'', JArr (map JStr (us_roles u))), (''status'', JStr (us_status u)),
      (''preferences'', if is_record_json (us_preferences u) then us_preferences u else JObj []),
      (''locale'', case us_locale u of None \<Rightarrow> JNull | Some l \<Rightarrow> JStr l),
      (''created_at'', JStr (to_iso (us_created u))), (''updated_at'', JStr (to_iso (us_updated u))),
      (''links'', JObj [(''self'', JStr ''/api/v1/users/me''), (''quotas'', JStr ''/api/v1/users/me/quotas'')])]"

definition version_conflict_error :: thrown where
  "version_conflict_error = AppErr (ConflictError (coded ''RESOURCE_VERSION_CONFLICT''
     ''The resource has changed since the version named in If-Match.''))"

definition assert_if_match :: "string option \<Rightarrow> string \<Rightarrow> thrown + unit" where
  "assert_if_match if_match current = (case if_match of
     None \<Rightarrow> Inr ()
   | Some h \<Rightarrow> let candidates = map trim (split_on CHR '','' h)
       in if ''*'' \<in> set candidates \<or> current \<in> set candidates then Inr () else Inl version_conflict_error)"

definition require_self :: "principal \<Rightarrow> 'r auth_db \<Rightarrow> thrown + user" where
  "require_self who w = (case find_row (\<lambda>u. us_id u = sub who \<and> us_tenant_id u = tenant_id who \<and> us_deleted_at u = None) (ab_users w) of
     None \<Rightarrow> Inl (AppErr (NotFoundError (coded ''USER_NOT_FOUND'' ''User not found.'')))
   | Some u \<Rightarrow> Inr u)"

definition get_current_user :: "(string \<Rightarrow> string) \<Rightarrow> principal \<Rightarrow> 'r auth_db \<Rightarrow> thrown + json \<times> string" where
  "get_current_user sha who w = bindE (require_self who w) (\<lambda>u. Inr (to_user_dto u, user_etag sha u))"

definition merged_preferences :: "json \<Rightarrow> (string \<times> json) list \<Rightarrow> json" where
  "merged_preferences stored es = spread_with (if is_record_json stored then stored else JObj []) es"

definition user_patch :: "int \<Rightarrow> update_user_body \<Rightarrow> user \<Rightarrow> user" where
  "user_patch now body u = u
     \<lparr> us_display_name := (case ub_display_name body of Some n \<Rightarrow> n | None \<Rightarrow> us_display_name u),
       us_preferences := (case ub_preferences body of Some es \<Rightarrow> merged_preferences (us_preferences u) es | None \<Rightarrow> us_preferences u),
       us_locale := (case Option.bind (ub_preferences body) (\<lambda>es. str_field (JObj es) ''locale'') of
          Some l \<Rightarrow> Some l | None \<Rightarrow> us_locale u),
       us_row_version := us_row_version u + 1, us_updated := now \<rparr>"

text \<open>The preferences are merged into those read with the row, the update is by id.\<close>

definition update_current_user ::
  "(string \<Rightarrow> string) \<Rightarrow> int \<Rightarrow> principal \<Rightarrow> update_user_body \<Rightarrow> string option \<Rightarrow> 'r auth_db \<Rightarrow> (thrown + json \<times> string) \<times> 'r auth_db" where
  "update_current_user sha now who body if_match w = (case require_self who w of
     Inl e \<Rightarrow> (Inl e, w)
   | Inr u \<Rightarrow> (case assert_if_match if_match (user_etag sha u) of
        Inl e \<Rightarrow> (Inl e, w)
      | Inr _ \<Rightarrow> seqE (update_user (us_id u) (user_patch now body)) (\<lambda>_ w1.
          (case find_row (\<lambda>r. us_id r = us_id u) (ab_users w1) of
             None \<Rightarrow> (Inl record_not_found, w1)
           | Some updated \<Rightarrow> (Inr (to_user_dto updated, user_etag sha updated), w1))) w))"

subsection \<open>Quota summary\<close>

fun metric_field :: "quota_dimension \<Rightarrow> string" where
  "metric_field CONCURRENT_BOOKS = ''concurrent_books''"
| "metric_field GPU_MINUTES = ''gpu_minutes_monthly''"
| "metric_field STORAGE_BYTES = ''storage_bytes''"
| "metric_field BOOKS_TOTAL = ''books_total''"

definition QUOTA_METRICS :: "quota_dimension list" where
  "QUOTA_METRICS = [CONCURRENT_BOOKS, GPU_MINUTES, STORAGE_BYTES, BOOKS_TOTAL]"

fun limit_for :: "tenant_quota \<Rightarrow> quota_dimension \<Rightarrow> nat" where
  "limit_for q CONCURRENT_BOOKS = tq_concurrent_books q"
| "limit_for q GPU_MINUTES = tq_gpu_minutes_monthly q"
| "limit_for q STORAGE_BYTES = tq_storage_bytes q"
| "limit_for q BOOKS_TOTAL = tq_books_total q"

text \<open>\<open>counters\<close> is \<open>None\<close> when the read of the counters failed.\<close>

definition get_quotas :: "int \<Rightarrow> principal \<Rightarrow> tenant_quota list \<Rightarrow> usage_counter list option \<Rightarrow> json" where
  "get_quotas now who quotas counters =
     (let (start, stop) = current_period now;
          quota = quota_for (tenant_id who) quotas;
          number = (\<lambda>v. case v of None \<Rightarrow> JNull | Some n \<Rightarrow> JNum n)
      in JObj
       [(''object'', JStr ''quota_summary''), (''tenant_id'', JStr (tenant_id who)),
        (''degraded'', JBool (counters = None)),
        (''degraded_reasons'', JArr (if counters = None then [JStr ''USAGE_AGGREGATOR_UNAVAILABLE''] else [])),
        (''quotas'', JObj (map (\<lambda>m. (metric_field m, JObj
            [(''limit'', number (map_option (\<lambda>q. int (limit_for q m)) quota)),
             (''used'', number (map_option (usage_of (tenant_id who) start m) counters))])) QUOTA_METRICS)),
        (''period_start'', JStr (to_iso start)), (''period_end'', JStr (to_iso stop)),
        (''links'', JObj [(''self'', JStr ''/api/v1/users/me/quotas''), (''user'', JStr ''/api/v1/users/me'')])])"

subsection \<open>Sessions of the user\<close>

definition listed_session :: "principal \<Rightarrow> int \<Rightarrow> auth_session \<Rightarrow> bool" where
  "listed_session who now s \<longleftrightarrow> se_user_id s = sub who \<and> se_revoked_at s = None \<and> now < se_expires s"

definition session_dto :: "string option \<Rightarrow> auth_session \<Rightarrow> json" where
  "session_dto current s = JObj
     [(''id'', JStr (se_id s)), (''object'', JStr ''session''), (''created_at'', JStr (to_iso (se_created s))),
      (''last_seen_at'', case se_last_seen s of None \<Rightarrow> JNull | Some t \<Rightarrow> JStr (to_iso t)),
      (''user_agent_family'', case se_agent_family s of None \<Rightarrow> JNull | Some a \<Rightarrow> JStr a),
      (''ip_country'', case se_ip_country s of None \<Rightarrow> JNull | Some c \<Rightarrow> JStr c),
      (''current'', JBool (current = Some (se_id s)))]"

definition list_sessions :: "int \<Rightarrow> principal \<Rightarrow> string option \<Rightarrow> 'r auth_db \<Rightarrow> json list" where
  "list_sessions now who current w =
     map (session_dto current) (rev (sort_key se_created (filter (listed_session who now) (ab_sessions w))))"

definition revoke_session :: "auth_env \<Rightarrow> principal \<Rightarrow> string \<Rightarrow> 'r auth_db \<Rightarrow> (thrown + unit) \<times> 'r auth_db" where
  "revoke_session ev who session_id w =
     (case find_row (\<lambda>s. se_id s = session_id \<and> se_user_id s = sub who) (ab_sessions w) of
        None \<Rightarrow> (Inr (), w)
      | Some s \<Rightarrow>
          if se_revoked_at s \<noteq> None then (Inr (), w)
          else seqE (close_session (av_now ev) session_id ''USER_REVOKED'') (\<lambda>_.
            doE (trail_record (av_audit_ok ev) (av_ids ev 0) (av_now ev)
              (auth_audit who ''SESSION_REVOKED'' None (Some (session_metadata session_id ''USER_REVOKED'')) None))) w)"

subsection \<open>Laws\<close>

text \<open>An update made under the current entity tag succeeds once; repeating it under the same tag is refused.\<close>

lemma assert_if_match_exact:
  assumes "CHR '','' \<notin> set etag" "trim etag = etag" "etag \<noteq> ''*''"
  shows "assert_if_match (Some etag) current = (if current = etag then Inr () else Inl version_conflict_error)"
  using assms by (auto simp: assert_if_match_def split_on_no_sep Let_def)

end
