(* ===== verification/AuthWeb.thy ===== *)
theory AuthWeb
  imports Cookies Users
begin

text \<open>
  \<open>apps/api/src/auth/auth.controller.ts\<close>: what the endpoints of sign-in read from a request and
  put into the reply.  \<open>production\<close> tells the environment, \<open>csrf\<close> is the random token drawn,
  \<open>decode_jwt\<close> the library's reading of a token that the guard has verified.  A reply holds the
  \<open>Set-Cookie\<close> headers in order.
\<close>

record auth_request =
  hr_cookie :: "string option"
  hr_csrf :: "header_value option"
  hr_user_agent :: "header_value option"
  hr_authorization :: "string option"
  hr_principal :: "principal option"

record auth_reply =
  ar_cookies :: "string list"
  ar_body :: "json option"

definition data_reply :: "json \<Rightarrow> auth_reply" where
  "data_reply j = \<lparr> ar_cookies = [], ar_body = Some (JObj [(''data'', j)]) \<rparr>"

definition meta_of_request :: "auth_request \<Rightarrow> request_meta" where
  "meta_of_request req =
     \<lparr> rm_agent_family = (case hr_user_agent req of Some (HStr ua) \<Rightarrow> Some (take 64 (hd (split_on CHR ''/'' ua))) | _ \<Rightarrow> None),
       rm_ip_country = None \<rparr>"

definition csrf_mismatch :: thrown where
  "csrf_mismatch = AppErr (AuthenticationError (coded ''CSRF_TOKEN_MISMATCH'' ''Missing or invalid CSRF token.''))"

definition assert_csrf :: "auth_request \<Rightarrow> (string \<times> string) list \<Rightarrow> thrown + unit" where
  "assert_csrf req cookies =
     (let cookie_value = map_of cookies CSRF_COOKIE_NAME; value = first_header_value (hr_csrf req)
      in if \<not> truthy cookie_value \<or> \<not> truthy value \<or> value \<noteq> cookie_value then Inl csrf_mismatch else Inr ())"

definition session_cookie_options :: "bool \<Rightarrow> bool \<Rightarrow> nat \<Rightarrow> cookie_options" where
  "session_cookie_options http_only production max_age =
     \<lparr> co_http_only = Some http_only, co_secure = Some production, co_same_site = None, co_path = None, co_max_age = Some (int max_age) \<rparr>"

definition respond_authenticated :: "'r auth_deps \<Rightarrow> bool \<Rightarrow> string \<Rightarrow> string \<Rightarrow> authenticated \<Rightarrow> auth_reply" where
  "respond_authenticated dp production csrf client_type a =
     (if client_type = ''BROWSER'' then
        \<lparr> ar_cookies =
            [serialize_cookie SESSION_COOKIE_NAME (an_refresh_token a) (session_cookie_options True production (ap_refresh_ttl_seconds (ad_policy dp))),
             serialize_cookie CSRF_COOKIE_NAME csrf (session_cookie_options False production (ap_refresh_ttl_seconds (ad_policy dp)))],
          ar_body = Some (JObj [(''data'', JObj [(''status'', JStr ''AUTHENTICATED'')])]) \<rparr>
      else data_reply (JObj [(''status'', JStr ''AUTHENTICATED''), (''access_token'', JStr (an_access_token a)),
        (''expires_in'', JNum (int (an_expires_in a))), (''refresh_token'', JStr (an_refresh_token a)),
        (''token_type'', JStr ''Bearer'')]))"

definition post_register :: "'r auth_deps \<Rightarrow> auth_env \<Rightarrow> register_body \<Rightarrow> 'r auth_db \<Rightarrow> (thrown + auth_reply) \<times> 'r auth_db" where
  "post_register dp ev body = seqE (register dp ev body) (\<lambda>result. returnE (case result of
     RegistrationPending \<Rightarrow> data_reply (JObj [(''status'', JStr ''REGISTRATION_PENDING'')])
   | Created u t \<Rightarrow> data_reply (JObj [(''user'', to_user_dto u), (''tenant_id'', JStr t)])))"

definition post_login ::
  "'r auth_deps \<Rightarrow> auth_env \<Rightarrow> bool \<Rightarrow> string \<Rightarrow> auth_request \<Rightarrow> login_body \<Rightarrow> 'r auth_db \<Rightarrow> (thrown + auth_reply) \<times> 'r auth_db" where
  "post_login dp ev production csrf req body = seqE (login dp ev body (meta_of_request req)) (\<lambda>result. returnE (case result of
     MfaRequired token \<Rightarrow> data_reply (JObj [(''status'', JStr ''MFA_REQUIRED''), (''mfa_token'', JStr token)])
   | Authenticated a \<Rightarrow> respond_authenticated dp production csrf (lb_client_type body) a))"

definition post_mfa ::
  "'r auth_deps \<Rightarrow> auth_env \<Rightarrow> bool \<Rightarrow> string \<Rightarrow> auth_request \<Rightarrow> string \<Rightarrow> string \<Rightarrow> 'r auth_db \<Rightarrow> (thrown + auth_reply) \<times> 'r auth_db" where
  "post_mfa dp ev production csrf req mfa_token otp =
     seqE (exchange_mfa dp ev mfa_token otp (meta_of_request req)) (\<lambda>a. returnE (respond_authenticated dp production csrf ''API'' a))"

definition no_refresh_token :: thrown where
  "no_refresh_token = AppErr (AuthenticationError (msg_only ''No refresh token presented.''))"

definition post_refresh ::
  "'r auth_deps \<Rightarrow> auth_env \<Rightarrow> bool \<Rightarrow> string \<Rightarrow> auth_request \<Rightarrow> string option \<Rightarrow> 'r auth_db \<Rightarrow> (thrown + auth_reply) \<times> 'r auth_db" where
  "post_refresh dp ev production csrf req body_token w = (case parse_cookies (hr_cookie req) of
     Inl e \<Rightarrow> (Inl e, w)
   | Inr cookies \<Rightarrow>
       if truthy body_token
       then seqE (refresh dp ev (the body_token)) (\<lambda>a. returnE (respond_authenticated dp production csrf ''API'' a)) w
       else if truthy (map_of cookies SESSION_COOKIE_NAME)
       then (case assert_csrf req cookies of
           Inl e \<Rightarrow> (Inl e, w)
         | Inr _ \<Rightarrow> seqE (refresh dp ev (the (map_of cookies SESSION_COOKIE_NAME)))
             (\<lambda>a. returnE (respond_authenticated dp production csrf ''BROWSER'' a)) w)
       else (Inl no_refresh_token, w))"

definition post_logout ::
  "(string \<Rightarrow> thrown + json) \<Rightarrow> auth_env \<Rightarrow> bool \<Rightarrow> auth_request \<Rightarrow> 'r auth_db \<Rightarrow> (thrown + auth_reply) \<times> 'r auth_db" where
  "post_logout decode_jwt ev production req w = (case hr_principal req of
     None \<Rightarrow> (Inl (AppErr (AuthenticationError (msg_only ''Missing bearer token.''))), w)
   | Some who \<Rightarrow>
       let bearer = map_option (drop (length ''Bearer '')) (hr_authorization req)
       in case (if truthy bearer then map_sum id decode_session_id (decode_jwt (the bearer)) else Inr None) of
            Inl e \<Rightarrow> (Inl e, w)
          | Inr session_id \<Rightarrow> seqE (logout ev (sub who) session_id) (\<lambda>_. returnE
              \<lparr> ar_cookies = [cleared_cookie SESSION_COOKIE_NAME (Some production) None, cleared_cookie CSRF_COOKIE_NAME (Some production) None],
                ar_body = None \<rparr>) w)"

definition post_password_reset :: "'r auth_deps \<Rightarrow> auth_env \<Rightarrow> string \<Rightarrow> 'r auth_db \<Rightarrow> (thrown + auth_reply) \<times> 'r auth_db" where
  "post_password_reset dp ev email = seqE (request_password_reset dp ev email)
     (\<lambda>_. returnE (data_reply (JObj [(''status'', JStr ''ACCEPTED'')])))"

subsection \<open>What a browser sends back\<close>

text \<open>The name and value of a \<open>Set-Cookie\<close> header, up to the first attribute.\<close>

definition stored_cookie :: "string \<Rightarrow> string" where
  "stored_cookie header = hd (split_on CHR '';'' header)"

definition browser_header :: "auth_reply \<Rightarrow> string" where
  "browser_header reply = join_with ''; '' (map stored_cookie (ar_cookies reply))"

lemma join_hd: "CHR '';'' \<notin> set p \<Longrightarrow> stored_cookie (join_with ''; '' (p # q # qs)) = p"
  by (simp add: stored_cookie_def split_on_append_sep)

lemma stored_serialized:
  assumes "CHR '';'' \<notin> set name"
  shows "stored_cookie (serialize_cookie name v opts) = name @ ''='' @ encode_uri_component v"
proof -
  have "CHR '';'' \<notin> set (name @ ''='' @ encode_uri_component v)"
    using assms encoded_safe by (auto simp: cookie_safe_def)
  then show ?thesis unfolding serialize_cookie_def append_Cons append_Nil by (rule join_hd)
qed

lemma browser_header_cookies:
  "browser_header (respond_authenticated dp production csrf ''BROWSER'' a)
     = cookie_header [(SESSION_COOKIE_NAME, an_refresh_token a), (CSRF_COOKIE_NAME, csrf)]"
  by (simp add: browser_header_def respond_authenticated_def cookie_header_def stored_serialized
      SESSION_COOKIE_NAME_def CSRF_COOKIE_NAME_def)

lemma browser_cookies_parsed:
  "parse_cookies (Some (browser_header (respond_authenticated dp production csrf ''BROWSER'' a)))
     = Inr [(SESSION_COOKIE_NAME, an_refresh_token a), (CSRF_COOKIE_NAME, csrf)]"
  unfolding browser_header_cookies
  by (rule parse_cookie_header) (simp add: cookie_names_ok_def SESSION_COOKIE_NAME_def CSRF_COOKIE_NAME_def cookie_safe_def is_space_def code_def)

text \<open>One malformed escape, in any cookie, makes the whole header unreadable.\<close>

lemma add_cookie_error: "add_cookie out p = Inl e \<Longrightarrow> e = uri_error"
  by (auto simp: add_cookie_def split: option.splits if_splits prod.splits)

lemma add_cookies_malformed:
  assumes "p \<in> set ps" "cookie_parts p = Some (k, v)" "k \<noteq> []" "decode_uri_component v = None"
  shows "add_cookies out ps = Inl uri_error"
  using assms(1)
proof (induction ps arbitrary: out)
  case (Cons q qs)
  show ?case
  proof (cases "add_cookie out q")
    case (Inl e)
    then show ?thesis using add_cookie_error by simp
  next
    case (Inr out')
    then have "q \<noteq> p" using assms(2-4) by (auto simp: add_cookie_def)
    then show ?thesis using Cons Inr by auto
  qed
qed simp

lemma parse_cookies_malformed:
  assumes "p \<in> set (split_on CHR '';'' h)" "cookie_parts p = Some (k, v)" "k \<noteq> []" "decode_uri_component v = None"
  shows "parse_cookies (Some h) = Inl uri_error"
proof -
  have "h \<noteq> []" using assms(1,2) by (auto simp: cookie_parts_def)
  then show ?thesis using add_cookies_malformed [OF assms] by (simp add: parse_cookies_def)
qed

end
