(* ===== verification/Totp.thy ===== *)
theory Totp
  imports Pagination Actions "HOL-Library.Word"
begin

unbundle bit_operations_syntax

text \<open>
  \<open>apps/api/src/auth/totp.ts\<close>: base 32, HMAC one-time passwords and their verification in a
  window of time steps.  The HMAC is a parameter; bytes are numbers below 256, and the truncation
  works on 32-bit words as the bit operations of the source do.
\<close>

subsection \<open>Base 32\<close>

definition BASE32_ALPHABET :: string where
  "BASE32_ALPHABET = ''ABCDEFGHIJKLMNOPQRSTUVWXYZ234567''"

definition index_in :: "'a list \<Rightarrow> 'a \<Rightarrow> nat option" where
  "index_in xs x = (if x \<in> set xs then Some (length (takeWhile (\<lambda>y. y \<noteq> x) xs)) else None)"

text \<open>Upper case of a character: the sharp s becomes two letters, other letters outside ASCII are dropped after.\<close>

definition upper_base32 :: "char \<Rightarrow> string" where
  "upper_base32 c = (if code c = 223 then ''SS'' else [upper_ascii c])"

definition base32_clean :: "string \<Rightarrow> string" where
  "base32_clean input = filter (\<lambda>c. c \<in> set BASE32_ALPHABET) (concat (map upper_base32 input))"

definition base32_bits :: "string \<Rightarrow> bool list" where
  "base32_bits s = concat (map (bits_of 5) (List.map_filter (index_in BASE32_ALPHABET) s))"

definition base32_decode :: "string \<Rightarrow> nat list" where
  "base32_decode input = map bits_value (chunks 8 (base32_bits (base32_clean input)))"

text \<open>The encoding of RFC 4648, without padding, that an enrolment writes.\<close>

definition base32_encode :: "nat list \<Rightarrow> string" where
  "base32_encode bytes =
     (let bs = concat (map (bits_of 8) bytes);
          padded = bs @ replicate ((5 - length bs mod 5) mod 5) False
      in map (\<lambda>ch. BASE32_ALPHABET ! bits_value ch) (chunks 5 padded))"

subsection \<open>One-time passwords\<close>

definition range_error :: thrown where
  "range_error = CodedErr ''ERR_OUT_OF_RANGE'' ''The value is out of range.''"

definition uint32_be :: "nat \<Rightarrow> nat list" where
  "uint32_be n = [n div 2 ^ 24 mod 256, n div 2 ^ 16 mod 256, n div 2 ^ 8 mod 256, n mod 256]"

text \<open>Writing a negative word throws.\<close>

definition counter_bytes :: "int \<Rightarrow> thrown + nat list" where
  "counter_bytes counter = (if counter < 0 \<or> counter div 2 ^ 32 \<ge> 2 ^ 32 then Inl range_error
     else Inr (uint32_be (nat (counter div 2 ^ 32)) @ uint32_be (nat (counter mod 2 ^ 32))))"

definition byte_at :: "nat list \<Rightarrow> nat \<Rightarrow> nat" where
  "byte_at bs i = (if i < length bs then bs ! i else 0)"

definition truncated :: "nat list \<Rightarrow> 32 word" where
  "truncated hmac =
     (let offset = (if hmac = [] then 0 else last hmac) mod 16
      in push_bit 24 (of_nat (byte_at hmac offset) AND 0x7f)
         OR push_bit 16 (of_nat (byte_at hmac (offset + 1)) AND 0xff)
         OR push_bit 8 (of_nat (byte_at hmac (offset + 2)) AND 0xff)
         OR (of_nat (byte_at hmac (offset + 3)) AND 0xff))"

definition pad_start6 :: "string \<Rightarrow> string" where
  "pad_start6 s = replicate (6 - length s) CHR ''0'' @ s"

definition hotp :: "(nat list \<Rightarrow> nat list \<Rightarrow> nat list) \<Rightarrow> nat list \<Rightarrow> int \<Rightarrow> thrown + string" where
  "hotp hmac_sha1 key counter = bindE (counter_bytes counter)
     (\<lambda>bytes. Inr (pad_start6 (show_int (sint (truncated (hmac_sha1 key bytes)) mod 1000000))))"

definition six_digits :: "string \<Rightarrow> bool" where
  "six_digits s \<longleftrightarrow> length s = 6 \<and> list_all is_digit s"

fun any_code :: "(int \<Rightarrow> thrown + string) \<Rightarrow> string \<Rightarrow> int list \<Rightarrow> thrown + bool" where
  "any_code expect otp [] = Inr False"
| "any_code expect otp (c # cs) = bindE (expect c) (\<lambda>e. if e = otp then Inr True else any_code expect otp cs)"

definition verify_totp ::
  "(nat list \<Rightarrow> nat list \<Rightarrow> nat list) \<Rightarrow> string \<Rightarrow> string \<Rightarrow> int \<Rightarrow> int \<Rightarrow> thrown + bool" where
  "verify_totp hmac_sha1 secret otp now window =
     (if \<not> six_digits otp then Inr False
      else let key = base32_decode secret; counter = now div 1000 div 30
        in any_code (hotp hmac_sha1 key) otp (map (\<lambda>drift. counter + drift) [- window .. window]))"

subsection \<open>Laws\<close>

lemma base32_length: "length BASE32_ALPHABET = 32"
  by (simp add: BASE32_ALPHABET_def)

lemma base32_index_all: "list_all (\<lambda>n. index_in BASE32_ALPHABET (BASE32_ALPHABET ! n) = Some n \<and> upper_base32 (BASE32_ALPHABET ! n) = [BASE32_ALPHABET ! n]) [0..<32]"
  by code_simp

lemma base32_index: "n < 32 \<Longrightarrow> index_in BASE32_ALPHABET (BASE32_ALPHABET ! n) = Some n"
  "n < 32 \<Longrightarrow> upper_base32 (BASE32_ALPHABET ! n) = [BASE32_ALPHABET ! n]"
  using base32_index_all by (auto simp: list_all_iff)

lemma concat_singletons: "(\<And>c. c \<in> set s \<Longrightarrow> f c = [c]) \<Longrightarrow> concat (map f s) = s"
  by (induction s) simp_all

lemma pad_to_five: "(l + (5 - l mod 5) mod 5) mod 5 = (0::nat)"
proof -
  have "l + (5 - l mod 5) = 5 * (l div 5) + 5"
    using mod_less_divisor [of 5 l] mult_div_mod_eq [of 5 l] by linarith
  then have "(l + (5 - l mod 5)) mod 5 = 0" by simp
  then show ?thesis by (simp add: mod_simps)
qed

lemma base32_roundtrip:
  assumes "\<forall>b \<in> set bytes. b < 256"
  shows "base32_decode (base32_encode bytes) = bytes"
proof -
  define bs where "bs = concat (map (bits_of 8) bytes)"
  define rest where "rest = replicate ((5 - length bs mod 5) mod 5) False"
  have len: "length (bs @ rest) mod 5 = 0" unfolding rest_def length_append length_replicate by (rule pad_to_five)
  have short: "length rest < 8" by (simp add: rest_def)
  let ?cs = "chunks 5 (bs @ rest)"
  have enc: "base32_encode bytes = map (\<lambda>ch. BASE32_ALPHABET ! bits_value ch) ?cs"
    by (simp add: base32_encode_def bs_def rest_def Let_def)
  have val: "bits_value ch < 32" if "ch \<in> set ?cs" for ch
    using bits_value_lt [of ch] chunks_length [OF that] by simp
  have mem: "BASE32_ALPHABET ! bits_value ch \<in> set BASE32_ALPHABET" if "ch \<in> set ?cs" for ch
    using val [OF that] base32_length by simp
  have up: "concat (map upper_base32 (base32_encode bytes)) = base32_encode bytes"
    by (rule concat_singletons) (use val base32_index(2) in \<open>auto simp: enc\<close>)
  have clean: "base32_clean (base32_encode bytes) = base32_encode bytes"
    unfolding base32_clean_def up by (rule filter_True) (use mem in \<open>auto simp: enc\<close>)
  have same_bits: "bits_of 5 (bits_value ch) = ch" if "ch \<in> set ?cs" for ch
    using chunks_length [OF that] bits_of_value [of ch] by simp
  have "List.map_filter (index_in BASE32_ALPHABET) (base32_encode bytes) = map bits_value ?cs"
    unfolding enc using base32_index(1) val by (induction ?cs) (simp_all add: List.map_filter_simps map_filter_def)
  then have "base32_bits (base32_encode bytes) = concat ?cs"
    using same_bits by (simp add: base32_bits_def cong: map_cong)
  also have "\<dots> = bs @ rest" using concat_chunks [OF _ len] by simp
  finally have "base32_decode (base32_encode bytes) = map bits_value (chunks 8 (bs @ rest))"
    by (simp add: base32_decode_def clean)
  also have "chunks 8 (bs @ rest) = map (bits_of 8) bytes"
    unfolding bs_def by (rule chunks_concat) (use short in auto)
  finally show ?thesis using assms bits_value_of [of _ 8] by (simp add: map_idI)
qed

text \<open>The truncated value is the 31-bit number of RFC 4226, so the password has six digits.\<close>

lemma or_shift:
  fixes hi lo :: int
  assumes "0 \<le> lo" "lo < 2 ^ n"
  shows "hi * 2 ^ n OR lo = hi * 2 ^ n + lo"
proof -
  have "take_bit n lo = lo" using assms by (simp add: take_bit_int_eq_self)
  then have "push_bit n hi AND lo = 0" by (intro bit_eqI) (metis bit_and_iff bit_push_bit_iff_int bit_take_bit_iff bit_0_eq not_le bot_apply bot_bool_def)
  then show ?thesis using disjunctive_add_eq_or [of "push_bit n hi" lo] by (simp add: push_bit_eq_mult)
qed

lemma or_bytes:
  fixes a b c d :: int
  assumes "0 \<le> b" "b < 256" "0 \<le> c" "c < 256" "0 \<le> d" "d < 256"
  shows "((a * 2 ^ 24 OR b * 2 ^ 16) OR c * 2 ^ 8) OR d = a * 2 ^ 24 + b * 2 ^ 16 + c * 2 ^ 8 + d"
proof -
  have 1: "a * 2 ^ 24 OR b * 2 ^ 16 = a * 2 ^ 24 + b * 2 ^ 16" using or_shift [of "b * 2 ^ 16" 24 a] assms by simp
  have "(a * 2 ^ 24 + b * 2 ^ 16) OR c * 2 ^ 8 = (a * 2 ^ 24 + b * 2 ^ 16) + c * 2 ^ 8"
    using or_shift [of "c * 2 ^ 8" 16 "a * 2 ^ 8 + b"] assms by (simp add: algebra_simps)
  moreover have "(a * 2 ^ 24 + b * 2 ^ 16 + c * 2 ^ 8) OR d = (a * 2 ^ 24 + b * 2 ^ 16 + c * 2 ^ 8) + d"
    using or_shift [of d 8 "a * 2 ^ 16 + b * 2 ^ 8 + c"] assms by (simp add: algebra_simps)
  ultimately show ?thesis using 1 by simp
qed

lemma masked_byte:
  assumes "n \<le> 8" "k + n \<le> 32"
  shows "uint (push_bit k (of_nat b AND mask n) :: 32 word) = int (b mod 2 ^ n) * 2 ^ k"
proof -
  have "uint (of_nat b AND mask n :: 32 word) = int (b mod 2 ^ n)"
  proof -
    have "uint (of_nat b AND mask n :: 32 word) = uint (take_bit n (of_nat b :: 32 word))" by (simp only: take_bit_eq_mask)
    also have "\<dots> = take_bit n (take_bit 32 (int b))" by (simp add: unsigned_take_bit_eq unsigned_of_nat take_bit_of_nat min.commute)
    also have "\<dots> = take_bit n (int b)" using assms by (simp add: min_def)
    finally show ?thesis by (simp add: take_bit_eq_mod zmod_int)
  qed
  then have "uint (push_bit k (of_nat b AND mask n) :: 32 word) = take_bit 32 (int (b mod 2 ^ n) * 2 ^ k)"
    by (subst unsigned_push_bit_eq) (simp add: push_bit_eq_mult)
  moreover have "int (b mod 2 ^ n) * 2 ^ k < 2 ^ 32"
  proof -
    have "int (b mod 2 ^ n) < 2 ^ n" by (simp add: zmod_int)
    then have "int (b mod 2 ^ n) * 2 ^ k < 2 ^ n * 2 ^ k" by (rule mult_strict_right_mono) simp
    also have "\<dots> = 2 ^ (k + n)" by (simp add: power_add)
    also have "\<dots> \<le> 2 ^ 32" using assms(2) by (intro power_increasing) simp_all
    finally show ?thesis .
  qed
  ultimately show ?thesis by (simp add: take_bit_int_eq_self)
qed

lemma truncated_value:
  "uint (truncated hmac) = (let i = (if hmac = [] then 0 else last hmac) mod 16
     in int (byte_at hmac i mod 128 * 2 ^ 24 + byte_at hmac (i + 1) mod 256 * 2 ^ 16
       + byte_at hmac (i + 2) mod 256 * 2 ^ 8 + byte_at hmac (i + 3) mod 256))"
proof -
  define i where "i = (if hmac = [] then 0 else last hmac) mod 16"
  have m: "(0x7f :: 32 word) = mask 7" "(0xff :: 32 word) = mask 8" by (simp_all add: mask_eq_exp_minus_1)
  have p0: "push_bit 0 w = w" for w :: "32 word" by simp
  have "uint (truncated hmac) = ((int (byte_at hmac i mod 2 ^ 7) * 2 ^ 24 OR int (byte_at hmac (i + 1) mod 2 ^ 8) * 2 ^ 16)
      OR int (byte_at hmac (i + 2) mod 2 ^ 8) * 2 ^ 8) OR int (byte_at hmac (i + 3) mod 2 ^ 8) * 2 ^ 0"
    unfolding truncated_def Let_def i_def [symmetric] unsigned_or_eq m
    by (simp only: masked_byte [of 7 24] masked_byte [of 8 16] masked_byte [of 8 8] masked_byte [of 8 0, unfolded p0]) (simp add: or.assoc)
  also have "\<dots> = int (byte_at hmac i mod 2 ^ 7) * 2 ^ 24 + int (byte_at hmac (i + 1) mod 2 ^ 8) * 2 ^ 16
      + int (byte_at hmac (i + 2) mod 2 ^ 8) * 2 ^ 8 + int (byte_at hmac (i + 3) mod 2 ^ 8) * 2 ^ 0"
    unfolding power_0 mult_1_right by (rule or_bytes) simp_all
  finally show ?thesis by (simp add: i_def [symmetric] Let_def)
qed

lemma four_bytes:
  fixes a b c d :: nat
  assumes "a < 128" "b < 256" "c < 256" "d < 256"
  shows "a * 2 ^ 24 + b * 2 ^ 16 + c * 2 ^ 8 + d < 2 ^ 31"
  using assms by simp

lemma truncated_lt: "uint (truncated hmac) < 2 ^ 31"
proof -
  define i where "i = (if hmac = [] then 0 else last hmac) mod 16"
  have "byte_at hmac i mod 128 * 2 ^ 24 + byte_at hmac (i + 1) mod 256 * 2 ^ 16
       + byte_at hmac (i + 2) mod 256 * 2 ^ 8 + byte_at hmac (i + 3) mod 256 < 2 ^ 31"
    by (rule four_bytes) simp_all
  then show ?thesis unfolding truncated_value Let_def i_def [symmetric] by (metis of_nat_less_numeral_power_cancel_iff)
qed

lemma sint_truncated: "sint (truncated hmac) = uint (truncated hmac)"
proof -
  have "sint (truncated hmac) = signed_take_bit 31 (uint (truncated hmac))" by (simp add: sint_uint)
  also have "\<dots> = uint (truncated hmac)" using truncated_lt by (intro signed_take_bit_int_eq_self) (auto intro: order_trans [of _ 0])
  finally show ?thesis .
qed

lemma length_show_nat: "n < 10 ^ Suc k \<Longrightarrow> length (show_nat n) \<le> Suc k"
proof (induction k arbitrary: n)
  case (Suc k)
  show ?case
  proof (cases "n < 10")
    case False
    then show ?thesis using Suc.IH [of "n div 10"] Suc.prems by (subst show_nat.simps) auto
  qed (simp add: show_nat.simps)
qed (simp add: show_nat.simps)

lemma is_digit_show_nat: "list_all is_digit (show_nat n)"
  using is_digit_show [of _ n] by (auto simp: list_all_iff)

lemma hotp_six_digits:
  assumes "hotp hmac key c = Inr s"
  shows "six_digits s"
proof -
  obtain m where s: "s = pad_start6 (show_int (sint (truncated m) mod 1000000))"
    using assms by (auto simp: hotp_def bindE_eq_Inr)
  define n where "n = nat (uint (truncated m) mod 1000000)"
  have "show_int (sint (truncated m) mod 1000000) = show_nat n"
    by (simp add: show_int_def sint_truncated n_def)
  moreover have "length (show_nat n) \<le> 6" using length_show_nat [of n 5] by (simp add: n_def)
  ultimately show ?thesis using is_digit_show_nat [of n]
    by (auto simp: s six_digits_def pad_start6_def list_all_iff is_digit_def code_def)
qed

lemma any_code_spec:
  "(\<And>c. c \<in> set cs \<Longrightarrow> \<exists>e. expect c = Inr e) \<Longrightarrow> any_code expect otp cs = Inr (\<exists>c \<in> set cs. expect c = Inr otp)"
proof (induction cs)
  case (Cons c cs)
  then obtain e where "expect c = Inr e" by fastforce
  then show ?case using Cons by auto
qed simp

lemma hotp_total: "0 \<le> c \<Longrightarrow> c < 2 ^ 64 \<Longrightarrow> \<exists>s. hotp hmac key c = Inr s"
  by (simp add: hotp_def counter_bytes_def)

end
