(* ===== verification/Health.thy ===== *)
theory Health
  imports Actions Access "HOL-Library.AList"
begin

text \<open>
  Readiness and the life of a worker process: \<open>packages/observability/src/health.ts\<close>, the probes
  of the API (\<open>health/health.controller.ts\<close>) and of a worker (\<open>health-server.ts\<close>), and the
  calls that \<open>worker-cpu/src/main.ts\<close> makes on the state machine.  A dependency check is a
  parameter that answers or throws.
\<close>

subsection \<open>Readiness\<close>

record dependency_check =
  dc_name :: string
  dc_check :: "thrown + bool"

datatype readiness_status = Ready | NotReady

record readiness =
  rd_status :: readiness_status
  rd_reason_code :: "string option"
  rd_dependencies :: "(string \<times> bool) list"

definition check_outcome :: "dependency_check \<Rightarrow> string \<times> bool" where
  "check_outcome c = (dc_name c, case dc_check c of Inr b \<Rightarrow> b | Inl e \<Rightarrow> False)"

definition compose_readiness :: "dependency_check list \<Rightarrow> readiness" where
  "compose_readiness checks =
     (let results = map check_outcome checks;
          dependencies = fold (\<lambda>(n, b). AList.update n b) results []
      in if list_all snd results
         then \<lparr> rd_status = Ready, rd_reason_code = None, rd_dependencies = dependencies \<rparr>
         else \<lparr> rd_status = NotReady, rd_reason_code = Some ''DEPENDENCY_UNAVAILABLE'', rd_dependencies = dependencies \<rparr>)"

subsection \<open>The state machine\<close>

datatype worker_state =
  STARTING | HEALTHY | MODEL_READY | PROCESSING | IDLE | DRAINING | STOPPED | FAILED_START

fun valid_transitions :: "worker_state \<Rightarrow> worker_state list" where
  "valid_transitions STARTING = [HEALTHY, FAILED_START]"
| "valid_transitions HEALTHY = [MODEL_READY, DRAINING]"
| "valid_transitions MODEL_READY = [PROCESSING, IDLE, DRAINING]"
| "valid_transitions PROCESSING = [IDLE, DRAINING]"
| "valid_transitions IDLE = [PROCESSING, DRAINING]"
| "valid_transitions DRAINING = [STOPPED]"
| "valid_transitions STOPPED = []"
| "valid_transitions FAILED_START = []"

record worker_health =
  wh_state :: worker_state
  wh_in_flight :: nat

definition initial_health :: worker_health where
  "initial_health = \<lparr> wh_state = STARTING, wh_in_flight = 0 \<rparr>"

definition invalid_transition :: thrown where
  "invalid_transition = OtherErr ''Cannot transition''"

definition transition :: "worker_state \<Rightarrow> worker_health \<Rightarrow> (thrown + unit) \<times> worker_health" where
  "transition to h = (if to \<in> set (valid_transitions (wh_state h)) then (Inr (), h\<lparr> wh_state := to \<rparr>)
     else (Inl invalid_transition, h))"

definition begin_work :: "worker_health \<Rightarrow> (thrown + unit) \<times> worker_health" where
  "begin_work h = (let h1 = h\<lparr> wh_in_flight := wh_in_flight h + 1 \<rparr>
     in if wh_in_flight h1 = 1 \<and> (wh_state h1 = IDLE \<or> wh_state h1 = MODEL_READY) then transition PROCESSING h1 else (Inr (), h1))"

definition end_work :: "worker_health \<Rightarrow> (thrown + unit) \<times> worker_health" where
  "end_work h = (let h1 = (if wh_in_flight h > 0 then h\<lparr> wh_in_flight := wh_in_flight h - 1 \<rparr> else h)
     in if wh_in_flight h1 = 0 \<and> wh_state h1 = PROCESSING then transition IDLE h1 else (Inr (), h1))"

definition is_alive :: "worker_health \<Rightarrow> bool" where
  "is_alive h \<longleftrightarrow> wh_state h \<noteq> STOPPED \<and> wh_state h \<noteq> FAILED_START"

definition is_ready :: "worker_health \<Rightarrow> bool" where
  "is_ready h \<longleftrightarrow> wh_state h = MODEL_READY \<or> wh_state h = PROCESSING \<or> wh_state h = IDLE"

subsection \<open>The probes\<close>

record probe_response =
  pr_status :: nat
  pr_retry_after :: "string option"
  pr_body :: json

definition optional_field :: "string \<Rightarrow> string option \<Rightarrow> (string \<times> json) list" where
  "optional_field k v = (case v of None \<Rightarrow> [] | Some s \<Rightarrow> [(k, JStr s)])"

definition status_text :: "readiness_status \<Rightarrow> string" where
  "status_text s = (case s of Ready \<Rightarrow> ''ready'' | NotReady \<Rightarrow> ''not_ready'')"

definition worker_probe :: "string \<Rightarrow> dependency_check list \<Rightarrow> worker_health \<Rightarrow> probe_response" where
  "worker_probe url checks h =
     (if url = ''/health'' then
        \<lparr> pr_status = (if is_alive h then 200 else 503), pr_retry_after = None,
          pr_body = JObj [(''status'', JStr (if is_alive h then ''alive'' else ''stopped''))] \<rparr>
      else if url = ''/ready'' then
        (let ready = rd_status (compose_readiness checks) = Ready \<and> is_ready h
         in \<lparr> pr_status = (if ready then 200 else 503), pr_retry_after = None,
              pr_body = JObj ((''status'', JStr (if ready then ''ready'' else ''not_ready''))
                # optional_field ''reason_code'' (if ready then None else Some ''DEPENDENCY_UNAVAILABLE'')) \<rparr>)
      else \<lparr> pr_status = 404, pr_retry_after = None, pr_body = JNull \<rparr>)"

definition api_liveness :: probe_response where
  "api_liveness = \<lparr> pr_status = 200, pr_retry_after = None, pr_body = JObj [(''status'', JStr ''alive'')] \<rparr>"

definition api_readiness :: "dependency_check list \<Rightarrow> probe_response" where
  "api_readiness checks = (let result = compose_readiness checks
     in \<lparr> pr_status = (if rd_status result \<noteq> Ready then 503 else 200),
          pr_retry_after = (if rd_status result \<noteq> Ready then Some ''5'' else None),
          pr_body = JObj ((''status'', JStr (status_text (rd_status result)))
            # optional_field ''reason_code'' (rd_reason_code result)) \<rparr>)"

text \<open>The detail is behind the guard of the metrics.\<close>

definition api_dependencies :: "string \<Rightarrow> string option \<Rightarrow> dependency_check list \<Rightarrow> thrown + probe_response" where
  "api_dependencies service_token authorization checks =
     bindE (metrics_auth_guard service_token authorization) (\<lambda>_.
       let result = compose_readiness checks
       in Inr \<lparr> pr_status = 200, pr_retry_after = None,
         pr_body = JObj [(''status'', JStr (status_text (rd_status result))),
           (''dependencies'', JObj (map (\<lambda>(n, b). (n, JBool b)) (rd_dependencies result)))] \<rparr>)"

subsection \<open>The life of a worker\<close>

definition boot :: "worker_health \<Rightarrow> (thrown + unit) \<times> worker_health" where
  "boot = seqE (transition HEALTHY) (\<lambda>_. seqE (transition MODEL_READY) (\<lambda>_. transition IDLE))"

text \<open>
  The process: its machine, the jobs the queue workers are running, and whether a shutdown has begun.
  A job begins and ends at any time; the shutdown drains, waits until no job is running (closing
  the queues) and stops.
\<close>

record worker_process =
  wp_health :: worker_health
  wp_running :: "string list"
  wp_draining :: bool

inductive worker_step :: "worker_process \<Rightarrow> worker_process \<Rightarrow> bool" where
  job_begins: "begin_work (wp_health p) = (r, h) \<Longrightarrow> wh_state (wp_health p) \<noteq> STOPPED
    \<Longrightarrow> worker_step p (p\<lparr> wp_health := h, wp_running := i # wp_running p \<rparr>)"
| job_ends: "i \<in> set (wp_running p) \<Longrightarrow> end_work (wp_health p) = (r, h)
    \<Longrightarrow> worker_step p (p\<lparr> wp_health := h, wp_running := remove1 i (wp_running p) \<rparr>)"
| shutdown_begins: "\<not> wp_draining p \<Longrightarrow> transition DRAINING (wp_health p) = (r, h)
    \<Longrightarrow> worker_step p (p\<lparr> wp_health := h, wp_draining := True \<rparr>)"
| shutdown_ends: "wp_draining p \<Longrightarrow> wp_running p = [] \<Longrightarrow> wh_state (wp_health p) \<noteq> STOPPED \<Longrightarrow> transition STOPPED (wp_health p) = (r, h)
    \<Longrightarrow> worker_step p (p\<lparr> wp_health := h \<rparr>)"

definition booted :: worker_process where
  "booted = \<lparr> wp_health = snd (boot initial_health), wp_running = [], wp_draining = False \<rparr>"

text \<open>The abstract worker: it serves, with the jobs it runs, then drains, then is stopped.\<close>

datatype worker_phase = Serving | Draining | Stopped

inductive phase_step :: "worker_phase \<times> string list \<Rightarrow> worker_phase \<times> string list \<Rightarrow> bool" where
  "ph \<noteq> Stopped \<Longrightarrow> phase_step (ph, js) (ph, i # js)"
| "i \<in> set js \<Longrightarrow> phase_step (ph, js) (ph, remove1 i js)"
| "phase_step (Serving, js) (Draining, js)"
| "phase_step (Draining, []) (Stopped, [])"

definition state_of :: "worker_phase \<Rightarrow> string list \<Rightarrow> worker_state" where
  "state_of ph js = (case ph of Serving \<Rightarrow> if js = [] then IDLE else PROCESSING | Draining \<Rightarrow> DRAINING | Stopped \<Rightarrow> STOPPED)"

definition phase_of :: "worker_process \<Rightarrow> worker_phase" where
  "phase_of p = (if wh_state (wp_health p) = STOPPED then Stopped else if wp_draining p then Draining else Serving)"

definition implements :: "worker_process \<Rightarrow> bool" where
  "implements p \<longleftrightarrow> wh_in_flight (wp_health p) = length (wp_running p)
     \<and> wh_state (wp_health p) = state_of (phase_of p) (wp_running p)
     \<and> (phase_of p = Stopped \<longrightarrow> wp_draining p \<and> wp_running p = [])"

subsection \<open>Laws\<close>

lemma begin_work_total: "fst (begin_work h) = Inr ()"
  by (auto simp: begin_work_def transition_def Let_def)

lemma end_work_total: "fst (end_work h) = Inr ()"
  by (auto simp: end_work_def transition_def Let_def)

lemma booted_implements: "implements booted" "phase_of booted = Serving" "wp_running booted = []"
  by (simp_all add: booted_def boot_def seqE_def transition_def initial_health_def implements_def phase_of_def state_of_def)

lemma begin_work_effect:
  "begin_work h = (Inr (), h\<lparr> wh_in_flight := wh_in_flight h + 1,
     wh_state := (if wh_in_flight h = 0 \<and> (wh_state h = IDLE \<or> wh_state h = MODEL_READY) then PROCESSING else wh_state h) \<rparr>)"
  by (auto simp: begin_work_def transition_def Let_def)

lemma end_work_effect:
  "end_work h = (Inr (), h\<lparr> wh_in_flight := wh_in_flight h - 1,
     wh_state := (if wh_in_flight h \<le> 1 \<and> wh_state h = PROCESSING then IDLE else wh_state h) \<rparr>)"
  by (auto simp: end_work_def transition_def Let_def)

lemma worker_step_refines:
  assumes "worker_step p p'" "implements p"
  shows "implements p' \<and> phase_step (phase_of p, wp_running p) (phase_of p', wp_running p')"
  using assms
proof (induction rule: worker_step.induct)
  case (job_begins p r h i)
  then have ph: "phase_of p \<noteq> Stopped" by (simp add: phase_of_def)
  let ?p = "p\<lparr> wp_health := h, wp_running := i # wp_running p \<rparr>"
  have h: "h = (wp_health p)\<lparr> wh_in_flight := wh_in_flight (wp_health p) + 1, wh_state := wh_state h \<rparr>"
    "wh_state h = (if wp_running p = [] \<and> wh_state (wp_health p) = IDLE then PROCESSING else wh_state (wp_health p))"
    using job_begins(1,3) ph by (auto simp: begin_work_effect implements_def state_of_def split: worker_phase.splits if_splits)
  have st: "wh_state h = state_of (phase_of p) (i # wp_running p)"
    using job_begins(3) ph unfolding h(2) by (cases "phase_of p") (auto simp: implements_def state_of_def)
  then have "phase_of ?p = phase_of p" using job_begins(3) ph
    by (cases "phase_of p") (auto simp: phase_of_def state_of_def implements_def split: if_splits)
  then have "implements ?p" using job_begins(3) ph st h(1) by (auto simp: implements_def)
  then show ?case using \<open>phase_of ?p = phase_of p\<close> ph by (auto intro: phase_step.intros)
next
  case (job_ends i p r h)
  let ?p = "p\<lparr> wp_health := h, wp_running := remove1 i (wp_running p) \<rparr>"
  have len: "length (remove1 i (wp_running p)) = length (wp_running p) - 1" "wp_running p \<noteq> []"
    using job_ends(1) by (auto simp: length_remove1)
  then have one: "remove1 i (wp_running p) = [] \<longleftrightarrow> length (wp_running p) \<le> 1" by (metis diff_is_0_eq length_0_conv)
  have ph: "phase_of p \<noteq> Stopped" using job_ends(3) len(2) by (auto simp: implements_def)
  have h: "wh_in_flight h = length (remove1 i (wp_running p))"
    "wh_state h = (if length (wp_running p) \<le> 1 \<and> wh_state (wp_health p) = PROCESSING then IDLE else wh_state (wp_health p))"
    using job_ends(2,3) len(1) by (auto simp: end_work_effect implements_def)
  have st: "wh_state h = state_of (phase_of p) (remove1 i (wp_running p))"
    using job_ends(3) ph len(2) one unfolding h(2) by (cases "phase_of p") (auto simp: implements_def state_of_def)
  then have "phase_of ?p = phase_of p" using job_ends(3) ph
    by (cases "phase_of p") (auto simp: phase_of_def state_of_def implements_def split: if_splits)
  then have "implements ?p" using job_ends(3) ph st h(1) by (auto simp: implements_def)
  then show ?case using \<open>phase_of ?p = phase_of p\<close> job_ends(1) by (auto intro: phase_step.intros)
next
  case (shutdown_begins p r h)
  then have "implements (p\<lparr> wp_health := h, wp_draining := True \<rparr>)
      \<and> phase_of p = Serving \<and> phase_of (p\<lparr> wp_health := h, wp_draining := True \<rparr>) = Draining"
    by (auto simp: transition_def implements_def phase_of_def state_of_def split: if_splits)
  then show ?case by (auto intro: phase_step.intros)
next
  case (shutdown_ends p r h)
  then have "phase_of p = Draining" by (simp add: phase_of_def)
  then show ?case using shutdown_ends
    by (auto simp: transition_def phase_of_def implements_def state_of_def intro: phase_step.intros split: if_splits)
qed

lemma worker_run_refines:
  assumes "worker_step\<^sup>*\<^sup>* booted p"
  shows "implements p \<and> phase_step\<^sup>*\<^sup>* (Serving, []) (phase_of p, wp_running p)"
  using assms
proof (induction rule: rtranclp_induct)
  case base
  then show ?case by (simp add: booted_implements)
next
  case (step p q)
  then show ?case using worker_step_refines by (meson rtranclp.rtrancl_into_rtrancl)
qed

end
