(* ===== verification/AuthLaws.thy ===== *)
theory AuthLaws
  imports Users
begin

text \<open>
  Refresh tokens as a state machine.  \<open>token_move\<close> is the abstract specification, on sessions and
  tokens alone: a session opens with one token of a new family, a live token is rotated into a new one
  of its family, sessions and tokens are revoked.  Every operation of identity is at most one move,
  so what is proved of the moves holds of any history of operations (\<open>auth_step\<close>).
\<close>

subsection \<open>The abstract machine\<close>

definition live_token :: "refresh_token \<Rightarrow> bool" where
  "live_token t \<longleftrightarrow> rt_rotated_at t = None \<and> rt_revoked_at t = None"

definition same_token :: "refresh_token \<Rightarrow> refresh_token \<Rightarrow> bool" where
  "same_token t t' \<longleftrightarrow> rt_id t' = rt_id t \<and> rt_hash t' = rt_hash t \<and> rt_family_id t' = rt_family_id t
     \<and> rt_session_id t' = rt_session_id t \<and> rt_user_id t' = rt_user_id t"

definition revoking :: "(refresh_token \<Rightarrow> refresh_token) \<Rightarrow> bool" where
  "revoking g \<longleftrightarrow> (\<forall>t. same_token t (g t) \<and> rt_revoked_at (g t) \<noteq> None)"

type_synonym token_view = "auth_session list \<times> refresh_token list"

inductive token_move :: "token_view \<Rightarrow> token_view \<Rightarrow> bool" where
  stay: "token_move v v"
| opened: "se_id s \<notin> se_id ` set ss \<Longrightarrow> token_move (ss, ts) (ss @ [s], ts)"
| issue: "se_id s \<notin> se_id ` set ss \<Longrightarrow> rt_id t \<notin> rt_id ` set ts \<Longrightarrow> rt_hash t \<notin> rt_hash ` set ts
    \<Longrightarrow> rt_family_id t \<notin> rt_family_id ` set ts \<Longrightarrow> rt_session_id t = se_id s \<Longrightarrow> rt_user_id t = se_user_id s
    \<Longrightarrow> live_token t \<Longrightarrow> token_move (ss, ts) (ss @ [s], ts @ [t])"
| rotate: "t \<in> set ts \<Longrightarrow> live_token t \<Longrightarrow> live_token n \<Longrightarrow> rt_id n \<notin> rt_id ` set ts \<Longrightarrow> rt_hash n \<notin> rt_hash ` set ts
    \<Longrightarrow> rt_family_id n = rt_family_id t \<Longrightarrow> rt_session_id n = rt_session_id t \<Longrightarrow> rt_user_id n = rt_user_id t
    \<Longrightarrow> token_move (ss, ts) (update_where P (\<lambda>s. s\<lparr> se_last_seen := Some now \<rparr>) ss,
          update_where (\<lambda>r. rt_id r = rt_id t) (rotate_token now (rt_id n)) (ts @ [n]))"
| revoke: "revoking g \<Longrightarrow> token_move (ss, ts)
      (update_where Q (revoke_session_row now reason) ss, update_where P g ts)"

inductive_cases token_moveE: "token_move (ss, ts) v"

text \<open>
  The invariant: ids and hashes are unique, a family belongs to one session and one user, and it has
  at most one live token.
\<close>

definition token_inv :: "token_view \<Rightarrow> bool" where
  "token_inv v \<longleftrightarrow> (case v of (ss, ts) \<Rightarrow>
     distinct (map se_id ss) \<and> distinct (map rt_id ts) \<and> distinct (map rt_hash ts)
     \<and> (\<forall>t \<in> set ts. \<exists>s \<in> set ss. se_id s = rt_session_id t \<and> se_user_id s = rt_user_id t)
     \<and> (\<forall>t \<in> set ts. \<forall>u \<in> set ts. rt_family_id t = rt_family_id u
          \<longrightarrow> rt_session_id t = rt_session_id u \<and> rt_user_id t = rt_user_id u
            \<and> (live_token t \<and> live_token u \<longrightarrow> t = u)))"

text \<open>A family is dead when it has tokens and all are revoked.\<close>

definition dead_family :: "string \<Rightarrow> refresh_token list \<Rightarrow> bool" where
  "dead_family f ts \<longleftrightarrow> f \<in> rt_family_id ` set ts \<and> (\<forall>t \<in> set ts. rt_family_id t = f \<longrightarrow> rt_revoked_at t \<noteq> None)"

lemma same_token_rotate: "same_token t (rotate_token now i t)"
  by (simp add: same_token_def rotate_token_def)

lemma live_rotate [simp]: "\<not> live_token (rotate_token now i t)"
  by (simp add: live_token_def rotate_token_def)

lemma map_update_where: "(\<And>r. k (f r) = k r) \<Longrightarrow> map k (update_where P f t) = map k t"
  by (induction t) auto

lemma update_where_mem:
  "r' \<in> set (update_where P f t) \<longleftrightarrow> (\<exists>r \<in> set t. r' = (if P r then f r else r))"
  by (auto simp: update_where_def)

lemma revoke_session_row_simps [simp]:
  "se_id (revoke_session_row now reason s) = se_id s" "se_user_id (revoke_session_row now reason s) = se_user_id s"
  "se_revoked_at (revoke_session_row now reason s) = Some now"
  by (simp_all add: revoke_session_row_def)

lemma token_inv_intro:
  assumes "distinct (map se_id ss)" "distinct (map rt_id ts)" "distinct (map rt_hash ts)"
    and "\<And>t. t \<in> set ts \<Longrightarrow> \<exists>s \<in> set ss. se_id s = rt_session_id t \<and> se_user_id s = rt_user_id t"
    and "\<And>t u. t \<in> set ts \<Longrightarrow> u \<in> set ts \<Longrightarrow> rt_family_id t = rt_family_id u
          \<Longrightarrow> rt_session_id t = rt_session_id u \<and> rt_user_id t = rt_user_id u \<and> (live_token t \<and> live_token u \<longrightarrow> t = u)"
  shows "token_inv (ss, ts)"
  unfolding token_inv_def prod.case using assms by (intro conjI ballI impI) blast+

lemma token_invD:
  assumes "token_inv (ss, ts)"
  shows "distinct (map se_id ss)" "distinct (map rt_id ts)" "distinct (map rt_hash ts)"
    and "\<And>t. t \<in> set ts \<Longrightarrow> \<exists>s \<in> set ss. se_id s = rt_session_id t \<and> se_user_id s = rt_user_id t"
    and "\<And>t u. t \<in> set ts \<Longrightarrow> u \<in> set ts \<Longrightarrow> rt_family_id t = rt_family_id u \<Longrightarrow> rt_session_id t = rt_session_id u
          \<and> rt_user_id t = rt_user_id u \<and> (live_token t \<and> live_token u \<longrightarrow> t = u)"
  using assms unfolding token_inv_def prod.case by blast+

lemma sessions_updated:
  assumes "\<And>s. se_id (f s) = se_id s" "\<And>s. se_user_id (f s) = se_user_id s"
    and "\<exists>s \<in> set ss. se_id s = i \<and> se_user_id s = u"
  shows "\<exists>s \<in> set (update_where P f ss). se_id s = i \<and> se_user_id s = u"
proof -
  obtain s where "s \<in> set ss" "se_id s = i" "se_user_id s = u" using assms(3) by blast
  then have "se_id (if P s then f s else s) = i \<and> se_user_id (if P s then f s else s) = u"
    "(if P s then f s else s) \<in> set (update_where P f ss)" using assms(1,2) by (auto simp: update_where_def)
  then show ?thesis by blast
qed

lemma token_inv_rotate:
  assumes inv: "token_inv (ss, ts)" and t: "t \<in> set ts" "live_token t" and n: "live_token n"
    and fresh: "rt_id n \<notin> rt_id ` set ts" "rt_hash n \<notin> rt_hash ` set ts"
    and same: "rt_family_id n = rt_family_id t" "rt_session_id n = rt_session_id t" "rt_user_id n = rt_user_id t"
  shows "token_inv (update_where P (\<lambda>s. s\<lparr> se_last_seen := Some now \<rparr>) ss,
          update_where (\<lambda>r. rt_id r = rt_id t) (rotate_token now (rt_id n)) (ts @ [n]))"
    (is "token_inv (?ss, update_where _ ?f (ts @ [n]))")
proof (rule token_inv_intro)
  let ?ts = "update_where (\<lambda>r. rt_id r = rt_id t) ?f (ts @ [n])"
  note d = token_invD(1-3) [OF inv] and fam = token_invD(5) [OF inv] and sess = token_invD(4) [OF inv]
  show "distinct (map se_id ?ss)" using d by (simp add: map_update_where)
  show "distinct (map rt_id ?ts)" "distinct (map rt_hash ?ts)"
    using d fresh by (simp_all add: map_update_where rotate_token_def)
  have mem: "x \<in> set ?ts \<Longrightarrow> x = n \<or> (\<exists>y \<in> set ts. same_token y x \<and> (x = y \<and> rt_id y \<noteq> rt_id t \<or> \<not> live_token x \<and> y = t))" for x
  proof -
    assume "x \<in> set ?ts"
    then obtain y where y: "y \<in> set (ts @ [n])" "x = (if rt_id y = rt_id t then ?f y else y)" by (auto simp: update_where_mem)
    have "rt_id n \<noteq> rt_id t" using fresh t by auto
    then consider "x = n" | "y \<in> set ts" using y by auto
    then show ?thesis
    proof cases
      case 2
      have "rt_id y = rt_id t \<Longrightarrow> y = t" using d(2) 2 t(1) by (metis distinct_map inj_onD)
      then show ?thesis using 2 y(2) same_token_rotate by (auto simp: same_token_def split: if_splits)
    qed simp
  qed
  show "\<exists>s \<in> set ?ss. se_id s = rt_session_id x \<and> se_user_id s = rt_user_id x" if "x \<in> set ?ts" for x
  proof (rule sessions_updated)
    show "\<exists>s \<in> set ss. se_id s = rt_session_id x \<and> se_user_id s = rt_user_id x"
      using mem [OF that] sess t(1) same by (auto simp: same_token_def)
  qed simp_all
  show "rt_session_id x = rt_session_id y \<and> rt_user_id x = rt_user_id y \<and> (live_token x \<and> live_token y \<longrightarrow> x = y)"
    if xy: "x \<in> set ?ts" "y \<in> set ?ts" "rt_family_id x = rt_family_id y" for x y
  proof -
    have only: "z \<in> set ts \<Longrightarrow> rt_family_id z = rt_family_id t \<Longrightarrow> live_token z \<Longrightarrow> z = t" for z
      using fam [of z t] t by blast
    have same_fam: "\<exists>a \<in> set ts. rt_family_id a = rt_family_id z \<and> rt_session_id a = rt_session_id z \<and> rt_user_id a = rt_user_id z"
      if "z \<in> set ?ts" for z using mem [OF that] t(1) same by (auto simp: same_token_def)
    have live: "z = n \<or> z \<in> set ts \<and> rt_id z \<noteq> rt_id t" if "z \<in> set ?ts" "live_token z" for z
      using mem [OF that(1)] that(2) by auto
    have "x = y" if l: "live_token x" "live_token y"
    proof -
      have "rt_family_id z \<noteq> rt_family_id n" if z: "z \<in> set ts" "rt_id z \<noteq> rt_id t" "live_token z" for z
        using only [OF z(1) _ z(3)] z(2) same(1) by auto
      then show ?thesis using live [OF xy(1) l(1)] live [OF xy(2) l(2)] l xy(3) fam [of x y] by metis
    qed
    moreover obtain a b where "a \<in> set ts" "b \<in> set ts" "rt_family_id a = rt_family_id x" "rt_family_id b = rt_family_id y"
      "rt_session_id a = rt_session_id x" "rt_user_id a = rt_user_id x" "rt_session_id b = rt_session_id y" "rt_user_id b = rt_user_id y"
      using same_fam [OF xy(1)] same_fam [OF xy(2)] by blast
    ultimately show ?thesis using fam [of a b] xy(3) by simp
  qed
qed

lemma token_inv_revoke:
  assumes inv: "token_inv (ss, ts)" and g: "revoking g"
  shows "token_inv (update_where Q (revoke_session_row now reason) ss, update_where P g ts)"
proof (rule token_inv_intro)
  note d = token_invD(1-3) [OF inv] and fam = token_invD(5) [OF inv] and sess = token_invD(4) [OF inv]
  have gs: "same_token t (g t)" "\<not> live_token (g t)" for t using g by (auto simp: revoking_def live_token_def)
  let ?ts = "update_where P g ts"
  show "distinct (map se_id (update_where Q (revoke_session_row now reason) ss))" using d by (simp add: map_update_where)
  show "distinct (map rt_id ?ts)" "distinct (map rt_hash ?ts)"
    using d gs(1) by (simp_all add: map_update_where same_token_def)
  have mem: "x \<in> set ?ts \<Longrightarrow> \<exists>y \<in> set ts. same_token y x \<and> (x = y \<or> \<not> live_token x)" for x
    using gs by (fastforce simp: update_where_mem same_token_def)
  show "\<exists>s \<in> set (update_where Q (revoke_session_row now reason) ss). se_id s = rt_session_id x \<and> se_user_id s = rt_user_id x"
    if "x \<in> set ?ts" for x
  proof (rule sessions_updated)
    show "\<exists>s \<in> set ss. se_id s = rt_session_id x \<and> se_user_id s = rt_user_id x"
      using mem [OF that] sess by (auto simp: same_token_def)
  qed simp_all
  show "rt_session_id x = rt_session_id y \<and> rt_user_id x = rt_user_id y \<and> (live_token x \<and> live_token y \<longrightarrow> x = y)"
    if xy: "x \<in> set ?ts" "y \<in> set ?ts" "rt_family_id x = rt_family_id y" for x y
  proof -
    obtain a b where ab: "a \<in> set ts" "b \<in> set ts" "same_token a x" "same_token b y"
      "x = a \<or> \<not> live_token x" "y = b \<or> \<not> live_token y" using mem [OF xy(1)] mem [OF xy(2)] by blast
    then have "rt_family_id a = rt_family_id b" using xy(3) by (simp add: same_token_def)
    then show ?thesis using fam [OF ab(1,2)] ab(3-6) by (auto simp: same_token_def)
  qed
qed

lemma token_inv_issue:
  assumes inv: "token_inv (ss, ts)" and fresh: "se_id s \<notin> se_id ` set ss" "rt_id t \<notin> rt_id ` set ts"
      "rt_hash t \<notin> rt_hash ` set ts" "rt_family_id t \<notin> rt_family_id ` set ts"
    and same: "rt_session_id t = se_id s" "rt_user_id t = se_user_id s"
  shows "token_inv (ss @ [s], ts @ [t])"
proof (rule token_inv_intro)
  note d = token_invD [OF inv]
  have other: "rt_family_id x \<noteq> rt_family_id t" if "x \<in> set ts" for x using fresh(4) that by (metis imageI)
  show "distinct (map se_id (ss @ [s]))" "distinct (map rt_id (ts @ [t]))" "distinct (map rt_hash (ts @ [t]))"
    using d(1-3) fresh by simp_all
  show "\<exists>s' \<in> set (ss @ [s]). se_id s' = rt_session_id x \<and> se_user_id s' = rt_user_id x" if "x \<in> set (ts @ [t])" for x
    using d(4) [of x] that same by (cases "x = t") auto
  show "rt_session_id x = rt_session_id y \<and> rt_user_id x = rt_user_id y \<and> (live_token x \<and> live_token y \<longrightarrow> x = y)"
    if "x \<in> set (ts @ [t])" "y \<in> set (ts @ [t])" "rt_family_id x = rt_family_id y" for x y
    using d(5) [of x y] that other by (metis Un_iff empty_iff empty_set list.set(2) insert_iff set_append)
qed

lemma token_inv_opened:
  assumes inv: "token_inv (ss, ts)" and fresh: "se_id s \<notin> se_id ` set ss"
  shows "token_inv (ss @ [s], ts)"
proof (rule token_inv_intro)
  note d = token_invD [OF inv]
  show "distinct (map se_id (ss @ [s]))" "distinct (map rt_id ts)" "distinct (map rt_hash ts)" using d(1-3) fresh by simp_all
  show "\<exists>s' \<in> set (ss @ [s]). se_id s' = rt_session_id x \<and> se_user_id s' = rt_user_id x" if "x \<in> set ts" for x
    using d(4) [OF that] by auto
qed (rule token_invD(5) [OF inv])

lemma token_inv_move: "token_move v v' \<Longrightarrow> token_inv v \<Longrightarrow> token_inv v'"
proof (induction rule: token_move.induct)
  case (opened s ss ts)
  then show ?case by (intro token_inv_opened)
next
  case (issue s ss t ts)
  then show ?case by (intro token_inv_issue)
next
  case (rotate t ts n ss P now)
  then show ?case by (intro token_inv_rotate)
next
  case (revoke g ss ts Q now reason P)
  then show ?case by (intro token_inv_revoke)
qed

text \<open>A token keeps its identity through every move, and a dead family stays dead.\<close>

lemma token_kept_update:
  assumes "t \<in> set ts" "\<And>x. same_token x (f x)"
  shows "\<exists>t' \<in> set (update_where P f ts). same_token t t'"
  using assms by (intro bexI [of _ "if P t then f t else t"]) (auto simp: update_where_mem same_token_def)

lemma token_kept: "token_move v v' \<Longrightarrow> t \<in> set (snd v) \<Longrightarrow> \<exists>t' \<in> set (snd v'). same_token t t'"
proof (induction rule: token_move.induct)
  case (rotate t0 ts n ss P now)
  then show ?case using token_kept_update [of t "ts @ [n]"] same_token_rotate by simp
next
  case (revoke g ss ts Q now reason P)
  then show ?case using token_kept_update [of t ts g P] by (simp add: revoking_def)
qed (auto simp: same_token_def)

lemma dead_family_alt: "dead_family f ts \<longleftrightarrow>
    (\<exists>t \<in> set ts. rt_family_id t = f) \<and> (\<forall>t \<in> set ts. rt_family_id t = f \<longrightarrow> rt_revoked_at t \<noteq> None)"
  by (auto simp: dead_family_def)

lemma dead_family_move: "token_move v v' \<Longrightarrow> dead_family f (snd v) \<Longrightarrow> dead_family f (snd v')"
proof -
  assume move: "token_move v v'" and dead: "dead_family f (snd v)"
  obtain t where t: "t \<in> set (snd v)" "rt_family_id t = f" using dead by (auto simp: dead_family_alt)
  then have "\<exists>t' \<in> set (snd v'). rt_family_id t' = f"
    using token_kept [OF move t(1)] by (auto simp: same_token_def)
  moreover have "\<forall>x \<in> set (snd v'). rt_family_id x = f \<longrightarrow> rt_revoked_at x \<noteq> None"
    using move dead
  proof (induction rule: token_move.induct)
    case (issue s ss t ts)
    then show ?case by (auto simp: dead_family_alt)
  next
    case (rotate t ts n ss P now)
    then have "f \<noteq> rt_family_id t" by (auto simp: dead_family_alt live_token_def)
    then show ?case using rotate by (auto simp: dead_family_alt update_where_mem rotate_token_def split: if_splits)
  next
    case (revoke g ss ts Q now reason P)
    then show ?case by (auto simp: dead_family_alt update_where_mem revoking_def same_token_def split: if_splits)
  qed (auto simp: dead_family_alt)
  ultimately show ?thesis by (simp add: dead_family_alt)
qed

end
