(* ===== verification/AuthHistory.thy ===== *)
theory AuthHistory
  imports AuthLaws
begin

text \<open>
  The operations of identity refine the token machine: whatever a call answers, its effect on the
  sessions and tokens is one \<open>token_move\<close>.  \<open>auth_step\<close> is one call of any operation; families
  are minted fresh, as \<open>generateId\<close> promises.
\<close>

definition tview :: "'r auth_db \<Rightarrow> token_view" where
  "tview w = (ab_sessions w, ab_tokens w)"

text \<open>Steps that leave sessions and tokens alone.\<close>

definition keeps :: "('r auth_db \<Rightarrow> (thrown + 'a) \<times> 'r auth_db) \<Rightarrow> bool" where
  "keeps m \<longleftrightarrow> (\<forall>w r w'. m w = (r, w') \<longrightarrow> tview w' = tview w)"

named_theorems keeps_intros \<open>steps that leave sessions and tokens alone\<close>

lemma keepsD: "keeps m \<Longrightarrow> m w = (r, w') \<Longrightarrow> tview w' = tview w"
  by (simp add: keeps_def)

lemma keeps_seqE [keeps_intros]: "keeps m \<Longrightarrow> (\<And>x. keeps (f x)) \<Longrightarrow> keeps (seqE m f)"
  by (auto simp: keeps_def elim!: seqE_cases)

lemma keeps_transaction [keeps_intros]: "keeps m \<Longrightarrow> keeps (with_transaction m)"
  by (auto simp: keeps_def with_transaction_def split: prod.splits sum.splits)

lemma keeps_returnE [keeps_intros]: "keeps (returnE x)"
  by (simp add: keeps_def)

lemma keeps_throwE [keeps_intros]: "keeps (throwE x)"
  by (simp add: keeps_def)

lemma keeps_doE [keeps_intros]: "(\<And>w. tview (f w) = tview w) \<Longrightarrow> keeps (doE f)"
  by (auto simp: keeps_def)

lemma keeps_pure [keeps_intros]: "keeps (\<lambda>w. (r, w))"
  by (simp add: keeps_def)

lemma keeps_on_table: "(\<And>t w. tview (put t w) = tview w) \<Longrightarrow> keeps (on_table get put f)"
  by (auto simp: keeps_def elim!: on_table_cases)

lemma keeps_tables [keeps_intros]:
  "keeps (create_tenant t)" "keeps (create_user u)" "keeps (update_user i fu)" "keeps (create_credential c)"
  "keeps (update_credential i fc)"
  unfolding table_step_defs by (rule keeps_on_table; simp add: tview_def)+

lemma keeps_redis [keeps_intros]: "keeps (redis_step op)"
  by (auto simp: keeps_def redis_step_def tview_def split: prod.splits)

lemma tview_simps [simp]:
  "tview (add_outbox i e now d w) = tview w" "tview (trail_record ok i now en w) = tview w"
  "tview (ab_trail_update h w) = tview w"
  by (simp_all add: tview_def add_outbox_def trail_record_def)

lemma keeps_register_commit [keeps_intros]: "keeps (register_commit ev email name password)"
  unfolding register_commit_def by (intro keeps_intros) simp_all

subsection \<open>Every operation is a move\<close>

lemma register_keeps: "register dp ev body w = (r, w') \<Longrightarrow> tview w' = tview w"
  by (auto simp: register_def Let_def dest: keepsD [OF keeps_register_commit] split: if_splits prod.splits sum.splits)

lemma issue_session_move:
  assumes "issue_session dp ev u meta w = (r, w')" "av_ids ev 2 \<notin> rt_family_id ` set (ab_tokens w)"
  shows "token_move (tview w) (tview w')"
proof -
  let ?s = "new_session dp ev u meta"
  let ?t = "new_token dp (av_now ev) (av_ids ev 1) (av_ids ev 0) (us_id u) (av_ids ev 2) (av_random ev)"
  from assms(1) show ?thesis unfolding issue_session_def
  proof (cases rule: seqE_cases)
    case (stop e)
    then show ?thesis by (auto simp: create_session_def elim!: on_table_cases intro: stay)
  next
    case (go x w1)
    have w1: "w1 = w\<lparr> ab_sessions := ab_sessions w @ [?s] \<rparr>" and s: "se_id ?s \<notin> se_id ` set (ab_sessions w)"
      using go(1) by (auto simp: create_session_def elim!: on_table_cases dest!: create_row_Inr)
    from go(2) show ?thesis
    proof (cases rule: seqE_cases)
      case (stop e)
      then have "w' = w1" by (auto simp: create_token_def elim!: on_table_cases)
      then show ?thesis using s w1 by (simp add: tview_def opened)
    next
      case (go x w2)
      have w2: "w2 = w1\<lparr> ab_tokens := ab_tokens w @ [?t] \<rparr>"
        and t: "rt_id ?t \<notin> rt_id ` set (ab_tokens w)" "rt_hash ?t \<notin> rt_hash ` set (ab_tokens w)"
        using go(1) w1 by (auto simp: create_token_def elim!: on_table_cases dest!: create_row_Inr)
      have "tview w' = tview w2" using go(2) by (rule keepsD [rotated]) (intro keeps_intros; simp)
      then show ?thesis unfolding w2 w1 using s t assms(2)
        by (simp add: tview_def, intro issue) (simp_all add: new_token_def new_session_def live_token_def)
    qed
  qed
qed

text \<open>Steps that make one move when the tokens are \<open>ts\<close>.\<close>

definition moves :: "refresh_token list \<Rightarrow> ('r auth_db \<Rightarrow> (thrown + 'a) \<times> 'r auth_db) \<Rightarrow> bool" where
  "moves ts m \<longleftrightarrow> (\<forall>w r w'. ab_tokens w = ts \<longrightarrow> m w = (r, w') \<longrightarrow> token_move (tview w) (tview w'))"

lemma movesD: "moves (ab_tokens w) m \<Longrightarrow> m w = (r, w') \<Longrightarrow> token_move (tview w) (tview w')"
  by (simp add: moves_def)

lemma move_same: "tview w' = tview w \<Longrightarrow> token_move (tview w) (tview w')"
  by (simp add: stay)

lemma keeps_moves: "keeps m \<Longrightarrow> moves ts m"
  using stay by (auto simp: keeps_def moves_def)

lemma keeps_then_moves:
  assumes "keeps m" "\<And>x. moves ts (f x)"
  shows "moves ts (seqE m f)"
  unfolding moves_def
proof (intro allI impI)
  fix w r w' assume ts: "ab_tokens w = ts" and run: "seqE m f w = (r, w')"
  from run show "token_move (tview w) (tview w')"
  proof (cases rule: seqE_cases)
    case (stop e)
    then show ?thesis using keepsD [OF assms(1)] stay by metis
  next
    case (go x w1)
    have v: "tview w1 = tview w" using keepsD [OF assms(1) go(1)] .
    then have "ab_tokens w1 = ts" using ts by (simp add: tview_def)
    then show ?thesis using assms(2) go(2) v unfolding moves_def by metis
  qed
qed

lemma moves_then_keeps:
  assumes "moves ts m" "\<And>x. keeps (f x)"
  shows "moves ts (seqE m f)"
  unfolding moves_def
proof (intro allI impI)
  fix w r w' assume ts: "ab_tokens w = ts" and run: "seqE m f w = (r, w')"
  from run show "token_move (tview w) (tview w')"
  proof (cases rule: seqE_cases)
    case (stop e)
    then show ?thesis using assms(1) ts unfolding moves_def by blast
  next
    case (go x w1)
    then show ?thesis using assms(1) ts keepsD [OF assms(2) go(2)] unfolding moves_def by metis
  qed
qed

lemma moves_if: "(b \<Longrightarrow> moves ts m) \<Longrightarrow> (\<not> b \<Longrightarrow> moves ts m') \<Longrightarrow> moves ts (if b then m else m')"
  by simp

lemma issue_session_moves: "av_ids ev 2 \<notin> rt_family_id ` set ts \<Longrightarrow> moves ts (issue_session dp ev u meta)"
  unfolding moves_def using issue_session_move by blast

lemma login_account_found:
  assumes "login_account email w = Some (u, c)"
  shows "u \<in> set (ab_users w)" "c \<in> set (ab_credentials w)" "uc_user_id c = us_id u" "us_status u = ''ACTIVE''"
    "us_email u = email" "find_row (\<lambda>c. uc_user_id c = us_id u) (ab_credentials w) = Some c"
  using assms by (auto simp: login_account_def split: option.splits if_splits dest: find_row_Some)

lemma login_success_moves:
  "av_ids ev 2 \<notin> rt_family_id ` set ts \<Longrightarrow> moves ts (login_success dp ev body meta u c)"
  unfolding login_success_def
  by (intro keeps_then_moves moves_if moves_then_keeps issue_session_moves keeps_moves keeps_intros)

lemma keeps_login_failure [keeps_intros]: "keeps (login_failure dp ev u c)"
  unfolding login_failure_def by (intro keeps_intros)

lemma login_move:
  assumes "login dp ev body meta w = (r, w')" "av_ids ev 2 \<notin> rt_family_id ` set (ab_tokens w)"
  shows "token_move (tview w) (tview w')"
  using assms(1) movesD [OF login_success_moves [OF assms(2)]]
  by (auto simp: login_def stay intro!: move_same dest: keepsD [OF keeps_login_failure] split: option.splits prod.splits if_splits)

lemma exchange_mfa_move:
  assumes "exchange_mfa dp ev token otp meta w = (r, w')" "av_ids ev 2 \<notin> rt_family_id ` set (ab_tokens w)"
  shows "token_move (tview w) (tview w')"
  using assms(1) movesD [OF keeps_then_moves [OF keeps_redis issue_session_moves [OF assms(2)]]]
  by (auto simp: exchange_mfa_def stay split: option.splits sum.splits if_splits)

lemma revoking_simps [simp]: "revoking (revoke_token now)" "revoking (revoke_reused now)"
  by (simp_all add: revoking_def revoke_token_def revoke_reused_def same_token_def)

lemma revoke_family_move: "token_move (tview w) (tview (revoke_family now f reason w))"
  by (simp add: tview_def revoke_family_def update_sessions_def update_tokens_def Let_def revoke)

lemma refresh_read_found:
  assumes "refresh_read h now w = d"
  shows "d = Rotate t u \<Longrightarrow> t \<in> set (ab_tokens w) \<and> rt_hash t = h \<and> live_token t \<and> now \<le> rt_expires t
      \<and> u \<in> set (ab_users w) \<and> us_id u = rt_user_id t \<and> (\<exists>s \<in> set (ab_sessions w). se_id s = rt_session_id t \<and> se_revoked_at s = None)"
    and "d = ReuseDetected t u \<Longrightarrow> t \<in> set (ab_tokens w) \<and> rt_hash t = h \<and> rt_rotated_at t \<noteq> None \<and> rt_revoked_at t = None"
  using assms by (auto simp: refresh_read_def live_token_def split: option.splits if_splits dest!: find_row_Some)

lemma rotate_commit_move:
  assumes "with_transaction (
       seqE (create_token (new_token dp now i (rt_session_id t) (rt_user_id t) (rt_family_id t) plain)) (\<lambda>_.
       seqE (update_token (rt_id t) (rotate_token now i)) (\<lambda>_.
       update_session (rt_session_id t) (\<lambda>s. s\<lparr> se_last_seen := Some now \<rparr>)))) w = (r, w')"
    and "t \<in> set (ab_tokens w)" "live_token t"
  shows "token_move (tview w) (tview w')"
proof (cases r)
  case (Inl e)
  then show ?thesis using assms(1) with_transaction_Inl stay by metis
next
  case (Inr x)
  let ?n = "new_token dp now i (rt_session_id t) (rt_user_id t) (rt_family_id t) plain"
  from with_transaction_Inr [OF assms(1) [unfolded Inr]]
  obtain w1 w2 where w1: "create_token ?n w = (Inr (), w1)" and w2: "update_token (rt_id t) (rotate_token now i) w1 = (Inr (), w2)"
    and w': "update_session (rt_session_id t) (\<lambda>s. s\<lparr> se_last_seen := Some now \<rparr>) w2 = (Inr x, w')"
    by (auto simp: seqE_Inr)
  have 1: "w1 = w\<lparr> ab_tokens := ab_tokens w @ [?n] \<rparr>" "rt_id ?n \<notin> rt_id ` set (ab_tokens w)" "rt_hash ?n \<notin> rt_hash ` set (ab_tokens w)"
    using w1 by (auto simp: create_token_def elim!: on_table_cases dest!: create_row_Inr)
  have 2: "w2 = w1\<lparr> ab_tokens := update_where (\<lambda>r. rt_id r = rt_id t) (rotate_token now (rt_id ?n)) (ab_tokens w1) \<rparr>"
    using w2 by (auto simp: update_token_def new_token_def elim!: on_table_cases dest!: update_row_Inr)
  have 3: "w' = w2\<lparr> ab_sessions := update_where (\<lambda>s. se_id s = rt_session_id t) (\<lambda>s. s\<lparr> se_last_seen := Some now \<rparr>) (ab_sessions w2) \<rparr>"
    using w' by (auto simp: update_session_def elim!: on_table_cases dest!: update_row_Inr)
  have "token_move (ab_sessions w, ab_tokens w) (update_where (\<lambda>s. se_id s = rt_session_id t) (\<lambda>s. s\<lparr> se_last_seen := Some now \<rparr>) (ab_sessions w),
      update_where (\<lambda>r. rt_id r = rt_id t) (rotate_token now (rt_id ?n)) (ab_tokens w @ [?n]))"
    using assms(2,3) 1(2,3) by (intro rotate) (simp_all add: new_token_def live_token_def)
  then show ?thesis unfolding 3 2 1(1) by (simp add: tview_def)
qed

lemma refresh_rotate_moves:
  assumes "t \<in> set ts" "live_token t"
  shows "moves ts (refresh_rotate dp ev t u)"
  unfolding refresh_rotate_def
proof (rule moves_then_keeps)
  show "moves ts (with_transaction (
       seqE (create_token (new_token dp (av_now ev) (av_ids ev 0) (rt_session_id t) (rt_user_id t) (rt_family_id t) (av_random ev))) (\<lambda>_.
       seqE (update_token (rt_id t) (rotate_token (av_now ev) (av_ids ev 0))) (\<lambda>_.
       update_session (rt_session_id t) (\<lambda>s. s\<lparr> se_last_seen := Some (av_now ev) \<rparr>)))))"
    unfolding moves_def using rotate_commit_move assms by blast
qed (intro keeps_intros)

lemma refresh_move:
  assumes "refresh dp ev plain w = (r, w')"
  shows "token_move (tview w) (tview w')"
proof (cases "refresh_read (ad_sha dp plain) (av_now ev) w")
  case (Rotate t u)
  then have t: "t \<in> set (ab_tokens w)" "live_token t" using refresh_read_found(1) by blast+
  then have "moves (ab_tokens w) (refresh_rotate dp ev t u)" by (rule refresh_rotate_moves)
  then show ?thesis using assms Rotate movesD by (auto simp: refresh_def refresh_act_def)
qed (use assms revoke_family_move stay in \<open>auto simp: refresh_def refresh_act_def\<close>)

lemma update_session_Inr: "update_session i f w = (Inr x, w') \<Longrightarrow> w' = update_sessions (\<lambda>s. se_id s = i) f w"
  by (auto simp: update_session_def update_sessions_def elim!: on_table_cases dest!: update_row_Inr)

lemma close_session_move: "moves ts (close_session now i reason)"
  unfolding moves_def
proof (intro allI impI)
  fix w r w' assume run: "close_session now i reason w = (r, w')"
  show "token_move (tview w) (tview w')"
  proof (cases r)
    case (Inl e)
    have "w' = w" using run unfolding Inl close_session_def by (rule with_transaction_Inl)
    then show ?thesis by (simp add: stay)
  next
    case (Inr x)
    from with_transaction_Inr [OF run [unfolded close_session_def Inr]]
    obtain w1 where w1: "update_session i (revoke_session_row now reason) w = (Inr (), w1)"
      and w': "w' = update_tokens (\<lambda>t. rt_session_id t = i \<and> rt_revoked_at t = None) (revoke_token now) w1"
      by (auto simp: seqE_Inr)
    have "w1 = update_sessions (\<lambda>s. se_id s = i) (revoke_session_row now reason) w" using w1 by (rule update_session_Inr)
    then show ?thesis unfolding w' by (simp add: tview_def update_tokens_def update_sessions_def revoke)
  qed
qed

lemma close_then_audit: "moves ts (seqE (close_session now i reason) (\<lambda>_. doE (trail_record ok k t entry)))"
  by (intro moves_then_keeps close_session_move keeps_intros) simp

lemma logout_move: "logout ev user sid w = (r, w') \<Longrightarrow> token_move (tview w) (tview w')"
  by (auto simp: logout_def stay split: if_splits option.splits
      intro: movesD [OF close_then_audit])

lemma revoke_session_move: "revoke_session ev who sid w = (r, w') \<Longrightarrow> token_move (tview w) (tview w')"
  by (auto simp: revoke_session_def stay split: if_splits option.splits
      intro: movesD [OF close_then_audit])

lemma keeps_redis_outbox: "keeps (seqE (redis_step op) (\<lambda>_. doE (add_outbox i e now d)))"
  by (intro keeps_intros) simp

lemma request_password_reset_keeps: "request_password_reset dp ev email w = (r, w') \<Longrightarrow> tview w' = tview w"
  by (auto simp: request_password_reset_def split: option.splits dest: keepsD [OF keeps_redis_outbox])

definition revoke_user :: "int \<Rightarrow> string \<Rightarrow> 'r auth_db \<Rightarrow> 'r auth_db" where
  "revoke_user now user_id w = update_tokens (\<lambda>t. rt_user_id t = user_id \<and> rt_revoked_at t = None) (revoke_token now)
     (update_sessions (\<lambda>s. se_user_id s = user_id \<and> se_revoked_at s = None) (revoke_session_row now ''PASSWORD_RESET'') w)"

lemma reset_commit_effect:
  assumes "reset_commit ev i password w = (Inr x, w')"
  shows "tview w' = tview (revoke_user (av_now ev) i w)"
proof -
  from with_transaction_Inr [OF assms [unfolded reset_commit_def]]
  obtain y w1 where w1: "update_credential i (\<lambda>c. c\<lparr> uc_hash := av_hash ev password, uc_algorithm := ''argon2id'',
         uc_password_updated := av_now ev, uc_failed := 0, uc_locked_until := None \<rparr>) w = (Inr y, w1)"
    and rest: "seqE (doE (update_sessions (\<lambda>s. se_user_id s = i \<and> se_revoked_at s = None)
         (revoke_session_row (av_now ev) ''PASSWORD_RESET''))) (\<lambda>_.
       doE (update_tokens (\<lambda>t. rt_user_id t = i \<and> rt_revoked_at t = None) (revoke_token (av_now ev)))) w1 = (Inr x, w')"
    unfolding seqE_Inr [of "update_credential i _"] by blast
  have w': "w' = revoke_user (av_now ev) i w1" using rest by (simp add: seqE_def revoke_user_def)
  show ?thesis using keepsD [OF keeps_tables(5) w1] unfolding w'
    by (simp add: tview_def revoke_user_def update_tokens_def update_sessions_def)
qed

lemma revoke_user_move: "token_move (tview w) (tview (revoke_user now i w))"
  by (simp add: tview_def revoke_user_def update_sessions_def update_tokens_def revoke)

lemma reset_commit_moves: "moves ts (reset_commit ev i password)"
  unfolding moves_def
proof (intro allI impI)
  fix w r w' assume run: "reset_commit ev i password w = (r, w')"
  show "token_move (tview w) (tview w')"
  proof (cases r)
    case (Inl e)
    have "w' = w" using run unfolding Inl reset_commit_def by (rule with_transaction_Inl)
    then show ?thesis by (simp add: stay)
  next
    case (Inr x)
    show ?thesis using revoke_user_move [of w "av_now ev" i] reset_commit_effect [OF run [unfolded Inr]] by simp
  qed
qed

lemma keeps_reset_finish: "keeps (reset_finish dp ev token i)"
  unfolding reset_finish_def by (intro keeps_intros) (auto simp: keeps_def split: option.splits)

lemma confirm_password_reset_move:
  "confirm_password_reset dp ev token password w = (r, w') \<Longrightarrow> token_move (tview w) (tview w')"
  by (auto simp: confirm_password_reset_def stay split: if_splits sum.splits
      intro: movesD [OF moves_then_keeps [OF reset_commit_moves keeps_reset_finish]])

subsection \<open>Histories\<close>

inductive auth_step :: "'r auth_deps \<Rightarrow> 'r auth_db \<Rightarrow> 'r auth_db \<Rightarrow> bool" for dp where
  step_register: "register dp ev body w = (r, w') \<Longrightarrow> auth_step dp w w'"
| step_login: "login dp ev body meta w = (r, w') \<Longrightarrow> av_ids ev 2 \<notin> rt_family_id ` set (ab_tokens w) \<Longrightarrow> auth_step dp w w'"
| step_mfa: "exchange_mfa dp ev token otp meta w = (r, w') \<Longrightarrow> av_ids ev 2 \<notin> rt_family_id ` set (ab_tokens w) \<Longrightarrow> auth_step dp w w'"
| step_refresh: "refresh dp ev plain w = (r, w') \<Longrightarrow> auth_step dp w w'"
| step_logout: "logout ev user sid w = (r, w') \<Longrightarrow> auth_step dp w w'"
| step_revoke: "revoke_session ev who session_id w = (r, w') \<Longrightarrow> auth_step dp w w'"
| step_request_reset: "request_password_reset dp ev email w = (r, w') \<Longrightarrow> auth_step dp w w'"
| step_confirm_reset: "confirm_password_reset dp ev token password w = (r, w') \<Longrightarrow> auth_step dp w w'"

lemma auth_step_move: "auth_step dp w w' \<Longrightarrow> token_move (tview w) (tview w')"
  by (induction rule: auth_step.induct)
    (auto intro: move_same register_keeps login_move exchange_mfa_move refresh_move logout_move revoke_session_move
      request_password_reset_keeps confirm_password_reset_move)

definition auth_history :: "'r auth_deps \<Rightarrow> 'r auth_db \<Rightarrow> 'r auth_db \<Rightarrow> bool" where
  "auth_history dp = (auth_step dp)\<^sup>*\<^sup>*"

lemma auth_history_moves: "auth_history dp w w' \<Longrightarrow> token_move\<^sup>*\<^sup>* (tview w) (tview w')"
  unfolding auth_history_def
proof (induction rule: rtranclp_induct)
  case (step y z)
  then show ?case using auth_step_move rtranclp.rtrancl_into_rtrancl by metis
qed simp

lemma moves_inv: "token_move\<^sup>*\<^sup>* v v' \<Longrightarrow> token_inv v \<Longrightarrow> token_inv v'"
  by (induction rule: rtranclp_induct) (auto intro: token_inv_move)

lemma moves_dead: "token_move\<^sup>*\<^sup>* v v' \<Longrightarrow> dead_family f (snd v) \<Longrightarrow> dead_family f (snd v')"
  by (induction rule: rtranclp_induct) (auto intro: dead_family_move)

lemma same_token_trans: "same_token a b \<Longrightarrow> same_token b c \<Longrightarrow> same_token a c"
  by (simp add: same_token_def)

lemma moves_kept: "token_move\<^sup>*\<^sup>* v v' \<Longrightarrow> t \<in> set (snd v) \<Longrightarrow> \<exists>t' \<in> set (snd v'). same_token t t'"
proof (induction rule: rtranclp_induct)
  case (step y z)
  then show ?case using token_kept same_token_trans by blast
qed (auto simp: same_token_def)

lemma auth_history_inv: "auth_history dp w w' \<Longrightarrow> token_inv (tview w) \<Longrightarrow> token_inv (tview w')"
  using auth_history_moves moves_inv by blast

text \<open>A token of a dead family never refreshes again, whatever happens.\<close>

lemma dead_family_refused:
  assumes hist: "auth_history dp w w'" and inv: "token_inv (tview w)" and dead: "dead_family f (ab_tokens w)"
    and t: "t \<in> set (ab_tokens w)" "rt_family_id t = f" "rt_hash t = ad_sha dp plain"
  shows "\<exists>e. refresh dp ev plain w' = (Inl e, w')"
proof -
  have mv: "token_move\<^sup>*\<^sup>* (tview w) (tview w')" using auth_history_moves [OF hist] .
  obtain t' where t': "t' \<in> set (ab_tokens w')" "same_token t t'" using moves_kept [OF mv, of t] t by (auto simp: tview_def)
  have "dead_family f (ab_tokens w')" using moves_dead [OF mv] dead by (simp add: tview_def)
  then have rev: "rt_revoked_at t' \<noteq> None" using t' t(2) by (auto simp: dead_family_alt same_token_def)
  have "distinct (map rt_hash (ab_tokens w'))" using moves_inv [OF mv inv] by (auto simp: tview_def dest: token_invD)
  then have "find_row (\<lambda>x. rt_hash x = rt_hash t') (ab_tokens w') = Some t'" using t'(1) by (rule find_row_key_unique)
  then have "find_row (\<lambda>x. rt_hash x = ad_sha dp plain) (ab_tokens w') = Some t'" using t'(2) t(3) by (simp add: same_token_def)
  then show ?thesis using rev by (auto simp: refresh_def refresh_act_def refresh_read_def split: option.splits)
qed

end
