(* ===== verification/AuthProperties.thy ===== *)
theory AuthProperties
  imports AuthHistory
begin

text \<open>
  What sign-in promises: at most one live refresh token per family, families that die for good on
  reuse and on a password reset, the account lockout, and the interleavings where overlapping
  requests defeat them.
\<close>

subsection \<open>Lemmas on rotation and revocation\<close>

definition issuance_works :: "'r auth_deps \<Rightarrow> bool" where
  "issuance_works dp \<longleftrightarrow> ad_auth dp \<noteq> None \<and> truthy (ad_private_key dp)
     \<and> (\<forall>claims. \<not> isl (ad_sign dp (the (ad_private_key dp)) claims))"

definition fresh_for :: "'r auth_deps \<Rightarrow> auth_env \<Rightarrow> 'r auth_db \<Rightarrow> bool" where
  "fresh_for dp ev w \<longleftrightarrow> av_ids ev 0 \<notin> rt_id ` set (ab_tokens w) \<and> ad_sha dp (av_random ev) \<notin> rt_hash ` set (ab_tokens w)"

definition minted :: "'r auth_deps \<Rightarrow> auth_env \<Rightarrow> refresh_token \<Rightarrow> refresh_token" where
  "minted dp ev t = new_token dp (av_now ev) (av_ids ev 0) (rt_session_id t) (rt_user_id t) (rt_family_id t) (av_random ev)"

definition rotated_world :: "'r auth_deps \<Rightarrow> auth_env \<Rightarrow> refresh_token \<Rightarrow> 'r auth_db \<Rightarrow> 'r auth_db" where
  "rotated_world dp ev t w = w\<lparr>
     ab_tokens := update_where (\<lambda>r. rt_id r = rt_id t) (rotate_token (av_now ev) (av_ids ev 0)) (ab_tokens w @ [minted dp ev t]),
     ab_sessions := update_where (\<lambda>s. se_id s = rt_session_id t) (\<lambda>s. s\<lparr> se_last_seen := Some (av_now ev) \<rparr>) (ab_sessions w) \<rparr>"

lemma issue_access_token_total: "issuance_works dp \<Longrightarrow> \<exists>token. issue_access_token dp now jti p = Inr (token, ap_access_ttl_seconds (ad_policy dp))"
  by (auto simp: issuance_works_def issue_access_token_def Let_def isl_def bindE_def split: option.splits sum.splits)

lemma refresh_rotate_total:
  assumes "issuance_works dp" "rt_id t \<in> rt_id ` set (ab_tokens w)" "rt_session_id t \<in> se_id ` set (ab_sessions w)" "fresh_for dp ev w"
  obtains a where "refresh_rotate dp ev t u w = (Inr a, rotated_world dp ev t w)" "an_refresh_token a = av_random ev"
proof -
  let ?n = "minted dp ev t"
  let ?w1 = "w\<lparr> ab_tokens := ab_tokens w @ [?n] \<rparr>"
  let ?w2 = "w\<lparr> ab_tokens := update_where (\<lambda>r. rt_id r = rt_id t) (rotate_token (av_now ev) (av_ids ev 0)) (ab_tokens w @ [?n]) \<rparr>"
  have 1: "create_token ?n w = (Inr (), ?w1)"
  proof -
    have "create_row (\<lambda>a b. rt_id a = rt_id b \<or> rt_hash a = rt_hash b) ?n (ab_tokens w) = Inr (ab_tokens w @ [?n])"
      using assms(4) by (intro create_row_total) (auto simp: fresh_for_def minted_def new_token_def)
    then show ?thesis by (simp add: create_token_def on_table_def)
  qed
  obtain r where r: "r \<in> set (ab_tokens w)" "rt_id r = rt_id t" using assms(2) by auto
  have 2: "update_token (rt_id t) (rotate_token (av_now ev) (av_ids ev 0)) ?w1 = (Inr (), ?w2)"
    using r by (simp add: update_token_def on_table_def update_row_total [of r])
  obtain s where s: "s \<in> set (ab_sessions w)" "se_id s = rt_session_id t" using assms(3) by auto
  have 3: "update_session (rt_session_id t) (\<lambda>s. s\<lparr> se_last_seen := Some (av_now ev) \<rparr>) ?w2 = (Inr (), rotated_world dp ev t w)"
    using s by (simp add: update_session_def on_table_def update_row_total [of s] rotated_world_def)
  obtain token where tk: "issue_access_token dp (av_now ev) (av_ids ev 1)
     \<lparr> xp_sub = rt_user_id t, xp_tenant_id = us_tenant_id u, xp_roles = us_roles u, xp_scopes = [],
           xp_session_id = rt_session_id t \<rparr> = Inr (token, ap_access_ttl_seconds (ad_policy dp))"
    using issue_access_token_total [OF assms(1)] by blast
  let ?a = "\<lparr> an_access_token = token, an_expires_in = ap_access_ttl_seconds (ad_policy dp), an_refresh_token = av_random ev,
       an_session_id = rt_session_id t \<rparr>"
  have "refresh_rotate dp ev t u w = (Inr ?a, rotated_world dp ev t w)"
    unfolding refresh_rotate_def minted_def [symmetric]
    by (subst seqE_simps(2), rule with_transaction_commit, subst seqE_simps(2), rule 1, subst seqE_simps(2), rule 2, rule 3)
      (simp add: seqE_def tk del: One_nat_def)
  then show thesis by (rule that) simp
qed

lemma rotated_world_tables [simp]:
  "ab_users (rotated_world dp ev t w) = ab_users w" "ab_credentials (rotated_world dp ev t w) = ab_credentials w"
  by (simp_all add: rotated_world_def)

lemma rotated_world_ids:
  "rt_id ` set (ab_tokens (rotated_world dp ev t w)) = insert (av_ids ev 0) (rt_id ` set (ab_tokens w))"
  "rt_hash ` set (ab_tokens (rotated_world dp ev t w)) = insert (ad_sha dp (av_random ev)) (rt_hash ` set (ab_tokens w))"
  "se_id ` set (ab_sessions (rotated_world dp ev t w)) = se_id ` set (ab_sessions w)"
proof -
  have "map rt_id (ab_tokens (rotated_world dp ev t w)) = map rt_id (ab_tokens w) @ [av_ids ev 0]"
    "map rt_hash (ab_tokens (rotated_world dp ev t w)) = map rt_hash (ab_tokens w) @ [ad_sha dp (av_random ev)]"
    "map se_id (ab_sessions (rotated_world dp ev t w)) = map se_id (ab_sessions w)"
    by (simp_all add: rotated_world_def map_update_where rotate_token_def minted_def new_token_def)
  from this [THEN arg_cong, of set] show
    "rt_id ` set (ab_tokens (rotated_world dp ev t w)) = insert (av_ids ev 0) (rt_id ` set (ab_tokens w))"
    "rt_hash ` set (ab_tokens (rotated_world dp ev t w)) = insert (ad_sha dp (av_random ev)) (rt_hash ` set (ab_tokens w))"
    "se_id ` set (ab_sessions (rotated_world dp ev t w)) = se_id ` set (ab_sessions w)" by simp_all
qed

lemma minted_live: "live_token (minted dp ev t)" "rt_family_id (minted dp ev t) = rt_family_id t" "rt_id (minted dp ev t) = av_ids ev 0"
  by (simp_all add: minted_def new_token_def live_token_def)

lemma rotated_world_keeps:
  assumes "x \<in> set (ab_tokens w @ [minted dp ev t])" "rt_id x \<noteq> rt_id t"
  shows "x \<in> set (ab_tokens (rotated_world dp ev t w))"
proof -
  have "\<exists>r \<in> set (ab_tokens w @ [minted dp ev t]).
      x = (if rt_id r = rt_id t then rotate_token (av_now ev) (av_ids ev 0) r else r)"
    using assms by (intro bexI [of _ x]) auto
  then show ?thesis unfolding rotated_world_def by (simp add: update_where_mem del: set_append)
qed

lemma dead_revoked:
  assumes g: "revoking g" and t: "t \<in> set ts" "rt_family_id t = f"
    and P: "\<And>x. x \<in> set ts \<Longrightarrow> rt_family_id x = f \<Longrightarrow> rt_revoked_at x = None \<Longrightarrow> P x"
  shows "dead_family f (update_where P g ts)"
  unfolding dead_family_alt
proof (intro conjI ballI impI)
  have gs: "same_token x (g x)" "rt_revoked_at (g x) \<noteq> None" for x using g unfolding revoking_def by blast+
  obtain t' where "t' \<in> set (update_where P g ts)" "same_token t t'" using token_kept_update [OF t(1), of g P] gs(1) by blast
  then show "\<exists>x \<in> set (update_where P g ts). rt_family_id x = f" using t(2) unfolding same_token_def by metis
  fix x assume "x \<in> set (update_where P g ts)" and f: "rt_family_id x = f"
  then obtain r where r: "r \<in> set ts" "x = (if P r then g r else r)" by (auto simp: update_where_mem)
  have "rt_family_id r = f" using r(2) f gs(1) [of r] by (simp add: same_token_def split: if_splits)
  then show "rt_revoked_at x \<noteq> None" using r P [OF r(1)] gs(2) \<open>rt_family_id r = f\<close> by (cases "P r") (simp, fastforce)
qed

lemma revoke_family_tokens:
  "ab_tokens (revoke_family now f reason w) = update_where (\<lambda>t. rt_family_id t = f \<and> rt_revoked_at t = None) (revoke_reused now) (ab_tokens w)"
  by (simp add: revoke_family_def Let_def update_sessions_def update_tokens_def)

lemma revoke_family_dead:
  assumes "t \<in> set (ab_tokens w)" "rt_family_id t = f"
  shows "dead_family f (ab_tokens (revoke_family now f reason w))"
  unfolding revoke_family_tokens by (rule dead_revoked [OF _ assms]) simp_all

lemma revoke_user_tokens:
  "ab_tokens (revoke_user now i w) = update_where (\<lambda>t. rt_user_id t = i \<and> rt_revoked_at t = None) (revoke_token now) (ab_tokens w)"
  by (simp add: revoke_user_def update_sessions_def update_tokens_def)

lemma revoke_user_dead:
  assumes inv: "token_inv (tview w)" and t: "t \<in> set (ab_tokens w)" "rt_user_id t = i"
  shows "dead_family (rt_family_id t) (ab_tokens (revoke_user now i w))"
  unfolding revoke_user_tokens
proof (rule dead_revoked [OF _ t(1) refl])
  fix x assume "x \<in> set (ab_tokens w)" "rt_family_id x = rt_family_id t" "rt_revoked_at x = None"
  then show "rt_user_id x = i \<and> rt_revoked_at x = None"
    using token_invD(5) [OF inv [unfolded tview_def] _ t(1)] t(2) by simp
qed simp

lemma kept_by_revoke:
  assumes "x \<in> set ts" "revoking g"
  obtains x' where "x' \<in> set (update_where P g ts)" "same_token x x'"
  using token_kept_update [OF assms(1), of g P] assms(2) by (auto simp: revoking_def)

subsection \<open>Lemmas on sign-in attempts\<close>

lemma login_account_update:
  assumes "login_account email w = Some (u, c)" "\<And>c. uc_user_id (f c) = uc_user_id c"
  obtains w' where "update_credential (us_id u) f w = (Inr (), w')" "login_account email w' = Some (u, f c)"
proof -
  note a = login_account_found [OF assms(1)]
  let ?w = "w\<lparr> ab_credentials := update_where (\<lambda>c. uc_user_id c = us_id u) f (ab_credentials w) \<rparr>"
  have "find_row (\<lambda>c. uc_user_id c = us_id u) (update_where (\<lambda>c. uc_user_id c = us_id u) f (ab_credentials w)) = Some (f c)"
    using a(3,6) assms(2) by (subst find_row_update_where) auto
  then have "login_account email ?w = Some (u, f c)"
    using assms(1) by (auto simp: login_account_def split: option.splits if_splits)
  moreover have "update_credential (us_id u) f w = (Inr (), ?w)"
    using a(2,3) by (simp add: update_credential_def on_table_def update_row_total [of c])
  ultimately show thesis by (rule that [rotated])
qed

lemma login_failure_effect:
  assumes "login_account email w = Some (u, c)"
  obtains w' where "login_failure dp ev u k w = (Inl invalid_credentials, w')"
    "login_account email w' = Some (u, failed_patch (ad_policy dp) (av_now ev) (uc_failed k) c)"
proof -
  have "uc_user_id (failed_patch (ad_policy dp) (av_now ev) (uc_failed k) c) = uc_user_id c" for c
    by (simp add: failed_patch_def Let_def)
  from login_account_update [OF assms this] obtain w' where
    "update_credential (us_id u) (failed_patch (ad_policy dp) (av_now ev) (uc_failed k)) w = (Inr (), w')"
    "login_account email w' = Some (u, failed_patch (ad_policy dp) (av_now ev) (uc_failed k) c)" by blast
  then show thesis by (intro that) (simp_all add: login_failure_def)
qed

type_synonym login_call = "auth_env \<times> login_body \<times> request_meta"

fun run_logins :: "'r auth_deps \<Rightarrow> login_call list \<Rightarrow> 'r auth_db \<Rightarrow> 'r auth_db" where
  "run_logins dp [] w = w"
| "run_logins dp ((ev, body, meta) # calls) w = run_logins dp calls (snd (login dp ev body meta w))"

definition wrong_guess :: "'r auth_deps \<Rightarrow> string \<Rightarrow> string \<Rightarrow> login_call \<Rightarrow> bool" where
  "wrong_guess dp email hash call \<longleftrightarrow> (case call of (ev, body, meta) \<Rightarrow>
     normalize_email (lb_email body) = email \<and> \<not> ad_verify dp hash (lb_password body))"

lemma run_wrong_guesses:
  assumes "\<And>call. call \<in> set calls \<Longrightarrow> wrong_guess dp email (uc_hash c) call"
    and "login_account email w = Some (u, c)" "uc_locked_until c = None" "calls \<noteq> []"
    and "uc_failed c + length calls = ap_max_failed_attempts (ad_policy dp)"
  shows "\<exists>c'. login_account email (run_logins dp calls w) = Some (u, c')
    \<and> uc_locked_until c' = Some (av_now (fst (last calls)) + int (ap_lockout_seconds (ad_policy dp)) * 1000)"
  using assms
proof (induction calls arbitrary: w c)
  case (Cons call calls)
  obtain ev body meta where call: "call = (ev, body, meta)" by (cases call) auto
  have g: "normalize_email (lb_email body) = email" "\<not> ad_verify dp (uc_hash c) (lb_password body)"
    using Cons.prems(1) [of call] by (auto simp: wrong_guess_def call)
  let ?c = "failed_patch (ad_policy dp) (av_now ev) (uc_failed c) c"
  obtain w1 where w1: "login_failure dp ev u c w = (Inl invalid_credentials, w1)" "login_account email w1 = Some (u, ?c)"
    using login_failure_effect [OF Cons.prems(2)] by blast
  have run: "run_logins dp (call # calls) w = run_logins dp calls w1"
    using Cons.prems(2,3) g w1(1) by (simp add: call login_def locked_now_def)
  show ?case
  proof (cases "calls = []")
    case True
    then show ?thesis using w1(2) Cons.prems(5) run by (simp add: call failed_patch_def Let_def)
  next
    case False
    then have "uc_failed c + 1 < ap_max_failed_attempts (ad_policy dp)" using Cons.prems(5) by (cases calls) auto
    then have c: "uc_hash ?c = uc_hash c" "uc_locked_until ?c = None" "uc_failed ?c = uc_failed c + 1"
      using Cons.prems(3) by (simp_all add: failed_patch_def Let_def)
    have "\<exists>c'. login_account email (run_logins dp calls w1) = Some (u, c')
      \<and> uc_locked_until c' = Some (av_now (fst (last calls)) + int (ap_lockout_seconds (ad_policy dp)) * 1000)"
      by (rule Cons.IH [OF _ w1(2) c(2) False]) (use Cons.prems(1,5) c in auto)
    then show ?thesis unfolding run using False by simp
  qed
qed simp

subsection \<open>A sample directory\<close>

definition auth_sample_deps :: "nat \<Rightarrow> unit auth_deps" where
  "auth_sample_deps attempts =
     \<lparr> ad_policy = \<lparr> ap_password_min_length = 3, ap_enumeration_protection = True, ap_refresh_ttl_seconds = 1000,
         ap_access_ttl_seconds = 600, ap_max_failed_attempts = attempts, ap_lockout_seconds = 60 \<rparr>,
       ad_auth = Some \<lparr> jwt_jwks_url = None, jwt_public_key = Some ''pk'', jwt_issuer = ''iss'', jwt_audience = ''aud'' \<rparr>,
       ad_private_key = Some ''sk'', ad_sha = (\<lambda>s. ''h'' @ s), ad_verify = (\<lambda>h p. h = p),
       ad_verify_totp = (\<lambda>_ _ _. False), ad_sign = (\<lambda>_ _. Inr ''jwt''),
       ad_redis = \<lparr> redis_set_ex = (\<lambda>_ _ _ r. (Inr (), r)),
         redis_get = (\<lambda>k _. Inr (if k = ''pwreset:hr0'' then Some ''u1'' else None)), redis_del = (\<lambda>_ r. (Inr (), r)) \<rparr> \<rparr>"

definition auth_sample_env :: "int \<Rightarrow> string \<Rightarrow> auth_env" where
  "auth_sample_env now tag = \<lparr> av_now = now, av_ids = (\<lambda>n. tag @ show_nat n), av_random = tag, av_hash = (\<lambda>p. p), av_audit_ok = True \<rparr>"

definition sample_user :: "string \<Rightarrow> user" where
  "sample_user status =
     \<lparr> us_id = ''u1'', us_tenant_id = ''t1'', us_email = ''ann@x.org'', us_display_name = ''Ann'', us_status = status,
       us_roles = [''TENANT_OWNER''], us_preferences = JObj [], us_locale = None, us_last_login = None,
       us_row_version = 0, us_created = 0, us_updated = 0, us_deleted_at = None \<rparr>"

definition sample_credential :: credential where
  "sample_credential =
     \<lparr> uc_id = ''c1'', uc_user_id = ''u1'', uc_hash = ''secret'', uc_algorithm = ''argon2id'', uc_password_updated = 0,
       uc_mfa_enrolled = False, uc_mfa_secret = None, uc_failed = 0, uc_locked_until = None \<rparr>"

definition sample_token :: "int option \<Rightarrow> refresh_token" where
  "sample_token rotated =
     \<lparr> rt_id = ''k1'', rt_session_id = ''s1'', rt_user_id = ''u1'', rt_family_id = ''f1'', rt_hash = ''hr1'', rt_issued = 0,
       rt_expires = 100, rt_rotated_at = rotated, rt_rotated_to = None, rt_revoked_at = None, rt_reuse_at = None \<rparr>"

definition directory :: "string \<Rightarrow> int option \<Rightarrow> unit auth_db" where
  "directory status rotated =
     \<lparr> ab_tenants = [], ab_users = [sample_user status], ab_credentials = [sample_credential],
       ab_sessions = [\<lparr> se_id = ''s1'', se_user_id = ''u1'', se_tenant_id = ''t1'', se_created = 0, se_last_seen = None,
         se_expires = 5, se_revoked_at = None, se_reason = None, se_agent_family = None, se_ip_country = None \<rparr>],
       ab_tokens = [sample_token rotated], ab_outbox = [], ab_trail = [], ab_redis = () \<rparr>"

lemmas directory_defs = directory_def sample_user_def sample_credential_def sample_token_def auth_sample_deps_def auth_sample_env_def

lemma directory_inv: "token_inv (tview (directory status rotated))"
  by (simp add: token_inv_def tview_def directory_defs live_token_def)

lemma directory_issuance: "issuance_works (auth_sample_deps n)"
  by (simp add: issuance_works_def auth_sample_deps_def truthy_def)

lemma directory_account: "login_account ''ann@x.org'' (directory ''ACTIVE'' rotated) = Some (sample_user ''ACTIVE'', sample_credential)"
  by (simp add: login_account_def directory_defs)

subsection \<open>The token families\<close>

text \<open>
  C3: Sign-in refines its specification: whatever sequence of registrations, logins, MFA exchanges,
  refreshes, logouts and password resets runs, with whatever outcomes, its effect on the sessions and
  refresh tokens is a run of the abstract machine, in which a live token is rotated at most once and
  a revoked one never comes back.
\<close>

theorem identity_refines_token_machine:
  assumes "auth_history dp w w'"
  shows "token_move\<^sup>*\<^sup>* (tview w) (tview w')"
  using assms by (rule auth_history_moves)

theorem identity_refines_token_machine_witness:
  "token_move\<^sup>*\<^sup>* (tview (directory ''ACTIVE'' None))
     (tview (snd (refresh (auth_sample_deps 2) (auth_sample_env 7 ''a'') ''r1'' (directory ''ACTIVE'' None))))"
  by (rule identity_refines_token_machine [where dp = "auth_sample_deps 2"])
    (auto simp: auth_history_def intro: step_refresh [OF surjective_pairing])

text \<open>
  C4: At most one refresh token of a family is live, and a family belongs to one session of one user:
  the invariant holds after any history in which every operation runs to its end before the next.
\<close>

theorem one_live_token:
  assumes "auth_history dp w w'" "token_inv (tview w)"
    and "t \<in> set (ab_tokens w')" "u \<in> set (ab_tokens w')" "rt_family_id t = rt_family_id u"
  shows "rt_session_id t = rt_session_id u \<and> rt_user_id t = rt_user_id u \<and> (live_token t \<and> live_token u \<longrightarrow> t = u)"
  by (rule token_invD(5) [OF auth_history_inv [OF assms(1,2), unfolded tview_def] assms(3-5)])

theorem one_live_token_witness:
  "let ts = ab_tokens (snd (refresh (auth_sample_deps 2) (auth_sample_env 7 ''a'') ''r1'' (directory ''ACTIVE'' None)))
   in rt_session_id (ts ! 0) = rt_session_id (ts ! 1) \<and> rt_user_id (ts ! 0) = rt_user_id (ts ! 1)
     \<and> \<not> (live_token (ts ! 0) \<and> live_token (ts ! 1))"
proof -
  let ?w = "snd (refresh (auth_sample_deps 2) (auth_sample_env 7 ''a'') ''r1'' (directory ''ACTIVE'' None))"
  have w: "auth_history (auth_sample_deps 2) (directory ''ACTIVE'' None) ?w"
    unfolding auth_history_def by (rule r_into_rtranclp) (rule step_refresh [OF surjective_pairing])
  have ts: "length (ab_tokens ?w) = 2" "rt_family_id (ab_tokens ?w ! 0) = rt_family_id (ab_tokens ?w ! 1)"
      "rt_id (ab_tokens ?w ! 0) \<noteq> rt_id (ab_tokens ?w ! 1)"
    by (simp_all add: refresh_def refresh_read_def refresh_act_def refresh_rotate_def seqE_def with_transaction_def on_table_def
        create_token_def update_token_def update_session_def create_row_def update_row_def insert_row_def new_token_def
        issue_access_token_def truthy_def Let_def rotate_token_def directory_defs)
  have "ab_tokens ?w ! 0 \<in> set (ab_tokens ?w)" "ab_tokens ?w ! 1 \<in> set (ab_tokens ?w)" using ts(1) by simp_all
  from one_live_token [OF w directory_inv this ts(2)] ts(3) show ?thesis unfolding Let_def by metis
qed





text \<open>
  C7: Rotation is not atomic with its check.  Two overlapping refreshes that have both read the same
  live token both succeed, and its family is left with two live tokens.
\<close>

theorem concurrent_refresh_forks_family:
  assumes works: "issuance_works dp" and read: "refresh_read (ad_sha dp plain) now w = Rotate t u"
    and fresh: "fresh_for dp ev1 w" "fresh_for dp ev2 w" "av_ids ev1 0 \<noteq> av_ids ev2 0"
      "ad_sha dp (av_random ev1) \<noteq> ad_sha dp (av_random ev2)"
  shows "\<exists>a1 a2 w1 w2 n1 n2. refresh_act dp ev1 (refresh_read (ad_sha dp plain) now w) w = (Inr a1, w1)
     \<and> refresh_act dp ev2 (refresh_read (ad_sha dp plain) now w) w1 = (Inr a2, w2)
     \<and> n1 \<in> set (ab_tokens w2) \<and> n2 \<in> set (ab_tokens w2) \<and> n1 \<noteq> n2 \<and> live_token n1 \<and> live_token n2
     \<and> rt_family_id n1 = rt_family_id t \<and> rt_family_id n2 = rt_family_id t"
proof -
  note f = refresh_read_found(1) [OF read refl]
  have t: "rt_id t \<in> rt_id ` set (ab_tokens w)" "rt_session_id t \<in> se_id ` set (ab_sessions w)" using f by (metis imageI)+
  let ?w1 = "rotated_world dp ev1 t w" let ?w2 = "rotated_world dp ev2 t ?w1"
  have t1: "rt_id t \<in> rt_id ` set (ab_tokens ?w1)" "rt_session_id t \<in> se_id ` set (ab_sessions ?w1)" "fresh_for dp ev2 ?w1"
    using t fresh unfolding rotated_world_ids fresh_for_def by auto
  obtain a1 where 1: "refresh_rotate dp ev1 t u w = (Inr a1, ?w1)" using refresh_rotate_total [OF works t fresh(1)] by blast
  obtain a2 where 2: "refresh_rotate dp ev2 t u ?w1 = (Inr a2, ?w2)" using refresh_rotate_total [OF works t1] by blast
  have ne: "rt_id (minted dp ev1 t) \<noteq> rt_id t" "rt_id (minted dp ev2 t) \<noteq> rt_id t"
    using fresh(1,2) t(1) by (auto simp: fresh_for_def minted_live)
  have n1: "minted dp ev1 t \<in> set (ab_tokens ?w1)" by (rule rotated_world_keeps) (use ne in auto)
  have "minted dp ev1 t \<in> set (ab_tokens ?w2)" "minted dp ev2 t \<in> set (ab_tokens ?w2)"
    by (rule rotated_world_keeps; use ne n1 in auto)+
  moreover have "minted dp ev1 t \<noteq> minted dp ev2 t" using fresh(3) minted_live(3) by metis
  ultimately show ?thesis using 1 2 unfolding read refresh_act_def refresh_decision.case using minted_live(1,2) by metis
qed

theorem concurrent_refresh_forks_family_witness:
  "\<exists>w2 n1 n2. n1 \<in> set (ab_tokens (w2 :: unit auth_db)) \<and> n2 \<in> set (ab_tokens w2) \<and> n1 \<noteq> n2 \<and> live_token n1 \<and> live_token n2
     \<and> rt_family_id n1 = ''f1'' \<and> rt_family_id n2 = ''f1''"
proof -
  have read: "refresh_read (ad_sha (auth_sample_deps 2) ''r1'') 7 (directory ''ACTIVE'' None)
      = Rotate (sample_token None) (sample_user ''ACTIVE'')"
    by (simp add: refresh_read_def directory_defs)
  have f: "fresh_for (auth_sample_deps 2) (auth_sample_env 7 ''a'') (directory ''ACTIVE'' None)"
    "fresh_for (auth_sample_deps 2) (auth_sample_env 7 ''b'') (directory ''ACTIVE'' None)"
    by (simp_all add: fresh_for_def directory_defs)
  have "av_ids (auth_sample_env 7 ''a'') 0 \<noteq> av_ids (auth_sample_env 7 ''b'') 0"
    "ad_sha (auth_sample_deps 2) (av_random (auth_sample_env 7 ''a'')) \<noteq> ad_sha (auth_sample_deps 2) (av_random (auth_sample_env 7 ''b''))"
    and fam: "rt_family_id (sample_token None) = ''f1''" by (simp_all add: directory_defs)
  from concurrent_refresh_forks_family [OF directory_issuance read f this(1,2)] have
    "\<exists>w2 n1 n2. n1 \<in> set (ab_tokens (w2 :: unit auth_db)) \<and> n2 \<in> set (ab_tokens w2) \<and> n1 \<noteq> n2 \<and> live_token n1 \<and> live_token n2
     \<and> rt_family_id n1 = rt_family_id (sample_token None) \<and> rt_family_id n2 = rt_family_id (sample_token None)" by blast
  then show ?thesis unfolding fam .
qed

text \<open>
  A refresh looks at the token and at the revocation of the session only: with a live, unexpired
  token it succeeds whatever the status of the account and even when the session itself has expired.
\<close>

theorem refresh_ignores_account:
  assumes "issuance_works dp" "fresh_for dp ev w"
    and "find_row (\<lambda>t. rt_hash t = ad_sha dp plain) (ab_tokens w) = Some t" "live_token t" "av_now ev \<le> rt_expires t"
    and "find_row (\<lambda>u. us_id u = rt_user_id t) (ab_users w) = Some u" "us_status u = ''SUSPENDED'' \<or> us_deleted_at u \<noteq> None"
    and "find_row (\<lambda>s. se_id s = rt_session_id t) (ab_sessions w) = Some s" "se_revoked_at s = None" "se_expires s < av_now ev"
  shows "\<exists>a. refresh dp ev plain w = (Inr a, rotated_world dp ev t w) \<and> an_refresh_token a = av_random ev"
proof -
  have "refresh_read (ad_sha dp plain) (av_now ev) w = Rotate t u"
    using assms(3-10) by (simp add: refresh_read_def live_token_def)
  moreover have "rt_id t \<in> rt_id ` set (ab_tokens w)" using find_row_Some [OF assms(3)] by blast
  moreover have "rt_session_id t \<in> se_id ` set (ab_sessions w)" using find_row_Some [OF assms(8)] by (metis imageI)
  moreover from calculation(2,3) obtain a where "refresh_rotate dp ev t u w = (Inr a, rotated_world dp ev t w)" "an_refresh_token a = av_random ev"
    by (rule refresh_rotate_total [OF assms(1) _ _ assms(2)])
  ultimately show ?thesis by (simp add: refresh_def refresh_act_def)
qed

theorem refresh_ignores_account_witness:
  "\<exists>a w'. refresh (auth_sample_deps 2) (auth_sample_env 7 ''a'') ''r1'' (directory ''SUSPENDED'' None) = (Inr a, w')"
proof -
  have "fresh_for (auth_sample_deps 2) (auth_sample_env 7 ''a'') (directory ''SUSPENDED'' None)"
    by (simp add: fresh_for_def directory_defs)
  from refresh_ignores_account [OF directory_issuance this, of "''r1''" "sample_token None" "sample_user ''SUSPENDED''"
      "hd (ab_sessions (directory ''SUSPENDED'' None))"]
  show ?thesis by (auto simp: directory_defs live_token_def)
qed

subsection \<open>Guessing a password\<close>



text \<open>
  The counter of failed attempts is written from the value each request has read, so overlapping
  guesses cost one attempt: any number of them leaves the account unlocked, one failure further.
\<close>

theorem parallel_guesses_count_once:
  assumes "login_account email w = Some (u, c)" "uc_failed c + 1 < ap_max_failed_attempts (ad_policy dp)" "evs \<noteq> []"
  shows "\<exists>c'. login_account email (fold (\<lambda>ev w. snd (login_failure dp ev u c w)) evs w) = Some (u, c')
     \<and> uc_failed c' = uc_failed c + 1 \<and> uc_locked_until c' = uc_locked_until c"
proof -
  have step: "\<exists>c'. login_account email (snd (login_failure dp ev u c w)) = Some (u, c')
      \<and> uc_failed c' = uc_failed c + 1 \<and> uc_locked_until c' = uc_locked_until k"
    if found: "login_account email w = Some (u, k)" for ev k w
  proof -
    obtain w' where w': "login_failure dp ev u c w = (Inl invalid_credentials, w')"
      "login_account email w' = Some (u, failed_patch (ad_policy dp) (av_now ev) (uc_failed c) k)"
      by (rule login_failure_effect [OF found])
    show ?thesis unfolding w'(1) snd_conv w'(2) using assms(2) by (simp add: failed_patch_def Let_def)
  qed
  show ?thesis using assms(1,3)
  proof (induction evs rule: rev_induct)
    case (snoc ev evs)
    show ?case
    proof (cases "evs = []")
      case True
      then show ?thesis using step [OF snoc.prems(1)] by simp
    next
      case False
      then obtain k where "login_account email (fold (\<lambda>ev w. snd (login_failure dp ev u c w)) evs w) = Some (u, k)"
        "uc_locked_until k = uc_locked_until c" using snoc.IH [OF snoc.prems(1)] by blast
      then show ?thesis using step [of "fold (\<lambda>ev w. snd (login_failure dp ev u c w)) evs w" k ev] by simp
    qed
  qed simp
qed

theorem parallel_guesses_count_once_witness:
  "\<exists>c'. login_account ''ann@x.org'' (fold (\<lambda>ev w. snd (login_failure (auth_sample_deps 3) ev (sample_user ''ACTIVE'')
     sample_credential w)) (map (\<lambda>i. auth_sample_env i ''a'') [1..1000]) (directory ''ACTIVE'' None)) = Some (sample_user ''ACTIVE'', c')
     \<and> uc_failed c' = 1"
proof -
  have "uc_failed sample_credential + 1 < ap_max_failed_attempts (ad_policy (auth_sample_deps 3))"
    by (simp add: directory_defs)
  from parallel_guesses_count_once [OF directory_account this, of "map (\<lambda>i. auth_sample_env i ''a'') [1..1000]"]
  show ?thesis by (auto simp: sample_credential_def)
qed

text \<open>
  The protection against enumeration does not hide who is registered: with it, registering a new
  address answers with the user that was created and an address that is taken with PENDING.
\<close>

theorem registration_enumerable:
  assumes "ap_enumeration_protection (ad_policy dp)" "ap_password_min_length (ad_policy dp) \<le> length (rb_password body)"
    and "av_ids ev 0 \<notin> tn_id ` set (ab_tenants w)" "av_ids ev 1 \<notin> us_id ` set (ab_users w)"
    and "av_ids ev 2 \<notin> uc_id ` set (ab_credentials w)" "av_ids ev 1 \<notin> uc_user_id ` set (ab_credentials w)"
  shows "fst (register dp ev body w) = (if normalize_email (rb_email body) \<in> us_email ` set (ab_users w)
     then Inr RegistrationPending
     else Inr (Created (registered_user ev (normalize_email (rb_email body))
       (case rb_display_name body of Some n \<Rightarrow> if trim n = [] then normalize_email (rb_email body) else trim n
        | None \<Rightarrow> normalize_email (rb_email body))) (av_ids ev 0)))"
proof (cases "normalize_email (rb_email body) \<in> us_email ` set (ab_users w)")
  case True
  then have "find_row (\<lambda>u. us_email u = normalize_email (rb_email body)) (ab_users w) \<noteq> None" by (auto simp: find_row_None)
  then show ?thesis using True assms(1,2) by (simp add: register_def duplicate_registration_def)
next
  case False
  then have none: "find_row (\<lambda>u. us_email u = normalize_email (rb_email body)) (ab_users w) = None"
    unfolding find_row_None by (metis imageI)
  have "\<exists>w'. register_commit ev (normalize_email (rb_email body)) n p w
      = (Inr (registered_user ev (normalize_email (rb_email body)) n), w')" for n p
    using False assms(3-6) unfolding register_commit_def
    by (simp add: create_tenant_def create_user_def create_credential_def on_table_def create_row_def find_row_None
        seqE_def with_transaction_def registered_user_def image_iff Ball_def)
  from this [of _ "rb_password body"] show ?thesis using False none assms(2)
    by (cases "rb_display_name body"; clarsimp simp: register_def Let_def) (metis (no_types, lifting) case_prod_conv fst_conv old.sum.simps(6))+
qed

theorem registration_enumerable_witness:
  "fst (register (auth_sample_deps 2) (auth_sample_env 1 ''a'')
       \<lparr> rb_email = '' Ann@X.org '', rb_password = ''secret'', rb_display_name = None \<rparr> (directory ''ACTIVE'' None)) = Inr RegistrationPending"
proof -
  have n: "normalize_email '' Ann@X.org '' = ''ann@x.org''" by code_simp
  show ?thesis
    by (subst registration_enumerable) (simp_all add: n directory_defs)
qed

end
