(* ===== verification/WebAuthProperties.thy ===== *)
theory WebAuthProperties
  imports AuthWeb Totp Health AuthProperties
begin

text \<open>
  The edges of sign-in: the cookies of a browser session, the double-submit check, one-time passwords;
  and the life of a worker process.
\<close>

subsection \<open>Cookies\<close>

text \<open>
  C40: A browser session survives the round trip: whatever the refresh token and the CSRF token are,
  the cookies set by a login, sent back by the browser with the CSRF token in its header, refresh
  with exactly that refresh token.
\<close>

theorem browser_session_roundtrip:
  assumes "hr_cookie req = Some (browser_header (respond_authenticated dp production csrf ''BROWSER'' a))"
    and "first_header_value (hr_csrf req) = Some csrf" "csrf \<noteq> []" "an_refresh_token a \<noteq> []"
  shows "post_refresh dp ev production csrf2 req None w
     = seqE (refresh dp ev (an_refresh_token a)) (\<lambda>b. returnE (respond_authenticated dp production csrf2 ''BROWSER'' b)) w"
  using assms by (simp add: post_refresh_def browser_cookies_parsed assert_csrf_def truthy_def
      SESSION_COOKIE_NAME_def CSRF_COOKIE_NAME_def Let_def)

theorem browser_session_roundtrip_witness:
  "\<exists>reply w. post_refresh (auth_sample_deps 2) (auth_sample_env 7 ''a'') True ''x''
     \<lparr> hr_cookie = Some (browser_header (respond_authenticated (auth_sample_deps 2) True ''c;%1'' ''BROWSER''
         \<lparr> an_access_token = ''t'', an_expires_in = 1, an_refresh_token = ''r1'', an_session_id = ''s1'' \<rparr>)),
       hr_csrf = Some (HStr ''c;%1''), hr_user_agent = None, hr_authorization = None, hr_principal = None \<rparr>
     None (directory ''SUSPENDED'' None) = (Inr reply, w)"
proof -
  obtain b w where r: "refresh (auth_sample_deps 2) (auth_sample_env 7 ''a'') ''r1'' (directory ''SUSPENDED'' None) = (Inr b, w)"
    by (auto simp: refresh_def refresh_read_def refresh_act_def refresh_rotate_def seqE_def with_transaction_def on_table_def
        create_token_def update_token_def update_session_def create_row_def update_row_def insert_row_def new_token_def
        issue_access_token_def truthy_def Let_def rotate_token_def directory_defs)
  let ?a = "\<lparr> an_access_token = ''t'', an_expires_in = 1, an_refresh_token = ''r1'', an_session_id = ''s1'' \<rparr>"
  let ?req = "\<lparr> hr_cookie = Some (browser_header (respond_authenticated (auth_sample_deps 2) True ''c;%1'' ''BROWSER'' ?a)),
       hr_csrf = Some (HStr ''c;%1''), hr_user_agent = None, hr_authorization = None, hr_principal = None \<rparr>"
  have "post_refresh (auth_sample_deps 2) (auth_sample_env 7 ''a'') True ''x'' ?req None (directory ''SUSPENDED'' None)
      = seqE (refresh (auth_sample_deps 2) (auth_sample_env 7 ''a'') (an_refresh_token ?a))
          (\<lambda>b. returnE (respond_authenticated (auth_sample_deps 2) True ''x'' ''BROWSER'' b)) (directory ''SUSPENDED'' None)"
    by (rule browser_session_roundtrip [where csrf = "''c;%1''"]) (simp_all add: first_header_value_def)
  then show ?thesis using r by simp
qed

text \<open>
  Without a token in the body no session is refreshed unless the CSRF header repeats the CSRF
  cookie: the request is refused and changes nothing.
\<close>

theorem refresh_needs_csrf:
  assumes "\<not> truthy body_token" "parse_cookies (hr_cookie req) = Inr cookies"
    and "first_header_value (hr_csrf req) \<noteq> map_of cookies CSRF_COOKIE_NAME \<or> \<not> truthy (first_header_value (hr_csrf req))"
  shows "post_refresh dp ev production csrf req body_token w
     = (Inl (if truthy (map_of cookies SESSION_COOKIE_NAME) then csrf_mismatch else no_refresh_token), w)"
  using assms by (auto simp: post_refresh_def assert_csrf_def Let_def)

theorem refresh_needs_csrf_witness:
  "post_refresh (auth_sample_deps 2) (auth_sample_env 7 ''a'') True ''x''
     \<lparr> hr_cookie = Some ''session=r1; csrf=c1'', hr_csrf = Some (HStr ''c2''), hr_user_agent = None,
       hr_authorization = None, hr_principal = None \<rparr> None (directory ''ACTIVE'' None) = (Inl csrf_mismatch, directory ''ACTIVE'' None)"
proof -
  have p: "parse_cookies (Some ''session=r1; csrf=c1'') = Inr [(''session'', ''r1''), (''csrf'', ''c1'')]" by code_simp
  show ?thesis
    by (subst refresh_needs_csrf [where cookies = "[(''session'', ''r1''), (''csrf'', ''c1'')]"])
      (simp_all add: p truthy_def first_header_value_def CSRF_COOKIE_NAME_def SESSION_COOKIE_NAME_def)
qed

text \<open>
  A cookie of any name whose value is not a well-formed escape makes every refresh fail with an
  unexpected error, also that of an API client that presents its token in the body.
\<close>

theorem malformed_cookie_breaks_refresh:
  assumes "hr_cookie req = Some h" "p \<in> set (split_on CHR '';'' h)" "cookie_parts p = Some (k, v)" "k \<noteq> []"
    and "decode_uri_component v = None"
  shows "post_refresh dp ev production csrf req body_token w = (Inl uri_error, w)"
  using parse_cookies_malformed [OF assms(2-5)] assms(1) by (simp add: post_refresh_def)

theorem malformed_cookie_breaks_refresh_witness:
  "post_refresh (auth_sample_deps 2) (auth_sample_env 7 ''a'') True ''x''
     \<lparr> hr_cookie = Some ''discount=50%'', hr_csrf = None, hr_user_agent = None, hr_authorization = None, hr_principal = None \<rparr>
     (Some ''r1'') (directory ''ACTIVE'' None) = (Inl uri_error, directory ''ACTIVE'' None)"
proof -
  have p: "split_on CHR '';'' ''discount=50%'' = [''discount=50%'']" "cookie_parts ''discount=50%'' = Some (''discount'', ''50%'')"
    "decode_uri_component ''50%'' = None" by code_simp+
  show ?thesis by (rule malformed_cookie_breaks_refresh [where h = "''discount=50%''" and p = "''discount=50%''" and k = "''discount''" and v = "''50%''"])
    (simp_all add: p)
qed

subsection \<open>One-time passwords\<close>

text \<open>
  A one-time password is accepted exactly when it is the password of a time step within the
  window; the check of its shape refuses nothing that could be one.
\<close>

theorem totp_window:
  assumes "window \<le> now div 1000 div 30" "now div 1000 div 30 + window < 2 ^ 64"
  shows "verify_totp hmac secret otp now window = Inr (\<exists>drift \<in> {- window .. window}.
     hotp hmac (base32_decode secret) (now div 1000 div 30 + drift) = Inr otp)"
proof (cases "six_digits otp")
  case True
  have "any_code (hotp hmac (base32_decode secret)) otp (map (\<lambda>drift. now div 1000 div 30 + drift) [- window .. window])
      = Inr (\<exists>c \<in> set (map (\<lambda>drift. now div 1000 div 30 + drift) [- window .. window]). hotp hmac (base32_decode secret) c = Inr otp)"
    by (rule any_code_spec, rule hotp_total) (use assms in auto)
  from this [unfolded set_map set_upto bex_simps(7)] show ?thesis
    unfolding verify_totp_def Let_def using True by (simp only: not_True_eq_False if_False)
next
  case False
  then show ?thesis using hotp_six_digits by (auto simp: verify_totp_def)
qed

theorem totp_window_witness:
  "verify_totp (\<lambda>_ _. [0, 0, 0, 7, 0]) ''AAAA'' ''000007'' 60000 1 = Inr True"
proof -
  have v: "uint (truncated [0, 0, 0, 7, 0]) = 7" by (simp add: truncated_value byte_at_def Let_def)
  have p: "pad_start6 (show_int 7) = ''000007''" by code_simp
  have h: "hotp (\<lambda>_ _. [0, 0, 0, 7, 0]) (base32_decode ''AAAA'') 2 = Inr ''000007''"
    by (simp add: hotp_def counter_bytes_def sint_truncated v p)
  show ?thesis by (subst totp_window) (use h in \<open>auto intro!: bexI [of _ 0]\<close>)
qed

text \<open>
  A secret survives its text form: decoding the RFC 4648 text of any bytes gives the bytes back.
\<close>

theorem totp_secret_roundtrip:
  assumes "\<forall>b \<in> set bytes. b < 256"
  shows "base32_decode (base32_encode bytes) = bytes"
  using assms by (rule base32_roundtrip)

theorem totp_secret_roundtrip_witness: "base32_decode (base32_encode [222, 173, 190, 239]) = [222, 173, 190, 239]"
  by (rule totp_secret_roundtrip) simp

text \<open>
  Guesses of a one-time password cost nothing: a wrong one leaves the MFA token, the failure
  counter and the lockout as they were, so any number of them can be tried while the token lives.
\<close>

theorem mfa_guesses_free:
  assumes "\<And>ev otp c s. (ev, otp) \<in> set guesses \<Longrightarrow> c \<in> set (ab_credentials w) \<Longrightarrow> uc_mfa_secret c = Some s
      \<Longrightarrow> \<not> ad_verify_totp dp s otp (av_now ev)"
  shows "fold (\<lambda>(ev, otp) w. snd (exchange_mfa dp ev token otp meta w)) guesses w = w"
  using assms
proof (induction guesses)
  case (Cons g guesses)
  obtain ev otp where g: "g = (ev, otp)" by (cases g)
  have wrong: "c \<in> set (ab_credentials w) \<Longrightarrow> uc_mfa_secret c = Some s \<Longrightarrow> \<not> ad_verify_totp dp s otp (av_now ev)" for c s
    using Cons.prems [of ev otp c s] by (simp add: g)
  have "snd (exchange_mfa dp ev token otp meta w) = w"
    using wrong by (auto simp: exchange_mfa_def split: sum.splits option.splits bind_splits dest!: find_row_Some)
  then show ?case using Cons by (auto simp: g)
qed simp

theorem mfa_guesses_free_witness:
  "fold (\<lambda>(ev, otp) w. snd (exchange_mfa (auth_sample_deps 2) ev ''m'' otp \<lparr> rm_agent_family = None, rm_ip_country = None \<rparr> w))
     (map (\<lambda>n. (auth_sample_env 7 ''a'', show_nat n)) [100000..<999999]) (directory ''ACTIVE'' None) = directory ''ACTIVE'' None"
proof -
  have never: "\<not> ad_verify_totp (auth_sample_deps 2) s otp t" for s otp t by (simp add: auth_sample_deps_def)
  show ?thesis by (rule mfa_guesses_free) (rule never)
qed

subsection \<open>The worker process\<close>

text \<open>
  C39: The state machine of a worker implements its contract: whatever jobs begin and end, in any
  overlap, the process reads IDLE exactly when it serves and runs nothing, PROCESSING when it serves and
  runs something, DRAINING from the shutdown signal on and STOPPED only when no job is left.
\<close>

theorem worker_health_refines:
  assumes "worker_step\<^sup>*\<^sup>* booted p"
  shows "phase_step\<^sup>*\<^sup>* (Serving, []) (phase_of p, wp_running p)
    \<and> wh_state (wp_health p) = state_of (phase_of p) (wp_running p) \<and> wh_in_flight (wp_health p) = length (wp_running p)
    \<and> is_ready (wp_health p) = (phase_of p = Serving) \<and> is_alive (wp_health p) = (phase_of p \<noteq> Stopped)"
  using worker_run_refines [OF assms]
  by (auto simp: implements_def is_ready_def is_alive_def state_of_def split: worker_phase.splits)

theorem worker_health_refines_witness:
  "phase_step\<^sup>*\<^sup>* (Serving, []) (phase_of (booted\<lparr> wp_health := snd (begin_work (wp_health booted)), wp_running := [''j1''] \<rparr>), [''j1''])"
proof -
  let ?p = "booted\<lparr> wp_health := snd (begin_work (wp_health booted)), wp_running := ''j1'' # wp_running booted \<rparr>"
  have "wh_state (wp_health booted) \<noteq> STOPPED" using booted_implements by (simp add: implements_def state_of_def)
  then have "worker_step\<^sup>*\<^sup>* booted ?p" by (intro r_into_rtranclp job_begins [OF surjective_pairing])
  from worker_health_refines [OF this] show ?thesis by (simp add: booted_implements)
qed

text \<open>
  Beginning and ending a job never throws, in any state of the machine, so a handler always runs
  and its own error is never masked.
\<close>

theorem begin_end_never_throw:
  "fst (begin_work h) = Inr () \<and> fst (end_work h) = Inr ()
    \<and> (wh_state h = DRAINING \<or> wh_state h = STOPPED \<longrightarrow>
        wh_state (snd (begin_work h)) = wh_state h \<and> wh_state (snd (end_work h)) = wh_state h)"
  by (auto simp: begin_work_total end_work_total begin_work_effect end_work_effect)

text \<open>
  The public readiness answer is one bit: it depends on whether all dependencies are healthy and
  on nothing else, so it does not name the one that failed.
\<close>

theorem readiness_one_bit:
  "api_readiness checks = api_readiness checks'
    \<longleftrightarrow> (\<forall>c \<in> set checks. dc_check c = Inr True) = (\<forall>c \<in> set checks'. dc_check c = Inr True)"
proof -
  have one: "snd (check_outcome c) = (dc_check c = Inr True)" for c
    by (cases "dc_check c") (simp_all add: check_outcome_def)
  have all: "list_all snd (map check_outcome cs) = (\<forall>c \<in> set cs. dc_check c = Inr True)" for cs
    by (simp add: list_all_iff one)
  show ?thesis
    by (auto simp: api_readiness_def compose_readiness_def all Let_def status_text_def optional_field_def)
qed

end
