(* ===== verification/Keyset.thy ===== *)
theory Keyset
  imports Jobs "HOL-Library.Product_Lexorder" "HOL-Library.List_Lexorder"
begin

text \<open>
  Listings newest first: the query that most services write, rows by \<open>(created_at desc, id desc)\<close>
  resumed behind the row of a cursor.  The locale \<open>newest_first\<close> fixes the two columns and proves
  once that following the cursors returns every row, in order; each service interprets it on its table.
\<close>

definition invalid_date :: thrown where
  "invalid_date = OtherErr ''Invalid value for argument: Provided Date object is invalid.''"

definition older_than :: "('r \<Rightarrow> int) \<Rightarrow> ('r \<Rightarrow> string) \<Rightarrow> int \<times> string \<Rightarrow> 'r \<Rightarrow> bool" where
  "older_than created ident b r \<longleftrightarrow> created r < fst b \<or> (created r = fst b \<and> ident r < snd b)"

definition created_filter ::
  "(string \<Rightarrow> int option) \<Rightarrow> ('r \<Rightarrow> int) \<Rightarrow> ('r \<Rightarrow> string) \<Rightarrow> cursor_payload option \<Rightarrow> thrown + ('r \<Rightarrow> bool)" where
  "created_filter od created ident c = (case c of
     None \<Rightarrow> Inr (\<lambda>r. True)
   | Some cp \<Rightarrow> (case parse_date od (js_string (cp_v cp)) of
       None \<Rightarrow> Inl invalid_date
     | Some t \<Rightarrow> Inr (older_than created ident (t, cp_id cp))))"

definition newest :: "('r \<Rightarrow> int) \<Rightarrow> ('r \<Rightarrow> string) \<Rightarrow> 'r list \<Rightarrow> 'r list" where
  "newest created ident rows = rev (sort_key (\<lambda>r. (created r, ident r)) rows)"

definition created_page ::
  "('r \<Rightarrow> int) \<Rightarrow> ('r \<Rightarrow> string) \<Rightarrow> ('r \<Rightarrow> 'd) \<Rightarrow> nat \<Rightarrow> 'r list \<Rightarrow> 'd cursor_page" where
  "created_page created ident dto limit rows =
     (let has_more = length rows > limit; page = (if has_more then take limit rows else rows)
      in \<lparr> pg_data = map dto page, pg_limit = limit, pg_has_more = has_more,
           pg_next_cursor = (if has_more \<and> page \<noteq> []
             then Some (encode_cursor (SVStr (to_iso (created (last page)))) (ident (last page))) else None) \<rparr>)"

definition list_newest ::
  "(string \<Rightarrow> int option) \<Rightarrow> ('r \<Rightarrow> int) \<Rightarrow> ('r \<Rightarrow> string) \<Rightarrow> ('r \<Rightarrow> 'd) \<Rightarrow> nat \<Rightarrow> ('r \<Rightarrow> bool)
     \<Rightarrow> cursor_payload option \<Rightarrow> 'r list \<Rightarrow> thrown + 'd cursor_page" where
  "list_newest od created ident dto limit P c rows = bindE (created_filter od created ident c)
     (\<lambda>B. Inr (created_page created ident dto limit (take (limit + 1) (newest created ident (filter (\<lambda>r. P r \<and> B r) rows)))))"

lemma filter_newest: "filter P (newest created ident rows) = newest created ident (filter P rows)"
  by (simp add: newest_def filter_sort flip: rev_filter)

lemma set_newest [simp]: "set (newest created ident rows) = set rows"
  by (simp add: newest_def)

lemma length_newest [simp]: "length (newest created ident rows) = length rows"
  by (simp add: newest_def)

locale newest_first =
  fixes created :: "'r \<Rightarrow> int" and ident :: "'r \<Rightarrow> string" and dto :: "'r \<Rightarrow> 'd"
begin

definition rows_after :: "('r \<Rightarrow> bool) \<Rightarrow> 'r list \<Rightarrow> (int \<times> string) option \<Rightarrow> 'r list" where
  "rows_after P rows b = newest created ident
     (filter (\<lambda>r. P r \<and> (case b of None \<Rightarrow> True | Some k \<Rightarrow> older_than created ident k r)) rows)"

lemma older_less: "older_than created ident (created r, ident r) = (\<lambda>x. (created x, ident x) < (created r, ident r))"
  by (rule ext) (auto simp: older_than_def less_prod_def)

lemma rows_resume:
  assumes ids: "distinct (map ident rows)" and eq: "rows_after P rows b = xs @ r # ys"
  shows "rows_after P rows (Some (created r, ident r)) = ys"
proof -
  let ?B = "\<lambda>x. case b of None \<Rightarrow> True | Some k \<Rightarrow> older_than created ident k x"
  let ?sel = "filter (\<lambda>x. P x \<and> ?B x) rows"
  let ?k = "\<lambda>x. (created x, ident x)"
  have d: "distinct (map ?k ?sel)"
    using distinct_map_filter [OF ids] by (auto simp: distinct_map inj_on_def)
  have m: "mset (map ?k (rows_after P rows b)) = mset (map ?k ?sel)"
    by (simp add: rows_after_def newest_def)
  have key: "distinct (map ?k (xs @ r # ys))"
    using mset_eq_imp_distinct_iff [OF m] d unfolding eq by blast
  have sorted: "sorted (map (\<lambda>x. (created x, ident x)) (rev (xs @ r # ys)))"
    unfolding eq [symmetric] rows_after_def newest_def by simp
  have "r \<in> set (rows_after P rows b)" using eq by simp
  then have "?B r" by (simp add: rows_after_def)
  then have mono: "older_than created ident (created r, ident r) x \<Longrightarrow> ?B x" for x
    by (auto simp: older_than_def split: option.splits)
  have "rows_after P rows (Some (created r, ident r))
      = newest created ident (filter (\<lambda>x. older_than created ident (created r, ident r) x \<and> P x \<and> ?B x) rows)"
    unfolding rows_after_def using mono by (intro arg_cong [where f = "newest _ _"] filter_cong) auto
  also have "\<dots> = filter (older_than created ident (created r, ident r)) (xs @ r # ys)"
    unfolding eq [symmetric] rows_after_def filter_newest by (simp add: conj_commute)
  also have "\<dots> = ys" unfolding older_less by (rule strictly_before [OF sorted key])
  finally show ?thesis .
qed

sublocale keyset "\<lambda>rows. distinct (map ident rows)" "rows_after P" "\<lambda>r. (created r, ident r)" for P
  by unfold_locales (rule rows_resume)

text \<open>A cursor stands for a row of the table.\<close>

definition row_cursor :: "'r list \<Rightarrow> string option \<Rightarrow> (int \<times> string) option \<Rightarrow> bool" where
  "row_cursor rows c b \<longleftrightarrow> (c = None \<and> b = None) \<or>
     (\<exists>r \<in> set rows. c = Some (encode_cursor (SVStr (to_iso (created r))) (ident r)) \<and> b = Some (created r, ident r))"

lemma row_cursor_filter:
  assumes "row_cursor rows c b" "\<forall>r \<in> set rows. iso_range (created r)"
  shows "\<exists>cp. decode_cursor c = Inr cp
    \<and> created_filter od created ident cp = Inr (\<lambda>r. case b of None \<Rightarrow> True | Some k \<Rightarrow> older_than created ident k r)"
proof (cases "c = None \<and> b = None")
  case True
  then show ?thesis by (simp add: decode_cursor_def created_filter_def)
next
  case False
  then obtain r where r: "r \<in> set rows" "b = Some (created r, ident r)"
    "c = Some (encode_cursor (SVStr (to_iso (created r))) (ident r))"
    using assms(1) by (auto simp: row_cursor_def)
  then have "parse_date od (to_iso (created r)) = Some (created r)" using assms(2) parse_date_iso by blast
  then show ?thesis using r by (simp add: cursor_roundtrip created_filter_def)
qed

lemma newest_serves:
  assumes "\<forall>r \<in> set rows. iso_range (created r)" "0 < limit"
  shows "serves P (\<lambda>c. bindE (decode_cursor c) (\<lambda>cp. list_newest od created ident dto limit P cp rows)) dto limit rows (row_cursor rows)"
  unfolding serves_def
proof (intro allI impI)
  fix c b
  assume c: "row_cursor rows c b"
  let ?rows = "rows_after P rows b"
  let ?p = "created_page created ident dto limit (take (limit + 1) ?rows)"
  have run: "bindE (decode_cursor c) (\<lambda>cp. list_newest od created ident dto limit P cp rows) = Inr ?p"
    using row_cursor_filter [OF c assms(1), of od] by (auto simp: list_newest_def rows_after_def)
  have data: "pg_data ?p = map dto (take limit ?rows)" by (simp add: created_page_def Let_def min_def)
  have "(if limit < length ?rows
     then \<exists>c'. pg_next_cursor ?p = Some c' \<and> row_cursor rows (Some c') (Some (created (last (take limit ?rows)), ident (last (take limit ?rows))))
     else pg_next_cursor ?p = None)"
  proof (cases "limit < length ?rows")
    case True
    let ?l = "last (take limit ?rows)"
    have ne: "take limit ?rows \<noteq> []" using True assms(2) by auto
    have "?l \<in> set ?rows" by (rule in_set_takeD [OF last_in_set [OF ne]])
    then have "?l \<in> set rows" by (simp add: rows_after_def)
    moreover have "pg_next_cursor ?p = Some (encode_cursor (SVStr (to_iso (created ?l))) (ident ?l))"
      using True ne by (simp add: created_page_def Let_def min_def)
    ultimately show ?thesis using True by (auto simp: row_cursor_def)
  qed (simp add: created_page_def Let_def)
  then show "\<exists>p. bindE (decode_cursor c) (\<lambda>cp. list_newest od created ident dto limit P cp rows) = Inr p
     \<and> pg_data p = map dto (take limit ?rows) \<and>
     (if limit < length ?rows
      then \<exists>c'. pg_next_cursor p = Some c' \<and> row_cursor rows (Some c') (Some (created (last (take limit ?rows)), ident (last (take limit ?rows))))
      else pg_next_cursor p = None)"
    using run data by blast
qed

lemma newest_complete:
  assumes "distinct (map ident rows)" "\<forall>r \<in> set rows. iso_range (created r)" "0 < limit" "length rows < fuel"
  shows "follow (\<lambda>c. bindE (decode_cursor c) (\<lambda>cp. list_newest od created ident dto limit P cp rows)) fuel None
    = Some (map dto (newest created ident (filter P rows)))"
proof -
  have "row_cursor rows None None" by (simp add: row_cursor_def)
  moreover have "length (rows_after P rows None) < fuel"
    using assms(4) by (simp add: rows_after_def order_le_less_trans [OF length_filter_le])
  ultimately have "follow (\<lambda>c. bindE (decode_cursor c) (\<lambda>cp. list_newest od created ident dto limit P cp rows)) fuel None
      = Some (map dto (rows_after P rows None))"
    using follow_complete [OF assms(1,3) newest_serves [OF assms(2,3)]] by blast
  then show ?thesis by (simp add: rows_after_def)
qed

end

end
