(* ===== verification/Books.thy ===== *)
theory Books
  imports Keyset Users IngestionJob
begin

text \<open>
  \<open>apps/api/src/books/books.service.ts\<close>: creating, listing, reading, editing, deleting, restoring
  and purging a book, its source files and its structure.  The world is the database of the ingestion
  with the files, quotas, usage counters and audit trail, the broker's state and Redis.  A handler is
  the sequence of its awaited steps (\<open>seqE\<close>); the collaborators are the record
  \<open>books_deps\<close>, the clock and the fresh identifiers the record \<open>books_env\<close>.  Whether an
  update of the database client changes a column is written \<open>'a change\<close>: an absent property leaves
  it, \<open>null\<close> clears it.
\<close>

subsection \<open>World\<close>

record ('q, 'r, 's) books_world = "'s ingest_world" +
  bw_files :: "book_file list"
  bw_quotas :: "tenant_quota list"
  bw_usage :: "usage_counter list"
  bw_trail :: "audit_row list"
  bw_queue :: 'q
  bw_redis :: 'r

record ('q, 'r, 's) books_deps =
  bd_sha256 :: "bytes \<Rightarrow> string"
  bd_file_type :: "bytes \<Rightarrow> string option"
  bd_config :: ingestion_config
  bd_broker :: "'q broker"
  bd_redis :: "'r redis_ops"
  bd_ttl :: "string \<Rightarrow> 'r \<Rightarrow> thrown + int"
  bd_get :: "string \<Rightarrow> 's \<Rightarrow> thrown + bytes list"
  bd_head :: "string \<Rightarrow> 's \<Rightarrow> thrown + object_meta option"
  bd_sign :: "string \<Rightarrow> string \<Rightarrow> nat \<Rightarrow> 's \<Rightarrow> thrown + string"

text \<open>\<open>be_id k\<close> is the result of the \<open>k\<close>th call of \<open>generateId\<close>.\<close>

record books_env =
  be_now :: int
  be_id :: "nat \<Rightarrow> string"
  be_event :: "string \<times> string"
  be_usage_id :: string
  be_usage_ok :: bool

text \<open>A read of the world.\<close>

definition readE :: "('w \<Rightarrow> thrown + 'a) \<Rightarrow> 'w \<Rightarrow> (thrown + 'a) \<times> 'w" where
  "readE f w = (f w, w)"

lemma readE_simps [simp]: "readE f w = (f w, w)"
  by (simp add: readE_def)

abbreviation on_books where "on_books \<equiv> on_table iw_books (\<lambda>t. iw_books_update (\<lambda>_. t))"
abbreviation on_jobs where "on_jobs \<equiv> on_table db_jobs (\<lambda>t. db_jobs_update (\<lambda>_. t))"
abbreviation on_files where "on_files \<equiv> on_table bw_files (\<lambda>t. bw_files_update (\<lambda>_. t))"

text \<open>The unique indexes on jobs and on admitted files, and the primary keys.\<close>

definition live_key :: "job \<Rightarrow> bool" where
  "live_key j \<longleftrightarrow> jb_status j \<noteq> FAILED \<and> jb_status j \<noteq> CANCELLED \<and> jb_status j \<noteq> DEAD_LETTERED"

definition job_clash :: "job \<Rightarrow> job \<Rightarrow> bool" where
  "job_clash j k \<longleftrightarrow> jb_id k = jb_id j
     \<or> (live_key j \<and> live_key k \<and> jb_tenant_id k = jb_tenant_id j \<and> jb_idem_key k = jb_idem_key j)"

definition original_file :: "book_file \<Rightarrow> bool" where
  "original_file f \<longleftrightarrow> bf_status f = ADMITTED \<and> bf_dedup_from f = None"

definition file_clash :: "book_file \<Rightarrow> book_file \<Rightarrow> bool" where
  "file_clash f g \<longleftrightarrow> bf_id g = bf_id f
     \<or> (original_file f \<and> original_file g \<and> bf_tenant_id g = bf_tenant_id f \<and> bf_content_hash g = bf_content_hash f)"

text \<open>\<open>enqueueProcessingJob\<close> on this world.\<close>

definition dispatch_job ::
  "('q, 'r, 's) books_deps \<Rightarrow> books_env \<Rightarrow> enqueue_args \<Rightarrow> ('q, 'r, 's) books_world \<Rightarrow> (thrown + unit) \<times> ('q, 'r, 's) books_world" where
  "dispatch_job dp ev args w = (case enqueue_processing_job (bd_broker dp) (be_now ev) args (db_jobs w, bw_queue w) of
     (r, (jobs, q)) \<Rightarrow> (r, w\<lparr> db_jobs := jobs, bw_queue := q \<rparr>))"

subsection \<open>Envelopes\<close>

definition PARSER_VERSION_FOR_IDEMPOTENCY :: string where
  "PARSER_VERSION_FOR_IDEMPOTENCY = ''pdfjs-dist@4.9.155+epub-spine-reader@1.0.0''"

definition command_envelope :: "string \<Rightarrow> string \<Rightarrow> string \<Rightarrow> json \<Rightarrow> json" where
  "command_envelope job_id t correlation_id payload = JObj
     [(''job_id'', JStr job_id), (''entity_id'', JStr job_id), (''correlation_id'', JStr correlation_id),
      (''tenant_id'', JStr t), (''payload'', payload)]"

definition parse_book_envelope :: "string \<Rightarrow> string \<Rightarrow> string \<Rightarrow> string \<Rightarrow> json" where
  "parse_book_envelope job_id book_file_id t correlation_id = command_envelope job_id t correlation_id
     (JObj [(''book_file_id'', JStr book_file_id), (''parser_version'', JStr PARSER_VERSION_FOR_IDEMPOTENCY)])"

definition purge_book_envelope :: "string \<Rightarrow> string \<Rightarrow> string \<Rightarrow> string \<Rightarrow> json" where
  "purge_book_envelope job_id book_id t correlation_id = command_envelope job_id t correlation_id
     (JObj [(''operation'', JStr ''purge_book''), (''book_id'', JStr book_id)])"

text \<open>A job row as these services create it; the other columns have their defaults.\<close>

definition fresh_job ::
  "int \<Rightarrow> string \<Rightarrow> string \<Rightarrow> string \<Rightarrow> string \<times> string \<times> string \<Rightarrow> string \<times> string \<Rightarrow> string \<times> string \<Rightarrow> string \<Rightarrow> bool \<Rightarrow> json \<Rightarrow> job" where
  "fresh_job now job_id t book_id kind related idem correlation_id forced envelope = (case kind of (ty, queue, priority) \<Rightarrow>
     \<lparr> jb_id = job_id, jb_tenant_id = t, jb_book_id = Some book_id, jb_type = ty, jb_queue = queue,
       jb_priority = priority, jb_related_type = fst related, jb_related_id = snd related, jb_scope = None,
       jb_envelope = Some envelope, jb_parent = None, jb_child_count = 0, jb_status = CREATED, jb_blocked_reason = None,
       jb_attempt_count = 0, jb_max_attempts = 3, jb_retry_count = 0, jb_next_attempt_at = None,
       jb_progress = no_progress, jb_idem_key = fst idem, jb_idem_fingerprint = snd idem, jb_forced = forced,
       jb_forced_by = None, jb_error = no_error, jb_result = no_result, jb_cancel = not_cancelled,
       jb_correlation_id = correlation_id, jb_causation_id = None, jb_created_by = None,
       jb_times = created_now now \<rparr>)"

subsection \<open>Public shapes\<close>

definition opt_json :: "string option \<Rightarrow> json" where
  "opt_json v = (case v of None \<Rightarrow> JNull | Some s \<Rightarrow> JStr s)"

definition opt_num :: "int option \<Rightarrow> json" where
  "opt_num v = (case v of None \<Rightarrow> JNull | Some n \<Rightarrow> JNum n)"

definition to_book_dto :: "book \<Rightarrow> json" where
  "to_book_dto b = (let m = bk_info b; self = ''/api/v1/books/'' @ bk_id b in JObj
     [(''id'', JStr (bk_id b)), (''object'', JStr ''book''), (''tenant_id'', JStr (bk_tenant_id b)),
      (''title'', JStr (bm_title m)), (''author'', opt_json (bm_author m)), (''language'', JStr (bm_language m)),
      (''description'', opt_json (bm_description m)),
      (''metadata'', JObj [(''series'', opt_json (bm_series m)), (''series_index'', opt_num (bm_series_index m)),
         (''publication_year'', opt_num (bm_publication_year m)), (''publisher'', opt_json (bm_publisher m))]),
      (''status'', JStr (show_book_status (bk_status b))), (''pipeline_version'', JStr (bk_pipeline_version b)),
      (''needs_review'', JBool (bk_needs_review b)),
      (''current_book_version_id'', opt_json (bk_current_version b)),
      (''current_audio_script_id'', opt_json (bk_current_script b)),
      (''current_audiobook_id'', opt_json (bk_current_audiobook b)),
      (''created_at'', JStr (to_iso (bk_created b))), (''updated_at'', JStr (to_iso (bk_updated b))),
      (''deleted_at'', opt_json (map_option to_iso (bk_deleted_at b))),
      (''links'', JObj [(''self'', JStr self), (''progress'', JStr (self @ ''/progress'')),
         (''events'', JStr (self @ ''/events'')), (''jobs'', JStr (''/api/v1/jobs?book_id='' @ bk_id b)),
         (''files'', JStr (self @ ''/files''))])])"

text \<open>\<open>JSON.stringify\<close> of a date is its ISO text.\<close>

definition book_etag :: "(bytes \<Rightarrow> string) \<Rightarrow> book \<Rightarrow> string" where
  "book_etag sha256 b = dquote # take 32 (sha256 (utf8_encode (bk_id b @ '':'' @ show_nat (bk_row_version b)))) @ [dquote]"

fun show_file_status :: "file_status \<Rightarrow> string" where
  "show_file_status ADMITTED = ''ADMITTED''"
| "show_file_status REJECTED = ''REJECTED''"
| "show_file_status QUARANTINED = ''QUARANTINED''"

fun show_kind :: "source_kind \<Rightarrow> string" where
  "show_kind PDF = ''PDF''"
| "show_kind EPUB = ''EPUB''"
| "show_kind IMAGE_SET = ''IMAGE_SET''"

definition to_book_file_dto :: "book_file \<Rightarrow> json" where
  "to_book_file_dto f = JObj
     [(''id'', JStr (bf_id f)), (''object'', JStr ''book_file''), (''book_id'', JStr (bf_book_id f)),
      (''source_kind'', JStr (show_kind (bf_kind f))), (''original_file_name'', JStr (bf_original_name f)),
      (''mime_type'', JStr (bf_mime f)), (''sniffed_mime_type'', opt_json (bf_sniffed_mime f)),
      (''size_bytes'', JNum (int (bf_size f))),
      (''content_hash'', JObj [(''algorithm'', JStr ''sha256''), (''value'', JStr (bf_content_hash f))]),
      (''status'', JStr (show_file_status (bf_status f))),
      (''validation'', case bf_validation f of None \<Rightarrow> JNull | Some v \<Rightarrow> v),
      (''created_at'', JStr (to_iso (bf_created f))), (''updated_at'', JStr (to_iso (bf_created f)))]"

subsection \<open>Books\<close>

definition BOOK_STATUSES :: "string list" where
  "BOOK_STATUSES = [''CREATED'', ''UPLOADED'', ''PARSING'', ''PARSED'', ''STRUCTURED'', ''ANALYZING'', ''ANALYZED'',
     ''CASTING'', ''SCRIPTING'', ''SCRIPTED'', ''GENERATING'', ''ASSEMBLING'', ''COMPLETED'', ''FAILED'',
     ''CANCELLED'', ''NEEDS_REVIEW'']"

definition ACTIVE_JOB_STATUSES :: "job_status list" where
  "ACTIVE_JOB_STATUSES = [CREATED, QUEUED, RUNNING, RETRYING, BLOCKED]"

record create_book_body =
  cb_title :: string
  cb_author :: "string option"
  cb_language :: string
  cb_description :: "string option"
  cb_series :: "string option"
  cb_series_index :: "int option"
  cb_publication_year :: "int option"
  cb_publisher :: "string option"

definition new_book :: "('q, 'r, 's) books_deps \<Rightarrow> books_env \<Rightarrow> principal \<Rightarrow> create_book_body \<Rightarrow> book" where
  "new_book dp ev who body =
     \<lparr> bk_id = be_id ev 0, bk_tenant_id = tenant_id who, bk_status = BCreated, bk_status_changed = be_now ev,
       bk_needs_review = False, bk_current_version = None, bk_deleted_at = None,
       bk_info = \<lparr> bm_title = cb_title body, bm_author = cb_author body, bm_language = cb_language body,
         bm_description = cb_description body, bm_series = cb_series body, bm_series_index = cb_series_index body,
         bm_publication_year = cb_publication_year body, bm_publisher = cb_publisher body \<rparr>,
       bk_pipeline_version = cf_pipeline_version (bd_config dp), bk_current_script = None,
       bk_current_audiobook = None, bk_row_version = 0, bk_created_by = sub who, bk_created = be_now ev,
       bk_updated = be_now ev \<rparr>"

definition create_book ::
  "('q, 'r, 's) books_deps \<Rightarrow> books_env \<Rightarrow> principal \<Rightarrow> create_book_body \<Rightarrow> ('q, 'r, 's) books_world
     \<Rightarrow> (thrown + json) \<times> ('q, 'r, 's) books_world" where
  "create_book dp ev who body =
     seqE (readE (\<lambda>w. assert_can_create_book (bw_quotas w) (iw_books w) who)) (\<lambda>_.
     seqE (on_books (create_row (\<lambda>a b. bk_id b = bk_id a) (new_book dp ev who body))) (\<lambda>_.
     returnE (to_book_dto (new_book dp ev who body))))"

record list_books_query =
  bl_cursor :: "string option"
  bl_limit :: "string option"
  bl_status :: "string option"
  bl_include_deleted :: "string option"

definition book_selected :: "principal \<Rightarrow> list_books_query \<Rightarrow> string list \<Rightarrow> book \<Rightarrow> bool" where
  "book_selected who query statuses b \<longleftrightarrow> bk_tenant_id b = tenant_id who
     \<and> (bl_include_deleted query = Some ''true'' \<or> bk_deleted_at b = None)
     \<and> (statuses = [] \<or> show_book_status (bk_status b) \<in> set statuses)"

definition list_books ::
  "(string \<Rightarrow> int option) \<Rightarrow> principal \<Rightarrow> list_books_query \<Rightarrow> book list \<Rightarrow> thrown + json cursor_page" where
  "list_books other_date who query books =
     bindE (parse_limit (bl_limit query)) (\<lambda>limit.
     bindE (decode_cursor (bl_cursor query)) (\<lambda>cursor.
     bindE (parse_multi (bl_status query) BOOK_STATUSES ''status'') (\<lambda>statuses.
     list_newest other_date bk_created bk_id to_book_dto limit (book_selected who query statuses) cursor books)))"

definition require_owned_book :: "principal \<Rightarrow> string \<Rightarrow> ('s, 'z) ingest_world_scheme \<Rightarrow> thrown + book" where
  "require_owned_book who book_id w =
     (let found = find_row (\<lambda>b. bk_id b = book_id \<and> bk_tenant_id b = tenant_id who) (iw_books w)
      in bindE (assert_tenant_ownership (map_option bk_tenant_id found) who ''Book not found.'') (\<lambda>_. Inr (the found)))"

definition get_book :: "('q, 'r, 's) books_deps \<Rightarrow> principal \<Rightarrow> string \<Rightarrow> ('s, 'z) ingest_world_scheme \<Rightarrow> thrown + json \<times> string" where
  "get_book dp who book_id w = bindE (require_owned_book who book_id w) (\<lambda>b. Inr (to_book_dto b, book_etag (bd_sha256 dp) b))"

text \<open>The editable columns of a patch; \<open>title\<close> and \<open>language\<close> have no \<open>null\<close>.\<close>

datatype 'a change = Keep | Clear | Set_to 'a

fun changed :: "'a change \<Rightarrow> 'a option \<Rightarrow> 'a option" where
  "changed Keep old = old"
| "changed Clear old = None"
| "changed (Set_to x) old = Some x"

record metadata_change =
  mc_series :: "string change"
  mc_series_index :: "int change"
  mc_publication_year :: "int change"
  mc_publisher :: "string change"

record book_change =
  bc_title :: "string option"
  bc_author :: "string change"
  bc_language :: "string option"
  bc_description :: "string change"
  bc_metadata :: "metadata_change option"

definition change_info :: "book_change \<Rightarrow> book_info \<Rightarrow> book_info" where
  "change_info body m =
     (let md = (\<lambda>f. case bc_metadata body of None \<Rightarrow> Keep | Some c \<Rightarrow> f c);
          mn = (\<lambda>f. case bc_metadata body of None \<Rightarrow> Keep | Some c \<Rightarrow> f c)
      in \<lparr> bm_title = (case bc_title body of None \<Rightarrow> bm_title m | Some t \<Rightarrow> t),
           bm_author = changed (bc_author body) (bm_author m),
           bm_language = (case bc_language body of None \<Rightarrow> bm_language m | Some l \<Rightarrow> l),
           bm_description = changed (bc_description body) (bm_description m),
           bm_series = changed (md mc_series) (bm_series m),
           bm_series_index = changed (mn mc_series_index) (bm_series_index m),
           bm_publication_year = changed (mn mc_publication_year) (bm_publication_year m),
           bm_publisher = changed (md mc_publisher) (bm_publisher m) \<rparr>)"

text \<open>Every edit by id counts the row version up and sets \<open>updated_at\<close>.\<close>

definition edit_book :: "int \<Rightarrow> (book \<Rightarrow> book) \<Rightarrow> string \<Rightarrow> ('q, 'r, 's) books_world \<Rightarrow> (thrown + book) \<times> ('q, 'r, 's) books_world" where
  "edit_book now f book_id =
     seqE (on_books (update_row (\<lambda>b. bk_id b = book_id)
        (\<lambda>b. (f b)\<lparr> bk_row_version := bk_row_version (f b) + 1, bk_updated := now \<rparr>))) (\<lambda>_.
     readE (\<lambda>w. case find_row (\<lambda>b. bk_id b = book_id) (iw_books w) of
        None \<Rightarrow> Inl record_not_found | Some b \<Rightarrow> Inr b))"

definition invalid_transition :: "string \<Rightarrow> thrown" where
  "invalid_transition m = AppErr (ConflictError (coded ''INVALID_STATE_TRANSITION'' m))"

text \<open>What an edit is checked against is the book as it was read; the update is a later step.\<close>

definition check_edit ::
  "(bytes \<Rightarrow> string) \<Rightarrow> book_change \<Rightarrow> string option \<Rightarrow> book \<Rightarrow> thrown + unit" where
  "check_edit sha256 body if_match b =
     (if bk_deleted_at b \<noteq> None then Inl (invalid_transition ''This book is deleted and cannot be edited.'')
      else bindE (assert_if_match if_match (book_etag sha256 b)) (\<lambda>_.
        if bc_language body \<noteq> None \<and> bc_language body \<noteq> Some (bm_language (bk_info b)) \<and> bk_current_version b \<noteq> None
        then Inl (invalid_transition
          ''language cannot be changed after ingestion has produced canonical text. Create a new book instead.'')
        else Inr ()))"

definition admit_edit ::
  "('q, 'r, 's) books_deps \<Rightarrow> principal \<Rightarrow> string \<Rightarrow> book_change \<Rightarrow> string option \<Rightarrow> ('q, 'r, 's) books_world \<Rightarrow> thrown + unit" where
  "admit_edit dp who book_id body if_match w =
     bindE (require_owned_book who book_id w) (check_edit (bd_sha256 dp) body if_match)"

definition write_edit ::
  "('q, 'r, 's) books_deps \<Rightarrow> books_env \<Rightarrow> string \<Rightarrow> book_change \<Rightarrow> ('q, 'r, 's) books_world
     \<Rightarrow> (thrown + json \<times> string) \<times> ('q, 'r, 's) books_world" where
  "write_edit dp ev book_id body =
     seqE (edit_book (be_now ev) (\<lambda>b. b\<lparr> bk_info := change_info body (bk_info b) \<rparr>) book_id) (\<lambda>b.
     returnE (to_book_dto b, book_etag (bd_sha256 dp) b))"

definition update_book_metadata ::
  "('q, 'r, 's) books_deps \<Rightarrow> books_env \<Rightarrow> principal \<Rightarrow> string \<Rightarrow> book_change \<Rightarrow> string option
     \<Rightarrow> ('q, 'r, 's) books_world \<Rightarrow> (thrown + json \<times> string) \<times> ('q, 'r, 's) books_world" where
  "update_book_metadata dp ev who book_id body if_match =
     seqE (readE (admit_edit dp who book_id body if_match)) (\<lambda>_. write_edit dp ev book_id body)"

definition book_has_jobs :: "nat \<Rightarrow> string \<Rightarrow> thrown" where
  "book_has_jobs n m = AppErr (ConflictError (coded ''BOOK_HAS_ACTIVE_JOBS'' (show_nat n @ m)))"

definition jobs_in :: "job_status list \<Rightarrow> string \<Rightarrow> job list \<Rightarrow> nat" where
  "jobs_in statuses book_id jobs = count_rows (\<lambda>j. jb_book_id j = Some book_id \<and> jb_status j \<in> set statuses) jobs"

definition delete_book ::
  "books_env \<Rightarrow> principal \<Rightarrow> string \<Rightarrow> ('q, 'r, 's) books_world \<Rightarrow> (thrown + unit) \<times> ('q, 'r, 's) books_world" where
  "delete_book ev who book_id =
     seqE (readE (require_owned_book who book_id)) (\<lambda>b.
     if bk_deleted_at b \<noteq> None then returnE ()
     else seqE (readE (\<lambda>w. let n = jobs_in [QUEUED, RUNNING, RETRYING] book_id (db_jobs w) in
            if n > 0 then Inl (book_has_jobs n '' job(s) are still running for this book. Cancel them before deleting it.'')
            else Inr ())) (\<lambda>_.
          seqE (edit_book (be_now ev) (\<lambda>b. b\<lparr> bk_deleted_at := Some (be_now ev) \<rparr>) book_id) (\<lambda>_. returnE ())))"

definition restore_book ::
  "books_env \<Rightarrow> principal \<Rightarrow> string \<Rightarrow> ('q, 'r, 's) books_world \<Rightarrow> (thrown + json) \<times> ('q, 'r, 's) books_world" where
  "restore_book ev who book_id =
     seqE (readE (\<lambda>w. bindE (require_role who ''TENANT_OWNER'') (\<lambda>_. require_owned_book who book_id w))) (\<lambda>b.
     if bk_deleted_at b = None then throwE (invalid_transition ''This book is not deleted.'')
     else seqE (edit_book (be_now ev) (\<lambda>b. b\<lparr> bk_deleted_at := None \<rparr>) book_id) (\<lambda>b. returnE (to_book_dto b)))"

text \<open>What admits a purge, and the job it creates.\<close>

definition admit_purge :: "principal \<Rightarrow> string \<Rightarrow> string \<Rightarrow> ('q, 'r, 's) books_world \<Rightarrow> thrown + unit" where
  "admit_purge who book_id confirm_book_id w =
     bindE (require_role who ''TENANT_OWNER'') (\<lambda>_.
     if confirm_book_id \<noteq> book_id
     then Inl (AppErr (ValidationError (detailed (msg_only ''confirm_book_id must equal the bookId in the path.'')
            (Some ''confirm_book_id'') ''invalid_format'')))
     else bindE (require_owned_book who book_id w) (\<lambda>b.
       if bk_deleted_at b = None then Inl (invalid_transition ''The book must be soft-deleted before it can be purged.'')
       else let n = jobs_in ACTIVE_JOB_STATUSES book_id (db_jobs w) in
         if n > 0 then Inl (book_has_jobs n '' job(s) are still associated with this book. Cancel them before purging it.'')
         else Inr ()))"

definition purge_job :: "('q, 'r, 's) books_deps \<Rightarrow> books_env \<Rightarrow> principal \<Rightarrow> string \<Rightarrow> job" where
  "purge_job dp ev who book_id =
     fresh_job (be_now ev) (be_id ev 0) (tenant_id who) book_id (''cleanup_artifacts'', ''maintenance'', ''BULK'')
       (''book'', book_id) (''purge_book:'' @ book_id, bd_sha256 dp (utf8_encode (''purge:'' @ book_id)))
       (be_id ev 1) False (purge_book_envelope (be_id ev 0) book_id (tenant_id who) (be_id ev 1))"

definition job_receipt :: "string \<Rightarrow> string \<Rightarrow> string \<Rightarrow> json" where
  "job_receipt job_id ty book_id = JObj
     [(''id'', JStr job_id), (''type'', JStr ty), (''status'', JStr ''CREATED''), (''book_id'', JStr book_id)]"

definition purge_book ::
  "('q, 'r, 's) books_deps \<Rightarrow> books_env \<Rightarrow> principal \<Rightarrow> string \<Rightarrow> string \<Rightarrow> ('q, 'r, 's) books_world
     \<Rightarrow> (thrown + json) \<times> ('q, 'r, 's) books_world" where
  "purge_book dp ev who book_id confirm_book_id =
     seqE (readE (admit_purge who book_id confirm_book_id)) (\<lambda>_.
     seqE (on_jobs (create_row job_clash (purge_job dp ev who book_id))) (\<lambda>_.
     seqE (dispatch_job dp ev
        \<lparr> ea_processing_job_id = be_id ev 0, ea_queue = ''maintenance'',
          ea_envelope = purge_book_envelope (be_id ev 0) book_id (tenant_id who) (be_id ev 1),
          ea_job_name = ''cleanup_artifacts'', ea_max_attempts = 3, ea_priority = None \<rparr>) (\<lambda>_.
     returnE (JObj [(''job'', job_receipt (be_id ev 0) ''cleanup_artifacts'' book_id)]))))"

subsection \<open>Source files\<close>

text \<open>A single page of at most 100 files, newest first.\<close>

definition list_book_files :: "principal \<Rightarrow> string \<Rightarrow> ('q, 'r, 's) books_world \<Rightarrow> thrown + json cursor_page" where
  "list_book_files who book_id w = bindE (require_owned_book who book_id w) (\<lambda>_.
     Inr \<lparr> pg_data = map to_book_file_dto
         (take 100 (rev (sort_key bf_created (filter (\<lambda>f. bf_book_id f = book_id) (bw_files w))))),
       pg_limit = 100, pg_has_more = False, pg_next_cursor = None \<rparr>)"

definition get_book_file :: "principal \<Rightarrow> string \<Rightarrow> string \<Rightarrow> ('q, 'r, 's) books_world \<Rightarrow> thrown + json" where
  "get_book_file who book_id book_file_id w = bindE (require_owned_book who book_id w) (\<lambda>_.
     case find_row (\<lambda>f. bf_id f = book_file_id \<and> bf_book_id f = book_id) (bw_files w) of
       None \<Rightarrow> Inl (AppErr (NotFoundError (msg_only ''Book file not found.'')))
     | Some f \<Rightarrow> Inr (to_book_file_dto f))"

end
