(* ===== verification/Maintenance.thy ===== *)
theory Maintenance
  imports Books
begin

text \<open>
  \<open>apps/worker-cpu/src/processors/maintenance.ts\<close>: the purge of a book from the bottom of the schema
  upwards and the retention sweep.  A table is a constructor of \<open>lib_table\<close>; its rows are seen
  through the columns this module reads (\<open>scoped_row\<close>), jobs, outbox and books through their own
  records.  A deletion is refused, as the database refuses it, while a row that stays holds a foreign
  key declared \<open>ON DELETE RESTRICT\<close> to a row that goes (\<open>restrict_delete\<close>); keys declared
  \<open>SET NULL\<close> or \<open>CASCADE\<close> refuse nothing and are left out.
\<close>

subsection \<open>Tables\<close>

datatype lib_table =
    TAudiobookRendition | TAudiobookCover | TAudiobookChapter | TAudiobook | TChapterAudioMember | TChapterAudio
  | TAudioChunk | TTtsJob | TAudioScriptChunkSource | TAudioScriptChunk | TAudioScript | TVoicePreview
  | TVoiceAssignment | TVoiceProfileVersion | TVoiceProfile | TNarrativeEmbedding | TNarrativeSummary
  | TNarrativeLocation | TNarrativeTimelineEvent | TNarrativeObject | TNarrativeFaction | TNarrativeThread
  | TCharacterRelationship | TSceneSemantics | TNarrativeState | TStoryBibleVersion | TStoryBible
  | TPronunciationEntry | TCharacterAlias | TCharacterMerge | TCharacter | TParagraph | TScene | TSection | TChapter
  | TParsedPage | TBookVersion | TBookFile | TProcessingAttempt | TBookCounter | TProcessingJob | TBook

text \<open>
  \<open>rw_keys\<close> are the nullable storage keys, \<open>rw_refs\<close> the restricting foreign keys other than the
  book's; the columns after them exist on voice profiles, their versions, files and audio chunks only.
\<close>

record scoped_row =
  rw_id :: string
  rw_book :: "string option"
  rw_keys :: "string option list"
  rw_refs :: "(lib_table \<times> string) list"
  rw_scope :: string
  rw_profile :: string
  rw_size :: nat
  rw_status :: file_status
  rw_current :: bool
  rw_class :: storage_class
  rw_created :: int

record 's purge_world = job_db +
  pw_books :: "book list"
  pw_rows :: "lib_table \<Rightarrow> scoped_row list"
  pw_dependencies :: "(string \<times> string) list"
  pw_trail :: "audit_row list"
  pw_usage :: "usage_counter list"
  pw_store :: 's

record 's purge_deps =
  md_delete :: "string \<Rightarrow> 's \<Rightarrow> (thrown + unit) \<times> 's"
  md_class_of :: "thrown \<Rightarrow> string"

record purge_env =
  me_now :: int
  me_audit_id :: string
  me_usage_id :: string
  me_usage_ok :: bool

text \<open>The tables whose rows this module reads as \<open>scoped_row\<close>s, and those that hold the key of a book.\<close>

definition ROW_TABLES :: "lib_table list" where
  "ROW_TABLES = [TAudiobookRendition, TAudiobookCover, TAudiobookChapter, TAudiobook, TChapterAudioMember, TChapterAudio,
     TAudioChunk, TTtsJob, TAudioScriptChunkSource, TAudioScriptChunk, TAudioScript, TVoicePreview, TVoiceAssignment,
     TVoiceProfileVersion, TVoiceProfile, TNarrativeEmbedding, TNarrativeSummary, TNarrativeLocation,
     TNarrativeTimelineEvent, TNarrativeObject, TNarrativeFaction, TNarrativeThread, TCharacterRelationship,
     TSceneSemantics, TNarrativeState, TStoryBibleVersion, TStoryBible, TPronunciationEntry, TCharacterAlias,
     TCharacterMerge, TCharacter, TParagraph, TScene, TSection, TChapter, TParsedPage, TBookVersion, TBookFile,
     TProcessingAttempt, TBookCounter]"

definition CASCADE_TABLES :: "lib_table list" where
  "CASCADE_TABLES = [TBookCounter, TStoryBible, TPronunciationEntry]"

definition row_refs :: "lib_table \<Rightarrow> scoped_row \<Rightarrow> (lib_table \<times> string) list" where
  "row_refs tb r = (if tb \<in> set CASCADE_TABLES then [] else case rw_book r of None \<Rightarrow> [] | Some b \<Rightarrow> [(TBook, b)]) @ rw_refs r"

definition job_refs :: "job \<Rightarrow> (lib_table \<times> string) list" where
  "job_refs j = (case jb_book_id j of None \<Rightarrow> [] | Some b \<Rightarrow> [(TBook, b)])
     @ (case jb_parent j of None \<Rightarrow> [] | Some i \<Rightarrow> [(TProcessingJob, i)])"

definition outbox_refs :: "outbox_row \<Rightarrow> (lib_table \<times> string) list" where
  "outbox_refs r = (case od_book_id (ob_draft r) of None \<Rightarrow> [] | Some b \<Rightarrow> [(TBook, b)])"

definition held_refs :: "'s purge_world \<Rightarrow> (lib_table \<times> string) list" where
  "held_refs w = concat (map (\<lambda>tb. concat (map (row_refs tb) (pw_rows w tb))) ROW_TABLES)
     @ concat (map job_refs (db_jobs w)) @ concat (map outbox_refs (db_outbox w))"

definition fk_violation :: thrown where
  "fk_violation = CodedErr ''P2003'' ''Foreign key constraint violated''"

definition restrict_delete ::
  "lib_table \<Rightarrow> string list \<Rightarrow> ('s purge_world \<Rightarrow> 's purge_world) \<Rightarrow> 's purge_world \<Rightarrow> (thrown + unit) \<times> 's purge_world" where
  "restrict_delete tb gone del w =
     (let w' = del w in if list_ex (\<lambda>i. (tb, i) \<in> set (held_refs w')) gone then (Inl fk_violation, w) else (Inr (), w'))"

text \<open>\<open>deleteMany\<close> on a table of rows.\<close>

definition delete_rows ::
  "lib_table \<Rightarrow> (scoped_row \<Rightarrow> bool) \<Rightarrow> 's purge_world \<Rightarrow> (thrown + unit) \<times> 's purge_world" where
  "delete_rows tb P w = restrict_delete tb (map rw_id (filter P (pw_rows w tb)))
     (\<lambda>w. w\<lparr> pw_rows := (pw_rows w)(tb := filter (\<lambda>r. \<not> P r) (pw_rows w tb)) \<rparr>) w"

subsection \<open>Objects\<close>

text \<open>Best effort: what fails is logged, an absent or empty key is skipped.\<close>

fun delete_objects :: "(string \<Rightarrow> 's \<Rightarrow> (thrown + unit) \<times> 's) \<Rightarrow> string option list \<Rightarrow> 's \<Rightarrow> 's" where
  "delete_objects del [] s = s"
| "delete_objects del (k # ks) s = delete_objects del ks (if truthy k then snd (del (the k) s) else s)"

definition drop_objects :: "'s purge_deps \<Rightarrow> string option list \<Rightarrow> 's purge_world \<Rightarrow> (thrown + unit) \<times> 's purge_world" where
  "drop_objects dp ks = doE (\<lambda>w. w\<lparr> pw_store := delete_objects (md_delete dp) ks (pw_store w) \<rparr>)"

subsection \<open>The steps\<close>

definition of_book :: "string \<Rightarrow> scoped_row \<Rightarrow> bool" where
  "of_book b r \<longleftrightarrow> rw_book r = Some b"

definition delete_many_by_book :: "lib_table \<Rightarrow> string \<Rightarrow> 's purge_world \<Rightarrow> (thrown + unit) \<times> 's purge_world" where
  "delete_many_by_book tb b = delete_rows tb (of_book b)"

definition purge_artifact_table :: "'s purge_deps \<Rightarrow> lib_table \<Rightarrow> string \<Rightarrow> 's purge_world \<Rightarrow> (thrown + unit) \<times> 's purge_world" where
  "purge_artifact_table dp tb b =
     seqE (readE (\<lambda>w. Inr (filter (of_book b) (pw_rows w tb)))) (\<lambda>rows.
     seqE (drop_objects dp (concat (map rw_keys rows))) (\<lambda>_. delete_many_by_book tb b))"

definition book_profile :: "string \<Rightarrow> scoped_row \<Rightarrow> bool" where
  "book_profile b r \<longleftrightarrow> rw_book r = Some b \<and> rw_scope r = ''BOOK''"

fun purge_profile_versions :: "'s purge_deps \<Rightarrow> scoped_row list \<Rightarrow> 's purge_world \<Rightarrow> (thrown + unit) \<times> 's purge_world" where
  "purge_profile_versions dp [] = returnE ()"
| "purge_profile_versions dp (profile # profiles) =
     seqE (readE (\<lambda>w. Inr (filter (\<lambda>r. rw_profile r = rw_id profile) (pw_rows w TVoiceProfileVersion)))) (\<lambda>versions.
     seqE (drop_objects dp (concat (map rw_keys versions))) (\<lambda>_.
     seqE (delete_rows TVoiceProfileVersion (\<lambda>r. rw_profile r = rw_id profile)) (\<lambda>_.
     purge_profile_versions dp profiles)))"

definition purge_book_scoped_voice_profiles :: "'s purge_deps \<Rightarrow> string \<Rightarrow> 's purge_world \<Rightarrow> (thrown + unit) \<times> 's purge_world" where
  "purge_book_scoped_voice_profiles dp b =
     seqE (readE (\<lambda>w. Inr (filter (book_profile b) (pw_rows w TVoiceProfile)))) (\<lambda>profiles.
     seqE (purge_profile_versions dp profiles) (\<lambda>_. delete_rows TVoiceProfile (book_profile b)))"

text \<open>The usage counter of the month: created at \<open>max delta 0\<close>, otherwise counted on.\<close>

definition record_storage_bytes_delta :: "purge_env \<Rightarrow> string \<Rightarrow> int \<Rightarrow> usage_counter list \<Rightarrow> usage_counter list" where
  "record_storage_bytes_delta ev t delta counters =
     (let (start, stop) = current_period (me_now ev)
      in if \<not> me_usage_ok ev then counters
         else if find_row (counter_matches t start STORAGE_BYTES) counters = None
         then insert_row \<lparr> tu_id = me_usage_id ev, tu_tenant_id = t, tu_period_start = start, tu_period_end = stop,
                tu_metric = STORAGE_BYTES, tu_used = (if delta > 0 then delta else 0) \<rparr> counters
         else update_where (counter_matches t start STORAGE_BYTES) (\<lambda>c. c\<lparr> tu_used := tu_used c + delta \<rparr>) counters)"

text \<open>The files whose object no other book's file shares.\<close>

definition unshared :: "string \<Rightarrow> scoped_row list \<Rightarrow> scoped_row \<Rightarrow> bool" where
  "unshared b rows f \<longleftrightarrow> find_row (\<lambda>g. rw_keys g = rw_keys f \<and> \<not> of_book b g) rows = None"

definition purge_book_files :: "'s purge_deps \<Rightarrow> purge_env \<Rightarrow> string \<Rightarrow> string \<Rightarrow> 's purge_world \<Rightarrow> (thrown + unit) \<times> 's purge_world" where
  "purge_book_files dp ev b t =
     seqE (readE (\<lambda>w. Inr (filter (unshared b (pw_rows w TBookFile)) (filter (of_book b) (pw_rows w TBookFile))))) (\<lambda>own.
     seqE (drop_objects dp (concat (map rw_keys own))) (\<lambda>_.
     seqE (delete_many_by_book TBookFile b) (\<lambda>_.
     let freed = sum_list (map rw_size own) in
     if freed > 0 then doE (\<lambda>w. w\<lparr> pw_usage := record_storage_bytes_delta ev t (- int freed) (pw_usage w) \<rparr>)
     else returnE ())))"

definition purge_jobs_and_attempts :: "string \<Rightarrow> string \<Rightarrow> 's purge_world \<Rightarrow> (thrown + unit) \<times> 's purge_world" where
  "purge_jobs_and_attempts b purge_job_id =
     seqE (delete_many_by_book TProcessingAttempt b) (\<lambda>_.
     seqE (readE (\<lambda>w. Inr (map jb_id (filter (\<lambda>j. jb_book_id j = Some b \<and> jb_id j \<noteq> purge_job_id) (db_jobs w))))) (\<lambda>ids.
     if ids = [] then returnE ()
     else seqE (doE (\<lambda>w. w\<lparr> pw_dependencies := filter (\<lambda>(j, d). j \<notin> set ids \<and> d \<notin> set ids) (pw_dependencies w) \<rparr>)) (\<lambda>_.
       restrict_delete TProcessingJob ids (\<lambda>w. w\<lparr> db_jobs := filter (\<lambda>j. jb_id j \<notin> set ids) (db_jobs w) \<rparr>))))"

definition delete_book_row :: "string \<Rightarrow> 's purge_world \<Rightarrow> (thrown + unit) \<times> 's purge_world" where
  "delete_book_row b w = restrict_delete TBook (map bk_id (filter (\<lambda>r. bk_id r = b) (pw_books w)))
     (\<lambda>w. w\<lparr> pw_books := filter (\<lambda>r. bk_id r \<noteq> b) (pw_books w) \<rparr>) w"

datatype purge_step = Artifacts lib_table | Rows lib_table | Profiles | Files | Jobs_and_attempts | Book_row

definition PURGE_STEPS :: "purge_step list" where
  "PURGE_STEPS =
     [Artifacts TAudiobookRendition, Artifacts TAudiobookCover,
      Rows TAudiobookChapter, Artifacts TAudiobook,
      Rows TChapterAudioMember, Artifacts TChapterAudio,
      Artifacts TAudioChunk,
      Rows TTtsJob,
      Rows TAudioScriptChunkSource, Rows TAudioScriptChunk, Rows TAudioScript,
      Artifacts TVoicePreview, Rows TVoiceAssignment,
      Profiles,
      Rows TNarrativeEmbedding, Rows TNarrativeSummary, Rows TNarrativeLocation, Rows TNarrativeTimelineEvent,
      Rows TNarrativeObject, Rows TNarrativeFaction, Rows TNarrativeThread, Rows TCharacterRelationship,
      Rows TSceneSemantics, Rows TNarrativeState, Rows TStoryBibleVersion, Rows TStoryBible,
      Rows TPronunciationEntry,
      Rows TCharacterAlias, Rows TCharacterMerge, Rows TCharacter,
      Rows TParagraph, Rows TScene, Rows TSection, Rows TChapter, Rows TParsedPage,
      Artifacts TBookVersion,
      Files,
      Jobs_and_attempts,
      Rows TBookCounter, Book_row]"

fun run_purge_step ::
  "'s purge_deps \<Rightarrow> purge_env \<Rightarrow> job \<Rightarrow> string \<Rightarrow> purge_step \<Rightarrow> 's purge_world \<Rightarrow> (thrown + unit) \<times> 's purge_world" where
  "run_purge_step dp ev j b (Artifacts tb) = purge_artifact_table dp tb b"
| "run_purge_step dp ev j b (Rows tb) = delete_many_by_book tb b"
| "run_purge_step dp ev j b Profiles = purge_book_scoped_voice_profiles dp b"
| "run_purge_step dp ev j b Files = purge_book_files dp ev b (jb_tenant_id j)"
| "run_purge_step dp ev j b Jobs_and_attempts = purge_jobs_and_attempts b (jb_id j)"
| "run_purge_step dp ev j b Book_row = delete_book_row b"

fun run_purge_steps ::
  "'s purge_deps \<Rightarrow> purge_env \<Rightarrow> job \<Rightarrow> string \<Rightarrow> purge_step list \<Rightarrow> 's purge_world \<Rightarrow> (thrown + unit) \<times> 's purge_world" where
  "run_purge_steps dp ev j b [] = returnE ()"
| "run_purge_steps dp ev j b (s # ss) = seqE (run_purge_step dp ev j b s) (\<lambda>_. run_purge_steps dp ev j b ss)"

subsection \<open>The purge\<close>

text \<open>A worker is no user: the actor of the audit row is empty.\<close>

definition purged_row :: "purge_env \<Rightarrow> job \<Rightarrow> string \<Rightarrow> audit_row" where
  "purged_row ev j b =
     \<lparr> au_id = me_audit_id ev, au_occurred_at = me_now ev, au_tenant_id = jb_tenant_id j, au_actor_kind = ''WORKER'',
       au_actor_user_id = [], au_action = ''BOOK_PURGED'', au_resource_type = ''book'', au_resource_id = Some b,
       au_book_id = Some b, au_request_id = None, au_trace_id = None, au_correlation_id = Some (jb_correlation_id j),
       au_outcome = SUCCESS, au_metadata = None \<rparr>"

definition run_patch :: "int \<Rightarrow> job \<Rightarrow> job" where
  "run_patch now j = touch now (set_status RUNNING now j)"

definition done_patch :: "int \<Rightarrow> job \<Rightarrow> job" where
  "done_patch now j = touch now (set_completed now (set_status SUCCEEDED now
     (j\<lparr> jb_progress := (jb_progress j)\<lparr> jp_value := 1 \<rparr> \<rparr>)))"

definition failed_patch' :: "'s purge_deps \<Rightarrow> int \<Rightarrow> thrown \<Rightarrow> job \<Rightarrow> job" where
  "failed_patch' dp now err j = touch now (set_status FAILED now
     (j\<lparr> jb_error := (jb_error j)\<lparr> je_class := Some (md_class_of dp err), je_message := Some (take 2000 (error_message err)),
          je_retryable := Some True, je_terminal := Some False \<rparr> \<rparr>))"

text \<open>
  The check constraints on jobs: a job that failed has an error code, one that succeeded has a time of
  completion.  An update that breaks one is refused by the database.
\<close>

definition job_checks :: "job \<Rightarrow> bool" where
  "job_checks j \<longleftrightarrow> (jb_status j = FAILED \<or> jb_status j = DEAD_LETTERED \<longrightarrow> je_code (jb_error j) \<noteq> None)
     \<and> (jb_status j = SUCCEEDED \<longrightarrow> jt_completed (jb_times j) \<noteq> None)"

definition check_violation :: thrown where
  "check_violation = OtherErr ''new row for relation \"processing_job\" violates check constraint''"

definition update_job_checked ::
  "string \<Rightarrow> (job \<Rightarrow> job) \<Rightarrow> 's purge_world \<Rightarrow> (thrown + unit) \<times> 's purge_world" where
  "update_job_checked i f w = (case find_job i (db_jobs w) of
     None \<Rightarrow> (Inl record_not_found, w)
   | Some j \<Rightarrow> if job_checks (f j) then (Inr (), w\<lparr> db_jobs := update_where (\<lambda>k. jb_id k = i) f (db_jobs w) \<rparr>)
              else (Inl check_violation, w))"

definition purge_body :: "'s purge_deps \<Rightarrow> purge_env \<Rightarrow> job \<Rightarrow> string \<Rightarrow> 's purge_world \<Rightarrow> (thrown + unit) \<times> 's purge_world" where
  "purge_body dp ev j b =
     seqE (run_purge_steps dp ev j b PURGE_STEPS) (\<lambda>_.
     seqE (doE (\<lambda>w. w\<lparr> pw_trail := insert_row (purged_row ev j b) (pw_trail w) \<rparr>)) (\<lambda>_.
     update_job_checked (jb_id j) (done_patch (me_now ev))))"

text \<open>An exception of the handler's own update replaces the one it handles.\<close>

definition run_purge_book :: "'s purge_deps \<Rightarrow> purge_env \<Rightarrow> string \<Rightarrow> string \<Rightarrow> 's purge_world \<Rightarrow> (thrown + unit) \<times> 's purge_world" where
  "run_purge_book dp ev i b w = (case find_job i (db_jobs w) of
     None \<Rightarrow> (Inr (), w)
   | Some j \<Rightarrow>
       if jb_status j = SUCCEEDED then (Inr (), w)
       else seqE (update_job_checked i (run_patch (me_now ev))) (\<lambda>_ w1.
         (case purge_body dp ev j b w1 of
            (Inr u, w2) \<Rightarrow> (Inr u, w2)
          | (Inl err, w2) \<Rightarrow> seqE (update_job_checked i (failed_patch' dp (me_now ev) err)) (\<lambda>_. throwE err) w2)) w)"

text \<open>Both payloads of the queue.\<close>

definition process_maintenance_job ::
  "'s purge_deps \<Rightarrow> purge_env \<Rightarrow> json \<Rightarrow> 's purge_world \<times> inbox_row list \<Rightarrow> (thrown + unit) \<times> 's purge_world \<times> inbox_row list" where
  "process_maintenance_job dp ev envelope wt = (case wt of (w, t) \<Rightarrow>
     if \<not> truthy (str_field envelope ''entity_id'')
     then (Inl (OtherErr ''maintenance event envelope is missing entity_id (the ProcessingJob id)''), (w, t))
     else let i = the (str_field envelope ''entity_id'');
              payload = (case json_field envelope ''payload'' of Some p \<Rightarrow> p | None \<Rightarrow> JNull);
              text_of = (\<lambda>k. case str_field payload k of Some s \<Rightarrow> s | None \<Rightarrow> [])
       in if json_field payload ''operation'' \<noteq> None
          then (case run_purge_book dp ev i (text_of ''book_id'') w of (r, w') \<Rightarrow> (r, (w', t)))
          else (case deliver ''worker-cpu:maintenance'' (text_of ''event_id'') (me_now ev)
                  (update_job_checked i (done_patch (me_now ev))) (w, t) of
             (Inl e, wt') \<Rightarrow> (Inl e, wt') | (Inr _, wt') \<Rightarrow> (Inr (), wt')))"

subsection \<open>Retention\<close>

record retention_config =
  rc_orphan_ttl_hours :: nat
  rc_soft_delete_days :: nat

definition expire :: "scoped_row \<Rightarrow> scoped_row" where
  "expire r = r\<lparr> rw_class := EXPIRED \<rparr>"

definition orphaned_file :: "int \<Rightarrow> scoped_row \<Rightarrow> bool" where
  "orphaned_file cutoff f \<longleftrightarrow> rw_status f = REJECTED \<and> rw_class f \<noteq> EXPIRED \<and> rw_created f < cutoff"

definition superseded_chunk :: "int \<Rightarrow> book list \<Rightarrow> scoped_row \<Rightarrow> bool" where
  "superseded_chunk cutoff books c \<longleftrightarrow> \<not> rw_current c \<and> rw_class c = STANDARD \<and> rw_created c < cutoff
     \<and> list_ex (\<lambda>b. rw_book c = Some (bk_id b) \<and> bk_status b = BCompleted \<and> bk_current_audiobook b \<noteq> None
          \<and> bk_deleted_at b = None) books"

text \<open>One half of the sweep: the objects of the selected rows, then their storage class.\<close>

definition expire_rows :: "'s purge_deps \<Rightarrow> lib_table \<Rightarrow> (scoped_row \<Rightarrow> bool) \<Rightarrow> 's purge_world \<Rightarrow> nat \<times> 's purge_world" where
  "expire_rows dp tb P w =
     (let rows = filter P (pw_rows w tb)
      in (length rows, w\<lparr> pw_store := delete_objects (md_delete dp) (concat (map rw_keys rows)) (pw_store w),
            pw_rows := (pw_rows w)(tb := update_where (\<lambda>r. rw_id r \<in> rw_id ` set rows) expire (pw_rows w tb)) \<rparr>))"

definition run_retention_sweep :: "'s purge_deps \<Rightarrow> int \<Rightarrow> retention_config \<Rightarrow> 's purge_world \<Rightarrow> (nat \<times> nat) \<times> 's purge_world" where
  "run_retention_sweep dp now config w =
     (let orphan_cutoff = now - int (rc_orphan_ttl_hours config) * 60 * 60 * 1000;
          chunk_cutoff = now - int (rc_soft_delete_days config) * 24 * 60 * 60 * 1000;
          (files, w1) = expire_rows dp TBookFile (orphaned_file orphan_cutoff) w;
          (expired, w2) = expire_rows dp TAudioChunk (superseded_chunk chunk_cutoff (pw_books w1)) w1
      in ((files, expired), w2))"

end
