(* ===== verification/PurgeLaws.thy ===== *)
theory PurgeLaws
  imports Maintenance
begin

text \<open>
  Laws of the purge: what any number of its steps can have removed (\<open>shrunk\<close>), why each step up to
  the last succeeds on a library whose foreign keys stay inside the book and follow the schema, and why
  the last one fails.
\<close>

subsection \<open>What a purge can remove\<close>

definition purgeable :: "'s purge_world \<Rightarrow> string \<Rightarrow> lib_table \<Rightarrow> scoped_row \<Rightarrow> bool" where
  "purgeable w0 b tb r \<longleftrightarrow> rw_book r = Some b
     \<or> (tb = TVoiceProfileVersion \<and> (\<exists>p \<in> set (pw_rows w0 TVoiceProfile). book_profile b p \<and> rw_profile r = rw_id p))"

definition purgeable_key :: "'s purge_world \<Rightarrow> string \<Rightarrow> string option \<Rightarrow> bool" where
  "purgeable_key w0 b k \<longleftrightarrow> (\<exists>tb. \<exists>r \<in> set (pw_rows w0 tb). purgeable w0 b tb r \<and> k \<in> set (rw_keys r))"

definition shrunk :: "'s purge_deps \<Rightarrow> string \<Rightarrow> string \<Rightarrow> 's purge_world \<Rightarrow> 's purge_world \<Rightarrow> bool" where
  "shrunk dp b pid w0 w \<longleftrightarrow> pw_books w = pw_books w0 \<and> pw_trail w = pw_trail w0 \<and> db_outbox w = db_outbox w0
     \<and> (\<exists>ids. pid \<notin> ids \<and> ids \<subseteq> {jb_id k |k. k \<in> set (db_jobs w0) \<and> jb_book_id k = Some b}
          \<and> db_jobs w = filter (\<lambda>k. jb_id k \<notin> ids) (db_jobs w0))
     \<and> (\<forall>tb. \<exists>Q. pw_rows w tb = filter Q (pw_rows w0 tb) \<and> (\<forall>r. \<not> purgeable w0 b tb r \<longrightarrow> Q r))
     \<and> (\<exists>ks. pw_store w = delete_objects (md_delete dp) ks (pw_store w0) \<and> (\<forall>k \<in> set ks. purgeable_key w0 b k))"

lemma shrunk_refl: "shrunk dp b pid w w"
proof -
  have jobs: "\<exists>ids. pid \<notin> ids \<and> ids \<subseteq> {jb_id k |k. k \<in> set (db_jobs w) \<and> jb_book_id k = Some b}
      \<and> db_jobs w = filter (\<lambda>k. jb_id k \<notin> ids) (db_jobs w)" by (intro exI [of _ "{}"]) simp
  have rows: "\<exists>Q. pw_rows w tb = filter Q (pw_rows w tb) \<and> (\<forall>r. \<not> purgeable w b tb r \<longrightarrow> Q r)" for tb
    by (intro exI [of _ "\<lambda>_. True"]) simp
  have "\<exists>ks. pw_store w = delete_objects (md_delete dp) ks (pw_store w) \<and> (\<forall>k \<in> set ks. purgeable_key w b k)"
    by (intro exI [of _ "[]"]) simp
  then show ?thesis unfolding shrunk_def using jobs rows by blast
qed

lemma shrunk_sub: "shrunk dp b pid w0 w \<Longrightarrow> set (pw_rows w tb) \<subseteq> set (pw_rows w0 tb)"
  unfolding shrunk_def by (metis filter_is_subset)

lemma shrunk_usage: "shrunk dp b pid w0 w \<Longrightarrow> shrunk dp b pid w0 (w\<lparr> pw_usage := u \<rparr>)"
  by (simp add: shrunk_def)

lemma shrunk_dependencies: "shrunk dp b pid w0 w \<Longrightarrow> shrunk dp b pid w0 (w\<lparr> pw_dependencies := d \<rparr>)"
  by (simp add: shrunk_def)

lemma shrunk_rows:
  assumes "shrunk dp b pid w0 w" "\<And>r. P r \<Longrightarrow> purgeable w0 b tb r"
  shows "shrunk dp b pid w0 (w\<lparr> pw_rows := (pw_rows w)(tb := filter (\<lambda>r. \<not> P r) (pw_rows w tb)) \<rparr>)"
proof -
  have "\<exists>Q. ((pw_rows w)(tb := filter (\<lambda>r. \<not> P r) (pw_rows w tb))) t = filter Q (pw_rows w0 t) \<and> (\<forall>r. \<not> purgeable w0 b t r \<longrightarrow> Q r)" for t
  proof -
    obtain Q where Q: "pw_rows w t = filter Q (pw_rows w0 t)" "\<forall>r. \<not> purgeable w0 b t r \<longrightarrow> Q r"
      using assms(1) unfolding shrunk_def by blast
    show ?thesis using Q assms(2)
      by (cases "t = tb") (auto intro: exI [of _ "\<lambda>r. Q r \<and> \<not> P r"] exI [of _ Q])
  qed
  then show ?thesis using assms(1) by (simp add: shrunk_def)
qed

lemma delete_objects_append: "delete_objects del (ks @ ls) s = delete_objects del ls (delete_objects del ks s)"
  by (induction ks arbitrary: s) simp_all

lemma shrunk_store:
  assumes "shrunk dp b pid w0 w" "\<And>k. k \<in> set ks \<Longrightarrow> purgeable_key w0 b k"
  shows "shrunk dp b pid w0 (w\<lparr> pw_store := delete_objects (md_delete dp) ks (pw_store w) \<rparr>)"
proof -
  obtain ls where "pw_store w = delete_objects (md_delete dp) ls (pw_store w0)" "\<forall>k \<in> set ls. purgeable_key w0 b k"
    using assms(1) unfolding shrunk_def by blast
  then have "\<exists>ks'. delete_objects (md_delete dp) ks (pw_store w) = delete_objects (md_delete dp) ks' (pw_store w0)
      \<and> (\<forall>k \<in> set ks'. purgeable_key w0 b k)"
    using assms(2) by (intro exI [of _ "ls @ ks"]) (auto simp: delete_objects_append)
  then show ?thesis using assms(1) by (simp add: shrunk_def)
qed

text \<open>The objects of rows that may go may go.\<close>

lemma shrunk_drop:
  assumes "shrunk dp b pid w0 w" "set rows \<subseteq> set (pw_rows w tb)" "\<And>r. r \<in> set rows \<Longrightarrow> purgeable w0 b tb r"
  shows "shrunk dp b pid w0 (w\<lparr> pw_store := delete_objects (md_delete dp) (concat (map rw_keys rows)) (pw_store w) \<rparr>)"
proof (rule shrunk_store [OF assms(1)])
  fix k assume "k \<in> set (concat (map rw_keys rows))"
  then show "purgeable_key w0 b k"
    using assms(2,3) shrunk_sub [OF assms(1), of tb] by (fastforce simp: purgeable_key_def)
qed

lemma restrict_delete_cases:
  assumes "restrict_delete tb gone del w = (r, w')"
  shows "(r = Inl fk_violation \<and> w' = w) \<or> (r = Inr () \<and> w' = del w)"
  using assms by (auto simp: restrict_delete_def Let_def split: if_splits)

lemma delete_rows_shrunk:
  assumes "delete_rows tb P w = (r, w')" "shrunk dp b pid w0 w" "\<And>r. P r \<Longrightarrow> purgeable w0 b tb r"
  shows "shrunk dp b pid w0 w'"
  using restrict_delete_cases [OF assms(1) [unfolded delete_rows_def]] shrunk_rows [where P = P, OF assms(2,3)] assms(2) by auto

lemma drop_objects_run: "drop_objects dp ks w = (Inr (), w\<lparr> pw_store := delete_objects (md_delete dp) ks (pw_store w) \<rparr>)"
  by (simp add: drop_objects_def)

lemma of_book_purgeable: "of_book b r \<Longrightarrow> purgeable w0 b tb r"
  by (simp add: of_book_def purgeable_def)

lemma seqE_read: "seqE (readE f) g w = (case f w of Inl e \<Rightarrow> (Inl e, w) | Inr x \<Rightarrow> g x w)"
  by (simp add: seqE_def split: sum.split)

lemma purge_artifact_table_run:
  "purge_artifact_table dp tb b w = delete_many_by_book tb b
     (w\<lparr> pw_store := delete_objects (md_delete dp) (concat (map rw_keys (filter (of_book b) (pw_rows w tb)))) (pw_store w) \<rparr>)"
  by (simp add: purge_artifact_table_def seqE_read drop_objects_def seqE_def)

lemma purge_artifact_table_shrunk:
  assumes "purge_artifact_table dp tb b w = (r, w')" "shrunk dp b pid w0 w"
  shows "shrunk dp b pid w0 w'"
proof -
  have "shrunk dp b pid w0 (w\<lparr> pw_store := delete_objects (md_delete dp) (concat (map rw_keys (filter (of_book b) (pw_rows w tb)))) (pw_store w) \<rparr>)"
    by (rule shrunk_drop [OF assms(2), where tb = tb]) (auto intro: of_book_purgeable)
  then show ?thesis
    using delete_rows_shrunk assms(1) of_book_purgeable unfolding purge_artifact_table_run delete_many_by_book_def by metis
qed

lemma purge_profile_versions_shrunk:
  assumes "purge_profile_versions dp ps w = (r, w')" "shrunk dp b pid w0 w"
    and "\<forall>p \<in> set ps. book_profile b p \<and> p \<in> set (pw_rows w0 TVoiceProfile)"
  shows "shrunk dp b pid w0 w'"
  using assms
proof (induction ps arbitrary: w)
  case (Cons p ps)
  let ?P = "\<lambda>r. rw_profile r = rw_id p"
  let ?w = "w\<lparr> pw_store := delete_objects (md_delete dp) (concat (map rw_keys (filter ?P (pw_rows w TVoiceProfileVersion)))) (pw_store w) \<rparr>"
  have mine: "?P r \<Longrightarrow> purgeable w0 b TVoiceProfileVersion r" for r using Cons.prems(3) by (auto simp: purgeable_def)
  have sw: "shrunk dp b pid w0 ?w"
    by (rule shrunk_drop [OF Cons.prems(2), where tb = TVoiceProfileVersion]) (auto intro: mine)
  have "seqE (delete_rows TVoiceProfileVersion ?P) (\<lambda>_. purge_profile_versions dp ps) ?w = (r, w')"
    using Cons.prems(1) by (simp add: seqE_read drop_objects_def seqE_def)
  then show ?case
  proof (cases rule: seqE_cases)
    case (stop e)
    then show ?thesis using delete_rows_shrunk [OF stop(1) sw] mine by blast
  next
    case (go x w1)
    then show ?thesis using Cons.IH [OF go(2)] delete_rows_shrunk [OF go(1) sw] mine Cons.prems(3) by fastforce
  qed
qed simp

lemma purge_profiles_shrunk:
  assumes "purge_book_scoped_voice_profiles dp b w = (r, w')" "shrunk dp b pid w0 w"
  shows "shrunk dp b pid w0 w'"
proof -
  have run: "seqE (purge_profile_versions dp (filter (book_profile b) (pw_rows w TVoiceProfile))) (\<lambda>_. delete_rows TVoiceProfile (book_profile b)) w = (r, w')"
    using assms(1) by (simp add: purge_book_scoped_voice_profiles_def seqE_read)
  have ps: "\<forall>p \<in> set (filter (book_profile b) (pw_rows w TVoiceProfile)). book_profile b p \<and> p \<in> set (pw_rows w0 TVoiceProfile)"
    using shrunk_sub [OF assms(2), of TVoiceProfile] by auto
  have own: "book_profile b p \<Longrightarrow> purgeable w0 b TVoiceProfile p" for p by (simp add: book_profile_def purgeable_def)
  show ?thesis using run
  proof (cases rule: seqE_cases)
    case (stop e)
    then show ?thesis using purge_profile_versions_shrunk [OF stop(1) assms(2) ps] by simp
  next
    case (go x w1)
    then show ?thesis using delete_rows_shrunk [OF go(2) purge_profile_versions_shrunk [OF go(1) assms(2) ps]] own by blast
  qed
qed

lemma purge_book_files_shrunk:
  assumes "purge_book_files dp ev b t w = (r, w')" "shrunk dp b pid w0 w"
  shows "shrunk dp b pid w0 w'"
proof -
  let ?own = "filter (unshared b (pw_rows w TBookFile)) (filter (of_book b) (pw_rows w TBookFile))"
  let ?w = "w\<lparr> pw_store := delete_objects (md_delete dp) (concat (map rw_keys ?own)) (pw_store w) \<rparr>"
  have sw: "shrunk dp b pid w0 ?w"
    by (rule shrunk_drop [OF assms(2), where tb = TBookFile]) (auto intro: of_book_purgeable)
  have "seqE (delete_many_by_book TBookFile b) (\<lambda>_.
     let freed = sum_list (map rw_size ?own) in
     if freed > 0 then doE (\<lambda>w. w\<lparr> pw_usage := record_storage_bytes_delta ev t (- int freed) (pw_usage w) \<rparr>)
     else returnE ()) ?w = (r, w')"
    using assms(1) by (simp add: purge_book_files_def seqE_read drop_objects_def seqE_def)
  then show ?thesis
  proof (cases rule: seqE_cases)
    case (stop e)
    then show ?thesis using delete_rows_shrunk [OF _ sw] of_book_purgeable unfolding delete_many_by_book_def by metis
  next
    case (go x w1)
    have "shrunk dp b pid w0 w1" using go(1) delete_rows_shrunk [OF _ sw] of_book_purgeable unfolding delete_many_by_book_def by metis
    then show ?thesis using go(2) by (auto simp: Let_def intro: shrunk_usage split: if_splits)
  qed
qed

lemma shrunk_jobs:
  assumes "shrunk dp b pid w0 w"
  shows "shrunk dp b pid w0 (w\<lparr> db_jobs := filter (\<lambda>j. jb_id j \<notin> jb_id ` set (filter (\<lambda>j. jb_book_id j = Some b \<and> jb_id j \<noteq> pid) (db_jobs w))) (db_jobs w) \<rparr>)"
proof -
  let ?new = "jb_id ` set (filter (\<lambda>j. jb_book_id j = Some b \<and> jb_id j \<noteq> pid) (db_jobs w))"
  obtain ids where ids: "pid \<notin> ids" "ids \<subseteq> {jb_id k |k. k \<in> set (db_jobs w0) \<and> jb_book_id k = Some b}"
    "db_jobs w = filter (\<lambda>k. jb_id k \<notin> ids) (db_jobs w0)"
    using assms unfolding shrunk_def by blast
  have "\<exists>ids'. pid \<notin> ids' \<and> ids' \<subseteq> {jb_id k |k. k \<in> set (db_jobs w0) \<and> jb_book_id k = Some b}
      \<and> filter (\<lambda>j. jb_id j \<notin> ?new) (db_jobs w) = filter (\<lambda>k. jb_id k \<notin> ids') (db_jobs w0)"
    using ids by (intro exI [of _ "ids \<union> ?new"]) (auto intro!: filter_cong)
  then show ?thesis using assms by (simp add: shrunk_def)
qed

lemma purge_jobs_shrunk:
  assumes "purge_jobs_and_attempts b pid w = (r, w')" "shrunk dp b pid w0 w"
  shows "shrunk dp b pid w0 w'"
  using assms(1) unfolding purge_jobs_and_attempts_def
proof (cases rule: seqE_cases)
  case (stop e)
  then show ?thesis using delete_rows_shrunk [OF _ assms(2)] of_book_purgeable unfolding delete_many_by_book_def by metis
next
  case (go x w1)
  let ?ids = "map jb_id (filter (\<lambda>j. jb_book_id j = Some b \<and> jb_id j \<noteq> pid) (db_jobs w1))"
  let ?w = "w1\<lparr> pw_dependencies := filter (\<lambda>(j, d). j \<notin> set ?ids \<and> d \<notin> set ?ids) (pw_dependencies w1) \<rparr>"
  have s1: "shrunk dp b pid w0 w1"
    using go(1) delete_rows_shrunk [OF _ assms(2)] of_book_purgeable unfolding delete_many_by_book_def by metis
  show ?thesis
  proof (cases "?ids = []")
    case True
    then show ?thesis using go(2) s1 by (simp add: seqE_read)
  next
    case False
    then have d: "restrict_delete TProcessingJob ?ids (\<lambda>w. w\<lparr> db_jobs := filter (\<lambda>j. jb_id j \<notin> set ?ids) (db_jobs w) \<rparr>) ?w = (r, w')"
      using go(2) by (simp add: seqE_read seqE_def)
    show ?thesis using restrict_delete_cases [OF d] shrunk_dependencies [OF s1] shrunk_jobs [OF shrunk_dependencies [OF s1]] by auto
  qed
qed

lemma run_purge_step_shrunk:
  assumes "run_purge_step dp ev j b s w = (r, w')" "shrunk dp b (jb_id j) w0 w" "s \<noteq> Book_row"
  shows "shrunk dp b (jb_id j) w0 w'"
proof (cases s)
  case (Rows tb)
  then show ?thesis using assms(1) delete_rows_shrunk [OF _ assms(2)] of_book_purgeable
    unfolding run_purge_step.simps delete_many_by_book_def by (metis run_purge_step.simps(2) delete_many_by_book_def)
qed (use assms purge_artifact_table_shrunk purge_profiles_shrunk purge_book_files_shrunk purge_jobs_shrunk in auto)


subsection \<open>The last step\<close>

lemma shrunk_find_job: "shrunk dp b pid w0 w \<Longrightarrow> find_job pid (db_jobs w) = find_job pid (db_jobs w0)"
proof -
  assume "shrunk dp b pid w0 w"
  then obtain ids where "pid \<notin> ids" "db_jobs w = filter (\<lambda>k. jb_id k \<notin> ids) (db_jobs w0)" unfolding shrunk_def by blast
  moreover have "pid \<notin> ids \<Longrightarrow> find_job pid (filter (\<lambda>k. jb_id k \<notin> ids) js) = find_job pid js" for js
    by (induction js) auto
  ultimately show ?thesis by simp
qed

lemma held_by_job: "j \<in> set (db_jobs w) \<Longrightarrow> jb_book_id j = Some b \<Longrightarrow> (TBook, b) \<in> set (held_refs w)"
  by (force simp: held_refs_def job_refs_def)

text \<open>The job that purges a book holds a foreign key to it.\<close>

lemma delete_book_row_refused:
  assumes "find_job i (db_jobs w) = Some j" "jb_book_id j = Some b" "\<exists>r \<in> set (pw_books w). bk_id r = b"
  shows "delete_book_row b w = (Inl fk_violation, w)"
proof -
  have "j \<in> set (db_jobs w)" using find_job_Some [OF assms(1)] by simp
  then have "(TBook, b) \<in> set (held_refs (w\<lparr> pw_books := filter (\<lambda>r. bk_id r \<noteq> b) (pw_books w) \<rparr>))"
    using held_by_job [of j "w\<lparr> pw_books := filter (\<lambda>r. bk_id r \<noteq> b) (pw_books w) \<rparr>" b] assms(2) by simp
  then show ?thesis using assms(3) by (force simp: delete_book_row_def restrict_delete_def list_ex_iff)
qed

lemma steps_stop_at_book:
  assumes "run_purge_steps dp ev j b ss w = (r, w')" "Book_row \<in> set ss" "shrunk dp b (jb_id j) w0 w"
    and "find_job (jb_id j) (db_jobs w0) = Some k" "jb_book_id k = Some b" "\<exists>r \<in> set (pw_books w0). bk_id r = b"
  shows "(\<exists>e. r = Inl e) \<and> shrunk dp b (jb_id j) w0 w'"
  using assms
proof (induction ss arbitrary: w)
  case (Cons s ss)
  show ?case
  proof (cases "s = Book_row")
    case True
    have "find_job (jb_id j) (db_jobs w) = Some k" "\<exists>r \<in> set (pw_books w). bk_id r = b"
      using shrunk_find_job [OF Cons.prems(3)] Cons.prems(3-6) by (simp_all add: shrunk_def)
    from delete_book_row_refused [OF this(1) Cons.prems(5) this(2)] have "r = Inl fk_violation" "w' = w"
      using Cons.prems(1) True by (simp_all add: seqE_def)
    then show ?thesis using Cons.prems(3) by simp
  next
    case False
    have "seqE (run_purge_step dp ev j b s) (\<lambda>_. run_purge_steps dp ev j b ss) w = (r, w')" using Cons.prems(1) by simp
    then show ?thesis
    proof (cases rule: seqE_cases)
      case (stop e)
      then show ?thesis using run_purge_step_shrunk [OF stop(1) Cons.prems(3) False] by simp
    next
      case (go x w1)
      then show ?thesis
        using Cons.IH [OF go(2) _ run_purge_step_shrunk [OF go(1) Cons.prems(3) False] Cons.prems(4-6)] Cons.prems(2) False by simp
    qed
  qed
qed simp

lemma failed_patch_refused:
  assumes "find_job i (db_jobs w) = Some j" "je_code (jb_error j) = None"
  shows "update_job_checked i (failed_patch' dp now err) w = (Inl check_violation, w)"
proof -
  have "\<not> job_checks (failed_patch' dp now err j)"
    using assms(2) by (simp add: job_checks_def failed_patch'_def touch_def set_status_def)
  then show ?thesis using assms(1) by (simp add: update_job_checked_def)
qed

lemma run_purge_book_stuck:
  assumes "find_job i (db_jobs w) = Some j" "jb_status j \<noteq> SUCCEEDED" "je_code (jb_error j) = None"
    and "jb_book_id j = Some b" "\<exists>r \<in> set (pw_books w). bk_id r = b"
  obtains w1 w' where "w1 = w\<lparr> db_jobs := update_where (\<lambda>k. jb_id k = i) (run_patch (me_now ev)) (db_jobs w) \<rparr>"
    "run_purge_book dp ev i b w = (Inl check_violation, w')" "shrunk dp b i w1 w'"
    "find_job i (db_jobs w') = Some (run_patch (me_now ev) j)"
    "\<exists>e. run_purge_steps dp ev j b PURGE_STEPS w1 = (Inl e, w')"
proof -
  define w1 where "w1 = w\<lparr> db_jobs := update_where (\<lambda>k. jb_id k = i) (run_patch (me_now ev)) (db_jobs w) \<rparr>"
  have i: "jb_id j = i" using find_job_Some [OF assms(1)] by simp
  have rid: "jb_id (run_patch now k) = jb_id k" "jb_book_id (run_patch now k) = jb_book_id k" "jb_error (run_patch now k) = jb_error k"
    for now k by (simp_all add: run_patch_def touch_def set_status_def)
  have "job_checks (run_patch (me_now ev) j)" by (simp add: job_checks_def run_patch_def)
  then have start: "update_job_checked i (run_patch (me_now ev)) w = (Inr (), w1)"
    using assms(1) by (simp add: update_job_checked_def w1_def)
  have j1: "find_job i (db_jobs w1) = Some (run_patch (me_now ev) j)"
    using assms(1) i unfolding w1_def find_job_def
    by (simp add: find_row_update_where rid cong: if_cong)
  obtain r w' where steps: "run_purge_steps dp ev j b PURGE_STEPS w1 = (r, w')" by fastforce
  have "Book_row \<in> set PURGE_STEPS" by (simp add: PURGE_STEPS_def)
  then obtain e where e: "r = Inl e" and sh: "shrunk dp b i w1 w'"
    using steps_stop_at_book [OF steps _ shrunk_refl, of "run_patch (me_now ev) j"] j1 i rid assms(4,5) by (auto simp: w1_def)
  have j': "find_job i (db_jobs w') = Some (run_patch (me_now ev) j)" using shrunk_find_job [OF sh] j1 by simp
  have "run_purge_book dp ev i b w = (Inl check_violation, w')"
    using assms(1,2) start steps e failed_patch_refused [OF j', of dp] rid assms(3)
    by (simp add: run_purge_book_def purge_body_def seqE_def)
  then show ?thesis using that w1_def sh j' steps e by blast
qed


subsection \<open>The steps before it\<close>

text \<open>
  The keys between these tables that \<open>prisma/migrations/0001_init/migration.sql\<close> declares
  \<open>ON DELETE RESTRICT\<close>, referencing table first.
\<close>

definition RESTRICT_FKS :: "(lib_table \<times> lib_table) list" where
  "RESTRICT_FKS =
    [(TBookFile, TBookFile), (TBookVersion, TBookFile), (TBookVersion, TBookVersion), (TCharacter, TBookVersion),
     (TCharacter, TCharacter), (TCharacterAlias, TCharacter), (TCharacterMerge, TCharacter), (TCharacterMerge, TCharacterMerge),
     (TCharacterRelationship, TCharacter), (TStoryBibleVersion, TBookVersion), (TStoryBibleVersion, TStoryBibleVersion),
     (TSceneSemantics, TCharacter), (TNarrativeState, TBookVersion), (TNarrativeState, TStoryBibleVersion),
     (TNarrativeState, TChapter), (TNarrativeState, TCharacter), (TNarrativeObject, TCharacter),
     (TPronunciationEntry, TCharacter), (TVoiceProfile, TVoiceProfile), (TVoiceProfileVersion, TVoiceProfile),
     (TVoiceProfileVersion, TVoiceProfileVersion), (TVoiceAssignment, TCharacter), (TVoiceAssignment, TVoiceProfile),
     (TVoiceAssignment, TVoiceProfileVersion), (TVoiceAssignment, TVoiceAssignment), (TVoicePreview, TVoiceProfile),
     (TVoicePreview, TVoiceProfileVersion), (TVoicePreview, TCharacter), (TAudioScript, TBookVersion), (TAudioScript, TChapter),
     (TAudioScript, TStoryBibleVersion), (TAudioScript, TAudioScript), (TAudioScriptChunk, TAudioScript),
     (TAudioScriptChunk, TChapter), (TAudioScriptChunk, TCharacter), (TAudioScriptChunk, TVoiceProfile),
     (TAudioScriptChunk, TVoiceProfileVersion), (TAudioScriptChunk, TStoryBibleVersion), (TAudioScriptChunk, TAudioScriptChunk),
     (TAudioScriptChunkSource, TParagraph), (TTtsJob, TAudioScriptChunk), (TTtsJob, TVoiceProfile), (TTtsJob, TVoiceProfileVersion),
     (TAudioChunk, TAudioScriptChunk), (TAudioChunk, TTtsJob), (TAudioChunk, TChapter), (TAudioChunk, TBookVersion),
     (TAudioChunk, TStoryBibleVersion), (TAudioChunk, TVoiceProfile), (TAudioChunk, TVoiceProfileVersion), (TAudioChunk, TAudioChunk),
     (TChapterAudio, TChapter), (TChapterAudio, TChapterAudio), (TChapterAudioMember, TAudioChunk), (TAudiobook, TBookVersion),
     (TAudiobook, TStoryBibleVersion), (TAudiobook, TAudiobook), (TAudiobookChapter, TChapter), (TAudiobookChapter, TChapterAudio),
     (TAudiobookRendition, TChapter)]"

text \<open>
  A library whose restricting keys to the book's rows are held by rows of the book and follow the
  schema; the book has no voice profile of its own.
\<close>

definition refs_inside :: "'s purge_world \<Rightarrow> string \<Rightarrow> lib_table \<Rightarrow> scoped_row \<Rightarrow> bool" where
  "refs_inside w b tb r \<longleftrightarrow> (\<forall>(t, i) \<in> set (rw_refs r). t \<noteq> TBook \<and> t \<noteq> TProcessingJob
     \<and> (\<forall>x \<in> set (pw_rows w t). rw_id x = i \<and> rw_book x = Some b \<longrightarrow> rw_book r = Some b \<and> (tb, t) \<in> set RESTRICT_FKS))"

definition intact :: "'s purge_world \<Rightarrow> string \<Rightarrow> string \<Rightarrow> bool" where
  "intact w b pid \<longleftrightarrow>
     (\<forall>tb \<in> set ROW_TABLES. \<forall>r \<in> set (pw_rows w tb). refs_inside w b tb r)
     \<and> (\<forall>p \<in> set (pw_rows w TVoiceProfile). \<not> book_profile b p)
     \<and> (\<forall>j \<in> set (db_jobs w). \<forall>k \<in> set (db_jobs w). jb_parent j = Some (jb_id k) \<and> jb_book_id k = Some b \<and> jb_id k \<noteq> pid
          \<longrightarrow> jb_book_id j = Some b \<and> jb_id j \<noteq> pid)"

definition cleared :: "'s purge_world \<Rightarrow> string \<Rightarrow> lib_table set \<Rightarrow> bool" where
  "cleared w b ts \<longleftrightarrow> (\<forall>tb \<in> ts. \<forall>r \<in> set (pw_rows w tb). rw_book r \<noteq> Some b)"

lemma shrunk_job_sub: "shrunk dp b pid w0 w \<Longrightarrow> set (db_jobs w) \<subseteq> set (db_jobs w0)"
  unfolding shrunk_def by (metis filter_is_subset)

lemma intact_shrunk:
  assumes "intact w0 b pid" "shrunk dp b pid w0 w"
  shows "intact w b pid"
proof -
  have rows: "r \<in> set (pw_rows w tb) \<Longrightarrow> r \<in> set (pw_rows w0 tb)" for r tb using shrunk_sub [OF assms(2)] by blast
  have jobs: "k \<in> set (db_jobs w) \<Longrightarrow> k \<in> set (db_jobs w0)" for k using shrunk_job_sub [OF assms(2)] by blast
  have refs: "refs_inside w0 b tb r \<Longrightarrow> refs_inside w b tb r" for tb r using rows unfolding refs_inside_def by fast
  show ?thesis unfolding intact_def
  proof (intro conjI ballI)
    show "refs_inside w b tb r" if "tb \<in> set ROW_TABLES" "r \<in> set (pw_rows w tb)" for tb r
      using assms(1) that rows refs unfolding intact_def by blast
    show "\<not> book_profile b p" if "p \<in> set (pw_rows w TVoiceProfile)" for p
      using assms(1) that rows unfolding intact_def by blast
    show "jb_parent j = Some (jb_id k) \<and> jb_book_id k = Some b \<and> jb_id k \<noteq> pid \<longrightarrow> jb_book_id j = Some b \<and> jb_id j \<noteq> pid"
      if "j \<in> set (db_jobs w)" "k \<in> set (db_jobs w)" for j k
      using assms(1) jobs [OF that(1)] jobs [OF that(2)] unfolding intact_def by blast
  qed
qed

lemma row_delete_allowed:
  assumes "intact w b pid" "cleared w b ts" "\<forall>c. (c, tb) \<in> set RESTRICT_FKS \<longrightarrow> c = tb \<or> c \<in> ts" "tb \<noteq> TBook" "tb \<noteq> TProcessingJob"
  shows "delete_many_by_book tb b w = (Inr (), w\<lparr> pw_rows := (pw_rows w)(tb := filter (\<lambda>r. \<not> of_book b r) (pw_rows w tb)) \<rparr>)"
proof -
  let ?w = "w\<lparr> pw_rows := (pw_rows w)(tb := filter (\<lambda>r. \<not> of_book b r) (pw_rows w tb)) \<rparr>"
  have "(tb, i) \<notin> set (held_refs ?w)" if gone: "i \<in> rw_id ` set (filter (of_book b) (pw_rows w tb))" for i
  proof
    assume "(tb, i) \<in> set (held_refs ?w)"
    then obtain t r where t: "t \<in> set ROW_TABLES" "r \<in> set (pw_rows ?w t)" "(tb, i) \<in> set (row_refs t r)"
      using assms(4,5) by (force simp: held_refs_def job_refs_def outbox_refs_def split: option.splits if_splits)
    then have ref: "(tb, i) \<in> set (rw_refs r)" and r: "r \<in> set (pw_rows w t)"
      using assms(4) by (auto simp: row_refs_def split: option.splits if_splits)
    obtain x where x: "x \<in> set (pw_rows w tb)" "rw_id x = i" "rw_book x = Some b" using gone by (auto simp: of_book_def)
    have "rw_book r = Some b \<and> (t, tb) \<in> set RESTRICT_FKS"
      using assms(1) t(1) r ref x unfolding intact_def refs_inside_def by fastforce
    then have b: "rw_book r = Some b" and "t = tb \<or> t \<in> ts" using assms(3) by blast+
    then show False using t(2) assms(2) r by (auto simp: cleared_def of_book_def)
  qed
  then show ?thesis by (auto simp: delete_many_by_book_def delete_rows_def restrict_delete_def Let_def list_ex_iff)
qed

lemma row_delete_clears: "cleared w b ts \<Longrightarrow>
   cleared (w\<lparr> pw_rows := (pw_rows w)(tb := filter (\<lambda>r. \<not> of_book b r) (pw_rows w tb)) \<rparr>) b (insert tb ts)"
  by (auto simp: cleared_def of_book_def)

lemma cleared_other [simp]:
  "cleared (w\<lparr> pw_store := s \<rparr>) b ts = cleared w b ts" "cleared (w\<lparr> pw_usage := u \<rparr>) b ts = cleared w b ts"
  "cleared (w\<lparr> pw_dependencies := d \<rparr>) b ts = cleared w b ts" "cleared (w\<lparr> db_jobs := js \<rparr>) b ts = cleared w b ts"
  "intact (w\<lparr> pw_store := s \<rparr>) b pid = intact w b pid" "intact (w\<lparr> pw_usage := u \<rparr>) b pid = intact w b pid"
  "intact (w\<lparr> pw_dependencies := d \<rparr>) b pid = intact w b pid"
  by (simp_all add: cleared_def intact_def refs_inside_def)

fun step_table :: "purge_step \<Rightarrow> lib_table option" where
  "step_table (Artifacts tb) = Some tb"
| "step_table (Rows tb) = Some tb"
| "step_table Files = Some TBookFile"
| "step_table Jobs_and_attempts = Some TProcessingAttempt"
| "step_table _ = None"

text \<open>A table is emptied after every table that may still refer to it.\<close>

fun children_first :: "lib_table list \<Rightarrow> purge_step list \<Rightarrow> bool" where
  "children_first ts [] = True"
| "children_first ts (s # ss) = (case step_table s of
     None \<Rightarrow> children_first ts ss
   | Some tb \<Rightarrow> tb \<noteq> TBook \<and> tb \<noteq> TProcessingJob \<and> list_all (\<lambda>(c, p). p \<noteq> tb \<or> c = tb \<or> c \<in> set ts) RESTRICT_FKS
       \<and> children_first (tb # ts) ss)"

lemma purge_steps_ordered: "children_first [] PURGE_STEPS"
  by code_simp

lemma run_purge_step_total:
  assumes "intact w b (jb_id j)" "cleared w b (set ts)" "s \<noteq> Book_row"
    and "\<And>tb. step_table s = Some tb \<Longrightarrow> tb \<noteq> TBook \<and> tb \<noteq> TProcessingJob \<and> (\<forall>c. (c, tb) \<in> set RESTRICT_FKS \<longrightarrow> c = tb \<or> c \<in> set ts)"
  obtains w' where "run_purge_step dp ev j b s w = (Inr (), w')"
    "cleared w' b (set (case step_table s of None \<Rightarrow> ts | Some tb \<Rightarrow> tb # ts))"
proof (cases s)
  case (Artifacts tb)
  let ?w = "w\<lparr> pw_store := delete_objects (md_delete dp) (concat (map rw_keys (filter (of_book b) (pw_rows w tb)))) (pw_store w) \<rparr>"
  have "intact ?w b (jb_id j)" "cleared ?w b (set ts)" using assms(1,2) by simp_all
  from row_delete_allowed [OF this, of tb] row_delete_clears [OF this(2), of tb] show ?thesis
    using that assms(4) Artifacts by (simp add: purge_artifact_table_run)
next
  case (Rows tb)
  then show ?thesis using that row_delete_allowed [OF assms(1,2), of tb] row_delete_clears [OF assms(2), of tb] assms(4) by simp
next
  case Profiles
  have none: "filter (book_profile b) (pw_rows w TVoiceProfile) = []" using assms(1) by (auto simp: intact_def filter_empty_conv)
  then have "filter (\<lambda>r. \<not> book_profile b r) (pw_rows w TVoiceProfile) = pw_rows w TVoiceProfile" by (auto simp: filter_empty_conv)
  then have "run_purge_step dp ev j b s w = (Inr (), w)"
    using none by (simp add: Profiles purge_book_scoped_voice_profiles_def seqE_read delete_rows_def restrict_delete_def seqE_def)
  then show ?thesis using that assms(2) Profiles by simp
next
  case Files
  let ?own = "filter (unshared b (pw_rows w TBookFile)) (filter (of_book b) (pw_rows w TBookFile))"
  let ?w = "w\<lparr> pw_store := delete_objects (md_delete dp) (concat (map rw_keys ?own)) (pw_store w) \<rparr>"
  have i: "intact ?w b (jb_id j)" and c: "cleared ?w b (set ts)" using assms(1,2) by simp_all
  let ?v = "?w\<lparr> pw_rows := (pw_rows ?w)(TBookFile := filter (\<lambda>r. \<not> of_book b r) (pw_rows ?w TBookFile)) \<rparr>"
  define freed where "freed = sum_list (map rw_size ?own)"
  have d: "delete_many_by_book TBookFile b ?w = (Inr (), ?v)" using row_delete_allowed [OF i c, of TBookFile] assms(4) Files by simp
  have cv: "cleared ?v b (insert TBookFile (set ts))" by (rule row_delete_clears [OF c])
  have "run_purge_step dp ev j b s w = (if freed > 0
       then doE (\<lambda>w. w\<lparr> pw_usage := record_storage_bytes_delta ev (jb_tenant_id j) (- int freed) (pw_usage w) \<rparr>) else returnE ()) ?v"
    using d by (simp add: Files purge_book_files_def seqE_read drop_objects_run seqE_def Let_def freed_def del: sum_list_eq_0_iff)
  then show ?thesis using that cv Files by (cases "freed > 0") simp_all
next
  case Jobs_and_attempts
  let ?w = "w\<lparr> pw_rows := (pw_rows w)(TProcessingAttempt := filter (\<lambda>r. \<not> of_book b r) (pw_rows w TProcessingAttempt)) \<rparr>"
  let ?ids = "map jb_id (filter (\<lambda>k. jb_book_id k = Some b \<and> jb_id k \<noteq> jb_id j) (db_jobs w))"
  have a: "delete_many_by_book TProcessingAttempt b w = (Inr (), ?w)"
    using row_delete_allowed [OF assms(1,2), of TProcessingAttempt] assms(4) Jobs_and_attempts by simp
  have c: "cleared ?w b (set (TProcessingAttempt # ts))" using row_delete_clears [OF assms(2), of TProcessingAttempt] by simp
  show ?thesis
  proof (cases "?ids = []")
    case True
    then show ?thesis using that a c Jobs_and_attempts by (simp add: purge_jobs_and_attempts_def seqE_read seqE_def)
  next
    case False
    let ?v = "?w\<lparr> pw_dependencies := filter (\<lambda>(j, d). j \<notin> set ?ids \<and> d \<notin> set ?ids) (pw_dependencies w) \<rparr>"
    let ?u = "?v\<lparr> db_jobs := filter (\<lambda>k. jb_id k \<notin> set ?ids) (db_jobs w) \<rparr>"
    have free: "(TProcessingJob, i) \<notin> set (held_refs ?u)" if i: "i \<in> set ?ids" for i
    proof
      assume "(TProcessingJob, i) \<in> set (held_refs ?u)"
      then consider (row) t r where "t \<in> set ROW_TABLES" "r \<in> set (pw_rows w t)" "(TProcessingJob, i) \<in> set (rw_refs r)"
        | (job) k where "k \<in> set (db_jobs w)" "jb_id k \<notin> set ?ids" "jb_parent k = Some i"
        by (force simp: held_refs_def job_refs_def outbox_refs_def row_refs_def split: option.splits if_splits)
      then show False
      proof cases
        case row
        then show False using assms(1) by (fastforce simp: intact_def refs_inside_def)
      next
        case job
        obtain x where "x \<in> set (db_jobs w)" "jb_book_id x = Some b" "jb_id x \<noteq> jb_id j" "jb_id x = i" using i by auto
        then have "jb_book_id k = Some b" "jb_id k \<noteq> jb_id j" using assms(1) job unfolding intact_def by blast+
        then show False using job by auto
      qed
    qed
    have "restrict_delete TProcessingJob ?ids (\<lambda>w. w\<lparr> db_jobs := filter (\<lambda>k. jb_id k \<notin> set ?ids) (db_jobs w) \<rparr>) ?v = (Inr (), ?u)"
    proof -
      have "\<not> list_ex (\<lambda>i. (TProcessingJob, i) \<in> set (held_refs ?u)) ?ids" using free unfolding list_ex_iff by blast
      then show ?thesis by (simp add: restrict_delete_def)
    qed
    then have "run_purge_step dp ev j b s w = (Inr (), ?u)"
      using a False by (simp add: Jobs_and_attempts purge_jobs_and_attempts_def seqE_read seqE_def)
    then show ?thesis using that c Jobs_and_attempts by simp
  qed
qed (use assms(3) in simp)

lemma run_purge_steps_clear:
  assumes "children_first ts ss" "Book_row \<notin> set ss" "intact w0 b (jb_id j)" "shrunk dp b (jb_id j) w0 w" "cleared w b (set ts)"
  obtains w' where "run_purge_steps dp ev j b ss w = (Inr (), w')" "shrunk dp b (jb_id j) w0 w'"
    "cleared w' b (set ts \<union> {tb. Some tb \<in> step_table ` set ss})"
  using assms
proof (induction ss arbitrary: ts w thesis)
  case (Cons s ss)
  have i: "intact w b (jb_id j)" by (rule intact_shrunk [OF Cons.prems(4,5)])
  have "tb \<noteq> TBook \<and> tb \<noteq> TProcessingJob \<and> (\<forall>c. (c, tb) \<in> set RESTRICT_FKS \<longrightarrow> c = tb \<or> c \<in> set ts)" if "step_table s = Some tb" for tb
    using Cons.prems(2) that by (auto simp: list_all_iff)
  then obtain w1 where w1: "run_purge_step dp ev j b s w = (Inr (), w1)"
    "cleared w1 b (set (case step_table s of None \<Rightarrow> ts | Some tb \<Rightarrow> tb # ts))"
    using run_purge_step_total [OF i Cons.prems(6), where dp = dp and ev = ev and s = s] Cons.prems(3) by auto
  have sh: "shrunk dp b (jb_id j) w0 w1" using run_purge_step_shrunk [OF w1(1) Cons.prems(5)] Cons.prems(3) by auto
  have cf: "children_first (case step_table s of None \<Rightarrow> ts | Some tb \<Rightarrow> tb # ts) ss"
    using Cons.prems(2) by (auto split: option.splits)
  obtain w' where "run_purge_steps dp ev j b ss w1 = (Inr (), w')" "shrunk dp b (jb_id j) w0 w'"
    "cleared w' b (set (case step_table s of None \<Rightarrow> ts | Some tb \<Rightarrow> tb # ts) \<union> {tb. Some tb \<in> step_table ` set ss})"
    using Cons.IH [OF _ cf _ Cons.prems(4) sh w1(2)] Cons.prems(3) by auto
  then show ?case using Cons.prems(1) [of w'] w1(1)
    by (cases "step_table s") (auto simp: cleared_def seqE_def)
qed auto

end
