(* ===== verification/BookUploads.thy ===== *)
theory BookUploads
  imports Books
begin

text \<open>
  Uploads and ingestion requests: the upload sessions that \<open>upload-session.store.ts\<close> keeps in
  Redis, and \<open>createUploadSession\<close> to \<open>createTextAccessUrl\<close> of \<open>books.service.ts\<close>.  The
  store is the locale \<open>session_store\<close>, interpreted on the Redis client.
\<close>

subsection \<open>The session store\<close>

text \<open>The status and the source kind are the strings of the JSON text, which is read back unchecked.\<close>

record upload_session =
  up_id :: string
  up_tenant_id :: string
  up_book_id :: string
  up_status :: string
  up_kind :: string
  up_file_name :: string
  up_declared_mime :: string
  up_declared_size :: int
  up_declared_hash :: string
  up_storage_key :: string
  up_created_at :: string
  up_expires_at :: string
  up_rejection :: "string option"
  up_file_id :: "string option"

definition session_json :: "upload_session \<Rightarrow> json" where
  "session_json s = JObj
     ([(''id'', JStr (up_id s)), (''tenantId'', JStr (up_tenant_id s)), (''bookId'', JStr (up_book_id s)),
       (''status'', JStr (up_status s)), (''sourceKind'', JStr (up_kind s)), (''fileName'', JStr (up_file_name s)),
       (''declaredMimeType'', JStr (up_declared_mime s)), (''declaredSizeBytes'', JNum (up_declared_size s)),
       (''declaredContentHash'', JObj [(''algorithm'', JStr ''SHA256''), (''value'', JStr (up_declared_hash s))]),
       (''storageKey'', JStr (up_storage_key s)), (''createdAt'', JStr (up_created_at s)),
       (''expiresAt'', JStr (up_expires_at s))]
      @ opt_field ''rejectionReasonCode'' (up_rejection s) @ opt_field ''bookFileId'' (up_file_id s))"

text \<open>A text the store did not write, with a property missing, is outside the model.\<close>

definition session_of_json :: "json \<Rightarrow> upload_session option" where
  "session_of_json j =
     Option.bind (str_field j ''id'') (\<lambda>i. Option.bind (str_field j ''tenantId'') (\<lambda>t.
     Option.bind (str_field j ''bookId'') (\<lambda>b. Option.bind (str_field j ''status'') (\<lambda>st.
     Option.bind (str_field j ''sourceKind'') (\<lambda>kind. Option.bind (str_field j ''fileName'') (\<lambda>name.
     Option.bind (str_field j ''declaredMimeType'') (\<lambda>mime.
     Option.bind (case json_field j ''declaredSizeBytes'' of Some (JNum n) \<Rightarrow> Some n | _ \<Rightarrow> None) (\<lambda>n.
     Option.bind (Option.bind (json_field j ''declaredContentHash'') (\<lambda>h. str_field h ''value'')) (\<lambda>hash.
     Option.bind (str_field j ''storageKey'') (\<lambda>key. Option.bind (str_field j ''createdAt'') (\<lambda>created.
     Option.bind (str_field j ''expiresAt'') (\<lambda>expires.
     Some \<lparr> up_id = i, up_tenant_id = t, up_book_id = b, up_status = st, up_kind = kind, up_file_name = name,
       up_declared_mime = mime, up_declared_size = n, up_declared_hash = hash, up_storage_key = key,
       up_created_at = created, up_expires_at = expires, up_rejection = str_field j ''rejectionReasonCode'',
       up_file_id = str_field j ''bookFileId'' \<rparr>))))))))))))"

lemma session_json_read: "session_of_json (session_json s) = Some s"
  by (simp add: session_of_json_def session_json_def str_field_def opt_field_def split: option.split)

lemma wf_session_json: "wf_json (session_json s)"
  by (simp add: session_json_def opt_field_def split: option.split)

lemma session_text: "json_parse (json_stringify (session_json s)) = Some (session_json s)"
  by (rule json_parse_print [OF wf_session_json])

definition SESSION_TTL_SECONDS :: nat where
  "SESSION_TTL_SECONDS = 60 * 60"

definition session_key :: "string \<Rightarrow> string \<Rightarrow> string" where
  "session_key t i = ''upload-session:'' @ t @ '':'' @ i"

lemma session_key_inj:
  "CHR '':'' \<notin> set t \<Longrightarrow> CHR '':'' \<notin> set t' \<Longrightarrow> session_key t i = session_key t' i' \<Longrightarrow> t = t' \<and> i = i'"
  using split_at_unique [of "CHR '':''" t t' i i'] by (simp add: session_key_def)

definition sessions_create :: "'r redis_ops \<Rightarrow> upload_session \<Rightarrow> 'r \<Rightarrow> (thrown + unit) \<times> 'r" where
  "sessions_create redis s = redis_set_ex redis (session_key (up_tenant_id s) (up_id s))
     (json_stringify (session_json s)) SESSION_TTL_SECONDS"

definition sessions_get :: "'r redis_ops \<Rightarrow> string \<Rightarrow> string \<Rightarrow> 'r \<Rightarrow> thrown + upload_session option" where
  "sessions_get redis t i r = bindE (redis_get redis (session_key t i) r) (\<lambda>raw.
     if \<not> truthy raw then Inr None
     else case json_parse (the raw) of
       None \<Rightarrow> Inl (OtherErr ''SyntaxError: the session is no JSON text'')
     | Some j \<Rightarrow> (case session_of_json j of
         None \<Rightarrow> Inl (OtherErr ''the session lacks a property'') | Some s \<Rightarrow> Inr (Some s)))"

definition sessions_update ::
  "'r redis_ops \<Rightarrow> (string \<Rightarrow> 'r \<Rightarrow> thrown + int) \<Rightarrow> upload_session \<Rightarrow> 'r \<Rightarrow> (thrown + unit) \<times> 'r" where
  "sessions_update redis ttl_of s r = (case ttl_of (session_key (up_tenant_id s) (up_id s)) r of
     Inl e \<Rightarrow> (Inl e, r)
   | Inr ttl \<Rightarrow> redis_set_ex redis (session_key (up_tenant_id s) (up_id s)) (json_stringify (session_json s))
       (if ttl > 0 then nat ttl else SESSION_TTL_SECONDS) r)"

definition sessions_delete :: "'r redis_ops \<Rightarrow> string \<Rightarrow> string \<Rightarrow> 'r \<Rightarrow> (thrown + unit) \<times> 'r" where
  "sessions_delete redis t i = redis_del redis (session_key t i)"

text \<open>What the service relies on: a session reads back as it was last written.\<close>

locale session_store =
  fixes create :: "upload_session \<Rightarrow> 'r \<Rightarrow> (thrown + unit) \<times> 'r"
    and lookup :: "string \<Rightarrow> string \<Rightarrow> 'r \<Rightarrow> thrown + upload_session option"
    and drop_session :: "string \<Rightarrow> string \<Rightarrow> 'r \<Rightarrow> (thrown + unit) \<times> 'r"
  assumes lookup_create: "lookup (up_tenant_id s) (up_id s) (snd (create s r)) = Inr (Some s)"
    and lookup_create_other: "CHR '':'' \<notin> set t \<Longrightarrow> CHR '':'' \<notin> set (up_tenant_id s) \<Longrightarrow> (t, i) \<noteq> (up_tenant_id s, up_id s)
      \<Longrightarrow> lookup t i (snd (create s r)) = lookup t i r"
    and lookup_drop: "lookup t i (snd (drop_session t i r)) = Inr None"
begin

text \<open>A session is lost only when it is dropped: sessions created later, under other keys, keep it.\<close>

lemma lookup_after_creates:
  assumes "CHR '':'' \<notin> set (up_tenant_id s)"
    and "\<forall>u \<in> set us. CHR '':'' \<notin> set (up_tenant_id u) \<and> (up_tenant_id s, up_id s) \<noteq> (up_tenant_id u, up_id u)"
  shows "lookup (up_tenant_id s) (up_id s) (fold (\<lambda>u r. snd (create u r)) us (snd (create s r))) = Inr (Some s)"
  using assms(2)
proof (induction us rule: rev_induct)
  case (snoc u us)
  then show ?case using lookup_create_other [OF assms(1)] by simp
qed (simp add: lookup_create)

end

lemma json_stringify_nonempty: "json_stringify j \<noteq> []"
  using print_head [of j] by auto

lemma sessions_get_text:
  "redis_get redis (session_key t i) r = Inr (Some (json_stringify (session_json s))) \<Longrightarrow> sessions_get redis t i r = Inr (Some s)"
  by (simp add: sessions_get_def truthy_def json_stringify_nonempty session_text session_json_read)

sublocale redis_client \<subseteq> sessions: session_store "sessions_create redis" "sessions_get redis" "sessions_delete redis"
proof unfold_locales
  fix s :: upload_session and r t i
  show "sessions_get redis (up_tenant_id s) (up_id s) (snd (sessions_create redis s r)) = Inr (Some s)"
    by (rule sessions_get_text) (simp add: sessions_create_def get_set)
  show "sessions_get redis t i (snd (sessions_delete redis t i r)) = Inr None"
    by (simp add: sessions_get_def sessions_delete_def get_del truthy_def)
  assume "CHR '':'' \<notin> set t" "CHR '':'' \<notin> set (up_tenant_id s)" "(t, i) \<noteq> (up_tenant_id s, up_id s)"
  then have "session_key t i \<noteq> session_key (up_tenant_id s) (up_id s)" using session_key_inj by blast
  then show "sessions_get redis t i (snd (sessions_create redis s r)) = sessions_get redis t i r"
    by (simp add: sessions_get_def sessions_create_def get_set)
qed

context redis_client
begin

lemma get_after_update:
  assumes "sessions_update redis ttl_of s r = (Inr u, r')"
  shows "sessions_get redis (up_tenant_id s) (up_id s) r' = Inr (Some s)"
proof (rule sessions_get_text)
  obtain ttl where "redis_set_ex redis (session_key (up_tenant_id s) (up_id s)) (json_stringify (session_json s)) ttl r = (Inr u, r')"
    using assms by (auto simp: sessions_update_def split: sum.splits)
  then have "r' = snd (redis_set_ex redis (session_key (up_tenant_id s) (up_id s)) (json_stringify (session_json s)) ttl r)" by simp
  then show "redis_get redis (session_key (up_tenant_id s) (up_id s)) r' = Inr (Some (json_stringify (session_json s)))"
    by (simp add: get_set)
qed

end


subsection \<open>Upload sessions\<close>

definition UPLOAD_URL_TTL_SECONDS :: nat where
  "UPLOAD_URL_TTL_SECONDS = 900"

record create_session_body =
  sb_file_name :: string
  sb_mime :: string
  sb_size :: nat
  sb_hash :: string
  sb_kind :: source_kind

definition source_kind_extension :: "source_kind \<Rightarrow> string" where
  "source_kind_extension k = (if k = PDF then ''source.pdf'' else ''source.epub'')"

definition on_redis :: "('r \<Rightarrow> (thrown + 'a) \<times> 'r) \<Rightarrow> ('q, 'r, 's) books_world \<Rightarrow> (thrown + 'a) \<times> ('q, 'r, 's) books_world" where
  "on_redis f w = (case f (bw_redis w) of (x, r) \<Rightarrow> (x, w\<lparr> bw_redis := r \<rparr>))"

definition check_declaration :: "ingestion_config \<Rightarrow> create_session_body \<Rightarrow> thrown + unit" where
  "check_declaration config body =
     (if sb_size body > cf_max_file_size_bytes config
      then Inl (AppErr (ValidationError (coded ''FILE_TOO_LARGE''
        (''File exceeds the maximum allowed size of '' @ show_nat (cf_max_file_size_bytes config) @ '' bytes.''))))
      else if sb_mime body \<noteq> (if sb_kind body = PDF then ''application/pdf'' else ''application/epub+zip'')
      then Inl (AppErr (UnsupportedMediaTypeError (coded ''UNSUPPORTED_FILE_FORMAT''
        (''declared_mime_type '' @ sb_mime body @ '' does not match source_kind '' @ show_kind (sb_kind body) @ ''.''))))
      else Inr ())"

definition new_session :: "books_env \<Rightarrow> principal \<Rightarrow> book \<Rightarrow> create_session_body \<Rightarrow> string \<Rightarrow> upload_session" where
  "new_session ev who b body storage_key =
     \<lparr> up_id = be_id ev 0, up_tenant_id = tenant_id who, up_book_id = bk_id b, up_status = ''AWAITING_UPLOAD'',
       up_kind = show_kind (sb_kind body), up_file_name = sb_file_name body, up_declared_mime = sb_mime body,
       up_declared_size = int (sb_size body), up_declared_hash = sb_hash body, up_storage_key = storage_key,
       up_created_at = to_iso (be_now ev), up_expires_at = to_iso (be_now ev + int UPLOAD_URL_TTL_SECONDS * 1000),
       up_rejection = None, up_file_id = None \<rparr>"

definition created_session_dto :: "ingestion_config \<Rightarrow> upload_session \<Rightarrow> string \<Rightarrow> json" where
  "created_session_dto config s url = JObj
     [(''id'', JStr (up_id s)), (''object'', JStr ''upload_session''), (''book_id'', JStr (up_book_id s)),
      (''status'', JStr (up_status s)),
      (''upload_targets'', JArr [JObj [(''part_number'', JNum 1), (''method'', JStr ''PUT''), (''url'', JStr url),
         (''expires_at'', JStr (up_expires_at s))]]),
      (''max_size_bytes'', JNum (int (cf_max_file_size_bytes config))),
      (''expires_at'', JStr (up_expires_at s)), (''created_at'', JStr (up_created_at s))]"

definition create_upload_session ::
  "('q, 'r, 's) books_deps \<Rightarrow> books_env \<Rightarrow> principal \<Rightarrow> string \<Rightarrow> create_session_body \<Rightarrow> ('q, 'r, 's) books_world
     \<Rightarrow> (thrown + json) \<times> ('q, 'r, 's) books_world" where
  "create_upload_session dp ev who book_id body =
     seqE (readE (require_owned_book who book_id)) (\<lambda>b.
     seqE (readE (\<lambda>_. bindE (check_declaration (bd_config dp) body) (\<lambda>_.
        build_storage_key (tenant_id who)
          [''books'', book_id, ''uploads'', be_id ev 0, source_kind_extension (sb_kind body)]))) (\<lambda>key.
     let s = new_session ev who b body key in
     seqE (on_redis (sessions_create (bd_redis dp) s)) (\<lambda>_.
     seqE (readE (\<lambda>w. bd_sign dp key ''PUT'' UPLOAD_URL_TTL_SECONDS (iw_store w))) (\<lambda>url.
     returnE (created_session_dto (bd_config dp) s url)))))"

definition require_owned_session ::
  "('q, 'r, 's) books_deps \<Rightarrow> principal \<Rightarrow> string \<Rightarrow> string \<Rightarrow> ('q, 'r, 's) books_world \<Rightarrow> thrown + upload_session" where
  "require_owned_session dp who book_id session_id w =
     bindE (sessions_get (bd_redis dp) (tenant_id who) session_id (bw_redis w)) (\<lambda>found.
     case found of
       None \<Rightarrow> Inl (AppErr (NotFoundError (msg_only ''Upload session not found.'')))
     | Some s \<Rightarrow> if up_book_id s \<noteq> book_id then Inl (AppErr (NotFoundError (msg_only ''Upload session not found.'')))
                else Inr s)"

definition get_upload_session ::
  "('q, 'r, 's) books_deps \<Rightarrow> principal \<Rightarrow> string \<Rightarrow> string \<Rightarrow> ('q, 'r, 's) books_world \<Rightarrow> thrown + json" where
  "get_upload_session dp who book_id session_id w = bindE (require_owned_session dp who book_id session_id w) (\<lambda>s.
     Inr (JObj ([(''id'', JStr (up_id s)), (''object'', JStr ''upload_session''), (''book_id'', JStr (up_book_id s)),
       (''status'', JStr (up_status s))] @ opt_field ''rejection_reason_code'' (up_rejection s)
       @ opt_field ''book_file_id'' (up_file_id s))))"

definition abort_upload_session ::
  "('q, 'r, 's) books_deps \<Rightarrow> principal \<Rightarrow> string \<Rightarrow> string \<Rightarrow> ('q, 'r, 's) books_world
     \<Rightarrow> (thrown + unit) \<times> ('q, 'r, 's) books_world" where
  "abort_upload_session dp who book_id session_id =
     seqE (readE (require_owned_session dp who book_id session_id)) (\<lambda>s.
     if up_status s = ''ADMITTED'' then throwE (invalid_transition ''Upload session already admitted.'')
     else on_redis (sessions_delete (bd_redis dp) (tenant_id who) session_id))"

subsection \<open>Completion\<close>

fun collect_chunks :: "nat \<Rightarrow> bytes \<Rightarrow> bytes list \<Rightarrow> thrown + bytes" where
  "collect_chunks max_bytes acc [] = Inr acc"
| "collect_chunks max_bytes acc (chunk # rest) =
     (if length acc + length chunk > max_bytes
      then Inl (AppErr (ValidationError (coded ''FILE_TOO_LARGE'' ''Object exceeds the configured size limit.'')))
      else collect_chunks max_bytes (acc @ chunk) rest)"

definition download_object ::
  "('q, 'r, 's) books_deps \<Rightarrow> string \<Rightarrow> nat \<Rightarrow> ('q, 'r, 's) books_world \<Rightarrow> thrown + bytes" where
  "download_object dp key max_bytes w = bindE (bd_get dp key (iw_store w)) (collect_chunks max_bytes [])"

text \<open>
  The checks on the uploaded bytes: the reason recorded on the session and the error, or the
  detected format.  A failure to detect a format counts as no format.
\<close>

definition check_upload ::
  "('q, 'r, 's) books_deps \<Rightarrow> upload_session \<Rightarrow> nat \<Rightarrow> bytes \<Rightarrow> string \<times> thrown + format_detection_result" where
  "check_upload dp s observed buffer =
     (if length buffer \<noteq> observed
      then Inl (''UPLOAD_INCOMPLETE'', AppErr (ConflictError (coded ''UPLOAD_INCOMPLETE''
        ''Uploaded object size does not match the observed size reported by the client.'')))
      else if ck_hash (checksum_buffer (bd_sha256 dp) buffer) \<noteq> up_declared_hash s
      then Inl (''CHECKSUM_MISMATCH'', AppErr (ConflictError (coded ''CHECKSUM_MISMATCH''
        ''Uploaded content hash does not match the declared hash.'')))
      else let rejected = Inl (''UNSUPPORTED_FILE_FORMAT'', AppErr (UnsupportedMediaTypeError
            (coded ''UNSUPPORTED_FILE_FORMAT'' ''Uploaded file does not match the declared source kind.'')))
        in case detect_format (bd_file_type dp) buffer (up_declared_mime s) of
          Inl _ \<Rightarrow> rejected
        | Inr detected \<Rightarrow> if show_kind (fd_source_kind detected) \<noteq> up_kind s then rejected else Inr detected)"

definition reject_session ::
  "('q, 'r, 's) books_deps \<Rightarrow> upload_session \<Rightarrow> string \<Rightarrow> ('q, 'r, 's) books_world \<Rightarrow> (thrown + unit) \<times> ('q, 'r, 's) books_world" where
  "reject_session dp s reason =
     on_redis (sessions_update (bd_redis dp) (bd_ttl dp) (s\<lparr> up_status := ''REJECTED'', up_rejection := Some reason \<rparr>))"

definition find_duplicate :: "principal \<Rightarrow> string \<Rightarrow> book_file list \<Rightarrow> book_file option" where
  "find_duplicate who hash files = find_row (\<lambda>f. bf_tenant_id f = tenant_id who \<and> bf_content_hash f = hash \<and> original_file f) files"

definition uploaded_file ::
  "books_env \<Rightarrow> principal \<Rightarrow> string \<Rightarrow> upload_session \<Rightarrow> checksum \<Rightarrow> format_detection_result \<Rightarrow> object_meta option \<Rightarrow> book_file" where
  "uploaded_file ev who book_id s ck detected meta =
     \<lparr> bf_id = be_id ev 0, bf_storage_key = up_storage_key s, bf_mime = up_declared_mime s,
       bf_sniffed_mime = Some (fd_sniffed_mime detected), bf_tenant_id = tenant_id who, bf_book_id = book_id,
       bf_kind = fd_source_kind detected, bf_original_name = up_file_name s, bf_size = ck_size_bytes ck,
       bf_content_hash = ck_hash ck, bf_status = ADMITTED,
       bf_validation = Some (JObj [(''declared_vs_sniffed_mime'', JBool (fd_match detected)),
         (''sniffed_mime_type'', JStr (fd_sniffed_mime detected)), (''size_check'', JBool True),
         (''checksum_check'', JBool True)]),
       bf_bucket = (case meta of Some m \<Rightarrow> om_bucket m | None \<Rightarrow> ''unknown''), bf_dedup_from = None,
       bf_class = STANDARD, bf_created = be_now ev \<rparr>"

text \<open>The job that parses a file, under the given idempotency key.\<close>

definition parse_job ::
  "books_env \<Rightarrow> principal \<Rightarrow> string \<Rightarrow> string \<Rightarrow> string \<Rightarrow> string \<Rightarrow> string \<Rightarrow> bool \<Rightarrow> string \<Rightarrow> string \<Rightarrow> job" where
  "parse_job ev who book_id file_id priority key fingerprint forced job_id correlation_id =
     fresh_job (be_now ev) job_id (tenant_id who) book_id (''parse_book'', ''parse'', priority)
       (''book_file'', file_id) (key, fingerprint) correlation_id forced
       (parse_book_envelope job_id file_id (tenant_id who) correlation_id)"

definition book_event ::
  "principal \<Rightarrow> string \<Rightarrow> string \<Rightarrow> string \<Rightarrow> string \<Rightarrow> string \<Rightarrow> json \<Rightarrow> outbox_draft" where
  "book_event who ty book_id job_id correlation_id file_id payload =
     \<lparr> od_event_type = ty, od_schema_version = ''1.0'', od_tenant_id = tenant_id who, od_book_id = Some book_id,
       od_job_id = Some job_id, od_correlation_id = correlation_id, od_causation_id = correlation_id,
       od_traceparent = None, od_producer = ''api'', od_producer_version = ''1.0.0'', od_payload = payload,
       od_aggregate_type = ''book_file'', od_aggregate_id = file_id \<rparr>"

text \<open>The end of both transactions: the job, the status of the book, the event.\<close>

definition start_parse ::
  "books_env \<Rightarrow> string \<Rightarrow> book_status \<Rightarrow> job \<Rightarrow> outbox_draft \<Rightarrow> ('q, 'r, 's) books_world \<Rightarrow> (thrown + unit) \<times> ('q, 'r, 's) books_world" where
  "start_parse ev book_id st j draft =
     seqE (on_jobs (create_row job_clash j)) (\<lambda>_.
     seqE (on_books (update_row (\<lambda>b. bk_id b = book_id)
        (\<lambda>b. b\<lparr> bk_status := st, bk_status_changed := be_now ev, bk_updated := be_now ev \<rparr>))) (\<lambda>_.
     doE (\<lambda>w. w\<lparr> db_outbox := outbox_add (fst (be_event ev)) (snd (be_event ev)) (be_now ev) draft (db_outbox w) \<rparr>)))"

definition admit_file ::
  "books_env \<Rightarrow> string \<Rightarrow> book_file \<Rightarrow> job \<Rightarrow> outbox_draft \<Rightarrow> ('q, 'r, 's) books_world \<Rightarrow> (thrown + unit) \<times> ('q, 'r, 's) books_world" where
  "admit_file ev book_id f j draft = with_transaction
     (seqE (on_files (create_row file_clash f)) (\<lambda>_. start_parse ev book_id BUploaded j draft))"

definition enqueue_parse_book ::
  "('q, 'r, 's) books_deps \<Rightarrow> books_env \<Rightarrow> principal \<Rightarrow> string \<Rightarrow> string \<Rightarrow> string \<Rightarrow> ('q, 'r, 's) books_world
     \<Rightarrow> (thrown + unit) \<times> ('q, 'r, 's) books_world" where
  "enqueue_parse_book dp ev who job_id file_id correlation_id = dispatch_job dp ev
     \<lparr> ea_processing_job_id = job_id, ea_queue = ''parse'',
       ea_envelope = parse_book_envelope job_id file_id (tenant_id who) correlation_id,
       ea_job_name = ''parse_book'', ea_max_attempts = 3, ea_priority = None \<rparr>"

text \<open>What follows the commit: dispatch, metering and the end of the session.\<close>

definition after_admission ::
  "('q, 'r, 's) books_deps \<Rightarrow> books_env \<Rightarrow> principal \<Rightarrow> string \<Rightarrow> upload_session \<Rightarrow> nat \<Rightarrow> ('q, 'r, 's) books_world
     \<Rightarrow> (thrown + json) \<times> ('q, 'r, 's) books_world" where
  "after_admission dp ev who book_id s n =
     seqE (enqueue_parse_book dp ev who (be_id ev 1) (be_id ev 0) (be_id ev 2)) (\<lambda>_.
     seqE (doE (\<lambda>w. w\<lparr> bw_usage := record_usage (be_usage_ok ev) (be_usage_id ev) (be_now ev) (tenant_id who)
        STORAGE_BYTES (int n) (bw_usage w) \<rparr>)) (\<lambda>_.
     seqE (on_redis (sessions_update (bd_redis dp) (bd_ttl dp)
        (s\<lparr> up_status := ''ADMITTED'', up_file_id := Some (be_id ev 0) \<rparr>))) (\<lambda>_.
     returnE (JObj [(''job'', job_receipt (be_id ev 1) ''parse_book'' book_id),
       (''accepted'', JObj [(''scope'', JStr ''BOOK_FILE''), (''book_file_id'', JStr (be_id ev 0)),
          (''upload_session_status'', JStr ''ADMITTED'')])]))))"

definition admission_job :: "books_env \<Rightarrow> principal \<Rightarrow> string \<Rightarrow> string \<Rightarrow> job" where
  "admission_job ev who book_id hash = parse_job ev who book_id (be_id ev 0) ''NORMAL''
     (''parse:'' @ be_id ev 0 @ '':'' @ PARSER_VERSION_FOR_IDEMPOTENCY) hash False (be_id ev 1) (be_id ev 2)"

definition uploaded_event :: "books_env \<Rightarrow> principal \<Rightarrow> string \<Rightarrow> book_file \<Rightarrow> outbox_draft" where
  "uploaded_event ev who book_id f =
     book_event who ''book.uploaded'' book_id (be_id ev 1) (be_id ev 2) (bf_id f)
       (JObj [(''book_file_id'', JStr (bf_id f)), (''source_kind'', JStr (show_kind (bf_kind f))),
         (''size_bytes'', JNum (int (bf_size f))), (''content_hash'', JStr (bf_content_hash f)), (''admitted'', JBool True)])"

definition complete_checked ::
  "('q, 'r, 's) books_deps \<Rightarrow> books_env \<Rightarrow> principal \<Rightarrow> string \<Rightarrow> bool \<Rightarrow> upload_session \<Rightarrow> bytes \<Rightarrow> format_detection_result
     \<Rightarrow> ('q, 'r, 's) books_world \<Rightarrow> (thrown + json) \<times> ('q, 'r, 's) books_world" where
  "complete_checked dp ev who book_id allow_duplicate s buffer detected =
     (let ck = checksum_buffer (bd_sha256 dp) buffer in
     seqE (readE (\<lambda>w. if find_duplicate who (ck_hash ck) (bw_files w) \<noteq> None \<and> \<not> allow_duplicate
        then Inl (AppErr (ConflictError (detailed (coded ''DUPLICATE_CONTENT_HASH''
          ''A file with identical content has already been uploaded for this tenant.'')
          (Some ''book_file_id'') ''duplicate''))) else Inr ())) (\<lambda>_.
     seqE (readE (\<lambda>w. bd_head dp (up_storage_key s) (iw_store w))) (\<lambda>meta.
     let f = uploaded_file ev who book_id s ck detected meta in
     seqE (admit_file ev book_id f (admission_job ev who book_id (ck_hash ck)) (uploaded_event ev who book_id f)) (\<lambda>_.
     after_admission dp ev who book_id s (length buffer)))))"

definition complete_upload_session ::
  "('q, 'r, 's) books_deps \<Rightarrow> books_env \<Rightarrow> principal \<Rightarrow> string \<Rightarrow> string \<Rightarrow> nat \<Rightarrow> bool \<Rightarrow> ('q, 'r, 's) books_world
     \<Rightarrow> (thrown + json) \<times> ('q, 'r, 's) books_world" where
  "complete_upload_session dp ev who book_id session_id observed allow_duplicate =
     seqE (readE (require_owned_session dp who book_id session_id)) (\<lambda>s.
     if up_status s = ''ADMITTED'' then throwE (AppErr (ConflictError (coded ''UPLOAD_SESSION_EXPIRED''
       ''This upload session was already completed; retry with the same Idempotency-Key instead.'')))
     else seqE (readE (download_object dp (up_storage_key s) (cf_max_file_size_bytes (bd_config dp)))) (\<lambda>buffer.
       case check_upload dp s observed buffer of
         Inl (reason, e) \<Rightarrow> seqE (reject_session dp s reason) (\<lambda>_. throwE e)
       | Inr detected \<Rightarrow> complete_checked dp ev who book_id allow_duplicate s buffer detected))"


subsection \<open>Ingestion\<close>

record request_ingestion_body =
  rb_file_id :: string
  rb_force :: bool
  rb_priority :: "string option"

definition admit_ingestion ::
  "principal \<Rightarrow> string \<Rightarrow> request_ingestion_body \<Rightarrow> ('q, 'r, 's) books_world \<Rightarrow> thrown + book_file" where
  "admit_ingestion who book_id body w =
     bindE (require_owned_book who book_id w) (\<lambda>_.
     case find_row (\<lambda>f. bf_id f = rb_file_id body \<and> bf_book_id f = book_id \<and> bf_tenant_id f = tenant_id who) (bw_files w) of
       None \<Rightarrow> Inl (AppErr (NotFoundError (msg_only ''BookFile not found.'')))
     | Some f \<Rightarrow>
         if bf_status f \<noteq> ADMITTED
         then Inl (AppErr (ConflictError (coded ''BOOK_FILE_NOT_ADMITTED'' ''BookFile has not been admitted.'')))
         else if find_row (\<lambda>j. jb_related_type j = ''book_file'' \<and> jb_related_id j = bf_id f
                  \<and> jb_status j \<in> set ACTIVE_JOB_STATUSES) (db_jobs w) \<noteq> None \<and> \<not> rb_force body
         then Inl (AppErr (ConflictError (coded ''INGESTION_ALREADY_RUNNING''
           ''Ingestion is already running for this file.'')))
         else Inr f)"

definition ingestion_request_job :: "books_env \<Rightarrow> principal \<Rightarrow> string \<Rightarrow> request_ingestion_body \<Rightarrow> book_file \<Rightarrow> job" where
  "ingestion_request_job ev who book_id body f = parse_job ev who book_id (bf_id f)
     (case rb_priority body of Some p \<Rightarrow> p | None \<Rightarrow> ''NORMAL'')
     (''parse:'' @ bf_id f @ '':'' @ PARSER_VERSION_FOR_IDEMPOTENCY @ '':'' @ be_id ev 0) (bf_content_hash f)
     (rb_force body) (be_id ev 0) (be_id ev 1)"

definition parse_started_event :: "books_env \<Rightarrow> principal \<Rightarrow> string \<Rightarrow> book_file \<Rightarrow> outbox_draft" where
  "parse_started_event ev who book_id f =
     book_event who ''book.parse_started'' book_id (be_id ev 0) (be_id ev 1) (bf_id f)
       (JObj [(''book_version_id'', JNull), (''book_file_id'', JStr (bf_id f)), (''parser_strategy'', JStr ''AUTO'')])"

definition request_ingestion ::
  "('q, 'r, 's) books_deps \<Rightarrow> books_env \<Rightarrow> principal \<Rightarrow> string \<Rightarrow> request_ingestion_body \<Rightarrow> ('q, 'r, 's) books_world
     \<Rightarrow> (thrown + json) \<times> ('q, 'r, 's) books_world" where
  "request_ingestion dp ev who book_id body =
     seqE (readE (admit_ingestion who book_id body)) (\<lambda>f.
     seqE (with_transaction (start_parse ev book_id BParsing (ingestion_request_job ev who book_id body f)
        (parse_started_event ev who book_id f))) (\<lambda>_.
     seqE (enqueue_parse_book dp ev who (be_id ev 0) (bf_id f) (be_id ev 1)) (\<lambda>_.
     returnE (JObj [(''job'', job_receipt (be_id ev 0) ''parse_book'' book_id)]))))"

definition derive_ingestion_state :: "book_status \<Rightarrow> version_status option \<Rightarrow> job_status option \<Rightarrow> string" where
  "derive_ingestion_state bs vs js =
     (if vs = Some READY then ''COMPLETED''
      else if vs = Some PARTIAL_OCR then ''PARTIAL_OCR''
      else if vs = Some VERSION_NEEDS_REVIEW \<or> bs = BNeedsReview then ''NEEDS_REVIEW''
      else if bs = BFailed \<or> js = Some FAILED then ''FAILED''
      else if js = Some CANCELLED then ''CANCELLED''
      else if bs = BParsing \<or> js = Some RUNNING then ''PARSING''
      else if js = Some QUEUED \<or> js = Some CREATED then ''QUEUED''
      else ''NOT_STARTED'')"

record ingestion_state =
  is_book_id :: string
  is_status :: string
  is_file_id :: "string option"
  is_pipeline_version :: "string option"
  is_content_hash :: "string option"
  is_structure_version :: "string option"
  is_pages :: "nat option \<times> nat option \<times> nat option"
  is_chapters :: nat
  is_paragraphs :: nat
  is_text_qc :: "quality_report option"
  is_degraded :: bool
  is_started :: "int option"
  is_completed :: "int option"
  is_current_job :: "string option"

text \<open>The newest parse job of the book, and the version its pointer names.\<close>

definition latest_parse_job :: "string \<Rightarrow> job list \<Rightarrow> job option" where
  "latest_parse_job book_id jobs =
     (case rev (sort_key (\<lambda>j. jt_created (jb_times j)) (filter (\<lambda>j. jb_book_id j = Some book_id \<and> jb_type j = ''parse_book'') jobs)) of
        [] \<Rightarrow> None | j # _ \<Rightarrow> Some j)"

definition current_version :: "book \<Rightarrow> book_version list \<Rightarrow> book_version option" where
  "current_version b vs = (if truthy (bk_current_version b)
     then find_row (\<lambda>v. bv_id v = the (bk_current_version b)) vs else None)"

definition get_ingestion_status :: "principal \<Rightarrow> string \<Rightarrow> ('s, 'z) ingest_world_scheme \<Rightarrow> thrown + ingestion_state" where
  "get_ingestion_status who book_id w = bindE (require_owned_book who book_id w) (\<lambda>b.
     let v = current_version b (iw_versions w); j = latest_parse_job book_id (db_jobs w)
     in Inr \<lparr> is_book_id = book_id,
          is_status = derive_ingestion_state (bk_status b) (map_option bv_status v) (map_option jb_status j),
          is_file_id = Option.bind j (\<lambda>j. if jb_related_type j = ''book_file'' then Some (jb_related_id j) else None),
          is_pipeline_version = map_option bv_pipeline_version v, is_content_hash = map_option bv_content_hash v,
          is_structure_version = map_option bv_structure_label v,
          is_pages = (Option.bind v bv_pages_total, Option.bind v bv_pages_ok, Option.bind v bv_pages_needs_review),
          is_chapters = (case v of None \<Rightarrow> 0 | Some v \<Rightarrow> count_rows (\<lambda>c. cr_version_id c = bv_id v) (iw_chapters w)),
          is_paragraphs = (case v of None \<Rightarrow> 0 | Some v \<Rightarrow> count_rows (\<lambda>p. pr_version_id p = bv_id v) (iw_paragraphs w)),
          is_text_qc = map_option bv_qc v,
          is_degraded = (case v of None \<Rightarrow> False | Some v \<Rightarrow> bv_degraded v),
          is_started = map_option bv_started v, is_completed = map_option bv_completed v,
          is_current_job = map_option jb_id j \<rparr>)"

subsection \<open>Structural reads\<close>

fun show_matter :: "matter_type \<Rightarrow> string" where
  "show_matter FRONT_MATTER = ''FRONT_MATTER''"
| "show_matter BODY = ''BODY''"
| "show_matter BACK_MATTER = ''BACK_MATTER''"

text \<open>No code writes the column \<open>text_qc_outcome\<close> of a chapter.\<close>

definition to_chapter_dto :: "chapter_row \<Rightarrow> json" where
  "to_chapter_dto c = JObj
     [(''id'', JStr (cr_id c)), (''order_index'', JNum (int (cr_order c))), (''spine_start'', JNum (int (cr_spine_start c))),
      (''spine_end'', JNum (int (cr_spine_end c))), (''title'', opt_json (cr_title c)),
      (''matter_type'', JStr (show_matter (cr_matter c))), (''char_count'', JNum (int (cr_char_count c))),
      (''text_qc_outcome'', JNull)]"

record paragraph_dto =
  pd_id :: string
  pd_chapter_id :: string
  pd_section_id :: "string option"
  pd_order_index :: nat
  pd_spine_position :: nat
  pd_text :: string
  pd_content_hash :: string
  pd_source_page_number :: "nat option"
  pd_source_locator :: source_locator
  pd_extraction_method :: extraction_method
  pd_extraction_confidence :: "rat option"

definition to_paragraph_dto :: "paragraph_row \<Rightarrow> paragraph_dto" where
  "to_paragraph_dto p =
     \<lparr> pd_id = pr_id p, pd_chapter_id = pr_chapter_id p, pd_section_id = pr_section_id p, pd_order_index = pr_order p,
       pd_spine_position = pr_spine p, pd_text = pr_text p, pd_content_hash = pr_content_hash p,
       pd_source_page_number = pr_page p, pd_source_locator = pr_locator p, pd_extraction_method = pr_method p,
       pd_extraction_confidence = pr_confidence p \<rparr>"

definition list_chapters :: "principal \<Rightarrow> string \<Rightarrow> ('s, 'z) ingest_world_scheme \<Rightarrow> thrown + json list" where
  "list_chapters who book_id w = bindE (require_owned_book who book_id w) (\<lambda>b.
     if \<not> truthy (bk_current_version b) then Inr []
     else Inr (map to_chapter_dto
       (sort_key cr_order (filter (\<lambda>c. cr_version_id c = the (bk_current_version b)) (iw_chapters w)))))"

definition find_chapter :: "string \<Rightarrow> string \<Rightarrow> ('s, 'z) ingest_world_scheme \<Rightarrow> thrown + chapter_row" where
  "find_chapter book_id chapter_id w = (case find_row (\<lambda>c. cr_id c = chapter_id \<and> cr_book_id c = book_id) (iw_chapters w) of
     None \<Rightarrow> Inl (AppErr (NotFoundError (msg_only ''Chapter not found.''))) | Some c \<Rightarrow> Inr c)"

definition get_chapter :: "principal \<Rightarrow> string \<Rightarrow> string \<Rightarrow> ('s, 'z) ingest_world_scheme \<Rightarrow> thrown + json" where
  "get_chapter who book_id chapter_id w = bindE (require_owned_book who book_id w) (\<lambda>_.
     bindE (find_chapter book_id chapter_id w) (\<lambda>c. Inr (to_chapter_dto c)))"

definition to_section_dto :: "section_row \<Rightarrow> json" where
  "to_section_dto s = JObj
     [(''id'', JStr (sr_id s)), (''chapter_id'', JStr (sr_chapter_id s)), (''order_index'', JNum (int (sr_order s))),
      (''spine_start'', JNum (int (sr_spine_start s))), (''spine_end'', JNum (int (sr_spine_end s))),
      (''title'', opt_json (sr_title s))]"

definition list_sections :: "principal \<Rightarrow> string \<Rightarrow> ('s, 'z) ingest_world_scheme \<Rightarrow> thrown + json list" where
  "list_sections who book_id w = bindE (require_owned_book who book_id w) (\<lambda>b.
     if \<not> truthy (bk_current_version b) then Inr []
     else Inr (map to_section_dto (sort_key (\<lambda>s. (sr_chapter_id s, sr_order s))
       (filter (\<lambda>s. sr_version_id s = the (bk_current_version b)) (iw_sections w)))))"

definition list_paragraphs :: "principal \<Rightarrow> string \<Rightarrow> string \<Rightarrow> ('s, 'z) ingest_world_scheme \<Rightarrow> thrown + paragraph_dto list" where
  "list_paragraphs who book_id chapter_id w = bindE (require_owned_book who book_id w) (\<lambda>_.
     bindE (find_chapter book_id chapter_id w) (\<lambda>_.
     Inr (map to_paragraph_dto (sort_key pr_order (filter (\<lambda>p. pr_chapter_id p = chapter_id) (iw_paragraphs w))))))"

definition create_text_access_url ::
  "('q, 'r, 's) books_deps \<Rightarrow> books_env \<Rightarrow> principal \<Rightarrow> string \<Rightarrow> ('q, 'r, 's) books_world \<Rightarrow> thrown + json" where
  "create_text_access_url dp ev who book_id w = bindE (require_owned_book who book_id w) (\<lambda>b.
     if \<not> truthy (bk_current_version b)
     then Inl (AppErr (NotFoundError (msg_only ''No ingested version available yet.'')))
     else case find_row (\<lambda>v. bv_id v = the (bk_current_version b)) (iw_versions w) of
       None \<Rightarrow> Inl (AppErr (NotFoundError (msg_only ''Canonical text artifact not available.'')))
     | Some v \<Rightarrow>
         if bv_manifest_key v = [] then Inl (AppErr (NotFoundError (msg_only ''Canonical text artifact not available.'')))
         else bindE (bd_sign dp (bv_manifest_key v) ''GET'' 300 (iw_store w)) (\<lambda>url.
           Inr (JObj [(''object'', JStr ''access_url''), (''url'', JStr url), (''method'', JStr ''GET''),
             (''expires_at'', JStr (to_iso (be_now ev + 300000))), (''content_hash'', JStr (bv_manifest_hash v))])))"

end
