(* ===== verification/BookLaws.thy ===== *)
theory BookLaws
  imports BookUploads Worker
begin

text \<open>
  Laws of the books service: what each step of a handler leaves behind, on its success and on its
  failure.
\<close>

interpretation books: newest_first bk_created bk_id to_book_dto .

lemma seqE_readE: "seqE (readE f) g w = (case f w of Inl e \<Rightarrow> (Inl e, w) | Inr x \<Rightarrow> g x w)"
  by (simp add: seqE_def split: sum.split)

lemma seqE_on_table: "seqE (on_table get put f) g w = (case f (get w) of Inl e \<Rightarrow> (Inl e, w) | Inr t \<Rightarrow> g () (put t w))"
  by (simp add: seqE_def on_table_def split: sum.split)

subsection \<open>Ownership\<close>

lemma require_owned_book_Inr:
  "require_owned_book who i w = Inr b \<longleftrightarrow> find_row (\<lambda>b. bk_id b = i \<and> bk_tenant_id b = tenant_id who) (iw_books w) = Some b"
  by (auto simp: require_owned_book_def assert_tenant_ownership_def Let_def dest: find_row_Some split: option.splits)

lemma require_owned_book_owned:
  "require_owned_book who i w = Inr b \<Longrightarrow> b \<in> set (iw_books w) \<and> bk_id b = i \<and> bk_tenant_id b = tenant_id who"
  unfolding require_owned_book_Inr by (drule find_row_Some) simp

lemma require_owned_book_foreign:
  "\<forall>b \<in> set (iw_books w). bk_id b = i \<longrightarrow> bk_tenant_id b \<noteq> tenant_id who \<Longrightarrow>
   require_owned_book who i w = Inl (AppErr (NotFoundError (msg_only ''Book not found.'')))"
  by (simp add: require_owned_book_def assert_tenant_ownership_def Let_def find_row_None
      iffD2 [OF find_row_None])

lemma require_owned_book_cong: "iw_books w' = iw_books w \<Longrightarrow> require_owned_book who i w' = require_owned_book who i w"
  by (simp add: require_owned_book_def)

subsection \<open>Edits\<close>

definition edited :: "int \<Rightarrow> (book \<Rightarrow> book) \<Rightarrow> book \<Rightarrow> book" where
  "edited now f b = (f b)\<lparr> bk_row_version := bk_row_version (f b) + 1, bk_updated := now \<rparr>"

lemma find_book_update:
  "(\<And>b. bk_id (f b) = bk_id b) \<Longrightarrow> find_row (\<lambda>b. bk_id b = i) (update_where (\<lambda>b. bk_id b = i) f t) = map_option f (find_row (\<lambda>b. bk_id b = i) t)"
  by (induction t) (simp_all add: update_where_def)

lemma edit_book_run:
  assumes "find_row (\<lambda>b. bk_id b = i) (iw_books w) = Some b" "\<And>b. bk_id (f b) = bk_id b"
  shows "edit_book now f i w = (Inr (edited now f b), w\<lparr> iw_books := update_where (\<lambda>b. bk_id b = i) (edited now f) (iw_books w) \<rparr>)"
proof -
  have u: "update_row (\<lambda>b. bk_id b = i) (edited now f) (iw_books w) = Inr (update_where (\<lambda>b. bk_id b = i) (edited now f) (iw_books w))"
    using assms(1) by (simp add: update_row_def)
  have i: "bk_id (edited now f b) = bk_id b" for b by (simp add: edited_def assms(2))
  show ?thesis
    unfolding edit_book_def edited_def [symmetric] seqE_on_table u
    using assms(1) by (simp add: find_book_update i cong: if_cong)
qed

lemma edit_book_frame:
  assumes "edit_book now f i w = (r, w')"
  shows "\<exists>t. w' = w\<lparr> iw_books := t \<rparr> \<and> (t = iw_books w \<or> t = update_where (\<lambda>b. bk_id b = i) (edited now f) (iw_books w))"
  using assms unfolding edit_book_def edited_def [symmetric] seqE_on_table
  by (auto simp: update_row_def edited_def [abs_def] split: if_splits intro: exI [of _ "iw_books w"])

lemma find_own_book:
  assumes "distinct (map bk_id (iw_books w))" "require_owned_book who i w = Inr b"
  shows "find_row (\<lambda>b. bk_id b = i) (iw_books w) = Some b"
proof -
  have b: "b \<in> set (iw_books w)" "bk_id b = i" using require_owned_book_owned [OF assms(2)] by simp_all
  have "find_row (\<lambda>b. bk_id b = i) t = Some b" if "distinct (map bk_id t)" "b \<in> set t" for t
    using that b(2) by (induction t) auto
  then show ?thesis using assms(1) b(1) by blast
qed

subsection \<open>Dispatch\<close>

lemma dispatch_job_Inr:
  assumes "dispatch_job dp ev args w = (Inr u, w')"
  shows "\<exists>q. w' = w\<lparr> db_jobs := update_where (\<lambda>j. jb_id j = ea_processing_job_id args) (touch (be_now ev) \<circ> set_queued (be_now ev)) (db_jobs w), bw_queue := q \<rparr>"
  using assms by (auto simp: dispatch_job_def enqueue_processing_job_def update_job_Inr split: prod.splits sum.splits)

lemma dispatch_job_Inl:
  assumes "dispatch_job dp ev args w = (Inl e, w')"
  shows "\<exists>q. w' = w\<lparr> bw_queue := q \<rparr>"
  using assms by (auto simp: dispatch_job_def enqueue_processing_job_def split: prod.splits sum.splits)

lemma dispatch_job_books:
  assumes "dispatch_job dp ev args w = (r, w')"
  shows "iw_books w' = iw_books w \<and> bw_files w' = bw_files w \<and> db_outbox w' = db_outbox w \<and> bw_redis w' = bw_redis w
    \<and> bw_usage w' = bw_usage w \<and> iw_store w' = iw_store w"
  using assms by (cases r) (auto dest: dispatch_job_Inl dispatch_job_Inr)

subsection \<open>The transactions\<close>

definition parse_begun :: "books_env \<Rightarrow> string \<Rightarrow> book_status \<Rightarrow> job \<Rightarrow> outbox_draft \<Rightarrow> ('q, 'r, 's) books_world \<Rightarrow> ('q, 'r, 's) books_world" where
  "parse_begun ev i st j draft w = w
     \<lparr> db_jobs := db_jobs w @ [j],
       iw_books := update_where (\<lambda>b. bk_id b = i)
         (\<lambda>b. b\<lparr> bk_status := st, bk_status_changed := be_now ev, bk_updated := be_now ev \<rparr>) (iw_books w),
       db_outbox := outbox_add (fst (be_event ev)) (snd (be_event ev)) (be_now ev) draft (db_outbox w) \<rparr>"

lemma start_parse_Inr:
  assumes "start_parse ev i st j draft w = (Inr u, w')"
  shows "w' = parse_begun ev i st j draft w \<and> (\<forall>k \<in> set (db_jobs w). \<not> job_clash j k)"
proof -
  let ?f = "\<lambda>b. b\<lparr> bk_status := st, bk_status_changed := be_now ev, bk_updated := be_now ev \<rparr>"
  obtain jobs where c: "create_row job_clash j (db_jobs w) = Inr jobs"
    using assms by (cases "create_row job_clash j (db_jobs w)") (simp_all add: start_parse_def seqE_on_table)
  obtain t where t: "update_row (\<lambda>b. bk_id b = i) ?f (iw_books w) = Inr t"
    using assms c by (cases "update_row (\<lambda>b. bk_id b = i) ?f (iw_books w)") (simp_all add: start_parse_def seqE_on_table)
  have "w' = w\<lparr> db_jobs := jobs, iw_books := t,
      db_outbox := outbox_add (fst (be_event ev)) (snd (be_event ev)) (be_now ev) draft (db_outbox w) \<rparr>"
    using assms c t by (simp add: start_parse_def seqE_on_table)
  then show ?thesis using create_row_Inr [OF c] update_row_Inr [OF t] by (simp add: parse_begun_def)
qed

lemma start_parse_total:
  assumes "\<forall>k \<in> set (db_jobs w). \<not> job_clash j k" "\<exists>b \<in> set (iw_books w). bk_id b = i"
  shows "start_parse ev i st j draft w = (Inr (), parse_begun ev i st j draft w)"
proof -
  have c: "create_row job_clash j (db_jobs w) = Inr (db_jobs w @ [j])" using assms(1) by (intro create_row_total) blast
  have u: "update_row (\<lambda>b. bk_id b = i) f (iw_books w) = Inr (update_where (\<lambda>b. bk_id b = i) f (iw_books w))" for f
    using assms(2) by (auto simp: update_row_def find_row_None)
  show ?thesis by (simp add: start_parse_def seqE_on_table c u parse_begun_def)
qed

lemma admit_file_Inr:
  assumes "admit_file ev i f j draft w = (Inr u, w')"
  shows "w' = parse_begun ev i BUploaded j draft (w\<lparr> bw_files := bw_files w @ [f] \<rparr>)
    \<and> (\<forall>g \<in> set (bw_files w). \<not> file_clash f g) \<and> (\<forall>k \<in> set (db_jobs w). \<not> job_clash j k)"
proof -
  have "seqE (on_files (create_row file_clash f)) (\<lambda>_. start_parse ev i BUploaded j draft) w = (Inr u, w')"
    using with_transaction_Inr assms unfolding admit_file_def by metis
  then obtain t where t: "create_row file_clash f (bw_files w) = Inr t" "start_parse ev i BUploaded j draft (w\<lparr> bw_files := t \<rparr>) = (Inr u, w')"
    unfolding seqE_on_table by (auto split: sum.splits)
  then show ?thesis using create_row_Inr [OF t(1)] start_parse_Inr [OF t(2)] by auto
qed

lemma admit_file_Inl: "admit_file ev i f j draft w = (Inl e, w') \<Longrightarrow> w' = w"
  unfolding admit_file_def by (rule with_transaction_Inl)

lemma admit_file_clash:
  assumes "g \<in> set (bw_files w)" "file_clash f g"
  shows "admit_file ev i f j draft w = (Inl unique_violation, w)"
proof -
  have "create_row file_clash f (bw_files w) = Inl unique_violation"
    using assms by (auto simp: create_row_def find_row_None)
  then show ?thesis by (simp add: admit_file_def with_transaction_def seqE_on_table)
qed

lemma admit_file_total:
  assumes "\<forall>g \<in> set (bw_files w). \<not> file_clash f g" "\<forall>k \<in> set (db_jobs w). \<not> job_clash j k" "\<exists>b \<in> set (iw_books w). bk_id b = i"
  shows "admit_file ev i f j draft w = (Inr (), parse_begun ev i BUploaded j draft (w\<lparr> bw_files := bw_files w @ [f] \<rparr>))"
proof -
  have c: "create_row file_clash f (bw_files w) = Inr (bw_files w @ [f])" using assms(1) by (intro create_row_total) blast
  have s: "start_parse ev i BUploaded j draft (w\<lparr> bw_files := bw_files w @ [f] \<rparr>)
      = (Inr (), parse_begun ev i BUploaded j draft (w\<lparr> bw_files := bw_files w @ [f] \<rparr>))"
    using assms(2,3) by (intro start_parse_total) simp_all
  show ?thesis unfolding admit_file_def by (rule with_transaction_commit) (simp add: seqE_on_table c s)
qed

subsection \<open>Completion of an upload\<close>

lemma collect_chunks_Inr: "collect_chunks m acc cs = Inr b \<Longrightarrow> b = acc @ concat cs"
proof (induction cs arbitrary: acc)
  case (Cons c cs)
  then show ?case using Cons.IH [of "acc @ c"] by (simp split: if_splits)
qed simp

lemma collect_chunks_bound: "length acc \<le> m \<Longrightarrow> collect_chunks m acc cs = Inr b \<Longrightarrow> length b \<le> m"
proof (induction cs arbitrary: acc)
  case (Cons c cs)
  then show ?case using Cons.IH [of "acc @ c"] by (simp split: if_splits)
qed simp

lemma check_upload_Inr:
  assumes "check_upload dp s n buffer = Inr d"
  shows "length buffer = n \<and> bd_sha256 dp buffer = up_declared_hash s \<and> show_kind (fd_source_kind d) = up_kind s"
  using assms by (auto simp: check_upload_def checksum_buffer_def Let_def split: if_splits sum.splits)

lemma on_redis_frame:
  assumes "on_redis f w = (r, w')"
  shows "\<exists>x. w' = w\<lparr> bw_redis := x \<rparr> \<and> f (bw_redis w) = (r, x)"
  using assms by (auto simp: on_redis_def split: prod.splits)

lemma complete_upload_cases:
  assumes "complete_upload_session dp ev who i sid n dup w = (Inr r, w')"
  obtains s chunks d where "sessions_get (bd_redis dp) (tenant_id who) sid (bw_redis w) = Inr (Some s)" "up_book_id s = i"
    "up_status s \<noteq> ''ADMITTED''" "bd_get dp (up_storage_key s) (iw_store w) = Inr chunks"
    "length (concat chunks) \<le> cf_max_file_size_bytes (bd_config dp)" "check_upload dp s n (concat chunks) = Inr d"
    "complete_checked dp ev who i dup s (concat chunks) d w = (Inr r, w')"
proof -
  have ro: "require_owned_session dp who i sid w = Inr s \<Longrightarrow>
      sessions_get (bd_redis dp) (tenant_id who) sid (bw_redis w) = Inr (Some s) \<and> up_book_id s = i" for s
    by (auto simp: require_owned_session_def bindE_eq_Inr split: option.splits if_splits)
  obtain s where s: "require_owned_session dp who i sid w = Inr s" "up_status s \<noteq> ''ADMITTED''"
    and rest: "seqE (readE (download_object dp (up_storage_key s) (cf_max_file_size_bytes (bd_config dp)))) (\<lambda>buffer.
       case check_upload dp s n buffer of
         Inl (reason, e) \<Rightarrow> seqE (reject_session dp s reason) (\<lambda>_. throwE e)
       | Inr detected \<Rightarrow> complete_checked dp ev who i dup s buffer detected) w = (Inr r, w')"
    using assms by (auto simp: complete_upload_session_def seqE_readE split: sum.splits if_splits)
  obtain buffer where b: "download_object dp (up_storage_key s) (cf_max_file_size_bytes (bd_config dp)) w = Inr buffer"
    and run: "(case check_upload dp s n buffer of
         Inl (reason, e) \<Rightarrow> seqE (reject_session dp s reason) (\<lambda>_. throwE e)
       | Inr detected \<Rightarrow> complete_checked dp ev who i dup s buffer detected) w = (Inr r, w')"
    using rest by (auto simp: seqE_readE split: sum.splits)
  obtain chunks where c: "bd_get dp (up_storage_key s) (iw_store w) = Inr chunks"
    "collect_chunks (cf_max_file_size_bytes (bd_config dp)) [] chunks = Inr buffer"
    using b by (auto simp: download_object_def bindE_eq_Inr)
  have buf: "buffer = concat chunks" "length buffer \<le> cf_max_file_size_bytes (bd_config dp)"
    using collect_chunks_Inr [OF c(2)] collect_chunks_bound [OF _ c(2)] by simp_all
  obtain d where d: "check_upload dp s n buffer = Inr d"
    using run by (auto simp: seqE_def split: sum.splits prod.splits)
  then show ?thesis using that [of s chunks d] ro [OF s(1)] s(2) c(1) buf run by auto
qed

text \<open>What a completion that succeeds has done, from the first write to the last.\<close>

lemma after_admission_Inr:
  assumes "after_admission dp ev who i s n w = (Inr r, w')"
  shows "bw_files w' = bw_files w \<and> iw_books w' = iw_books w \<and> db_outbox w' = db_outbox w
    \<and> db_jobs w' = update_where (\<lambda>j. jb_id j = be_id ev 1) (touch (be_now ev) \<circ> set_queued (be_now ev)) (db_jobs w)
    \<and> bw_usage w' = record_usage (be_usage_ok ev) (be_usage_id ev) (be_now ev) (tenant_id who) STORAGE_BYTES (int n) (bw_usage w)
    \<and> sessions_update (bd_redis dp) (bd_ttl dp) (s\<lparr> up_status := ''ADMITTED'', up_file_id := Some (be_id ev 0) \<rparr>) (bw_redis w)
      = (Inr (), bw_redis w')"
proof -
  obtain u w1 where d: "enqueue_parse_book dp ev who (be_id ev 1) (be_id ev 0) (be_id ev 2) w = (Inr u, w1)"
    and rest: "seqE (doE (\<lambda>w. w\<lparr> bw_usage := record_usage (be_usage_ok ev) (be_usage_id ev) (be_now ev) (tenant_id who)
        STORAGE_BYTES (int n) (bw_usage w) \<rparr>)) (\<lambda>_.
     seqE (on_redis (sessions_update (bd_redis dp) (bd_ttl dp)
        (s\<lparr> up_status := ''ADMITTED'', up_file_id := Some (be_id ev 0) \<rparr>))) (\<lambda>_.
     returnE (JObj [(''job'', job_receipt (be_id ev 1) ''parse_book'' i),
       (''accepted'', JObj [(''scope'', JStr ''BOOK_FILE''), (''book_file_id'', JStr (be_id ev 0)),
          (''upload_session_status'', JStr ''ADMITTED'')])]))) w1 = (Inr r, w')"
    using assms unfolding after_admission_def seqE_Inr by blast
  obtain q where w1: "w1 = w\<lparr> db_jobs := update_where (\<lambda>j. jb_id j = be_id ev 1) (touch (be_now ev) \<circ> set_queued (be_now ev)) (db_jobs w), bw_queue := q \<rparr>"
    using dispatch_job_Inr d unfolding enqueue_parse_book_def by fastforce
  show ?thesis using rest unfolding w1
    by (auto simp: seqE_Inr on_redis_def split: prod.splits)
qed

lemma complete_checked_Inr:
  assumes "complete_checked dp ev who i dup s buffer d w = (Inr r, w')"
  obtains meta f w1 where "f = uploaded_file ev who i s (checksum_buffer (bd_sha256 dp) buffer) d meta"
    "bd_head dp (up_storage_key s) (iw_store w) = Inr meta"
    "admit_file ev i f (admission_job ev who i (bd_sha256 dp buffer)) (uploaded_event ev who i f) w = (Inr (), w1)"
    "after_admission dp ev who i s (length buffer) w1 = (Inr r, w')"
proof -
  obtain meta where m: "bd_head dp (up_storage_key s) (iw_store w) = Inr meta"
    and rest: "(let f = uploaded_file ev who i s (checksum_buffer (bd_sha256 dp) buffer) d meta in
     seqE (admit_file ev i f (admission_job ev who i (ck_hash (checksum_buffer (bd_sha256 dp) buffer))) (uploaded_event ev who i f)) (\<lambda>_.
     after_admission dp ev who i s (length buffer))) w = (Inr r, w')"
    using assms unfolding complete_checked_def Let_def seqE_readE
    by (auto split: if_splits sum.splits)
  then show ?thesis using that [OF refl m] by (auto simp: Let_def seqE_Inr checksum_buffer_def)
qed

text \<open>A completion that fails leaves the files as they were, or it failed after the commit.\<close>

lemma complete_checked_cases:
  assumes "complete_checked dp ev who i dup s buffer d w = (r, w')"
  obtains (before_commit) e where "r = Inl e" "w' = w"
    | (committed) meta f w1 where "f = uploaded_file ev who i s (checksum_buffer (bd_sha256 dp) buffer) d meta"
      "admit_file ev i f (admission_job ev who i (bd_sha256 dp buffer)) (uploaded_event ev who i f) w = (Inr (), w1)"
      "after_admission dp ev who i s (length buffer) w1 = (r, w')"
proof (cases "bd_head dp (up_storage_key s) (iw_store w)")
  case (Inl e)
  then have "\<exists>e. r = Inl e \<and> w' = w"
    using assms unfolding complete_checked_def Let_def seqE_readE by (auto split: if_splits)
  then show ?thesis using before_commit by blast
next
  case (Inr meta)
  define f where "f = uploaded_file ev who i s (checksum_buffer (bd_sha256 dp) buffer) d meta"
  obtain x w1 where a: "admit_file ev i f (admission_job ev who i (bd_sha256 dp buffer)) (uploaded_event ev who i f) w = (x, w1)"
    by (cases "admit_file ev i f (admission_job ev who i (bd_sha256 dp buffer)) (uploaded_event ev who i f) w")
  have run: "(\<exists>e. r = Inl e \<and> w' = w)
      \<or> seqE (admit_file ev i f (admission_job ev who i (bd_sha256 dp buffer)) (uploaded_event ev who i f)) (\<lambda>_.
     after_admission dp ev who i s (length buffer)) w = (r, w')"
    using assms Inr unfolding complete_checked_def Let_def seqE_readE f_def by (auto simp: checksum_buffer_def split: if_splits)
  show ?thesis
  proof (cases x)
    case (Inl e)
    then have "w1 = w" using a admit_file_Inl by metis
    then show ?thesis using run a Inl before_commit by auto
  next
    case (Inr u)
    then show ?thesis using run a before_commit committed [OF f_def] by auto
  qed
qed

lemma after_admission_frame:
  assumes "after_admission dp ev who i s n w = (r, w')"
  shows "bw_files w' = bw_files w \<and> iw_books w' = iw_books w"
proof -
  have e: "enqueue_parse_book dp ev who a b c w = (x, w1) \<Longrightarrow> bw_files w1 = bw_files w \<and> iw_books w1 = iw_books w" for a b c x w1
    unfolding enqueue_parse_book_def using dispatch_job_books by blast
  show ?thesis using assms unfolding after_admission_def
    by (elim seqE_cases) (auto dest!: e on_redis_frame)
qed

lemma complete_upload_files:
  assumes "complete_upload_session dp ev who i sid n dup w = (r, w')"
  shows "bw_files w' = bw_files w \<or> (\<exists>f. bw_files w' = bw_files w @ [f] \<and> (\<forall>g \<in> set (bw_files w). \<not> file_clash f g))"
proof -
  have checked: "bw_files w2 = bw_files w1 \<or> (\<exists>f. bw_files w2 = bw_files w1 @ [f] \<and> (\<forall>g \<in> set (bw_files w1). \<not> file_clash f g))"
    if run: "complete_checked dp ev who i dup s buffer d w1 = (x, w2)" for s buffer d w1 x w2
  proof (cases rule: complete_checked_cases [OF run])
    case (2 meta f w3)
    then have "bw_files w3 = bw_files w1 @ [f]" "\<forall>g \<in> set (bw_files w1). \<not> file_clash f g"
      using admit_file_Inr [OF 2(2)] by (simp_all add: parse_begun_def)
    then show ?thesis using after_admission_frame [OF 2(3)] by auto
  qed simp
  have reject: "bw_files w2 = bw_files w1" if "seqE (reject_session dp s reason) (\<lambda>_. throwE e) w1 = (x, w2)" for s reason e w1 x w2
    using that by (elim seqE_cases) (auto simp: reject_session_def dest: on_redis_frame)
  show ?thesis using assms unfolding complete_upload_session_def seqE_readE
    by (auto simp: seqE_readE dest: checked reject split: sum.splits prod.splits if_splits)
qed

end
