(* ===== verification/BookProperties.thy ===== *)
theory BookProperties
  imports BookLaws Samples
begin

text \<open>The properties of the books service, each with a run on a concrete library where it has hypotheses.\<close>

subsection \<open>A sample library\<close>

definition library_session :: upload_session where
  "library_session = \<lparr> up_id = ''s1'', up_tenant_id = ''t1'', up_book_id = ''b1'', up_status = ''AWAITING_UPLOAD'',
     up_kind = ''PDF'', up_file_name = ''a.pdf'', up_declared_mime = ''application/pdf'', up_declared_size = 5,
     up_declared_hash = ''h5'', up_storage_key = ''k'', up_created_at = [], up_expires_at = [],
     up_rejection = None, up_file_id = None \<rparr>"

definition library_pdf :: bytes where
  "library_pdf = [37, 80, 68, 70, 45]"

definition library_sha :: "bytes \<Rightarrow> string" where
  "library_sha b = (if b = library_pdf then ''h5'' else map char_of b)"

definition library_deps :: "'q broker \<Rightarrow> ('q, string \<Rightarrow> string option, unit) books_deps" where
  "library_deps bq = \<lparr> bd_sha256 = library_sha, bd_file_type = (\<lambda>_. None),
     bd_config = DEFAULT_INGESTION_CONFIG\<lparr> cf_max_file_size_bytes := 10 \<rparr>, bd_broker = bq, bd_redis = map_redis,
     bd_ttl = (\<lambda>_ _. Inr 60), bd_get = (\<lambda>_ _. Inr [library_pdf]), bd_head = (\<lambda>_ _. Inr None),
     bd_sign = (\<lambda>_ _ _ _. Inr []) \<rparr>"

definition library_env :: "string \<Rightarrow> books_env" where
  "library_env tag = \<lparr> be_now = 5000, be_id = (\<lambda>k. tag @ show_nat k), be_event = (tag @ ''m'', tag @ ''e''),
     be_usage_id = tag @ ''u'', be_usage_ok = True \<rparr>"

definition library :: "book list \<Rightarrow> book_file list \<Rightarrow> job list \<Rightarrow> (unit, string \<Rightarrow> string option, unit) books_world" where
  "library books files jobs = \<lparr> db_jobs = jobs, db_outbox = [], iw_books = books, iw_versions = [], iw_pages = [],
     iw_chapters = [], iw_sections = [], iw_paragraphs = [], iw_store = (), bw_files = files, bw_quotas = [],
     bw_usage = [], bw_trail = [], bw_queue = (),
     bw_redis = [session_key ''t1'' ''s1'' \<mapsto> json_stringify (session_json library_session)] \<rparr>"

definition library_dead_broker :: "unit broker" where
  "library_dead_broker = sample_broker\<lparr> bq_add := (\<lambda>_ _ q. (Inl (OtherErr ''down''), q)) \<rparr>"

lemma library_sel [simp]:
  "db_jobs (library bs fs js) = js" "db_outbox (library bs fs js) = []" "iw_books (library bs fs js) = bs"
  "bw_files (library bs fs js) = fs" "bw_usage (library bs fs js) = []" "iw_store (library bs fs js) = ()"
  "bw_redis (library bs fs js) = [session_key ''t1'' ''s1'' \<mapsto> json_stringify (session_json library_session)]"
  by (simp_all add: library_def)

lemma library_session_sel [simp]:
  "up_id library_session = ''s1''" "up_tenant_id library_session = ''t1''" "up_book_id library_session = ''b1''"
  "up_status library_session = ''AWAITING_UPLOAD''" "up_kind library_session = ''PDF''"
  "up_declared_hash library_session = ''h5''" "up_storage_key library_session = ''k''"
  "up_declared_mime library_session = ''application/pdf''"
  by (simp_all add: library_session_def)

lemma library_deps_sel [simp]:
  "bd_redis (library_deps bq) = map_redis" "bd_broker (library_deps bq) = bq" "bd_ttl (library_deps bq) = (\<lambda>_ _. Inr 60)"
  "bd_get (library_deps bq) = (\<lambda>_ _. Inr [library_pdf])" "bd_head (library_deps bq) = (\<lambda>_ _. Inr None)"
  "bd_sha256 (library_deps bq) = library_sha" "cf_max_file_size_bytes (bd_config (library_deps bq)) = 10"
  by (simp_all add: library_deps_def)

lemma sample_book_sel [simp]: "bk_id sample_book = ''b1''" "bk_tenant_id sample_book = ''t1''"
  "bk_deleted_at sample_book = None" "bk_current_version sample_book = None" "bk_row_version sample_book = 0"
  by (simp_all add: sample_book_def)

lemma sample_who_sel [simp]: "tenant_id sample_who = ''t1''" "sub sample_who = ''u1''"
  by (simp_all add: sample_who_def)

lemma library_pdf_sel [simp]: "length library_pdf = 5" "library_sha library_pdf = ''h5''" "library_pdf \<noteq> []" "take 5 library_pdf = PDF_MAGIC"
  by (simp_all add: library_pdf_def library_sha_def PDF_MAGIC_def)

lemma library_get_session: "sessions_get map_redis ''t1'' ''s1'' (bw_redis (library bs fs js)) = Inr (Some library_session)"
  by (rule sessions_get_text) (simp add: map_redis_def)

lemma library_check: "check_upload (library_deps bq) library_session 5 library_pdf
    = Inr \<lparr> fd_source_kind = PDF, fd_sniffed_mime = ''application/pdf'', fd_match = True \<rparr>"
  by (simp add: check_upload_def checksum_buffer_def detect_format_def)

lemma library_completion:
  "complete_upload_session (library_deps bq) ev sample_who ''b1'' ''s1'' 5 dup (library bs fs js)
    = complete_checked (library_deps bq) ev sample_who ''b1'' dup library_session library_pdf
        \<lparr> fd_source_kind = PDF, fd_sniffed_mime = ''application/pdf'', fd_match = True \<rparr> (library bs fs js)"
proof -
  have s: "require_owned_session (library_deps bq) sample_who ''b1'' ''s1'' (library bs fs js) = Inr library_session"
    using library_get_session [of bs fs js] by (simp add: require_owned_session_def)
  have d: "download_object (library_deps bq) ''k'' 10 (library bs fs js) = Inr library_pdf"
    by (simp add: download_object_def)
  show ?thesis unfolding complete_upload_session_def seqE_readE
    by (simp add: s seqE_readE d library_check)
qed

lemma library_admit:
  assumes "\<forall>k \<in> set js. jb_id k \<noteq> be_id ev 1 \<and> jb_idem_key k \<noteq> ''parse:'' @ be_id ev 0 @ '':'' @ PARSER_VERSION_FOR_IDEMPOTENCY"
    and "f = uploaded_file ev sample_who ''b1'' library_session \<lparr> ck_hash = ''h5'', ck_size_bytes = 5 \<rparr> d None"
  shows "complete_checked (library_deps bq) ev sample_who ''b1'' dup library_session library_pdf d (library [sample_book] [] js)
    = after_admission (library_deps bq) ev sample_who ''b1'' library_session 5
        (parse_begun ev ''b1'' BUploaded (admission_job ev sample_who ''b1'' ''h5'') (uploaded_event ev sample_who ''b1'' f)
          ((library [sample_book] [] js)\<lparr> bw_files := [f] \<rparr>))"
proof -
  have "\<forall>k \<in> set js. \<not> job_clash (admission_job ev sample_who ''b1'' ''h5'') k"
    using assms(1) by (auto simp: job_clash_def admission_job_def parse_job_def fresh_job_def)
  then have a: "admit_file ev ''b1'' f (admission_job ev sample_who ''b1'' ''h5'') (uploaded_event ev sample_who ''b1'' f) (library [sample_book] [] js)
      = (Inr (), parse_begun ev ''b1'' BUploaded (admission_job ev sample_who ''b1'' ''h5'') (uploaded_event ev sample_who ''b1'' f)
          ((library [sample_book] [] js)\<lparr> bw_files := [f] \<rparr>))"
    using admit_file_total [of "library [sample_book] [] js" f "admission_job ev sample_who ''b1'' ''h5''" "''b1''" ev] by simp
  show ?thesis unfolding complete_checked_def Let_def seqE_readE
    by (simp add: find_duplicate_def checksum_buffer_def seqE_readE assms(2) [symmetric] a)
qed

subsection \<open>Listing\<close>

text \<open>
  C20: Following \<open>next_cursor\<close> from the first page, a client of the book listing receives every book
  of its tenant that the filters select, once, newest first, whatever the page size, as long as the
  times of creation are representable dates.
\<close>

theorem book_listing_complete:
  assumes "parse_limit (bl_limit query) = Inr limit" "parse_multi (bl_status query) BOOK_STATUSES ''status'' = Inr statuses"
    and "distinct (map bk_id books)" "\<forall>b \<in> set books. iso_range (bk_created b)" "length books < fuel"
  shows "follow (\<lambda>c. list_books od who (query\<lparr> bl_cursor := c \<rparr>) books) fuel None
    = Some (map to_book_dto (newest bk_created bk_id (filter (book_selected who query statuses) books)))"
proof -
  have "list_books od who (query\<lparr> bl_cursor := c \<rparr>) books
      = bindE (decode_cursor c) (\<lambda>cp. list_newest od bk_created bk_id to_book_dto limit (book_selected who query statuses) cp books)" for c
    using assms(1,2) by (simp add: list_books_def book_selected_def [abs_def])
  then show ?thesis
    using books.newest_complete [OF assms(3,4) _ assms(5)] parse_limit_bounds [OF assms(1)] by simp
qed

definition library_query :: list_books_query where
  "library_query = \<lparr> bl_cursor = None, bl_limit = Some ''1'', bl_status = None, bl_include_deleted = None \<rparr>"

theorem book_listing_complete_witness:
  "follow (\<lambda>c. list_books (\<lambda>_. None) sample_who (library_query\<lparr> bl_cursor := c \<rparr>)
      [sample_book, sample_book\<lparr> bk_id := ''b2'', bk_created := 7 \<rparr>]) 3 None
    = Some (map to_book_dto [sample_book\<lparr> bk_id := ''b2'', bk_created := 7 \<rparr>, sample_book])"
proof -
  let ?books = "[sample_book, sample_book\<lparr> bk_id := ''b2'', bk_created := 7 \<rparr>]"
  have l: "parse_limit (bl_limit library_query) = Inr 1" "parse_multi (bl_status library_query) BOOK_STATUSES ''status'' = Inr []"
    by code_simp+
  have r1: "iso_range 1" "iso_range 7" by code_simp+
  have r: "\<forall>b \<in> set ?books. iso_range (bk_created b)" using r1 by (simp add: sample_book_def)
  have "newest bk_created bk_id (filter (book_selected sample_who library_query []) ?books) = [sample_book\<lparr> bk_id := ''b2'', bk_created := 7 \<rparr>, sample_book]"
    by (simp add: book_selected_def newest_def library_query_def) (simp add: sample_book_def)
  then show ?thesis using book_listing_complete [OF l _ r, of 3 "\<lambda>_. None" sample_who] by simp
qed

subsection \<open>Ownership\<close>

text \<open>
  A book of another tenant is as good as absent: reading, editing, deleting, restoring, listing its
  files, its structure or its ingestion, starting an upload or an ingestion all answer "Book not found"
  (or refuse the role first) and change nothing.
\<close>

theorem foreign_book_hidden:
  assumes "\<forall>b \<in> set (iw_books w). bk_id b = i \<longrightarrow> bk_tenant_id b \<noteq> tenant_id who"
  shows "let missing = AppErr (NotFoundError (msg_only ''Book not found.'')) in
     get_book dp who i w = Inl missing
   \<and> update_book_metadata dp ev who i body if_match w = (Inl missing, w)
   \<and> delete_book ev who i w = (Inl missing, w)
   \<and> (\<exists>e. restore_book ev who i w = (Inl e, w)) \<and> (\<exists>e. purge_book dp ev who i confirm w = (Inl e, w))
   \<and> list_book_files who i w = Inl missing \<and> get_book_file who i file_id w = Inl missing
   \<and> create_upload_session dp ev who i sbody w = (Inl missing, w)
   \<and> request_ingestion dp ev who i rbody w = (Inl missing, w)
   \<and> get_ingestion_status who i w = Inl missing \<and> list_chapters who i w = Inl missing
   \<and> list_sections who i w = Inl missing \<and> list_paragraphs who i chapter_id w = Inl missing
   \<and> create_text_access_url dp ev who i w = Inl missing"
proof -
  note m = require_owned_book_foreign [OF assms]
  have r: "require_role who ''TENANT_OWNER'' = Inr () \<or> (\<exists>e. require_role who ''TENANT_OWNER'' = Inl e)"
    by (cases "require_role who ''TENANT_OWNER''") simp_all
  then show ?thesis
    by (auto simp: m Let_def get_book_def update_book_metadata_def admit_edit_def delete_book_def restore_book_def
        purge_book_def admit_purge_def list_book_files_def get_book_file_def create_upload_session_def
        request_ingestion_def admit_ingestion_def get_ingestion_status_def list_chapters_def list_sections_def
        list_paragraphs_def create_text_access_url_def seqE_readE)
qed

theorem foreign_book_hidden_witness:
  "get_book (library_deps sample_broker) (sample_who\<lparr> tenant_id := ''t2'' \<rparr>) ''b1'' (library [sample_book] [] [])
    = Inl (AppErr (NotFoundError (msg_only ''Book not found.'')))"
  using foreign_book_hidden [of "library [sample_book] [] []" "''b1''" "sample_who\<lparr> tenant_id := ''t2'' \<rparr>"]
  by (simp add: Let_def)

subsection \<open>Optimistic concurrency\<close>

lemma etag_literal:
  assumes "CHR '','' \<notin> set (book_etag sha b)"
  shows "assert_if_match (Some (book_etag sha b)) current = (if current = book_etag sha b then Inr () else Inl version_conflict_error)"
proof (rule assert_if_match_exact [OF assms])
  have "\<not> is_space dquote" by (simp add: is_space_def)
  then show "trim (book_etag sha b) = book_etag sha b" by (simp add: book_etag_def trim_def trim_start_def trim_end_def)
qed (simp add: book_etag_def)

text \<open>
  A client that edits under the entity tag it read is refused, and changes nothing, once another
  edit of the book has succeeded, provided the hash tells the two row versions apart.
\<close>

theorem stale_edit_refused:
  assumes "require_owned_book who i w = Inr b" "distinct (map bk_id (iw_books w))"
    and "update_book_metadata dp ev who i body m w = (Inr r, w1)"
    and "book_etag (bd_sha256 dp) (b\<lparr> bk_row_version := bk_row_version b + 1 \<rparr>) \<noteq> book_etag (bd_sha256 dp) b"
    and "CHR '','' \<notin> set (book_etag (bd_sha256 dp) b)"
  shows "update_book_metadata dp ev' who i body' (Some (book_etag (bd_sha256 dp) b)) w1 = (Inl version_conflict_error, w1)"
proof -
  let ?f = "\<lambda>b. b\<lparr> bk_info := change_info body (bk_info b) \<rparr>"
  have a: "admit_edit dp who i body m w = Inr ()" and wr: "write_edit dp ev i body w = (Inr r, w1)"
    using assms(3) by (simp_all add: update_book_metadata_def seqE_readE split: sum.splits)
  have live: "bk_deleted_at b = None"
    using a assms(1) by (simp add: admit_edit_def check_edit_def split: if_splits)
  have e: "edit_book (be_now ev) ?f i w = (Inr (edited (be_now ev) ?f b),
      w\<lparr> iw_books := update_where (\<lambda>b. bk_id b = i) (edited (be_now ev) ?f) (iw_books w) \<rparr>)"
    by (rule edit_book_run [OF find_own_book [OF assms(2,1)]]) simp
  then have w1: "iw_books w1 = update_where (\<lambda>b. bk_id b = i) (edited (be_now ev) ?f) (iw_books w)"
    using wr by (auto simp: write_edit_def seqE_def)
  let ?b = "edited (be_now ev) ?f b"
  have "require_owned_book who i w1 = Inr ?b"
    using assms(1) unfolding require_owned_book_Inr w1 by (simp add: find_row_update_where edited_def cong: if_cong)
      (auto dest: find_row_Some)
  moreover have "book_etag (bd_sha256 dp) ?b \<noteq> book_etag (bd_sha256 dp) b" "bk_deleted_at ?b = None"
    using assms(4) live by (simp_all add: edited_def book_etag_def)
  ultimately have "admit_edit dp who i body' (Some (book_etag (bd_sha256 dp) b)) w1 = Inl version_conflict_error"
    by (simp add: admit_edit_def check_edit_def etag_literal [OF assms(5)])
  then show ?thesis by (simp add: update_book_metadata_def seqE_readE)
qed

definition retitle :: "string \<Rightarrow> book_change" where
  "retitle t = \<lparr> bc_title = Some t, bc_author = Keep, bc_language = None, bc_description = Keep, bc_metadata = None \<rparr>"

lemma library_edit:
  "\<exists>r w1. update_book_metadata (library_deps bq) ev sample_who ''b1'' (retitle t) None (library [sample_book] [] []) = (Inr r, w1)"
proof -
  have o: "require_owned_book sample_who ''b1'' (library [sample_book] [] []) = Inr sample_book"
    by (simp add: require_owned_book_Inr)
  then have a: "admit_edit (library_deps bq) sample_who ''b1'' (retitle t) None (library [sample_book] [] []) = Inr ()"
    by (simp add: admit_edit_def check_edit_def assert_if_match_def retitle_def)
  obtain b' w1 where e: "edit_book (be_now ev) (\<lambda>b. b\<lparr> bk_info := change_info (retitle t) (bk_info b) \<rparr>) ''b1'' (library [sample_book] [] []) = (Inr b', w1)"
    using edit_book_run [of "''b1''" "library [sample_book] [] []" sample_book] by simp
  show ?thesis by (simp add: update_book_metadata_def seqE_readE a write_edit_def e)
qed

lemma library_etags:
  "bd_sha256 (library_deps bq) (utf8_encode ''b1:0'') = ''b1:0''" "bd_sha256 (library_deps bq) (utf8_encode ''b1:1'') = ''b1:1''"
proof -
  have "utf8_encode ''b1:0'' = [98, 49, 58, 48]" "utf8_encode ''b1:1'' = [98, 49, 58, 49]" by code_simp+
  moreover have "map char_of [98, 49, 58, 48 :: nat] = ''b1:0''" "map char_of [98, 49, 58, 49 :: nat] = ''b1:1''" by code_simp+
  ultimately show "bd_sha256 (library_deps bq) (utf8_encode ''b1:0'') = ''b1:0''" "bd_sha256 (library_deps bq) (utf8_encode ''b1:1'') = ''b1:1''"
    by (simp_all add: library_sha_def library_pdf_def)
qed

lemma library_book_etag:
  "book_etag (bd_sha256 (library_deps bq)) sample_book = dquote # ''b1:0'' @ [dquote]"
  "book_etag (bd_sha256 (library_deps bq)) (sample_book\<lparr> bk_row_version := 1 \<rparr>) = dquote # ''b1:1'' @ [dquote]"
proof -
  have n: "show_nat 0 = ''0''" "show_nat (Suc 0) = ''1''" by code_simp+
  show "book_etag (bd_sha256 (library_deps bq)) sample_book = dquote # ''b1:0'' @ [dquote]"
    "book_etag (bd_sha256 (library_deps bq)) (sample_book\<lparr> bk_row_version := 1 \<rparr>) = dquote # ''b1:1'' @ [dquote]"
    using library_etags [of bq] n by (simp_all add: book_etag_def del: library_deps_sel)
qed

theorem stale_edit_refused_witness:
  "\<exists>w1. update_book_metadata (library_deps sample_broker) (library_env ''y'') sample_who ''b1'' (retitle ''Mine'')
      (Some (dquote # ''b1:0'' @ [dquote])) w1 = (Inl version_conflict_error, w1)"
proof -
  obtain r w1 where run: "update_book_metadata (library_deps sample_broker) (library_env ''x'') sample_who ''b1'' (retitle ''Yours'') None
      (library [sample_book] [] []) = (Inr r, w1)" using library_edit by blast
  have o: "require_owned_book sample_who ''b1'' (library [sample_book] [] []) = Inr sample_book"
    by (simp add: require_owned_book_Inr)
  have d: "distinct (map bk_id (iw_books (library [sample_book] [] [])))" by simp
  have "book_etag (bd_sha256 (library_deps sample_broker)) (sample_book\<lparr> bk_row_version := bk_row_version sample_book + 1 \<rparr>)
      \<noteq> book_etag (bd_sha256 (library_deps sample_broker)) sample_book"
    "CHR '','' \<notin> set (book_etag (bd_sha256 (library_deps sample_broker)) sample_book)"
    using library_book_etag [of sample_broker] by (simp_all add: dquote_def text_simps del: library_deps_sel)
  from stale_edit_refused [OF o d run this]
  show ?thesis unfolding library_book_etag(1) by blast
qed

text \<open>
  The check of an edit and its write are two steps, and the write is not conditional on the row
  version: when two edits are checked before either writes, both succeed, each under the same entity
  tag, and the second overwrites the columns it shares with the first.
\<close>

theorem racing_edits_both_land:
  assumes "require_owned_book who i w = Inr b" "distinct (map bk_id (iw_books w))"
    and "admit_edit dp who i mine m w = Inr ()" "admit_edit dp who i yours m w = Inr ()"
  shows "\<exists>r1 w1 r2 w2 b2. write_edit dp ev i mine w = (Inr r1, w1) \<and> write_edit dp ev' i yours w1 = (Inr r2, w2)
    \<and> find_row (\<lambda>b. bk_id b = i) (iw_books w2) = Some b2
    \<and> bk_info b2 = change_info yours (change_info mine (bk_info b)) \<and> bk_row_version b2 = bk_row_version b + 2"
proof -
  define f where "f body = (\<lambda>b. b\<lparr> bk_info := change_info body (bk_info b) \<rparr> :: book)" for body
  have keep: "bk_id (f body b) = bk_id b" for body b by (simp add: f_def)
  have b: "find_row (\<lambda>b. bk_id b = i) (iw_books w) = Some b" by (rule find_own_book [OF assms(2,1)])
  have run: "edit_book now (f body) i v = (Inr (edited now (f body) c), v\<lparr> iw_books := update_where (\<lambda>b. bk_id b = i) (edited now (f body)) (iw_books v) \<rparr>)"
    if "find_row (\<lambda>b. bk_id b = i) (iw_books v) = Some c" for now body v c
    by (rule edit_book_run [OF that keep])
  obtain w1 where e1: "edit_book (be_now ev) (f mine) i w = (Inr (edited (be_now ev) (f mine) b), w1)"
    and b1: "find_row (\<lambda>b. bk_id b = i) (iw_books w1) = Some (edited (be_now ev) (f mine) b)"
    using run [OF b, of "be_now ev" mine] b keep
    by (simp add: find_book_update edited_def)
  obtain w2 where e2: "edit_book (be_now ev') (f yours) i w1 = (Inr (edited (be_now ev') (f yours) (edited (be_now ev) (f mine) b)), w2)"
    and b2: "find_row (\<lambda>b. bk_id b = i) (iw_books w2) = Some (edited (be_now ev') (f yours) (edited (be_now ev) (f mine) b))"
    using run [OF b1, of "be_now ev'" yours] b1 keep
    by (simp add: find_book_update edited_def)
  show ?thesis using e1 e2 b2 by (auto simp: write_edit_def f_def edited_def)
qed

theorem racing_edits_both_land_witness:
  "\<exists>r1 w1 r2 w2 b2. write_edit (library_deps sample_broker) (library_env ''x'') ''b1'' (retitle ''Yours'') (library [sample_book] [] []) = (Inr r1, w1)
    \<and> write_edit (library_deps sample_broker) (library_env ''y'') ''b1'' (retitle ''Mine'') w1 = (Inr r2, w2)
    \<and> find_row (\<lambda>b. bk_id b = ''b1'') (iw_books w2) = Some b2 \<and> bm_title (bk_info b2) = ''Mine'' \<and> bk_row_version b2 = 2"
proof -
  have o: "require_owned_book sample_who ''b1'' (library [sample_book] [] []) = Inr sample_book"
    by (simp add: require_owned_book_Inr)
  have a: "admit_edit (library_deps sample_broker) sample_who ''b1'' (retitle t) None (library [sample_book] [] []) = Inr ()" for t
    using o by (simp add: admit_edit_def check_edit_def assert_if_match_def retitle_def)
  obtain r1 w1 r2 w2 b2 where run: "write_edit (library_deps sample_broker) (library_env ''x'') ''b1'' (retitle ''Yours'') (library [sample_book] [] []) = (Inr r1, w1)"
    "write_edit (library_deps sample_broker) (library_env ''y'') ''b1'' (retitle ''Mine'') w1 = (Inr r2, w2)"
    "find_row (\<lambda>b. bk_id b = ''b1'') (iw_books w2) = Some b2"
    "bk_info b2 = change_info (retitle ''Mine'') (change_info (retitle ''Yours'') (bk_info sample_book))" "bk_row_version b2 = bk_row_version sample_book + 2"
    using racing_edits_both_land [OF o _ a a, where ev = "library_env ''x''" and ev' = "library_env ''y''"] by fastforce
  have "bm_title (bk_info b2) = ''Mine''" unfolding run(4) by (simp add: change_info_def retitle_def)
  moreover have "bk_row_version b2 = 2" using run(5) by simp
  ultimately show ?thesis using run(1-3) by blast
qed

subsection \<open>Uploads\<close>



lemma library_upload:
  assumes "\<forall>k \<in> set js. jb_id k \<noteq> be_id ev 1 \<and> jb_idem_key k \<noteq> ''parse:'' @ be_id ev 0 @ '':'' @ PARSER_VERSION_FOR_IDEMPOTENCY"
  obtains d f where "f = uploaded_file ev sample_who ''b1'' library_session \<lparr> ck_hash = ''h5'', ck_size_bytes = 5 \<rparr> d None"
    "complete_upload_session (library_deps bq) ev sample_who ''b1'' ''s1'' 5 dup (library [sample_book] [] js)
      = after_admission (library_deps bq) ev sample_who ''b1'' library_session 5
        (parse_begun ev ''b1'' BUploaded (admission_job ev sample_who ''b1'' ''h5'') (uploaded_event ev sample_who ''b1'' f)
          ((library [sample_book] [] js)\<lparr> bw_files := [f] \<rparr>))"
  using that library_admit [OF assms refl] library_completion [of bq ev dup "[sample_book]" "[]" js] by simp

lemma admission_job_sel [simp]:
  "jb_id (admission_job ev who i h) = be_id ev 1" "jb_status (admission_job ev who i h) = CREATED"
  "jt_queued (jb_times (admission_job ev who i h)) = None" "jt_created (jb_times (admission_job ev who i h)) = be_now ev"
  "jb_envelope (admission_job ev who i h) = Some (parse_book_envelope (be_id ev 1) (be_id ev 0) (tenant_id who) (be_id ev 2))"
  by (simp_all add: admission_job_def parse_job_def fresh_job_def created_now_def)

text \<open>The envelopes of this service carry identifiers only, so they fit the budget of the queue.\<close>

lemma parse_envelope_fits:
  assumes "2 * length job_id + length file_id + length t + length c \<le> 4000"
  shows "assert_queue_payload_size_budget (parse_book_envelope job_id file_id t c) = Inr ()"
proof (rule budget_ok)
  show "2 * length (json_stringify (parse_book_envelope job_id file_id t c)) \<le> QUEUE_PAYLOAD_CEILING_BYTES"
    using assms length_stringify_str [of "''job_id''"] length_stringify_str [of "''entity_id''"]
      length_stringify_str [of "''correlation_id''"] length_stringify_str [of "''tenant_id''"]
      length_stringify_str [of "''payload''"] length_stringify_str [of "''book_file_id''"]
      length_stringify_str [of "''parser_version''"] length_stringify_str [of PARSER_VERSION_FOR_IDEMPOTENCY]
      length_stringify_str [of job_id] length_stringify_str [of file_id] length_stringify_str [of t] length_stringify_str [of c]
    by (simp add: parse_book_envelope_def command_envelope_def PARSER_VERSION_FOR_IDEMPOTENCY_def QUEUE_PAYLOAD_CEILING_BYTES_def)
qed

lemma library_envelope_budget:
  "assert_queue_payload_size_budget (parse_book_envelope ''x1'' ''x0'' ''t1'' ''x2'') = Inr ()"
  by (rule parse_envelope_fits) simp

lemma library_enqueued:
  "find_job ''x1'' (db_jobs v) \<noteq> None \<Longrightarrow>
   \<exists>v'. enqueue_parse_book (library_deps sample_broker) (library_env ''x'') sample_who ''x1'' ''x0'' ''x2'' v = (Inr (), v') \<and> bw_redis v' = bw_redis v"
  by (auto simp: enqueue_parse_book_def dispatch_job_def enqueue_processing_job_def enqueue_def library_envelope_budget
      sample_broker_def update_job_def find_job_def split: option.splits)

lemma library_env_sel [simp]: "be_id (library_env t) k = t @ show_nat k" "be_now (library_env t) = 5000" "be_usage_ok (library_env t)"
  by (simp_all add: library_env_def)

lemma library_ids: "show_nat 0 = ''0''" "show_nat (Suc 0) = ''1''" "show_nat 2 = ''2''"
  by code_simp+


text \<open>What the unique index guarantees of the files: one admitted original of each content in a tenant.\<close>

definition originals_unique :: "book_file list \<Rightarrow> bool" where
  "originals_unique fs \<longleftrightarrow> distinct (map bf_id fs)
     \<and> distinct (map (\<lambda>f. (bf_tenant_id f, bf_content_hash f)) (filter original_file fs))"



text \<open>
  Consent to a duplicate is never honoured: while an admitted original of the content exists,
  completing another upload of it fails with \<open>allow_duplicate\<close> as without, and no file, job, book
  or event is written.
\<close>

theorem duplicate_consent_ignored:
  assumes "complete_upload_session dp ev who i sid n allow_duplicate w = (r, w')"
    and "sessions_get (bd_redis dp) (tenant_id who) sid (bw_redis w) = Inr (Some s)"
    and "g \<in> set (bw_files w)" "original_file g" "bf_tenant_id g = tenant_id who" "bf_content_hash g = up_declared_hash s"
  shows "(\<exists>e. r = Inl e) \<and> bw_files w' = bw_files w \<and> db_jobs w' = db_jobs w \<and> iw_books w' = iw_books w \<and> db_outbox w' = db_outbox w"
proof -
  have reject: "(\<exists>e. x = Inl e) \<and> bw_files w2 = bw_files w \<and> db_jobs w2 = db_jobs w \<and> iw_books w2 = iw_books w \<and> db_outbox w2 = db_outbox w"
    if "seqE (reject_session dp s reason) (\<lambda>_. throwE e) w = (x, w2)" for reason e and x :: "thrown + json" and w2
    using that by (elim seqE_cases) (auto simp: reject_session_def dest: on_redis_frame)
  have checked: "(\<exists>e. x = Inl e) \<and> w2 = w"
    if run: "complete_checked dp ev who i allow_duplicate s buffer d w = (x, w2)" and c: "check_upload dp s n buffer = Inr d" for buffer d x w2
  proof (cases rule: complete_checked_cases [OF run])
    case (2 meta f w3)
    have "file_clash f g"
      using check_upload_Inr [OF c] assms(4-6) by (simp add: 2(1) file_clash_def uploaded_file_def original_file_def checksum_buffer_def)
    then show ?thesis using admit_file_clash [OF assms(3), of f] 2(2) by simp
  qed simp
  have owned: "require_owned_session dp who i sid w = Inr u \<Longrightarrow> u = s" for u
    using assms(2) by (auto simp: require_owned_session_def split: if_splits)
  show ?thesis using assms(1) unfolding complete_upload_session_def seqE_readE
    by (auto simp: seqE_readE dest!: owned checked reject split: sum.splits prod.splits if_splits)
qed

theorem duplicate_consent_ignored_witness:
  "\<exists>e w'. complete_upload_session (library_deps sample_broker) (library_env ''x'') sample_who ''b1'' ''s1'' 5 True
     (library [sample_book] [sample_source] []) = (Inl e, w') \<and> bw_files w' = [sample_source]"
proof -
  obtain r w' where run: "complete_upload_session (library_deps sample_broker) (library_env ''x'') sample_who ''b1'' ''s1'' 5 True
     (library [sample_book] [sample_source] []) = (r, w')" by (metis prod.collapse)
  have "original_file sample_source" "bf_tenant_id sample_source = ''t1''" "bf_content_hash sample_source = ''h5''"
    by (simp_all add: original_file_def sample_source_def)
  then show ?thesis
    using duplicate_consent_ignored [OF run, of library_session sample_source] library_get_session [of "[sample_book]" "[sample_source]" "[]"] run
    by auto
qed

text \<open>
  A completion whose dispatch fails has already committed: its error leaves the file admitted and
  the job created, where the sweeper will find it, but the session is not marked, the storage is not
  metered, and every repetition of the completion is refused, with or without consent to a duplicate.
\<close>

theorem broker_outage_strands_upload:
  assumes "complete_upload_session dp ev who i sid n dup w = (Inl e, w')" "bw_files w' \<noteq> bw_files w"
    and "\<And>name j q. \<exists>e. fst (bq_add (bd_broker dp) name j q) = Inl e"
    and "be_now ev + stale < now"
    and "complete_upload_session dp ev' who i sid n' dup' w' = (r, w2)"
  shows "(\<exists>j \<in> set (db_jobs w'). jb_id j = be_id ev 1 \<and> orphaned now stale j)
    \<and> bw_redis w' = bw_redis w \<and> bw_usage w' = bw_usage w
    \<and> (\<exists>e'. r = Inl e') \<and> bw_files w2 = bw_files w' \<and> db_jobs w2 = db_jobs w'"
proof -
  have reject: "bw_files w2 = bw_files w1" if "seqE (reject_session dp s reason) (\<lambda>_. throwE e) w1 = (x, w2)" for s reason e w1 x w2
    using that by (elim seqE_cases) (auto simp: reject_session_def dest: on_redis_frame)
  obtain s buffer d where s: "require_owned_session dp who i sid w = Inr s" and d: "check_upload dp s n buffer = Inr d"
    and run: "complete_checked dp ev who i dup s buffer d w = (Inl e, w')"
    using assms(1,2) unfolding complete_upload_session_def seqE_readE
    by (auto simp: seqE_readE dest: reject split: sum.splits prod.splits if_splits)
  have sess: "sessions_get (bd_redis dp) (tenant_id who) sid (bw_redis w) = Inr (Some s)"
    using s by (auto simp: require_owned_session_def bindE_eq_Inr split: option.splits if_splits)
  from run show ?thesis
  proof (cases rule: complete_checked_cases)
    case (committed meta f w1)
    let ?j = "admission_job ev who i (bd_sha256 dp buffer)"
    have w1: "w1 = parse_begun ev i BUploaded ?j (uploaded_event ev who i f) (w\<lparr> bw_files := bw_files w @ [f] \<rparr>)"
      using admit_file_Inr [OF committed(2)] by simp
    have down: "\<exists>e w2. enqueue_parse_book dp ev who a b c v = (Inl e, w2) \<and> (\<exists>q. w2 = v\<lparr> bw_queue := q \<rparr>)" for a b c v
    proof -
      obtain x v' where x: "enqueue_parse_book dp ev who a b c v = (x, v')" by fastforce
      have "\<exists>e. x = Inl e"
      proof (cases "assert_queue_payload_size_budget (parse_book_envelope a b (tenant_id who) c)")
        case (Inl e)
        then show ?thesis
          using x by (intro exI [of _ e]) (simp add: enqueue_parse_book_def dispatch_job_def enqueue_processing_job_def enqueue_def)
      next
        case (Inr u)
        obtain e q where "bq_add (bd_broker dp) ''parse''
           \<lparr> bj_name = ''parse_book'', bj_data = parse_book_envelope a b (tenant_id who) c,
             bj_id = envelope_job_id (parse_book_envelope a b (tenant_id who) c), bj_attempts = Some 3, bj_priority = None,
             bj_custom_backoff = True, bj_complete_age = Some (24 * 60 * 60) \<rparr> (bw_queue v) = (Inl e, q)"
          using assms(3) by (metis prod.collapse)
        then show ?thesis using x Inr by (auto simp: enqueue_parse_book_def dispatch_job_def enqueue_processing_job_def enqueue_def)
      qed
      then show ?thesis using x dispatch_job_Inl unfolding enqueue_parse_book_def by fastforce
    qed
    obtain q where w': "w' = w1\<lparr> bw_queue := q \<rparr>"
      using committed(3) down [of "be_id ev 1" "be_id ev 0" "be_id ev 2" w1] by (auto simp: after_admission_def)
    have f: "f \<in> set (bw_files w')" "original_file f" "bf_tenant_id f = tenant_id who" "bf_content_hash f = up_declared_hash s"
      using check_upload_Inr [OF d]
      by (simp_all add: w' w1 parse_begun_def committed(1) uploaded_file_def original_file_def checksum_buffer_def)
    have redis: "bw_redis w' = bw_redis w" "bw_usage w' = bw_usage w" by (simp_all add: w' w1 parse_begun_def)
    have "orphaned now stale ?j" using assms(4) by (simp add: orphaned_def)
    moreover have "?j \<in> set (db_jobs w')" by (simp add: w' w1 parse_begun_def)
    ultimately have "\<exists>j \<in> set (db_jobs w'). jb_id j = be_id ev 1 \<and> orphaned now stale j"
      by (intro bexI [of _ ?j]) simp_all
    then show ?thesis
      using duplicate_consent_ignored [OF assms(5) _ f] sess redis by simp
  qed (use assms(2) in simp)
qed

theorem broker_outage_strands_upload_witness:
  "\<exists>e w' r w2. complete_upload_session (library_deps library_dead_broker) (library_env ''x'') sample_who ''b1'' ''s1'' 5 False (library [sample_book] [] [])
      = (Inl e, w')
    \<and> complete_upload_session (library_deps library_dead_broker) (library_env ''y'') sample_who ''b1'' ''s1'' 5 True w' = (r, w2)
    \<and> (\<exists>j \<in> set (db_jobs w'). orphaned 99000 60000 j) \<and> (\<exists>e'. r = Inl e')"
proof -
  obtain d f where run: "complete_upload_session (library_deps library_dead_broker) (library_env ''x'') sample_who ''b1'' ''s1'' 5 False (library [sample_book] [] [])
      = after_admission (library_deps library_dead_broker) (library_env ''x'') sample_who ''b1'' library_session 5
        (parse_begun (library_env ''x'') ''b1'' BUploaded (admission_job (library_env ''x'') sample_who ''b1'' ''h5'')
          (uploaded_event (library_env ''x'') sample_who ''b1'' f) ((library [sample_book] [] [])\<lparr> bw_files := [f] \<rparr>))"
    (is "_ = after_admission _ _ _ _ _ _ ?v")
    using library_upload [of "[]" "library_env ''x''" library_dead_broker False] by auto
  have dead: "\<exists>e. fst (bq_add (bd_broker (library_deps library_dead_broker)) name j q) = Inl e" for name j q
    by (simp add: library_dead_broker_def)
  have "enqueue_parse_book (library_deps library_dead_broker) (library_env ''x'') sample_who ''x1'' ''x0'' ''x2'' ?v = (Inl (OtherErr ''down''), ?v)"
    by (simp add: enqueue_parse_book_def dispatch_job_def enqueue_processing_job_def enqueue_def library_envelope_budget
        library_dead_broker_def)
  then have fail: "complete_upload_session (library_deps library_dead_broker) (library_env ''x'') sample_who ''b1'' ''s1'' 5 False (library [sample_book] [] [])
      = (Inl (OtherErr ''down''), ?v)"
    unfolding run after_admission_def by (simp add: library_ids)
  obtain r w2 where retry: "complete_upload_session (library_deps library_dead_broker) (library_env ''y'') sample_who ''b1'' ''s1'' 5 True ?v = (r, w2)"
    by (metis prod.collapse)
  have "bw_files ?v \<noteq> bw_files (library [sample_book] [] [])" by (simp add: parse_begun_def)
  from broker_outage_strands_upload [OF fail this dead _ retry, of 60000 99000] fail retry
  show ?thesis by auto
qed

end
