(* ===== verification/PurgeProperties.thy ===== *)
theory PurgeProperties
  imports PurgeLaws BookProperties
begin

text \<open>
  The properties of the purge and of retention: a purge empties the book and nothing but the book, it
  can never finish, restoring the book does not stop it, and the sweep expires objects but keeps rows.
\<close>

subsection \<open>A sample library\<close>

definition purge_row :: "string \<Rightarrow> string \<Rightarrow> scoped_row" where
  "purge_row i b = \<lparr> rw_id = i, rw_book = Some b, rw_keys = [Some (''key-'' @ i)], rw_refs = [], rw_scope = [],
     rw_profile = [], rw_size = 5, rw_status = ADMITTED, rw_current = True, rw_class = STANDARD, rw_created = 1 \<rparr>"

definition purge_rows :: "lib_table \<Rightarrow> scoped_row list" where
  "purge_rows tb = (if tb = TParagraph then [purge_row ''p1'' ''b1'', purge_row ''p2'' ''b2''] else if tb = TBookFile then [purge_row ''f1'' ''b1''] else [])"

definition purge_library :: "book list \<Rightarrow> job list \<Rightarrow> string list purge_world" where
  "purge_library books jobs = \<lparr> db_jobs = jobs, db_outbox = [], pw_books = books, pw_rows = purge_rows,
     pw_dependencies = [], pw_trail = [], pw_usage = [], pw_store = [] \<rparr>"

definition purge_sample_deps :: "string list purge_deps" where
  "purge_sample_deps = \<lparr> md_delete = (\<lambda>k s. (Inr (), k # s)), md_class_of = (\<lambda>_. ''Error'') \<rparr>"

definition purge_sample_env :: purge_env where
  "purge_sample_env = \<lparr> me_now = 9000, me_audit_id = ''a'', me_usage_id = ''u'', me_usage_ok = True \<rparr>"

lemma purge_library_sel [simp]:
  "db_jobs (purge_library bs js) = js" "pw_books (purge_library bs js) = bs" "pw_rows (purge_library bs js) = purge_rows"
  "pw_trail (purge_library bs js) = []" "pw_store (purge_library bs js) = []"
  by (simp_all add: purge_library_def)

lemma purge_library_intact: "\<forall>j \<in> set js. jb_parent j = None \<Longrightarrow> intact (purge_library bs js) ''b1'' i"
  by (simp add: intact_def refs_inside_def purge_rows_def purge_row_def)

lemma purge_job_sel [simp]:
  "jb_id (purge_job dp ev who b) = be_id ev 0" "jb_status (purge_job dp ev who b) = CREATED"
  "jb_book_id (purge_job dp ev who b) = Some b" "jb_parent (purge_job dp ev who b) = None"
  "je_code (jb_error (purge_job dp ev who b)) = None"
  by (simp_all add: purge_job_def fresh_job_def no_error_def)

subsection \<open>A purge never finishes\<close>

text \<open>
  C22: The purge of a book that exists never completes.  The job that runs it names the book in a column
  whose foreign key restricts deletion, so the last step is refused whatever the rest of the library
  holds; marking the job FAILED is then refused too, since no error code is set.  The handler throws,
  the job stays RUNNING, the book keeps its row and no audit row says it was purged.
\<close>

theorem purge_never_completes:
  assumes "find_job i (db_jobs w) = Some j" "jb_status j \<noteq> SUCCEEDED" "je_code (jb_error j) = None"
    and "jb_book_id j = Some b" "\<exists>r \<in> set (pw_books w). bk_id r = b"
  shows "\<exists>w'. run_purge_book dp ev i b w = (Inl check_violation, w') \<and> pw_books w' = pw_books w \<and> pw_trail w' = pw_trail w
    \<and> find_job i (db_jobs w') = Some (run_patch (me_now ev) j) \<and> jb_status (run_patch (me_now ev) j) = RUNNING"
proof -
  obtain w1 w' where r: "w1 = w\<lparr> db_jobs := update_where (\<lambda>k. jb_id k = i) (run_patch (me_now ev)) (db_jobs w) \<rparr>"
    "run_purge_book dp ev i b w = (Inl check_violation, w')" "shrunk dp b i w1 w'"
    "find_job i (db_jobs w') = Some (run_patch (me_now ev) j)"
    by (rule run_purge_book_stuck [OF assms])
  then show ?thesis by (auto simp: shrunk_def run_patch_def)
qed

theorem purge_never_completes_witness:
  "\<exists>w'. run_purge_book purge_sample_deps purge_sample_env ''x0'' ''b1''
      (purge_library [sample_book] [purge_job (library_deps sample_broker) (library_env ''x'') sample_who ''b1'']) = (Inl check_violation, w')
    \<and> pw_books w' = [sample_book]"
proof -
  let ?j = "purge_job (library_deps sample_broker) (library_env ''x'') sample_who ''b1''"
  let ?w = "purge_library [sample_book] [?j]"
  have "find_job ''x0'' (db_jobs ?w) = Some ?j" by (simp add: library_ids)
  moreover have "\<exists>r \<in> set (pw_books ?w). bk_id r = ''b1''" by simp
  ultimately show ?thesis using purge_never_completes [of "''x0''" ?w ?j "''b1''" purge_sample_deps purge_sample_env] by auto
qed

lemma other_jobs_kept:
  assumes "\<forall>k \<in> set js. jb_book_id k \<noteq> Some b \<longrightarrow> jb_id k \<notin> ids \<and> jb_id k \<noteq> i"
    and "\<And>k. jb_id (f k) = jb_id k" "\<And>k. jb_book_id (f k) = jb_book_id k"
  shows "filter (\<lambda>k. jb_book_id k \<noteq> Some b) (filter (\<lambda>k. jb_id k \<notin> ids) (update_where (\<lambda>k. jb_id k = i) f js))
    = filter (\<lambda>k. jb_book_id k \<noteq> Some b) js"
  using assms(1) by (induction js) (auto simp: update_where_def assms(2,3))




subsection \<open>Restoring does not stop a purge\<close>

text \<open>The tables a step empties, of those the module reads as rows: all but the voice profiles.\<close>

definition CONTENT_TABLES :: "lib_table list" where
  "CONTENT_TABLES = filter (\<lambda>tb. tb \<noteq> TVoiceProfile \<and> tb \<noteq> TVoiceProfileVersion) ROW_TABLES"

lemma content_steps: "\<forall>tb \<in> set CONTENT_TABLES. Some tb \<in> step_table ` set (butlast PURGE_STEPS)"
  by code_simp

lemma book_row_last: "PURGE_STEPS = butlast PURGE_STEPS @ [Book_row]" "Book_row \<notin> set (butlast PURGE_STEPS)"
  by code_simp+

lemma children_first_prefix: "children_first ts (ss @ us) \<Longrightarrow> children_first ts ss"
  by (induction ss arbitrary: ts) (auto split: option.splits)

lemma run_purge_steps_append:
  "run_purge_steps dp ev j b (ss @ us) w = seqE (run_purge_steps dp ev j b ss) (\<lambda>_. run_purge_steps dp ev j b us) w"
  by (induction ss arbitrary: w) (auto simp: seqE_def split: prod.splits sum.splits)

lemma purge_book_Inr:
  assumes "purge_book dp ev who b confirm w = (Inr x, w1)"
  shows "db_jobs w1 = db_jobs w @ [touch (be_now ev) (set_queued (be_now ev) (purge_job dp ev who b))]
    \<and> iw_books w1 = iw_books w \<and> (\<forall>k \<in> set (db_jobs w). jb_id k \<noteq> be_id ev 0)"
proof -
  let ?args = "\<lparr> ea_processing_job_id = be_id ev 0, ea_queue = ''maintenance'',
          ea_envelope = purge_book_envelope (be_id ev 0) b (tenant_id who) (be_id ev 1),
          ea_job_name = ''cleanup_artifacts'', ea_max_attempts = 3, ea_priority = None \<rparr>"
  obtain u u' w0 where c: "on_jobs (create_row job_clash (purge_job dp ev who b)) w = (Inr u, w0)"
    and d: "dispatch_job dp ev ?args w0 = (Inr u', w1)"
    using assms unfolding purge_book_def seqE_Inr by (auto simp: readE_def returnE_def)
  have w0: "w0 = w\<lparr> db_jobs := db_jobs w @ [purge_job dp ev who b] \<rparr>" "\<forall>k \<in> set (db_jobs w). jb_id k \<noteq> be_id ev 0"
    using c by (auto elim!: on_table_cases dest!: create_row_Inr simp: job_clash_def)
  have "update_where (\<lambda>j. jb_id j = be_id ev 0) g (db_jobs w @ [purge_job dp ev who b]) = db_jobs w @ [g (purge_job dp ev who b)]" for g
    using w0(2) by (simp add: update_where_def map_idI)
  then show ?thesis using dispatch_job_Inr [OF d] w0 by auto
qed

lemma restore_book_Inr:
  assumes "restore_book ev who b w = (Inr y, w2)" "distinct (map bk_id (iw_books w))"
  shows "db_jobs w2 = db_jobs w \<and> (\<exists>r \<in> set (iw_books w2). bk_id r = b \<and> bk_deleted_at r = None)"
proof -
  obtain r where r: "require_owned_book who b w = Inr r"
    and run: "seqE (edit_book (be_now ev) (\<lambda>b. b\<lparr> bk_deleted_at := None \<rparr>) b) (\<lambda>b. returnE (to_book_dto b)) w = (Inr y, w2)"
    using assms(1) by (auto simp: restore_book_def seqE_readE bindE_def split: sum.splits if_splits)
  have w2: "w2 = w\<lparr> iw_books := update_where (\<lambda>x. bk_id x = b) (edited (be_now ev) (\<lambda>b. b\<lparr> bk_deleted_at := None \<rparr>)) (iw_books w) \<rparr>"
    using run edit_book_run [OF find_own_book [OF assms(2) r], of "\<lambda>b. b\<lparr> bk_deleted_at := None \<rparr>" "be_now ev"]
    by (auto simp: seqE_def)
  have "r \<in> set (iw_books w)" "bk_id r = b" using require_owned_book_owned [OF r] by simp_all
  then have "edited (be_now ev) (\<lambda>b. b\<lparr> bk_deleted_at := None \<rparr>) r \<in> set (iw_books w2)" "bk_id r = b"
    unfolding w2 by (auto simp: update_where_def image_iff intro!: bexI [of _ r])
  moreover have "db_jobs w2 = db_jobs w" by (simp add: w2)
  ultimately show ?thesis by (auto simp: edited_def intro!: bexI [of _ "edited (be_now ev) (\<lambda>b. b\<lparr> bk_deleted_at := None \<rparr>) r"])
qed

text \<open>
  Restoring a book does not stop a purge that was admitted before: the purge job stays in the table
  and its handler never looks at \<open>deleted_at\<close>.  When the job runs it removes every row of the book
  from every table of content, ends in an error, and leaves the restored, live book empty, with a
  RUNNING job.
\<close>

theorem restored_book_is_emptied:
  assumes "purge_book bd ev who b confirm w = (Inr x, w1)" "restore_book ev' who b w1 = (Inr y, w2)"
    and "db_jobs v = db_jobs w2" "pw_books v = iw_books w2" "distinct (map bk_id (iw_books w))"
    and "intact v b (be_id ev 0)"
  shows "\<exists>v'. run_purge_book dp pev (be_id ev 0) b v = (Inl check_violation, v') \<and> pw_books v' = iw_books w2
    \<and> (\<exists>r \<in> set (pw_books v'). bk_id r = b \<and> bk_deleted_at r = None)
    \<and> (\<forall>tb \<in> set CONTENT_TABLES. \<forall>r \<in> set (pw_rows v' tb). rw_book r \<noteq> Some b)
    \<and> (\<exists>j. find_job (be_id ev 0) (db_jobs v') = Some j \<and> jb_status j = RUNNING)"
proof -
  let ?i = "be_id ev 0"
  let ?j = "touch (be_now ev) (set_queued (be_now ev) (purge_job bd ev who b))"
  note p = purge_book_Inr [OF assms(1)]
  have "distinct (map bk_id (iw_books w1))" using p assms(5) by simp
  note r = restore_book_Inr [OF assms(2) this]
  have jobs: "db_jobs v = db_jobs w @ [?j]" using p r assms(3) by simp
  have keep: "jb_book_id ?j = Some b" "je_code (jb_error ?j) = None" "jb_status ?j \<noteq> SUCCEEDED" "jb_id ?j = ?i"
    by (simp_all add: touch_def set_queued_def)
  have "find_job ?i (db_jobs w) = None" using p by (auto simp: find_job_def find_row_None)
  then have f: "find_job ?i (db_jobs v) = Some ?j" by (simp add: jobs find_job_append)
  have b: "\<exists>r \<in> set (pw_books v). bk_id r = b" using r assms(4) by auto
  obtain v1 v' where v1: "v1 = v\<lparr> db_jobs := update_where (\<lambda>k. jb_id k = ?i) (run_patch (me_now pev)) (db_jobs v) \<rparr>"
    and stuck: "run_purge_book dp pev ?i b v = (Inl check_violation, v')" "shrunk dp b ?i v1 v'"
      "find_job ?i (db_jobs v') = Some (run_patch (me_now pev) ?j)"
    and steps: "\<exists>e. run_purge_steps dp pev ?j b PURGE_STEPS v1 = (Inl e, v')"
    by (rule run_purge_book_stuck [OF f keep(3,2,1) b])
  have "intact v1 b ?i" using assms(6) unfolding v1 intact_def refs_inside_def
    by (auto simp: set_update_where run_patch_def touch_def set_status_def split: if_splits)
  then have i: "intact v1 b (jb_id ?j)" using keep(4) by simp
  have "children_first [] (butlast PURGE_STEPS)"
    using purge_steps_ordered children_first_prefix [of "[]" "butlast PURGE_STEPS" "[Book_row]"] book_row_last(1) by metis
  then obtain v2 where v2: "run_purge_steps dp pev ?j b (butlast PURGE_STEPS) v1 = (Inr (), v2)" "shrunk dp b ?i v1 v2"
    "cleared v2 b {tb. Some tb \<in> step_table ` set (butlast PURGE_STEPS)}"
    using run_purge_steps_clear [OF _ book_row_last(2) i shrunk_refl, where ts = "[]" and dp = dp and ev = pev] keep(4)
    by (auto simp: cleared_def)
  have "find_job ?i (db_jobs v2) = Some (run_patch (me_now pev) ?j)" "pw_books v2 = pw_books v"
    using shrunk_find_job [OF v2(2)] shrunk_find_job [OF stuck(2)] stuck(3) v2(2) by (simp_all add: shrunk_def v1)
  moreover have "jb_book_id (run_patch (me_now pev) ?j) = Some b" using keep(1) by (simp add: run_patch_def touch_def set_status_def)
  ultimately have "delete_book_row b v2 = (Inl fk_violation, v2)" using delete_book_row_refused b by metis
  then have "run_purge_steps dp pev ?j b (butlast PURGE_STEPS @ [Book_row]) v1 = (Inl fk_violation, v2)"
    unfolding run_purge_steps_append by (simp add: seqE_def v2(1))
  then have "v2 = v'" using steps unfolding book_row_last(1) [symmetric] by auto
  then have "\<forall>tb \<in> set CONTENT_TABLES. \<forall>r \<in> set (pw_rows v' tb). rw_book r \<noteq> Some b"
    using v2(3) content_steps unfolding cleared_def by blast
  moreover have "pw_books v' = iw_books w2" using stuck(2) assms(4) by (simp add: shrunk_def v1)
  moreover have "jb_status (run_patch (me_now pev) ?j) = RUNNING" by (simp add: run_patch_def)
  ultimately show ?thesis using stuck r by auto
qed


lemma purge_envelope_fits: "assert_queue_payload_size_budget (purge_book_envelope ''x0'' ''b1'' ''t1'' ''x1'') = Inr ()"
proof (rule budget_ok)
  show "2 * length (json_stringify (purge_book_envelope ''x0'' ''b1'' ''t1'' ''x1'')) \<le> QUEUE_PAYLOAD_CEILING_BYTES"
    using length_stringify_str [of "''job_id''"] length_stringify_str [of "''entity_id''"] length_stringify_str [of "''correlation_id''"]
      length_stringify_str [of "''tenant_id''"] length_stringify_str [of "''payload''"] length_stringify_str [of "''operation''"]
      length_stringify_str [of "''purge_book''"] length_stringify_str [of "''book_id''"] length_stringify_str [of "''x0''"]
      length_stringify_str [of "''b1''"] length_stringify_str [of "''t1''"] length_stringify_str [of "''x1''"]
    by (simp add: purge_book_envelope_def command_envelope_def QUEUE_PAYLOAD_CEILING_BYTES_def)
qed

abbreviation trashed_book :: book where
  "trashed_book \<equiv> sample_book\<lparr> bk_deleted_at := Some 4000 \<rparr>"

lemma library_purge:
  "\<exists>x w1. purge_book (library_deps sample_broker) (library_env ''x'') sample_who ''b1'' ''b1'' (library [trashed_book] [] []) = (Inr x, w1)"
proof -
  let ?w = "library [trashed_book] [] []" and ?j = "purge_job (library_deps sample_broker) (library_env ''x'') sample_who ''b1''"
  have o: "require_owned_book sample_who ''b1'' ?w = Inr trashed_book" by (simp add: require_owned_book_Inr)
  have a: "admit_purge sample_who ''b1'' ''b1'' ?w = Inr ()"
    using o by (simp add: admit_purge_def require_role_def jobs_in_def count_rows_def) (simp add: sample_who_def)
  have c: "on_jobs (create_row job_clash ?j) ?w = (Inr (), ?w\<lparr> db_jobs := [?j] \<rparr>)"
    by (simp add: on_table_def create_row_def insert_row_def)
  have "\<exists>w1. dispatch_job (library_deps sample_broker) (library_env ''x'')
      \<lparr> ea_processing_job_id = ''x0'', ea_queue = ''maintenance'', ea_envelope = purge_book_envelope ''x0'' ''b1'' ''t1'' ''x1'',
        ea_job_name = ''cleanup_artifacts'', ea_max_attempts = 3, ea_priority = None \<rparr> (?w\<lparr> db_jobs := [?j] \<rparr>) = (Inr (), w1)"
    by (simp add: dispatch_job_def enqueue_processing_job_def enqueue_def purge_envelope_fits sample_broker_def update_job_def library_ids)
  then obtain w1 where "dispatch_job (library_deps sample_broker) (library_env ''x'')
      \<lparr> ea_processing_job_id = ''x0'', ea_queue = ''maintenance'', ea_envelope = purge_book_envelope ''x0'' ''b1'' ''t1'' ''x1'',
        ea_job_name = ''cleanup_artifacts'', ea_max_attempts = 3, ea_priority = None \<rparr> (?w\<lparr> db_jobs := [?j] \<rparr>) = (Inr (), w1)" by blast
  then show ?thesis
    using a c by (simp add: purge_book_def seqE_def library_ids)
qed

theorem restored_book_is_emptied_witness:
  "\<exists>books jobs v'. run_purge_book purge_sample_deps purge_sample_env ''x0'' ''b1'' (purge_library books jobs) = (Inl check_violation, v')
    \<and> (\<exists>r \<in> set (pw_books v'). bk_id r = ''b1'' \<and> bk_deleted_at r = None)
    \<and> filter (\<lambda>r. rw_book r = Some ''b1'') (pw_rows v' TParagraph) = []"
proof -
  obtain x w1 where p: "purge_book (library_deps sample_broker) (library_env ''x'') sample_who ''b1'' ''b1'' (library [trashed_book] [] []) = (Inr x, w1)"
    using library_purge by blast
  note pw = purge_book_Inr [OF p]
  have o: "require_owned_book sample_who ''b1'' w1 = Inr trashed_book" using pw by (simp add: require_owned_book_Inr)
  obtain w2 where "edit_book 5000 (\<lambda>b. b\<lparr> bk_deleted_at := None \<rparr>) ''b1'' w1 = (Inr (edited 5000 (\<lambda>b. b\<lparr> bk_deleted_at := None \<rparr>) trashed_book), w2)"
    using edit_book_run [of "''b1''" w1 trashed_book "\<lambda>b. b\<lparr> bk_deleted_at := None \<rparr>" 5000] pw by simp
  then have "\<exists>y. restore_book (library_env ''y'') sample_who ''b1'' w1 = (Inr y, w2)"
    using o by (simp add: restore_book_def seqE_readE require_role_def) (simp add: sample_who_def)
  then obtain y where r: "restore_book (library_env ''y'') sample_who ''b1'' w1 = (Inr y, w2)" by blast
  let ?v = "purge_library (iw_books w2) (db_jobs w2)"
  have d: "distinct (map bk_id (iw_books (library [trashed_book] [] [])))" by simp
  have "distinct (map bk_id (iw_books w1))" using pw by simp
  then have jobs: "db_jobs w2 = db_jobs w1" using restore_book_Inr [OF r] by simp
  have "\<forall>j \<in> set (db_jobs w2). jb_parent j = None" using pw by (simp add: jobs touch_def set_queued_def)
  then have i: "intact ?v ''b1'' (be_id (library_env ''x'') 0)" by (rule purge_library_intact)
  obtain v' where v': "run_purge_book purge_sample_deps purge_sample_env (be_id (library_env ''x'') 0) ''b1'' ?v = (Inl check_violation, v')"
    "\<exists>r \<in> set (pw_books v'). bk_id r = ''b1'' \<and> bk_deleted_at r = None"
    "\<forall>tb \<in> set CONTENT_TABLES. \<forall>r \<in> set (pw_rows v' tb). rw_book r \<noteq> Some ''b1''"
    using restored_book_is_emptied [OF p r _ _ d i, of purge_sample_deps purge_sample_env] by auto
  have "TParagraph \<in> set CONTENT_TABLES" by (simp add: CONTENT_TABLES_def ROW_TABLES_def)
  then have "filter (\<lambda>r. rw_book r = Some ''b1'') (pw_rows v' TParagraph) = []" using v'(3) by (auto simp: filter_empty_conv)
  then show ?thesis using v'(1,2) by (auto simp: library_ids)
qed

subsection \<open>Retention\<close>

lemma expire_rows_run:
  assumes "expire_rows dp tb P w = (n, w')"
  shows "pw_rows w' = (pw_rows w)(tb := update_where (\<lambda>r. rw_id r \<in> rw_id ` {r \<in> set (pw_rows w tb). P r}) expire (pw_rows w tb))
    \<and> n = length (filter P (pw_rows w tb)) \<and> pw_books w' = pw_books w \<and> db_jobs w' = db_jobs w"
  using assms by (auto simp: expire_rows_def Let_def)

lemma expired_not_selected:
  "\<not> orphaned_file c (expire r)" "\<not> superseded_chunk c' books (expire r)"
  by (simp_all add: expire_def orphaned_file_def superseded_chunk_def)

lemma expire_rows_none:
  "\<forall>r \<in> set (pw_rows w tb). \<not> P r \<Longrightarrow> expire_rows dp tb P w = (0, w)"
  by (auto simp: expire_rows_def Let_def filter_empty_conv update_where_def cong: map_cong)

text \<open>
  The retention sweep keeps every row and every book: in each table only the storage class of rows
  changes, and only to EXPIRED, and a second sweep with the same books finds nothing to expire.
\<close>

theorem retention_keeps_rows:
  assumes "run_retention_sweep dp now config w = (n, w')"
  shows "(\<forall>tb. map (\<lambda>r. r\<lparr> rw_class := EXPIRED \<rparr>) (pw_rows w' tb) = map (\<lambda>r. r\<lparr> rw_class := EXPIRED \<rparr>) (pw_rows w tb))
    \<and> (\<forall>tb. list_all2 (\<lambda>r r'. rw_class r' = rw_class r \<or> rw_class r' = EXPIRED) (pw_rows w tb) (pw_rows w' tb))
    \<and> pw_books w' = pw_books w \<and> db_jobs w' = db_jobs w
    \<and> run_retention_sweep dp now config w' = ((0, 0), w')"
proof -
  let ?F = "orphaned_file (now - int (rc_orphan_ttl_hours config) * 60 * 60 * 1000)"
  let ?c = "now - int (rc_soft_delete_days config) * 24 * 60 * 60 * 1000"
  obtain n1 w1 where r1: "expire_rows dp TBookFile ?F w = (n1, w1)" by fastforce
  obtain n2 where r2: "expire_rows dp TAudioChunk (superseded_chunk ?c (pw_books w1)) w1 = (n2, w')"
    using assms r1 by (auto simp: run_retention_sweep_def Let_def split: prod.splits)
  note e1 = expire_rows_run [OF r1] and e2 = expire_rows_run [OF r2]
  let ?f = "\<lambda>P rows r. if rw_id r \<in> rw_id ` {r \<in> set rows. P r} then expire r else r"
  have rows: "pw_rows w' tb = (if tb = TBookFile then map (?f ?F (pw_rows w tb)) (pw_rows w tb)
      else if tb = TAudioChunk then map (?f (superseded_chunk ?c (pw_books w)) (pw_rows w tb)) (pw_rows w tb) else pw_rows w tb)" for tb
    using e1 e2 by (simp add: update_where_def)
  have none: "\<forall>r \<in> set (pw_rows w' TBookFile). \<not> ?F r" "\<forall>r \<in> set (pw_rows w' TAudioChunk). \<not> superseded_chunk ?c (pw_books w) r"
    using expired_not_selected by (auto simp: rows)
  have books: "pw_books w' = pw_books w" using e1 e2 by simp
  have a1: "expire_rows dp TBookFile ?F w' = (0, w')" by (rule expire_rows_none [OF none(1)])
  have a2: "expire_rows dp TAudioChunk (superseded_chunk ?c (pw_books w')) w' = (0, w')"
    unfolding books by (rule expire_rows_none [OF none(2)])
  have again: "run_retention_sweep dp now config w' = ((0, 0), w')"
    unfolding run_retention_sweep_def Let_def a1 prod.case a2 ..
  have "map (\<lambda>r. r\<lparr> rw_class := EXPIRED \<rparr>) (pw_rows w' tb) = map (\<lambda>r. r\<lparr> rw_class := EXPIRED \<rparr>) (pw_rows w tb)" for tb
    by (simp add: rows expire_def)
  moreover have "list_all2 (\<lambda>r r'. rw_class r' = rw_class r \<or> rw_class r' = EXPIRED) (pw_rows w tb) (pw_rows w' tb)" for tb
    by (simp add: rows list_all2_map2 expire_def list_all2_same)
  ultimately show ?thesis using e1 e2 again by simp
qed

definition retention_sample :: retention_config where
  "retention_sample = \<lparr> rc_orphan_ttl_hours = 24, rc_soft_delete_days = 30 \<rparr>"

theorem retention_keeps_rows_witness:
  "\<exists>n w'. run_retention_sweep purge_sample_deps 999999999 retention_sample (purge_library [sample_book] []) = (n, w')
    \<and> run_retention_sweep purge_sample_deps 999999999 retention_sample w' = ((0, 0), w')"
proof -
  obtain n w' where run: "run_retention_sweep purge_sample_deps 999999999 retention_sample (purge_library [sample_book] []) = (n, w')"
    by (metis prod.collapse)
  show ?thesis using retention_keeps_rows [OF run] run by blast
qed

text \<open>
  While every file row is ADMITTED, and a completed upload writes no other, the first half of the sweep
  finds nothing: the objects of rejected uploads stay.
\<close>

lemma admitted_files_not_swept:
  assumes "\<forall>f \<in> set (pw_rows w TBookFile). rw_status f = ADMITTED" "run_retention_sweep dp now config w = (n, w')"
  shows "fst n = 0 \<and> pw_rows w' TBookFile = pw_rows w TBookFile"
proof -
  have "expire_rows dp TBookFile (orphaned_file c) w = (0, w)" for c
    using assms(1) by (intro expire_rows_none) (auto simp: orphaned_file_def)
  then show ?thesis using assms(2) by (auto simp: run_retention_sweep_def Let_def dest: expire_rows_run split: prod.splits)
qed

end
