(* ===== verification/Ffmpeg.thy ===== *)
theory Ffmpeg
  imports Storage Access JobStore
begin

text \<open>
  \<open>apps/worker-cpu/src/lib/ffmpeg.ts\<close> and \<open>mastering-policy.ts\<close>.  The two binaries are the
  parameter \<open>at_exec\<close>: the argument vector and the files it may read give the two output streams and
  the bytes of the output file, or a failure.  A file is its path with its bytes, and a wrapper returns
  the bytes it wrote.  A number is a rational; \<open>at_num\<close> prints one as the language does, \<open>at_limit\<close>
  is \<open>Math.pow(10, db / 20).toFixed(6)\<close>.  Output text where a numeral is expected and none can be
  read (\<open>NaN\<close> in the code, which the database refuses later) is refused where it is read.
\<close>

subsection \<open>Running a binary\<close>

type_synonym audio_file = "string \<times> bytes"

record exec_result =
  xr_stdout :: string
  xr_stderr :: string
  xr_output :: bytes

record exec_failure =
  xf_code :: "int option"
  xf_message :: string
  xf_stderr :: string

record audio_tool =
  at_exec :: "string \<Rightarrow> string list \<Rightarrow> audio_file list \<Rightarrow> exec_failure + exec_result"
  at_num :: "rat \<Rightarrow> string"
  at_limit :: "int \<Rightarrow> string"

definition line_end :: string where
  "line_end = [char_of (10::nat)]"

definition tail_of :: "nat \<Rightarrow> string \<Rightarrow> string" where
  "tail_of n s = drop (length s - n) s"

definition run_tool :: "audio_tool \<Rightarrow> string \<Rightarrow> string list \<Rightarrow> audio_file list \<Rightarrow> thrown + exec_result" where
  "run_tool tool bin args files = (case at_exec tool bin args files of
     Inr r \<Rightarrow> Inr r
   | Inl e \<Rightarrow> Inl (OtherErr (bin @ '' failed (exit '' @ (case xf_code e of Some c \<Rightarrow> show_int c | None \<Rightarrow> ''unknown'')
       @ ''): '' @ xf_message e @ line_end @ ''args: '' @ join_with '' '' args @ line_end
       @ ''stderr (tail): '' @ tail_of 2000 (xf_stderr e))))"

definition run_ffmpeg :: "audio_tool \<Rightarrow> string list \<Rightarrow> audio_file list \<Rightarrow> thrown + exec_result" where
  "run_ffmpeg tool = run_tool tool ''ffmpeg''"

definition run_ffprobe :: "audio_tool \<Rightarrow> string list \<Rightarrow> audio_file list \<Rightarrow> thrown + exec_result" where
  "run_ffprobe tool = run_tool tool ''ffprobe''"

text \<open>A command that writes a file.\<close>

definition ffmpeg_write :: "audio_tool \<Rightarrow> string list \<Rightarrow> audio_file list \<Rightarrow> thrown + bytes" where
  "ffmpeg_write tool args files = bindE (run_ffmpeg tool args files) (\<lambda>r. Inr (xr_output r))"

subsection \<open>Numbers in text\<close>

definition number_of :: "string \<Rightarrow> rat option" where
  "number_of s = map_option (\<lambda>(m, d). of_int m / 10 ^ d) (js_number s)"

definition read_number :: "string \<Rightarrow> thrown + rat" where
  "read_number s = (case number_of s of Some x \<Rightarrow> Inr x | None \<Rightarrow> Inl (OtherErr ''NaN''))"

definition js_round :: "rat \<Rightarrow> int" where
  "js_round x = \<lfloor>x + 1 / 2\<rfloor>"

definition number_char :: "char \<Rightarrow> bool" where
  "number_char c \<longleftrightarrow> is_digit c \<or> c = CHR ''.''"

text \<open>\<open>\s*(-?[\d.]+)\<close> tool the start of a text, with the rest.\<close>

definition match_number :: "string \<Rightarrow> (string \<times> string) option" where
  "match_number s =
     (let s1 = dropWhile is_space s;
          (sign, s2) = (case s1 of c # r \<Rightarrow> if c = CHR ''-'' then (''-'', r) else ([], s1) | [] \<Rightarrow> ([], []));
          ds = takeWhile number_char s2
      in if ds = [] then None else Some (sign @ ds, dropWhile number_char s2))"

text \<open>An optional unit behind the number.\<close>

definition match_unit :: "string \<Rightarrow> string \<Rightarrow> string option" where
  "match_unit unit' s = (if unit' = [] then Some s
     else let r = dropWhile is_space s in if prefix unit' r then Some (drop (length unit') r) else None)"

definition match_labelled :: "string \<Rightarrow> string \<Rightarrow> string \<Rightarrow> (string \<times> string) option" where
  "match_labelled label unit' s =
     (if prefix label s then
        (case match_number (drop (length label) s) of
           None \<Rightarrow> None
         | Some (n, rest) \<Rightarrow> map_option (\<lambda>r. (n, r)) (match_unit unit' rest))
      else None)"

lemma match_number_shorter: "match_number s = Some (n, r) \<Longrightarrow> length r < length s"
proof -
  assume m: "match_number s = Some (n, r)"
  define s1 where "s1 = dropWhile is_space s"
  have "length s1 \<le> length s" by (simp add: s1_def length_dropWhile_le)
  moreover have "length (dropWhile number_char t) < length t" if "takeWhile number_char t \<noteq> []" for t
    using that takeWhile_dropWhile_id [of number_char t] by (metis length_append length_greater_0_conv less_add_same_cancel2)
  moreover obtain sign t where t: "(case s1 of c # r \<Rightarrow> if c = CHR ''-'' then (''-'', r) else ([], s1) | [] \<Rightarrow> ([], [])) = (sign, t)"
    "length t \<le> length s1" by (cases s1; cases "hd s1 = CHR ''-''") auto
  moreover have "takeWhile number_char t \<noteq> []" "r = dropWhile number_char t"
    using m unfolding match_number_def Let_def s1_def [symmetric] t(1) by (auto split: if_splits)
  ultimately show ?thesis by fastforce
qed

lemma match_labelled_shorter: "match_labelled label unit' s = Some (n, r) \<Longrightarrow> length r < length s"
proof -
  assume m: "match_labelled label unit' s = Some (n, r)"
  then obtain rest where num: "match_number (drop (length label) s) = Some (n, rest)"
    and unit: "match_unit unit' rest = Some r"
    by (auto simp: match_labelled_def split: if_splits option.splits)
  have "length r \<le> length rest"
  proof -
    have "length (dropWhile is_space rest) \<le> length rest" by (simp add: length_dropWhile_le)
    then show ?thesis using unit by (auto simp: match_unit_def Let_def split: if_splits)
  qed
  then show ?thesis using match_number_shorter [OF num] by simp
qed

text \<open>\<open>matchAll\<close>: the numerals behind a label, from the left, without overlap.\<close>

function numbers_after :: "string \<Rightarrow> string \<Rightarrow> string \<Rightarrow> string list" where
  "numbers_after label unit' s = (case s of
     [] \<Rightarrow> []
   | c # cs \<Rightarrow> (case match_labelled label unit' s of
       Some (n, rest) \<Rightarrow> n # numbers_after label unit' rest
     | None \<Rightarrow> numbers_after label unit' cs))"
  by pat_completeness auto
termination
  by (relation "measure (\<lambda>(l, u, s). length s)") (auto dest: match_labelled_shorter)

declare numbers_after.simps [simp del]

definition last_number_after :: "string \<Rightarrow> string \<Rightarrow> string \<Rightarrow> thrown + rat option" where
  "last_number_after text' label unit' = (case numbers_after label unit' text' of
     [] \<Rightarrow> Inr None
   | ns \<Rightarrow> bindE (read_number (last ns)) (\<lambda>x. Inr (Some x)))"

definition read_numbers :: "string list \<Rightarrow> thrown + rat list" where
  "read_numbers ns = foldr (\<lambda>n r. bindE (read_number n) (\<lambda>x. bindE r (\<lambda>xs. Inr (x # xs)))) ns (Inr [])"

subsection \<open>Version and probes\<close>

text \<open>The first \<open>ffmpeg version d.d[.d]\<close> of a line.\<close>

definition match_version :: "string \<Rightarrow> string option" where
  "match_version s = (if \<not> prefix ''ffmpeg version '' s then None
     else let r = drop 15 s; a = takeWhile is_digit r; r1 = dropWhile is_digit r;
              b = takeWhile is_digit (tl r1); r2 = dropWhile is_digit (tl r1); c = takeWhile is_digit (tl r2)
       in if a = [] \<or> r1 = [] \<or> hd r1 \<noteq> CHR ''.'' \<or> b = [] then None
          else if r2 \<noteq> [] \<and> hd r2 = CHR ''.'' \<and> c \<noteq> [] then Some (a @ ''.'' @ b @ ''.'' @ c)
          else Some (a @ ''.'' @ b))"

fun find_version :: "string \<Rightarrow> string option" where
  "find_version [] = None"
| "find_version (c # cs) = (case match_version (c # cs) of Some v \<Rightarrow> Some v | None \<Rightarrow> find_version cs)"

definition get_ffmpeg_version :: "audio_tool \<Rightarrow> thrown + string" where
  "get_ffmpeg_version tool = bindE (run_ffmpeg tool [''-version''] []) (\<lambda>r.
     let first_line = hd (split_on (char_of (10::nat)) (xr_stdout r)) in
     (case find_version first_line of
        Some v \<Rightarrow> Inr v
      | None \<Rightarrow> Inl (OtherErr (''Could not parse ffmpeg version from \"ffmpeg -version\" output: '' @ first_line))))"

record probe_result =
  pb_duration_ms :: int
  pb_sample_rate :: rat
  pb_channels :: int
  pb_format_name :: string

definition json_parsed :: "string \<Rightarrow> thrown + json" where
  "json_parsed s = (case json_parse s of Some v \<Rightarrow> Inr v | None \<Rightarrow> Inl (OtherErr ''SyntaxError''))"

definition array_field :: "json \<Rightarrow> string \<Rightarrow> json list" where
  "array_field j k = (case json_field j k of Some (JArr xs) \<Rightarrow> xs | _ \<Rightarrow> [])"

definition sub_field :: "json \<Rightarrow> string \<Rightarrow> string \<Rightarrow> string option" where
  "sub_field j a b = (case json_field j a of Some o' \<Rightarrow> str_field o' b | None \<Rightarrow> None)"

definition probe_audio :: "audio_tool \<Rightarrow> audio_file \<Rightarrow> thrown + probe_result" where
  "probe_audio tool file =
     bindE (run_ffprobe tool [''-v'', ''error'', ''-print_format'', ''json'', ''-show_format'', ''-show_streams'', fst file] [file]) (\<lambda>r.
     bindE (json_parsed (xr_stdout r)) (\<lambda>parsed.
     case find_row (\<lambda>s. str_field s ''codec_type'' = Some ''audio'') (array_field parsed ''streams'') of
       None \<Rightarrow> Inl (OtherErr (''ffprobe found no decodable audio stream in '' @ fst file))
     | Some stream \<Rightarrow>
         if \<not> truthy (sub_field parsed ''format'' ''duration'')
         then Inl (OtherErr (''ffprobe found no decodable audio stream in '' @ fst file))
         else bindE (read_number (the (sub_field parsed ''format'' ''duration''))) (\<lambda>d.
           bindE (case str_field stream ''sample_rate'' of Some s \<Rightarrow> read_number s | None \<Rightarrow> Inr 0) (\<lambda>rate.
           Inr \<lparr> pb_duration_ms = js_round (d * 1000), pb_sample_rate = rate,
                 pb_channels = (case json_field stream ''channels'' of Some (JNum n) \<Rightarrow> n | _ \<Rightarrow> 0),
                 pb_format_name = (case sub_field parsed ''format'' ''format_name'' of Some s \<Rightarrow> s | None \<Rightarrow> []) \<rparr>))))"

record probe_chapter =
  pc_start_ms :: int
  pc_end_ms :: int
  pc_title :: "string option"

definition probe_chapter_of :: "json \<Rightarrow> thrown + probe_chapter" where
  "probe_chapter_of c =
     (let tool = (\<lambda>k. case str_field c k of Some s \<Rightarrow> read_number s | None \<Rightarrow> Inr 0)
      in bindE (tool ''start_time'') (\<lambda>s. bindE (tool ''end_time'') (\<lambda>e.
        Inr \<lparr> pc_start_ms = js_round (s * 1000), pc_end_ms = js_round (e * 1000), pc_title = sub_field c ''tags'' ''title'' \<rparr>)))"

definition probe_chapters :: "audio_tool \<Rightarrow> audio_file \<Rightarrow> thrown + probe_chapter list" where
  "probe_chapters tool file =
     bindE (run_ffprobe tool [''-v'', ''error'', ''-print_format'', ''json'', ''-show_chapters'', fst file] [file]) (\<lambda>r.
     bindE (json_parsed (xr_stdout r)) (\<lambda>parsed.
     foldr (\<lambda>c r. bindE (probe_chapter_of c) (\<lambda>x. bindE r (\<lambda>xs. Inr (x # xs)))) (array_field parsed ''chapters'') (Inr [])))"

subsection \<open>Policies\<close>

record mastering_policy =
  mp_version :: string
  mp_lufs :: int
  mp_peak :: int
  mp_noise_floor :: int
  mp_range :: int
  mp_sample_rate :: nat
  mp_channels :: nat

definition MASTERING_POLICY_V1 :: mastering_policy where
  "MASTERING_POLICY_V1 = \<lparr> mp_version = ''mastering.v1-acx'', mp_lufs = - 20, mp_peak = - 3, mp_noise_floor = - 60,
     mp_range = 11, mp_sample_rate = 24000, mp_channels = 1 \<rparr>"

record packaging_policy =
  pk_version :: string
  pk_sample_rate :: nat
  pk_m4b_kbps :: nat
  pk_m4a_kbps :: nat
  pk_mp3_kbps :: nat

definition PACKAGING_POLICY_V1 :: packaging_policy where
  "PACKAGING_POLICY_V1 = \<lparr> pk_version = ''packaging.v1-acx'', pk_sample_rate = 44100, pk_m4b_kbps = 192, pk_m4a_kbps = 192,
     pk_mp3_kbps = 192 \<rparr>"

record silence_policy =
  sp_threshold_db :: int
  sp_min_duration :: rat

definition SILENCE_TRIM_POLICY_V1 :: silence_policy where
  "SILENCE_TRIM_POLICY_V1 = \<lparr> sp_threshold_db = - 50, sp_min_duration = 3 / 10 \<rparr>"

record loudness_target =
  lt_lufs :: int
  lt_peak :: int
  lt_range :: int

definition loudness_target_of :: "mastering_policy \<Rightarrow> loudness_target" where
  "loudness_target_of p = \<lparr> lt_lufs = mp_lufs p, lt_peak = mp_peak p, lt_range = mp_range p \<rparr>"

subsection \<open>Loudness\<close>

record loudnorm_measurement =
  lm_i :: string
  lm_tp :: string
  lm_lra :: string
  lm_thresh :: string
  lm_offset :: string

fun last_index :: "char \<Rightarrow> string \<Rightarrow> nat option" where
  "last_index c [] = None"
| "last_index c (x # xs) = (case last_index c xs of Some i \<Rightarrow> Some (Suc i) | None \<Rightarrow> if x = c then Some 0 else None)"

text \<open>The last braced block of a text.\<close>

definition trailing_block :: "string \<Rightarrow> string option" where
  "trailing_block s = (case (last_index (CHR ''{'') s, last_index (CHR ''}'') s) of
     (Some a, Some b) \<Rightarrow> if b < a then None else Some (take (b + 1 - a) (drop a s))
   | _ \<Rightarrow> None)"

definition parse_trailing_json_block :: "string \<Rightarrow> string \<Rightarrow> thrown + json" where
  "parse_trailing_json_block s what = (case trailing_block s of
     None \<Rightarrow> Inl (OtherErr (''Could not find a '' @ what @ '' JSON block in ffmpeg output''))
   | Some block \<Rightarrow> (case json_parse block of
       Some v \<Rightarrow> Inr v | None \<Rightarrow> Inl (OtherErr (''Could not parse '' @ what @ '' JSON block: '' @ block))))"

definition loudnorm_filter :: "loudness_target \<Rightarrow> string" where
  "loudnorm_filter g = ''loudnorm=I='' @ show_int (lt_lufs g) @ '':TP='' @ show_int (lt_peak g) @ '':LRA='' @ show_int (lt_range g)"

text \<open>A missing property prints as \<open>undefined\<close>.\<close>

definition printed_field :: "json \<Rightarrow> string \<Rightarrow> string" where
  "printed_field j k = (case str_field j k of Some s \<Rightarrow> s | None \<Rightarrow> ''undefined'')"

definition null_output :: "string \<Rightarrow> string \<Rightarrow> string list" where
  "null_output path filt = [''-hide_banner'', ''-nostats'', ''-i'', path, ''-af'', filt, ''-f'', ''null'', ''-'']"

definition measure_loudnorm_pass :: "audio_tool \<Rightarrow> audio_file \<Rightarrow> loudness_target \<Rightarrow> thrown + loudnorm_measurement" where
  "measure_loudnorm_pass tool file g =
     bindE (run_ffmpeg tool (null_output (fst file) (loudnorm_filter g @ '':print_format=json'')) [file]) (\<lambda>r.
     bindE (parse_trailing_json_block (xr_stderr r) ''loudnorm measurement'') (\<lambda>v.
     Inr \<lparr> lm_i = printed_field v ''input_i'', lm_tp = printed_field v ''input_tp'', lm_lra = printed_field v ''input_lra'',
           lm_thresh = printed_field v ''input_thresh'', lm_offset = printed_field v ''target_offset'' \<rparr>))"

text \<open>Sample rate and number of channels.\<close>

type_synonym pcm_format = "nat \<times> nat"

definition wav_output :: "pcm_format \<Rightarrow> string \<Rightarrow> string list" where
  "wav_output pcm out = [''-ar'', show_nat (fst pcm), ''-ac'', show_nat (snd pcm), ''-c:a'', ''pcm_s16le'', out]"

definition apply_two_pass_loudnorm ::
  "audio_tool \<Rightarrow> audio_file \<Rightarrow> string \<Rightarrow> loudness_target \<Rightarrow> pcm_format \<Rightarrow> thrown + bytes" where
  "apply_two_pass_loudnorm tool file out g pcm =
     bindE (measure_loudnorm_pass tool file g) (\<lambda>m.
     ffmpeg_write tool ([''-y'', ''-hide_banner'', ''-i'', fst file, ''-af'',
       loudnorm_filter g @ '':measured_I='' @ lm_i m @ '':measured_TP='' @ lm_tp m @ '':measured_LRA='' @ lm_lra m
         @ '':measured_thresh='' @ lm_thresh m @ '':offset='' @ lm_offset m @ '':linear=true:print_format=summary,''
         @ ''alimiter=limit='' @ at_limit tool (lt_peak g) @ '':level=disabled''] @ wav_output pcm out) [file])"

definition apply_single_pass_loudnorm ::
  "audio_tool \<Rightarrow> audio_file \<Rightarrow> string \<Rightarrow> loudness_target \<Rightarrow> pcm_format \<Rightarrow> thrown + bytes" where
  "apply_single_pass_loudnorm tool file out g pcm = ffmpeg_write tool
     ([''-y'', ''-hide_banner'', ''-i'', fst file, ''-af'', loudnorm_filter g @ '':print_format=summary''] @ wav_output pcm out) [file]"

record ebur128 =
  eb_lufs :: rat
  eb_peak :: rat

definition measure_ebur128 :: "audio_tool \<Rightarrow> audio_file \<Rightarrow> thrown + ebur128" where
  "measure_ebur128 tool file =
     bindE (run_ffmpeg tool (null_output (fst file) ''ebur128=peak=true:framelog=quiet'') [file]) (\<lambda>r.
     bindE (last_number_after (xr_stderr r) ''I:'' ''LUFS'') (\<lambda>i.
     bindE (last_number_after (xr_stderr r) ''Peak:'' ''dBFS'') (\<lambda>p.
     case (i, p) of
       (Some lufs, Some peak) \<Rightarrow> Inr \<lparr> eb_lufs = lufs, eb_peak = peak \<rparr>
     | _ \<Rightarrow> Inl (OtherErr (''Could not parse ebur128 summary from ffmpeg output:'' @ line_end @ tail_of 2000 (xr_stderr r))))))"

record clipping_report =
  cl_clipped :: rat
  cl_peak :: "rat option"

definition measure_clipping :: "audio_tool \<Rightarrow> audio_file \<Rightarrow> thrown + clipping_report" where
  "measure_clipping tool file =
     bindE (run_ffmpeg tool (null_output (fst file) ''astats=metadata=0'') [file]) (\<lambda>r.
     bindE (last_number_after (xr_stderr r) ''Number of clipped samples:'' []) (\<lambda>c.
     bindE (last_number_after (xr_stderr r) ''Peak level dB:'' []) (\<lambda>p.
     Inr \<lparr> cl_clipped = (case c of Some n \<Rightarrow> n | None \<Rightarrow> 0), cl_peak = p \<rparr>)))"

definition measure_overall_rms_db :: "audio_tool \<Rightarrow> audio_file \<Rightarrow> thrown + rat" where
  "measure_overall_rms_db tool file =
     bindE (run_ffmpeg tool (null_output (fst file) ''astats=metadata=0'') [file]) (\<lambda>r.
     bindE (last_number_after (xr_stderr r) ''RMS level dB:'' []) (\<lambda>x.
     case x of Some v \<Rightarrow> Inr v
     | None \<Rightarrow> Inl (OtherErr (''Could not parse RMS level from ffmpeg astats output:'' @ line_end @ tail_of 2000 (xr_stderr r)))))"

subsection \<open>Silence, trimming and concatenation\<close>

record silence_interval =
  si_start :: rat
  si_end :: "rat option"

definition pair_silences :: "rat list \<Rightarrow> rat list \<Rightarrow> silence_interval list" where
  "pair_silences starts ends = map (\<lambda>(i, s). \<lparr> si_start = s, si_end = (if i < length ends then Some (ends ! i) else None) \<rparr>)
     (enumerate 0 starts)"

definition detect_silence :: "audio_tool \<Rightarrow> audio_file \<Rightarrow> silence_policy \<Rightarrow> thrown + silence_interval list" where
  "detect_silence tool file p =
     bindE (run_ffmpeg tool (null_output (fst file)
       (''silencedetect=noise='' @ show_int (sp_threshold_db p) @ ''dB:d='' @ at_num tool (sp_min_duration p))) [file]) (\<lambda>r.
     bindE (read_numbers (numbers_after ''silence_start:'' [] (xr_stderr r))) (\<lambda>starts.
     bindE (read_numbers (numbers_after ''silence_end:'' [] (xr_stderr r))) (\<lambda>ends.
     Inr (pair_silences starts ends))))"

text \<open>\<open>(ms / 1000).toFixed(3)\<close>\<close>

definition seconds_fixed3 :: "nat \<Rightarrow> string" where
  "seconds_fixed3 ms = show_nat (ms div 1000) @ ''.'' @ [digit_char (ms div 100 mod 10), digit_char (ms div 10 mod 10), digit_char (ms mod 10)]"

definition generate_silence_file :: "audio_tool \<Rightarrow> string \<Rightarrow> nat \<Rightarrow> pcm_format \<Rightarrow> thrown + bytes" where
  "generate_silence_file tool out ms pcm = ffmpeg_write tool
     [''-y'', ''-hide_banner'', ''-f'', ''lavfi'', ''-i'',
      ''anullsrc=r='' @ show_nat (fst pcm) @ '':cl='' @ (if snd pcm = 1 then ''mono'' else ''stereo''),
      ''-t'', seconds_fixed3 ms, ''-c:a'', ''pcm_s16le'', out] []"

definition trim_filter :: "audio_tool \<Rightarrow> rat option \<Rightarrow> rat option \<Rightarrow> string list" where
  "trim_filter tool start stop = (if start = None \<and> stop = None then [] else
     [''-af'', join_with '',''
       [''atrim='' @ join_with '':'' ((case start of Some x \<Rightarrow> [''start='' @ at_num tool x] | None \<Rightarrow> [])
          @ (case stop of Some x \<Rightarrow> [''end='' @ at_num tool x] | None \<Rightarrow> [])), ''asetpts=PTS-STARTPTS'']])"

definition trim_and_convert ::
  "audio_tool \<Rightarrow> audio_file \<Rightarrow> string \<Rightarrow> rat option \<Rightarrow> rat option \<Rightarrow> pcm_format \<Rightarrow> thrown + bytes" where
  "trim_and_convert tool file out start stop pcm = ffmpeg_write tool
     ([''-y'', ''-hide_banner'', ''-i'', fst file] @ trim_filter tool start stop @ wav_output pcm out) [file]"

definition quote_char :: char where
  "quote_char = char_of (39::nat)"

definition backslash :: char where
  "backslash = char_of (92::nat)"

definition quote_path :: "string \<Rightarrow> string" where
  "quote_path f = concat (map (\<lambda>c. if c = quote_char then [quote_char, backslash, quote_char, quote_char] else [c]) f)"

definition write_concat_file_list :: "string list \<Rightarrow> string" where
  "write_concat_file_list files =
     join_with line_end (map (\<lambda>f. ''file '' @ [quote_char] @ quote_path f @ [quote_char]) files) @ line_end"

definition concat_demux_copy :: "audio_tool \<Rightarrow> string \<Rightarrow> audio_file list \<Rightarrow> string \<Rightarrow> thrown + bytes" where
  "concat_demux_copy tool list_path pieces out = ffmpeg_write tool
     [''-y'', ''-hide_banner'', ''-f'', ''concat'', ''-safe'', ''0'', ''-i'', list_path, ''-c'', ''copy'', out]
     ((list_path, utf8_encode (write_concat_file_list (map fst pieces))) # pieces)"

definition apply_gain_and_convert :: "audio_tool \<Rightarrow> audio_file \<Rightarrow> string \<Rightarrow> rat \<Rightarrow> pcm_format \<Rightarrow> thrown + bytes" where
  "apply_gain_and_convert tool file out gain pcm = ffmpeg_write tool
     ([''-y'', ''-hide_banner'', ''-i'', fst file, ''-af'', if gain = 0 then ''anull'' else ''volume='' @ at_num tool gain @ ''dB'']
       @ wav_output pcm out) [file]"

subsection \<open>Chapter metadata and encoding\<close>

definition special_char :: "char \<Rightarrow> bool" where
  "special_char c \<longleftrightarrow> c = CHR ''='' \<or> c = CHR '';'' \<or> c = CHR ''#'' \<or> c = backslash \<or> c = char_of (10::nat)"

definition escape_ffmetadata_value :: "string \<Rightarrow> string" where
  "escape_ffmetadata_value v = concat (map (\<lambda>c. if special_char c then [backslash, c] else [c]) v)"

record ffmetadata_chapter =
  fc_title :: "string option"
  fc_start_ms :: int
  fc_end_ms :: int

definition tag_lines :: "(string \<times> string) list \<Rightarrow> string list" where
  "tag_lines tags = concat (map (\<lambda>(k, v). if v = [] then [] else [k @ ''='' @ escape_ffmetadata_value v]) tags)"

definition chapter_lines :: "ffmetadata_chapter \<Rightarrow> string list" where
  "chapter_lines c = [''[CHAPTER]'', ''TIMEBASE=1/1000'', ''START='' @ show_int (fc_start_ms c), ''END='' @ show_int (fc_end_ms c)]
     @ (if truthy (fc_title c) then [''title='' @ escape_ffmetadata_value (the (fc_title c))] else [])"

definition build_ffmetadata_chapters :: "(string \<times> string) list \<Rightarrow> ffmetadata_chapter list \<Rightarrow> string" where
  "build_ffmetadata_chapters tags chapters =
     join_with line_end (['';FFMETADATA1''] @ tag_lines tags @ concat (map chapter_lines chapters)) @ line_end"

record encode_aac_options =
  aac_bitrate :: nat
  aac_sample_rate :: nat
  aac_channels :: nat
  aac_metadata_args :: "string list"
  aac_ffmetadata :: "audio_file option"
  aac_cover :: "audio_file option"

definition encode_aac_args :: "audio_file \<Rightarrow> string \<Rightarrow> encode_aac_options \<Rightarrow> string list" where
  "encode_aac_args file out opts =
     (let cover_index = (if aac_ffmetadata opts = None then 1 else 2)
      in [''-y'', ''-hide_banner'', ''-i'', fst file]
        @ (case aac_ffmetadata opts of Some f \<Rightarrow> [''-i'', fst f] | None \<Rightarrow> [])
        @ (case aac_cover opts of Some f \<Rightarrow> [''-i'', fst f] | None \<Rightarrow> [])
        @ (if aac_ffmetadata opts = None then [] else [''-map_metadata'', ''1'', ''-map_chapters'', ''1''])
        @ [''-map'', ''0:a'']
        @ (if aac_cover opts = None then []
           else [''-map'', show_nat cover_index @ '':v'', ''-disposition:v:0'', ''attached_pic'', ''-c:v'', ''copy''])
        @ [''-c:a'', ''aac'', ''-b:a'', show_nat (aac_bitrate opts) @ ''k'', ''-ar'', show_nat (aac_sample_rate opts),
           ''-ac'', show_nat (aac_channels opts)]
        @ aac_metadata_args opts @ [''-movflags'', ''+faststart'', out])"

definition encode_aac :: "audio_tool \<Rightarrow> audio_file \<Rightarrow> string \<Rightarrow> encode_aac_options \<Rightarrow> thrown + bytes" where
  "encode_aac tool file out opts = ffmpeg_write tool (encode_aac_args file out opts)
     ([file] @ (case aac_ffmetadata opts of Some f \<Rightarrow> [f] | None \<Rightarrow> []) @ (case aac_cover opts of Some f \<Rightarrow> [f] | None \<Rightarrow> []))"

definition encode_mp3 :: "audio_tool \<Rightarrow> audio_file \<Rightarrow> string \<Rightarrow> nat \<Rightarrow> nat \<Rightarrow> string list \<Rightarrow> thrown + bytes" where
  "encode_mp3 tool file out bitrate rate metadata_args = ffmpeg_write tool
     ([''-y'', ''-hide_banner'', ''-i'', fst file, ''-c:a'', ''libmp3lame'', ''-b:a'', show_nat bitrate @ ''k'',
       ''-ar'', show_nat rate, ''-ac'', ''1''] @ metadata_args @ [out]) [file]"

end
