(* ===== verification/Images.thy ===== *)
theory Images
  imports Storage
begin

text \<open>
  \<open>apps/api/src/assembly/image-dimensions.ts\<close> and \<open>strip-exif.ts\<close>: the size of a cover image
  read from its header, and the removal of its metadata by cutting whole segments.  A buffer is a list
  of byte values; a read is made only where the code has checked the length, so no read is out of
  range.  A loop over an offset is a function on it, and the pieces a loop pushes are concatenated.
\<close>

definition PNG_SIGNATURE :: bytes where
  "PNG_SIGNATURE = [137, 80, 78, 71, 13, 10, 26, 10]"

definition read_u16 :: "bytes \<Rightarrow> nat \<Rightarrow> nat" where
  "read_u16 b i = 256 * b ! i + b ! (i + 1)"

definition read_u32 :: "bytes \<Rightarrow> nat \<Rightarrow> nat" where
  "read_u32 b i = 65536 * read_u16 b i + read_u16 b (i + 2)"

definition subarray :: "bytes \<Rightarrow> nat \<Rightarrow> nat \<Rightarrow> bytes" where
  "subarray b i j = take (j - i) (drop i b)"

text \<open>\<open>toString('ascii', i, j)\<close> clears the high bit of each byte.\<close>

definition ascii :: "bytes \<Rightarrow> nat \<Rightarrow> nat \<Rightarrow> string" where
  "ascii b i j = map (\<lambda>n. char_of (n mod 128)) (subarray b i j)"

subsection \<open>Dimensions\<close>

record image_dimensions =
  im_width :: nat
  im_height :: nat

definition read_png_dimensions :: "bytes \<Rightarrow> image_dimensions option" where
  "read_png_dimensions b =
     (if length b < 24 \<or> subarray b 0 8 \<noteq> PNG_SIGNATURE then None
      else if ascii b 12 16 \<noteq> ''IHDR'' then None
      else Some \<lparr> im_width = read_u32 b 16, im_height = read_u32 b 20 \<rparr>)"

definition is_sof :: "nat \<Rightarrow> bool" where
  "is_sof marker \<longleftrightarrow> 192 \<le> marker \<and> marker \<le> 207 \<and> marker \<noteq> 196 \<and> marker \<noteq> 200 \<and> marker \<noteq> 204"

definition restart_marker :: "nat \<Rightarrow> bool" where
  "restart_marker marker \<longleftrightarrow> 208 \<le> marker \<and> marker \<le> 215"

text \<open>The loop of the reader; the second length check of the code repeats that of its condition.\<close>

function jpeg_dimensions_from :: "bytes \<Rightarrow> nat \<Rightarrow> image_dimensions option" where
  "jpeg_dimensions_from b k =
     (if length b < k + 4 then None
      else if b ! k \<noteq> 255 then jpeg_dimensions_from b (k + 1)
      else let marker = b ! (k + 1) in
        if marker = 216 \<or> marker = 217 \<or> restart_marker marker then jpeg_dimensions_from b (k + 2)
        else if is_sof marker
        then if length b < k + 9 then None
             else Some \<lparr> im_width = read_u16 b (k + 7), im_height = read_u16 b (k + 5) \<rparr>
        else if marker = 218 then None
        else jpeg_dimensions_from b (k + 2 + read_u16 b (k + 2)))"
  by pat_completeness auto
termination
  by (relation "measure (\<lambda>(b, k). length b - k)") auto

declare jpeg_dimensions_from.simps [simp del]

definition read_jpeg_dimensions :: "bytes \<Rightarrow> image_dimensions option" where
  "read_jpeg_dimensions b =
     (if length b < 4 \<or> read_u16 b 0 \<noteq> 65496 then None else jpeg_dimensions_from b 2)"

definition read_image_dimensions :: "bytes \<Rightarrow> string \<Rightarrow> image_dimensions option" where
  "read_image_dimensions b mime =
     (if mime = ''image/png'' then read_png_dimensions b
      else if mime = ''image/jpeg'' then read_jpeg_dimensions b else None)"

subsection \<open>Metadata\<close>

definition PNG_METADATA_CHUNK_TYPES :: "string list" where
  "PNG_METADATA_CHUNK_TYPES = [''eXIf'', ''tEXt'', ''zTXt'', ''iTXt'', ''tIME'']"

function strip_jpeg_from :: "bytes \<Rightarrow> nat \<Rightarrow> bytes" where
  "strip_jpeg_from b k =
     (if length b < k + 4 then []
      else if b ! k \<noteq> 255 then drop k b
      else let marker = b ! (k + 1) in
        if marker = 217 then drop k b
        else if marker = 216 \<or> restart_marker marker then subarray b k (k + 2) @ strip_jpeg_from b (k + 2)
        else let stop = k + 2 + read_u16 b (k + 2) in
          if marker = 218 then drop k b
          else if marker = 225 then strip_jpeg_from b stop
          else subarray b k stop @ strip_jpeg_from b stop)"
  by pat_completeness auto
termination
  by (relation "measure (\<lambda>(b, k). length b - k)") auto

declare strip_jpeg_from.simps [simp del]

definition strip_jpeg_exif :: "bytes \<Rightarrow> bytes" where
  "strip_jpeg_exif b =
     (if length b < 4 \<or> read_u16 b 0 \<noteq> 65496 then b else subarray b 0 2 @ strip_jpeg_from b 2)"

function strip_png_from :: "bytes \<Rightarrow> nat \<Rightarrow> bytes" where
  "strip_png_from b k =
     (if length b < k + 8 then []
      else let stop = k + 12 + read_u32 b k in
        if length b < stop then drop k b
        else (if ascii b (k + 4) (k + 8) \<in> set PNG_METADATA_CHUNK_TYPES then [] else subarray b k stop)
          @ strip_png_from b stop)"
  by pat_completeness auto
termination
  by (relation "measure (\<lambda>(b, k). length b - k)") auto

declare strip_png_from.simps [simp del]

definition strip_png_metadata :: "bytes \<Rightarrow> bytes" where
  "strip_png_metadata b =
     (if length b < 8 \<or> subarray b 0 8 \<noteq> PNG_SIGNATURE then b else subarray b 0 8 @ strip_png_from b 8)"

definition strip_exif :: "bytes \<Rightarrow> string \<Rightarrow> bytes" where
  "strip_exif b mime =
     (if mime = ''image/jpeg'' then strip_jpeg_exif b
      else if mime = ''image/png'' then strip_png_metadata b else b)"

subsection \<open>Reads behind a prefix\<close>

lemma subarray_behind [simp]: "subarray (p @ b) (length p + i) (length p + j) = subarray b i j"
  by (simp add: subarray_def)

lemma read_u16_behind [simp]: "read_u16 (p @ b) (length p + i) = read_u16 b i"
  by (simp add: read_u16_def nth_append)

lemma read_u32_behind [simp]: "read_u32 (p @ b) (length p + i) = read_u32 b i"
  using read_u16_behind [of p b i] read_u16_behind [of p b "i + 2"] by (simp add: read_u32_def)

lemma ascii_behind [simp]: "ascii (p @ b) (length p + i) (length p + j) = ascii b i j"
  by (simp add: ascii_def)

lemma jpeg_dimensions_behind: "jpeg_dimensions_from (p @ b) (length p + k) = jpeg_dimensions_from b k"
proof (induction b k rule: jpeg_dimensions_from.induct)
  case (1 b k)
  have at: "(p @ b) ! (length p + i) = b ! i" for i by simp
  have step: "length p + k + i = length p + (k + i)" for i by simp
  show ?case
    apply (subst (1 2) jpeg_dimensions_from.simps)
    unfolding step at read_u16_behind length_append
    using "1.IH" by (auto simp: Let_def add.assoc)
qed

lemma strip_jpeg_behind: "strip_jpeg_from (p @ b) (length p + k) = strip_jpeg_from b k"
proof (induction b k rule: strip_jpeg_from.induct)
  case (1 b k)
  have at: "(p @ b) ! (length p + i) = b ! i" for i by simp
  have step: "length p + k + i = length p + (k + i)" for i by simp
  show ?case
    apply (subst (1 2) strip_jpeg_from.simps)
    unfolding step at read_u16_behind length_append
    using "1.IH" by (auto simp: Let_def add.assoc subarray_def)
qed

lemma strip_png_behind: "strip_png_from (p @ b) (length p + k) = strip_png_from b k"
proof (induction b k rule: strip_png_from.induct)
  case (1 b k)
  have step: "length p + k + i = length p + (k + i)" for i by simp
  show ?case
    apply (subst (1 2) strip_png_from.simps)
    unfolding step read_u32_behind ascii_behind length_append
    using "1.IH" by (auto simp: Let_def add.assoc subarray_def)
qed

subsection \<open>Well-formed images\<close>

text \<open>Big-endian numbers, and a JPEG as its segments before the start of scan.\<close>

definition be16 :: "nat \<Rightarrow> bytes" where
  "be16 n = [n div 256, n mod 256]"

definition be32 :: "nat \<Rightarrow> bytes" where
  "be32 n = be16 (n div 65536) @ be16 (n mod 65536)"

definition segment :: "nat \<times> bytes \<Rightarrow> bytes" where
  "segment s = [255, fst s] @ be16 (length (snd s) + 2) @ snd s"

definition segment_ok :: "nat \<times> bytes \<Rightarrow> bool" where
  "segment_ok s \<longleftrightarrow> fst s \<notin> {216, 217, 218} \<and> \<not> restart_marker (fst s) \<and> length (snd s) < 65534"

definition jpeg :: "(nat \<times> bytes) list \<Rightarrow> bytes \<Rightarrow> bytes" where
  "jpeg segs scan = [255, 216] @ concat (map segment segs) @ [255, 218] @ scan"

text \<open>A PNG as its chunks: type, data and checksum.\<close>

definition chunk :: "bytes \<times> bytes \<times> bytes \<Rightarrow> bytes" where
  "chunk c = (case c of (ty, data, crc) \<Rightarrow> be32 (length data) @ ty @ data @ crc)"

definition chunk_ok :: "bytes \<times> bytes \<times> bytes \<Rightarrow> bool" where
  "chunk_ok c = (case c of (ty, data, crc) \<Rightarrow> length ty = 4 \<and> length crc = 4 \<and> length data < 2 ^ 32)"

definition chunk_type :: "bytes \<times> bytes \<times> bytes \<Rightarrow> string" where
  "chunk_type c = ascii (fst c) 0 4"

definition png :: "(bytes \<times> bytes \<times> bytes) list \<Rightarrow> bytes" where
  "png cs = PNG_SIGNATURE @ concat (map chunk cs)"

lemma read_be16 [simp]: "read_u16 (be16 n @ b) 0 = n"
  by (simp add: read_u16_def be16_def)

lemma length_be [simp]: "length (be16 n) = 2" "length (be32 n) = 4"
  by (simp_all add: be16_def be32_def)

lemma read_be32 [simp]: "read_u32 (be32 n @ b) 0 = n"
  by (simp add: read_u32_def be32_def be16_def read_u16_def)

lemma length_segment [simp]: "length (segment s) = length (snd s) + 4"
  by (simp add: segment_def)

lemma segment_append: "segment s @ b = [255, fst s] @ be16 (length (snd s) + 2) @ snd s @ b"
  by (simp add: segment_def)

lemma segment_head: "(segment s @ b) ! 0 = 255" "(segment s @ b) ! Suc 0 = fst s"
  "read_u16 (segment s @ b) 2 = length (snd s) + 2"
  using read_u16_behind [of "[255, fst s]" "be16 (length (snd s) + 2) @ snd s @ b" 0]
  by (simp_all add: segment_append numeral_2_eq_2)

lemma subarray_whole: "subarray (p @ b) 0 (length p) = p"
  by (simp add: subarray_def)

lemma strip_jpeg_segment:
  assumes "segment_ok s"
  shows "strip_jpeg_from (segment s @ b) 0 = (if fst s = 225 then [] else segment s) @ strip_jpeg_from b 0"
proof -
  have next': "strip_jpeg_from (segment s @ b) (length (segment s)) = strip_jpeg_from b 0"
    using strip_jpeg_behind [of "segment s" b 0] by simp
  have stop: "0 + 2 + read_u16 (segment s @ b) (0 + 2) = length (segment s)"
    using segment_head(3) [of s b] by (simp only: add_0 length_segment)
  have "subarray (segment s @ b) 0 (length (segment s)) = segment s"
    by (rule subarray_whole)
  then show ?thesis
    using assms next' unfolding strip_jpeg_from.simps [of "segment s @ b" 0] stop
    by (auto simp: segment_head segment_ok_def Let_def simp flip: numeral_2_eq_2)
qed

lemma scan_head: "([255, 218] @ scan) ! 0 = (255::nat)" "([255, 218] @ scan) ! 1 = (218::nat)"
  by simp_all

lemma strip_jpeg_scan:
  assumes "2 \<le> length scan"
  shows "strip_jpeg_from ([255, 218] @ scan) 0 = [255, 218] @ scan"
  using assms by (subst strip_jpeg_from.simps) (simp add: Let_def restart_marker_def)

lemma strip_jpeg_segments:
  assumes "list_all segment_ok segs" and "2 \<le> length scan"
  shows "strip_jpeg_from (concat (map segment segs) @ [255, 218] @ scan) 0
    = concat (map segment (filter (\<lambda>s. fst s \<noteq> 225) segs)) @ [255, 218] @ scan"
  using assms(1)
proof (induction segs)
  case Nil
  then show ?case using strip_jpeg_scan [OF assms(2)] by simp
next
  case (Cons s segs)
  then show ?case using strip_jpeg_segment [of s "concat (map segment segs) @ [255, 218] @ scan"] by simp
qed

lemma jpeg_head: "read_u16 (jpeg segs scan) 0 = 65496" "4 \<le> length (jpeg segs scan)"
  by (simp_all add: jpeg_def read_u16_def)

lemma behind_soi: "strip_jpeg_from ([255, 216] @ b) 2 = strip_jpeg_from b 0"
  "jpeg_dimensions_from ([255, 216] @ b) 2 = jpeg_dimensions_from b 0"
  using strip_jpeg_behind [of "[255, 216]" b 0] jpeg_dimensions_behind [of "[255, 216]" b 0]
  by (simp_all add: numeral_2_eq_2)

lemma strip_jpeg_exif_segments:
  assumes "list_all segment_ok segs" and "2 \<le> length scan"
  shows "strip_jpeg_exif (jpeg segs scan) = jpeg (filter (\<lambda>s. fst s \<noteq> 225) segs) scan"
proof -
  have "subarray (jpeg segs scan) 0 2 = [255, 216]"
    by (simp add: jpeg_def subarray_def)
  moreover have "strip_jpeg_from (jpeg segs scan) 2
      = concat (map segment (filter (\<lambda>s. fst s \<noteq> 225) segs)) @ [255, 218] @ scan"
    using strip_jpeg_segments [OF assms] unfolding jpeg_def behind_soi .
  ultimately show ?thesis
    using jpeg_head [of segs scan] by (simp add: strip_jpeg_exif_def jpeg_def)
qed

text \<open>The frame is read from the first segment that carries one.\<close>

definition frame_ok :: "nat \<times> bytes \<Rightarrow> bool" where
  "frame_ok s \<longleftrightarrow> segment_ok s \<and> (is_sof (fst s) \<longrightarrow> 5 \<le> length (snd s))"

definition frame_of :: "bytes \<Rightarrow> image_dimensions" where
  "frame_of payload = \<lparr> im_width = read_u16 payload 3, im_height = read_u16 payload 1 \<rparr>"

lemma jpeg_dimensions_segment:
  assumes "frame_ok s"
  shows "jpeg_dimensions_from (segment s @ b) 0
    = (if is_sof (fst s) then Some (frame_of (snd s)) else jpeg_dimensions_from b 0)"
proof -
  have next': "jpeg_dimensions_from (segment s @ b) (length (segment s)) = jpeg_dimensions_from b 0"
    using jpeg_dimensions_behind [of "segment s" b 0] by simp
  have stop: "0 + 2 + read_u16 (segment s @ b) (0 + 2) = length (segment s)"
    using segment_head(3) [of s b] by (simp only: add_0 length_segment)
  have payload: "read_u16 (segment s @ b) (4 + i) = read_u16 (snd s) i" if "i + 1 < length (snd s)" for i
    using that read_u16_behind [of "[255, fst s] @ be16 (length (snd s) + 2)" "snd s @ b" i]
    by (simp add: segment_append read_u16_def nth_append)
  show ?thesis
    using assms next' payload [of 1] payload [of 3]
    unfolding jpeg_dimensions_from.simps [of "segment s @ b" 0] stop
    by (auto simp: segment_head segment_ok_def frame_ok_def frame_of_def Let_def simp flip: numeral_2_eq_2)
qed

lemma jpeg_dimensions_segments:
  assumes "list_all frame_ok segs"
  shows "jpeg_dimensions_from (concat (map segment segs) @ b) 0
    = (case filter (\<lambda>s. is_sof (fst s)) segs of s # _ \<Rightarrow> Some (frame_of (snd s)) | [] \<Rightarrow> jpeg_dimensions_from b 0)"
  using assms
proof (induction segs)
  case (Cons s segs)
  then show ?case using jpeg_dimensions_segment [of s "concat (map segment segs) @ b"] by simp
qed simp

lemma sof_not_app1: "is_sof (fst s) \<Longrightarrow> fst s \<noteq> 225"
  by (auto simp: is_sof_def)

lemma strip_jpeg_keeps_frame:
  assumes "list_all frame_ok segs" and "2 \<le> length scan"
  shows "read_jpeg_dimensions (strip_jpeg_exif (jpeg segs scan)) = read_jpeg_dimensions (jpeg segs scan)"
proof -
  have ok: "list_all segment_ok segs" "list_all frame_ok (filter (\<lambda>s. fst s \<noteq> 225) segs)"
    using assms(1) by (auto simp: list_all_iff frame_ok_def)
  have read: "read_jpeg_dimensions (jpeg ss scan) = jpeg_dimensions_from (concat (map segment ss) @ [255, 218] @ scan) 0" for ss
  proof -
    have "jpeg_dimensions_from (jpeg ss scan) 2 = jpeg_dimensions_from (concat (map segment ss) @ [255, 218] @ scan) 0"
      unfolding jpeg_def behind_soi ..
    then show ?thesis using jpeg_head [of ss scan] by (simp add: read_jpeg_dimensions_def)
  qed
  have "filter (\<lambda>s. is_sof (fst s)) (filter (\<lambda>s. fst s \<noteq> 225) segs) = filter (\<lambda>s. is_sof (fst s)) segs"
    by (auto simp: filter_filter intro!: filter_cong dest: sof_not_app1)
  then show ?thesis
    unfolding strip_jpeg_exif_segments [OF ok(1) assms(2)] read
      jpeg_dimensions_segments [OF assms(1)] jpeg_dimensions_segments [OF ok(2)] by simp
qed

lemma chunk_append: "chunk (ty, data, crc) @ b = be32 (length data) @ ty @ data @ crc @ b"
  by (simp add: chunk_def)

lemma length_chunk: "chunk_ok c \<Longrightarrow> length (chunk c) = 12 + length (fst (snd c))"
  by (auto simp: chunk_def chunk_ok_def)

lemma strip_png_chunk:
  assumes "chunk_ok c"
  shows "strip_png_from (chunk c @ b) 0
    = (if chunk_type c \<in> set PNG_METADATA_CHUNK_TYPES then [] else chunk c) @ strip_png_from b 0"
proof -
  obtain ty data crc where c: "c = (ty, data, crc)" by (cases c)
  have next': "strip_png_from (chunk c @ b) (length (chunk c)) = strip_png_from b 0"
    using strip_png_behind [of "chunk c" b 0] by simp
  have stop: "0 + 12 + read_u32 (chunk c @ b) 0 = length (chunk c)"
    using length_chunk [OF assms] by (simp add: c chunk_append)
  have "ascii (chunk c @ b) (0 + 4) (0 + 8) = chunk_type c"
    using assms ascii_behind [of "be32 (length data)" "ty @ data @ crc @ b" 0 4]
    by (simp add: c chunk_append chunk_type_def chunk_ok_def ascii_def subarray_def)
  moreover have "subarray (chunk c @ b) 0 (length (chunk c)) = chunk c"
    by (rule subarray_whole)
  ultimately show ?thesis
    using length_chunk [OF assms] next' unfolding strip_png_from.simps [of "chunk c @ b" 0] stop
    by (simp add: Let_def)
qed

lemma strip_png_chunks:
  assumes "list_all chunk_ok cs"
  shows "strip_png_from (concat (map chunk cs)) 0
    = concat (map chunk (filter (\<lambda>c. chunk_type c \<notin> set PNG_METADATA_CHUNK_TYPES) cs))"
  using assms
proof (induction cs)
  case Nil
  then show ?case by (simp add: strip_png_from.simps)
next
  case (Cons c cs)
  then show ?case using strip_png_chunk [of c "concat (map chunk cs)"] by simp
qed

lemma length_signature: "length PNG_SIGNATURE = 8"
  by (simp add: PNG_SIGNATURE_def)

lemma png_head [simp]: "subarray (png cs) 0 8 = PNG_SIGNATURE" "length (png cs) = 8 + length (concat (map chunk cs))"
  by (simp_all add: png_def subarray_def PNG_SIGNATURE_def)

lemma strip_png_metadata_chunks:
  assumes "list_all chunk_ok cs"
  shows "strip_png_metadata (png cs) = png (filter (\<lambda>c. chunk_type c \<notin> set PNG_METADATA_CHUNK_TYPES) cs)"
proof -
  have "strip_png_from (png cs) 8 = strip_png_from (concat (map chunk cs)) 0"
    using strip_png_behind [of PNG_SIGNATURE "concat (map chunk cs)" 0] by (simp add: png_def length_signature)
  then show ?thesis
    using strip_png_chunks [OF assms] by (simp add: strip_png_metadata_def png_def [of "filter _ _"])
qed

text \<open>The header chunk comes first and survives.\<close>

definition ihdr :: "bytes \<Rightarrow> bytes \<Rightarrow> bytes \<times> bytes \<times> bytes" where
  "ihdr data crc = ([73, 72, 68, 82], data, crc)"

lemma ihdr_type: "chunk_type (ihdr data crc) = ''IHDR''"
  by (simp add: chunk_type_def ihdr_def ascii_def subarray_def) code_simp

lemma ihdr_kept: "chunk_type (ihdr data crc) \<notin> set PNG_METADATA_CHUNK_TYPES"
  by (simp add: ihdr_type PNG_METADATA_CHUNK_TYPES_def)

lemma png_dimensions:
  assumes "length data = 13" and "length crc = 4"
  shows "read_png_dimensions (png (ihdr data crc # cs))
    = Some \<lparr> im_width = read_u32 data 0, im_height = read_u32 data 4 \<rparr>"
proof -
  let ?b = "png (ihdr data crc # cs)"
  have b: "?b = (PNG_SIGNATURE @ be32 13) @ [73, 72, 68, 82] @ data @ crc @ concat (map chunk cs)"
    using assms by (simp add: png_def ihdr_def chunk_def)
  have pre: "length (PNG_SIGNATURE @ be32 13) = 12" by (simp add: PNG_SIGNATURE_def)
  have ty: "ascii ?b 12 16 = ''IHDR''"
    using ihdr_type [of data crc] unfolding b
    by (simp add: ascii_def subarray_def PNG_SIGNATURE_def chunk_type_def ihdr_def be32_def be16_def)
  have at: "read_u32 ?b (16 + i) = read_u32 data i" if "i + 3 < length data" for i
    using that read_u32_behind [of "(PNG_SIGNATURE @ be32 13) @ [73, 72, 68, 82]" "data @ crc @ concat (map chunk cs)" i] pre
    unfolding b by (simp add: read_u32_def read_u16_def nth_append)
  show ?thesis
    using ty at [of 0] at [of 4] assms by (simp add: read_png_dimensions_def) (simp add: ihdr_def chunk_def)
qed

end
