(* ===== verification/AssemblyStore.thy ===== *)
theory AssemblyStore
  imports Ffmpeg Images BookUploads
begin

text \<open>
  The tables of the audio side of a book: script chunks with the audio rendered for them, chapter
  audio with its members, audiobooks with their chapters, renditions and covers, and the constraints
  that \<open>prisma/migrations/0001_init/migration.sql\<close> puts on them.  Rows hold the columns that
  the assembly service and the three assembly processors read or write; the two measured rates of an
  audiobook, which nothing sets yet, are kept as the JSON value they are reported as.
\<close>

subsection \<open>Rows\<close>

record script_chunk =
  sc_id :: string
  sc_book_id :: string
  sc_chapter_id :: string
  sc_sequence :: nat
  sc_chapter_sequence :: nat
  sc_current :: bool
  sc_director_version :: string
  sc_story_bible :: string
  sc_character :: "string option"
  sc_profile_version :: "string option"
  sc_pauses :: "json option"
  sc_audio :: "string option"

datatype audio_status =
    AcPending | AcGenerating | AcGenerated | AcValidated | AcAssembled | AcFailed | AcInvalid | AcSuperseded

record audio_chunk =
  ac_id :: string
  ac_chapter_id :: string
  ac_current :: bool
  ac_status :: audio_status
  ac_tts_model :: string
  ac_storage_key :: string
  ac_content_hash :: string

datatype chapter_audio_status = CaPending | CaAssembling | CaAssembled | CaInvalid | CaSuperseded

fun show_chapter_audio_status :: "chapter_audio_status \<Rightarrow> string" where
  "show_chapter_audio_status CaPending = ''PENDING''"
| "show_chapter_audio_status CaAssembling = ''ASSEMBLING''"
| "show_chapter_audio_status CaAssembled = ''ASSEMBLED''"
| "show_chapter_audio_status CaInvalid = ''INVALID''"
| "show_chapter_audio_status CaSuperseded = ''SUPERSEDED''"

record chapter_validation =
  va_duration_ms :: int
  va_clipped :: rat
  va_peak :: "rat option"
  va_noise_floor :: "rat option"
  va_noise_flag :: bool

record stored_object =
  so_key :: string
  so_bucket :: string
  so_hash :: string
  so_size :: nat
  so_verified_at :: "int option"

record chapter_audio =
  ca_id :: string
  ca_tenant_id :: string
  ca_book_id :: string
  ca_chapter_id :: string
  ca_version :: nat
  ca_supersedes :: "string option"
  ca_current :: bool
  ca_superseded_at :: "int option"
  ca_preview :: bool
  ca_status :: chapter_audio_status
  ca_duration_ms :: int
  ca_chunk_count :: nat
  ca_manifest_hash :: string
  ca_format :: string
  ca_lufs :: "rat option"
  ca_peak :: "rat option"
  ca_validation :: "chapter_validation option"
  ca_voice_verified :: bool
  ca_voices :: "(string \<times> string list) list"
  ca_director_version :: string
  ca_pipeline_version :: string
  ca_tool_model :: string
  ca_assembly_version :: string
  ca_job_id :: "string option"
  ca_object :: stored_object
  ca_created :: int

record audio_member =
  cm_chapter_audio_id :: string
  cm_order :: nat
  cm_audio_chunk_id :: string
  cm_book_id :: string
  cm_start_ms :: int
  cm_duration_ms :: int
  cm_lead_trimmed_ms :: int
  cm_pause_ms :: int

datatype audiobook_status = AbDraft | AbAssembling | AbReady | AbFailed | AbSuperseded

fun show_audiobook_status :: "audiobook_status \<Rightarrow> string" where
  "show_audiobook_status AbDraft = ''DRAFT_METADATA''"
| "show_audiobook_status AbAssembling = ''ASSEMBLING''"
| "show_audiobook_status AbReady = ''READY''"
| "show_audiobook_status AbFailed = ''FAILED''"
| "show_audiobook_status AbSuperseded = ''SUPERSEDED''"

record audiobook =
  ab_id :: string
  ab_tenant_id :: string
  ab_book_id :: string
  ab_book_version :: string
  ab_version :: nat
  ab_supersedes :: "string option"
  ab_current :: bool
  ab_superseded_at :: "int option"
  ab_preview :: bool
  ab_status :: audiobook_status
  ab_container :: string
  ab_duration_ms :: int
  ab_chapter_count :: nat
  ab_info :: book_info
  ab_narrator :: "string option"
  ab_disclosed :: bool
  ab_cover :: "string option"
  ab_wer :: json
  ab_chunks_flagged :: nat
  ab_asr_coverage :: json
  ab_pipeline_version :: string
  ab_director_version :: string
  ab_tts_models :: "string list"
  ab_tool_model :: string
  ab_source_hash :: string
  ab_story_bible :: string
  ab_manifest_hash :: string
  ab_job_id :: "string option"
  ab_object :: stored_object
  ab_created :: int

record audiobook_chapter =
  xc_audiobook_id :: string
  xc_order :: nat
  xc_chapter_id :: string
  xc_chapter_audio_id :: string
  xc_book_id :: string
  xc_title :: "string option"
  xc_start_ms :: int
  xc_duration_ms :: int

datatype rendition_status = RnPending | RnEncoding | RnReady | RnFailed

record rendition =
  rn_id :: string
  rn_tenant_id :: string
  rn_book_id :: string
  rn_audiobook_id :: string
  rn_format :: string
  rn_chapter_id :: "string option"
  rn_bitrate :: nat
  rn_sample_rate :: nat
  rn_channels :: nat
  rn_duration_ms :: int
  rn_tool_model :: string
  rn_encode_params :: "json option"
  rn_status :: rendition_status
  rn_object :: stored_object

record cover =
  co_id :: string
  co_tenant_id :: string
  co_book_id :: string
  co_audiobook_id :: string
  co_dimensions :: image_dimensions
  co_mime :: string
  co_stripped_at :: "int option"
  co_uploaded_by :: string
  co_object :: stored_object
  co_created :: int

subsection \<open>World\<close>

record ('q, 'r, 's) assembly_world = "'s ingest_world" +
  aw_script_chunks :: "script_chunk list"
  aw_audio_chunks :: "audio_chunk list"
  aw_chapter_audios :: "chapter_audio list"
  aw_members :: "audio_member list"
  aw_audiobooks :: "audiobook list"
  aw_book_chapters :: "audiobook_chapter list"
  aw_renditions :: "rendition list"
  aw_covers :: "cover list"
  aw_story_bibles :: "(string \<times> string option) list"
  aw_queue :: 'q
  aw_redis :: 'r

abbreviation aw_jobs where "aw_jobs \<equiv> on_table db_jobs (\<lambda>t. db_jobs_update (\<lambda>_. t))"
abbreviation aw_books where "aw_books \<equiv> on_table iw_books (\<lambda>t. iw_books_update (\<lambda>_. t))"
abbreviation on_chapter_audios where "on_chapter_audios \<equiv> on_table aw_chapter_audios (\<lambda>t. aw_chapter_audios_update (\<lambda>_. t))"
abbreviation on_members where "on_members \<equiv> on_table aw_members (\<lambda>t. aw_members_update (\<lambda>_. t))"
abbreviation on_audiobooks where "on_audiobooks \<equiv> on_table aw_audiobooks (\<lambda>t. aw_audiobooks_update (\<lambda>_. t))"
abbreviation on_book_chapters where "on_book_chapters \<equiv> on_table aw_book_chapters (\<lambda>t. aw_book_chapters_update (\<lambda>_. t))"
abbreviation on_renditions where "on_renditions \<equiv> on_table aw_renditions (\<lambda>t. aw_renditions_update (\<lambda>_. t))"
abbreviation on_covers where "on_covers \<equiv> on_table aw_covers (\<lambda>t. aw_covers_update (\<lambda>_. t))"

definition find_audio_chunk :: "string option \<Rightarrow> audio_chunk list \<Rightarrow> audio_chunk option" where
  "find_audio_chunk i t = (case i of None \<Rightarrow> None | Some k \<Rightarrow> find_row (\<lambda>a. ac_id a = k) t)"

subsection \<open>Constraints\<close>

definition check_failed :: "string \<Rightarrow> thrown" where
  "check_failed c = OtherErr (''violates check constraint '' @ c)"

text \<open>A row that breaks a check is refused before the unique indexes are looked at.\<close>

definition create_checked :: "('r \<Rightarrow> bool) \<Rightarrow> string \<Rightarrow> ('r \<Rightarrow> 'r \<Rightarrow> bool) \<Rightarrow> 'r \<Rightarrow> 'r list \<Rightarrow> thrown + 'r list" where
  "create_checked ok c clash r t = (if ok r then create_row clash r t else Inl (check_failed c))"

definition voice_check :: "chapter_audio \<Rightarrow> bool" where
  "voice_check a \<longleftrightarrow> ca_status a \<noteq> CaAssembled \<or> ca_preview a \<or> ca_voice_verified a"

definition chapter_audio_clash :: "chapter_audio \<Rightarrow> chapter_audio \<Rightarrow> bool" where
  "chapter_audio_clash a b \<longleftrightarrow> ca_id b = ca_id a
     \<or> (ca_chapter_id b = ca_chapter_id a \<and>
         (ca_version b = ca_version a
          \<or> (\<not> ca_preview a \<and> \<not> ca_preview b \<and> ca_manifest_hash b = ca_manifest_hash a)
          \<or> (ca_current a \<and> \<not> ca_preview a \<and> ca_current b \<and> \<not> ca_preview b)))"

definition create_chapter_audio :: "chapter_audio \<Rightarrow> chapter_audio list \<Rightarrow> thrown + chapter_audio list" where
  "create_chapter_audio = create_checked voice_check ''chapter_audio_voice_consistency_chk'' chapter_audio_clash"

definition member_clash :: "audio_member \<Rightarrow> audio_member \<Rightarrow> bool" where
  "member_clash m n \<longleftrightarrow> cm_chapter_audio_id n = cm_chapter_audio_id m
     \<and> (cm_order n = cm_order m \<or> cm_audio_chunk_id n = cm_audio_chunk_id m)"

definition audiobook_check :: "audiobook \<Rightarrow> bool" where
  "audiobook_check a \<longleftrightarrow> ab_disclosed a \<and> (ab_status a = AbReady \<longrightarrow> so_verified_at (ab_object a) \<noteq> None)"

definition audiobook_clash :: "audiobook \<Rightarrow> audiobook \<Rightarrow> bool" where
  "audiobook_clash a b \<longleftrightarrow> ab_id b = ab_id a
     \<or> (ab_book_id b = ab_book_id a \<and>
         (ab_version b = ab_version a \<or> (ab_current a \<and> \<not> ab_preview a \<and> ab_current b \<and> \<not> ab_preview b)))"

definition create_audiobook :: "audiobook \<Rightarrow> audiobook list \<Rightarrow> thrown + audiobook list" where
  "create_audiobook = create_checked audiobook_check ''audiobook_ai_narration_disclosed_chk'' audiobook_clash"

definition book_chapter_clash :: "audiobook_chapter \<Rightarrow> audiobook_chapter \<Rightarrow> bool" where
  "book_chapter_clash c d \<longleftrightarrow> xc_audiobook_id d = xc_audiobook_id c
     \<and> (xc_order d = xc_order c \<or> xc_chapter_id d = xc_chapter_id c)"

definition rendition_check :: "rendition \<Rightarrow> bool" where
  "rendition_check r \<longleftrightarrow> (rn_format r = ''MP3_PER_CHAPTER'') = (rn_chapter_id r \<noteq> None)"

definition rendition_clash :: "rendition \<Rightarrow> rendition \<Rightarrow> bool" where
  "rendition_clash r s \<longleftrightarrow> rn_id s = rn_id r
     \<or> (rn_audiobook_id s = rn_audiobook_id r \<and> rn_format s = rn_format r \<and> rn_chapter_id s = rn_chapter_id r)"

definition create_rendition :: "rendition \<Rightarrow> rendition list \<Rightarrow> thrown + rendition list" where
  "create_rendition = create_checked rendition_check ''audiobook_rendition_mp3_per_chapter_chk'' rendition_clash"

text \<open>\<open>createMany\<close>: all rows or none.\<close>

fun create_many :: "('r \<Rightarrow> 'r \<Rightarrow> bool) \<Rightarrow> 'r list \<Rightarrow> 'r list \<Rightarrow> thrown + 'r list" where
  "create_many clash [] t = Inr t"
| "create_many clash (r # rs) t = bindE (create_row clash r t) (create_many clash rs)"

lemma create_many_Inr: "create_many clash rs t = Inr t' \<Longrightarrow> t' = t @ rs"
proof (induction rs arbitrary: t)
  case (Cons r rs)
  then obtain u where "create_row clash r t = Inr u" "create_many clash rs u = Inr t'"
    by (auto simp: bindE_eq_Inr)
  then show ?case using create_row_Inr [of clash r t u] Cons.IH [of u] by simp
qed simp

text \<open>\<open>max(version)\<close> plus one.\<close>

definition next_number :: "nat list \<Rightarrow> nat" where
  "next_number vs = fold max vs 0 + 1"

lemma next_number_above: "v \<in> set vs \<Longrightarrow> v < next_number vs"
proof -
  have "v \<in> set vs \<Longrightarrow> v \<le> fold max vs a" "a \<le> fold max vs a" for a
    by (induction vs arbitrary: a) (auto, (meson max.cobounded1 max.cobounded2 order_trans)+)
  then show "v \<in> set vs \<Longrightarrow> v < next_number vs" by (auto simp: next_number_def le_imp_less_Suc)
qed

subsection \<open>Manifests\<close>

definition manifest_line :: "string \<Rightarrow> string \<Rightarrow> string" where
  "manifest_line i hash = i @ '':'' @ hash"

definition compute_manifest_hash :: "(bytes \<Rightarrow> string) \<Rightarrow> string list \<Rightarrow> string" where
  "compute_manifest_hash sha parts = sha (utf8_encode (join_with line_end parts))"

subsection \<open>Dispatch\<close>

definition dispatch_audio ::
  "'q broker \<Rightarrow> int \<Rightarrow> enqueue_args \<Rightarrow> ('q, 'r, 's) assembly_world \<Rightarrow> (thrown + unit) \<times> ('q, 'r, 's) assembly_world" where
  "dispatch_audio bq now args w = (case enqueue_processing_job bq now args (db_jobs w, aw_queue w) of
     (r, (jobs, q)) \<Rightarrow> (r, w\<lparr> db_jobs := jobs, aw_queue := q \<rparr>))"

end
