(* ===== verification/AssemblyShared.thy ===== *)
theory AssemblyShared
  imports AssemblyStore
begin

text \<open>
  \<open>apps/worker-cpu/src/processors/assembly-shared.ts\<close> and the steps the three assembly processors
  share: the model version of the audio tool, the readiness query, the requested formats, the marks on
  a job and the record of a failure.  The temporary directory is the path \<open>ad_tmp\<close>; a file in it is
  its path with its bytes, handed from one call to the next, so nothing of it outlives the callback.
\<close>

record ('q, 's) assembly_deps =
  ad_sha256 :: "bytes \<Rightarrow> string"
  ad_broker :: "'q broker"
  ad_get :: "string \<Rightarrow> 's \<Rightarrow> thrown + bytes list"
  ad_put :: "put_input \<Rightarrow> 's \<Rightarrow> (thrown + object_meta) \<times> 's"
  ad_class_of :: "thrown \<Rightarrow> string"
  ad_registry :: "((string \<times> string \<times> string) \<times> string) list"
  ad_model_versions :: "((string \<times> string) \<times> string) list"
  ad_tool :: audio_tool
  ad_tmp :: string

record assembly_env =
  ye_now :: int
  ye_id :: "nat \<Rightarrow> string"
  ye_event :: "nat \<Rightarrow> string \<times> string"
  ye_attempts_made :: nat
  ye_max_attempts :: nat

definition ASSEMBLY_PIPELINE_VERSION :: string where
  "ASSEMBLY_PIPELINE_VERSION = ''assembly.v1''"

definition resolve_audio_tool_model_version_id :: "('q, 's) assembly_deps \<Rightarrow> thrown + string" where
  "resolve_audio_tool_model_version_id dp = bindE (get_ffmpeg_version (ad_tool dp)) (\<lambda>version.
     (case map_of (ad_registry dp) (''AUDIO_TOOL'', ''ffmpeg'', ''ffmpeg'') of
        None \<Rightarrow> Inl (AppErr (DependencyFailureError (msg_only
          ''No ModelRegistry entry for AUDIO_TOOL/ffmpeg/ffmpeg. Run the seed script before assembling.'')))
      | Some registry_id \<Rightarrow>
          (case map_of (ad_model_versions dp) (registry_id, version) of
             None \<Rightarrow> Inl (AppErr (DependencyFailureError (msg_only (''Installed ffmpeg reports version '' @ version
               @ '', but no ModelVersion '' @ version @ '' is registered for AUDIO_TOOL/ffmpeg/ffmpeg. Update infra/scripts/seed.ts's AUDIO_TOOL_MODEL_VERSIONS entry (or the installed ffmpeg) so they match.''))))
           | Some i \<Rightarrow> Inr i)))"

definition error_code_of :: "thrown \<Rightarrow> string \<Rightarrow> string" where
  "error_code_of err fallback = (case err of AppErr e \<Rightarrow> err_code e | CodedErr c m \<Rightarrow> c | _ \<Rightarrow> fallback)"

definition error_class_of :: "('q, 's) assembly_deps \<Rightarrow> thrown \<Rightarrow> string" where
  "error_class_of dp err = (case err of AppErr e \<Rightarrow> err_class e | OtherErr _ \<Rightarrow> ''Error'' | _ \<Rightarrow> ad_class_of dp err)"

definition download_to_file :: "('q, 's) assembly_deps \<Rightarrow> string \<Rightarrow> string \<Rightarrow> 's \<Rightarrow> thrown + audio_file" where
  "download_to_file dp key dest s = bindE (ad_get dp key s) (\<lambda>parts. Inr (dest, concat parts))"

definition tmp_file :: "('q, 's) assembly_deps \<Rightarrow> string \<Rightarrow> string" where
  "tmp_file dp name = ad_tmp dp @ ''/'' @ name"

subsection \<open>Scope and readiness\<close>

record assembly_job_scope =
  js_scope :: "string option"
  js_formats :: "string list"

definition string_items :: "json list \<Rightarrow> string list" where
  "string_items xs = concat (map (\<lambda>x. case x of JStr s \<Rightarrow> [s] | _ \<Rightarrow> []) xs)"

definition read_job_scope :: "json option \<Rightarrow> assembly_job_scope option" where
  "read_job_scope scope = (case scope of
     Some (JObj es) \<Rightarrow> Some \<lparr> js_scope = str_field (JObj es) ''scope'', js_formats = string_items (array_field (JObj es) ''delivery_formats'') \<rparr>
   | _ \<Rightarrow> None)"

definition assembled_chapter :: "string \<Rightarrow> chapter_audio list \<Rightarrow> bool" where
  "assembled_chapter i audios \<longleftrightarrow> find_row (\<lambda>a. ca_chapter_id a = i \<and> ca_current a \<and> ca_status a = CaAssembled) audios \<noteq> None"

definition version_chapters :: "string \<Rightarrow> chapter_row list \<Rightarrow> chapter_row list" where
  "version_chapters v t = sort_key cr_order (filter (\<lambda>c. cr_version_id c = v) t)"

definition check_audiobook_readiness :: "string \<Rightarrow> ('q, 'r, 's) assembly_world \<Rightarrow> bool \<times> string option" where
  "check_audiobook_readiness book_id w =
     (case find_row (\<lambda>b. bk_id b = book_id) (iw_books w) of
        None \<Rightarrow> (False, None)
      | Some b \<Rightarrow>
          (case bk_current_version b of
             None \<Rightarrow> (False, None)
           | Some v \<Rightarrow>
               let total = count_rows (\<lambda>c. cr_version_id c = v) (iw_chapters w);
                   not_ready = count_rows (\<lambda>c. cr_version_id c = v \<and> \<not> assembled_chapter (cr_id c) (aw_chapter_audios w)) (iw_chapters w)
               in if total = 0 then (False, Some v) else (not_ready = 0, Some v)))"

text \<open>A \<open>Set\<close> keeps the order of first insertion.\<close>

definition js_set :: "'a list \<Rightarrow> 'a list" where
  "js_set xs = rev (remdups (rev xs))"

lemma set_js_set [simp]: "set (js_set xs) = set xs"
  by (simp add: js_set_def)

lemma distinct_js_set [simp]: "distinct (js_set xs)"
  by (simp add: js_set_def)

definition resolve_requested_delivery_formats :: "string \<Rightarrow> job list \<Rightarrow> string list" where
  "resolve_requested_delivery_formats audiobook_id jobs = js_set (concat (map (\<lambda>j.
     (case jb_scope j of None \<Rightarrow> [] | Some s \<Rightarrow>
        (case str_field s ''format'' of None \<Rightarrow> [] | Some f \<Rightarrow> if f = [] then [] else [f])))
     (filter (\<lambda>j. jb_type j = ''encode_delivery_format'' \<and> jb_related_type j = ''audiobook''
        \<and> jb_related_id j = audiobook_id) jobs)))"

subsection \<open>Marks on a job\<close>

definition running_patch :: "int \<Rightarrow> string \<Rightarrow> job \<Rightarrow> job \<Rightarrow> job" where
  "running_patch now stage read j = touch now (set_status RUNNING now
     (j\<lparr> jb_times := (jb_times j)\<lparr> jt_started := Some (case jt_started (jb_times read) of Some s \<Rightarrow> s | None \<Rightarrow> now) \<rparr>,
         jb_progress := (jb_progress j)\<lparr> jp_stage := Some stage \<rparr>,
         jb_attempt_count := jb_attempt_count j + 1 \<rparr>))"

definition update_own_job ::
  "string \<Rightarrow> (job \<Rightarrow> job) \<Rightarrow> ('q, 'r, 's) assembly_world \<Rightarrow> (thrown + unit) \<times> ('q, 'r, 's) assembly_world" where
  "update_own_job i f = aw_jobs (update_job i f)"

text \<open>The table refuses an attempt beyond the allowed ones.\<close>

definition mark_running ::
  "assembly_env \<Rightarrow> string \<Rightarrow> job \<Rightarrow> ('q, 'r, 's) assembly_world \<Rightarrow> (thrown + unit) \<times> ('q, 'r, 's) assembly_world" where
  "mark_running ev stage j w =
     (if find_row (\<lambda>k. jb_id k = jb_id j \<and> \<not> attempt_allowed k) (db_jobs w) \<noteq> None
      then (Inl (check_failed ''processing_job_attempt_count_chk''), w)
      else update_own_job (jb_id j) (running_patch (ye_now ev) stage j) w)"

definition assembled_patch :: "int \<Rightarrow> string option \<Rightarrow> string \<Rightarrow> string \<Rightarrow> nat \<Rightarrow> job \<Rightarrow> job" where
  "assembled_patch now stage kind i version j =
     touch now (set_completed now (set_status SUCCEEDED now
       (j\<lparr> jb_progress := (jb_progress j)\<lparr> jp_value := 1,
             jp_stage := (case stage of Some s \<Rightarrow> Some s | None \<Rightarrow> jp_stage (jb_progress j)) \<rparr>,
           jb_result := \<lparr> jr_type = Some kind, jr_id = Some i, jr_version = Some version \<rparr> \<rparr>)))"

definition assembly_failed_patch :: "int \<Rightarrow> string \<Rightarrow> string \<Rightarrow> string \<Rightarrow> job \<Rightarrow> job" where
  "assembly_failed_patch now ecode ecls message j =
     touch now (set_completed now (set_status FAILED now
       (j\<lparr> jb_error := \<lparr> je_code = Some ecode, je_class = Some ecls, je_message = Some message,
             je_retryable = Some False, je_terminal = Some True \<rparr> \<rparr>)))"

lemma assembly_patches [simp]:
  "jb_id (running_patch now stage read j) = jb_id j" "jb_id (assembled_patch now st kind i v j) = jb_id j"
  "jb_id (assembly_failed_patch now c cl m j) = jb_id j"
  "jb_status (running_patch now stage read j) = RUNNING" "jb_status (assembled_patch now st kind i v j) = SUCCEEDED"
  "jb_status (assembly_failed_patch now c cl m j) = FAILED"
  by (simp_all add: running_patch_def assembled_patch_def assembly_failed_patch_def)

definition add_outbox ::
  "assembly_env \<Rightarrow> nat \<Rightarrow> outbox_draft \<Rightarrow> ('q, 'r, 's) assembly_world \<Rightarrow> (thrown + unit) \<times> ('q, 'r, 's) assembly_world" where
  "add_outbox ev k draft = doE (\<lambda>w. w\<lparr> db_outbox := outbox_add (fst (ye_event ev k)) (snd (ye_event ev k)) (ye_now ev) draft (db_outbox w) \<rparr>)"

text \<open>
  The failure transaction of the processors: nothing when the job is gone or its status is one of
  \<open>settled\<close>, otherwise the failure, what \<open>extra\<close> writes, and the event.
\<close>

definition record_assembly_failure ::
  "assembly_env \<Rightarrow> job_status list \<Rightarrow> job \<Rightarrow> string \<Rightarrow> string \<Rightarrow> string
     \<Rightarrow> (('q, 'r, 's) assembly_world \<Rightarrow> (thrown + unit) \<times> ('q, 'r, 's) assembly_world) \<Rightarrow> outbox_draft
     \<Rightarrow> ('q, 'r, 's) assembly_world \<Rightarrow> (thrown + unit) \<times> ('q, 'r, 's) assembly_world" where
  "record_assembly_failure ev settled j ecode ecls message extra draft = with_transaction (\<lambda>w.
     (case find_job (jb_id j) (db_jobs w) of
        None \<Rightarrow> (Inr (), w)
      | Some current \<Rightarrow>
          if jb_status current \<in> set settled then (Inr (), w)
          else seqE (update_own_job (jb_id j) (assembly_failed_patch (ye_now ev) ecode ecls message)) (\<lambda>_.
               seqE extra (\<lambda>_. add_outbox ev 0 draft)) w))"

definition job_failed_draft :: "job \<Rightarrow> string \<Rightarrow> string \<Rightarrow> string \<Rightarrow> (string \<times> json) list \<Rightarrow> outbox_draft" where
  "job_failed_draft j ecode ecls failing more' =
     ingestion_draft j ''job.failed'' (jb_book_id j) ''processing_job'' (jb_id j)
       (JObj ([(''job_id'', JStr (jb_id j)), (''error_code'', JStr ecode), (''error_class'', JStr ecls),
         (''failing_precondition'', JStr failing)] @ more'))"

definition object_of :: "int \<Rightarrow> string \<Rightarrow> object_meta \<Rightarrow> stored_object" where
  "object_of now key meta = \<lparr> so_key = key, so_bucket = om_bucket meta, so_hash = ck_hash (om_checksum meta),
     so_size = om_size_bytes meta, so_verified_at = Some now \<rparr>"

definition put_wav ::
  "('q, 's) assembly_deps \<Rightarrow> string \<Rightarrow> bytes \<Rightarrow> string \<Rightarrow> ('q, 'r, 's) assembly_world
     \<Rightarrow> (thrown + object_meta) \<times> ('q, 'r, 's) assembly_world" where
  "put_wav dp key body content_type w =
     (case ad_put dp \<lparr> pi_key = key, pi_body = body, pi_content_type = content_type \<rparr> (iw_store w) of
        (r, s) \<Rightarrow> (r, w\<lparr> iw_store := s \<rparr>))"

end
