(* ===== verification/AssembleChapter.thy ===== *)
theory AssembleChapter
  imports AssemblyShared
begin

text \<open>
  \<open>apps/worker-cpu/src/processors/assembly-chapter.ts\<close>: the consumer of \<open>assemble_chapter\<close>.
  The preconditions come first; an unchanged manifest ends the job at once; otherwise the job is
  marked running, the chunks are rendered and mastered, and the chapter audio, its members, the job
  and the event are written in one transaction.  The last chapter triggers \<open>assemble_audiobook\<close>.
\<close>

subsection \<open>Trimming, pauses and voices\<close>

definition compute_lead_trail_trim :: "silence_interval list \<Rightarrow> rat \<Rightarrow> rat option \<times> rat option \<times> int" where
  "compute_lead_trail_trim intervals duration =
     (let eps = 1 / 20;
          lead = (case intervals of [] \<Rightarrow> None | first # _ \<Rightarrow>
            (case si_end first of None \<Rightarrow> None
             | Some e \<Rightarrow> if si_start first \<le> eps \<and> e < duration then Some e else None));
          trail = (if intervals = [] then None else
            let final = last intervals; final_end = (case si_end final of Some e \<Rightarrow> e | None \<Rightarrow> duration)
            in if duration - eps \<le> final_end \<and> (case lead of Some e \<Rightarrow> e | None \<Rightarrow> 0) + eps < si_start final
               then Some (si_start final) else None)
      in (lead, trail, (case lead of Some e \<Rightarrow> js_round (e * 1000) | None \<Rightarrow> 0)))"

definition pause_of :: "string \<Rightarrow> json \<Rightarrow> int" where
  "pause_of position p = (if str_field p ''position'' = Some position
     then (case json_field p ''duration_ms'' of Some (JNum n) \<Rightarrow> n | _ \<Rightarrow> 0) else 0)"

definition sum_pause_ms :: "json option \<Rightarrow> string \<Rightarrow> int" where
  "sum_pause_ms pauses position = (case pauses of
     Some (JArr ps) \<Rightarrow> sum_list (map (pause_of position) ps) | _ \<Rightarrow> 0)"

text \<open>The voices used per character, in the order of first use.\<close>

fun add_voice :: "string \<Rightarrow> string \<Rightarrow> (string \<times> string list) list \<Rightarrow> (string \<times> string list) list" where
  "add_voice key voice [] = [(key, [voice])]"
| "add_voice key voice ((k, vs) # rest) =
     (if k = key then (k, if voice \<in> set vs then vs else vs @ [voice]) # rest else (k, vs) # add_voice key voice rest)"

definition voice_key :: "script_chunk \<Rightarrow> string" where
  "voice_key c = (case sc_character c of Some k \<Rightarrow> k | None \<Rightarrow> ''NARRATOR'')"

definition count_voice :: "script_chunk \<Rightarrow> (string \<times> string list) list \<Rightarrow> (string \<times> string list) list" where
  "count_voice c table = (if truthy (sc_profile_version c) then add_voice (voice_key c) (the (sc_profile_version c)) table else table)"

definition compute_voice_consistency :: "script_chunk list \<Rightarrow> bool \<times> (string \<times> string list) list" where
  "compute_voice_consistency cs = (let table = fold count_voice cs [] in (list_all (\<lambda>(k, vs). length vs \<le> 1) table, table))"

subsection \<open>Rendering\<close>

record chapter_member =
  mr_audio_chunk_id :: string
  mr_order :: nat
  mr_start_ms :: int
  mr_duration_ms :: int
  mr_lead_trimmed_ms :: int
  mr_pause_ms :: int

definition canonical_pcm :: pcm_format where
  "canonical_pcm = (mp_sample_rate MASTERING_POLICY_V1, mp_channels MASTERING_POLICY_V1)"

definition chunk_file :: "('q, 's) assembly_deps \<Rightarrow> nat \<Rightarrow> string \<Rightarrow> string" where
  "chunk_file dp i name = tmp_file dp (''chunk-'' @ show_nat i @ ''-'' @ name)"

text \<open>Steps 1 and 2: trim the silence the engine left at both ends, and pre-normalise.\<close>

definition conform_chunk :: "('q, 's) assembly_deps \<Rightarrow> nat \<Rightarrow> string \<Rightarrow> 's \<Rightarrow> thrown + audio_file \<times> int" where
  "conform_chunk dp i key s =
     bindE (download_to_file dp key (chunk_file dp i ''raw.wav'') s) (\<lambda>raw.
     bindE (probe_audio (ad_tool dp) raw) (\<lambda>probed.
     bindE (detect_silence (ad_tool dp) raw SILENCE_TRIM_POLICY_V1) (\<lambda>silences.
     case compute_lead_trail_trim silences (of_int (pb_duration_ms probed) / 1000) of (start, stop, lead) \<Rightarrow>
     bindE (trim_and_convert (ad_tool dp) raw (chunk_file dp i ''conformed.wav'') start stop canonical_pcm) (\<lambda>conformed.
     bindE (apply_single_pass_loudnorm (ad_tool dp) (chunk_file dp i ''conformed.wav'', conformed)
        (chunk_file dp i ''prenorm.wav'') (loudness_target_of MASTERING_POLICY_V1) canonical_pcm) (\<lambda>prenorm.
     Inr ((chunk_file dp i ''prenorm.wav'', prenorm), lead))))))"

definition pause_piece :: "('q, 's) assembly_deps \<Rightarrow> string \<Rightarrow> int \<Rightarrow> thrown + audio_file list" where
  "pause_piece dp path ms = (if ms > 0
     then bindE (generate_silence_file (ad_tool dp) path (nat ms) canonical_pcm) (\<lambda>b. Inr [(path, b)]) else Inr [])"

text \<open>Step 3: the pauses of the script around the chunk; a single piece is only converted.\<close>

definition join_pieces :: "('q, 's) assembly_deps \<Rightarrow> nat \<Rightarrow> audio_file list \<Rightarrow> thrown + audio_file" where
  "join_pieces dp i pieces =
     (let outp = chunk_file dp i ''final.wav'' in
      bindE (if length pieces = 1 then trim_and_convert (ad_tool dp) (hd pieces) outp None None canonical_pcm
             else concat_demux_copy (ad_tool dp) (chunk_file dp i ''list.txt'') pieces outp) (\<lambda>b. Inr (outp, b)))"

definition render_chunk ::
  "('q, 's) assembly_deps \<Rightarrow> 's \<Rightarrow> nat \<Rightarrow> int \<Rightarrow> script_chunk \<Rightarrow> audio_chunk \<Rightarrow> thrown + audio_file \<times> chapter_member" where
  "render_chunk dp s i start c a =
     (let lead_ms = sum_pause_ms (sc_pauses c) ''LEADING''; trail_ms = sum_pause_ms (sc_pauses c) ''TRAILING'' in
     bindE (conform_chunk dp i (ac_storage_key a) s) (\<lambda>(prenorm, trimmed).
     bindE (pause_piece dp (chunk_file dp i ''lead-pause.wav'') lead_ms) (\<lambda>before'.
     bindE (pause_piece dp (chunk_file dp i ''trail-pause.wav'') trail_ms) (\<lambda>after'.
     bindE (join_pieces dp i (before' @ [prenorm] @ after')) (\<lambda>final.
     bindE (probe_audio (ad_tool dp) final) (\<lambda>probed.
     Inr (final, \<lparr> mr_audio_chunk_id = ac_id a, mr_order = i, mr_start_ms = start, mr_duration_ms = pb_duration_ms probed,
       mr_lead_trimmed_ms = trimmed, mr_pause_ms = lead_ms + trail_ms \<rparr>)))))))"

fun render_chunks ::
  "('q, 's) assembly_deps \<Rightarrow> 's \<Rightarrow> nat \<Rightarrow> int \<Rightarrow> (script_chunk \<times> audio_chunk) list \<Rightarrow> thrown + (audio_file \<times> chapter_member) list" where
  "render_chunks dp s i start [] = Inr []"
| "render_chunks dp s i start ((c, a) # rest) =
     bindE (render_chunk dp s i start c a) (\<lambda>(final, m).
     bindE (render_chunks dp s (Suc i) (start + mr_duration_ms m) rest) (\<lambda>ms. Inr ((final, m) # ms)))"

subsection \<open>The noise floor\<close>

definition longer :: "silence_interval \<Rightarrow> silence_interval \<Rightarrow> bool" where
  "longer a b \<longleftrightarrow> (case (si_end a, si_end b) of
     (None, None) \<Rightarrow> False | (None, Some _) \<Rightarrow> True | (Some _, None) \<Rightarrow> False
   | (Some x, Some y) \<Rightarrow> y - si_start b < x - si_start a)"

definition longest_silence :: "silence_interval list \<Rightarrow> silence_interval option" where
  "longest_silence intervals = fold (\<lambda>iv best. case best of None \<Rightarrow> Some iv | Some b \<Rightarrow> if longer iv b then Some iv else Some b) intervals None"

definition measure_noise_floor_during_silence :: "('q, 's) assembly_deps \<Rightarrow> audio_file \<Rightarrow> thrown + rat option" where
  "measure_noise_floor_during_silence dp master =
     bindE (detect_silence (ad_tool dp) master \<lparr> sp_threshold_db = - 35, sp_min_duration = 1 / 2 \<rparr>) (\<lambda>intervals.
     case longest_silence intervals of
       None \<Rightarrow> Inr None
     | Some iv \<Rightarrow>
         let clip = tmp_file dp ''noise-floor-sample.wav'' in
         bindE (trim_and_convert (ad_tool dp) master clip (Some (si_start iv)) (si_end iv) canonical_pcm) (\<lambda>b.
         bindE (measure_overall_rms_db (ad_tool dp) (clip, b)) (\<lambda>x. Inr (Some x))))"

record assembled_audio =
  aa_master :: audio_file
  aa_duration_ms :: int
  aa_lufs :: rat
  aa_peak :: rat
  aa_members :: "chapter_member list"
  aa_validation :: chapter_validation

text \<open>Steps 4 to 6: concatenate, master, measure; a clipped master is refused.\<close>

definition master_chapter :: "('q, 's) assembly_deps \<Rightarrow> (audio_file \<times> chapter_member) list \<Rightarrow> thrown + assembled_audio" where
  "master_chapter dp rendered =
     (let tool = ad_tool dp; premaster_path = tmp_file dp ''chapter-premaster.wav''; outp = tmp_file dp ''chapter-master.wav'' in
     bindE (concat_demux_copy tool (tmp_file dp ''chapter-list.txt'') (map fst rendered) premaster_path) (\<lambda>premaster.
     bindE (apply_two_pass_loudnorm tool (premaster_path, premaster) outp (loudness_target_of MASTERING_POLICY_V1) canonical_pcm) (\<lambda>master.
     bindE (probe_audio tool (outp, master)) (\<lambda>probed.
     bindE (measure_ebur128 tool (outp, master)) (\<lambda>loudness.
     bindE (measure_clipping tool (outp, master)) (\<lambda>clipping.
     if cl_clipped clipping > 0
     then Inl (OtherErr (''Post-mastering clipping detected ('' @ at_num tool (cl_clipped clipping) @ '' clipped samples, peak ''
       @ (case cl_peak clipping of Some p \<Rightarrow> at_num tool p | None \<Rightarrow> ''NaN'')
       @ ''dBFS) - the alimiter safety ceiling should prevent this; treating as a pipeline defect rather than shipping a clipped chapter.''))
     else bindE (measure_noise_floor_during_silence dp (outp, master)) (\<lambda>noise_floor.
     Inr \<lparr> aa_master = (outp, master), aa_duration_ms = pb_duration_ms probed, aa_lufs = eb_lufs loudness,
       aa_peak = eb_peak loudness, aa_members = map snd rendered,
       aa_validation = \<lparr> va_duration_ms = pb_duration_ms probed, va_clipped = cl_clipped clipping, va_peak = cl_peak clipping,
         va_noise_floor = noise_floor,
         va_noise_flag = (case noise_floor of Some x \<Rightarrow> x > of_int (mp_noise_floor MASTERING_POLICY_V1) | None \<Rightarrow> False) \<rparr> \<rparr>)))))))"

definition assemble_chapter_audio ::
  "('q, 's) assembly_deps \<Rightarrow> (script_chunk \<times> audio_chunk) list \<Rightarrow> 's \<Rightarrow> thrown + assembled_audio" where
  "assemble_chapter_audio dp cs s = bindE (render_chunks dp s 0 0 cs) (master_chapter dp)"

subsection \<open>The fan-in\<close>

definition audio_job ::
  "assembly_env \<Rightarrow> string \<Rightarrow> job \<Rightarrow> string \<times> string \<times> string \<Rightarrow> string option \<Rightarrow> json \<Rightarrow> string \<times> string \<Rightarrow> json \<Rightarrow> job" where
  "audio_job ev i parent kind parent_id scope idem envelope = (case kind of (ty, related_type, related_id) \<Rightarrow>
     (fresh_job (ye_now ev) i (jb_tenant_id parent) [] (ty, ''audio'', jb_priority parent) (related_type, related_id) idem
        (jb_correlation_id parent) False envelope)
     \<lparr> jb_book_id := jb_book_id parent, jb_parent := parent_id, jb_scope := Some scope, jb_created_by := jb_created_by parent \<rparr>)"

definition audio_envelope :: "string \<Rightarrow> job \<Rightarrow> json \<Rightarrow> json" where
  "audio_envelope i parent payload = command_envelope i (jb_tenant_id parent) (jb_correlation_id parent) payload"

definition audiobook_payload :: "string \<Rightarrow> string list \<Rightarrow> json" where
  "audiobook_payload book_id formats = JObj [(''book_id'', JStr book_id), (''delivery_formats'', JArr (map JStr formats))]"

definition IN_FLIGHT :: "job_status list" where
  "IN_FLIGHT = [CREATED, QUEUED, RUNNING, RETRYING, BLOCKED]"

definition fan_in_job :: "assembly_env \<Rightarrow> job \<Rightarrow> string \<Rightarrow> string list \<Rightarrow> job" where
  "fan_in_job ev j version formats = audio_job ev (ye_id ev 1) j (''assemble_audiobook'', ''book_version'', version) None
     (JObj [(''scope'', JStr ''AUDIOBOOK''), (''delivery_formats'', JArr (map JStr formats))])
     (''assemble_audiobook:'' @ version, version)
     (audio_envelope (ye_id ev 1) j (audiobook_payload (the (jb_book_id j)) formats))"

text \<open>What the fan-in finds: the version and the formats of the audiobook to assemble, if there is one.\<close>

definition fan_in_due :: "job \<Rightarrow> ('q, 'r, 's) assembly_world \<Rightarrow> (string \<times> string list) option" where
  "fan_in_due j w =
     (if \<not> truthy (jb_book_id j) then None
      else case read_job_scope (jb_scope j) of
        None \<Rightarrow> None
      | Some scope \<Rightarrow>
          if js_scope scope \<noteq> Some ''AUDIOBOOK'' then None
          else case check_audiobook_readiness (the (jb_book_id j)) w of
            (True, Some version) \<Rightarrow>
              if find_row (\<lambda>k. jb_book_id k = jb_book_id j \<and> jb_type k = ''assemble_audiobook''
                    \<and> jb_status k \<in> set IN_FLIGHT) (db_jobs w) \<noteq> None then None
              else Some (version, if js_formats scope = [] then [''M4B''] else js_formats scope)
          | _ \<Rightarrow> None)"

definition maybe_trigger_audiobook_fan_in ::
  "('q, 's) assembly_deps \<Rightarrow> assembly_env \<Rightarrow> job \<Rightarrow> ('q, 'r, 's) assembly_world \<Rightarrow> (thrown + unit) \<times> ('q, 'r, 's) assembly_world" where
  "maybe_trigger_audiobook_fan_in dp ev j = seqE (readE (\<lambda>w. Inr (fan_in_due j w))) (\<lambda>due. case due of
     None \<Rightarrow> returnE ()
   | Some (version, formats) \<Rightarrow>
       let k = fan_in_job ev j version formats in
       seqE (aw_jobs (create_row job_clash k)) (\<lambda>_.
       dispatch_audio (ad_broker dp) (ye_now ev)
         \<lparr> ea_processing_job_id = jb_id k, ea_queue = ''audio'', ea_envelope = the (jb_envelope k),
           ea_job_name = ''assemble_audiobook'', ea_max_attempts = 3, ea_priority = None \<rparr>))"

subsection \<open>Failures\<close>

definition handle_chapter_manifest_incomplete ::
  "assembly_env \<Rightarrow> job \<Rightarrow> string list \<Rightarrow> string \<Rightarrow> ('q, 'r, 's) assembly_world \<Rightarrow> (thrown + unit) \<times> ('q, 'r, 's) assembly_world" where
  "handle_chapter_manifest_incomplete ev j missing reason = record_assembly_failure ev [FAILED, SUCCEEDED] j
     ''CHAPTER_MANIFEST_INCOMPLETE'' ''ConflictError''
     (''Chapter manifest incomplete: '' @ show_nat (length missing) @ '' chunk(s) missing or not VALIDATED ('' @ reason @ '').'')
     (returnE ())
     (job_failed_draft j ''CHAPTER_MANIFEST_INCOMPLETE'' ''ConflictError'' reason
        [(''missing_chunk_ids'', JArr (map JStr (take 20 missing)))])"

definition handle_director_version_mixing ::
  "assembly_env \<Rightarrow> job \<Rightarrow> string list \<Rightarrow> ('q, 'r, 's) assembly_world \<Rightarrow> (thrown + unit) \<times> ('q, 'r, 's) assembly_world" where
  "handle_director_version_mixing ev j versions = record_assembly_failure ev [FAILED, SUCCEEDED] j
     ''DIRECTOR_VERSION_MIXING_FORBIDDEN'' ''ConflictError''
     (''Chapter''@ [quote_char] @ ''s chunks span multiple Director versions: '' @ join_with '', '' versions @ ''.'')
     (returnE ())
     (job_failed_draft j ''DIRECTOR_VERSION_MIXING_FORBIDDEN'' ''ConflictError'' ''SINGLE_DIRECTOR_VERSION'' [])"

definition final_assembly_attempt :: "assembly_env \<Rightarrow> bool" where
  "final_assembly_attempt ev \<longleftrightarrow> ye_attempts_made ev + 1 \<ge> ye_max_attempts ev"

definition handle_chapter_assembly_failure ::
  "('q, 's) assembly_deps \<Rightarrow> assembly_env \<Rightarrow> job \<Rightarrow> thrown \<Rightarrow> ('q, 'r, 's) assembly_world \<Rightarrow> (thrown + unit) \<times> ('q, 'r, 's) assembly_world" where
  "handle_chapter_assembly_failure dp ev j err =
     (if \<not> final_assembly_attempt ev then returnE ()
      else record_assembly_failure ev [FAILED] j (error_code_of err ''CHAPTER_ASSEMBLY_FAILED'') (error_class_of dp err)
        (error_message err) (returnE ())
        (job_failed_draft j (error_code_of err ''CHAPTER_ASSEMBLY_FAILED'') (error_class_of dp err) ''ASSEMBLY_PIPELINE_ERROR'' []))"

subsection \<open>The rows\<close>

type_synonym ordered_chunk = "script_chunk \<times> audio_chunk option"

definition ordered_chunks :: "string \<Rightarrow> ('q, 'r, 's) assembly_world \<Rightarrow> ordered_chunk list" where
  "ordered_chunks chapter_id w = map (\<lambda>c. (c, find_audio_chunk (sc_audio c) (aw_audio_chunks w)))
     (sort_key sc_chapter_sequence (filter (\<lambda>c. sc_chapter_id c = chapter_id \<and> sc_current c) (aw_script_chunks w)))"

definition rendered_chunk :: "ordered_chunk \<Rightarrow> bool" where
  "rendered_chunk p \<longleftrightarrow> (case snd p of Some a \<Rightarrow> ac_status a = AcValidated | None \<Rightarrow> False)"

definition chunk_manifest :: "ordered_chunk list \<Rightarrow> string list" where
  "chunk_manifest cs = map (\<lambda>(c, a). manifest_line (ac_id (the a)) (ac_content_hash (the a))) cs"

definition supersede_audio :: "int \<Rightarrow> chapter_audio \<Rightarrow> chapter_audio" where
  "supersede_audio now a = a\<lparr> ca_current := False, ca_superseded_at := Some now \<rparr>"

definition chapter_audio_row ::
  "assembly_env \<Rightarrow> job \<Rightarrow> string \<Rightarrow> ordered_chunk list \<Rightarrow> string \<Rightarrow> string \<Rightarrow> nat \<Rightarrow> assembled_audio \<Rightarrow> stored_object \<Rightarrow> chapter_audio" where
  "chapter_audio_row ev j chapter_id cs hash tool_model version audio obj =
     (case compute_voice_consistency (map fst cs) of (verified, voices) \<Rightarrow>
     \<lparr> ca_id = ye_id ev 0, ca_tenant_id = jb_tenant_id j, ca_book_id = the (jb_book_id j), ca_chapter_id = chapter_id,
       ca_version = version, ca_supersedes = None, ca_current = True, ca_superseded_at = None, ca_preview = False,
       ca_status = CaAssembled, ca_duration_ms = aa_duration_ms audio, ca_chunk_count = length cs, ca_manifest_hash = hash,
       ca_format = ''WAV'', ca_lufs = Some (aa_lufs audio), ca_peak = Some (aa_peak audio),
       ca_validation = Some (aa_validation audio), ca_voice_verified = verified, ca_voices = voices,
       ca_director_version = sc_director_version (fst (hd cs)), ca_pipeline_version = ASSEMBLY_PIPELINE_VERSION,
       ca_tool_model = tool_model, ca_assembly_version = mp_version MASTERING_POLICY_V1, ca_job_id = Some (jb_id j),
       ca_object = obj, ca_created = ye_now ev \<rparr>)"

definition member_rows :: "assembly_env \<Rightarrow> string \<Rightarrow> chapter_member list \<Rightarrow> audio_member list" where
  "member_rows ev book_id ms = map (\<lambda>m. \<lparr> cm_chapter_audio_id = ye_id ev 0, cm_order = mr_order m,
     cm_audio_chunk_id = mr_audio_chunk_id m, cm_book_id = book_id, cm_start_ms = mr_start_ms m, cm_duration_ms = mr_duration_ms m,
     cm_lead_trimmed_ms = mr_lead_trimmed_ms m, cm_pause_ms = mr_pause_ms m \<rparr>) ms"

definition assembly_started_draft :: "job \<Rightarrow> string \<Rightarrow> nat \<Rightarrow> string \<Rightarrow> outbox_draft" where
  "assembly_started_draft j chapter_id n hash =
     ingestion_draft j ''chapter.assembly_started'' (jb_book_id j) ''chapter'' chapter_id
       (JObj [(''chapter_id'', JStr chapter_id), (''chunk_count'', JNum (int n)), (''ordered_chunk_manifest_hash'', JStr hash)])"

definition chapter_completed_draft :: "job \<Rightarrow> chapter_audio \<Rightarrow> outbox_draft" where
  "chapter_completed_draft j a =
     ingestion_draft j ''chapter.completed'' (jb_book_id j) ''chapter_audio'' (ca_id a)
       (JObj [(''chapter_id'', JStr (ca_chapter_id a)), (''chapter_audio_id'', JStr (ca_id a)),
         (''version'', JNum (int (ca_version a))), (''duration_ms'', JNum (ca_duration_ms a)),
         (''chunk_count'', JNum (int (ca_chunk_count a))), (''voice_consistency_verified'', JBool (ca_voice_verified a)),
         (''is_preview_build'', JBool False)])"

definition persist_chapter_audio ::
  "assembly_env \<Rightarrow> job \<Rightarrow> chapter_audio \<Rightarrow> chapter_member list \<Rightarrow> ('q, 'r, 's) assembly_world
     \<Rightarrow> (thrown + unit) \<times> ('q, 'r, 's) assembly_world" where
  "persist_chapter_audio ev j a ms = with_transaction (
     seqE (doE (\<lambda>w. w\<lparr> aw_chapter_audios := update_where (\<lambda>b. ca_chapter_id b = ca_chapter_id a \<and> ca_current b)
        (supersede_audio (ye_now ev)) (aw_chapter_audios w) \<rparr>)) (\<lambda>_.
     seqE (on_chapter_audios (create_chapter_audio a)) (\<lambda>_.
     seqE (on_members (create_many member_clash (member_rows ev (ca_book_id a) ms))) (\<lambda>_.
     seqE (update_own_job (jb_id j) (assembled_patch (ye_now ev) (Some ''DONE'') ''chapter_audio'' (ca_id a) (ca_version a))) (\<lambda>_.
     add_outbox ev 1 (chapter_completed_draft j a))))))"

subsection \<open>The handler\<close>

text \<open>The body of the \<open>try\<close> block: the chapter audio is built and committed, then the fan-in.\<close>

definition build_chapter_audio ::
  "('q, 's) assembly_deps \<Rightarrow> assembly_env \<Rightarrow> job \<Rightarrow> string \<Rightarrow> ordered_chunk list \<Rightarrow> string \<Rightarrow> ('q, 'r, 's) assembly_world
     \<Rightarrow> (thrown + unit) \<times> ('q, 'r, 's) assembly_world" where
  "build_chapter_audio dp ev j chapter_id cs hash =
     seqE (readE (\<lambda>w. resolve_audio_tool_model_version_id dp)) (\<lambda>tool_model.
     seqE (readE (\<lambda>w. Inr (next_number (map ca_version (filter (\<lambda>a. ca_chapter_id a = chapter_id) (aw_chapter_audios w)))))) (\<lambda>version.
     seqE (readE (\<lambda>w. build_storage_key (jb_tenant_id j)
        [''books'', the (jb_book_id j), ''chapters'', chapter_id, ''audio'', ''v'' @ show_nat version @ ''.wav''])) (\<lambda>key.
     seqE (readE (\<lambda>w. assemble_chapter_audio dp (map (\<lambda>(c, a). (c, the a)) cs) (iw_store w))) (\<lambda>audio.
     seqE (put_wav dp key (snd (aa_master audio)) ''audio/wav'') (\<lambda>meta.
     persist_chapter_audio ev j
        (chapter_audio_row ev j chapter_id cs hash tool_model version audio (object_of (ye_now ev) key meta)) (aa_members audio))))))"

definition assemble_and_persist ::
  "('q, 's) assembly_deps \<Rightarrow> assembly_env \<Rightarrow> job \<Rightarrow> string \<Rightarrow> ordered_chunk list \<Rightarrow> string \<Rightarrow> ('q, 'r, 's) assembly_world
     \<Rightarrow> (thrown + unit) \<times> ('q, 'r, 's) assembly_world" where
  "assemble_and_persist dp ev j chapter_id cs hash =
     seqE (build_chapter_audio dp ev j chapter_id cs hash) (\<lambda>_. maybe_trigger_audiobook_fan_in dp ev j)"

definition no_op_assembly ::
  "('q, 's) assembly_deps \<Rightarrow> assembly_env \<Rightarrow> job \<Rightarrow> chapter_audio \<Rightarrow> ('q, 'r, 's) assembly_world
     \<Rightarrow> (thrown + unit) \<times> ('q, 'r, 's) assembly_world" where
  "no_op_assembly dp ev j existing =
     seqE (with_transaction (update_own_job (jb_id j)
        (assembled_patch (ye_now ev) None ''chapter_audio'' (ca_id existing) (ca_version existing)))) (\<lambda>_.
     maybe_trigger_audiobook_fan_in dp ev j)"

definition run_assembly ::
  "('q, 's) assembly_deps \<Rightarrow> assembly_env \<Rightarrow> job \<Rightarrow> string \<Rightarrow> ordered_chunk list \<Rightarrow> string \<Rightarrow> ('q, 'r, 's) assembly_world
     \<Rightarrow> (thrown + unit) \<times> ('q, 'r, 's) assembly_world" where
  "run_assembly dp ev j chapter_id cs hash =
     seqE (with_transaction (seqE (mark_running ev ''ASSEMBLING'' j) (\<lambda>_.
        add_outbox ev 0 (assembly_started_draft j chapter_id (length cs) hash)))) (\<lambda>_ w.
     (case assemble_and_persist dp ev j chapter_id cs hash w of
        (Inr u, w') \<Rightarrow> (Inr u, w')
      | (Inl err, w') \<Rightarrow> seqE (handle_chapter_assembly_failure dp ev j err) (\<lambda>_. throwE err) w'))"

definition same_manifest :: "string \<Rightarrow> string \<Rightarrow> chapter_audio \<Rightarrow> bool" where
  "same_manifest chapter_id hash a \<longleftrightarrow> ca_chapter_id a = chapter_id \<and> ca_manifest_hash a = hash \<and> \<not> ca_preview a"

definition assemble_chapter ::
  "('q, 's) assembly_deps \<Rightarrow> assembly_env \<Rightarrow> job \<Rightarrow> string \<Rightarrow> ('q, 'r, 's) assembly_world
     \<Rightarrow> (thrown + unit) \<times> ('q, 'r, 's) assembly_world" where
  "assemble_chapter dp ev j chapter_id w =
     (let cs = ordered_chunks chapter_id w; missing = filter (\<lambda>p. \<not> rendered_chunk p) cs;
          versions = js_set (map (\<lambda>p. sc_director_version (fst p)) cs)
      in if cs = [] then handle_chapter_manifest_incomplete ev j [chapter_id] ''NO_SCRIPT_CHUNKS'' w
         else if missing \<noteq> []
         then handle_chapter_manifest_incomplete ev j (map (\<lambda>p. sc_id (fst p)) missing) ''CHUNKS_MISSING_OR_NOT_VALIDATED'' w
         else if length versions > 1 then handle_director_version_mixing ev j versions w
         else let hash = compute_manifest_hash (ad_sha256 dp) (chunk_manifest cs) in
           (case find_row (same_manifest chapter_id hash) (aw_chapter_audios w) of
              Some existing \<Rightarrow> no_op_assembly dp ev j existing w
            | None \<Rightarrow> run_assembly dp ev j chapter_id cs hash w))"

definition process_assemble_chapter_job ::
  "('q, 's) assembly_deps \<Rightarrow> assembly_env \<Rightarrow> json \<Rightarrow> ('q, 'r, 's) assembly_world
     \<Rightarrow> (thrown + unit) \<times> ('q, 'r, 's) assembly_world" where
  "process_assemble_chapter_job dp ev envelope w =
     (if \<not> truthy (str_field envelope ''entity_id'')
      then (Inl (OtherErr ''assemble_chapter envelope is missing entity_id (the ProcessingJob id)''), w)
      else let i = the (str_field envelope ''entity_id'') in
      (case find_job i (db_jobs w) of
         None \<Rightarrow> (Inl (OtherErr (''ProcessingJob '' @ i @ '' not found'')), w)
       | Some j \<Rightarrow>
           if jb_status j = SUCCEEDED \<or> jb_status j = FAILED then (Inr (), w)
           else if \<not> truthy (jb_book_id j) then (Inl (OtherErr (''ProcessingJob '' @ i @ '' has no bookId'')), w)
           else let chapter_id = sub_field envelope ''payload'' ''chapter_id'' in
           (case find_row (\<lambda>c. Some (cr_id c) = chapter_id) (iw_chapters w) of
              None \<Rightarrow> (Inl (OtherErr (''Chapter '' @ (case chapter_id of Some c \<Rightarrow> c | None \<Rightarrow> ''undefined'') @ '' not found'')), w)
            | Some c \<Rightarrow> assemble_chapter dp ev j (cr_id c) w)))"

end
