(* ===== verification/AssembleAudiobook.thy ===== *)
theory AssembleAudiobook
  imports AssembleChapter
begin

text \<open>
  \<open>apps/worker-cpu/src/processors/assembly-audiobook.ts\<close>: the consumer of \<open>assemble_audiobook\<close>.
  The chapters of the current version are taken in their order, trimmed in gain where one drifts from
  the mean of the book, concatenated into one master, and written as an audiobook with its chapters;
  then one \<open>encode_delivery_format\<close> job is created and dispatched per requested format.  The book
  becomes \<open>READY\<close> only in the encode processor.
\<close>

subsection \<open>The master\<close>

definition LOUDNESS_CONSISTENCY_TOLERANCE_LU :: rat where
  "LOUDNESS_CONSISTENCY_TOLERANCE_LU = 1"

record downloaded_chapter =
  dc_chapter_id :: string
  dc_audio_id :: string
  dc_title :: "string option"
  dc_file :: audio_file
  dc_lufs :: rat
  dc_duration_ms :: int

type_synonym chapter_master = "chapter_row \<times> chapter_audio"

definition master_file :: "('q, 's) assembly_deps \<Rightarrow> nat \<Rightarrow> string \<Rightarrow> string" where
  "master_file dp i name = tmp_file dp (''chapter-'' @ show_nat i @ ''-'' @ name)"

definition download_chapter :: "('q, 's) assembly_deps \<Rightarrow> 's \<Rightarrow> nat \<Rightarrow> chapter_master \<Rightarrow> thrown + downloaded_chapter" where
  "download_chapter dp s i p = (case p of (c, a) \<Rightarrow>
     bindE (download_to_file dp (so_key (ca_object a)) (master_file dp i ''raw.wav'') s) (\<lambda>raw.
     bindE (probe_audio (ad_tool dp) raw) (\<lambda>probed.
     bindE (measure_ebur128 (ad_tool dp) raw) (\<lambda>loudness.
     Inr \<lparr> dc_chapter_id = cr_id c, dc_audio_id = ca_id a, dc_title = cr_title c, dc_file = raw,
       dc_lufs = eb_lufs loudness, dc_duration_ms = pb_duration_ms probed \<rparr>))))"

fun download_chapters :: "('q, 's) assembly_deps \<Rightarrow> 's \<Rightarrow> nat \<Rightarrow> chapter_master list \<Rightarrow> thrown + downloaded_chapter list" where
  "download_chapters dp s i [] = Inr []"
| "download_chapters dp s i (p # rest) =
     bindE (download_chapter dp s i p) (\<lambda>d. bindE (download_chapters dp s (Suc i) rest) (\<lambda>ds. Inr (d # ds)))"

definition mean_lufs :: "downloaded_chapter list \<Rightarrow> rat" where
  "mean_lufs ds = sum_list (map dc_lufs ds) / of_nat (max (length ds) 1)"

text \<open>A chapter louder or quieter than the mean by more than the tolerance is pulled onto it.\<close>

definition trim_gain :: "('q, 's) assembly_deps \<Rightarrow> rat \<Rightarrow> nat \<Rightarrow> downloaded_chapter \<Rightarrow> thrown + downloaded_chapter" where
  "trim_gain dp mean i d =
     (let deviation = dc_lufs d - mean; outp = master_file dp i ''gaintrim.wav'' in
      if \<bar>deviation\<bar> > LOUDNESS_CONSISTENCY_TOLERANCE_LU
      then bindE (apply_gain_and_convert (ad_tool dp) (dc_file d) outp (- deviation) canonical_pcm) (\<lambda>b.
           bindE (probe_audio (ad_tool dp) (outp, b)) (\<lambda>reprobed.
           Inr (d\<lparr> dc_file := (outp, b), dc_duration_ms := pb_duration_ms reprobed \<rparr>)))
      else Inr d)"

fun trim_gains :: "('q, 's) assembly_deps \<Rightarrow> rat \<Rightarrow> nat \<Rightarrow> downloaded_chapter list \<Rightarrow> thrown + downloaded_chapter list" where
  "trim_gains dp mean i [] = Inr []"
| "trim_gains dp mean i (d # rest) =
     bindE (trim_gain dp mean i d) (\<lambda>p. bindE (trim_gains dp mean (Suc i) rest) (\<lambda>ps. Inr (p # ps)))"

record master_chapter_mark =
  mk_chapter_id :: string
  mk_audio_id :: string
  mk_title :: "string option"
  mk_start_ms :: int
  mk_duration_ms :: int

fun mark_chapters :: "int \<Rightarrow> downloaded_chapter list \<Rightarrow> master_chapter_mark list" where
  "mark_chapters cumulative [] = []"
| "mark_chapters cumulative (d # rest) =
     \<lparr> mk_chapter_id = dc_chapter_id d, mk_audio_id = dc_audio_id d, mk_title = dc_title d,
       mk_start_ms = cumulative, mk_duration_ms = dc_duration_ms d \<rparr> # mark_chapters (cumulative + dc_duration_ms d) rest"

text \<open>The assertion over the start times: every start is the sum of the durations before it.\<close>

definition start_expected :: "master_chapter_mark list \<Rightarrow> nat \<Rightarrow> int" where
  "start_expected ms i = sum_list (map mk_duration_ms (take i ms))"

definition assert_starts :: "master_chapter_mark list \<Rightarrow> thrown + unit" where
  "assert_starts ms = (case find_row (\<lambda>i. mk_start_ms (ms ! i) \<noteq> start_expected ms i) [0..<length ms] of
     None \<Rightarrow> Inr ()
   | Some i \<Rightarrow> Inl (OtherErr (''Audiobook chapter start-time assertion failed at index '' @ show_nat i @ '': expected ''
       @ show_int (start_expected ms i) @ ''ms, got '' @ show_int (mk_start_ms (ms ! i)) @ ''ms'')))"

record assembled_book =
  am_master :: audio_file
  am_duration_ms :: int
  am_chapters :: "master_chapter_mark list"

definition assemble_audiobook_master ::
  "('q, 's) assembly_deps \<Rightarrow> chapter_master list \<Rightarrow> 's \<Rightarrow> thrown + assembled_book" where
  "assemble_audiobook_master dp cs s =
     bindE (download_chapters dp s 0 cs) (\<lambda>downloaded.
     bindE (trim_gains dp (mean_lufs downloaded) 0 downloaded) (\<lambda>pieces.
     let outp = tmp_file dp ''audiobook-master.wav''; marks = mark_chapters 0 pieces in
     bindE (concat_demux_copy (ad_tool dp) (tmp_file dp ''audiobook-list.txt'') (map dc_file pieces) outp) (\<lambda>master.
     bindE (assert_starts marks) (\<lambda>_.
     bindE (probe_audio (ad_tool dp) (outp, master)) (\<lambda>probed.
     Inr \<lparr> am_master = (outp, master), am_duration_ms = pb_duration_ms probed, am_chapters = marks \<rparr>)))))"

subsection \<open>Encode jobs\<close>

definition is_delivery_format_ready :: "string \<Rightarrow> string \<Rightarrow> nat \<Rightarrow> rendition list \<Rightarrow> bool" where
  "is_delivery_format_ready audiobook_id format n t =
     (if format = ''MP3_PER_CHAPTER''
      then count_rows (\<lambda>r. rn_audiobook_id r = audiobook_id \<and> rn_format r = ''MP3_PER_CHAPTER'' \<and> rn_status r = RnReady
        \<and> rn_chapter_id r \<noteq> None) t = n
      else find_row (\<lambda>r. rn_audiobook_id r = audiobook_id \<and> rn_format r = format \<and> rn_status r = RnReady
        \<and> rn_chapter_id r = None) t \<noteq> None)"

definition encode_payload :: "string \<Rightarrow> string \<Rightarrow> json" where
  "encode_payload audiobook_id format = JObj [(''audiobook_id'', JStr audiobook_id), (''format'', JStr format)]"

definition encode_job :: "assembly_env \<Rightarrow> string \<Rightarrow> job \<Rightarrow> string \<Rightarrow> string \<Rightarrow> job" where
  "encode_job ev i j audiobook_id format =
     audio_job ev i j (''encode_delivery_format'', ''audiobook'', audiobook_id) (Some (jb_id j))
       (JObj [(''format'', JStr format)])
       (''encode_delivery_format:'' @ audiobook_id @ '':'' @ format, audiobook_id @ '':'' @ format)
       (audio_envelope i j (encode_payload audiobook_id format))"

text \<open>One row, then its dispatch, format after format: no transaction spans the formats.\<close>

fun enqueue_encode_jobs ::
  "('q, 's) assembly_deps \<Rightarrow> assembly_env \<Rightarrow> nat \<Rightarrow> job \<Rightarrow> string \<Rightarrow> string list \<Rightarrow> ('q, 'r, 's) assembly_world
     \<Rightarrow> (thrown + unit) \<times> ('q, 'r, 's) assembly_world" where
  "enqueue_encode_jobs dp ev n j audiobook_id [] = returnE ()"
| "enqueue_encode_jobs dp ev n j audiobook_id (format # rest) =
     (let k = encode_job ev (ye_id ev n) j audiobook_id format in
      seqE (aw_jobs (create_row job_clash k)) (\<lambda>_.
      seqE (dispatch_audio (ad_broker dp) (ye_now ev)
        \<lparr> ea_processing_job_id = jb_id k, ea_queue = ''audio'', ea_envelope = the (jb_envelope k),
          ea_job_name = ''encode_delivery_format'', ea_max_attempts = 3, ea_priority = None \<rparr>) (\<lambda>_.
      enqueue_encode_jobs dp ev (Suc n) j audiobook_id rest)))"

subsection \<open>Failures\<close>

definition handle_audiobook_assembly_failure ::
  "assembly_env \<Rightarrow> job \<Rightarrow> string \<Rightarrow> string \<Rightarrow> string \<Rightarrow> ('q, 'r, 's) assembly_world
     \<Rightarrow> (thrown + unit) \<times> ('q, 'r, 's) assembly_world" where
  "handle_audiobook_assembly_failure ev j ecode ecls message = record_assembly_failure ev [FAILED, SUCCEEDED] j
     ecode ecls message (returnE ()) (job_failed_draft j ecode ecls ecode [])"

definition handle_audiobook_not_ready ::
  "assembly_env \<Rightarrow> job \<Rightarrow> ('q, 'r, 's) assembly_world \<Rightarrow> (thrown + unit) \<times> ('q, 'r, 's) assembly_world" where
  "handle_audiobook_not_ready ev j = handle_audiobook_assembly_failure ev j ''CHAPTER_MANIFEST_INCOMPLETE'' ''ConflictError''
     ''Not every current chapter of this book has a current ASSEMBLED ChapterAudio yet.''"

subsection \<open>The rows\<close>

definition current_audio :: "chapter_row \<Rightarrow> chapter_audio list \<Rightarrow> chapter_audio option" where
  "current_audio c t = find_row (\<lambda>a. ca_chapter_id a = cr_id c \<and> ca_current a \<and> ca_status a = CaAssembled) t"

definition ordered_chapter_audios :: "string \<Rightarrow> ('q, 'r, 's) assembly_world \<Rightarrow> (chapter_row \<times> chapter_audio option) list" where
  "ordered_chapter_audios v w = map (\<lambda>c. (c, current_audio c (aw_chapter_audios w))) (version_chapters v (iw_chapters w))"

definition chapter_manifest :: "chapter_master list \<Rightarrow> string list" where
  "chapter_manifest cs = map (\<lambda>(c, a). manifest_line (ca_id a) (so_hash (ca_object a))) cs"

definition supersede_audiobook :: "int \<Rightarrow> audiobook \<Rightarrow> audiobook" where
  "supersede_audiobook now a = a\<lparr> ab_current := False, ab_superseded_at := Some now \<rparr>"

record audiobook_source =
  as_book :: book
  as_version :: book_version
  as_story_bible :: string
  as_tts_models :: "string list"
  as_tool_model :: string
  as_number :: nat
  as_formats :: "string list"
  as_manifest_hash :: string

definition audiobook_row ::
  "assembly_env \<Rightarrow> job \<Rightarrow> audiobook_source \<Rightarrow> chapter_master list \<Rightarrow> assembled_book \<Rightarrow> stored_object \<Rightarrow> audiobook" where
  "audiobook_row ev j src cs assembled obj =
     \<lparr> ab_id = ye_id ev 0, ab_tenant_id = jb_tenant_id j, ab_book_id = the (jb_book_id j), ab_book_version = bv_id (as_version src),
       ab_version = as_number src, ab_supersedes = None, ab_current = True, ab_superseded_at = None, ab_preview = False,
       ab_status = AbAssembling, ab_container = hd (as_formats src), ab_duration_ms = am_duration_ms assembled,
       ab_chapter_count = length cs, ab_info = bk_info (as_book src), ab_narrator = None, ab_disclosed = True,
       ab_cover = None, ab_wer = JNull, ab_chunks_flagged = 0, ab_asr_coverage = JNull,
       ab_pipeline_version = ASSEMBLY_PIPELINE_VERSION, ab_director_version = ca_director_version (snd (hd cs)),
       ab_tts_models = as_tts_models src, ab_tool_model = as_tool_model src, ab_source_hash = bv_content_hash (as_version src),
       ab_story_bible = as_story_bible src, ab_manifest_hash = as_manifest_hash src, ab_job_id = Some (jb_id j),
       ab_object = obj, ab_created = ye_now ev \<rparr>"

definition book_chapter_rows :: "string \<Rightarrow> string \<Rightarrow> master_chapter_mark list \<Rightarrow> audiobook_chapter list" where
  "book_chapter_rows audiobook_id book_id ms = map (\<lambda>(i, m). \<lparr> xc_audiobook_id = audiobook_id, xc_order = i,
     xc_chapter_id = mk_chapter_id m, xc_chapter_audio_id = mk_audio_id m, xc_book_id = book_id, xc_title = mk_title m,
     xc_start_ms = mk_start_ms m, xc_duration_ms = mk_duration_ms m \<rparr>) (enumerate 0 ms)"

definition audiobook_started_draft :: "job \<Rightarrow> audiobook \<Rightarrow> outbox_draft" where
  "audiobook_started_draft j a =
     ingestion_draft j ''audiobook.assembly_started'' (jb_book_id j) ''audiobook'' (ab_id a)
       (JObj [(''audiobook_id'', JStr (ab_id a)), (''book_version_id'', JStr (ab_book_version a)),
         (''chapter_count'', JNum (int (ab_chapter_count a))), (''container_format'', JStr (ab_container a))])"

definition persist_audiobook ::
  "assembly_env \<Rightarrow> job \<Rightarrow> audiobook \<Rightarrow> master_chapter_mark list \<Rightarrow> ('q, 'r, 's) assembly_world
     \<Rightarrow> (thrown + unit) \<times> ('q, 'r, 's) assembly_world" where
  "persist_audiobook ev j a ms = with_transaction (
     seqE (doE (\<lambda>w. w\<lparr> aw_audiobooks := update_where (\<lambda>b. ab_book_id b = ab_book_id a \<and> ab_current b)
        (supersede_audiobook (ye_now ev)) (aw_audiobooks w) \<rparr>)) (\<lambda>_.
     seqE (on_audiobooks (create_audiobook a)) (\<lambda>_.
     seqE (on_book_chapters (create_many book_chapter_clash (book_chapter_rows (ab_id a) (ab_book_id a) ms))) (\<lambda>_.
     seqE (update_own_job (jb_id j) (assembled_patch (ye_now ev) (Some ''DONE'') ''audiobook'' (ab_id a) (ab_version a))) (\<lambda>_.
     add_outbox ev 0 (audiobook_started_draft j a))))))"

subsection \<open>The handler\<close>

definition read_version :: "string \<Rightarrow> ('q, 'r, 's) assembly_world \<Rightarrow> thrown + book_version" where
  "read_version v w = (case find_row (\<lambda>b. bv_id b = v) (iw_versions w) of
     Some b \<Rightarrow> Inr b | None \<Rightarrow> Inl (CodedErr ''P2025'' ''No BookVersion found''))"

definition read_story_bible :: "string \<Rightarrow> ('q, 'r, 's) assembly_world \<Rightarrow> thrown + string" where
  "read_story_bible book_id w =
     (case sort_key sc_sequence (filter (\<lambda>c. sc_book_id c = book_id \<and> sc_current c) (aw_script_chunks w)) of
        [] \<Rightarrow> Inl (OtherErr (''No AudioScriptChunk found for book '' @ book_id @ '' to resolve storyBibleVersionId''))
      | c # _ \<Rightarrow> Inr (sc_story_bible c))"

definition tts_models_of :: "chapter_master list \<Rightarrow> ('q, 'r, 's) assembly_world \<Rightarrow> string list" where
  "tts_models_of cs w = js_set (map ac_tts_model
     (filter (\<lambda>a. ac_chapter_id a \<in> set (map (cr_id \<circ> fst) cs) \<and> ac_current a) (aw_audio_chunks w)))"

definition audiobook_source_of ::
  "('q, 's) assembly_deps \<Rightarrow> job \<Rightarrow> book \<Rightarrow> string \<Rightarrow> chapter_master list \<Rightarrow> string list \<Rightarrow> string
     \<Rightarrow> ('q, 'r, 's) assembly_world \<Rightarrow> thrown + audiobook_source" where
  "audiobook_source_of dp j b v cs formats hash w =
     bindE (resolve_audio_tool_model_version_id dp) (\<lambda>tool_model.
     bindE (read_version v w) (\<lambda>version.
     bindE (read_story_bible (bk_id b) w) (\<lambda>bible.
     Inr \<lparr> as_book = b, as_version = version, as_story_bible = bible, as_tts_models = tts_models_of cs w,
       as_tool_model = tool_model,
       as_number = next_number (map ab_version (filter (\<lambda>a. ab_book_id a = bk_id b) (aw_audiobooks w))),
       as_formats = formats, as_manifest_hash = hash \<rparr>)))"

definition build_master ::
  "('q, 's) assembly_deps \<Rightarrow> assembly_env \<Rightarrow> job \<Rightarrow> book \<Rightarrow> string \<Rightarrow> chapter_master list \<Rightarrow> string list \<Rightarrow> string
     \<Rightarrow> ('q, 'r, 's) assembly_world \<Rightarrow> (thrown + audiobook) \<times> ('q, 'r, 's) assembly_world" where
  "build_master dp ev j b v cs formats hash =
     seqE (readE (audiobook_source_of dp j b v cs formats hash)) (\<lambda>src.
     seqE (readE (\<lambda>w. build_storage_key (jb_tenant_id j)
        [''books'', bk_id b, ''audiobook'', ''v'' @ show_nat (as_number src) @ ''-master.wav''])) (\<lambda>key.
     seqE (readE (\<lambda>w. assemble_audiobook_master dp cs (iw_store w))) (\<lambda>assembled.
     seqE (put_wav dp key (snd (am_master assembled)) ''audio/wav'') (\<lambda>meta.
     let a = audiobook_row ev j src cs assembled (object_of (ye_now ev) key meta) in
     seqE (persist_audiobook ev j a (am_chapters assembled)) (\<lambda>_. returnE a)))))"

text \<open>The body of the \<open>try\<close> block: the master is built and committed, then the encode jobs.\<close>

definition build_audiobook ::
  "('q, 's) assembly_deps \<Rightarrow> assembly_env \<Rightarrow> job \<Rightarrow> book \<Rightarrow> string \<Rightarrow> chapter_master list \<Rightarrow> string list \<Rightarrow> string
     \<Rightarrow> ('q, 'r, 's) assembly_world \<Rightarrow> (thrown + unit) \<times> ('q, 'r, 's) assembly_world" where
  "build_audiobook dp ev j b v cs formats hash =
     seqE (build_master dp ev j b v cs formats hash) (\<lambda>a. enqueue_encode_jobs dp ev 1 j (ab_id a) formats)"

definition run_audiobook_assembly ::
  "('q, 's) assembly_deps \<Rightarrow> assembly_env \<Rightarrow> job \<Rightarrow> book \<Rightarrow> string \<Rightarrow> chapter_master list \<Rightarrow> string list \<Rightarrow> string
     \<Rightarrow> ('q, 'r, 's) assembly_world \<Rightarrow> (thrown + unit) \<times> ('q, 'r, 's) assembly_world" where
  "run_audiobook_assembly dp ev j b v cs formats hash = seqE (mark_running ev ''ASSEMBLING'' j) (\<lambda>_ w.
     (case build_audiobook dp ev j b v cs formats hash w of
        (Inr u, w') \<Rightarrow> (Inr u, w')
      | (Inl err, w') \<Rightarrow> seqE (handle_audiobook_assembly_failure ev j (error_code_of err ''AUDIOBOOK_ASSEMBLY_FAILED'')
           (error_class_of dp err) (error_message err)) (\<lambda>_. throwE err) w'))"

text \<open>The audiobook of the same chapters, the newest that neither failed nor was superseded.\<close>

definition same_audiobook :: "string \<Rightarrow> string \<Rightarrow> audiobook list \<Rightarrow> audiobook option" where
  "same_audiobook v hash t = find_row (\<lambda>a. True) (rev (sort_key ab_version
     (filter (\<lambda>a. ab_book_version a = v \<and> ab_manifest_hash a = hash \<and> ab_status a \<notin> {AbFailed, AbSuperseded}) t)))"

definition resume_packaging ::
  "('q, 's) assembly_deps \<Rightarrow> assembly_env \<Rightarrow> job \<Rightarrow> audiobook \<Rightarrow> string list \<Rightarrow> ('q, 'r, 's) assembly_world
     \<Rightarrow> (thrown + unit) \<times> ('q, 'r, 's) assembly_world" where
  "resume_packaging dp ev j existing missing =
     seqE (with_transaction (update_own_job (jb_id j)
        (assembled_patch (ye_now ev) None ''audiobook'' (ab_id existing) (ab_version existing)))) (\<lambda>_.
     enqueue_encode_jobs dp ev 1 j (ab_id existing) missing)"

definition assemble_audiobook ::
  "('q, 's) assembly_deps \<Rightarrow> assembly_env \<Rightarrow> job \<Rightarrow> book \<Rightarrow> string list \<Rightarrow> ('q, 'r, 's) assembly_world
     \<Rightarrow> (thrown + unit) \<times> ('q, 'r, 's) assembly_world" where
  "assemble_audiobook dp ev j b formats w =
     (case check_audiobook_readiness (bk_id b) w of
        (True, Some v) \<Rightarrow>
          let cs = ordered_chapter_audios v w; masters = map (\<lambda>(c, a). (c, the a)) cs;
              versions = js_set (map (ca_director_version \<circ> snd) masters)
          in if list_ex (\<lambda>p. snd p = None) cs then handle_audiobook_not_ready ev j w
             else if length versions > 1
             then handle_audiobook_assembly_failure ev j ''DIRECTOR_VERSION_MIXING_FORBIDDEN'' ''ConflictError''
               (''Book''@ [quote_char] @ ''s chapters span multiple Director versions: '' @ join_with '', '' versions @ ''.'') w
             else let hash = compute_manifest_hash (ad_sha256 dp) (chapter_manifest masters) in
               (case same_audiobook v hash (aw_audiobooks w) of
                  Some existing \<Rightarrow> resume_packaging dp ev j existing
                    (filter (\<lambda>f. \<not> is_delivery_format_ready (ab_id existing) f (length masters) (aw_renditions w)) formats) w
                | None \<Rightarrow> run_audiobook_assembly dp ev j b v masters formats hash w)
      | _ \<Rightarrow> handle_audiobook_not_ready ev j w)"

definition process_assemble_audiobook_job ::
  "('q, 's) assembly_deps \<Rightarrow> assembly_env \<Rightarrow> json \<Rightarrow> ('q, 'r, 's) assembly_world
     \<Rightarrow> (thrown + unit) \<times> ('q, 'r, 's) assembly_world" where
  "process_assemble_audiobook_job dp ev envelope w =
     (if \<not> truthy (str_field envelope ''entity_id'')
      then (Inl (OtherErr ''assemble_audiobook envelope is missing entity_id (the ProcessingJob id)''), w)
      else let i = the (str_field envelope ''entity_id'') in
      (case find_job i (db_jobs w) of
         None \<Rightarrow> (Inl (OtherErr (''ProcessingJob '' @ i @ '' not found'')), w)
       | Some j \<Rightarrow>
           if jb_status j = SUCCEEDED \<or> jb_status j = FAILED then (Inr (), w)
           else if \<not> truthy (jb_book_id j) then (Inl (OtherErr (''ProcessingJob '' @ i @ '' has no bookId'')), w)
           else let formats = (case json_field envelope ''payload'' of
                  Some p \<Rightarrow> string_items (array_field p ''delivery_formats'') | None \<Rightarrow> []) in
           if formats = [] then (Inl (OtherErr (''assemble_audiobook envelope for job '' @ i @ '' has no delivery_formats'')), w)
           else (case find_row (\<lambda>b. bk_id b = the (jb_book_id j)) (iw_books w) of
              None \<Rightarrow> (Inl (OtherErr (''Book '' @ the (jb_book_id j) @ '' not found'')), w)
            | Some b \<Rightarrow> assemble_audiobook dp ev j b formats w)))"

end
