(* ===== verification/EncodeFormat.thy ===== *)
theory EncodeFormat
  imports AssembleAudiobook
begin

text \<open>
  \<open>apps/worker-cpu/src/processors/assembly-encode.ts\<close>: the consumer of \<open>encode_delivery_format\<close>.
  The master is encoded into the requested format, the artefact is probed and verified, stored, and its
  rendition becomes \<open>READY\<close>; when every requested format is, the audiobook is published.
\<close>

definition DURATION_TOLERANCE_MS :: int where
  "DURATION_TOLERANCE_MS = 75"

definition CHAPTER_MARKER_TOLERANCE_MS :: int where
  "CHAPTER_MARKER_TOLERANCE_MS = 75"

subsection \<open>Tags and verification\<close>

definition build_metadata_args :: "book_info \<Rightarrow> string option \<Rightarrow> nat option \<Rightarrow> string list" where
  "build_metadata_args info chapter_title track =
     [''-metadata'', ''title='' @ (case chapter_title of Some t \<Rightarrow> t | None \<Rightarrow> bm_title info)]
     @ (if truthy (bm_author info) then [''-metadata'', ''artist='' @ the (bm_author info)] else [])
     @ [''-metadata'', ''album='' @ bm_title info]
     @ (case track of Some n \<Rightarrow> [''-metadata'', ''track='' @ show_nat n] | None \<Rightarrow> [])"

definition extension_for_mime_type :: "string \<Rightarrow> string" where
  "extension_for_mime_type m = (if m = ''image/png'' then ''png'' else ''jpg'')"

definition probe_format_tags :: "audio_tool \<Rightarrow> audio_file \<Rightarrow> thrown + (string \<times> json) list" where
  "probe_format_tags tool file =
     bindE (run_ffprobe tool [''-v'', ''error'', ''-print_format'', ''json'', ''-show_format'', fst file] [file]) (\<lambda>r.
     bindE (json_parsed (xr_stdout r)) (\<lambda>parsed. Inr (case json_field parsed ''format'' of
        Some f \<Rightarrow> (case json_field f ''tags'' of Some (JObj es) \<Rightarrow> es | _ \<Rightarrow> []) | None \<Rightarrow> [])))"

text \<open>Tag names are compared without case.\<close>

definition get_tag :: "(string \<times> json) list \<Rightarrow> string \<Rightarrow> json option" where
  "get_tag tags key = map_option snd (find_row (\<lambda>(k, v). to_lower k = to_lower key) tags)"

definition normalize_tag :: "json option \<Rightarrow> thrown + string" where
  "normalize_tag v = (case v of
     None \<Rightarrow> Inr [] | Some JNull \<Rightarrow> Inr [] | Some (JStr s) \<Rightarrow> Inr (trim s)
   | Some _ \<Rightarrow> Inl (OtherErr ''(value ?? \"\").trim is not a function''))"

definition attached_pic :: "json \<Rightarrow> bool" where
  "attached_pic s \<longleftrightarrow> str_field s ''codec_type'' = Some ''video''
     \<and> (case json_field s ''disposition'' of Some d \<Rightarrow> json_field d ''attached_pic'' = Some (JNum 1) | None \<Rightarrow> False)"

definition probe_has_attached_pic :: "audio_tool \<Rightarrow> audio_file \<Rightarrow> thrown + bool" where
  "probe_has_attached_pic tool file =
     bindE (run_ffprobe tool [''-v'', ''error'', ''-print_format'', ''json'', ''-show_streams'', fst file] [file]) (\<lambda>r.
     bindE (json_parsed (xr_stdout r)) (\<lambda>parsed. Inr (list_ex attached_pic (array_field parsed ''streams''))))"

definition marker_error :: "nat \<Rightarrow> string \<Rightarrow> int \<Rightarrow> int \<Rightarrow> thrown" where
  "marker_error i what expected got = OtherErr (''M4B chapter '' @ show_nat i @ '' '' @ what @ '' mismatch: expected ''
     @ show_int expected @ ''ms, got '' @ show_int got @ ''ms'')"

fun verify_markers_from :: "nat \<Rightarrow> probe_chapter list \<Rightarrow> audiobook_chapter list \<Rightarrow> thrown + unit" where
  "verify_markers_from i (got # gots) (want # wants) =
     (let expected_end = xc_start_ms want + xc_duration_ms want in
      if \<bar>pc_start_ms got - xc_start_ms want\<bar> > CHAPTER_MARKER_TOLERANCE_MS
      then Inl (marker_error i ''start'' (xc_start_ms want) (pc_start_ms got))
      else if \<bar>pc_end_ms got - expected_end\<bar> > CHAPTER_MARKER_TOLERANCE_MS
      then Inl (marker_error i ''end'' expected_end (pc_end_ms got))
      else verify_markers_from (Suc i) gots wants)"
| "verify_markers_from i _ _ = Inr ()"

definition verify_chapter_markers :: "probe_chapter list \<Rightarrow> audiobook_chapter list \<Rightarrow> thrown + unit" where
  "verify_chapter_markers probed expected = (if length probed \<noteq> length expected
     then Inl (OtherErr (''M4B chapter marker count mismatch: expected '' @ show_nat (length expected) @ '', got '' @ show_nat (length probed)))
     else verify_markers_from 0 probed expected)"

definition verify_duration :: "string \<Rightarrow> int \<Rightarrow> probe_result \<Rightarrow> thrown + unit" where
  "verify_duration what expected probed = (if \<bar>pb_duration_ms probed - expected\<bar> > DURATION_TOLERANCE_MS
     then Inl (OtherErr (what @ '': expected ~'' @ show_int expected @ ''ms, got '' @ show_int (pb_duration_ms probed) @ ''ms''))
     else Inr ())"

subsection \<open>Renditions\<close>

definition matches_current_policy :: "json option \<Rightarrow> bool" where
  "matches_current_policy p = (case p of None \<Rightarrow> False
     | Some j \<Rightarrow> str_field j ''policy_version'' = Some (pk_version PACKAGING_POLICY_V1))"

definition ready_rendition :: "string \<Rightarrow> string \<Rightarrow> rendition \<Rightarrow> bool" where
  "ready_rendition audiobook_id format r \<longleftrightarrow> rn_audiobook_id r = audiobook_id \<and> rn_format r = format \<and> rn_status r = RnReady"

definition is_format_fully_ready :: "string \<Rightarrow> string \<Rightarrow> nat \<Rightarrow> rendition list \<Rightarrow> bool" where
  "is_format_fully_ready audiobook_id format n t =
     (if format = ''MP3_PER_CHAPTER''
      then let rows = filter (\<lambda>r. ready_rendition audiobook_id format r \<and> rn_chapter_id r \<noteq> None) t
           in length rows = n \<and> list_all (\<lambda>r. matches_current_policy (rn_encode_params r)) rows
      else (case find_row (\<lambda>r. ready_rendition audiobook_id format r \<and> rn_chapter_id r = None) t of
              None \<Rightarrow> False | Some r \<Rightarrow> matches_current_policy (rn_encode_params r)))"

definition rendition_row ::
  "audiobook \<Rightarrow> string \<Rightarrow> string \<Rightarrow> string option \<Rightarrow> nat \<Rightarrow> int \<Rightarrow> string \<Rightarrow> stored_object \<Rightarrow> rendition" where
  "rendition_row a i format chapter_id bitrate duration tool_model obj =
     \<lparr> rn_id = i, rn_tenant_id = ab_tenant_id a, rn_book_id = ab_book_id a, rn_audiobook_id = ab_id a, rn_format = format,
       rn_chapter_id = chapter_id, rn_bitrate = bitrate, rn_sample_rate = pk_sample_rate PACKAGING_POLICY_V1,
       rn_channels = mp_channels MASTERING_POLICY_V1, rn_duration_ms = duration, rn_tool_model = tool_model,
       rn_encode_params = Some (JObj [(''policy_version'', JStr (pk_version PACKAGING_POLICY_V1))]),
       rn_status = RnReady, rn_object = obj \<rparr>"

definition upsert_rendition :: "rendition \<Rightarrow> rendition list \<Rightarrow> thrown + rendition list" where
  "upsert_rendition r t =
     (case find_row (\<lambda>s. rn_audiobook_id s = rn_audiobook_id r \<and> rn_format s = rn_format r \<and> rn_chapter_id s = rn_chapter_id r) t of
        Some s \<Rightarrow> if rendition_check r then Inr (update_where (\<lambda>u. rn_id u = rn_id s) (\<lambda>u. r\<lparr> rn_id := rn_id u \<rparr>) t)
                  else Inl (check_failed ''audiobook_rendition_mp3_per_chapter_chk'')
      | None \<Rightarrow> create_rendition r t)"

subsection \<open>One file for the book\<close>

definition book_chapters :: "string \<Rightarrow> ('q, 'r, 's) assembly_world \<Rightarrow> audiobook_chapter list" where
  "book_chapters i w = sort_key xc_order (filter (\<lambda>c. xc_audiobook_id c = i) (aw_book_chapters w))"

definition ffmetadata_file :: "('q, 's) assembly_deps \<Rightarrow> audiobook \<Rightarrow> audiobook_chapter list \<Rightarrow> audio_file option" where
  "ffmetadata_file dp a cs = (if cs = [] then None else
     Some (tmp_file dp ''chapters.ffmetadata.txt'', utf8_encode (build_ffmetadata_chapters
       [(''title'', bm_title (ab_info a)), (''artist'', (case bm_author (ab_info a) of Some s \<Rightarrow> s | None \<Rightarrow> [])), (''album'', bm_title (ab_info a))]
       (map (\<lambda>c. \<lparr> fc_title = xc_title c, fc_start_ms = xc_start_ms c, fc_end_ms = xc_start_ms c + xc_duration_ms c \<rparr>) cs))))"

text \<open>The cover is embedded in an \<open>M4B\<close> only.\<close>

definition cover_file ::
  "('q, 's) assembly_deps \<Rightarrow> audiobook \<Rightarrow> string \<Rightarrow> ('q, 'r, 's) assembly_world \<Rightarrow> thrown + audio_file option" where
  "cover_file dp a format w = (if format = ''M4B'' \<and> truthy (ab_cover a)
     then (case find_row (\<lambda>c. Some (co_id c) = ab_cover a) (aw_covers w) of
             None \<Rightarrow> Inr None
           | Some c \<Rightarrow> bindE (download_to_file dp (so_key (co_object c)) (tmp_file dp (''cover.'' @ extension_for_mime_type (co_mime c)))
               (iw_store w)) (\<lambda>f. Inr (Some f)))
     else Inr None)"

definition output_ext :: "string \<Rightarrow> string" where
  "output_ext format = (if format = ''M4B'' then ''m4b'' else ''m4a'')"

definition aac_bitrate_of :: "string \<Rightarrow> nat" where
  "aac_bitrate_of format = (if format = ''M4B'' then pk_m4b_kbps PACKAGING_POLICY_V1 else pk_m4a_kbps PACKAGING_POLICY_V1)"

text \<open>Everything that is checked of the artefact before it is published.\<close>

definition verify_single_file ::
  "audio_tool \<Rightarrow> audiobook \<Rightarrow> audiobook_chapter list \<Rightarrow> string \<Rightarrow> bool \<Rightarrow> audio_file \<Rightarrow> thrown + probe_result" where
  "verify_single_file tool a cs format covered file =
     bindE (probe_audio tool file) (\<lambda>probed.
     bindE (verify_duration (format @ '' duration mismatch'') (ab_duration_ms a) probed) (\<lambda>_.
     bindE (if cs = [] then Inr () else bindE (probe_chapters tool file) (\<lambda>ps. verify_chapter_markers ps cs)) (\<lambda>_.
     bindE (probe_format_tags tool file) (\<lambda>tags.
     bindE (normalize_tag (get_tag tags ''title'')) (\<lambda>title.
     if title \<noteq> trim (bm_title (ab_info a))
     then Inl (OtherErr (format @ '' metadata verification failed: title tag did not round-trip''))
     else bindE (if covered then probe_has_attached_pic tool file else Inr True) (\<lambda>art.
       if art then Inr probed
       else Inl (OtherErr (format @ '' verification failed: expected embedded cover art, found none''))))))))"

definition encode_artefact ::
  "('q, 's) assembly_deps \<Rightarrow> audio_file \<Rightarrow> audiobook \<Rightarrow> audiobook_chapter list \<Rightarrow> string \<Rightarrow> ('q, 'r, 's) assembly_world
     \<Rightarrow> thrown + bytes \<times> probe_result" where
  "encode_artefact dp master a cs format w =
     (let outp = tmp_file dp (''output.'' @ output_ext format) in
      bindE (cover_file dp a format w) (\<lambda>art.
      bindE (encode_aac (ad_tool dp) master outp
        \<lparr> aac_bitrate = aac_bitrate_of format, aac_sample_rate = pk_sample_rate PACKAGING_POLICY_V1,
          aac_channels = mp_channels MASTERING_POLICY_V1, aac_metadata_args = build_metadata_args (ab_info a) None None,
          aac_ffmetadata = ffmetadata_file dp a cs, aac_cover = art \<rparr>) (\<lambda>b.
      bindE (verify_single_file (ad_tool dp) a cs format (art \<noteq> None) (outp, b)) (\<lambda>probed. Inr (b, probed)))))"

definition encode_single_file_format ::
  "('q, 's) assembly_deps \<Rightarrow> assembly_env \<Rightarrow> audio_file \<Rightarrow> audiobook \<Rightarrow> audiobook_chapter list \<Rightarrow> string \<Rightarrow> string
     \<Rightarrow> ('q, 'r, 's) assembly_world \<Rightarrow> (thrown + unit) \<times> ('q, 'r, 's) assembly_world" where
  "encode_single_file_format dp ev master a cs format tool_model =
     seqE (readE (encode_artefact dp master a cs format)) (\<lambda>(b, probed).
     seqE (readE (\<lambda>w. build_storage_key (ab_tenant_id a) [''books'', ab_book_id a, ''audiobook'', ''v'' @ show_nat (ab_version a),
        output_ext format, ''delivery.'' @ output_ext format])) (\<lambda>key.
     seqE (put_wav dp key b ''audio/mp4'') (\<lambda>meta.
     on_renditions (upsert_rendition (rendition_row a (ye_id ev 0) format None (aac_bitrate_of format) (pb_duration_ms probed)
        tool_model (object_of (ye_now ev) key meta))))))"

subsection \<open>One file per chapter\<close>

definition pad4 :: "string \<Rightarrow> string" where
  "pad4 s = replicate (4 - length s) (CHR ''0'') @ s"

definition chapter_done :: "string \<Rightarrow> string \<Rightarrow> rendition list \<Rightarrow> bool" where
  "chapter_done audiobook_id chapter_id t =
     (case find_row (\<lambda>r. ready_rendition audiobook_id ''MP3_PER_CHAPTER'' r \<and> rn_chapter_id r = Some chapter_id) t of
        Some r \<Rightarrow> matches_current_policy (rn_encode_params r) | None \<Rightarrow> False)"

definition encode_chapter_clip ::
  "('q, 's) assembly_deps \<Rightarrow> audio_file \<Rightarrow> audiobook \<Rightarrow> nat \<Rightarrow> audiobook_chapter \<Rightarrow> thrown + bytes \<times> probe_result" where
  "encode_chapter_clip dp master a i c =
     (let clip = tmp_file dp (''chapter-'' @ show_nat i @ ''.wav''); outp = tmp_file dp (''chapter-'' @ show_nat i @ ''.mp3'') in
      bindE (trim_and_convert (ad_tool dp) master clip (Some (of_int (xc_start_ms c) / 1000))
        (Some (of_int (xc_start_ms c + xc_duration_ms c) / 1000)) canonical_pcm) (\<lambda>wav.
      bindE (encode_mp3 (ad_tool dp) (clip, wav) outp (pk_mp3_kbps PACKAGING_POLICY_V1) (pk_sample_rate PACKAGING_POLICY_V1)
        (build_metadata_args (ab_info a) (xc_title c) (Some (i + 1)))) (\<lambda>b.
      bindE (probe_audio (ad_tool dp) (outp, b)) (\<lambda>probed.
      bindE (verify_duration (''MP3_PER_CHAPTER duration mismatch for chapter '' @ xc_chapter_id c) (xc_duration_ms c) probed) (\<lambda>_.
      Inr (b, probed))))))"

definition encode_chapter ::
  "('q, 's) assembly_deps \<Rightarrow> assembly_env \<Rightarrow> audio_file \<Rightarrow> audiobook \<Rightarrow> string \<Rightarrow> nat \<Rightarrow> audiobook_chapter
     \<Rightarrow> ('q, 'r, 's) assembly_world \<Rightarrow> (thrown + unit) \<times> ('q, 'r, 's) assembly_world" where
  "encode_chapter dp ev master a tool_model i c w =
     (if chapter_done (ab_id a) (xc_chapter_id c) (aw_renditions w) then (Inr (), w)
      else seqE (readE (\<lambda>w. encode_chapter_clip dp master a i c)) (\<lambda>(b, probed).
           seqE (readE (\<lambda>w. build_storage_key (ab_tenant_id a) [''books'', ab_book_id a, ''audiobook'', ''v'' @ show_nat (ab_version a),
              ''mp3'', ''chapter-'' @ pad4 (show_nat (i + 1)) @ ''.mp3''])) (\<lambda>key.
           seqE (put_wav dp key b ''audio/mpeg'') (\<lambda>meta.
           on_renditions (upsert_rendition (rendition_row a (ye_id ev i) ''MP3_PER_CHAPTER'' (Some (xc_chapter_id c))
              (pk_mp3_kbps PACKAGING_POLICY_V1) (pb_duration_ms probed) tool_model (object_of (ye_now ev) key meta)))))) w)"

fun encode_mp3_per_chapter ::
  "('q, 's) assembly_deps \<Rightarrow> assembly_env \<Rightarrow> audio_file \<Rightarrow> audiobook \<Rightarrow> string \<Rightarrow> nat \<Rightarrow> audiobook_chapter list
     \<Rightarrow> ('q, 'r, 's) assembly_world \<Rightarrow> (thrown + unit) \<times> ('q, 'r, 's) assembly_world" where
  "encode_mp3_per_chapter dp ev master a tool_model i [] = returnE ()"
| "encode_mp3_per_chapter dp ev master a tool_model i (c # cs) =
     seqE (encode_chapter dp ev master a tool_model i c) (\<lambda>_. encode_mp3_per_chapter dp ev master a tool_model (Suc i) cs)"

subsection \<open>Publication\<close>

definition sum_rendition_size_bytes :: "string \<Rightarrow> rendition list \<Rightarrow> nat" where
  "sum_rendition_size_bytes audiobook_id t =
     sum_list (map (\<lambda>r. so_size (rn_object r)) (filter (\<lambda>r. rn_audiobook_id r = audiobook_id \<and> rn_status r = RnReady) t))"

definition completed_draft :: "job \<Rightarrow> audiobook \<Rightarrow> string list \<Rightarrow> nat \<Rightarrow> outbox_draft" where
  "completed_draft j a formats total_size =
     (ingestion_draft j ''audiobook.completed'' (Some (ab_book_id a)) ''audiobook'' (ab_id a)
       (JObj [(''audiobook_id'', JStr (ab_id a)), (''version'', JNum (int (ab_version a))), (''duration_ms'', JNum (ab_duration_ms a)),
         (''size_bytes'', JNum (int total_size)), (''container_format'', JStr (if ''M4B'' \<in> set formats then ''M4B'' else hd formats)),
         (''available_formats'', JArr (map JStr formats)), (''book_wer'', ab_wer a)]))\<lparr> od_tenant_id := ab_tenant_id a \<rparr>"

definition set_audiobook_status :: "string \<Rightarrow> audiobook_status \<Rightarrow> audiobook list \<Rightarrow> thrown + audiobook list" where
  "set_audiobook_status i s t = (case find_row (\<lambda>a. ab_id a = i) t of
     None \<Rightarrow> Inl (CodedErr ''P2025'' ''Record to update not found.'')
   | Some a \<Rightarrow> if audiobook_check (a\<lparr> ab_status := s \<rparr>) then Inr (update_where (\<lambda>b. ab_id b = i) (\<lambda>b. b\<lparr> ab_status := s \<rparr>) t)
               else Inl (check_failed ''audiobook_ready_object_verified_chk''))"

definition publish_audiobook ::
  "assembly_env \<Rightarrow> job \<Rightarrow> audiobook \<Rightarrow> string list \<Rightarrow> nat \<Rightarrow> ('q, 'r, 's) assembly_world
     \<Rightarrow> (thrown + unit) \<times> ('q, 'r, 's) assembly_world" where
  "publish_audiobook ev j a formats total_size = with_transaction (\<lambda>w.
     (case find_row (\<lambda>b. ab_id b = ab_id a) (aw_audiobooks w) of
        None \<Rightarrow> (Inr (), w)
      | Some current \<Rightarrow>
          if ab_status current = AbReady then (Inr (), w)
          else seqE (on_audiobooks (set_audiobook_status (ab_id a) AbReady)) (\<lambda>_.
               seqE (if ab_book_id a = [] then returnE ()
                     else aw_books (update_book (ab_book_id a) (\<lambda>b. b\<lparr> bk_current_audiobook := Some (ab_id a), bk_updated := ye_now ev \<rparr>))) (\<lambda>_.
               add_outbox ev 0 (completed_draft j a formats total_size))) w))"

definition maybe_publish_audiobook ::
  "assembly_env \<Rightarrow> job \<Rightarrow> audiobook \<Rightarrow> ('q, 'r, 's) assembly_world \<Rightarrow> (thrown + unit) \<times> ('q, 'r, 's) assembly_world" where
  "maybe_publish_audiobook ev j a w =
     (let formats = resolve_requested_delivery_formats (ab_id a) (db_jobs w) in
      if ab_status a = AbReady \<or> formats = [] then (Inr (), w)
      else if list_all (\<lambda>f. is_format_fully_ready (ab_id a) f (ab_chapter_count a) (aw_renditions w)) formats
      then publish_audiobook ev j a formats (sum_rendition_size_bytes (ab_id a) (aw_renditions w)) w
      else (Inr (), w))"

subsection \<open>Failures\<close>

definition zero_hash :: string where
  "zero_hash = replicate 64 (CHR ''0'')"

definition failed_rendition :: "assembly_env \<Rightarrow> audiobook \<Rightarrow> string \<Rightarrow> rendition" where
  "failed_rendition ev a format =
     \<lparr> rn_id = ye_id ev 0, rn_tenant_id = ab_tenant_id a, rn_book_id = ab_book_id a, rn_audiobook_id = ab_id a, rn_format = format,
       rn_chapter_id = None, rn_bitrate = 0, rn_sample_rate = 0, rn_channels = 0, rn_duration_ms = 0,
       rn_tool_model = ab_tool_model a, rn_encode_params = None, rn_status = RnFailed,
       rn_object = \<lparr> so_key = [], so_bucket = [], so_hash = zero_hash, so_size = 0, so_verified_at = None \<rparr> \<rparr>"

definition fail_rendition :: "assembly_env \<Rightarrow> audiobook \<Rightarrow> string \<Rightarrow> rendition list \<Rightarrow> thrown + rendition list" where
  "fail_rendition ev a format t =
     (case find_row (\<lambda>r. rn_audiobook_id r = ab_id a \<and> rn_format r = format \<and> rn_chapter_id r = None) t of
        Some s \<Rightarrow> Inr (update_where (\<lambda>r. rn_id r = rn_id s) (\<lambda>r. r\<lparr> rn_status := RnFailed \<rparr>) t)
      | None \<Rightarrow> create_rendition (failed_rendition ev a format) t)"

definition fail_audiobook ::
  "audiobook \<Rightarrow> ('q, 'r, 's) assembly_world \<Rightarrow> (thrown + unit) \<times> ('q, 'r, 's) assembly_world" where
  "fail_audiobook a w = (case find_row (\<lambda>b. ab_id b = ab_id a) (aw_audiobooks w) of
     None \<Rightarrow> (Inr (), w)
   | Some current \<Rightarrow> if ab_status current = AbReady then (Inr (), w)
       else on_audiobooks (set_audiobook_status (ab_id a) AbFailed) w)"

definition handle_encode_failure ::
  "('q, 's) assembly_deps \<Rightarrow> assembly_env \<Rightarrow> job \<Rightarrow> audiobook \<Rightarrow> string \<Rightarrow> thrown \<Rightarrow> ('q, 'r, 's) assembly_world
     \<Rightarrow> (thrown + unit) \<times> ('q, 'r, 's) assembly_world" where
  "handle_encode_failure dp ev j a format err =
     (let ecode = error_code_of err ''DELIVERY_FORMAT_ENCODE_FAILED''; ecls = error_class_of dp err in
      if \<not> final_assembly_attempt ev then returnE ()
      else record_assembly_failure ev [FAILED] j ecode ecls (error_message err)
        (seqE (on_renditions (fail_rendition ev a format)) (\<lambda>_. fail_audiobook a))
        ((ingestion_draft j ''audiobook.failed'' (Some (ab_book_id a)) ''audiobook'' (ab_id a)
          (JObj [(''audiobook_id'', JStr (ab_id a)), (''error_code'', JStr ecode), (''error_class'', JStr ecls),
            (''failing_precondition'', JStr (''ENCODE_'' @ format)), (''blocking_chapter_ids'', JArr [])]))
         \<lparr> od_tenant_id := ab_tenant_id a \<rparr>))"

subsection \<open>The handler\<close>

definition encode_and_publish ::
  "('q, 's) assembly_deps \<Rightarrow> assembly_env \<Rightarrow> job \<Rightarrow> audiobook \<Rightarrow> string \<Rightarrow> ('q, 'r, 's) assembly_world
     \<Rightarrow> (thrown + unit) \<times> ('q, 'r, 's) assembly_world" where
  "encode_and_publish dp ev j a format =
     seqE (readE (\<lambda>w. resolve_audio_tool_model_version_id dp)) (\<lambda>tool_model.
     seqE (readE (\<lambda>w. Inr (book_chapters (ab_id a) w))) (\<lambda>cs.
     seqE (readE (\<lambda>w. download_to_file dp (so_key (ab_object a)) (tmp_file dp ''master.wav'') (iw_store w))) (\<lambda>master.
     seqE (if format = ''MP3_PER_CHAPTER'' then encode_mp3_per_chapter dp ev master a tool_model 0 cs
           else encode_single_file_format dp ev master a cs format tool_model) (\<lambda>_.
     seqE (with_transaction (update_own_job (jb_id j)
        (assembled_patch (ye_now ev) (Some ''DONE'') ''audiobook'' (ab_id a) (ab_version a)))) (\<lambda>_.
     maybe_publish_audiobook ev j a)))))"

definition encode_format ::
  "('q, 's) assembly_deps \<Rightarrow> assembly_env \<Rightarrow> job \<Rightarrow> audiobook \<Rightarrow> string \<Rightarrow> ('q, 'r, 's) assembly_world
     \<Rightarrow> (thrown + unit) \<times> ('q, 'r, 's) assembly_world" where
  "encode_format dp ev j a format w =
     (if is_format_fully_ready (ab_id a) format (ab_chapter_count a) (aw_renditions w)
      then seqE (with_transaction (update_own_job (jb_id j)
             (assembled_patch (ye_now ev) None ''audiobook'' (ab_id a) (ab_version a)))) (\<lambda>_. maybe_publish_audiobook ev j a) w
      else seqE (mark_running ev ''ENCODING'' j) (\<lambda>_ w.
        (case encode_and_publish dp ev j a format w of
           (Inr u, w') \<Rightarrow> (Inr u, w')
         | (Inl err, w') \<Rightarrow> seqE (handle_encode_failure dp ev j a format err) (\<lambda>_. throwE err) w')) w)"

definition process_encode_delivery_format_job ::
  "('q, 's) assembly_deps \<Rightarrow> assembly_env \<Rightarrow> json \<Rightarrow> ('q, 'r, 's) assembly_world
     \<Rightarrow> (thrown + unit) \<times> ('q, 'r, 's) assembly_world" where
  "process_encode_delivery_format_job dp ev envelope w =
     (if \<not> truthy (str_field envelope ''entity_id'')
      then (Inl (OtherErr ''encode_delivery_format envelope is missing entity_id (the ProcessingJob id)''), w)
      else let i = the (str_field envelope ''entity_id'') in
      (case find_job i (db_jobs w) of
         None \<Rightarrow> (Inl (OtherErr (''ProcessingJob '' @ i @ '' not found'')), w)
       | Some j \<Rightarrow>
           if jb_status j = SUCCEEDED \<or> jb_status j = FAILED then (Inr (), w)
           else let book = sub_field envelope ''payload'' ''audiobook_id''; format = sub_field envelope ''payload'' ''format'' in
           (case find_row (\<lambda>a. Some (ab_id a) = book) (aw_audiobooks w) of
              None \<Rightarrow> (Inl (OtherErr (''Audiobook '' @ (case book of Some b \<Rightarrow> b | None \<Rightarrow> ''undefined'') @ '' not found'')), w)
            | Some a \<Rightarrow>
                if so_key (ab_object a) = []
                then (Inl (OtherErr (''Audiobook '' @ ab_id a @ '' has no book-level master storage key'')), w)
                else encode_format dp ev j a (case format of Some f \<Rightarrow> f | None \<Rightarrow> ''undefined'') w)))"

end
