(* ===== verification/Assembly.thy ===== *)
theory Assembly
  imports AssembleAudiobook
begin

text \<open>
  \<open>apps/api/src/assembly/assembly.service.ts\<close> without the cover art: starting an assembly, its state,
  the chapter audio and the audiobooks of a book.  The collaborators are the record \<open>books_deps\<close> of
  the books service; the clock and the fresh identifiers are the record \<open>books_env\<close>.
\<close>

definition DEFAULT_DELIVERY_FORMATS :: "string list" where
  "DEFAULT_DELIVERY_FORMATS = [''M4B'']"

definition DELIVERY_FORMATS :: "string list" where
  "DELIVERY_FORMATS = [''M4B'', ''M4A'', ''MP3_PER_CHAPTER'']"

subsection \<open>Starting an assembly\<close>

datatype assembly_scope = ChapterScope | AudiobookScope

fun show_scope :: "assembly_scope \<Rightarrow> string" where
  "show_scope ChapterScope = ''CHAPTER''"
| "show_scope AudiobookScope = ''AUDIOBOOK''"

record start_assembly_body =
  sa_scope :: assembly_scope
  sa_chapter_ids :: "string list option"
  sa_formats :: "string list option"
  sa_partial :: bool
  sa_force :: bool
  sa_priority :: "string option"

definition validation_failed :: "string \<Rightarrow> thrown" where
  "validation_failed m = AppErr (ValidationError (coded ''VALIDATION_FAILED'' m))"

definition with_details :: "sub_options \<Rightarrow> (string \<times> string) list \<Rightarrow> sub_options" where
  "with_details opts ds = opts\<lparr> so_details := Some (map (\<lambda>(f, i). \<lparr> ed_field = Some f, ed_issue = i \<rparr>) ds) \<rparr>"

definition resolve_target_chapters ::
  "string \<Rightarrow> book \<Rightarrow> start_assembly_body \<Rightarrow> ('q, 'r, 's) assembly_world \<Rightarrow> thrown + chapter_row list" where
  "resolve_target_chapters book_id b body w =
     (case sa_scope body of
        ChapterScope \<Rightarrow>
          (case sa_chapter_ids body of
             Some (i # is') \<Rightarrow> Inr (sort_key cr_order
               (filter (\<lambda>c. cr_id c \<in> set (i # is') \<and> cr_book_id c = book_id) (iw_chapters w)))
           | _ \<Rightarrow> Inl (validation_failed ''chapter_ids is required for scope CHAPTER.''))
      | AudiobookScope \<Rightarrow>
          if \<not> truthy (bk_current_version b) then Inl (validation_failed ''Book has no ingested version to assemble.'')
          else Inr (version_chapters (the (bk_current_version b)) (iw_chapters w)))"

text \<open>The current script chunks of the chapters, with the audio rendered for them.\<close>

definition target_chunks :: "string list \<Rightarrow> ('q, 'r, 's) assembly_world \<Rightarrow> ordered_chunk list" where
  "target_chunks chapter_ids w = map (\<lambda>c. (c, find_audio_chunk (sc_audio c) (aw_audio_chunks w)))
     (sort_key (\<lambda>c. (sc_chapter_id c, sc_chapter_sequence c))
       (filter (\<lambda>c. sc_chapter_id c \<in> set chapter_ids \<and> sc_current c) (aw_script_chunks w)))"

definition chunks_of_chapter :: "string \<Rightarrow> ordered_chunk list \<Rightarrow> ordered_chunk list" where
  "chunks_of_chapter i cs = filter (\<lambda>p. sc_chapter_id (fst p) = i) cs"

definition chapter_complete :: "string \<Rightarrow> ordered_chunk list \<Rightarrow> bool" where
  "chapter_complete i cs \<longleftrightarrow> chunks_of_chapter i cs \<noteq> [] \<and> list_all rendered_chunk (chunks_of_chapter i cs)"

definition missing_metadata :: "book_info \<Rightarrow> string list" where
  "missing_metadata m = (if bm_title m = [] then [''title''] else [])
     @ (if truthy (bm_author m) then [] else [''author'']) @ (if bm_language m = [] then [''language''] else [])"

record assembly_plan =
  pl_book :: book
  pl_formats :: "string list"
  pl_priority :: string
  pl_assemble :: "(string \<times> string) list"
  pl_skipped :: "string list"
  pl_candidates :: "string list"
  pl_blocking :: "string list"

definition current_audio_of :: "string \<Rightarrow> chapter_audio list \<Rightarrow> chapter_audio option" where
  "current_audio_of i t = find_row (\<lambda>a. ca_chapter_id a = i \<and> ca_current a) (rev t)"

text \<open>A chapter whose current audio has the manifest of its chunks is skipped, unless forced.\<close>

definition up_to_date :: "(bytes \<Rightarrow> string) \<Rightarrow> ordered_chunk list \<Rightarrow> chapter_audio list \<Rightarrow> string \<Rightarrow> bool" where
  "up_to_date sha cs audios i = (case current_audio_of i audios of
     None \<Rightarrow> False | Some a \<Rightarrow> ca_manifest_hash a = compute_manifest_hash sha (chunk_manifest (chunks_of_chapter i cs)))"

definition check_scope :: "book \<Rightarrow> start_assembly_body \<Rightarrow> ordered_chunk list \<Rightarrow> string list \<Rightarrow> string list \<Rightarrow> thrown + unit" where
  "check_scope b body cs whole lacking =
     (let versions = js_set (map (\<lambda>p. sc_director_version (fst p)) (filter (\<lambda>p. sc_chapter_id (fst p) \<in> set whole) cs))
      in if lacking \<noteq> [] \<and> \<not> sa_partial body
         then Inl (AppErr (ConflictError (with_details (coded ''CHAPTER_MANIFEST_INCOMPLETE''
           (show_nat (length lacking) @ '' chapter(s) have an incomplete or unvalidated chunk manifest.''))
           (map (\<lambda>i. (''chapter_ids'', ''incomplete_manifest: '' @ i)) (take 20 lacking)))))
         else if length versions > 1
         then Inl (AppErr (ConflictError (with_details (coded ''DIRECTOR_VERSION_MIXING_FORBIDDEN''
           ''The requested scope mixes more than one Director version.'') (map (\<lambda>v. (''director_version'', v)) versions))))
         else if sa_scope body = AudiobookScope \<and> missing_metadata (bk_info b) \<noteq> []
         then Inl (AppErr (ValidationError (with_details (coded ''VALIDATION_FAILED''
           ''Book metadata is not sufficient to assemble an audiobook container.'')
           (map (\<lambda>f. (f, ''required'')) (missing_metadata (bk_info b))))))
         else Inr ())"

definition plan_assembly ::
  "('q, 'r, 's) books_deps \<Rightarrow> principal \<Rightarrow> string \<Rightarrow> start_assembly_body \<Rightarrow> ('q, 'r, 's) assembly_world \<Rightarrow> thrown + assembly_plan" where
  "plan_assembly dp who book_id body w =
     bindE (require_owned_book who book_id w) (\<lambda>b.
     bindE (resolve_target_chapters book_id b body w) (\<lambda>chapters.
     if chapters = [] then Inl (validation_failed ''No chapters matched the requested scope.'')
     else let ids = map cr_id chapters; cs = target_chunks ids w;
              whole = filter (\<lambda>i. chapter_complete i cs) ids; lacking = filter (\<lambda>i. \<not> chapter_complete i cs) ids;
              skip = (\<lambda>i. up_to_date (bd_sha256 dp) cs (aw_chapter_audios w) i \<and> \<not> sa_force body)
          in bindE (check_scope b body cs whole lacking) (\<lambda>_.
             Inr \<lparr> pl_book = b, pl_formats = (case sa_formats body of Some fs \<Rightarrow> fs | None \<Rightarrow> DEFAULT_DELIVERY_FORMATS),
               pl_priority = (case sa_priority body of Some p \<Rightarrow> p | None \<Rightarrow> ''NORMAL''),
               pl_assemble = map (\<lambda>i. (i, compute_manifest_hash (bd_sha256 dp) (chunk_manifest (chunks_of_chapter i cs))))
                 (filter (\<lambda>i. \<not> skip i) whole),
               pl_skipped = filter skip whole, pl_candidates = whole, pl_blocking = lacking \<rparr>)))"

definition service_job ::
  "books_env \<Rightarrow> principal \<Rightarrow> string \<Rightarrow> string \<Rightarrow> string \<times> string \<times> string \<Rightarrow> string \<times> string \<Rightarrow> string \<Rightarrow> bool \<Rightarrow> json \<Rightarrow> job" where
  "service_job ev who i book_id kind idem priority forced payload = (case kind of (ty, related_type, related_id) \<Rightarrow>
     (fresh_job (be_now ev) i (tenant_id who) book_id (ty, ''audio'', priority) (related_type, related_id) idem i forced
        (command_envelope i (tenant_id who) i payload))\<lparr> jb_created_by := Some (sub who) \<rparr>)"

definition scope_json :: "assembly_scope \<Rightarrow> string list \<Rightarrow> json" where
  "scope_json scope formats = JObj [(''scope'', JStr (show_scope scope)), (''delivery_formats'', JArr (map JStr formats))]"

definition assemble_chapter_job ::
  "books_env \<Rightarrow> principal \<Rightarrow> string \<Rightarrow> start_assembly_body \<Rightarrow> assembly_plan \<Rightarrow> nat \<times> string \<times> string \<Rightarrow> job" where
  "assemble_chapter_job ev who book_id body pl item = (case item of (k, chapter_id, hash) \<Rightarrow>
     (service_job ev who (be_id ev k) book_id (''assemble_chapter'', ''chapter'', chapter_id)
       (''assemble_chapter:'' @ chapter_id @ '':'' @ hash, hash) (pl_priority pl) (sa_force body)
       (JObj [(''chapter_id'', JStr chapter_id)]))
     \<lparr> jb_scope := Some (scope_json (sa_scope body) (pl_formats pl)) \<rparr>)"

text \<open>Dispatches started together: all run, and the first failure is the result.\<close>

definition audio_dispatch :: "job \<Rightarrow> enqueue_args" where
  "audio_dispatch j = \<lparr> ea_processing_job_id = jb_id j, ea_queue = ''audio'', ea_envelope = the (jb_envelope j),
     ea_job_name = jb_type j, ea_max_attempts = 3, ea_priority = None \<rparr>"

fun dispatch_all ::
  "'q broker \<Rightarrow> int \<Rightarrow> job list \<Rightarrow> ('q, 'r, 's) assembly_world \<Rightarrow> (thrown + unit) \<times> ('q, 'r, 's) assembly_world" where
  "dispatch_all bq now [] w = (Inr (), w)"
| "dispatch_all bq now (j # js) w =
     (case dispatch_audio bq now (audio_dispatch j) w of (r, w1) \<Rightarrow>
      case dispatch_all bq now js w1 of (rs, w2) \<Rightarrow> (case r of Inl e \<Rightarrow> Inl e | Inr _ \<Rightarrow> rs, w2))"

fun create_jobs :: "job list \<Rightarrow> ('q, 'r, 's) assembly_world \<Rightarrow> (thrown + unit) \<times> ('q, 'r, 's) assembly_world" where
  "create_jobs [] = returnE ()"
| "create_jobs (j # js) = seqE (aw_jobs (create_row job_clash j)) (\<lambda>_. create_jobs js)"

definition ordered_audios :: "string list \<Rightarrow> ('q, 'r, 's) assembly_world \<Rightarrow> chapter_audio option list" where
  "ordered_audios ids w = map (\<lambda>c. current_audio_of (cr_id c) (aw_chapter_audios w))
     (sort_key cr_order (filter (\<lambda>c. cr_id c \<in> set ids) (iw_chapters w)))"

definition book_manifest_hash :: "(bytes \<Rightarrow> string) \<Rightarrow> chapter_audio list \<Rightarrow> string" where
  "book_manifest_hash sha audios = compute_manifest_hash sha (map (\<lambda>a. manifest_line (ca_id a) (so_hash (ca_object a))) audios)"

text \<open>The published audiobook of these chapters has every format.\<close>

definition already_published :: "string \<Rightarrow> string \<Rightarrow> string list \<Rightarrow> ('q, 'r, 's) assembly_world \<Rightarrow> bool" where
  "already_published book_id hash formats w =
     (case find_row (\<lambda>a. ab_book_id a = book_id \<and> ab_manifest_hash a = hash \<and> ab_status a = AbReady) (aw_audiobooks w) of
        None \<Rightarrow> False
      | Some a \<Rightarrow> list_all (\<lambda>f. f = ab_container a
          \<or> find_row (\<lambda>r. rn_audiobook_id r = ab_id a \<and> rn_status r = RnReady \<and> rn_format r = f) (aw_renditions w) \<noteq> None) formats)"

definition assemble_audiobook_job :: "books_env \<Rightarrow> principal \<Rightarrow> book \<Rightarrow> string \<Rightarrow> string list \<Rightarrow> string \<Rightarrow> bool \<Rightarrow> job" where
  "assemble_audiobook_job ev who b hash formats priority forced =
     (let v = the (bk_current_version b) in
      service_job ev who (be_id ev 0) (bk_id b) (''assemble_audiobook'', ''book_version'', v)
        (''assemble_audiobook:'' @ v @ '':'' @ hash @ '':'' @ (case formats of f # _ \<Rightarrow> f | [] \<Rightarrow> ''M4B''), hash)
        priority forced (audiobook_payload (bk_id b) formats))"

definition maybe_enqueue_assemble_audiobook ::
  "('q, 'r, 's) books_deps \<Rightarrow> books_env \<Rightarrow> principal \<Rightarrow> assembly_plan \<Rightarrow> bool \<Rightarrow> ('q, 'r, 's) assembly_world
     \<Rightarrow> (thrown + string option) \<times> ('q, 'r, 's) assembly_world" where
  "maybe_enqueue_assemble_audiobook dp ev who pl force w =
     (let b = pl_book pl; audios = ordered_audios (pl_candidates pl) w;
          hash = book_manifest_hash (bd_sha256 dp) (map the audios);
          j = assemble_audiobook_job ev who b hash (pl_formats pl) (pl_priority pl) force
      in if \<not> truthy (bk_current_version b) \<or> None \<in> set audios then (Inr None, w)
         else if \<not> force \<and> already_published (bk_id b) hash (pl_formats pl) w then (Inr None, w)
         else seqE (aw_jobs (create_row job_clash j)) (\<lambda>_.
              seqE (dispatch_audio (bd_broker dp) (be_now ev) (audio_dispatch j)) (\<lambda>_. returnE (Some (jb_id j)))) w)"

record assembly_accepted =
  ay_chapter_ids :: "string list"
  ay_planned :: nat
  ay_formats :: "string list"
  ay_priority :: string
  ay_skipped :: "string list"
  ay_blocking :: "string list"
  ay_audiobook_job :: "string option"

definition create_chapter_jobs ::
  "('q, 'r, 's) books_deps \<Rightarrow> books_env \<Rightarrow> string \<Rightarrow> job list \<Rightarrow> ('q, 'r, 's) assembly_world \<Rightarrow> (thrown + unit) \<times> ('q, 'r, 's) assembly_world" where
  "create_chapter_jobs dp ev book_id js = (if js = [] then returnE () else
     seqE (with_transaction (seqE (create_jobs js) (\<lambda>_. aw_books (update_book book_id
        (\<lambda>b. b\<lparr> bk_status := BAssembling, bk_status_changed := be_now ev, bk_updated := be_now ev \<rparr>))))) (\<lambda>_.
     dispatch_all (bd_broker dp) (be_now ev) js))"

definition start_assembly ::
  "('q, 'r, 's) books_deps \<Rightarrow> books_env \<Rightarrow> principal \<Rightarrow> string \<Rightarrow> start_assembly_body \<Rightarrow> ('q, 'r, 's) assembly_world
     \<Rightarrow> (thrown + assembly_accepted) \<times> ('q, 'r, 's) assembly_world" where
  "start_assembly dp ev who book_id body =
     seqE (readE (plan_assembly dp who book_id body)) (\<lambda>pl.
     let js = map (assemble_chapter_job ev who book_id body pl) (enumerate 0 (pl_assemble pl)) in
     seqE (create_chapter_jobs dp ev book_id js) (\<lambda>_.
     seqE (if sa_scope body = AudiobookScope \<and> js = [] \<and> pl_blocking pl = []
           then maybe_enqueue_assemble_audiobook dp ev who pl (sa_force body) else returnE None) (\<lambda>job_id.
     returnE \<lparr> ay_chapter_ids = map fst (pl_assemble pl), ay_planned = length js + (if job_id = None then 0 else 1),
       ay_formats = pl_formats pl, ay_priority = pl_priority pl, ay_skipped = pl_skipped pl, ay_blocking = pl_blocking pl,
       ay_audiobook_job = job_id \<rparr>)))"

subsection \<open>The state of an assembly\<close>

definition derive_generation_status :: "audiobook_status option \<Rightarrow> nat \<Rightarrow> nat \<Rightarrow> string" where
  "derive_generation_status st total' assembled =
     (if st = Some AbReady then ''COMPLETED''
      else if st = Some AbFailed then ''FAILED''
      else if st = Some AbAssembling then ''ASSEMBLING''
      else if st = Some AbDraft then ''BLOCKED''
      else if total' = 0 \<or> assembled = 0 then ''NOT_STARTED''
      else ''ASSEMBLING'')"

definition current_or_latest_audiobook :: "string \<Rightarrow> audiobook list \<Rightarrow> audiobook option" where
  "current_or_latest_audiobook book_id t =
     find_row (\<lambda>a. True) (rev (sort_key ab_created (filter (\<lambda>a. ab_book_id a = book_id \<and> ab_current a) t)))"

definition chapters_of_book :: "book \<Rightarrow> ('q, 'r, 's) assembly_world \<Rightarrow> chapter_row list" where
  "chapters_of_book b w = (if truthy (bk_current_version b) then version_chapters (the (bk_current_version b)) (iw_chapters w) else [])"

definition chapter_status_of :: "chapter_audio list \<Rightarrow> chapter_row \<Rightarrow> chapter_audio_status option" where
  "chapter_status_of t c = map_option ca_status (current_audio_of (cr_id c) t)"

definition blocking_chapters :: "chapter_audio list \<Rightarrow> chapter_row list \<Rightarrow> string list" where
  "blocking_chapters t cs = map cr_id (filter (\<lambda>c. chapter_status_of t c \<noteq> Some CaAssembled) cs)"

definition chapters_assembled :: "chapter_audio list \<Rightarrow> chapter_row list \<Rightarrow> nat" where
  "chapters_assembled t cs = count_rows (\<lambda>c. chapter_status_of t c = Some CaAssembled) cs"

definition formats_of :: "audiobook \<Rightarrow> rendition list \<Rightarrow> string list" where
  "formats_of a t = js_set (ab_container a # map rn_format (filter (\<lambda>r. rn_audiobook_id r = ab_id a) t))"

record assembly_state =
  ay_status :: string
  ay_scope :: assembly_scope
  ay_assembled :: nat
  ay_total :: nat
  ay_audiobook_id :: "string option"
  ay_delivery_formats :: "string list"
  ay_voice_verified :: "bool option"
  ay_blocked_by :: "string list"
  ay_current_job :: "string option"

definition voice_flags :: "chapter_audio list \<Rightarrow> chapter_row list \<Rightarrow> bool list" where
  "voice_flags t cs = concat (map (\<lambda>c. case current_audio_of (cr_id c) t of
     Some a \<Rightarrow> if ca_status a = CaAssembled then [ca_voice_verified a] else [] | None \<Rightarrow> []) cs)"

definition get_assembly_state :: "principal \<Rightarrow> string \<Rightarrow> ('q, 'r, 's) assembly_world \<Rightarrow> thrown + assembly_state" where
  "get_assembly_state who book_id w = bindE (require_owned_book who book_id w) (\<lambda>b.
     let cs = chapters_of_book b w; t = aw_chapter_audios w; a = current_or_latest_audiobook book_id (aw_audiobooks w);
         flags = voice_flags t cs;
         js = filter (\<lambda>j. jb_book_id j = Some book_id \<and> jb_type j \<in> {''assemble_chapter'', ''assemble_audiobook''}
           \<and> jb_status j \<in> set IN_FLIGHT) (db_jobs w)
     in Inr \<lparr> ay_status = derive_generation_status (map_option ab_status a) (length cs) (chapters_assembled t cs),
          ay_scope = (if a = None then ChapterScope else AudiobookScope), ay_assembled = chapters_assembled t cs,
          ay_total = length cs, ay_audiobook_id = map_option ab_id a,
          ay_delivery_formats = (case a of Some a \<Rightarrow> formats_of a (aw_renditions w) | None \<Rightarrow> []),
          ay_voice_verified = (if flags = [] then None else Some (list_all (\<lambda>x. x) flags)),
          ay_blocked_by = blocking_chapters t cs,
          ay_current_job = map_option jb_id (find_row (\<lambda>j. True) (rev (sort_key (\<lambda>j. jt_created (jb_times j)) js))) \<rparr>)"

subsection \<open>Chapter audio\<close>

record chapter_audio_dto =
  cd_id :: string
  cd_book_id :: string
  cd_chapter_id :: string
  cd_version :: nat
  cd_supersedes :: "string option"
  cd_current :: bool
  cd_preview :: bool
  cd_status :: string
  cd_technical :: "int \<times> nat \<times> string"
  cd_manifest_hash :: string
  cd_loudness :: "rat option \<times> rat option"
  cd_lineage :: "string \<times> string \<times> string"
  cd_created_at :: string
  cd_links :: "string list"

definition to_chapter_audio_dto :: "chapter_audio \<Rightarrow> chapter_audio_dto" where
  "to_chapter_audio_dto a = (let base = ''/api/v1/books/'' @ ca_book_id a in
     \<lparr> cd_id = ca_id a, cd_book_id = ca_book_id a, cd_chapter_id = ca_chapter_id a, cd_version = ca_version a,
       cd_supersedes = ca_supersedes a, cd_current = ca_current a, cd_preview = ca_preview a,
       cd_status = show_chapter_audio_status (ca_status a), cd_technical = (ca_duration_ms a, ca_chunk_count a, ca_format a),
       cd_manifest_hash = ca_manifest_hash a, cd_loudness = (ca_lufs a, ca_peak a),
       cd_lineage = (ca_director_version a, ca_pipeline_version a, ca_tool_model a), cd_created_at = to_iso (ca_created a),
       cd_links = [base @ ''/chapter-audio/'' @ ca_id a, base @ ''/chapters/'' @ ca_chapter_id a,
         base @ ''/chapter-audio/'' @ ca_id a @ ''/access-urls''] \<rparr>)"

record chapter_audio_query =
  aq_chapter_id :: "string option"
  aq_status :: "string option"
  aq_cursor :: "string option"
  aq_limit :: "string option"

text \<open>\<open>Number(cursor.v)\<close> bounds an integer column; an unknown value of an enum is refused.\<close>

definition cursor_integer :: "cursor_payload option \<Rightarrow> thrown + int option" where
  "cursor_integer c = (case c of None \<Rightarrow> Inr None
     | Some cp \<Rightarrow> (case js_integer (js_number_of (cp_v cp)) of
         None \<Rightarrow> Inl (OtherErr ''Invalid value for argument: expected an integer.'') | Some n \<Rightarrow> Inr (Some n)))"

definition check_enum :: "string option \<Rightarrow> string list \<Rightarrow> thrown + unit" where
  "check_enum v allowed = (if truthy v \<and> the v \<notin> set allowed
     then Inl (OtherErr ''Invalid value for argument: expected an enum value.'') else Inr ())"

definition CHAPTER_AUDIO_STATUSES :: "string list" where
  "CHAPTER_AUDIO_STATUSES = [''PENDING'', ''ASSEMBLING'', ''ASSEMBLED'', ''INVALID'', ''SUPERSEDED'']"

definition order_of :: "chapter_row list \<Rightarrow> chapter_audio \<Rightarrow> nat" where
  "order_of cs a = (case find_row (\<lambda>c. cr_id c = ca_chapter_id a) cs of Some c \<Rightarrow> cr_order c | None \<Rightarrow> 0)"

definition audio_selected ::
  "string \<Rightarrow> chapter_audio_query \<Rightarrow> int option \<Rightarrow> chapter_row list \<Rightarrow> chapter_audio \<Rightarrow> bool" where
  "audio_selected book_id query after chapters a \<longleftrightarrow> ca_book_id a = book_id \<and> ca_current a
     \<and> opt_match (aq_chapter_id query) (Some (ca_chapter_id a))
     \<and> opt_match (aq_status query) (Some (show_chapter_audio_status (ca_status a)))
     \<and> (case after of None \<Rightarrow> True | Some n \<Rightarrow> n < int (order_of chapters a))"

definition list_chapter_audio ::
  "principal \<Rightarrow> string \<Rightarrow> chapter_audio_query \<Rightarrow> ('q, 'r, 's) assembly_world \<Rightarrow> thrown + chapter_audio_dto cursor_page" where
  "list_chapter_audio who book_id query w =
     bindE (require_owned_book who book_id w) (\<lambda>_.
     bindE (parse_limit (aq_limit query)) (\<lambda>limit.
     bindE (decode_cursor (aq_cursor query)) (\<lambda>cursor.
     bindE (check_enum (aq_status query) CHAPTER_AUDIO_STATUSES) (\<lambda>_.
     bindE (cursor_integer cursor) (\<lambda>after.
     let page = paginate (take (limit + 1) (sort_key (order_of (iw_chapters w))
           (filter (audio_selected book_id query after (iw_chapters w)) (aw_chapter_audios w))))
           limit (\<lambda>a. SVNum (int (order_of (iw_chapters w) a))) ca_id
     in Inr \<lparr> pg_data = map to_chapter_audio_dto (pg_data page), pg_limit = pg_limit page, pg_has_more = pg_has_more page,
          pg_next_cursor = pg_next_cursor page \<rparr>)))))"

definition find_chapter_audio :: "principal \<Rightarrow> string \<Rightarrow> string \<Rightarrow> ('q, 'r, 's) assembly_world \<Rightarrow> thrown + chapter_audio" where
  "find_chapter_audio who book_id i w = bindE (require_owned_book who book_id w) (\<lambda>_.
     case find_row (\<lambda>a. ca_id a = i \<and> ca_book_id a = book_id) (aw_chapter_audios w) of
       None \<Rightarrow> Inl (AppErr (NotFoundError (msg_only ''Chapter audio not found.''))) | Some a \<Rightarrow> Inr a)"

definition get_chapter_audio :: "principal \<Rightarrow> string \<Rightarrow> string \<Rightarrow> ('q, 'r, 's) assembly_world \<Rightarrow> thrown + chapter_audio_dto" where
  "get_chapter_audio who book_id i w = bindE (find_chapter_audio who book_id i w) (\<lambda>a. Inr (to_chapter_audio_dto a))"

definition audio_format_content_type :: "string \<Rightarrow> string" where
  "audio_format_content_type f = (if f = ''WAV'' then ''audio/wav'' else if f = ''FLAC'' then ''audio/flac''
     else if f = ''AAC'' then ''audio/aac'' else if f = ''MP3'' then ''audio/mpeg'' else ''application/octet-stream'')"

definition container_format_content_type :: "string \<Rightarrow> string" where
  "container_format_content_type f = (if f = ''M4B'' \<or> f = ''M4A'' then ''audio/mp4''
     else if f = ''MP3_PER_CHAPTER'' then ''audio/mpeg'' else ''application/octet-stream'')"

record create_access_url_body =
  ub_disposition :: "string option"
  ub_format :: "string option"
  ub_expires :: "nat option"

record access_url =
  au_url :: string
  au_expires_at :: string
  au_disposition :: string
  au_format :: "string option"
  au_content_type :: string
  au_duration_ms :: int
  au_size_bytes :: "nat option"
  au_content_hash :: string

definition not_ready :: "string \<Rightarrow> thrown" where
  "not_ready m = AppErr (ConflictError (coded ''ARTIFACT_NOT_READY'' (m @ ''; bytes are not available.'')))"

definition sign_object ::
  "('q, 'r, 's) books_deps \<Rightarrow> books_env \<Rightarrow> create_access_url_body \<Rightarrow> stored_object \<Rightarrow> string option \<Rightarrow> string \<Rightarrow> int
     \<Rightarrow> ('q, 'r, 's) assembly_world \<Rightarrow> thrown + access_url" where
  "sign_object dp ev body obj format content_type duration w =
     (let expires = (case ub_expires body of Some n \<Rightarrow> n | None \<Rightarrow> 300) in
      bindE (bd_sign dp (so_key obj) ''GET'' expires (iw_store w)) (\<lambda>url.
      Inr \<lparr> au_url = url, au_expires_at = to_iso (be_now ev + int expires * 1000),
        au_disposition = (case ub_disposition body of Some d \<Rightarrow> d | None \<Rightarrow> ''INLINE''), au_format = format,
        au_content_type = content_type, au_duration_ms = duration,
        au_size_bytes = (if so_size obj = 0 then None else Some (so_size obj)), au_content_hash = so_hash obj \<rparr>))"

definition create_chapter_audio_access_url ::
  "('q, 'r, 's) books_deps \<Rightarrow> books_env \<Rightarrow> principal \<Rightarrow> string \<Rightarrow> string \<Rightarrow> create_access_url_body \<Rightarrow> ('q, 'r, 's) assembly_world
     \<Rightarrow> thrown + access_url" where
  "create_chapter_audio_access_url dp ev who book_id i body w = bindE (find_chapter_audio who book_id i w) (\<lambda>a.
     if ca_status a \<noteq> CaAssembled then Inl (not_ready (''Chapter audio is '' @ show_chapter_audio_status (ca_status a)))
     else sign_object dp ev body (ca_object a) None (audio_format_content_type (ca_format a)) (ca_duration_ms a) w)"

subsection \<open>The audiobook project\<close>

record project_chapter =
  pj_chapter_id :: string
  pj_order :: nat
  pj_title :: "string option"
  pj_audio_id :: "string option"
  pj_status :: string
  pj_duration_ms :: "int option"

record audiobook_project =
  pj_generation_status :: string
  pj_current :: "(string \<times> nat) option"
  pj_version_count :: nat
  pj_chapters :: "project_chapter list"
  pj_totals :: "nat \<times> nat \<times> int"
  pj_blocking :: "string list"

definition stale_audiobook :: "book \<Rightarrow> audiobook \<Rightarrow> ('q, 'r, 's) assembly_world \<Rightarrow> bool" where
  "stale_audiobook b a w \<longleftrightarrow>
     (case current_version b (iw_versions w) of Some v \<Rightarrow> ab_source_hash a \<noteq> bv_content_hash v | None \<Rightarrow> False)
     \<or> (case map_of (aw_story_bibles w) (bk_id b) of Some (Some v) \<Rightarrow> ab_story_bible a \<noteq> v | _ \<Rightarrow> False)"

definition project_chapter_of :: "chapter_audio list \<Rightarrow> chapter_row \<Rightarrow> project_chapter" where
  "project_chapter_of t c = (let a = current_audio_of (cr_id c) t in
     \<lparr> pj_chapter_id = cr_id c, pj_order = cr_order c, pj_title = cr_title c, pj_audio_id = map_option ca_id a,
       pj_status = (case a of Some a \<Rightarrow> show_chapter_audio_status (ca_status a) | None \<Rightarrow> ''PENDING''),
       pj_duration_ms = map_option ca_duration_ms a \<rparr>)"

definition get_audiobook_project :: "principal \<Rightarrow> string \<Rightarrow> ('q, 'r, 's) assembly_world \<Rightarrow> thrown + audiobook_project" where
  "get_audiobook_project who book_id w = bindE (require_owned_book who book_id w) (\<lambda>b.
     let cs = chapters_of_book b w; t = aw_chapter_audios w; a = current_or_latest_audiobook book_id (aw_audiobooks w);
         stale = (case a of Some a \<Rightarrow> stale_audiobook b a w | None \<Rightarrow> False)
     in Inr \<lparr> pj_generation_status = (if stale then ''STALE''
            else derive_generation_status (map_option ab_status a) (length cs) (chapters_assembled t cs)),
          pj_current = map_option (\<lambda>a. (ab_id a, ab_version a)) a,
          pj_version_count = count_rows (\<lambda>a. ab_book_id a = book_id) (aw_audiobooks w),
          pj_chapters = map (project_chapter_of t) cs,
          pj_totals = (length cs, chapters_assembled t cs,
            sum_list (map (\<lambda>c. case current_audio_of (cr_id c) t of Some a \<Rightarrow> ca_duration_ms a | None \<Rightarrow> 0) cs)),
          pj_blocking = blocking_chapters t cs \<rparr>)"

subsection \<open>Audiobooks\<close>

record audiobook_dto =
  xd_row :: audiobook
  xd_status :: string
  xd_formats :: "string list"
  xd_size_bytes :: "nat option"
  xd_chapters :: "(string \<times> string \<times> nat \<times> string option \<times> int \<times> int) list"
  xd_cover :: "(image_dimensions \<times> string) option"
  xd_created_at :: string
  xd_links :: "string list"

definition to_audiobook_dto :: "('q, 'r, 's) assembly_world \<Rightarrow> audiobook \<Rightarrow> audiobook_dto" where
  "to_audiobook_dto w a = (let self = ''/api/v1/books/'' @ ab_book_id a @ ''/audiobooks/'' @ ab_id a in
     \<lparr> xd_row = a, xd_status = show_audiobook_status (ab_status a), xd_formats = formats_of a (aw_renditions w),
       xd_size_bytes = (if so_size (ab_object a) = 0 then None else Some (so_size (ab_object a))),
       xd_chapters = map (\<lambda>c. (xc_chapter_id c, xc_chapter_audio_id c, xc_order c, xc_title c, xc_start_ms c, xc_duration_ms c))
         (sort_key xc_order (filter (\<lambda>c. xc_audiobook_id c = ab_id a) (aw_book_chapters w))),
       xd_cover = (case find_row (\<lambda>c. Some (co_id c) = ab_cover a) (aw_covers w) of
          Some c \<Rightarrow> Some (co_dimensions c, so_hash (co_object c)) | None \<Rightarrow> None),
       xd_created_at = to_iso (ab_created a), xd_links = [self, self @ ''/access-urls'', self @ ''/cover''] \<rparr>)"

record audiobooks_query =
  xq_superseded :: "string option"
  xq_format :: "string option"
  xq_cursor :: "string option"
  xq_limit :: "string option"

definition audiobook_selected ::
  "string \<Rightarrow> audiobooks_query \<Rightarrow> int option \<Rightarrow> rendition list \<Rightarrow> audiobook \<Rightarrow> bool" where
  "audiobook_selected book_id query bound t a \<longleftrightarrow> ab_book_id a = book_id
     \<and> (xq_superseded query = Some ''true'' \<or> ab_current a)
     \<and> (\<not> truthy (xq_format query) \<or> ab_container a = the (xq_format query)
        \<or> find_row (\<lambda>r. rn_audiobook_id r = ab_id a \<and> rn_format r = the (xq_format query)) t \<noteq> None)
     \<and> (case bound of None \<Rightarrow> True | Some n \<Rightarrow> int (ab_version a) < n)"

definition list_audiobooks ::
  "principal \<Rightarrow> string \<Rightarrow> audiobooks_query \<Rightarrow> ('q, 'r, 's) assembly_world \<Rightarrow> thrown + audiobook_dto cursor_page" where
  "list_audiobooks who book_id query w =
     bindE (require_owned_book who book_id w) (\<lambda>_.
     bindE (parse_limit (xq_limit query)) (\<lambda>limit.
     bindE (decode_cursor (xq_cursor query)) (\<lambda>cursor.
     bindE (check_enum (xq_format query) DELIVERY_FORMATS) (\<lambda>_.
     bindE (cursor_integer cursor) (\<lambda>bound.
     let page = paginate (take (limit + 1) (rev (sort_key ab_version
           (filter (audiobook_selected book_id query bound (aw_renditions w)) (aw_audiobooks w)))))
           limit (\<lambda>a. SVNum (int (ab_version a))) ab_id
     in Inr \<lparr> pg_data = map (to_audiobook_dto w) (pg_data page), pg_limit = pg_limit page, pg_has_more = pg_has_more page,
          pg_next_cursor = pg_next_cursor page \<rparr>)))))"

definition require_owned_audiobook :: "string \<Rightarrow> string \<Rightarrow> ('q, 'r, 's) assembly_world \<Rightarrow> thrown + audiobook" where
  "require_owned_audiobook book_id i w = (case find_row (\<lambda>a. ab_id a = i \<and> ab_book_id a = book_id) (aw_audiobooks w) of
     None \<Rightarrow> Inl (AppErr (NotFoundError (msg_only ''Audiobook not found.''))) | Some a \<Rightarrow> Inr a)"

definition get_audiobook :: "principal \<Rightarrow> string \<Rightarrow> string \<Rightarrow> ('q, 'r, 's) assembly_world \<Rightarrow> thrown + audiobook_dto" where
  "get_audiobook who book_id i w = bindE (require_owned_book who book_id w) (\<lambda>_.
     bindE (require_owned_audiobook book_id i w) (\<lambda>a. Inr (to_audiobook_dto w a)))"

definition immutable_audiobook :: "audiobook \<Rightarrow> string \<Rightarrow> thrown" where
  "immutable_audiobook a what = AppErr (ConflictError (coded ''AUDIOBOOK_IMMUTABLE''
     (''Audiobook is '' @ show_audiobook_status (ab_status a) @ ''; '' @ what @ '' Assemble a new version instead.'')))"

text \<open>A patch: an absent property keeps the column.\<close>

record audiobook_patch =
  xb_title :: "string option"
  xb_author :: "string option"
  xb_narrator :: "string option"
  xb_series :: "string option"
  xb_series_index :: "int option"
  xb_publisher :: "string option"
  xb_language :: "string option"
  xb_publication_year :: "int option"
  xb_description :: "string option"

definition or_old :: "'a option \<Rightarrow> 'a option \<Rightarrow> 'a option" where
  "or_old v old = (case v of Some x \<Rightarrow> Some x | None \<Rightarrow> old)"

definition patch_audiobook :: "audiobook_patch \<Rightarrow> audiobook \<Rightarrow> audiobook" where
  "patch_audiobook p a = (let m = ab_info a in a\<lparr>
     ab_info := \<lparr> bm_title = (case xb_title p of Some t \<Rightarrow> t | None \<Rightarrow> bm_title m), bm_author = or_old (xb_author p) (bm_author m),
       bm_language = (case xb_language p of Some l \<Rightarrow> l | None \<Rightarrow> bm_language m),
       bm_description = or_old (xb_description p) (bm_description m), bm_series = or_old (xb_series p) (bm_series m),
       bm_series_index = or_old (xb_series_index p) (bm_series_index m),
       bm_publication_year = or_old (xb_publication_year p) (bm_publication_year m),
       bm_publisher = or_old (xb_publisher p) (bm_publisher m) \<rparr>,
     ab_narrator := or_old (xb_narrator p) (ab_narrator a) \<rparr>)"

definition update_audiobook_metadata ::
  "principal \<Rightarrow> string \<Rightarrow> string \<Rightarrow> audiobook_patch \<Rightarrow> ('q, 'r, 's) assembly_world
     \<Rightarrow> (thrown + audiobook_dto) \<times> ('q, 'r, 's) assembly_world" where
  "update_audiobook_metadata who book_id i p =
     seqE (readE (\<lambda>w. bindE (require_owned_book who book_id w) (\<lambda>_. require_owned_audiobook book_id i w))) (\<lambda>a.
     if ab_status a \<noteq> AbDraft then throwE (immutable_audiobook a ''presentational metadata can no longer be patched.'')
     else seqE (on_audiobooks (update_row (\<lambda>a. ab_id a = i) (patch_audiobook p))) (\<lambda>_.
          readE (\<lambda>w. case find_row (\<lambda>a. ab_id a = i) (aw_audiobooks w) of
            None \<Rightarrow> Inl record_not_found | Some a \<Rightarrow> Inr (to_audiobook_dto w a))))"

definition create_audiobook_access_url ::
  "('q, 'r, 's) books_deps \<Rightarrow> books_env \<Rightarrow> principal \<Rightarrow> string \<Rightarrow> string \<Rightarrow> create_access_url_body \<Rightarrow> ('q, 'r, 's) assembly_world
     \<Rightarrow> thrown + access_url" where
  "create_audiobook_access_url dp ev who book_id i body w =
     bindE (require_owned_book who book_id w) (\<lambda>_.
     bindE (require_owned_audiobook book_id i w) (\<lambda>a.
     if ab_status a \<noteq> AbReady then Inl (not_ready (''Audiobook is '' @ show_audiobook_status (ab_status a)))
     else if \<not> truthy (ub_format body) \<or> the (ub_format body) = ab_container a
     then sign_object dp ev body (ab_object a) (Some (ab_container a)) (container_format_content_type (ab_container a)) (ab_duration_ms a) w
     else bindE (check_enum (ub_format body) DELIVERY_FORMATS) (\<lambda>_.
       (case find_row (\<lambda>r. rn_audiobook_id r = i \<and> rn_format r = the (ub_format body) \<and> rn_status r = RnReady) (aw_renditions w) of
          None \<Rightarrow> Inl (AppErr (ConflictError (coded ''FORMAT_NOT_AVAILABLE''
            (''Delivery format '' @ the (ub_format body) @ '' is not available for this audiobook.''))))
        | Some r \<Rightarrow> sign_object dp ev body (rn_object r) (Some (rn_format r)) (container_format_content_type (rn_format r))
            (rn_duration_ms r) w))))"

end
