(* ===== verification/Covers.thy ===== *)
theory Covers
  imports Assembly
begin

text \<open>
  The cover art of an audiobook: \<open>putAudiobookCover\<close> to \<open>downloadObject\<close> of
  \<open>assembly.service.ts\<close>, and the sessions of \<open>cover-upload-session.store.ts\<close>.
\<close>

subsection \<open>Sessions\<close>

record cover_session =
  cs_id :: string
  cs_tenant_id :: string
  cs_book_id :: string
  cs_audiobook_id :: string
  cs_mime :: string
  cs_size :: int
  cs_hash :: string
  cs_storage_key :: string
  cs_created_at :: string
  cs_expires_at :: string

definition cover_session_json :: "cover_session \<Rightarrow> json" where
  "cover_session_json s = JObj
     [(''id'', JStr (cs_id s)), (''tenantId'', JStr (cs_tenant_id s)), (''bookId'', JStr (cs_book_id s)),
      (''audiobookId'', JStr (cs_audiobook_id s)), (''declaredMimeType'', JStr (cs_mime s)),
      (''declaredSizeBytes'', JNum (cs_size s)),
      (''declaredContentHash'', JObj [(''algorithm'', JStr ''SHA256''), (''value'', JStr (cs_hash s))]),
      (''storageKey'', JStr (cs_storage_key s)), (''createdAt'', JStr (cs_created_at s)), (''expiresAt'', JStr (cs_expires_at s))]"

text \<open>A text the store did not write, with a property missing, is outside the model.\<close>

definition cover_session_of_json :: "json \<Rightarrow> cover_session option" where
  "cover_session_of_json j =
     Option.bind (str_field j ''id'') (\<lambda>i. Option.bind (str_field j ''tenantId'') (\<lambda>t.
     Option.bind (str_field j ''bookId'') (\<lambda>b. Option.bind (str_field j ''audiobookId'') (\<lambda>ab.
     Option.bind (str_field j ''declaredMimeType'') (\<lambda>mime.
     Option.bind (case json_field j ''declaredSizeBytes'' of Some (JNum n) \<Rightarrow> Some n | _ \<Rightarrow> None) (\<lambda>n.
     Option.bind (Option.bind (json_field j ''declaredContentHash'') (\<lambda>h. str_field h ''value'')) (\<lambda>hash.
     Option.bind (str_field j ''storageKey'') (\<lambda>key. Option.bind (str_field j ''createdAt'') (\<lambda>created.
     Option.bind (str_field j ''expiresAt'') (\<lambda>expires.
     Some \<lparr> cs_id = i, cs_tenant_id = t, cs_book_id = b, cs_audiobook_id = ab, cs_mime = mime, cs_size = n, cs_hash = hash,
       cs_storage_key = key, cs_created_at = created, cs_expires_at = expires \<rparr>))))))))))"

lemma cover_session_json_read: "cover_session_of_json (cover_session_json s) = Some s"
  by (simp add: cover_session_of_json_def cover_session_json_def str_field_def)

lemma wf_cover_session_json: "wf_json (cover_session_json s)"
  by (simp add: cover_session_json_def)

definition COVER_SESSION_TTL_SECONDS :: nat where
  "COVER_SESSION_TTL_SECONDS = 60 * 60"

definition cover_session_key :: "string \<Rightarrow> string \<Rightarrow> string" where
  "cover_session_key t i = ''cover-upload-session:'' @ t @ '':'' @ i"

definition cover_sessions_create :: "'r redis_ops \<Rightarrow> cover_session \<Rightarrow> 'r \<Rightarrow> (thrown + unit) \<times> 'r" where
  "cover_sessions_create redis s = redis_set_ex redis (cover_session_key (cs_tenant_id s) (cs_id s))
     (json_stringify (cover_session_json s)) COVER_SESSION_TTL_SECONDS"

definition cover_sessions_get :: "'r redis_ops \<Rightarrow> string \<Rightarrow> string \<Rightarrow> 'r \<Rightarrow> thrown + cover_session option" where
  "cover_sessions_get redis t i r = bindE (redis_get redis (cover_session_key t i) r) (\<lambda>raw.
     if \<not> truthy raw then Inr None
     else case json_parse (the raw) of
       None \<Rightarrow> Inl (OtherErr ''SyntaxError: the session is no JSON text'')
     | Some j \<Rightarrow> (case cover_session_of_json j of
         None \<Rightarrow> Inl (OtherErr ''the session lacks a property'') | Some s \<Rightarrow> Inr (Some s)))"

definition cover_sessions_delete :: "'r redis_ops \<Rightarrow> string \<Rightarrow> string \<Rightarrow> 'r \<Rightarrow> (thrown + unit) \<times> 'r" where
  "cover_sessions_delete redis t i = redis_del redis (cover_session_key t i)"

context redis_client
begin

lemma cover_get_after_create:
  assumes "cover_sessions_create redis s r = (Inr u, r')"
  shows "cover_sessions_get redis (cs_tenant_id s) (cs_id s) r' = Inr (Some s)"
proof -
  have "r' = snd (cover_sessions_create redis s r)" using assms by simp
  then have "redis_get redis (cover_session_key (cs_tenant_id s) (cs_id s)) r' = Inr (Some (json_stringify (cover_session_json s)))"
    by (simp add: cover_sessions_create_def get_set)
  then show ?thesis
    by (simp add: cover_sessions_get_def truthy_def json_stringify_nonempty json_parse_print [OF wf_cover_session_json] cover_session_json_read)
qed

lemma cover_get_after_delete: "cover_sessions_get redis t i (snd (cover_sessions_delete redis t i r)) = Inr None"
  by (simp add: cover_sessions_get_def cover_sessions_delete_def get_del truthy_def)

end

subsection \<open>The two phases\<close>

definition MAX_COVER_SIZE_BYTES :: nat where
  "MAX_COVER_SIZE_BYTES = 10 * 1024 * 1024"

definition COVER_MIME_TYPES :: "string list" where
  "COVER_MIME_TYPES = [''image/jpeg'', ''image/png'']"

definition MIN_COVER_DIMENSION_PX :: nat where
  "MIN_COVER_DIMENSION_PX = 500"

definition MAX_COVER_DIMENSION_PX :: nat where
  "MAX_COVER_DIMENSION_PX = 6000"

definition COVER_UPLOAD_URL_TTL_SECONDS :: nat where
  "COVER_UPLOAD_URL_TTL_SECONDS = 900"

record ('q, 'r, 's) cover_deps = "('q, 'r, 's) books_deps" +
  cv_put :: "put_input \<Rightarrow> 's \<Rightarrow> (thrown + object_meta) \<times> 's"

record initiate_cover_body =
  ic_mime :: string
  ic_size :: nat
  ic_hash :: "(string \<times> string) option"

record confirm_cover_body =
  cc_session_id :: string
  cc_observed :: nat

datatype put_cover_body = Initiate initiate_cover_body | Confirm confirm_cover_body

record cover_receipt =
  rc_status :: nat
  rc_id :: string
  rc_url :: "string option"
  rc_dimensions :: "image_dimensions option"
  rc_mime :: "string option"
  rc_hash :: "string option"
  rc_created_at :: string
  rc_expires_at :: "string option"

definition on_aw_redis ::
  "('r \<Rightarrow> (thrown + 'a) \<times> 'r) \<Rightarrow> ('q, 'r, 's) assembly_world \<Rightarrow> (thrown + 'a) \<times> ('q, 'r, 's) assembly_world" where
  "on_aw_redis f w = (case f (aw_redis w) of (x, r) \<Rightarrow> (x, w\<lparr> aw_redis := r \<rparr>))"

definition check_initiate :: "initiate_cover_body \<Rightarrow> thrown + unit" where
  "check_initiate body =
     (if ic_mime body \<notin> set COVER_MIME_TYPES
      then Inl (AppErr (ValidationError (detailed (coded ''VALIDATION_FAILED'' ''declared_mime_type must be image/jpeg or image/png.'')
        (Some ''declared_mime_type'') ''invalid_enum'')))
      else if ic_size body = 0 \<or> ic_size body > MAX_COVER_SIZE_BYTES
      then Inl (AppErr (ValidationError (coded ''FILE_TOO_LARGE''
        (''Cover image must be between 1 and '' @ show_nat MAX_COVER_SIZE_BYTES @ '' bytes.''))))
      else if (case ic_hash body of Some (alg, v) \<Rightarrow> alg \<noteq> ''SHA256'' \<or> v = [] | None \<Rightarrow> True)
      then Inl (AppErr (ValidationError (detailed (coded ''VALIDATION_FAILED'' ''declared_content_hash must be a SHA256 hash.'')
        (Some ''declared_content_hash'') ''required'')))
      else Inr ())"

definition new_cover_session :: "books_env \<Rightarrow> principal \<Rightarrow> string \<Rightarrow> string \<Rightarrow> initiate_cover_body \<Rightarrow> string \<Rightarrow> cover_session" where
  "new_cover_session ev who book_id audiobook_id body key =
     \<lparr> cs_id = be_id ev 0, cs_tenant_id = tenant_id who, cs_book_id = book_id, cs_audiobook_id = audiobook_id, cs_mime = ic_mime body,
       cs_size = int (ic_size body), cs_hash = snd (the (ic_hash body)), cs_storage_key = key, cs_created_at = to_iso (be_now ev),
       cs_expires_at = to_iso (be_now ev + int COVER_UPLOAD_URL_TTL_SECONDS * 1000) \<rparr>"

definition initiate_cover_upload ::
  "('q, 'r, 's) cover_deps \<Rightarrow> books_env \<Rightarrow> principal \<Rightarrow> string \<Rightarrow> string \<Rightarrow> initiate_cover_body \<Rightarrow> ('q, 'r, 's) assembly_world
     \<Rightarrow> (thrown + cover_receipt) \<times> ('q, 'r, 's) assembly_world" where
  "initiate_cover_upload dp ev who book_id audiobook_id body =
     seqE (readE (\<lambda>_. bindE (check_initiate body) (\<lambda>_. build_storage_key (tenant_id who)
        [''books'', book_id, ''audiobooks'', audiobook_id, ''covers'',
         be_id ev 0 @ ''.'' @ (if ic_mime body = ''image/png'' then ''png'' else ''jpg'')]))) (\<lambda>key.
     let s = new_cover_session ev who book_id audiobook_id body key in
     seqE (on_aw_redis (cover_sessions_create (bd_redis dp) s)) (\<lambda>_.
     seqE (readE (\<lambda>w. bd_sign dp key ''PUT'' COVER_UPLOAD_URL_TTL_SECONDS (iw_store w))) (\<lambda>url.
     returnE \<lparr> rc_status = 201, rc_id = cs_id s, rc_url = Some url, rc_dimensions = None, rc_mime = None, rc_hash = None,
       rc_created_at = cs_created_at s, rc_expires_at = Some (cs_expires_at s) \<rparr>)))"

definition dimensions_allowed :: "image_dimensions \<Rightarrow> bool" where
  "dimensions_allowed d \<longleftrightarrow> MIN_COVER_DIMENSION_PX \<le> im_width d \<and> MIN_COVER_DIMENSION_PX \<le> im_height d
     \<and> im_width d \<le> MAX_COVER_DIMENSION_PX \<and> im_height d \<le> MAX_COVER_DIMENSION_PX"

definition unsupported_cover :: "string \<Rightarrow> thrown" where
  "unsupported_cover m = AppErr (ValidationError (coded ''UNSUPPORTED_FILE_FORMAT'' m))"

text \<open>The checks on the uploaded bytes give the type that was sniffed and the dimensions.\<close>

definition check_cover ::
  "('q, 'r, 's) cover_deps \<Rightarrow> cover_session \<Rightarrow> nat \<Rightarrow> bytes \<Rightarrow> thrown + string \<times> image_dimensions" where
  "check_cover dp s observed buffer =
     (if length buffer \<noteq> observed
      then Inl (AppErr (ConflictError (coded ''UPLOAD_INCOMPLETE''
        ''Uploaded object size does not match the observed size reported by the client.'')))
      else if ck_hash (checksum_buffer (bd_sha256 dp) buffer) \<noteq> cs_hash s
      then Inl (AppErr (ConflictError (coded ''CHECKSUM_MISMATCH'' ''Uploaded content hash does not match the declared hash.'')))
      else case detect_format (bd_file_type dp) buffer (cs_mime s) of
        Inl _ \<Rightarrow> Inl (unsupported_cover ''Uploaded file is not a supported image format (JPEG or PNG only).'')
      | Inr detected \<Rightarrow>
          if fd_source_kind detected \<noteq> IMAGE_SET \<or> fd_sniffed_mime detected \<notin> set COVER_MIME_TYPES
          then Inl (unsupported_cover ''Uploaded file is not a supported image format (JPEG or PNG only).'')
          else if \<not> fd_match detected then Inl (unsupported_cover ''Uploaded file does not match the declared MIME type.'')
          else case read_image_dimensions buffer (fd_sniffed_mime detected) of
            None \<Rightarrow> Inl (validation_failed ''Could not determine image dimensions.'')
          | Some d \<Rightarrow>
              if \<not> dimensions_allowed d
              then Inl (AppErr (ValidationError (detailed (coded ''VALIDATION_FAILED''
                (''Cover dimensions must be between '' @ show_nat MIN_COVER_DIMENSION_PX @ '' and '' @ show_nat MAX_COVER_DIMENSION_PX
                 @ '' pixels per side.'')) (Some ''dimensions'') ''out_of_range'')))
              else Inr (fd_sniffed_mime detected, d))"

definition cover_row ::
  "books_env \<Rightarrow> principal \<Rightarrow> cover_session \<Rightarrow> string \<Rightarrow> image_dimensions \<Rightarrow> checksum \<Rightarrow> nat \<Rightarrow> object_meta \<Rightarrow> cover" where
  "cover_row ev who s mime d ck n meta =
     \<lparr> co_id = be_id ev 0, co_tenant_id = tenant_id who, co_book_id = cs_book_id s, co_audiobook_id = cs_audiobook_id s,
       co_dimensions = d, co_mime = mime, co_stripped_at = Some (be_now ev), co_uploaded_by = sub who,
       co_object = \<lparr> so_key = cs_storage_key s, so_bucket = om_bucket meta, so_hash = ck_hash ck, so_size = n, so_verified_at = None \<rparr>,
       co_created = be_now ev \<rparr>"

definition put_cover_object ::
  "('q, 'r, 's) cover_deps \<Rightarrow> string \<Rightarrow> bytes \<Rightarrow> string \<Rightarrow> ('q, 'r, 's) assembly_world
     \<Rightarrow> (thrown + object_meta) \<times> ('q, 'r, 's) assembly_world" where
  "put_cover_object dp key body mime w =
     (case cv_put dp \<lparr> pi_key = key, pi_body = body, pi_content_type = mime \<rparr> (iw_store w) of (r, s) \<Rightarrow> (r, w\<lparr> iw_store := s \<rparr>))"

text \<open>The stripped bytes replace the uploaded ones under the same key, before the transaction.\<close>

definition store_cover ::
  "('q, 'r, 's) cover_deps \<Rightarrow> books_env \<Rightarrow> principal \<Rightarrow> cover_session \<Rightarrow> bytes \<Rightarrow> string \<Rightarrow> image_dimensions
     \<Rightarrow> ('q, 'r, 's) assembly_world \<Rightarrow> (thrown + cover) \<times> ('q, 'r, 's) assembly_world" where
  "store_cover dp ev who s buffer mime d =
     (let stripped = strip_exif buffer mime; ck = checksum_buffer (bd_sha256 dp) stripped in
      seqE (put_cover_object dp (cs_storage_key s) stripped mime) (\<lambda>meta.
      let c = cover_row ev who s mime d ck (length stripped) meta in
      seqE (with_transaction (seqE (on_covers (create_row (\<lambda>c e. co_id e = co_id c) c)) (\<lambda>_.
        on_audiobooks (update_row (\<lambda>a. ab_id a = cs_audiobook_id s) (\<lambda>a. a\<lparr> ab_cover := Some (co_id c) \<rparr>))))) (\<lambda>_.
      returnE c)))"

definition confirm_cover_upload ::
  "('q, 'r, 's) cover_deps \<Rightarrow> books_env \<Rightarrow> principal \<Rightarrow> string \<Rightarrow> string \<Rightarrow> confirm_cover_body \<Rightarrow> ('q, 'r, 's) assembly_world
     \<Rightarrow> (thrown + cover_receipt) \<times> ('q, 'r, 's) assembly_world" where
  "confirm_cover_upload dp ev who book_id audiobook_id body =
     seqE (readE (\<lambda>w. cover_sessions_get (bd_redis dp) (tenant_id who) (cc_session_id body) (aw_redis w))) (\<lambda>found.
     case found of
       None \<Rightarrow> throwE (AppErr (NotFoundError (msg_only ''Cover upload session not found.'')))
     | Some s \<Rightarrow>
         if cs_audiobook_id s \<noteq> audiobook_id \<or> cs_book_id s \<noteq> book_id
         then throwE (AppErr (NotFoundError (msg_only ''Cover upload session not found.'')))
         else seqE (readE (\<lambda>w. bindE (bd_get dp (cs_storage_key s) (iw_store w)) (collect_chunks MAX_COVER_SIZE_BYTES []))) (\<lambda>buffer.
              seqE (readE (\<lambda>_. check_cover dp s (cc_observed body) buffer)) (\<lambda>(mime, d).
              seqE (store_cover dp ev who s buffer mime d) (\<lambda>c.
              seqE (on_aw_redis (cover_sessions_delete (bd_redis dp) (tenant_id who) (cs_id s))) (\<lambda>_.
              returnE \<lparr> rc_status = 200, rc_id = co_id c, rc_url = None, rc_dimensions = Some d, rc_mime = Some mime,
                rc_hash = Some (so_hash (co_object c)), rc_created_at = to_iso (be_now ev), rc_expires_at = None \<rparr>)))))"

text \<open>Only the audiobook is looked up, by the book and the audiobook id: no tenant is compared.\<close>

definition put_audiobook_cover ::
  "('q, 'r, 's) cover_deps \<Rightarrow> books_env \<Rightarrow> principal \<Rightarrow> string \<Rightarrow> string \<Rightarrow> put_cover_body \<Rightarrow> ('q, 'r, 's) assembly_world
     \<Rightarrow> (thrown + cover_receipt) \<times> ('q, 'r, 's) assembly_world" where
  "put_audiobook_cover dp ev who book_id audiobook_id body =
     seqE (readE (require_owned_audiobook book_id audiobook_id)) (\<lambda>a.
     if ab_status a \<noteq> AbDraft then throwE (immutable_audiobook a ''cover art can no longer be changed.'')
     else case body of
       Confirm c \<Rightarrow> confirm_cover_upload dp ev who book_id audiobook_id c
     | Initiate i \<Rightarrow> initiate_cover_upload dp ev who book_id audiobook_id i)"

end
