(* ===== verification/AssemblyLaws.thy ===== *)
theory AssemblyLaws
  imports EncodeFormat Covers
begin

text \<open>
  Laws of the assembly handlers.  \<open>preserves\<close> says that a step, whatever it answers, keeps a
  predicate of the state; it follows the structure of a handler.  The locale \<open>audio_invariant\<close> states
  what a predicate on the chapter audio, the audiobooks and the renditions must withstand to survive
  every handler: the writes the code makes on these tables.  The locale \<open>job_frame\<close> holds the steps
  that write none of them.
\<close>

subsection \<open>Steps that keep a predicate\<close>

definition preserves :: "('w \<Rightarrow> bool) \<Rightarrow> ('w \<Rightarrow> (thrown + 'a) \<times> 'w) \<Rightarrow> bool" where
  "preserves I m \<longleftrightarrow> (\<forall>w. I w \<longrightarrow> I (snd (m w)))"

named_theorems preserves_intros \<open>steps that keep a predicate of the state\<close>

lemma preservesI: "(\<And>w. I w \<Longrightarrow> I (snd (m w))) \<Longrightarrow> preserves I m"
  by (simp add: preserves_def)

lemma preservesD: "preserves I m \<Longrightarrow> I w \<Longrightarrow> I (snd (m w))"
  by (simp add: preserves_def)

lemma preserves_run: "preserves I m \<Longrightarrow> m w = (r, w') \<Longrightarrow> I w \<Longrightarrow> I w'"
  by (metis preservesD snd_conv)

lemma preserves_seqE [preserves_intros]:
  assumes "preserves I m" and "\<And>x. preserves I (f x)"
  shows "preserves I (seqE m f)"
proof (rule preservesI)
  fix w assume "I w"
  then have "I (snd (m w))" by (rule preservesD [OF assms(1)])
  then show "I (snd (seqE m f w))"
    using assms by (auto simp: seqE_def preserves_def split: prod.splits sum.splits)
qed

lemma preserves_transaction [preserves_intros]: "preserves I m \<Longrightarrow> preserves I (with_transaction m)"
  by (auto simp: with_transaction_def preserves_def split: prod.splits sum.splits)

lemma preserves_commit: "(\<And>w x w'. I w \<Longrightarrow> m w = (Inr x, w') \<Longrightarrow> I w') \<Longrightarrow> preserves I (with_transaction m)"
  by (auto simp: with_transaction_def preserves_def split: prod.splits sum.splits)

text \<open>A \<open>catch\<close> that rethrows after its own writes.\<close>

lemma preserves_catch:
  assumes "preserves I m" and "\<And>e. preserves I (h e)"
  shows "preserves I (\<lambda>w. case m w of (Inr u, w') \<Rightarrow> (Inr u, w') | (Inl err, w') \<Rightarrow> seqE (h err) (\<lambda>_. throwE err) w')"
proof (rule preservesI)
  fix w assume I: "I w"
  obtain x w1 where m: "m w = (x, w1)" by fastforce
  have w1: "I w1" using assms(1) m I by (rule preserves_run)
  have "preserves I (seqE (h e) (\<lambda>_. throwE e :: 'a \<Rightarrow> (thrown + 'b) \<times> 'a))" for e
    by (rule preserves_seqE [OF assms(2)]) (simp add: preserves_def)
  then show "I (snd (case m w of (Inr u, w') \<Rightarrow> (Inr u, w') | (Inl err, w') \<Rightarrow> seqE (h err) (\<lambda>_. throwE err) w'))"
    using m w1 by (cases x) (simp_all add: preserves_def)
qed

lemma preserves_steps [preserves_intros]:
  "preserves I (returnE x)" "preserves I (throwE e)" "preserves I (readE g)" "preserves I (\<lambda>w. (g w, w))"
  by (auto simp: preserves_def)

lemma preserves_doE [preserves_intros]: "(\<And>w. I w \<Longrightarrow> I (f w)) \<Longrightarrow> preserves I (doE f)"
  by (auto simp: preserves_def)

lemma preserves_on_table: "(\<And>t w. I w \<Longrightarrow> f (get w) = Inr t \<Longrightarrow> I (put t w)) \<Longrightarrow> preserves I (on_table get put f)"
  by (auto simp: preserves_def on_table_def split: sum.splits)

lemma preserves_if [preserves_intros]:
  "(c \<Longrightarrow> preserves I m) \<Longrightarrow> (\<not> c \<Longrightarrow> preserves I n) \<Longrightarrow> preserves I (if c then m else n)"
  by simp

lemma preserves_option [preserves_intros]:
  "(x = None \<Longrightarrow> preserves I m) \<Longrightarrow> (\<And>y. x = Some y \<Longrightarrow> preserves I (n y)) \<Longrightarrow> preserves I (case x of None \<Rightarrow> m | Some y \<Rightarrow> n y)"
  by (cases x) simp_all

lemma preserves_prod [preserves_intros]: "(\<And>a b. x = (a, b) \<Longrightarrow> preserves I (n a b)) \<Longrightarrow> preserves I (case x of (a, b) \<Rightarrow> n a b)"
  by (cases x) simp

lemma if_cases: "P (snd (m w)) \<Longrightarrow> P (snd (n w)) \<Longrightarrow> P (snd ((if c then m else n) w))"
  "P (snd (m w)) \<Longrightarrow> P (snd (n w)) \<Longrightarrow> P (snd (if c then m w else n w))"
  by simp_all

subsection \<open>Predicates on the audio tables\<close>

definition on_audio ::
  "(chapter_audio list \<Rightarrow> audiobook list \<Rightarrow> rendition list \<Rightarrow> bool) \<Rightarrow> ('q, 'r, 's) assembly_world \<Rightarrow> bool" where
  "on_audio I w \<longleftrightarrow> I (aw_chapter_audios w) (aw_audiobooks w) (aw_renditions w)"

lemma on_audio_frame [simp]:
  "on_audio I (db_jobs_update f w) = on_audio I w" "on_audio I (db_outbox_update g w) = on_audio I w"
  "on_audio I (iw_books_update h w) = on_audio I w" "on_audio I (iw_store_update k w) = on_audio I w"
  "on_audio I (aw_members_update l w) = on_audio I w" "on_audio I (aw_book_chapters_update m w) = on_audio I w"
  "on_audio I (aw_covers_update n w) = on_audio I w" "on_audio I (aw_queue_update p w) = on_audio I w"
  "on_audio I (aw_redis_update q w) = on_audio I w"
  by (simp_all add: on_audio_def)

text \<open>
  The jobs, the outbox, the queue and the store: what every handler writes besides the audio tables.  A
  predicate that does not read them survives the steps the handlers share.
\<close>

locale job_frame =
  fixes J :: "('q, 'r, 's) assembly_world \<Rightarrow> bool"
  assumes frame: "J (db_jobs_update f w) = J w" "J (db_outbox_update g w) = J w" "J (aw_queue_update h w) = J w"
    "J (iw_store_update k w) = J w"
begin

lemma frame_steps [preserves_intros]:
  "preserves J (aw_jobs f)" "preserves J (update_own_job i m)" "preserves J (add_outbox ev n draft)"
  "preserves J (dispatch_audio bq now args)" "preserves J (put_wav dp key body ty)"
  "preserves J (put_cover_object cd key body ty)" "preserves J (mark_running ev stage j)"
  by (auto simp: preserves_def update_own_job_def add_outbox_def dispatch_audio_def put_wav_def put_cover_object_def
    mark_running_def on_table_def frame split: prod.splits if_splits sum.splits)

lemma frame_failure [preserves_intros]:
  assumes "preserves J extra"
  shows "preserves J (record_assembly_failure ev settled j c cls m extra draft)"
proof -
  have "preserves J (seqE (update_own_job (jb_id j) (assembly_failed_patch (ye_now ev) c cls m)) (\<lambda>_.
      seqE extra (\<lambda>_. add_outbox ev 0 draft)))"
    using assms by (intro preserves_intros frame_steps)
  then show ?thesis
    unfolding record_assembly_failure_def
    by (intro preserves_transaction) (auto simp: preserves_def split: option.splits)
qed

lemma frame_fan_in [preserves_intros]: "preserves J (maybe_trigger_audiobook_fan_in dp ev j)"
  unfolding maybe_trigger_audiobook_fan_in_def Let_def by (intro preserves_intros frame_steps)

lemma frame_enqueue [preserves_intros]: "preserves J (enqueue_encode_jobs dp ev n j i fs)"
proof (induction fs arbitrary: n)
  case (Cons f fs)
  then show ?case unfolding enqueue_encode_jobs.simps Let_def by (intro preserves_intros frame_steps)
qed (simp add: preserves_intros)

lemma dispatch_all_keeps: "J w \<Longrightarrow> J (snd (dispatch_all bq now js w))"
proof (induction js arbitrary: w)
  case (Cons j js)
  from Cons.prems have "J (snd (dispatch_audio bq now (audio_dispatch j) w))"
    by (rule frame_steps(4) [THEN preservesD])
  then show ?case using Cons.IH [of "snd (dispatch_audio bq now (audio_dispatch j) w)"]
    by (auto split: prod.splits)
qed simp

lemma frame_dispatch_all [preserves_intros]: "preserves J (dispatch_all bq now js)"
  by (rule preservesI) (rule dispatch_all_keeps)

lemma frame_create_jobs [preserves_intros]: "preserves J (create_jobs js)"
proof (induction js)
  case (Cons j js)
  then show ?case unfolding create_jobs.simps by (intro preserves_intros frame_steps)
qed (simp add: preserves_intros)

lemma frame_manifest_failures [preserves_intros]:
  "preserves J (handle_chapter_assembly_failure dp ev j e)" "preserves J (handle_chapter_manifest_incomplete ev j missing reason)"
  "preserves J (handle_director_version_mixing ev j versions)" "preserves J (handle_audiobook_assembly_failure ev j c cls m)"
  "preserves J (handle_audiobook_not_ready ev j)" "preserves J (no_op_assembly dp ev j existing)"
  "preserves J (resume_packaging dp ev j book missing)"
  unfolding handle_chapter_manifest_incomplete_def handle_director_version_mixing_def handle_chapter_assembly_failure_def
    handle_audiobook_not_ready_def handle_audiobook_assembly_failure_def no_op_assembly_def resume_packaging_def
  by (intro preserves_intros frame_steps frame_failure frame_fan_in frame_enqueue)+

end

interpretation audio_frame: job_frame "on_audio I" for I
  by unfold_locales simp_all

lemma preserves_quiet [preserves_intros]:
  "preserves (on_audio I) (aw_books g)" "preserves (on_audio I) (on_members h)"
  "preserves (on_audio I) (on_book_chapters k)" "preserves (on_audio I) (on_covers l)" "preserves (on_audio I) (on_aw_redis p)"
  by (auto simp: preserves_def on_aw_redis_def on_table_def split: prod.splits sum.splits)

locale audio_invariant =
  fixes I :: "chapter_audio list \<Rightarrow> audiobook list \<Rightarrow> rendition list \<Rightarrow> bool"
  assumes add_chapter_audio: "I A B R \<Longrightarrow> create_chapter_audio a
      (update_where (\<lambda>b. ca_chapter_id b = ca_chapter_id a \<and> ca_current b) (supersede_audio now) A) = Inr A' \<Longrightarrow> I A' B R"
    and add_audiobook: "I A B R \<Longrightarrow> create_audiobook x
      (update_where (\<lambda>b. ab_book_id b = ab_book_id x \<and> ab_current b) (supersede_audiobook now) B) = Inr B' \<Longrightarrow> I A B' R"
    and put_rendition: "I A B R \<Longrightarrow> upsert_rendition r R = Inr R' \<Longrightarrow> I A B R'"
    and put_failed: "I A B R \<Longrightarrow> fail_rendition ev x f R = Inr R' \<Longrightarrow> I A B R'"
    and put_status: "I A B R \<Longrightarrow> set_audiobook_status i s B = Inr B' \<Longrightarrow> I A B' R"
    and put_metadata: "I A B R \<Longrightarrow> I A (update_where (\<lambda>a. ab_id a = i) (patch_audiobook p) B) R"
    and put_cover: "I A B R \<Longrightarrow> I A (update_where (\<lambda>a. ab_id a = i) (\<lambda>a. a\<lparr> ab_cover := c \<rparr>) B) R"
begin

lemma keeps_persist_chapter: "preserves (on_audio I) (persist_chapter_audio ev j a ms :: ('q, 'r, 's) assembly_world \<Rightarrow> _)"
  unfolding persist_chapter_audio_def
proof (rule preserves_commit)
  fix w :: "('q, 'r, 's) assembly_world" and x w'
  let ?A = "update_where (\<lambda>b. ca_chapter_id b = ca_chapter_id a \<and> ca_current b) (supersede_audio (ye_now ev)) (aw_chapter_audios w)"
  let ?rest = "seqE (on_members (create_many member_clash (member_rows ev (ca_book_id a) ms))) (\<lambda>_.
     seqE (update_own_job (jb_id j) (assembled_patch (ye_now ev) (Some ''DONE'') ''chapter_audio'' (ca_id a) (ca_version a))) (\<lambda>_.
     add_outbox ev 1 (chapter_completed_draft j a)))"
  assume I: "on_audio I w" and "seqE (doE (\<lambda>w. w\<lparr> aw_chapter_audios := update_where (\<lambda>b. ca_chapter_id b = ca_chapter_id a \<and> ca_current b)
        (supersede_audio (ye_now ev)) (aw_chapter_audios w) \<rparr>)) (\<lambda>_. seqE (on_chapter_audios (create_chapter_audio a)) (\<lambda>_. ?rest)) w = (Inr x, w')"
  then obtain A where A: "create_chapter_audio a ?A = Inr A" and rest: "?rest (w\<lparr> aw_chapter_audios := A \<rparr>) = (Inr x, w')"
    by (auto simp: seqE_Inr elim!: on_table_cases)
  have "on_audio I (w\<lparr> aw_chapter_audios := A \<rparr>)"
    using add_chapter_audio [OF _ A] I by (simp add: on_audio_def)
  then have "on_audio I (snd (?rest (w\<lparr> aw_chapter_audios := A \<rparr>)))"
    by (intro preservesD [where I = "on_audio I" and m = ?rest] preserves_intros)
  then show "on_audio I w'" using rest by simp
qed

lemma keeps_persist_audiobook: "preserves (on_audio I) (persist_audiobook ev j a ms :: ('q, 'r, 's) assembly_world \<Rightarrow> _)"
  unfolding persist_audiobook_def
proof (rule preserves_commit)
  fix w :: "('q, 'r, 's) assembly_world" and x w'
  let ?B = "update_where (\<lambda>b. ab_book_id b = ab_book_id a \<and> ab_current b) (supersede_audiobook (ye_now ev)) (aw_audiobooks w)"
  let ?rest = "seqE (on_book_chapters (create_many book_chapter_clash (book_chapter_rows (ab_id a) (ab_book_id a) ms))) (\<lambda>_.
     seqE (update_own_job (jb_id j) (assembled_patch (ye_now ev) (Some ''DONE'') ''audiobook'' (ab_id a) (ab_version a))) (\<lambda>_.
     add_outbox ev 0 (audiobook_started_draft j a)))"
  assume I: "on_audio I w" and "seqE (doE (\<lambda>w. w\<lparr> aw_audiobooks := update_where (\<lambda>b. ab_book_id b = ab_book_id a \<and> ab_current b)
        (supersede_audiobook (ye_now ev)) (aw_audiobooks w) \<rparr>)) (\<lambda>_. seqE (on_audiobooks (create_audiobook a)) (\<lambda>_. ?rest)) w = (Inr x, w')"
  then obtain B where B: "create_audiobook a ?B = Inr B" and rest: "?rest (w\<lparr> aw_audiobooks := B \<rparr>) = (Inr x, w')"
    by (auto simp: seqE_Inr elim!: on_table_cases)
  have "on_audio I (w\<lparr> aw_audiobooks := B \<rparr>)"
    using add_audiobook [OF _ B] I by (simp add: on_audio_def)
  then have "on_audio I (snd (?rest (w\<lparr> aw_audiobooks := B \<rparr>)))"
    by (intro preservesD [where I = "on_audio I" and m = ?rest] preserves_intros)
  then show "on_audio I w'" using rest by simp
qed

lemma keeps_table_writes:
  "preserves (on_audio I) (on_renditions (upsert_rendition r))" "preserves (on_audio I) (on_renditions (fail_rendition ev x f))"
  "preserves (on_audio I) (on_audiobooks (set_audiobook_status i s))"
  "preserves (on_audio I) (on_audiobooks (update_row (\<lambda>a. ab_id a = i) (patch_audiobook p)))"
  "preserves (on_audio I) (on_audiobooks (update_row (\<lambda>a. ab_id a = i) (\<lambda>a. a\<lparr> ab_cover := c \<rparr>)))"
  by (rule preserves_on_table; auto simp: on_audio_def dest!: update_row_Inr
    intro: put_rendition put_failed put_status put_metadata put_cover)+

subsection \<open>The chapter processor\<close>

lemma keeps_build_chapter: "preserves (on_audio I) (build_chapter_audio dp ev j chapter_id cs hash)"
  unfolding build_chapter_audio_def by (intro preserves_intros keeps_persist_chapter)

lemma keeps_assemble_and_persist: "preserves (on_audio I) (assemble_and_persist dp ev j chapter_id cs hash)"
  unfolding assemble_and_persist_def by (intro preserves_intros keeps_build_chapter)

lemma keeps_run_assembly [preserves_intros]: "preserves (on_audio I) (run_assembly dp ev j chapter_id cs hash)"
  unfolding run_assembly_def
  by (intro preserves_seqE preserves_catch preserves_transaction keeps_assemble_and_persist) (intro preserves_intros)+

lemma keeps_assemble_chapter: "on_audio I w \<Longrightarrow> on_audio I (snd (assemble_chapter dp ev j chapter_id w))"
  by (auto simp: assemble_chapter_def Let_def split: option.splits
    intro: audio_frame.frame_manifest_failures [THEN preservesD] keeps_run_assembly [THEN preservesD])

lemma keeps_chapter_job: "on_audio I w \<Longrightarrow> on_audio I (snd (process_assemble_chapter_job dp ev envelope w))"
  by (auto simp: process_assemble_chapter_job_def Let_def intro: keeps_assemble_chapter split: option.splits)

subsection \<open>The audiobook processor\<close>

lemma keeps_build_audiobook: "preserves (on_audio I) (build_audiobook dp ev j b v cs formats hash)"
  unfolding build_audiobook_def build_master_def Let_def by (intro preserves_intros keeps_persist_audiobook)

lemma keeps_run_audiobook [preserves_intros]: "preserves (on_audio I) (run_audiobook_assembly dp ev j b v cs formats hash)"
  unfolding run_audiobook_assembly_def
  by (intro preserves_seqE preserves_catch keeps_build_audiobook) (intro preserves_intros)+

lemma keeps_assemble_audiobook: "on_audio I w \<Longrightarrow> on_audio I (snd (assemble_audiobook dp ev j b formats w))"
  by (auto simp: assemble_audiobook_def Let_def split: option.splits prod.splits bool.splits
    intro: audio_frame.frame_manifest_failures [THEN preservesD] keeps_run_audiobook [THEN preservesD])

lemma keeps_audiobook_job: "on_audio I w \<Longrightarrow> on_audio I (snd (process_assemble_audiobook_job dp ev envelope w))"
  by (auto simp: process_assemble_audiobook_job_def Let_def intro: keeps_assemble_audiobook split: option.splits)

subsection \<open>The encode processor\<close>

lemma keeps_stored_rendition: "preserves (on_audio I) (seqE (readE f) (\<lambda>(b, probed). seqE (readE g) (\<lambda>key.
    seqE (put_wav dp key b ty) (\<lambda>meta. on_renditions (upsert_rendition (row probed key meta))))))"
  by (intro preserves_intros keeps_table_writes)

lemma keeps_encode_chapter [preserves_intros]: "preserves (on_audio I) (encode_chapter dp ev master a tool_model i c)"
  by (rule preservesI) (auto simp: encode_chapter_def intro!: keeps_stored_rendition [THEN preservesD])

lemma keeps_encode_mp3 [preserves_intros]: "preserves (on_audio I) (encode_mp3_per_chapter dp ev master a tool_model i cs)"
proof (induction cs arbitrary: i)
  case (Cons c cs)
  then show ?case unfolding encode_mp3_per_chapter.simps by (intro preserves_intros)
qed (simp add: preserves_intros)

lemma keeps_encode_single [preserves_intros]:
  "preserves (on_audio I) (encode_single_file_format dp ev master a cs format tool_model)"
  unfolding encode_single_file_format_def by (intro preserves_intros keeps_table_writes)

lemma keeps_publication: "preserves (on_audio I) (seqE (on_audiobooks (set_audiobook_status i s)) (\<lambda>_.
    seqE (returnE ()) (\<lambda>_. add_outbox ev n draft)))"
  "preserves (on_audio I) (seqE (on_audiobooks (set_audiobook_status i s)) (\<lambda>_.
    seqE (aw_books f) (\<lambda>_. add_outbox ev n draft)))"
  by (intro preserves_intros keeps_table_writes)+

lemma keeps_publish_audiobook [preserves_intros]: "preserves (on_audio I) (publish_audiobook ev j a formats n)"
  unfolding publish_audiobook_def
  by (intro preserves_transaction preservesI)
    (auto simp del: step_simps split: option.splits intro!: keeps_publication [THEN preservesD])

lemma keeps_publish [preserves_intros]: "preserves (on_audio I) (maybe_publish_audiobook ev j a)"
  by (rule preservesI) (auto simp: maybe_publish_audiobook_def Let_def intro: keeps_publish_audiobook [THEN preservesD])

lemma keeps_fail_audiobook [preserves_intros]: "preserves (on_audio I) (fail_audiobook a)"
  by (rule preservesI) (auto simp: fail_audiobook_def split: option.splits intro: keeps_table_writes(3) [THEN preservesD])

lemma keeps_encode_failure [preserves_intros]: "preserves (on_audio I) (handle_encode_failure dp ev j a format e)"
  unfolding handle_encode_failure_def Let_def by (intro preserves_intros keeps_table_writes)

lemma keeps_encode_and_publish: "preserves (on_audio I) (encode_and_publish dp ev j a format)"
  unfolding encode_and_publish_def by (intro preserves_intros)

lemma keeps_packaged: "preserves (on_audio I) (seqE (with_transaction (update_own_job i f)) (\<lambda>_. maybe_publish_audiobook ev j a))"
  by (intro preserves_intros)

lemma keeps_encode_again: "preserves (on_audio I) (seqE (mark_running ev ''ENCODING'' j) (\<lambda>_ w.
        (case encode_and_publish dp ev j a format w of
           (Inr u, w') \<Rightarrow> (Inr u, w')
         | (Inl err, w') \<Rightarrow> seqE (handle_encode_failure dp ev j a format err) (\<lambda>_. throwE err) w')))"
  by (intro preserves_seqE preserves_catch keeps_encode_and_publish) (intro preserves_intros)+

lemma keeps_encode_format: "on_audio I w \<Longrightarrow> on_audio I (snd (encode_format dp ev j a format w))"
  unfolding encode_format_def
  by (rule if_cases(2)) (rule keeps_packaged [THEN preservesD], assumption, rule keeps_encode_again [THEN preservesD], assumption)

lemma keeps_encode_job: "on_audio I w \<Longrightarrow> on_audio I (snd (process_encode_delivery_format_job dp ev envelope w))"
  by (auto simp: process_encode_delivery_format_job_def Let_def intro: keeps_encode_format split: option.splits)

subsection \<open>The service\<close>

lemma keeps_create_jobs [preserves_intros]: "preserves (on_audio I) (create_chapter_jobs dp ev book_id js)"
  unfolding create_chapter_jobs_def by (intro preserves_intros)

lemma keeps_enqueued: "preserves (on_audio I) (seqE (aw_jobs f) (\<lambda>_. seqE (dispatch_audio bq now args) (\<lambda>_. returnE x)))"
  by (intro preserves_intros)

lemma keeps_enqueue_audiobook [preserves_intros]: "preserves (on_audio I) (maybe_enqueue_assemble_audiobook dp ev who pl force)"
  by (rule preservesI) (auto simp del: step_simps simp: maybe_enqueue_assemble_audiobook_def Let_def intro!: keeps_enqueued [THEN preservesD])

lemma keeps_start: "preserves (on_audio I) (start_assembly dp ev who book_id body)"
  unfolding start_assembly_def Let_def by (intro preserves_intros)

lemma keeps_metadata: "preserves (on_audio I) (update_audiobook_metadata who book_id i p)"
  unfolding update_audiobook_metadata_def by (intro preserves_intros keeps_table_writes)

lemma keeps_confirm_cover [preserves_intros]: "preserves (on_audio I) (confirm_cover_upload dp ev who book_id i c)"
  unfolding confirm_cover_upload_def store_cover_def Let_def by (intro preserves_intros keeps_table_writes)

lemma keeps_initiate_cover [preserves_intros]: "preserves (on_audio I) (initiate_cover_upload dp ev who book_id i c)"
  unfolding initiate_cover_upload_def Let_def by (intro preserves_intros)

lemma keeps_cover: "preserves (on_audio I) (put_audiobook_cover dp ev who book_id i body)"
  unfolding put_audiobook_cover_def
  by (intro preserves_seqE preserves_if preserves_steps) (cases body; simp add: preserves_intros)

end

subsection \<open>The two instances\<close>

text \<open>
  The keys: identifiers, one row per version number, one current row per chapter and per book, one
  rendition per format and chapter.  The checks: every row satisfies the check constraints of its table.
\<close>

definition audio_keys :: "chapter_audio list \<Rightarrow> audiobook list \<Rightarrow> rendition list \<Rightarrow> bool" where
  "audio_keys A B R \<longleftrightarrow> distinct (map ca_id A) \<and> distinct (map (\<lambda>a. (ca_chapter_id a, ca_version a)) A)
     \<and> distinct (map ca_chapter_id (filter (\<lambda>a. ca_current a \<and> \<not> ca_preview a) A))
     \<and> distinct (map ab_id B) \<and> distinct (map (\<lambda>b. (ab_book_id b, ab_version b)) B)
     \<and> distinct (map ab_book_id (filter (\<lambda>b. ab_current b \<and> \<not> ab_preview b) B))
     \<and> distinct (map rn_id R) \<and> distinct (map (\<lambda>r. (rn_audiobook_id r, rn_format r, rn_chapter_id r)) R)"

definition audio_rows :: "chapter_audio list \<Rightarrow> audiobook list \<Rightarrow> rendition list \<Rightarrow> bool" where
  "audio_rows A B R \<longleftrightarrow> distinct (map ab_id B) \<and> list_all voice_check A \<and> list_all audiobook_check B \<and> list_all rendition_check R"

lemma create_checked_Inr: "create_checked ok c clash r t = Inr t' \<Longrightarrow> ok r \<and> t' = t @ [r] \<and> (\<forall>x \<in> set t. \<not> clash r x)"
  by (auto simp: create_checked_def dest: create_row_Inr split: if_splits)

lemma keys_update_where: "(\<And>r. key (f r) = key r) \<Longrightarrow> map key (update_where P f t) = map key t"
  by (induction t) simp_all

lemma filter_update_where: "(\<And>r. P r \<Longrightarrow> \<not> Q (f r)) \<Longrightarrow> filter Q (update_where P f t) = filter (\<lambda>r. Q r \<and> \<not> P r) t"
  by (induction t) auto

lemma filter_update_keeps: "(\<And>r. Q (f r) = Q r) \<Longrightarrow> (\<And>r. key (f r) = key r)
  \<Longrightarrow> map key (filter Q (update_where P f t)) = map key (filter Q t)"
  by (induction t) auto

lemma distinct_map_filter_conj: "distinct (map key (filter Q t)) \<Longrightarrow> distinct (map key (filter (\<lambda>r. Q r \<and> P r) t))"
  by (induction t) (auto split: if_splits)

lemma distinct_map_snoc: "map key T = map key t \<Longrightarrow> distinct (map key t) \<Longrightarrow> (\<And>x. x \<in> set T \<Longrightarrow> key x \<noteq> key a)
  \<Longrightarrow> distinct (map key (T @ [a]))"
proof -
  assume "map key T = map key t" "distinct (map key t)" and new: "\<And>x. x \<in> set T \<Longrightarrow> key x \<noteq> key a"
  then have "distinct (map key T)" by metis
  moreover have "key a \<notin> key ` set T" using new by force
  ultimately show ?thesis by simp
qed

lemma distinct_superseded:
  assumes "distinct (map key (filter Q t))" and "\<And>r. P r \<Longrightarrow> \<not> Q (f r)" and "\<And>r. Q r \<Longrightarrow> key r = key a \<Longrightarrow> P r"
  shows "distinct (map key (filter Q (update_where P f t @ [a])))"
  using distinct_map_filter_conj [OF assms(1), of "\<lambda>r. \<not> P r"] assms(3)
    filter_update_where [of P Q f t] assms(2) by auto

lemma list_all_update_where: "list_all Q t \<Longrightarrow> (\<And>r. r \<in> set t \<Longrightarrow> P r \<Longrightarrow> Q r \<Longrightarrow> Q (f r)) \<Longrightarrow> list_all Q (update_where P f t)"
  by (induction t) auto

lemma supersede_audio_sel [simp]:
  "ca_id (supersede_audio now a) = ca_id a" "ca_chapter_id (supersede_audio now a) = ca_chapter_id a"
  "ca_version (supersede_audio now a) = ca_version a" "ca_current (supersede_audio now a) = False"
  "ca_preview (supersede_audio now a) = ca_preview a" "ca_manifest_hash (supersede_audio now a) = ca_manifest_hash a"
  "voice_check (supersede_audio now a) = voice_check a"
  by (simp_all add: supersede_audio_def voice_check_def)

lemma supersede_audiobook_sel [simp]:
  "ab_id (supersede_audiobook now a) = ab_id a" "ab_book_id (supersede_audiobook now a) = ab_book_id a"
  "ab_version (supersede_audiobook now a) = ab_version a" "ab_current (supersede_audiobook now a) = False"
  "ab_preview (supersede_audiobook now a) = ab_preview a" "ab_status (supersede_audiobook now a) = ab_status a"
  "audiobook_check (supersede_audiobook now a) = audiobook_check a"
  by (simp_all add: supersede_audiobook_def audiobook_check_def)

lemma patch_audiobook_sel [simp]:
  "ab_id (patch_audiobook p a) = ab_id a" "ab_book_id (patch_audiobook p a) = ab_book_id a"
  "ab_version (patch_audiobook p a) = ab_version a" "ab_current (patch_audiobook p a) = ab_current a"
  "ab_preview (patch_audiobook p a) = ab_preview a" "audiobook_check (patch_audiobook p a) = audiobook_check a"
  by (simp_all add: patch_audiobook_def audiobook_check_def Let_def)

lemma upsert_rendition_cases:
  assumes "upsert_rendition r R = Inr R'"
  obtains (replaced) s where "s \<in> set R" "rendition_check r" "R' = update_where (\<lambda>u. rn_id u = rn_id s) (\<lambda>u. r\<lparr> rn_id := rn_id u \<rparr>) R"
      "rn_audiobook_id s = rn_audiobook_id r" "rn_format s = rn_format r" "rn_chapter_id s = rn_chapter_id r"
    | (added) "rendition_check r" "R' = R @ [r]" "\<forall>s \<in> set R. \<not> rendition_clash r s"
  using assms by (auto simp: upsert_rendition_def create_rendition_def split: option.splits if_splits
      dest!: find_row_Some create_checked_Inr)

lemma fail_rendition_cases:
  assumes "fail_rendition ev a f R = Inr R'"
  obtains (marked) s where "s \<in> set R" "R' = update_where (\<lambda>r. rn_id r = rn_id s) (\<lambda>r. r\<lparr> rn_status := RnFailed \<rparr>) R"
    | (added) "rendition_check (failed_rendition ev a f)" "R' = R @ [failed_rendition ev a f]"
        "\<forall>s \<in> set R. \<not> rendition_clash (failed_rendition ev a f) s"
  using assms by (auto simp: fail_rendition_def create_rendition_def split: option.splits dest!: find_row_Some create_checked_Inr)

lemma set_audiobook_status_Inr:
  "set_audiobook_status i s B = Inr B' \<Longrightarrow> B' = update_where (\<lambda>b. ab_id b = i) (\<lambda>b. b\<lparr> ab_status := s \<rparr>) B
     \<and> (\<exists>a. find_row (\<lambda>b. ab_id b = i) B = Some a \<and> audiobook_check (a\<lparr> ab_status := s \<rparr>))"
  by (auto simp: set_audiobook_status_def split: option.splits if_splits)

lemma replaced_keys:
  assumes "distinct (map rn_id R)" "s \<in> set R" "key (r\<lparr> rn_id := rn_id s \<rparr>) = key s"
  shows "map key (update_where (\<lambda>u. rn_id u = rn_id s) (\<lambda>u. r\<lparr> rn_id := rn_id u \<rparr>) R) = map key R"
proof -
  have "u = s" if "u \<in> set R" "rn_id u = rn_id s" for u
    using that assms(1,2) by (auto simp: distinct_map dest: inj_onD)
  then show ?thesis using assms(3) by (auto simp: update_where_def)
qed

interpretation keys: audio_invariant audio_keys
proof
  fix A B R and a :: chapter_audio and now A'
  let ?A = "update_where (\<lambda>b. ca_chapter_id b = ca_chapter_id a \<and> ca_current b) (supersede_audio now) A"
  assume I: "audio_keys A B R" and "create_chapter_audio a ?A = Inr A'"
  then have A': "A' = ?A @ [a]" and new: "\<forall>x \<in> set ?A. \<not> chapter_audio_clash a x"
    by (auto simp: create_chapter_audio_def dest: create_checked_Inr)
  have keys: "map ca_id ?A = map ca_id A" "map (\<lambda>a. (ca_chapter_id a, ca_version a)) ?A = map (\<lambda>a. (ca_chapter_id a, ca_version a)) A"
    by (rule keys_update_where; simp)+
  have "distinct (map ca_id A')"
    unfolding A' by (rule distinct_map_snoc [OF keys(1)]) (use I new in \<open>auto simp: audio_keys_def chapter_audio_clash_def\<close>)
  moreover have "distinct (map (\<lambda>a. (ca_chapter_id a, ca_version a)) A')"
    unfolding A' by (rule distinct_map_snoc [OF keys(2)]) (use I new in \<open>auto simp: audio_keys_def chapter_audio_clash_def\<close>)
  moreover have "distinct (map ca_chapter_id (filter (\<lambda>a. ca_current a \<and> \<not> ca_preview a) A'))"
    unfolding A' by (rule distinct_superseded) (use I in \<open>auto simp: audio_keys_def\<close>)
  ultimately show "audio_keys A' B R" using I by (simp add: audio_keys_def)
next
  fix A B R and a :: audiobook and now B'
  let ?B = "update_where (\<lambda>b. ab_book_id b = ab_book_id a \<and> ab_current b) (supersede_audiobook now) B"
  assume I: "audio_keys A B R" and "create_audiobook a ?B = Inr B'"
  then have B': "B' = ?B @ [a]" and new: "\<forall>x \<in> set ?B. \<not> audiobook_clash a x"
    by (auto simp: create_audiobook_def dest: create_checked_Inr)
  have keys: "map ab_id ?B = map ab_id B" "map (\<lambda>a. (ab_book_id a, ab_version a)) ?B = map (\<lambda>a. (ab_book_id a, ab_version a)) B"
    by (rule keys_update_where; simp)+
  have "distinct (map ab_id B')"
    unfolding B' by (rule distinct_map_snoc [OF keys(1)]) (use I new in \<open>auto simp: audio_keys_def audiobook_clash_def\<close>)
  moreover have "distinct (map (\<lambda>a. (ab_book_id a, ab_version a)) B')"
    unfolding B' by (rule distinct_map_snoc [OF keys(2)]) (use I new in \<open>auto simp: audio_keys_def audiobook_clash_def\<close>)
  moreover have "distinct (map ab_book_id (filter (\<lambda>a. ab_current a \<and> \<not> ab_preview a) B'))"
    unfolding B' by (rule distinct_superseded) (use I in \<open>auto simp: audio_keys_def\<close>)
  ultimately show "audio_keys A B' R" using I by (simp add: audio_keys_def)
next
  fix A B R r R' assume I: "audio_keys A B R" and "upsert_rendition r R = Inr R'"
  from this(2) show "audio_keys A B R'"
  proof (cases rule: upsert_rendition_cases)
    case (replaced s)
    have "map rn_id R' = map rn_id R" "map (\<lambda>r. (rn_audiobook_id r, rn_format r, rn_chapter_id r)) R'
        = map (\<lambda>r. (rn_audiobook_id r, rn_format r, rn_chapter_id r)) R"
      using I replaced unfolding replaced(3) by (auto intro!: replaced_keys simp: audio_keys_def)
    then show ?thesis using I by (simp add: audio_keys_def)
  next
    case added
    then show ?thesis using I by (auto simp: audio_keys_def rendition_clash_def)
  qed
next
  fix A B R ev x f R' assume I: "audio_keys A B R" and "fail_rendition ev x f R = Inr R'"
  from this(2) show "audio_keys A B R'"
  proof (cases rule: fail_rendition_cases)
    case (marked s)
    have "map rn_id R' = map rn_id R" "map (\<lambda>r. (rn_audiobook_id r, rn_format r, rn_chapter_id r)) R'
        = map (\<lambda>r. (rn_audiobook_id r, rn_format r, rn_chapter_id r)) R"
      unfolding marked(2) by (rule keys_update_where; simp)+
    then show ?thesis using I by (simp add: audio_keys_def)
  next
    case added
    then show ?thesis using I by (auto simp: audio_keys_def rendition_clash_def)
  qed
next
  fix A B R i s B' assume I: "audio_keys A B R" and "set_audiobook_status i s B = Inr B'"
  then have B': "B' = update_where (\<lambda>b. ab_id b = i) (\<lambda>b. b\<lparr> ab_status := s \<rparr>) B" by (simp add: set_audiobook_status_Inr)
  show "audio_keys A B' R"
    using I unfolding B' audio_keys_def by (simp add: keys_update_where filter_update_keeps)
next
  fix A B R i p assume "audio_keys A B R"
  then show "audio_keys A (update_where (\<lambda>a. ab_id a = i) (patch_audiobook p) B) R"
    unfolding audio_keys_def by (simp add: keys_update_where filter_update_keeps)
next
  fix A B R i and c :: "string option" assume "audio_keys A B R"
  then show "audio_keys A (update_where (\<lambda>a. ab_id a = i) (\<lambda>a. a\<lparr> ab_cover := c \<rparr>) B) R"
    unfolding audio_keys_def by (simp add: keys_update_where filter_update_keeps)
qed

interpretation rows: audio_invariant audio_rows
proof
  fix A B R and a :: chapter_audio and now A'
  assume "audio_rows A B R" "create_chapter_audio a
    (update_where (\<lambda>b. ca_chapter_id b = ca_chapter_id a \<and> ca_current b) (supersede_audio now) A) = Inr A'"
  then show "audio_rows A' B R"
    by (auto simp: audio_rows_def create_chapter_audio_def dest!: create_checked_Inr intro!: list_all_update_where)
next
  fix A B R and a :: audiobook and now B'
  let ?B = "update_where (\<lambda>b. ab_book_id b = ab_book_id a \<and> ab_current b) (supersede_audiobook now) B"
  assume I: "audio_rows A B R" and "create_audiobook a ?B = Inr B'"
  then have B': "B' = ?B @ [a]" "audiobook_check a" and new: "\<forall>x \<in> set ?B. \<not> audiobook_clash a x"
    by (auto simp: create_audiobook_def dest: create_checked_Inr)
  have "map ab_id ?B = map ab_id B" by (rule keys_update_where) simp
  then have "distinct (map ab_id B')"
    unfolding B' by (rule distinct_map_snoc) (use I new in \<open>auto simp: audio_rows_def audiobook_clash_def\<close>)
  moreover have "list_all audiobook_check B'"
    using I B'(2) unfolding B'(1) by (auto simp: audio_rows_def intro!: list_all_update_where)
  ultimately show "audio_rows A B' R" using I by (simp add: audio_rows_def)
next
  fix A B R r R' assume I: "audio_rows A B R" and "upsert_rendition r R = Inr R'"
  from this(2) show "audio_rows A B R'"
    by (cases rule: upsert_rendition_cases)
      (use I in \<open>auto simp: audio_rows_def rendition_check_def intro!: list_all_update_where\<close>)
next
  fix A B R ev x f R' assume I: "audio_rows A B R" and "fail_rendition ev x f R = Inr R'"
  from this(2) show "audio_rows A B R'"
    by (cases rule: fail_rendition_cases)
      (use I in \<open>auto simp: audio_rows_def rendition_check_def intro!: list_all_update_where\<close>)
next
  fix A B R i s B' assume I: "audio_rows A B R" and "set_audiobook_status i s B = Inr B'"
  then obtain a where B': "B' = update_where (\<lambda>b. ab_id b = i) (\<lambda>b. b\<lparr> ab_status := s \<rparr>) B"
    and a: "find_row (\<lambda>b. ab_id b = i) B = Some a" "audiobook_check (a\<lparr> ab_status := s \<rparr>)"
    by (auto dest: set_audiobook_status_Inr)
  have "b = a" if "b \<in> set B" "ab_id b = i" for b
    using that a(1) find_row_key_unique [of ab_id B b] I by (auto simp: audio_rows_def)
  then show "audio_rows A B' R"
    using I a(2) unfolding B' audio_rows_def by (auto simp: keys_update_where intro!: list_all_update_where)
next
  fix A B R i p assume "audio_rows A B R"
  then show "audio_rows A (update_where (\<lambda>a. ab_id a = i) (patch_audiobook p) B) R"
    unfolding audio_rows_def by (auto simp: keys_update_where intro!: list_all_update_where)
next
  fix A B R i and c :: "string option" assume "audio_rows A B R"
  then show "audio_rows A (update_where (\<lambda>a. ab_id a = i) (\<lambda>a. a\<lparr> ab_cover := c \<rparr>) B) R"
    unfolding audio_rows_def by (auto simp: keys_update_where audiobook_check_def intro!: list_all_update_where)
qed

subsection \<open>Histories\<close>

text \<open>One call of a processor or of an operation of the service, whatever it answers.\<close>

inductive audio_step :: "('q, 'r, 's) assembly_world \<Rightarrow> ('q, 'r, 's) assembly_world \<Rightarrow> bool" where
  chapter_call: "process_assemble_chapter_job dp ev envelope w = (r, w') \<Longrightarrow> audio_step w w'"
| audiobook_call: "process_assemble_audiobook_job dp ev envelope w = (r, w') \<Longrightarrow> audio_step w w'"
| encoding: "process_encode_delivery_format_job dp ev envelope w = (r, w') \<Longrightarrow> audio_step w w'"
| starting: "start_assembly bd be who book_id body w = (accepted, w') \<Longrightarrow> audio_step w w'"
| metadata: "update_audiobook_metadata who book_id i p w = (dto, w') \<Longrightarrow> audio_step w w'"
| cover: "put_audiobook_cover cd be who book_id i cover_body w = (receipt, w') \<Longrightarrow> audio_step w w'"

inductive audio_history :: "('q, 'r, 's) assembly_world \<Rightarrow> ('q, 'r, 's) assembly_world \<Rightarrow> bool" where
  none: "audio_history w w"
| later: "audio_history w w' \<Longrightarrow> audio_step w' w'' \<Longrightarrow> audio_history w w''"

context audio_invariant begin

lemma step_keeps: "audio_step w w' \<Longrightarrow> on_audio I w \<Longrightarrow> on_audio I w'"
proof (induction rule: audio_step.induct)
  case (chapter_call dp ev envelope w r w')
  then show ?case using keeps_chapter_job [of w dp ev envelope] by simp
next
  case (audiobook_call dp ev envelope w r w')
  then show ?case using keeps_audiobook_job [of w dp ev envelope] by simp
next
  case (encoding dp ev envelope w r w')
  then show ?case using keeps_encode_job [of w dp ev envelope] by simp
next
  case (starting bd be who book_id body w accepted w')
  show ?case by (rule preserves_run [OF keeps_start starting.hyps starting.prems])
next
  case (metadata who book_id i p w dto w')
  show ?case by (rule preserves_run [OF keeps_metadata metadata.hyps metadata.prems])
next
  case (cover cd be who book_id i cover_body w receipt w')
  show ?case by (rule preserves_run [OF keeps_cover cover.hyps cover.prems])
qed

lemma history_keeps: "audio_history w w' \<Longrightarrow> on_audio I w \<Longrightarrow> on_audio I w'"
  by (induction rule: audio_history.induct) (auto dest: step_keeps)

end

end
