(* ===== verification/AssemblyResults.thy ===== *)
theory AssemblyResults
  imports AssemblyLaws BookLaws
begin

text \<open>
  What a call of the chapter processor and of the audiobook processor leaves in the audio tables:
  either they are as before, or exactly one chapter audio with its members, or one audiobook with its
  chapters, was added in one transaction, and the job of the call carries its identifier.
\<close>

definition audio_tables :: "('q, 'r, 's) assembly_world
    \<Rightarrow> chapter_audio list \<times> audio_member list \<times> audiobook list \<times> audiobook_chapter list \<times> rendition list" where
  "audio_tables w = (aw_chapter_audios w, aw_members w, aw_audiobooks w, aw_book_chapters w, aw_renditions w)"

lemma audio_tables_frame [simp]:
  "audio_tables (db_jobs_update f w) = audio_tables w" "audio_tables (db_outbox_update g w) = audio_tables w"
  "audio_tables (aw_queue_update h w) = audio_tables w" "audio_tables (iw_store_update k w) = audio_tables w"
  by (simp_all add: audio_tables_def)

interpretation tables: job_frame "\<lambda>w. audio_tables w = T" for T
  by unfold_locales simp_all

lemma tables_run: "(\<And>T. preserves (\<lambda>w. audio_tables w = T) m) \<Longrightarrow> m w = (r, w') \<Longrightarrow> audio_tables w' = audio_tables w"
  using preserves_run [of "\<lambda>v. audio_tables v = audio_tables w" m w r w'] by simp

subsection \<open>Members and marks tile\<close>

text \<open>Pieces laid end to end: the first starts at zero, each next one where the one before it ends.\<close>

fun tiles :: "int \<Rightarrow> (int \<times> int) list \<Rightarrow> bool" where
  "tiles t [] \<longleftrightarrow> True"
| "tiles t ((start, n) # rest) \<longleftrightarrow> start = t \<and> tiles (t + n) rest"

lemma tiles_starts: "tiles t ps \<Longrightarrow> i < length ps \<Longrightarrow> fst (ps ! i) = t + sum_list (map snd (take i ps))"
proof (induction ps arbitrary: t i)
  case (Cons p ps)
  then show ?case by (cases i; cases p) auto
qed simp

lemma render_chunk_member:
  "render_chunk dp s i start c a = Inr (f, m) \<Longrightarrow> mr_audio_chunk_id m = ac_id a \<and> mr_order m = i \<and> mr_start_ms m = start"
  by (auto simp: render_chunk_def bindE_eq_Inr Let_def)

lemma render_chunks_members:
  "render_chunks dp s i start cs = Inr rs \<Longrightarrow>
     map mr_audio_chunk_id (map snd rs) = map (ac_id \<circ> snd) cs \<and> map mr_order (map snd rs) = [i..<i + length cs]
     \<and> tiles start (map (\<lambda>m. (mr_start_ms m, mr_duration_ms m)) (map snd rs))"
proof (induction cs arbitrary: i start rs)
  case (Cons c cs)
  obtain sc a where c: "c = (sc, a)" by (cases c)
  obtain f m ms where m: "render_chunk dp s i start sc a = Inr (f, m)"
    and ms: "render_chunks dp s (Suc i) (start + mr_duration_ms m) cs = Inr ms" and rs: "rs = (f, m) # ms"
    using Cons.prems unfolding c by (auto simp: bindE_eq_Inr)
  have range: "[i..<i + length ((sc, a) # cs)] = i # [Suc i..<Suc i + length cs]"
    by (simp add: upt_conv_Cons del: upt_Suc)
  show ?case
    using Cons.IH [OF ms] render_chunk_member [OF m] unfolding rs c range by (simp del: upt_Suc)
qed simp

lemma master_chapter_members: "master_chapter dp rs = Inr audio \<Longrightarrow> aa_members audio = map snd rs"
  by (auto simp: master_chapter_def bindE_eq_Inr Let_def split: if_splits)

lemma assembled_members:
  assumes "assemble_chapter_audio dp cs s = Inr audio"
  shows "map mr_audio_chunk_id (aa_members audio) = map (ac_id \<circ> snd) cs" "map mr_order (aa_members audio) = [0..<length cs]"
    "tiles 0 (map (\<lambda>m. (mr_start_ms m, mr_duration_ms m)) (aa_members audio))"
proof -
  obtain rs where rs: "render_chunks dp s 0 0 cs = Inr rs" and m: "master_chapter dp rs = Inr audio"
    using assms by (auto simp: assemble_chapter_audio_def bindE_eq_Inr)
  show "map mr_audio_chunk_id (aa_members audio) = map (ac_id \<circ> snd) cs" "map mr_order (aa_members audio) = [0..<length cs]"
    "tiles 0 (map (\<lambda>m. (mr_start_ms m, mr_duration_ms m)) (aa_members audio))"
    using render_chunks_members [OF rs] unfolding master_chapter_members [OF m] by simp_all
qed

lemma mark_chapters_tile:
  "tiles t (map (\<lambda>m. (mk_start_ms m, mk_duration_ms m)) (mark_chapters t ds))"
  "map mk_chapter_id (mark_chapters t ds) = map dc_chapter_id ds" "map mk_audio_id (mark_chapters t ds) = map dc_audio_id ds"
  by (induction ds arbitrary: t) simp_all

lemma download_chapters_ids:
  "download_chapters dp s i cs = Inr ds \<Longrightarrow> map dc_chapter_id ds = map (cr_id \<circ> fst) cs \<and> map dc_audio_id ds = map (ca_id \<circ> snd) cs"
proof (induction cs arbitrary: i ds)
  case (Cons p cs)
  then show ?case by (cases p) (auto simp: bindE_eq_Inr download_chapter_def)
qed simp

lemma trim_gains_ids:
  "trim_gains dp mean i ds = Inr ps \<Longrightarrow> map dc_chapter_id ps = map dc_chapter_id ds \<and> map dc_audio_id ps = map dc_audio_id ds"
proof (induction ds arbitrary: i ps)
  case (Cons d ds)
  then show ?case by (auto simp: bindE_eq_Inr trim_gain_def Let_def split: if_splits)
qed simp

lemma assembled_marks:
  assumes "assemble_audiobook_master dp cs s = Inr b"
  shows "map mk_chapter_id (am_chapters b) = map (cr_id \<circ> fst) cs" "map mk_audio_id (am_chapters b) = map (ca_id \<circ> snd) cs"
    "tiles 0 (map (\<lambda>m. (mk_start_ms m, mk_duration_ms m)) (am_chapters b))"
proof -
  obtain ds ps where ds: "download_chapters dp s 0 cs = Inr ds" "trim_gains dp (mean_lufs ds) 0 ds = Inr ps"
    and b: "am_chapters b = mark_chapters 0 ps"
    using assms by (auto simp: assemble_audiobook_master_def bindE_eq_Inr Let_def)
  show "map mk_chapter_id (am_chapters b) = map (cr_id \<circ> fst) cs" "map mk_audio_id (am_chapters b) = map (ca_id \<circ> snd) cs"
    using download_chapters_ids [OF ds(1)] trim_gains_ids [OF ds(2)] unfolding b mark_chapters_tile by simp_all
  show "tiles 0 (map (\<lambda>m. (mk_start_ms m, mk_duration_ms m)) (am_chapters b))"
    unfolding b by (rule mark_chapters_tile)
qed

text \<open>The assertion of the code over its own start times cannot fire.\<close>

lemma start_assertion_holds: "assert_starts (mark_chapters 0 ds) = Inr ()"
proof -
  let ?ms = "mark_chapters 0 ds"
  have "mk_start_ms (?ms ! i) = start_expected ?ms i" if "i < length ?ms" for i
    using tiles_starts [OF mark_chapters_tile(1), of i 0 ds] that by (simp add: start_expected_def take_map comp_def)
  then have "find_row (\<lambda>i. mk_start_ms (?ms ! i) \<noteq> start_expected ?ms i) [0..<length ?ms] = None"
    by (simp add: find_row_None)
  then show ?thesis by (simp add: assert_starts_def)
qed

subsection \<open>The chapter processor\<close>

definition chapter_written ::
  "assembly_env \<Rightarrow> chapter_audio \<Rightarrow> audio_member list \<Rightarrow> ('q, 'r, 's) assembly_world \<Rightarrow> ('q, 'r, 's) assembly_world \<Rightarrow> bool" where
  "chapter_written ev a ms w w' \<longleftrightarrow> voice_check a
     \<and> audio_tables w' = (update_where (\<lambda>b. ca_chapter_id b = ca_chapter_id a \<and> ca_current b) (supersede_audio (ye_now ev)) (aw_chapter_audios w) @ [a],
         aw_members w @ ms, aw_audiobooks w, aw_book_chapters w, aw_renditions w)"

lemma persist_chapter_cases:
  assumes "persist_chapter_audio ev j a ms w = (r, w')"
  shows "(\<exists>e. r = Inl e \<and> w' = w) \<or> (r = Inr () \<and> chapter_written ev a (member_rows ev (ca_book_id a) ms) w w'
    \<and> db_jobs w' = update_where (\<lambda>k. jb_id k = jb_id j)
        (assembled_patch (ye_now ev) (Some ''DONE'') ''chapter_audio'' (ca_id a) (ca_version a)) (db_jobs w))"
proof (cases r)
  case (Inl e)
  then show ?thesis using with_transaction_Inl [OF assms [unfolded persist_chapter_audio_def Inl]] by simp
next
  case (Inr u)
  let ?A = "update_where (\<lambda>b. ca_chapter_id b = ca_chapter_id a \<and> ca_current b) (supersede_audio (ye_now ev)) (aw_chapter_audios w)"
  from with_transaction_Inr [OF assms [unfolded persist_chapter_audio_def Inr]]
  obtain A M jobs where A: "create_chapter_audio a ?A = Inr A"
    and M: "create_many member_clash (member_rows ev (ca_book_id a) ms) (aw_members w) = Inr M"
    and jobs: "update_job (jb_id j) (assembled_patch (ye_now ev) (Some ''DONE'') ''chapter_audio'' (ca_id a) (ca_version a)) (db_jobs w) = Inr jobs"
    and w': "w' = snd (add_outbox ev 1 (chapter_completed_draft j a) (w\<lparr> aw_chapter_audios := A, aw_members := M, db_jobs := jobs \<rparr>))"
    by (auto simp: seqE_Inr update_own_job_def elim!: on_table_cases)
  have "voice_check a \<and> A = ?A @ [a]"
    using A by (auto simp: create_chapter_audio_def dest: create_checked_Inr)
  moreover have "M = aw_members w @ member_rows ev (ca_book_id a) ms" by (rule create_many_Inr [OF M])
  moreover have "jobs = update_where (\<lambda>k. jb_id k = jb_id j)
      (assembled_patch (ye_now ev) (Some ''DONE'') ''chapter_audio'' (ca_id a) (ca_version a)) (db_jobs w)"
    using jobs by (auto simp: update_job_def split: option.splits)
  ultimately show ?thesis
    using Inr unfolding w' by (simp add: chapter_written_def audio_tables_def add_outbox_def)
qed

text \<open>The row that a build adds, from what the tool and the store answered.\<close>

definition built_chapter ::
  "('q, 's) assembly_deps \<Rightarrow> assembly_env \<Rightarrow> job \<Rightarrow> string \<Rightarrow> ordered_chunk list \<Rightarrow> string \<Rightarrow> chapter_audio list
     \<Rightarrow> chapter_audio \<Rightarrow> chapter_member list \<Rightarrow> bool" where
  "built_chapter dp ev j c cs hash t a ms \<longleftrightarrow> (\<exists>tool_model s audio obj.
     assemble_chapter_audio dp (map (\<lambda>(c, a). (c, the a)) cs) s = Inr audio \<and> ms = aa_members audio
     \<and> a = chapter_audio_row ev j c cs hash tool_model
        (next_number (map ca_version (filter (\<lambda>a. ca_chapter_id a = c) t))) audio obj)"

lemma build_chapter_cases:
  assumes "build_chapter_audio dp ev j c cs hash w = (r, w')"
  obtains (unbuilt) e where "r = Inl e" "audio_tables w' = audio_tables w" "db_jobs w' = db_jobs w"
    | (built) a ms where "r = Inr ()" "built_chapter dp ev j c cs hash (aw_chapter_audios w) a ms"
      "chapter_written ev a (member_rows ev (ca_book_id a) ms) w w'"
      "db_jobs w' = update_where (\<lambda>k. jb_id k = jb_id j)
        (assembled_patch (ye_now ev) (Some ''DONE'') ''chapter_audio'' (ca_id a) (ca_version a)) (db_jobs w)"
proof -
  let ?version = "next_number (map ca_version (filter (\<lambda>a. ca_chapter_id a = c) (aw_chapter_audios w)))"
  have put: "audio_tables w1 = audio_tables w \<and> db_jobs w1 = db_jobs w" if "put_wav dp key b ty w = (x, w1)" for key b ty x w1
    using that by (auto simp: put_wav_def split: prod.splits)
  show thesis
  proof (cases "resolve_audio_tool_model_version_id dp")
    case (Inl e)
    then show ?thesis using assms unbuilt by (auto simp: build_chapter_audio_def seqE_readE)
  next
    case tool: (Inr tool_model)
    show ?thesis
    proof (cases "build_storage_key (jb_tenant_id j)
        [''books'', the (jb_book_id j), ''chapters'', c, ''audio'', ''v'' @ show_nat ?version @ ''.wav'']")
      case (Inl e)
      then show ?thesis using assms tool unbuilt by (auto simp: build_chapter_audio_def seqE_readE)
    next
      case key: (Inr key)
      show ?thesis
      proof (cases "assemble_chapter_audio dp (map (\<lambda>(c, a). (c, the a)) cs) (iw_store w)")
        case (Inl e)
        then show ?thesis using assms tool key unbuilt by (auto simp: build_chapter_audio_def seqE_readE)
      next
        case audio: (Inr audio)
        obtain x w1 where x: "put_wav dp key (snd (aa_master audio)) ''audio/wav'' w = (x, w1)" by fastforce
        note w1 = put [OF x]
        show ?thesis
        proof (cases x)
          case (Inl e)
          then show ?thesis using assms tool key audio x w1 unbuilt by (auto simp: build_chapter_audio_def seqE_readE)
        next
          case (Inr meta)
          let ?a = "chapter_audio_row ev j c cs hash tool_model ?version audio (object_of (ye_now ev) key meta)"
          have run: "persist_chapter_audio ev j ?a (aa_members audio) w1 = (r, w')"
            using assms tool key audio x Inr by (simp add: build_chapter_audio_def seqE_readE)
          have "built_chapter dp ev j c cs hash (aw_chapter_audios w) ?a (aa_members audio)"
            using audio by (auto simp: built_chapter_def)
          then show ?thesis
            using persist_chapter_cases [OF run] w1 built unbuilt by (fastforce simp: chapter_written_def audio_tables_def)
        qed
      qed
    qed
  qed
qed

text \<open>When every step answers and no row clashes, the build commits.\<close>

lemma create_many_total:
  assumes "\<And>r x. r \<in> set rs \<Longrightarrow> x \<in> set t \<Longrightarrow> \<not> clash r x" and "sorted_wrt (\<lambda>a b. \<not> clash b a) rs"
  shows "create_many clash rs t = Inr (t @ rs)"
  using assms
proof (induction rs arbitrary: t)
  case (Cons r rs)
  have "create_row clash r t = Inr (t @ [r])" by (rule create_row_total) (use Cons.prems(1) in simp)
  moreover have "create_many clash rs (t @ [r]) = Inr ((t @ [r]) @ rs)"
    by (rule Cons.IH) (use Cons.prems in auto)
  ultimately show ?case by simp
qed simp

lemma member_rows_sorted:
  assumes "distinct (map mr_audio_chunk_id ms)" and "map mr_order ms = [0..<length ms]"
  shows "sorted_wrt (\<lambda>a b. \<not> member_clash b a) (member_rows ev i ms)"
proof -
  have "distinct (map mr_order ms)" using assms(2) by simp
  then have "mr_order (ms ! k) \<noteq> mr_order (ms ! l)" "mr_audio_chunk_id (ms ! k) \<noteq> mr_audio_chunk_id (ms ! l)"
    if "k < l" "l < length ms" for k l
    using that assms(1) by (auto simp: distinct_conv_nth)
  then show ?thesis by (auto simp: member_rows_def sorted_wrt_iff_nth_less member_clash_def)
qed

lemma build_chapter_succeeds:
  assumes tool: "resolve_audio_tool_model_version_id dp = Inr tool_model"
    and key: "build_storage_key (jb_tenant_id j) [''books'', the (jb_book_id j), ''chapters'', c, ''audio'',
      ''v'' @ show_nat (next_number (map ca_version (filter (\<lambda>a. ca_chapter_id a = c) (aw_chapter_audios w)))) @ ''.wav''] = Inr key"
    and audio: "assemble_chapter_audio dp (map (\<lambda>(c, a). (c, the a)) cs) (iw_store w) = Inr audio"
    and put: "\<And>input. \<exists>meta s. ad_put dp input (iw_store w) = (Inr meta, s)"
    and voices: "fst (compute_voice_consistency (map fst cs))" and chunk_ids: "distinct (map (\<lambda>p. ac_id (the (snd p))) cs)"
    and new: "\<forall>b \<in> set (aw_chapter_audios w). ca_id b \<noteq> ye_id ev 0 \<and> \<not> same_manifest c hash b"
    and members: "\<forall>m \<in> set (aw_members w). cm_chapter_audio_id m \<noteq> ye_id ev 0" and job: "find_job (jb_id j) (db_jobs w) \<noteq> None"
  shows "\<exists>w'. build_chapter_audio dp ev j c cs hash w = (Inr (), w')"
proof -
  let ?version = "next_number (map ca_version (filter (\<lambda>a. ca_chapter_id a = c) (aw_chapter_audios w)))"
  obtain meta s where m: "ad_put dp \<lparr> pi_key = key, pi_body = snd (aa_master audio), pi_content_type = ''audio/wav'' \<rparr> (iw_store w) = (Inr meta, s)"
    using put by blast
  define a where "a = chapter_audio_row ev j c cs hash tool_model ?version audio (object_of (ye_now ev) key meta)"
  let ?A = "update_where (\<lambda>b. ca_chapter_id b = ca_chapter_id a \<and> ca_current b) (supersede_audio (ye_now ev)) (aw_chapter_audios w)"
  have a: "ca_id a = ye_id ev 0" "ca_chapter_id a = c" "ca_version a = ?version" "ca_manifest_hash a = hash" "voice_check a"
    using voices by (auto simp: a_def chapter_audio_row_def voice_check_def split: prod.splits)
  have "\<not> chapter_audio_clash a x" if "x \<in> set ?A" for x
  proof -
    from that obtain b where b: "b \<in> set (aw_chapter_audios w)" "x = (if ca_chapter_id b = c \<and> ca_current b then supersede_audio (ye_now ev) b else b)"
      by (auto simp: update_where_def a)
    have "ca_chapter_id b = c \<Longrightarrow> ca_version b < ?version" by (rule next_number_above) (use b(1) in auto)
    then show ?thesis using b new by (auto simp: chapter_audio_clash_def a same_manifest_def split: if_splits)
  qed
  then have A: "create_chapter_audio a ?A = Inr (?A @ [a])"
    using a(5) by (simp add: create_chapter_audio_def create_checked_def create_row_total)
  have ms: "map mr_audio_chunk_id (aa_members audio) = map (\<lambda>p. ac_id (the (snd p))) cs" "map mr_order (aa_members audio) = [0..<length cs]"
    using assembled_members [OF audio] by (auto simp: comp_def case_prod_beta)
  have "length (aa_members audio) = length cs" using ms(1) by (metis length_map)
  then have M: "create_many member_clash (member_rows ev (ca_book_id a) (aa_members audio)) (aw_members w)
      = Inr (aw_members w @ member_rows ev (ca_book_id a) (aa_members audio))"
    using members ms chunk_ids by (intro create_many_total member_rows_sorted) (auto simp: member_rows_def member_clash_def)
  have J: "\<exists>t. update_job (jb_id j) f (db_jobs w) = Inr t" for f
    using job by (auto simp: update_job_def find_job_def split: option.splits)
  obtain t where t: "update_job (jb_id j) (assembled_patch (ye_now ev) (Some ''DONE'') ''chapter_audio'' (ca_id a) (ca_version a)) (db_jobs w) = Inr t"
    using J by blast
  have "\<exists>w'. persist_chapter_audio ev j a (aa_members audio) (w\<lparr> iw_store := s \<rparr>) = (Inr (), w')"
    using A M t by (simp add: persist_chapter_audio_def with_transaction_def seqE_def on_table_def update_own_job_def add_outbox_def)
  then show ?thesis
    using tool key audio m by (simp add: build_chapter_audio_def seqE_readE put_wav_def seqE_def a_def)
qed

lemma chapter_written_cong:
  "audio_tables v = audio_tables w \<Longrightarrow> audio_tables v' = audio_tables w' \<Longrightarrow> chapter_written ev a ms v v' = chapter_written ev a ms w w'"
  by (auto simp: chapter_written_def audio_tables_def)

lemma run_assembly_cases:
  assumes "run_assembly dp ev j c cs hash w = (r, w')"
  obtains (kept) "audio_tables w' = audio_tables w"
    | (added) a ms where "built_chapter dp ev j c cs hash (aw_chapter_audios w) a ms"
      "chapter_written ev a (member_rows ev (ca_book_id a) ms) w w'"
proof -
  let ?start = "with_transaction (seqE (mark_running ev ''ASSEMBLING'' j) (\<lambda>_.
        add_outbox ev 0 (assembly_started_draft j c (length cs) hash)))"
  obtain x w1 where x: "?start w = (x, w1)" by fastforce
  have keep: "preserves (\<lambda>v. audio_tables v = audio_tables w) ?start" by (intro preserves_intros)
  have w1: "audio_tables w1 = audio_tables w" using preserves_run [OF keep x] by simp
  show thesis
  proof (cases x)
    case (Inl e)
    then show thesis using assms x w1 kept by (simp add: run_assembly_def seqE_def)
  next
    case x': (Inr u)
    obtain b w2 where b: "build_chapter_audio dp ev j c cs hash w1 = (b, w2)" by fastforce
    obtain y w3 where y: "assemble_and_persist dp ev j c cs hash w1 = (y, w3)" by fastforce
    have w3: "audio_tables w3 = audio_tables w2"
      using y b tables_run [OF tables.frame_fan_in, of dp ev j w2 y w3]
      by (cases b) (auto simp: assemble_and_persist_def seqE_def)
    have w': "audio_tables w' = audio_tables w3"
    proof (cases y)
      case (Inl e)
      then have fail: "seqE (handle_chapter_assembly_failure dp ev j e) (\<lambda>_. throwE e) w3 = (r, w')"
        using assms x x' y by (simp add: run_assembly_def seqE_def)
      have keep: "preserves (\<lambda>v. audio_tables v = audio_tables w3) (seqE (handle_chapter_assembly_failure dp ev j e) (\<lambda>_. throwE e :: _ \<Rightarrow> (thrown + unit) \<times> _))"
        by (intro preserves_intros)
      show ?thesis using preserves_run [OF keep fail] by simp
    next
      case (Inr u)
      then show ?thesis using assms x x' y by (simp add: run_assembly_def seqE_def)
    qed
    from b show thesis
    proof (cases rule: build_chapter_cases)
      case (unbuilt e)
      then show thesis using w1 w3 w' kept by simp
    next
      case (built a ms)
      have "aw_chapter_audios w1 = aw_chapter_audios w" using w1 by (simp add: audio_tables_def)
      moreover have "chapter_written ev a (member_rows ev (ca_book_id a) ms) w w'"
        using built(3) chapter_written_cong [OF w1, of w2 w'] w3 w' by simp
      ultimately show thesis using built(2) added by simp
    qed
  qed
qed

lemma chapter_audio_row_sel [simp]:
  "ca_current (chapter_audio_row ev j c cs hash tm n audio obj)" "ca_chapter_id (chapter_audio_row ev j c cs hash tm n audio obj) = c"
  "ca_status (chapter_audio_row ev j c cs hash tm n audio obj) = CaAssembled"
  by (simp_all add: chapter_audio_row_def split: prod.splits)

lemma run_assembly_commits:
  assumes "run_assembly dp ev j c cs hash w = (Inr u, w')"
  obtains a where "a \<in> set (aw_chapter_audios w')" "ca_current a" "ca_chapter_id a = c"
proof -
  obtain w1 w2 where b: "build_chapter_audio dp ev j c cs hash w1 = (Inr (), w2)"
    and "maybe_trigger_audiobook_fan_in dp ev j w2 = (Inr u, w')"
    using assms by (auto simp: run_assembly_def assemble_and_persist_def seqE_def split: prod.splits sum.splits)
  then have w': "audio_tables w' = audio_tables w2" by (auto intro: tables_run [OF tables.frame_fan_in])
  from b show thesis
  proof (cases rule: build_chapter_cases)
    case (built a ms)
    have "a \<in> set (aw_chapter_audios w')" using built(3) w' by (simp add: chapter_written_def audio_tables_def)
    moreover have "ca_current a" "ca_chapter_id a = c"
      using built(2) by (auto simp: built_chapter_def)
    ultimately show thesis by (rule that)
  qed simp
qed

lemma chapter_job_cases:
  assumes "process_assemble_chapter_job dp ev envelope w = (r, w')"
  obtains (kept) "audio_tables w' = audio_tables w"
    | (added) j c a ms where "built_chapter dp ev j c (ordered_chunks c w)
        (compute_manifest_hash (ad_sha256 dp) (chunk_manifest (ordered_chunks c w))) (aw_chapter_audios w) a ms"
      "chapter_written ev a (member_rows ev (ca_book_id a) ms) w w'"
      "ordered_chunks c w \<noteq> []" "\<forall>p \<in> set (ordered_chunks c w). rendered_chunk p"
      "length (js_set (map (\<lambda>p. sc_director_version (fst p)) (ordered_chunks c w))) \<le> 1"
proof -
  have "audio_tables w' = audio_tables w \<or> (\<exists>j c. assemble_chapter dp ev j c w = (r, w'))"
    using assms by (auto simp: process_assemble_chapter_job_def Let_def split: if_splits option.splits)
  then show thesis
  proof
    assume "\<exists>j c. assemble_chapter dp ev j c w = (r, w')"
    then obtain j c where run: "assemble_chapter dp ev j c w = (r, w')" by blast
    let ?cs = "ordered_chunks c w" and ?hash = "compute_manifest_hash (ad_sha256 dp) (chunk_manifest (ordered_chunks c w))"
    show thesis
    proof (cases "run_assembly dp ev j c ?cs ?hash w = (r, w') \<and> ?cs \<noteq> [] \<and> filter (\<lambda>p. \<not> rendered_chunk p) ?cs = []
        \<and> length (js_set (map (\<lambda>p. sc_director_version (fst p)) ?cs)) \<le> 1")
      case True
      then have ok: "?cs \<noteq> []" "\<forall>p \<in> set ?cs. rendered_chunk p"
          "length (js_set (map (\<lambda>p. sc_director_version (fst p)) ?cs)) \<le> 1"
        by (auto simp: filter_empty_conv)
      from True have "run_assembly dp ev j c ?cs ?hash w = (r, w')" by blast
      then show thesis
        by (cases rule: run_assembly_cases) (use ok kept added in blast)+
    next
      case False
      then have "(\<exists>x. no_op_assembly dp ev j x w = (r, w')) \<or> (\<exists>m s. handle_chapter_manifest_incomplete ev j m s w = (r, w'))
          \<or> (\<exists>vs. handle_director_version_mixing ev j vs w = (r, w'))"
        using run by (auto simp: assemble_chapter_def Let_def split: if_splits option.splits)
      then have "audio_tables w' = audio_tables w"
        using tables_run [OF tables.frame_manifest_failures(6)] tables_run [OF tables.frame_manifest_failures(2)]
          tables_run [OF tables.frame_manifest_failures(3)] by metis
      then show thesis by (rule kept)
    qed
  qed (rule kept)
qed

subsection \<open>The audiobook processor\<close>

definition audiobook_written ::
  "assembly_env \<Rightarrow> audiobook \<Rightarrow> audiobook_chapter list \<Rightarrow> ('q, 'r, 's) assembly_world \<Rightarrow> ('q, 'r, 's) assembly_world \<Rightarrow> bool" where
  "audiobook_written ev a cs w w' \<longleftrightarrow> audiobook_check a
     \<and> audio_tables w' = (aw_chapter_audios w, aw_members w,
         update_where (\<lambda>b. ab_book_id b = ab_book_id a \<and> ab_current b) (supersede_audiobook (ye_now ev)) (aw_audiobooks w) @ [a],
         aw_book_chapters w @ cs, aw_renditions w)"

lemma audiobook_written_cong:
  "audio_tables v = audio_tables w \<Longrightarrow> audio_tables v' = audio_tables w' \<Longrightarrow> audiobook_written ev a cs v v' = audiobook_written ev a cs w w'"
  by (auto simp: audiobook_written_def audio_tables_def)

lemma persist_audiobook_cases:
  assumes "persist_audiobook ev j a ms w = (r, w')"
  shows "(\<exists>e. r = Inl e \<and> w' = w) \<or> (r = Inr () \<and> audiobook_written ev a (book_chapter_rows (ab_id a) (ab_book_id a) ms) w w'
    \<and> db_jobs w' = update_where (\<lambda>k. jb_id k = jb_id j)
        (assembled_patch (ye_now ev) (Some ''DONE'') ''audiobook'' (ab_id a) (ab_version a)) (db_jobs w))"
proof (cases r)
  case (Inl e)
  then show ?thesis using with_transaction_Inl [OF assms [unfolded persist_audiobook_def Inl]] by simp
next
  case (Inr u)
  let ?B = "update_where (\<lambda>b. ab_book_id b = ab_book_id a \<and> ab_current b) (supersede_audiobook (ye_now ev)) (aw_audiobooks w)"
  from with_transaction_Inr [OF assms [unfolded persist_audiobook_def Inr]]
  obtain B C jobs where B: "create_audiobook a ?B = Inr B"
    and C: "create_many book_chapter_clash (book_chapter_rows (ab_id a) (ab_book_id a) ms) (aw_book_chapters w) = Inr C"
    and jobs: "update_job (jb_id j) (assembled_patch (ye_now ev) (Some ''DONE'') ''audiobook'' (ab_id a) (ab_version a)) (db_jobs w) = Inr jobs"
    and w': "w' = snd (add_outbox ev 0 (audiobook_started_draft j a) (w\<lparr> aw_audiobooks := B, aw_book_chapters := C, db_jobs := jobs \<rparr>))"
    by (auto simp: seqE_Inr update_own_job_def elim!: on_table_cases)
  have "audiobook_check a \<and> B = ?B @ [a]"
    using B by (auto simp: create_audiobook_def dest: create_checked_Inr)
  moreover have "C = aw_book_chapters w @ book_chapter_rows (ab_id a) (ab_book_id a) ms" by (rule create_many_Inr [OF C])
  moreover have "jobs = update_where (\<lambda>k. jb_id k = jb_id j)
      (assembled_patch (ye_now ev) (Some ''DONE'') ''audiobook'' (ab_id a) (ab_version a)) (db_jobs w)"
    using jobs by (auto simp: update_job_def split: option.splits)
  ultimately show ?thesis
    using Inr unfolding w' by (simp add: audiobook_written_def audio_tables_def add_outbox_def)
qed

definition built_audiobook ::
  "('q, 's) assembly_deps \<Rightarrow> assembly_env \<Rightarrow> job \<Rightarrow> string \<Rightarrow> chapter_master list \<Rightarrow> string list \<Rightarrow> nat \<Rightarrow> audiobook
     \<Rightarrow> master_chapter_mark list \<Rightarrow> bool" where
  "built_audiobook dp ev j v cs formats n a ms \<longleftrightarrow> (\<exists>src s assembled obj.
     assemble_audiobook_master dp cs s = Inr assembled \<and> ms = am_chapters assembled \<and> bv_id (as_version src) = v
     \<and> as_formats src = formats \<and> as_number src = n \<and> a = audiobook_row ev j src cs assembled obj)"

lemma build_master_cases:
  assumes "build_master dp ev j b v cs formats hash w = (r, w')"
  obtains (unbuilt) e where "r = Inl e" "audio_tables w' = audio_tables w" "db_jobs w' = db_jobs w"
    | (built) a ms where "r = Inr a"
      "built_audiobook dp ev j v cs formats (next_number (map ab_version (filter (\<lambda>a. ab_book_id a = bk_id b) (aw_audiobooks w)))) a ms"
      "audiobook_written ev a (book_chapter_rows (ab_id a) (ab_book_id a) ms) w w'"
      "db_jobs w' = update_where (\<lambda>k. jb_id k = jb_id j)
        (assembled_patch (ye_now ev) (Some ''DONE'') ''audiobook'' (ab_id a) (ab_version a)) (db_jobs w)"
proof (cases "audiobook_source_of dp j b v cs formats hash w")
  case (Inl e)
  then show thesis using assms unbuilt by (auto simp: build_master_def seqE_readE)
next
  case src: (Inr src)
  have bv: "bv_id (as_version src) = v" "as_formats src = formats"
    "as_number src = next_number (map ab_version (filter (\<lambda>a. ab_book_id a = bk_id b) (aw_audiobooks w)))"
    using src by (auto simp: audiobook_source_of_def read_version_def bindE_eq_Inr split: option.splits dest: find_row_Some)
  let ?key = "build_storage_key (jb_tenant_id j) [''books'', bk_id b, ''audiobook'', ''v'' @ show_nat (as_number src) @ ''-master.wav'']"
  show thesis
  proof (cases ?key)
    case (Inl e)
    then show thesis using assms src unbuilt by (auto simp: build_master_def seqE_readE)
  next
    case key: (Inr key)
    show thesis
    proof (cases "assemble_audiobook_master dp cs (iw_store w)")
      case (Inl e)
      then show thesis using assms src key unbuilt by (auto simp: build_master_def seqE_readE)
    next
      case assembled: (Inr assembled)
      obtain x w1 where x: "put_wav dp key (snd (am_master assembled)) ''audio/wav'' w = (x, w1)" by fastforce
      then have w1: "audio_tables w1 = audio_tables w" "db_jobs w1 = db_jobs w" by (auto simp: put_wav_def split: prod.splits)
      show thesis
      proof (cases x)
        case (Inl e)
        then show thesis using assms src key assembled x w1 unbuilt by (auto simp: build_master_def seqE_readE)
      next
        case (Inr meta)
        let ?a = "audiobook_row ev j src cs assembled (object_of (ye_now ev) key meta)"
        obtain p w2 where p: "persist_audiobook ev j ?a (am_chapters assembled) w1 = (p, w2)" by fastforce
        have run: "(case p of Inl e \<Rightarrow> Inl e | Inr u \<Rightarrow> Inr ?a, w2) = (r, w')"
          using assms src key assembled x Inr p by (simp add: build_master_def seqE_readE Let_def) (auto simp: seqE_def split: sum.splits)
        have "built_audiobook dp ev j v cs formats (as_number src) ?a (am_chapters assembled)"
          using assembled bv by (auto simp: built_audiobook_def)
        then show thesis
          using persist_audiobook_cases [OF p] run w1 bv(3) built [of ?a "am_chapters assembled"] unbuilt
          by (cases p) (auto simp: audiobook_written_def audio_tables_def)
      qed
    qed
  qed
qed

lemma book_chapter_rows_sorted:
  assumes "distinct (map mk_chapter_id ms)"
  shows "sorted_wrt (\<lambda>a b. \<not> book_chapter_clash b a) (book_chapter_rows i b ms)"
proof -
  have "mk_chapter_id (ms ! k) \<noteq> mk_chapter_id (ms ! l)" if "k < l" "l < length ms" for k l
    using that assms by (auto simp: distinct_conv_nth)
  then show ?thesis
    by (auto simp: book_chapter_rows_def sorted_wrt_iff_nth_less book_chapter_clash_def nth_enumerate_eq case_prod_beta)
qed

lemma build_master_succeeds:
  assumes src: "audiobook_source_of dp j b v cs formats hash w = Inr src" and book: "jb_book_id j = Some (bk_id b)"
    and key: "build_storage_key (jb_tenant_id j) [''books'', bk_id b, ''audiobook'', ''v'' @ show_nat (as_number src) @ ''-master.wav''] = Inr key"
    and assembled: "assemble_audiobook_master dp cs (iw_store w) = Inr assembled"
    and put: "\<And>input. \<exists>meta s. ad_put dp input (iw_store w) = (Inr meta, s)" and chapters: "distinct (map (cr_id \<circ> fst) cs)"
    and new: "\<forall>a \<in> set (aw_audiobooks w). ab_id a \<noteq> ye_id ev 0" "\<forall>x \<in> set (aw_book_chapters w). xc_audiobook_id x \<noteq> ye_id ev 0"
    and job: "find_job (jb_id j) (db_jobs w) \<noteq> None"
  shows "\<exists>a w'. build_master dp ev j b v cs formats hash w = (Inr a, w')"
proof -
  obtain meta s where m: "ad_put dp \<lparr> pi_key = key, pi_body = snd (am_master assembled), pi_content_type = ''audio/wav'' \<rparr> (iw_store w) = (Inr meta, s)"
    using put by blast
  define a where "a = audiobook_row ev j src cs assembled (object_of (ye_now ev) key meta)"
  let ?B = "update_where (\<lambda>b. ab_book_id b = ab_book_id a \<and> ab_current b) (supersede_audiobook (ye_now ev)) (aw_audiobooks w)"
  have a: "ab_id a = ye_id ev 0" "ab_book_id a = bk_id b" "ab_version a = as_number src" "audiobook_check a"
    using book by (simp_all add: a_def audiobook_row_def audiobook_check_def)
  have n: "as_number src = next_number (map ab_version (filter (\<lambda>a. ab_book_id a = bk_id b) (aw_audiobooks w)))"
    using src by (auto simp: audiobook_source_of_def bindE_eq_Inr)
  have "\<not> audiobook_clash a x" if "x \<in> set ?B" for x
  proof -
    from that obtain y where y: "y \<in> set (aw_audiobooks w)" "x = (if ab_book_id y = bk_id b \<and> ab_current y then supersede_audiobook (ye_now ev) y else y)"
      by (auto simp: update_where_def a)
    have "ab_book_id y = bk_id b \<Longrightarrow> ab_version y < as_number src" unfolding n by (rule next_number_above) (use y(1) in auto)
    then show ?thesis using y new(1) by (auto simp: audiobook_clash_def a split: if_splits)
  qed
  then have B: "create_audiobook a ?B = Inr (?B @ [a])"
    using a(4) by (simp add: create_audiobook_def create_checked_def create_row_total)
  have "distinct (map mk_chapter_id (am_chapters assembled))" unfolding assembled_marks(1) [OF assembled] by (rule chapters)
  then have C: "create_many book_chapter_clash (book_chapter_rows (ab_id a) (ab_book_id a) (am_chapters assembled)) (aw_book_chapters w)
      = Inr (aw_book_chapters w @ book_chapter_rows (ab_id a) (ab_book_id a) (am_chapters assembled))"
    using new(2) a(1) by (intro create_many_total book_chapter_rows_sorted) (auto simp: book_chapter_rows_def book_chapter_clash_def)
  obtain t where t: "update_job (jb_id j) (assembled_patch (ye_now ev) (Some ''DONE'') ''audiobook'' (ab_id a) (ab_version a)) (db_jobs w) = Inr t"
    using job by (auto simp: update_job_def find_job_def split: option.splits)
  have "\<exists>w'. persist_audiobook ev j a (am_chapters assembled) (w\<lparr> iw_store := s \<rparr>) = (Inr (), w')"
    using B C t by (simp add: persist_audiobook_def with_transaction_def seqE_def on_table_def update_own_job_def add_outbox_def)
  then show ?thesis
    using src key assembled m by (auto simp: build_master_def seqE_readE put_wav_def seqE_def a_def Let_def)
qed

lemma run_audiobook_commits:
  assumes "mark_running ev ''ASSEMBLING'' j w = (Inr u, w1)" and "build_master dp ev j b v cs formats hash w1 = (Inr a, w2)"
    and "run_audiobook_assembly dp ev j b v cs formats hash w = (r, w')"
  shows "audio_tables w' = audio_tables w2"
proof -
  obtain y w3 where y: "enqueue_encode_jobs dp ev 1 j (ab_id a) formats w2 = (y, w3)" by fastforce
  have w3: "audio_tables w3 = audio_tables w2" by (rule tables_run [OF tables.frame_enqueue y])
  show ?thesis
  proof (cases y)
    case (Inl e)
    then have fail: "seqE (handle_audiobook_assembly_failure ev j (error_code_of e ''AUDIOBOOK_ASSEMBLY_FAILED'')
         (error_class_of dp e) (error_message e)) (\<lambda>_. throwE e) w3 = (r, w')"
      using assms y by (simp add: run_audiobook_assembly_def build_audiobook_def seqE_def)
    have keep: "preserves (\<lambda>v. audio_tables v = audio_tables w3) (seqE (handle_audiobook_assembly_failure ev j
        (error_code_of e ''AUDIOBOOK_ASSEMBLY_FAILED'') (error_class_of dp e) (error_message e)) (\<lambda>_. throwE e :: _ \<Rightarrow> (thrown + unit) \<times> _))"
      by (intro preserves_intros)
    show ?thesis using preserves_run [OF keep fail] w3 by simp
  next
    case (Inr u)
    then show ?thesis using assms y w3 by (simp add: run_audiobook_assembly_def build_audiobook_def seqE_def)
  qed
qed

lemma run_audiobook_cases:
  assumes "run_audiobook_assembly dp ev j b v cs formats hash w = (r, w')"
  obtains (kept) "audio_tables w' = audio_tables w"
    | (added) a ms where "built_audiobook dp ev j v cs formats
        (next_number (map ab_version (filter (\<lambda>a. ab_book_id a = bk_id b) (aw_audiobooks w)))) a ms"
      "audiobook_written ev a (book_chapter_rows (ab_id a) (ab_book_id a) ms) w w'"
proof -
  obtain x w1 where x: "mark_running ev ''ASSEMBLING'' j w = (x, w1)" by fastforce
  have w1: "audio_tables w1 = audio_tables w" by (rule tables_run [OF tables.frame_steps(7) x])
  show thesis
  proof (cases x)
    case (Inl e)
    then show thesis using assms x w1 kept by (simp add: run_audiobook_assembly_def seqE_def)
  next
    case x': (Inr u)
    obtain m w2 where m: "build_master dp ev j b v cs formats hash w1 = (m, w2)" by fastforce
    obtain y w3 where y: "build_audiobook dp ev j b v cs formats hash w1 = (y, w3)" by fastforce
    have w3: "audio_tables w3 = audio_tables w2"
      using y m tables_run [OF tables.frame_enqueue, of dp ev 1 j _ formats w2 y w3]
      by (cases m) (auto simp: build_audiobook_def seqE_def)
    have w': "audio_tables w' = audio_tables w3"
    proof (cases y)
      case (Inl e)
      then have fail: "seqE (handle_audiobook_assembly_failure ev j (error_code_of e ''AUDIOBOOK_ASSEMBLY_FAILED'')
           (error_class_of dp e) (error_message e)) (\<lambda>_. throwE e) w3 = (r, w')"
        using assms x x' y by (simp add: run_audiobook_assembly_def seqE_def)
      have keep: "preserves (\<lambda>v. audio_tables v = audio_tables w3) (seqE (handle_audiobook_assembly_failure ev j
          (error_code_of e ''AUDIOBOOK_ASSEMBLY_FAILED'') (error_class_of dp e) (error_message e)) (\<lambda>_. throwE e :: _ \<Rightarrow> (thrown + unit) \<times> _))"
        by (intro preserves_intros)
      show ?thesis using preserves_run [OF keep fail] by simp
    next
      case (Inr u)
      then show ?thesis using assms x x' y by (simp add: run_audiobook_assembly_def seqE_def)
    qed
    from m show thesis
    proof (cases rule: build_master_cases)
      case (unbuilt e)
      then show thesis using w1 w3 w' kept by simp
    next
      case (built a ms)
      have "aw_audiobooks w1 = aw_audiobooks w" using w1 by (simp add: audio_tables_def)
      moreover have "audiobook_written ev a (book_chapter_rows (ab_id a) (ab_book_id a) ms) w w'"
        using built(3) audiobook_written_cong [OF w1, of w2 w'] w3 w' by simp
      ultimately show thesis using built(2) added by simp
    qed
  qed
qed

definition masters_of :: "string \<Rightarrow> ('q, 'r, 's) assembly_world \<Rightarrow> chapter_master list" where
  "masters_of v w = map (\<lambda>(c, a). (c, the a)) (ordered_chapter_audios v w)"

lemma audiobook_job_cases:
  assumes "process_assemble_audiobook_job dp ev envelope w = (r, w')"
  obtains (kept) "audio_tables w' = audio_tables w"
    | (added) j and b :: book and v formats a ms where
      "built_audiobook dp ev j v (masters_of v w) formats
        (next_number (map ab_version (filter (\<lambda>a. ab_book_id a = bk_id b) (aw_audiobooks w)))) a ms"
      "audiobook_written ev a (book_chapter_rows (ab_id a) (ab_book_id a) ms) w w'" "jb_book_id j = Some (bk_id b)"
      "check_audiobook_readiness (bk_id b) w = (True, Some v)" "\<forall>p \<in> set (ordered_chapter_audios v w). snd p \<noteq> None"
proof -
  note result = that
  have "audio_tables w' = audio_tables w \<or> (\<exists>j (b::book) formats. assemble_audiobook dp ev j b formats w = (r, w') \<and> jb_book_id j = Some (bk_id b))"
    using assms by (auto simp: process_assemble_audiobook_job_def truthy_def Let_def split: if_splits option.splits dest!: find_row_Some)
  then show thesis
  proof
    assume "\<exists>j b formats. assemble_audiobook dp ev j b formats w = (r, w') \<and> jb_book_id j = Some (bk_id b)"
    then obtain j b formats where run: "assemble_audiobook dp ev j b formats w = (r, w')" and book: "jb_book_id j = Some (bk_id b)" by blast
    show thesis
    proof (cases "\<exists>v hash. check_audiobook_readiness (bk_id b) w = (True, Some v) \<and> (\<forall>p \<in> set (ordered_chapter_audios v w). snd p \<noteq> None)
        \<and> run_audiobook_assembly dp ev j b v (masters_of v w) formats hash w = (r, w')")
      case True
      then obtain v hash where ok: "check_audiobook_readiness (bk_id b) w = (True, Some v)"
          "\<forall>p \<in> set (ordered_chapter_audios v w). snd p \<noteq> None"
        and "run_audiobook_assembly dp ev j b v (masters_of v w) formats hash w = (r, w')" by blast
      from this(3) show thesis
      proof (cases rule: run_audiobook_cases)
        case (added a ms)
        show thesis by (rule result(2) [OF added book ok])
      qed (rule result(1))
    next
      case False
      then have "(\<exists>x m. resume_packaging dp ev j x m w = (r, w')) \<or> (\<exists>c cls m. handle_audiobook_assembly_failure ev j c cls m w = (r, w'))
          \<or> handle_audiobook_not_ready ev j w = (r, w')"
        using run unfolding masters_of_def
        by (auto simp: assemble_audiobook_def Let_def list_ex_iff split: if_splits option.splits prod.splits bool.splits)
      then have "audio_tables w' = audio_tables w"
        using tables_run [OF tables.frame_manifest_failures(7)] tables_run [OF tables.frame_manifest_failures(4)]
          tables_run [OF tables.frame_manifest_failures(5)] by metis
      then show thesis by (rule result(1))
    qed
  qed (rule result(1))
qed

end
