(* ===== verification/AudioSamples.thy ===== *)
theory AudioSamples
  imports AssemblyResults Samples
begin

text \<open>
  Concrete inputs for the witnesses of the assembly: an audio tool that reports two and a half
  seconds of sound at the target loudness for every file, and a book of one chapter with one
  validated chunk.
\<close>

subsection \<open>The tool\<close>

definition sample_probe :: json where
  "sample_probe = JObj [(''streams'', JArr [JObj [(''codec_type'', JStr ''audio'')]]), (''format'', JObj [(''duration'', JStr ''2.5'')])]"

definition sample_report :: string where
  "sample_report = ''{} I: -20 LUFS Peak: -3 dBFS''"

definition sample_tool :: audio_tool where
  "sample_tool = \<lparr> at_exec = (\<lambda>bin args files. Inr \<lparr> xr_stdout = (if bin = ''ffprobe'' then json_stringify sample_probe else ''ffmpeg version 7.1''),
     xr_stderr = sample_report, xr_output = [1] \<rparr>), at_num = (\<lambda>_. ''0''), at_limit = (\<lambda>_. ''0.7'') \<rparr>"

definition silent_tool :: audio_tool where
  "silent_tool = \<lparr> at_exec = (\<lambda>bin args files. Inl \<lparr> xf_code = None, xf_message = ''ENOENT'', xf_stderr = [] \<rparr>),
     at_num = (\<lambda>_. ''0''), at_limit = (\<lambda>_. ''0.7'') \<rparr>"

lemma sample_exec [simp]:
  "run_ffmpeg sample_tool args files = Inr \<lparr> xr_stdout = ''ffmpeg version 7.1'', xr_stderr = sample_report, xr_output = [1] \<rparr>"
  "run_ffprobe sample_tool args files = Inr \<lparr> xr_stdout = json_stringify sample_probe, xr_stderr = sample_report, xr_output = [1] \<rparr>"
  by (simp_all add: run_ffmpeg_def run_ffprobe_def run_tool_def sample_tool_def)

lemma sample_write [simp]: "ffmpeg_write sample_tool args files = Inr [1]"
  by (simp add: ffmpeg_write_def)

lemma sample_version [simp]: "get_ffmpeg_version sample_tool = Inr ''7.1''"
proof -
  have "find_version (hd (split_on (char_of (10::nat)) ''ffmpeg version 7.1'')) = Some ''7.1''" by code_simp
  then show ?thesis by (simp add: get_ffmpeg_version_def Let_def)
qed

lemma sample_probe_parses [simp]: "json_parsed (json_stringify sample_probe) = Inr sample_probe"
proof -
  have "wf_json sample_probe" by (simp add: sample_probe_def)
  then show ?thesis by (simp add: json_parsed_def json_parse_print)
qed

lemma sample_probed [simp]:
  "probe_audio sample_tool file = Inr \<lparr> pb_duration_ms = 2500, pb_sample_rate = 0, pb_channels = 0, pb_format_name = [] \<rparr>"
proof -
  have "map_option (\<lambda>(m, d). (m, d)) (js_number ''2.5'') = Some (25, 1)" by code_simp
  then have "read_number ''2.5'' = Inr (25 / 10)" by (auto simp: read_number_def number_of_def)
  moreover have "\<lfloor>(5001::rat) / 2\<rfloor> = 2500" by (simp add: floor_eq_iff)
  ultimately show ?thesis
    by (simp add: probe_audio_def) (simp add: sample_probe_def array_field_def sub_field_def str_field_def
      truthy_def js_round_def)
qed

lemma sample_numbers:
  "numbers_after ''I:'' ''LUFS'' sample_report = [''-20'']" "numbers_after ''Peak:'' ''dBFS'' sample_report = [''-3'']"
  "numbers_after ''Number of clipped samples:'' [] sample_report = []" "numbers_after ''Peak level dB:'' [] sample_report = []"
  "numbers_after ''silence_start:'' [] sample_report = []" "numbers_after ''silence_end:'' [] sample_report = []"
  by code_simp+

lemma sample_loudness [simp]: "measure_ebur128 sample_tool file = Inr \<lparr> eb_lufs = - 20, eb_peak = - 3 \<rparr>"
proof -
  have "map_option (\<lambda>(m, d). (m, d)) (js_number ''-20'') = Some (- 20, 0)" "map_option (\<lambda>(m, d). (m, d)) (js_number ''-3'') = Some (- 3, 0)"
    by code_simp+
  then have "read_number ''-20'' = Inr (- 20)" "read_number ''-3'' = Inr (- 3)"
    by (auto simp: read_number_def number_of_def)
  then show ?thesis by (simp add: measure_ebur128_def last_number_after_def sample_numbers)
qed

lemma sample_clipping [simp]: "measure_clipping sample_tool file = Inr \<lparr> cl_clipped = 0, cl_peak = None \<rparr>"
  by (simp add: measure_clipping_def last_number_after_def sample_numbers)

lemma sample_silence [simp]: "detect_silence sample_tool file p = Inr []"
  by (simp add: detect_silence_def sample_numbers read_numbers_def pair_silences_def enumerate_eq_zip)

lemma sample_mastered [simp]: "apply_two_pass_loudnorm sample_tool file outp g pcm = Inr [1]"
proof -
  have "trailing_block sample_report = Some ''{}''" by code_simp
  moreover have "json_parse ''{}'' = Some (JObj [])" by code_simp
  ultimately show ?thesis
    by (simp add: apply_two_pass_loudnorm_def measure_loudnorm_pass_def parse_trailing_json_block_def)
qed

lemma sample_conversions [simp]:
  "trim_and_convert sample_tool file outp a b pcm = Inr [1]" "apply_single_pass_loudnorm sample_tool file outp g pcm = Inr [1]"
  "concat_demux_copy sample_tool l pieces outp = Inr [1]" "generate_silence_file sample_tool outp ms pcm = Inr [1]"
  by (simp_all add: trim_and_convert_def apply_single_pass_loudnorm_def concat_demux_copy_def generate_silence_file_def)

lemma silent_version [simp]: "\<exists>m. get_ffmpeg_version silent_tool = Inl (OtherErr m)"
  by (simp add: get_ffmpeg_version_def run_ffmpeg_def run_tool_def silent_tool_def)

subsection \<open>One chapter\<close>

definition sample_store_deps :: "audio_tool \<Rightarrow> (unit, unit) assembly_deps" where
  "sample_store_deps tool = \<lparr> ad_sha256 = (\<lambda>b. ''h'' @ show_nat (length b)), ad_broker = sample_broker,
     ad_get = (\<lambda>_ _. Inr [[1]]),
     ad_put = (\<lambda>i s. (Inr \<lparr> om_key = pi_key i, om_bucket = ''bk'', om_size_bytes = length (pi_body i),
        om_content_type = pi_content_type i, om_checksum = \<lparr> ck_hash = ''h'', ck_size_bytes = length (pi_body i) \<rparr> \<rparr>, s)),
     ad_class_of = (\<lambda>_. ''Error''), ad_registry = [((''AUDIO_TOOL'', ''ffmpeg'', ''ffmpeg''), ''r1'')],
     ad_model_versions = [((''r1'', ''7.1''), ''mv1'')], ad_tool = tool, ad_tmp = ''/tmp/a'' \<rparr>"

definition sample_attempt :: "nat \<Rightarrow> assembly_env" where
  "sample_attempt n = \<lparr> ye_now = 3000, ye_id = (\<lambda>k. ''n'' @ show_nat k), ye_event = sample_ids, ye_attempts_made = n, ye_max_attempts = 3 \<rparr>"

definition sample_script :: "string \<Rightarrow> nat \<Rightarrow> string \<Rightarrow> script_chunk" where
  "sample_script i n voice = \<lparr> sc_id = i, sc_book_id = ''b1'', sc_chapter_id = ''c1'', sc_sequence = n, sc_chapter_sequence = n,
     sc_current = True, sc_director_version = ''d1'', sc_story_bible = ''s1'', sc_character = None, sc_profile_version = Some voice,
     sc_pauses = None, sc_audio = Some (''a'' @ i) \<rparr>"

definition sample_audio_chunk :: "string \<Rightarrow> audio_chunk" where
  "sample_audio_chunk i = \<lparr> ac_id = ''a'' @ i, ac_chapter_id = ''c1'', ac_current = True, ac_status = AcValidated,
     ac_tts_model = ''t1'', ac_storage_key = ''k'', ac_content_hash = ''h'' @ i \<rparr>"

definition sample_chapter :: chapter_row where
  "sample_chapter = \<lparr> cr_id = ''c1'', cr_tenant_id = ''t1'', cr_book_id = ''b1'', cr_version_id = ''v1'', cr_order = 0,
     cr_spine_start = 0, cr_spine_end = 0, cr_title = Some ''One'', cr_matter = BODY, cr_char_count = 10 \<rparr>"

definition chapter_job :: "string \<Rightarrow> job" where
  "chapter_job scope = (sample_job ''j1'' ''t1'' QUEUED)\<lparr> jb_scope := Some (JObj [(''scope'', JStr scope)]) \<rparr>"

definition chapter_command :: json where
  "chapter_command = JObj [(''entity_id'', JStr ''j1''), (''payload'', JObj [(''chapter_id'', JStr ''c1'')])]"

definition sample_audio_world :: "job list \<Rightarrow> script_chunk list \<Rightarrow> (unit, unit, unit) assembly_world" where
  "sample_audio_world jobs script = \<lparr> db_jobs = jobs, db_outbox = [], iw_books = [sample_book\<lparr> bk_current_version := Some ''v1'' \<rparr>],
     iw_versions = [], iw_pages = [], iw_chapters = [sample_chapter], iw_sections = [], iw_paragraphs = [], iw_store = (),
     aw_script_chunks = script, aw_audio_chunks = map (\<lambda>c. sample_audio_chunk (sc_id c)) script, aw_chapter_audios = [],
     aw_members = [], aw_audiobooks = [], aw_book_chapters = [], aw_renditions = [], aw_covers = [], aw_story_bibles = [],
     aw_queue = (), aw_redis = () \<rparr>"

lemmas audio_sample_defs = sample_store_deps_def sample_attempt_def sample_script_def sample_audio_chunk_def sample_chapter_def
  chapter_job_def chapter_command_def sample_audio_world_def

lemma sample_tool_model [simp]: "resolve_audio_tool_model_version_id (sample_store_deps sample_tool) = Inr ''mv1''"
  by (simp add: resolve_audio_tool_model_version_id_def sample_store_deps_def)

definition two_chunks :: "script_chunk list" where
  "two_chunks = [sample_script ''1'' 0 ''v'', sample_script ''2'' 1 ''v'']"

lemma sample_render:
  "assemble_chapter_audio (sample_store_deps sample_tool) [(sample_script ''1'' 0 v, sample_audio_chunk ''1''), (sample_script ''2'' 1 v, sample_audio_chunk ''2'')] ()
    = Inr \<lparr> aa_master = (''/tmp/a/chapter-master.wav'', [1]), aa_duration_ms = 2500, aa_lufs = - 20, aa_peak = - 3,
        aa_members = [\<lparr> mr_audio_chunk_id = ''a1'', mr_order = 0, mr_start_ms = 0, mr_duration_ms = 2500, mr_lead_trimmed_ms = 0, mr_pause_ms = 0 \<rparr>,
          \<lparr> mr_audio_chunk_id = ''a2'', mr_order = 1, mr_start_ms = 2500, mr_duration_ms = 2500, mr_lead_trimmed_ms = 0, mr_pause_ms = 0 \<rparr>],
        aa_validation = \<lparr> va_duration_ms = 2500, va_clipped = 0, va_peak = None, va_noise_floor = None, va_noise_flag = False \<rparr> \<rparr>"
  by (simp add: assemble_chapter_audio_def render_chunk_def conform_chunk_def download_to_file_def pause_piece_def join_pieces_def
    master_chapter_def measure_noise_floor_during_silence_def longest_silence_def compute_lead_trail_trim_def sum_pause_ms_def
    tmp_file_def Let_def sample_store_deps_def sample_script_def sample_audio_chunk_def)

subsection \<open>One audiobook\<close>

definition sample_object :: stored_object where
  "sample_object = \<lparr> so_key = ''k'', so_bucket = ''bk'', so_hash = ''h'', so_size = 1, so_verified_at = Some 1 \<rparr>"

definition sample_chapter_audio :: "string \<Rightarrow> nat \<Rightarrow> bool \<Rightarrow> string \<Rightarrow> chapter_audio" where
  "sample_chapter_audio i n current hash = \<lparr> ca_id = i, ca_tenant_id = ''t1'', ca_book_id = ''b1'', ca_chapter_id = ''c1'', ca_version = n,
     ca_supersedes = None, ca_current = current, ca_superseded_at = None, ca_preview = False, ca_status = CaAssembled,
     ca_duration_ms = 2500, ca_chunk_count = 2, ca_manifest_hash = hash, ca_format = ''WAV'', ca_lufs = Some (- 20), ca_peak = Some (- 3),
     ca_validation = None, ca_voice_verified = True, ca_voices = [], ca_director_version = ''d1'', ca_pipeline_version = ''assembly.v1'',
     ca_tool_model = ''mv1'', ca_assembly_version = ''m1'', ca_job_id = None, ca_object = sample_object, ca_created = 1 \<rparr>"

definition sample_version :: book_version where
  "sample_version = \<lparr> bv_id = ''v1'', bv_tenant_id = ''t1'', bv_book_id = ''b1'', bv_file_id = ''f1'', bv_version = 1,
     bv_structure_label = ''s'', bv_is_current = True, bv_content_hash = ''h'', bv_raw_text_hash = ''h'', bv_pipeline_version = ''p'',
     bv_parser_strategy = ''p'', bv_parser_model = ''p'', bv_ocr_model = None, bv_normalizer_model = ''n'',
     bv_parser_options = JObj [], bv_manifest_key = ''k'', bv_manifest_hash = ''h'', bv_manifest_verified_at = 1, bv_bucket = ''bk'',
     bv_status = READY, bv_qc = \<lparr> qr_outcome = PASS, qr_checks = [] \<rparr>, bv_pages_total = None, bv_pages_ok = None,
     bv_pages_needs_review = None, bv_degraded = False, bv_started = 1, bv_completed = 1, bv_superseded_at = None,
     bv_superseded_by = None \<rparr>"

definition book_command :: json where
  "book_command = JObj [(''entity_id'', JStr ''j1''), (''payload'', JObj [(''delivery_formats'', JArr [JStr ''M4B''])])]"

definition sample_book_world :: "job list \<Rightarrow> (unit, unit, unit) assembly_world" where
  "sample_book_world jobs = (sample_audio_world jobs two_chunks)\<lparr> iw_versions := [sample_version],
     aw_chapter_audios := [sample_chapter_audio ''ca1'' 1 True ''h''] \<rparr>"

lemma sample_concat:
  "assemble_audiobook_master (sample_store_deps sample_tool) [(sample_chapter, sample_chapter_audio ''ca1'' 1 True ''h'')] ()
    = Inr \<lparr> am_master = (''/tmp/a/audiobook-master.wav'', [1]), am_duration_ms = 2500,
        am_chapters = [\<lparr> mk_chapter_id = ''c1'', mk_audio_id = ''ca1'', mk_title = Some ''One'', mk_start_ms = 0, mk_duration_ms = 2500 \<rparr>] \<rparr>"
proof -
  let ?d = "\<lparr> dc_chapter_id = ''c1'', dc_audio_id = ''ca1'', dc_title = Some ''One'',
    dc_file = (master_file (sample_store_deps sample_tool) 0 ''raw.wav'', [1]), dc_lufs = - 20, dc_duration_ms = 2500 \<rparr>"
  have tool: "ad_tool (sample_store_deps sample_tool) = sample_tool" "ad_tmp (sample_store_deps sample_tool) = ''/tmp/a''"
    "ad_get (sample_store_deps sample_tool) k s = Inr [[1]]" for k s
    by (simp_all add: sample_store_deps_def)
  have "download_chapters (sample_store_deps sample_tool) () 0 [(sample_chapter, sample_chapter_audio ''ca1'' 1 True ''h'')] = Inr [?d]"
    by (simp add: download_chapter_def download_to_file_def tool) (simp add: sample_chapter_def sample_chapter_audio_def)
  moreover have "trim_gains (sample_store_deps sample_tool) (mean_lufs [?d]) 0 [?d] = Inr [?d]"
    by (simp add: trim_gain_def mean_lufs_def LOUDNESS_CONSISTENCY_TOLERANCE_LU_def)
  ultimately show ?thesis
    using start_assertion_holds [of "[?d]"] by (simp add: assemble_audiobook_master_def tool tmp_file_def)
qed

lemma sample_ready_book: "check_audiobook_readiness ''b1'' (sample_book_world jobs) = (True, Some ''v1'')"
  by (simp add: check_audiobook_readiness_def sample_book_world_def sample_audio_world_def sample_book_def sample_chapter_def
    count_rows_def assembled_chapter_def sample_chapter_audio_def)

lemma sample_masters: "ordered_chapter_audios ''v1'' (sample_book_world jobs) = [(sample_chapter, Some (sample_chapter_audio ''ca1'' 1 True ''h''))]"
  by (simp add: ordered_chapter_audios_def version_chapters_def current_audio_def sample_book_world_def sample_audio_world_def
    sample_chapter_def sample_chapter_audio_def)

subsection \<open>The calls of the samples\<close>

lemma sample_chunks: "ordered_chunks ''c1'' (sample_audio_world jobs two_chunks)
    = [(sample_script ''1'' 0 ''v'', Some (sample_audio_chunk ''1'')), (sample_script ''2'' 1 ''v'', Some (sample_audio_chunk ''2''))]"
  by (simp add: ordered_chunks_def sample_audio_world_def two_chunks_def sample_script_def sample_audio_chunk_def find_audio_chunk_def)

lemma sample_key: "build_storage_key ''t1'' [''books'', ''b1'', ''chapters'', ''c1'', ''audio'', ''v'' @ show_nat 1 @ ''.wav'']
    = Inr ''t1/books/b1/chapters/c1/audio/v1.wav''"
  by code_simp

lemma sample_voices: "compute_voice_consistency [sample_script ''1'' 0 v, sample_script ''2'' 1 v] = (True, [(''NARRATOR'', [v])])"
  if "v \<noteq> []"
  using that by (simp add: compute_voice_consistency_def count_voice_def voice_key_def sample_script_def truthy_def)

lemma chapter_job_sel [simp]:
  "jb_id (chapter_job scope) = ''j1''" "jb_status (chapter_job scope) = QUEUED" "jb_book_id (chapter_job scope) = Some ''b1''"
  "jb_tenant_id (chapter_job scope) = ''t1''" "attempt_allowed (chapter_job scope)"
  "jb_scope (chapter_job scope) = Some (JObj [(''scope'', JStr scope)])" "jb_idem_key (chapter_job scope) = ''j1''"
  "jb_correlation_id (chapter_job scope) = ''c1''"
  by (simp_all add: chapter_job_def sample_job_def attempt_allowed_def)

lemma sample_audio_world_sel [simp]:
  "db_jobs (sample_audio_world jobs script) = jobs" "aw_chapter_audios (sample_audio_world jobs script) = []"
  "aw_members (sample_audio_world jobs script) = []" "iw_store (sample_audio_world jobs script) = ()"
  "iw_chapters (sample_audio_world jobs script) = [sample_chapter]" "aw_audiobooks (sample_audio_world jobs script) = []"
  "aw_book_chapters (sample_audio_world jobs script) = []" "aw_renditions (sample_audio_world jobs script) = []"
  by (simp_all add: sample_audio_world_def)

lemma chapter_command_sel [simp]:
  "str_field chapter_command ''entity_id'' = Some ''j1''" "sub_field chapter_command ''payload'' ''chapter_id'' = Some ''c1''"
  by (simp_all add: chapter_command_def str_field_def sub_field_def)

definition sample_hash :: string where
  "sample_hash = compute_manifest_hash (ad_sha256 (sample_store_deps sample_tool))
     (chunk_manifest (ordered_chunks ''c1'' (sample_audio_world [] two_chunks)))"

lemma sample_chapter_call:
  assumes "w = (sample_audio_world (chapter_job scope # jobs) two_chunks)\<lparr> aw_chapter_audios := audios \<rparr>"
  shows "process_assemble_chapter_job (sample_store_deps tool) ev chapter_command w
    = (case find_row (same_manifest ''c1'' sample_hash) audios of
         Some existing \<Rightarrow> no_op_assembly (sample_store_deps tool) ev (chapter_job scope) existing w
       | None \<Rightarrow> run_assembly (sample_store_deps tool) ev (chapter_job scope) ''c1'' (ordered_chunks ''c1'' (sample_audio_world [] two_chunks)) sample_hash w)"
proof -
  have chunks: "ordered_chunks ''c1'' w = [(sample_script ''1'' 0 ''v'', Some (sample_audio_chunk ''1'')), (sample_script ''2'' 1 ''v'', Some (sample_audio_chunk ''2''))]"
    using sample_chunks [of "chapter_job scope # jobs"] by (simp add: assms ordered_chunks_def)
  have hash: "compute_manifest_hash (ad_sha256 (sample_store_deps tool)) (chunk_manifest (ordered_chunks ''c1'' w)) = sample_hash"
    unfolding sample_hash_def chunks sample_chunks by (simp add: sample_store_deps_def)
  have ok: "list_all rendered_chunk (ordered_chunks ''c1'' w)" "length (js_set (map (\<lambda>p. sc_director_version (fst p)) (ordered_chunks ''c1'' w))) = 1"
    unfolding chunks by (simp_all add: rendered_chunk_def sample_audio_chunk_def sample_script_def js_set_def)
  then have none: "filter (\<lambda>p. \<not> rendered_chunk p) (ordered_chunks ''c1'' w) = []"
    by (simp add: list_all_iff filter_empty_conv)
  have found: "find_row (\<lambda>c. cr_id c = ''c1'') (iw_chapters w) = Some sample_chapter" "cr_id sample_chapter = ''c1''"
    "find_job ''j1'' (db_jobs w) = Some (chapter_job scope)" "aw_chapter_audios w = audios"
    by (simp_all add: assms sample_chapter_def)
  have "process_assemble_chapter_job (sample_store_deps tool) ev chapter_command w
      = assemble_chapter (sample_store_deps tool) ev (chapter_job scope) ''c1'' w"
    unfolding process_assemble_chapter_job_def by (simp add: truthy_def found)
  also have "\<dots> = (case find_row (same_manifest ''c1'' sample_hash) audios of
         Some existing \<Rightarrow> no_op_assembly (sample_store_deps tool) ev (chapter_job scope) existing w
       | None \<Rightarrow> run_assembly (sample_store_deps tool) ev (chapter_job scope) ''c1'' (ordered_chunks ''c1'' w) sample_hash w)"
    unfolding assemble_chapter_def Let_def none ok(2) hash found(4) using chunks by simp
  finally show ?thesis unfolding chunks sample_chunks .
qed

lemma sample_build:
  assumes "aw_chapter_audios w = []" "aw_members w = []" "iw_store w = ()" "find_job ''j1'' (db_jobs w) \<noteq> None"
  shows "\<exists>w'. build_chapter_audio (sample_store_deps sample_tool) ev (chapter_job scope) ''c1''
     (ordered_chunks ''c1'' (sample_audio_world [] two_chunks)) hash w = (Inr (), w')"
proof (rule build_chapter_succeeds [OF sample_tool_model])
  show "build_storage_key (jb_tenant_id (chapter_job scope)) [''books'', the (jb_book_id (chapter_job scope)), ''chapters'', ''c1'', ''audio'',
      ''v'' @ show_nat (next_number (map ca_version (filter (\<lambda>a. ca_chapter_id a = ''c1'') (aw_chapter_audios w)))) @ ''.wav'']
      = Inr ''t1/books/b1/chapters/c1/audio/v1.wav''"
    using sample_key by (simp add: assms next_number_def)
qed (use assms sample_render sample_voices [of "''v''"] in \<open>simp_all add: sample_chunks, simp_all add: sample_store_deps_def sample_audio_chunk_def\<close>)

text \<open>The job is marked; then the chapter is built.\<close>

lemma sample_marked:
  "\<exists>w1. with_transaction (seqE (mark_running ev ''ASSEMBLING'' (chapter_job scope)) (\<lambda>_. add_outbox ev 0 draft))
      (sample_audio_world (chapter_job scope # jobs) two_chunks) = (Inr (), w1)
    \<and> aw_chapter_audios w1 = [] \<and> aw_members w1 = [] \<and> iw_store w1 = () \<and> find_job ''j1'' (db_jobs w1) \<noteq> None
    \<and> iw_books w1 = [sample_book\<lparr> bk_current_version := Some ''v1'' \<rparr>] \<and> iw_chapters w1 = [sample_chapter]
    \<and> db_jobs w1 = update_where (\<lambda>k. jb_id k = ''j1'') (running_patch (ye_now ev) ''ASSEMBLING'' (chapter_job scope)) (chapter_job scope # jobs)"
  if "\<forall>k \<in> set jobs. jb_id k \<noteq> ''j1''"
proof -
  have "find_row (\<lambda>k. jb_id k = ''j1'' \<and> \<not> attempt_allowed k) (chapter_job scope # jobs) = None"
    using that by (auto simp: find_row_None)
  then show ?thesis
    by (simp add: mark_running_def update_own_job_def update_job_def add_outbox_def with_transaction_def seqE_def on_table_def
      sample_audio_world_def)
qed

lemma chapter_scope_call_succeeds:
  "\<exists>w'. process_assemble_chapter_job (sample_store_deps sample_tool) ev chapter_command
     (sample_audio_world [chapter_job ''CHAPTER''] two_chunks) = (Inr (), w')"
proof -
  let ?w = "sample_audio_world [chapter_job ''CHAPTER''] two_chunks" and ?j = "chapter_job ''CHAPTER''"
  let ?cs = "ordered_chunks ''c1'' (sample_audio_world [] two_chunks)"
  obtain w1 where w1: "with_transaction (seqE (mark_running ev ''ASSEMBLING'' ?j) (\<lambda>_. add_outbox ev 0
      (assembly_started_draft ?j ''c1'' (length ?cs) sample_hash))) ?w = (Inr (), w1)"
    "aw_chapter_audios w1 = []" "aw_members w1 = []" "iw_store w1 = ()" "find_job ''j1'' (db_jobs w1) \<noteq> None"
    using sample_marked [where jobs = "[]" and ev = ev and scope = "''CHAPTER''"
        and draft = "assembly_started_draft ?j ''c1'' (length ?cs) sample_hash"] by auto
  obtain w2 where w2: "build_chapter_audio (sample_store_deps sample_tool) ev ?j ''c1'' ?cs sample_hash w1 = (Inr (), w2)"
    using sample_build [OF w1(2-5)] by blast
  have "fan_in_due ?j w2 = None" by (simp add: fan_in_due_def read_job_scope_def str_field_def truthy_def)
  then have "assemble_and_persist (sample_store_deps sample_tool) ev ?j ''c1'' ?cs sample_hash w1 = (Inr (), w2)"
    using w2 by (simp add: assemble_and_persist_def maybe_trigger_audiobook_fan_in_def seqE_def)
  then have "run_assembly (sample_store_deps sample_tool) ev ?j ''c1'' ?cs sample_hash ?w = (Inr (), w2)"
    using w1(1) by (simp add: run_assembly_def seqE_def)
  then show ?thesis
    using sample_chapter_call [where w = ?w and scope = "''CHAPTER''" and jobs = "[]" and audios = "[]"] by simp
qed

lemma sample_book_world_sel [simp]:
  "aw_audiobooks (sample_book_world jobs) = []" "aw_book_chapters (sample_book_world jobs) = []"
  "db_jobs (sample_book_world jobs) = jobs" "iw_store (sample_book_world jobs) = ()"
  by (simp_all add: sample_book_world_def)

lemma sample_book_call:
  "\<exists>hash. process_assemble_audiobook_job (sample_store_deps tool) ev book_command (sample_book_world [chapter_job scope])
    = run_audiobook_assembly (sample_store_deps tool) ev (chapter_job scope)
     (sample_book\<lparr> bk_current_version := Some ''v1'' \<rparr>) ''v1'' [(sample_chapter, sample_chapter_audio ''ca1'' 1 True ''h'')] [''M4B''] hash
     (sample_book_world [chapter_job scope])"
proof -
  let ?w = "sample_book_world [chapter_job scope]" and ?b = "sample_book\<lparr> bk_current_version := Some ''v1'' \<rparr>"
  have "str_field book_command ''entity_id'' = Some ''j1''"
    "json_field book_command ''payload'' = Some (JObj [(''delivery_formats'', JArr [JStr ''M4B''])])"
    "string_items (array_field (JObj [(''delivery_formats'', JArr [JStr ''M4B''])]) ''delivery_formats'') = [''M4B'']"
    by (simp_all add: book_command_def str_field_def array_field_def string_items_def)
  moreover have "find_row (\<lambda>b. bk_id b = ''b1'') (iw_books ?w) = Some ?b" "bk_id ?b = ''b1''"
    by (simp_all add: sample_book_world_def sample_audio_world_def sample_book_def)
  ultimately have "process_assemble_audiobook_job (sample_store_deps tool) ev book_command ?w
      = assemble_audiobook (sample_store_deps tool) ev (chapter_job scope) ?b [''M4B''] ?w"
    unfolding process_assemble_audiobook_job_def by (simp add: Let_def truthy_def)
  then show ?thesis
    unfolding assemble_audiobook_def \<open>bk_id ?b = ''b1''\<close> sample_ready_book
    by (simp add: sample_masters js_set_def same_audiobook_def Let_def) blast
qed

end
