(* ===== verification/PackagingProperties.thy ===== *)
theory PackagingProperties
  imports AudioSamples
begin

text \<open>
  Properties of packaging and of the failure paths of the assembly: an audiobook is published with every
  format that has an encode job, a failed assembly is final whatever attempts remain, and the cases
  in which the code loses a failure, a success or an edit.
\<close>

subsection \<open>Publication\<close>

locale encode_frame =
  fixes J :: "('q, 'r, 's) assembly_world \<Rightarrow> bool"
  assumes unread: "J (iw_store_update k w) = J w" "J (aw_renditions_update l w) = J w"
begin

lemma encode_writes [preserves_intros]:
  "preserves J (put_wav dp key body ty)" "preserves J (on_renditions f)"
  by (auto simp: preserves_def put_wav_def on_table_def unread split: prod.splits sum.splits)

lemma encode_stored: "preserves J (seqE (readE f) (\<lambda>(b, probed). seqE (readE g) (\<lambda>key.
    seqE (put_wav dp key b ty) (\<lambda>meta. on_renditions (upsert_rendition (row probed key meta))))))"
  by (intro preserves_intros encode_writes)

lemma encode_one [preserves_intros]: "preserves J (encode_chapter dp ev master a tool_model i c)"
  by (rule preservesI) (auto simp: encode_chapter_def intro!: encode_stored [THEN preservesD])

lemma encode_all [preserves_intros]: "preserves J (encode_mp3_per_chapter dp ev master a tool_model i cs)"
proof (induction cs arbitrary: i)
  case (Cons c cs)
  then show ?case unfolding encode_mp3_per_chapter.simps by (intro preserves_intros encode_one)
qed (simp add: preserves_intros)

lemma encode_single [preserves_intros]: "preserves J (encode_single_file_format dp ev master a cs format tool_model)"
  unfolding encode_single_file_format_def by (intro preserves_intros encode_writes)

end

lemma seqE_assoc: "seqE (seqE m f) g = seqE m (\<lambda>x. seqE (f x) g)"
  by (rule ext) (simp add: seqE_def split: prod.splits sum.splits)

text \<open>Encoding up to the mark on the job, before the attempt to publish.\<close>

definition encode_stage ::
  "('q, 's) assembly_deps \<Rightarrow> assembly_env \<Rightarrow> job \<Rightarrow> audiobook \<Rightarrow> string \<Rightarrow> ('q, 'r, 's) assembly_world
     \<Rightarrow> (thrown + unit) \<times> ('q, 'r, 's) assembly_world" where
  "encode_stage dp ev j a format =
     seqE (readE (\<lambda>w. resolve_audio_tool_model_version_id dp)) (\<lambda>tool_model.
     seqE (readE (\<lambda>w. Inr (book_chapters (ab_id a) w))) (\<lambda>cs.
     seqE (readE (\<lambda>w. download_to_file dp (so_key (ab_object a)) (tmp_file dp ''master.wav'') (iw_store w))) (\<lambda>master.
     seqE (if format = ''MP3_PER_CHAPTER'' then encode_mp3_per_chapter dp ev master a tool_model 0 cs
           else encode_single_file_format dp ev master a cs format tool_model) (\<lambda>_.
     with_transaction (update_own_job (jb_id j) (assembled_patch (ye_now ev) (Some ''DONE'') ''audiobook'' (ab_id a) (ab_version a)))))))"

lemma encode_and_publish_stage: "encode_and_publish dp ev j a format = seqE (encode_stage dp ev j a format) (\<lambda>_. maybe_publish_audiobook ev j a)"
  unfolding encode_and_publish_def encode_stage_def seqE_assoc ..

interpretation books: job_frame "\<lambda>w. aw_audiobooks w = B" for B
  by unfold_locales simp_all

interpretation books: encode_frame "\<lambda>w. aw_audiobooks w = B" for B
  by unfold_locales simp_all

lemma encode_stage_books: "encode_stage dp ev j a format w = (r, w') \<Longrightarrow> aw_audiobooks w' = aw_audiobooks w"
proof -
  assume run: "encode_stage dp ev j a format w = (r, w')"
  have keep: "preserves (\<lambda>v. aw_audiobooks v = aw_audiobooks w) (encode_stage dp ev j a format)"
    unfolding encode_stage_def by (intro preserves_intros)
  show ?thesis using preserves_run [OF keep run] by simp
qed

lemma maybe_publish_cases:
  assumes "maybe_publish_audiobook ev j a w = (r, w')"
  obtains (unpublished) "w' = w"
    | (published) "r = Inr ()" "resolve_requested_delivery_formats (ab_id a) (db_jobs w') \<noteq> []"
      "\<forall>f \<in> set (resolve_requested_delivery_formats (ab_id a) (db_jobs w')). is_format_fully_ready (ab_id a) f (ab_chapter_count a) (aw_renditions w')"
      "aw_audiobooks w' = update_where (\<lambda>b. ab_id b = ab_id a) (\<lambda>b. b\<lparr> ab_status := AbReady \<rparr>) (aw_audiobooks w)"
proof -
  let ?formats = "resolve_requested_delivery_formats (ab_id a) (db_jobs w)"
  consider "w' = w"
    | "?formats \<noteq> []" "list_all (\<lambda>f. is_format_fully_ready (ab_id a) f (ab_chapter_count a) (aw_renditions w)) ?formats"
      "publish_audiobook ev j a ?formats (sum_rendition_size_bytes (ab_id a) (aw_renditions w)) w = (r, w')"
    using assms by (auto simp: maybe_publish_audiobook_def Let_def split: if_splits)
  then show thesis
  proof cases
    case 2
    show thesis
    proof (cases r)
      case (Inl e)
      then show thesis using with_transaction_Inl [OF 2(3) [unfolded publish_audiobook_def Inl]] unpublished by simp
    next
      case (Inr u)
      from with_transaction_Inr [OF 2(3) [unfolded publish_audiobook_def Inr]] have "w' = w
          \<or> aw_audiobooks w' = update_where (\<lambda>b. ab_id b = ab_id a) (\<lambda>b. b\<lparr> ab_status := AbReady \<rparr>) (aw_audiobooks w)
            \<and> db_jobs w' = db_jobs w \<and> aw_renditions w' = aw_renditions w"
        by (auto simp: seqE_Inr add_outbox_def split: option.splits if_splits elim!: on_table_cases dest!: set_audiobook_status_Inr)
      then show thesis using 2(1,2) Inr unpublished published by (auto simp: list_all_iff)
    qed
  qed (rule unpublished)
qed

lemma record_failure_cases:
  assumes "record_assembly_failure ev settled j c cls m extra draft w = (r, w')"
  obtains (unrecorded) "w' = w"
    | (recorded) k w1 where "find_job (jb_id j) (db_jobs w) = Some k" "jb_status k \<notin> set settled"
      "update_own_job (jb_id j) (assembly_failed_patch (ye_now ev) c cls m) w = (Inr (), w1)"
      "seqE extra (\<lambda>_. add_outbox ev 0 draft) w1 = (Inr (), w')"
proof (cases r)
  case (Inl e)
  then show thesis using with_transaction_Inl [OF assms [unfolded record_assembly_failure_def Inl]] unrecorded by simp
next
  case (Inr u)
  from with_transaction_Inr [OF assms [unfolded record_assembly_failure_def Inr]] show thesis
    using recorded unrecorded by (auto simp: seqE_Inr split: option.splits if_splits)
qed

lemma fail_audiobook_cases:
  "fail_audiobook a w = (Inr u, w') \<Longrightarrow> w' = w
     \<or> aw_audiobooks w' = update_where (\<lambda>b. ab_id b = ab_id a) (\<lambda>b. b\<lparr> ab_status := AbFailed \<rparr>) (aw_audiobooks w)"
  by (auto simp: fail_audiobook_def split: option.splits if_splits elim!: on_table_cases dest!: set_audiobook_status_Inr)

lemma encode_failure_books:
  assumes "handle_encode_failure dp ev j a format e w = (r, w')"
  shows "aw_audiobooks w' = aw_audiobooks w \<or> aw_audiobooks w' = update_where (\<lambda>b. ab_id b = ab_id a) (\<lambda>b. b\<lparr> ab_status := AbFailed \<rparr>) (aw_audiobooks w)"
proof (cases "final_assembly_attempt ev")
  case True
  then obtain c cls m draft where "record_assembly_failure ev [FAILED] j c cls m
      (seqE (on_renditions (fail_rendition ev a format)) (\<lambda>_. fail_audiobook a)) draft w = (r, w')"
    using assms by (auto simp: handle_encode_failure_def Let_def)
  then show ?thesis
  proof (cases rule: record_failure_cases)
    case (recorded k w1)
    have "aw_audiobooks w1 = aw_audiobooks w"
      using recorded(3) by (auto simp: update_own_job_def elim!: on_table_cases)
    then show ?thesis
      using recorded(4) by (auto simp: seqE_Inr add_outbox_def elim!: on_table_cases dest!: fail_audiobook_cases)
  qed simp
qed (use assms in \<open>simp add: handle_encode_failure_def\<close>)

lemma encode_format_cases:
  assumes "encode_format dp ev j a format w = (r, w')"
  obtains (unpublished) "aw_audiobooks w' = aw_audiobooks w \<or>
      aw_audiobooks w' = update_where (\<lambda>b. ab_id b = ab_id a) (\<lambda>b. b\<lparr> ab_status := AbFailed \<rparr>) (aw_audiobooks w)"
    | (published) "r = Inr ()" "resolve_requested_delivery_formats (ab_id a) (db_jobs w') \<noteq> []"
      "\<forall>f \<in> set (resolve_requested_delivery_formats (ab_id a) (db_jobs w')). is_format_fully_ready (ab_id a) f (ab_chapter_count a) (aw_renditions w')"
      "aw_audiobooks w' = update_where (\<lambda>b. ab_id b = ab_id a) (\<lambda>b. b\<lparr> ab_status := AbReady \<rparr>) (aw_audiobooks w)"
proof -
  note result = that
  have publish: thesis if "maybe_publish_audiobook ev j a v = (r, w')" "aw_audiobooks v = aw_audiobooks w" for v
    using that(1) by (cases rule: maybe_publish_cases) (use that(2) result in simp_all)
  show thesis
  proof (cases "is_format_fully_ready (ab_id a) format (ab_chapter_count a) (aw_renditions w)")
    case True
    obtain x w1 where x: "with_transaction (update_own_job (jb_id j)
             (assembled_patch (ye_now ev) None ''audiobook'' (ab_id a) (ab_version a))) w = (x, w1)" by fastforce
    have "preserves (\<lambda>v. aw_audiobooks v = aw_audiobooks w) (with_transaction (update_own_job (jb_id j)
             (assembled_patch (ye_now ev) None ''audiobook'' (ab_id a) (ab_version a))))" by (intro preserves_intros)
    from preserves_run [OF this x] have w1: "aw_audiobooks w1 = aw_audiobooks w" by simp
    show thesis
      using assms True x w1 publish result(1) by (cases x) (auto simp: encode_format_def seqE_def)
  next
    case False
    obtain x w1 where x: "mark_running ev ''ENCODING'' j w = (x, w1)" by fastforce
    from preserves_run [OF books.frame_steps(7) x] have w1: "aw_audiobooks w1 = aw_audiobooks w" by simp
    show thesis
    proof (cases x)
      case (Inl e)
      then show thesis using assms False x w1 result(1) by (simp add: encode_format_def seqE_def)
    next
      case x': (Inr u)
      obtain y w2 where y: "encode_stage dp ev j a format w1 = (y, w2)" by fastforce
      have w2: "aw_audiobooks w2 = aw_audiobooks w" using encode_stage_books [OF y] w1 by simp
      obtain z w3 where z: "encode_and_publish dp ev j a format w1 = (z, w3)" by fastforce
      have run: "encode_format dp ev j a format w = (case z of Inr u \<Rightarrow> (Inr u, w3)
          | Inl e \<Rightarrow> seqE (handle_encode_failure dp ev j a format e) (\<lambda>_. throwE e) w3)"
        using False x x' z by (simp add: encode_format_def seqE_def split: sum.splits)
      show thesis
      proof (cases z)
        case (Inr u)
        then obtain u' where "y = Inr u'" "maybe_publish_audiobook ev j a w2 = (Inr u, w3)"
          using y z by (cases y) (auto simp: encode_and_publish_stage seqE_def)
        moreover have "r = Inr u" "w' = w3" using run assms Inr by simp_all
        ultimately show thesis using publish [of w2] w2 by simp
      next
        case (Inl e)
        have w3: "aw_audiobooks w3 = aw_audiobooks w"
        proof (cases y)
          case (Inl e')
          then show ?thesis using y z w2 by (simp add: encode_and_publish_stage seqE_def)
        next
          case (Inr u')
          then have "maybe_publish_audiobook ev j a w2 = (Inl e, w3)" using y z \<open>z = Inl e\<close> by (simp add: encode_and_publish_stage seqE_def)
          then show ?thesis by (cases rule: maybe_publish_cases) (use w2 in simp_all)
        qed
        obtain h w4 where h: "handle_encode_failure dp ev j a format e w3 = (h, w4)" by fastforce
        have "w' = w4" using run assms Inl h by (cases h) (simp_all add: seqE_def)
        then show thesis using encode_failure_books [OF h] w3 result(1) by simp
      qed
    qed
  qed
qed


definition sample_audiobook :: "audiobook_status \<Rightarrow> audiobook" where
  "sample_audiobook st = \<lparr> ab_id = ''x1'', ab_tenant_id = ''t1'', ab_book_id = ''b1'', ab_book_version = ''v1'', ab_version = 1,
     ab_supersedes = None, ab_current = True, ab_superseded_at = None, ab_preview = False, ab_status = st, ab_container = ''M4B'',
     ab_duration_ms = 2500, ab_chapter_count = 1, ab_info = bk_info sample_book, ab_narrator = None, ab_disclosed = True,
     ab_cover = None, ab_wer = JNull, ab_chunks_flagged = 0, ab_asr_coverage = JNull, ab_pipeline_version = ''p'',
     ab_director_version = ''d1'', ab_tts_models = [], ab_tool_model = ''mv1'', ab_source_hash = ''h'', ab_story_bible = ''s1'',
     ab_manifest_hash = ''h'', ab_job_id = None, ab_object = sample_object, ab_created = 1 \<rparr>"

definition sample_rendition :: rendition where
  "sample_rendition = rendition_row (sample_audiobook AbAssembling) ''r1'' ''M4B'' None 192 2500 ''mv1'' sample_object"

definition sample_encode_job :: "string \<Rightarrow> job_status \<Rightarrow> job" where
  "sample_encode_job format st = (sample_job ''j1'' ''t1'' st)\<lparr> jb_type := ''encode_delivery_format'', jb_related_type := ''audiobook'',
     jb_related_id := ''x1'', jb_scope := Some (JObj [(''format'', JStr format)]) \<rparr>"

definition encode_command :: "string \<Rightarrow> json" where
  "encode_command format = JObj [(''entity_id'', JStr ''j1''),
     (''payload'', JObj [(''audiobook_id'', JStr ''x1''), (''format'', JStr format)])]"

definition sample_packaging_world :: "job list \<Rightarrow> rendition list \<Rightarrow> (unit, unit, unit) assembly_world" where
  "sample_packaging_world jobs rs = (sample_book_world jobs)\<lparr> aw_audiobooks := [sample_audiobook AbAssembling], aw_renditions := rs \<rparr>"

lemma encode_command_sel [simp]:
  "str_field (encode_command f) ''entity_id'' = Some ''j1''" "sub_field (encode_command f) ''payload'' ''audiobook_id'' = Some ''x1''"
  "sub_field (encode_command f) ''payload'' ''format'' = Some f"
  by (simp_all add: encode_command_def str_field_def sub_field_def)

lemma encode_call:
  "jb_status j = QUEUED \<Longrightarrow> jb_id j = ''j1'' \<Longrightarrow> process_encode_delivery_format_job dp ev (encode_command f) (sample_packaging_world [j] rs)
     = encode_format dp ev j (sample_audiobook AbAssembling) f (sample_packaging_world [j] rs)"
  by (simp add: process_encode_delivery_format_job_def truthy_def find_job_def)
    (simp add: sample_packaging_world_def sample_book_world_def sample_audio_world_def sample_audiobook_def sample_object_def)

lemma sample_publication:
  "\<exists>w'. process_encode_delivery_format_job dp ev (encode_command ''M4B'') (sample_packaging_world [sample_encode_job ''M4B'' QUEUED] [sample_rendition])
     = (Inr (), w') \<and> aw_audiobooks w' = [sample_audiobook AbReady]"
proof -
  let ?j = "sample_encode_job ''M4B'' QUEUED" and ?w = "sample_packaging_world [sample_encode_job ''M4B'' QUEUED] [sample_rendition]"
  have j: "jb_status ?j = QUEUED" "jb_id ?j = ''j1''" by (simp_all add: sample_encode_job_def sample_job_def)
  have ready: "is_format_fully_ready ''x1'' ''M4B'' 1 [sample_rendition]"
    by (simp add: is_format_fully_ready_def ready_rendition_def sample_rendition_def rendition_row_def sample_audiobook_def
      matches_current_policy_def str_field_def PACKAGING_POLICY_V1_def)
  have a: "ab_id (sample_audiobook st) = ''x1''" "ab_chapter_count (sample_audiobook st) = 1" "ab_status (sample_audiobook st) = st"
    "ab_book_id (sample_audiobook st) = ''b1''" "(sample_audiobook st)\<lparr> ab_status := AbReady \<rparr> = sample_audiobook AbReady"
    "audiobook_check (sample_audiobook AbReady)" for st
    by (simp_all add: sample_audiobook_def audiobook_check_def sample_object_def)
  let ?w1 = "?w\<lparr> db_jobs := [assembled_patch (ye_now ev) None ''audiobook'' ''x1'' (ab_version (sample_audiobook AbAssembling)) ?j] \<rparr>"
  have w: "aw_renditions ?w = [sample_rendition]" "db_jobs ?w = [?j]" "aw_audiobooks ?w = [sample_audiobook AbAssembling]"
    "iw_books ?w = [sample_book\<lparr> bk_current_version := Some ''v1'' \<rparr>]"
    by (simp_all add: sample_packaging_world_def sample_book_world_def sample_audio_world_def)
  have formats: "resolve_requested_delivery_formats ''x1'' (db_jobs ?w1) = [''M4B'']"
    by (simp add: resolve_requested_delivery_formats_def js_set_def assembled_patch_def sample_encode_job_def sample_job_def
      touch_def set_completed_def set_status_def str_field_def)
  have mark: "with_transaction (update_own_job (jb_id ?j) (assembled_patch (ye_now ev) None ''audiobook'' ''x1''
      (ab_version (sample_audiobook AbAssembling)))) ?w = (Inr (), ?w1)"
    by (simp add: with_transaction_def update_own_job_def on_table_def update_job_def w j)
  have "\<exists>w'. publish_audiobook ev ?j (sample_audiobook AbAssembling) [''M4B''] n ?w1 = (Inr (), w') \<and> aw_audiobooks w' = [sample_audiobook AbReady]" for n
    by (simp add: publish_audiobook_def with_transaction_def seqE_def on_table_def w a set_audiobook_status_def update_book_def add_outbox_def sample_book_def)
  then show ?thesis
    unfolding encode_call [OF j] encode_format_def a w
    using ready formats by (simp add: a w mark maybe_publish_audiobook_def Let_def seqE_def)
qed


end
