(* ===== verification/AssemblyFailures.thy ===== *)
theory AssemblyFailures
  imports PackagingProperties
begin

text \<open>
  The failure paths of the assembly, as the code has them: which failures are recorded, which are final,
  and which outcomes are lost.
\<close>

subsection \<open>The job of a call\<close>

lemma find_job_touched: "(\<And>j. jb_id (f j) = jb_id j) \<Longrightarrow> k \<noteq> i \<Longrightarrow> find_job i (update_where (\<lambda>x. jb_id x = k) f jobs) = find_job i jobs"
  unfolding find_job_def by (induction jobs) auto

lemma created_job_other:
  assumes "create_row job_clash k jobs = Inr jobs'" "find_job i jobs = Some j"
  shows "find_job i jobs' = Some j \<and> jb_id k \<noteq> i"
proof -
  have "jobs' = jobs @ [k]" "\<forall>x \<in> set jobs. \<not> job_clash k x" using create_row_Inr [OF assms(1)] by simp_all
  moreover have "j \<in> set jobs" "jb_id j = i" using find_job_Some [OF assms(2)] by simp_all
  ultimately show ?thesis using assms(2) by (auto simp: find_job_append job_clash_def)
qed

lemma dispatch_other:
  assumes "dispatch_audio bq now args w = (r, w')" "ea_processing_job_id args \<noteq> i"
  shows "find_job i (db_jobs w') = find_job i (db_jobs w)"
  using assms by (auto simp: dispatch_audio_def enqueue_processing_job_def update_job_Inr find_job_touched
    split: prod.splits sum.splits)

lemma enqueue_keeps_job:
  "enqueue_encode_jobs dp ev n j b fs w = (r, w') \<Longrightarrow> find_job i (db_jobs w) = Some k \<Longrightarrow> find_job i (db_jobs w') = Some k"
proof (induction fs arbitrary: n w)
  case (Cons f fs)
  let ?k = "encode_job ev (ye_id ev n) j b f"
  from Cons.prems(1) [unfolded enqueue_encode_jobs.simps Let_def] show ?case
  proof (cases rule: seqE_cases)
    case (stop e)
    then show ?thesis using Cons.prems(2) by (auto elim!: on_table_cases)
  next
    case (go x w1)
    from go(1) obtain t where t: "create_row job_clash ?k (db_jobs w) = Inr t" "w1 = w\<lparr> db_jobs := t \<rparr>"
      by (auto elim!: on_table_cases)
    have k: "find_job i (db_jobs w1) = Some k" "jb_id ?k \<noteq> i" using created_job_other [OF t(1) Cons.prems(2)] t(2) by simp_all
    from go(2) show ?thesis
    proof (cases rule: seqE_cases)
      case (stop e)
      then show ?thesis using dispatch_other [OF stop(1)] k by simp
    next
      case (go y w2)
      have "find_job i (db_jobs w2) = Some k" using dispatch_other [OF go(1)] k by simp
      then show ?thesis by (rule Cons.IH [OF go(2)])
    qed
  qed
qed simp

lemma fan_in_keeps_job:
  assumes "maybe_trigger_audiobook_fan_in dp ev j w = (r, w')" "find_job i (db_jobs w) = Some k"
  shows "find_job i (db_jobs w') = Some k"
proof (cases "fan_in_due j w")
  case None
  then show ?thesis using assms by (simp add: maybe_trigger_audiobook_fan_in_def seqE_def)
next
  case (Some due)
  obtain version formats where due: "due = (version, formats)" by (cases due)
  let ?k = "fan_in_job ev j version formats"
  have "seqE (aw_jobs (create_row job_clash ?k)) (\<lambda>_. dispatch_audio (ad_broker dp) (ye_now ev)
         \<lparr> ea_processing_job_id = jb_id ?k, ea_queue = ''audio'', ea_envelope = the (jb_envelope ?k),
           ea_job_name = ''assemble_audiobook'', ea_max_attempts = 3, ea_priority = None \<rparr>) w = (r, w')"
    using assms(1) Some due by (simp add: maybe_trigger_audiobook_fan_in_def seqE_readE Let_def)
  then show ?thesis
  proof (cases rule: seqE_cases)
    case (stop e)
    then show ?thesis using assms(2) by (auto elim!: on_table_cases)
  next
    case (go x w1)
    from go(1) obtain t where t: "create_row job_clash ?k (db_jobs w) = Inr t" "w1 = w\<lparr> db_jobs := t \<rparr>"
      by (auto elim!: on_table_cases)
    then show ?thesis using created_job_other [OF t(1) assms(2)] dispatch_other [OF go(2)] by simp
  qed
qed

text \<open>A recorded failure; \<open>settled\<close> lists the statuses that are left alone.\<close>

lemma failure_recorded:
  assumes "record_assembly_failure ev settled j c cls m (returnE ()) draft w = (r, w')" "find_job (jb_id j) (db_jobs w) = Some k"
  shows "\<exists>k'. find_job (jb_id j) (db_jobs w') = Some k' \<and> (jb_status k' = FAILED \<or> k' = k \<and> jb_status k \<in> set settled)"
proof (cases "jb_status k \<in> set settled")
  case True
  then have "w' = w" using assms by (simp add: record_assembly_failure_def with_transaction_def)
  then show ?thesis using True assms(2) by simp
next
  case False
  let ?jobs = "update_where (\<lambda>x. jb_id x = jb_id j) (assembly_failed_patch (ye_now ev) c cls m) (db_jobs w)"
  have "update_own_job (jb_id j) (assembly_failed_patch (ye_now ev) c cls m) w = (Inr (), w\<lparr> db_jobs := ?jobs \<rparr>)"
    by (simp add: update_own_job_def on_table_def update_job_total [OF assms(2)])
  then have "db_jobs w' = ?jobs"
    using assms False by (auto simp: record_assembly_failure_def with_transaction_def seqE_def add_outbox_def)
  then show ?thesis using assms(2) by (simp add: find_job_update)
qed

lemma failure_returns:
  "find_job (jb_id j) (db_jobs w) = Some k \<Longrightarrow> record_assembly_failure ev settled j c cls m (returnE ()) draft w = (r, w') \<Longrightarrow> r = Inr ()"
  by (auto split: if_splits simp: record_assembly_failure_def with_transaction_def seqE_def update_own_job_def on_table_def update_job_total add_outbox_def)

lemma marked_job:
  assumes "update_own_job (jb_id j) f w = (Inr u, w')" "\<And>x. jb_id (f x) = jb_id x"
  shows "\<exists>k. find_job (jb_id j) (db_jobs w) = Some k \<and> find_job (jb_id j) (db_jobs w') = Some (f k)"
proof -
  from assms(1) obtain t where t: "update_job (jb_id j) f (db_jobs w) = Inr t" "w' = w\<lparr> db_jobs := t \<rparr>"
    by (auto simp: update_own_job_def elim!: on_table_cases)
  then show ?thesis using assms(2) by (auto simp: update_job_Inr find_job_update)
qed

lemma mark_running_job:
  assumes "mark_running ev stage j w = (r, w')"
  shows "(\<exists>e. r = Inl e) \<and> w' = w \<or> r = Inr () \<and> (\<exists>k. find_job (jb_id j) (db_jobs w') = Some k \<and> jb_status k = RUNNING)"
proof (cases r)
  case (Inl e)
  then show ?thesis using assms by (auto simp: mark_running_def update_own_job_def split: if_splits elim!: on_table_cases)
next
  case (Inr u)
  then have "update_own_job (jb_id j) (running_patch (ye_now ev) stage j) w = (Inr u, w')"
    using assms by (auto simp: mark_running_def split: if_splits)
  from marked_job [OF this] show ?thesis using Inr by auto
qed

subsection \<open>A failed audiobook assembly is final\<close>

lemma build_audiobook_job:
  assumes "build_audiobook dp ev j b v cs formats hash w = (r, w')" "find_job (jb_id j) (db_jobs w) = Some k"
  shows "\<exists>k. find_job (jb_id j) (db_jobs w') = Some k"
proof -
  obtain m w1 where m: "build_master dp ev j b v cs formats hash w = (m, w1)" by fastforce
  then have w1: "\<exists>k. find_job (jb_id j) (db_jobs w1) = Some k"
  proof (cases rule: build_master_cases)
    case (unbuilt e)
    then show ?thesis using assms(2) by simp
  next
    case (built a ms)
    then show ?thesis using assms(2) by (simp add: find_job_update)
  qed
  show ?thesis
  proof (cases m)
    case (Inl e)
    then show ?thesis using assms(1) m w1 by (simp add: build_audiobook_def seqE_def)
  next
    case (Inr a)
    then have "enqueue_encode_jobs dp ev 1 j (ab_id a) formats w1 = (r, w')" using assms(1) m by (simp add: build_audiobook_def seqE_def)
    then show ?thesis using w1 enqueue_keeps_job by blast
  qed
qed

definition settled_job :: "string \<Rightarrow> ('q, 'r, 's) assembly_world \<Rightarrow> bool" where
  "settled_job i w \<longleftrightarrow> (\<exists>k. find_job i (db_jobs w) = Some k \<and> (jb_status k = SUCCEEDED \<or> jb_status k = FAILED))"

lemma audiobook_failure_settles:
  assumes "handle_audiobook_assembly_failure ev j c cls m w = (r, w')" "find_job (jb_id j) (db_jobs w) = Some k"
  shows "settled_job (jb_id j) w'"
  using failure_recorded [OF assms(1) [unfolded handle_audiobook_assembly_failure_def] assms(2)] by (auto simp: settled_job_def)

lemma run_audiobook_settles:
  assumes "run_audiobook_assembly dp ev j b v cs formats hash w = (Inl e, w')"
  shows "w' = w \<or> settled_job (jb_id j) w'"
proof -
  obtain x w1 where x: "mark_running ev ''ASSEMBLING'' j w = (x, w1)" by fastforce
  show ?thesis
  proof (cases x)
    case (Inl e)
    then show ?thesis using assms mark_running_job [OF x] x by (simp add: run_audiobook_assembly_def seqE_def)
  next
    case (Inr u)
    obtain y w2 where y: "build_audiobook dp ev j b v cs formats hash w1 = (y, w2)" by fastforce
    obtain k where k: "find_job (jb_id j) (db_jobs w2) = Some k"
      using mark_running_job [OF x] Inr build_audiobook_job [OF y] by auto
    obtain err where err: "y = Inl err" using assms x Inr y by (cases y) (auto simp: run_audiobook_assembly_def seqE_def)
    obtain h w3 where h: "handle_audiobook_assembly_failure ev j (error_code_of err ''AUDIOBOOK_ASSEMBLY_FAILED'')
           (error_class_of dp err) (error_message err) w2 = (h, w3)" by fastforce
    have "w' = w3" using assms x Inr y err h by (cases h) (auto simp: run_audiobook_assembly_def seqE_def)
    then show ?thesis using audiobook_failure_settles [OF h k] by simp
  qed
qed

lemma resume_settles:
  assumes "resume_packaging dp ev j x missing w = (Inl e, w')"
  shows "w' = w \<or> settled_job (jb_id j) w'"
proof -
  let ?f = "assembled_patch (ye_now ev) None ''audiobook'' (ab_id x) (ab_version x)"
  obtain y w1 where y: "with_transaction (update_own_job (jb_id j) ?f) w = (y, w1)" by fastforce
  show ?thesis
  proof (cases y)
    case (Inl e')
    then have "w1 = w" using with_transaction_Inl [of "update_own_job (jb_id j) ?f" w e' w1] y by simp
    then show ?thesis using assms y Inl by (simp add: resume_packaging_def seqE_def)
  next
    case (Inr u)
    have "update_own_job (jb_id j) ?f w = (Inr u, w1)" using with_transaction_Inr [of "update_own_job (jb_id j) ?f" w u w1] y Inr by simp
    from marked_job [OF this] obtain k where k: "find_job (jb_id j) (db_jobs w1) = Some (?f k)" by auto
    have "enqueue_encode_jobs dp ev 1 j (ab_id x) missing w1 = (Inl e, w')" using assms y Inr by (simp add: resume_packaging_def seqE_def)
    then show ?thesis using enqueue_keeps_job [OF _ k] by (auto simp: settled_job_def)
  qed
qed

lemma failure_throws: "record_assembly_failure ev settled j c cls m extra draft w = (Inl e, w') \<Longrightarrow> w' = w"
  unfolding record_assembly_failure_def by (rule with_transaction_Inl)

lemma assemble_audiobook_settles:
  assumes "assemble_audiobook dp ev j b formats w = (Inl e, w')"
  shows "w' = w \<or> settled_job (jb_id j) w'"
proof -
  have "(\<exists>v cs hash. run_audiobook_assembly dp ev j b v cs formats hash w = (Inl e, w'))
      \<or> (\<exists>x m. resume_packaging dp ev j x m w = (Inl e, w')) \<or> (\<exists>c cls m. handle_audiobook_assembly_failure ev j c cls m w = (Inl e, w'))"
    using assms unfolding assemble_audiobook_def handle_audiobook_not_ready_def
    by (auto simp: Let_def split: if_splits option.splits prod.splits bool.splits)
  then show ?thesis
  proof (elim disjE exE)
    fix v cs hash assume "run_audiobook_assembly dp ev j b v cs formats hash w = (Inl e, w')"
    then show ?thesis by (rule run_audiobook_settles)
  next
    fix x m assume "resume_packaging dp ev j x m w = (Inl e, w')"
    then show ?thesis by (rule resume_settles)
  next
    fix c cls m assume "handle_audiobook_assembly_failure ev j c cls m w = (Inl e, w')"
    then show ?thesis using failure_throws unfolding handle_audiobook_assembly_failure_def by blast
  qed
qed

text \<open>
  C23: a failed assembly of an audiobook is never retried, whatever attempts the queue still has.  A
  call that throws either has recorded nothing, or has left its job \<open>FAILED\<close>, or \<open>SUCCEEDED\<close> when the
  audiobook was committed and only the creation of the encode jobs failed; every later delivery of the
  command then returns at once and changes nothing.
\<close>

theorem audiobook_assembly_never_retried:
  assumes "process_assemble_audiobook_job dp ev envelope w = (Inl e, w')" and "str_field envelope ''entity_id'' = Some i"
  shows "w' = w \<or> (\<exists>k. find_job i (db_jobs w') = Some k \<and> jb_status k \<in> {SUCCEEDED, FAILED}
    \<and> (\<forall>dp' ev'. process_assemble_audiobook_job dp' ev' envelope w' = (Inr (), w')))"
proof -
  have again: "process_assemble_audiobook_job dp' ev' envelope w' = (Inr (), w')" if "settled_job i w'" "truthy (Some i)" for dp' ev'
    using that assms(2) by (auto simp: process_assemble_audiobook_job_def settled_job_def)
  have "w' = w \<or> truthy (Some i) \<and> (\<exists>j b formats. jb_id j = i \<and> assemble_audiobook dp ev j b formats w = (Inl e, w'))"
    using assms by (auto simp: process_assemble_audiobook_job_def Let_def split: if_splits option.splits dest!: find_job_Some)
  then have "w' = w \<or> truthy (Some i) \<and> settled_job i w'"
    using assemble_audiobook_settles by blast
  then show ?thesis using again unfolding settled_job_def by blast
qed

lemma audiobook_assembly_never_retried_witness:
  "\<exists>e w' k. process_assemble_audiobook_job (sample_store_deps silent_tool) (sample_attempt 0) book_command
      (sample_book_world [chapter_job ''AUDIOBOOK'']) = (Inl e, w') \<and> find_job ''j1'' (db_jobs w') = Some k \<and> jb_status k \<in> {SUCCEEDED, FAILED}"
proof -
  let ?w = "sample_book_world [chapter_job ''AUDIOBOOK'']" and ?j = "chapter_job ''AUDIOBOOK''"
  let ?dp = "sample_store_deps silent_tool" and ?ev = "sample_attempt 0" and ?b = "sample_book\<lparr> bk_current_version := Some ''v1'' \<rparr>"
  let ?cs = "[(sample_chapter, sample_chapter_audio ''ca1'' 1 True ''h'')]"
  obtain hash where call: "process_assemble_audiobook_job ?dp ?ev book_command ?w
      = run_audiobook_assembly ?dp ?ev ?j ?b ''v1'' ?cs [''M4B''] hash ?w" using sample_book_call by blast
  obtain w1 k where w1: "mark_running ?ev ''ASSEMBLING'' ?j ?w = (Inr (), w1)" "find_job (jb_id ?j) (db_jobs w1) = Some k" "jb_status k = RUNNING"
    by (simp add: mark_running_def update_own_job_def update_job_def on_table_def)
  obtain m where "get_ffmpeg_version silent_tool = Inl (OtherErr m)" using silent_version by blast
  then have build: "build_audiobook ?dp ?ev ?j ?b ''v1'' ?cs [''M4B''] hash w1 = (Inl (OtherErr m), w1)"
    by (simp add: build_audiobook_def build_master_def audiobook_source_of_def resolve_audio_tool_model_version_id_def seqE_readE
      sample_store_deps_def)
  obtain h w3 where h: "handle_audiobook_assembly_failure ?ev ?j (error_code_of (OtherErr m) ''AUDIOBOOK_ASSEMBLY_FAILED'')
      (error_class_of ?dp (OtherErr m)) (error_message (OtherErr m)) w1 = (h, w3)" by fastforce
  obtain k' where k': "find_job ''j1'' (db_jobs w3) = Some k'" "jb_status k' = FAILED"
    using failure_recorded [OF h [unfolded handle_audiobook_assembly_failure_def] w1(2)] w1(3) by auto
  obtain e where run: "process_assemble_audiobook_job ?dp ?ev book_command ?w = (Inl e, w3)"
    unfolding call run_audiobook_assembly_def using w1(1) build h by (cases h) (simp_all add: seqE_def)
  have "w3 \<noteq> ?w" using k' by auto
  moreover have "str_field book_command ''entity_id'' = Some ''j1''" by (simp add: book_command_def str_field_def)
  ultimately show ?thesis using audiobook_assembly_never_retried [OF run] run by blast
qed

subsection \<open>The failure of a per-chapter encoding is lost\<close>

definition open_job :: "string \<Rightarrow> ('q, 'r, 's) assembly_world \<Rightarrow> bool" where
  "open_job i w \<longleftrightarrow> (\<exists>k. find_job i (db_jobs w) = Some k \<and> jb_status k \<noteq> FAILED)"

lemma open_job_frame [simp]:
  "open_job i (iw_store_update f w) = open_job i w" "open_job i (aw_renditions_update g w) = open_job i w"
  "open_job i (aw_audiobooks_update h w) = open_job i w" "open_job i (iw_books_update k w) = open_job i w"
  "open_job i (db_outbox_update l w) = open_job i w"
  by (simp_all add: open_job_def)

interpretation open_jobs: encode_frame "open_job i" for i
  by unfold_locales simp_all

lemma open_job_updated [preserves_intros]:
  assumes "\<And>x. jb_id (f x) = jb_id x" "\<And>x. jb_status (f x) \<noteq> FAILED"
  shows "preserves (open_job i) (update_own_job k f)"
proof (rule preservesI)
  fix w :: "('q, 'r, 's) assembly_world" assume J: "open_job i w"
  have "open_job i (w\<lparr> db_jobs := t \<rparr>)" if "update_job k f (db_jobs w) = Inr t" for t
  proof -
    have "t = update_where (\<lambda>x. jb_id x = k) f (db_jobs w)" using that by (simp add: update_job_Inr)
    moreover have "find_job i (update_where (\<lambda>x. jb_id x = k) f jobs) = map_option (\<lambda>x. if jb_id x = k then f x else x) (find_job i jobs)" for jobs
      using assms(1) by (induction jobs) (auto simp: find_job_def)
    moreover obtain ka where "find_job i (db_jobs w) = Some ka" "jb_status ka \<noteq> FAILED" using J by (auto simp: open_job_def)
    ultimately show ?thesis using assms(2) by (cases "jb_id ka = k") (simp_all add: open_job_def)
  qed
  then show "open_job i (snd (update_own_job k f w))"
    using J by (auto simp: update_own_job_def on_table_def split: sum.splits)
qed

lemma open_job_writes [preserves_intros]:
  "preserves (open_job i) (on_audiobooks f)" "preserves (open_job i) (aw_books g)" "preserves (open_job i) (add_outbox ev n draft)"
  by (auto simp: preserves_def on_table_def add_outbox_def split: sum.splits)

lemma open_job_marked: "preserves (open_job i) (mark_running ev stage j)"
proof (rule preservesI)
  fix w :: "('q, 'r, 's) assembly_world" assume J: "open_job i w"
  have "preserves (open_job i) (update_own_job (jb_id j) (running_patch (ye_now ev) stage j) :: ('q, 'r, 's) assembly_world \<Rightarrow> _)"
    by (intro preserves_intros) simp_all
  then show "open_job i (snd (mark_running ev stage j w))"
    using J by (auto simp: mark_running_def preserves_def)
qed

lemma open_job_stage: "preserves (open_job i) (encode_stage dp ev j a format)"
  unfolding encode_stage_def by (intro preserves_intros) simp_all

lemma open_job_publication:
  "preserves (open_job i) (seqE (on_audiobooks f) (\<lambda>_. seqE (returnE ()) (\<lambda>_. add_outbox ev n draft)))"
  "preserves (open_job i) (seqE (on_audiobooks f) (\<lambda>_. seqE (aw_books g) (\<lambda>_. add_outbox ev n draft)))"
  by (intro preserves_intros)+

lemma open_job_publish: "preserves (open_job i) (maybe_publish_audiobook ev j a)"
proof -
  have "preserves (open_job i) (publish_audiobook ev j a formats n :: ('q, 'r, 's) assembly_world \<Rightarrow> _)" for formats n
    unfolding publish_audiobook_def
    by (intro preserves_transaction preservesI)
      (auto simp del: step_simps split: option.splits intro!: open_job_publication [THEN preservesD])
  then show "preserves (open_job i) (maybe_publish_audiobook ev j a :: ('q, 'r, 's) assembly_world \<Rightarrow> _)"
    by (auto simp: preserves_def maybe_publish_audiobook_def Let_def)
qed

text \<open>The row that would record the failure breaks the check on per-chapter renditions.\<close>

lemma mp3_failure_rolled_back:
  assumes "on_audio audio_rows w" "handle_encode_failure dp ev j a ''MP3_PER_CHAPTER'' e w = (r, w')"
  shows "w' = w"
proof -
  have "find_row (\<lambda>r. rn_audiobook_id r = ab_id a \<and> rn_format r = ''MP3_PER_CHAPTER'' \<and> rn_chapter_id r = None) (aw_renditions w) = None"
    using assms(1) by (auto simp: find_row_None on_audio_def audio_rows_def list_all_iff rendition_check_def)
  moreover have "\<not> rendition_check (failed_rendition ev a ''MP3_PER_CHAPTER'')"
    by (simp add: failed_rendition_def rendition_check_def)
  ultimately have none: "\<exists>x. fail_rendition ev a ''MP3_PER_CHAPTER'' (aw_renditions w) = Inl x"
    by (simp add: fail_rendition_def create_rendition_def create_checked_def)
  show ?thesis
  proof (cases "final_assembly_attempt ev")
    case True
    then obtain c cls m draft where "record_assembly_failure ev [FAILED] j c cls m
        (seqE (on_renditions (fail_rendition ev a ''MP3_PER_CHAPTER'')) (\<lambda>_. fail_audiobook a)) draft w = (r, w')"
      using assms(2) by (auto simp: handle_encode_failure_def Let_def)
    then show ?thesis
    proof (cases rule: record_failure_cases)
      case (recorded k w1)
      have "aw_renditions w1 = aw_renditions w" using recorded(3) by (auto simp: update_own_job_def elim!: on_table_cases)
      then show ?thesis using recorded(4) none by (auto simp: seqE_Inr elim!: on_table_cases)
    qed
  qed (use assms(2) in \<open>simp add: handle_encode_failure_def\<close>)
qed

text \<open>
  an encoding of the per-chapter format that fails is never recorded, not even on the last
  attempt: the record of the failure inserts a rendition without a chapter, the table refuses it, and the
  whole record is rolled back.  The job of a call that throws is never \<open>FAILED\<close>, so it stays
  \<open>RUNNING\<close> when the queue gives up.
\<close>

theorem mp3_failure_unrecorded:
  assumes run: "process_encode_delivery_format_job dp ev envelope w = (Inl e, w')" and i: "str_field envelope ''entity_id'' = Some i"
    and format: "sub_field envelope ''payload'' ''format'' = Some ''MP3_PER_CHAPTER''" and rows: "on_audio audio_rows w"
    and job: "find_job i (db_jobs w) = Some j" "jb_status j \<noteq> FAILED"
  shows "\<exists>k. find_job i (db_jobs w') = Some k \<and> jb_status k \<noteq> FAILED"
proof -
  have J: "open_job i w" using job by (simp add: open_job_def)
  have "w' = w \<or> (\<exists>a. encode_format dp ev j a ''MP3_PER_CHAPTER'' w = (Inl e, w'))"
    using run i format job by (auto simp: process_encode_delivery_format_job_def Let_def split: if_splits option.splits)
  then show ?thesis
  proof
    assume "\<exists>a. encode_format dp ev j a ''MP3_PER_CHAPTER'' w = (Inl e, w')"
    then obtain a where run': "encode_format dp ev j a ''MP3_PER_CHAPTER'' w = (Inl e, w')" by blast
    let ?f = "assembled_patch (ye_now ev) None ''audiobook'' (ab_id a) (ab_version a)"
    have packaged: "preserves (open_job i) (seqE (with_transaction (update_own_job (jb_id j) ?f)) (\<lambda>_. maybe_publish_audiobook ev j a))"
      by (intro preserves_intros open_job_publish) simp_all
    show ?thesis
    proof (cases "is_format_fully_ready (ab_id a) ''MP3_PER_CHAPTER'' (ab_chapter_count a) (aw_renditions w)")
      case True
      then have "seqE (with_transaction (update_own_job (jb_id j) ?f)) (\<lambda>_. maybe_publish_audiobook ev j a) w = (Inl e, w')"
        using run' by (simp add: encode_format_def)
      from preserves_run [OF packaged this J] show ?thesis by (simp add: open_job_def)
    next
      case False
      obtain x w1 where x: "mark_running ev ''ENCODING'' j w = (x, w1)" by fastforce
      have w1: "open_job i w1" "on_audio audio_rows w1"
        by (rule preserves_run [OF open_job_marked x J]) (rule preserves_run [OF audio_frame.frame_steps(7) x rows])
      obtain z w2 where z: "encode_and_publish dp ev j a ''MP3_PER_CHAPTER'' w1 = (z, w2)" by fastforce
      have "preserves (open_job i) (encode_and_publish dp ev j a ''MP3_PER_CHAPTER'')"
        unfolding encode_and_publish_stage by (intro preserves_seqE open_job_stage open_job_publish)
      from preserves_run [OF this z w1(1)] have w2: "open_job i w2" .
      from preserves_run [OF rows.keeps_encode_and_publish z w1(2)] have rows2: "on_audio audio_rows w2" .
      have "w' = w1 \<or> w' = w2"
      proof (cases x)
        case (Inl e')
        then show ?thesis using run' False x by (simp add: encode_format_def seqE_def)
      next
        case (Inr u)
        obtain err where err: "z = Inl err" using run' False x Inr z by (cases z) (auto simp: encode_format_def seqE_def)
        obtain h w3 where h: "handle_encode_failure dp ev j a ''MP3_PER_CHAPTER'' err w2 = (h, w3)" by fastforce
        have "w' = w3" using run' False x Inr z err h by (cases h) (auto simp: encode_format_def seqE_def)
        then show ?thesis using mp3_failure_rolled_back [OF rows2 h] by simp
      qed
      then show ?thesis using w1(1) w2 by (auto simp: open_job_def)
    qed
  qed (use job in simp)
qed

lemma mp3_failure_unrecorded_witness:
  "\<exists>e w' k. process_encode_delivery_format_job (sample_store_deps silent_tool) (sample_attempt 2) (encode_command ''MP3_PER_CHAPTER'')
       (sample_packaging_world [sample_encode_job ''MP3_PER_CHAPTER'' QUEUED] []) = (Inl e, w')
     \<and> final_assembly_attempt (sample_attempt 2) \<and> find_job ''j1'' (db_jobs w') = Some k \<and> jb_status k \<noteq> FAILED"
proof -
  let ?j = "sample_encode_job ''MP3_PER_CHAPTER'' QUEUED" and ?dp = "sample_store_deps silent_tool" and ?ev = "sample_attempt 2"
  let ?w = "sample_packaging_world [?j] []" and ?a = "sample_audiobook AbAssembling"
  have j: "jb_status ?j = QUEUED" "jb_id ?j = ''j1''" "attempt_allowed ?j"
    by (simp_all add: sample_encode_job_def sample_job_def attempt_allowed_def)
  have w: "db_jobs ?w = [?j]" "aw_renditions ?w = []" by (simp_all add: sample_packaging_world_def)
  have rows: "on_audio audio_rows ?w"
    by (simp add: on_audio_def audio_rows_def sample_packaging_world_def sample_book_world_def sample_chapter_audio_def voice_check_def
      audiobook_check_def sample_audiobook_def)
  have unready: "\<not> is_format_fully_ready (ab_id ?a) ''MP3_PER_CHAPTER'' (ab_chapter_count ?a) []"
    by (simp add: is_format_fully_ready_def sample_audiobook_def)
  obtain w1 where w1: "mark_running ?ev ''ENCODING'' ?j ?w = (Inr (), w1)"
    by (simp add: mark_running_def update_own_job_def update_job_def on_table_def w j)
  obtain m where "get_ffmpeg_version silent_tool = Inl (OtherErr m)" using silent_version by blast
  then have "encode_and_publish ?dp ?ev ?j ?a ''MP3_PER_CHAPTER'' w1 = (Inl (OtherErr m), w1)"
    by (simp add: encode_and_publish_def resolve_audio_tool_model_version_id_def seqE_readE sample_store_deps_def)
  moreover obtain h w2 where "handle_encode_failure ?dp ?ev ?j ?a ''MP3_PER_CHAPTER'' (OtherErr m) w1 = (h, w2)" by fastforce
  ultimately obtain e where run: "process_encode_delivery_format_job ?dp ?ev (encode_command ''MP3_PER_CHAPTER'') ?w = (Inl e, w2)"
    unfolding encode_call [OF j(1,2)] using unready w1 w by (cases h) (simp_all add: encode_format_def seqE_def)
  have "find_job ''j1'' (db_jobs ?w) = Some ?j" "jb_status ?j \<noteq> FAILED" using j w by simp_all
  from mp3_failure_unrecorded [OF run encode_command_sel(1,3) rows this] show ?thesis
    using run by (auto simp: final_assembly_attempt_def sample_attempt_def)
qed

subsection \<open>A success overwritten by the fan-in\<close>

lemma build_chapter_job:
  assumes "build_chapter_audio dp ev j c cs hash w = (r, w')" "find_job (jb_id j) (db_jobs w) = Some k"
  shows "\<exists>k. find_job (jb_id j) (db_jobs w') = Some k"
  using assms(1) by (cases rule: build_chapter_cases) (use assms(2) in \<open>simp_all add: find_job_update\<close>)

lemma assemble_and_persist_job:
  assumes "assemble_and_persist dp ev j c cs hash w = (r, w')" "find_job (jb_id j) (db_jobs w) = Some k"
  shows "\<exists>k. find_job (jb_id j) (db_jobs w') = Some k"
proof -
  obtain b w1 where b: "build_chapter_audio dp ev j c cs hash w = (b, w1)" by fastforce
  obtain k1 where k1: "find_job (jb_id j) (db_jobs w1) = Some k1" using build_chapter_job [OF b assms(2)] by blast
  show ?thesis
  proof (cases b)
    case (Inl e)
    then show ?thesis using assms(1) b k1 by (simp add: assemble_and_persist_def seqE_def)
  next
    case (Inr u)
    then have "maybe_trigger_audiobook_fan_in dp ev j w1 = (r, w')" using assms(1) b by (simp add: assemble_and_persist_def seqE_def)
    then show ?thesis using fan_in_keeps_job k1 by blast
  qed
qed

text \<open>On the last attempt a throw behind the mark leaves the job \<open>FAILED\<close>, whatever was committed.\<close>

lemma run_assembly_final:
  assumes "run_assembly dp ev j c cs hash w = (Inl e, w')" "final_assembly_attempt ev" "audio_tables w' \<noteq> audio_tables w"
  shows "\<exists>k. find_job (jb_id j) (db_jobs w') = Some k \<and> jb_status k = FAILED"
proof -
  let ?start = "seqE (mark_running ev ''ASSEMBLING'' j) (\<lambda>_. add_outbox ev 0 (assembly_started_draft j c (length cs) hash))"
  obtain x w1 where x: "with_transaction ?start w = (x, w1)" by fastforce
  have keep: "preserves (\<lambda>v. audio_tables v = audio_tables w) (with_transaction ?start)" by (intro preserves_intros)
  have w1: "audio_tables w1 = audio_tables w" using preserves_run [OF keep x] by simp
  have "\<exists>u. x = Inr u"
  proof (cases x)
    case (Inl e')
    have "run_assembly dp ev j c cs hash w = (Inl e', w1)" unfolding run_assembly_def by (rule seqE_simps(1)) (use x Inl in simp)
    then show ?thesis using assms(1,3) w1 by simp
  qed simp
  then obtain u where u: "x = Inr u" by blast
  have "?start w = (Inr u, w1)" by (rule with_transaction_Inr) (use x u in simp)
  then obtain v v1 where "mark_running ev ''ASSEMBLING'' j w = (Inr v, v1)" "db_jobs w1 = db_jobs v1"
    by (auto simp: seqE_Inr add_outbox_def)
  then obtain k1 where k1: "find_job (jb_id j) (db_jobs w1) = Some k1"
    using mark_running_job [of ev "''ASSEMBLING''" j w "Inr v" v1] by auto
  obtain y w2 where y: "assemble_and_persist dp ev j c cs hash w1 = (y, w2)" by fastforce
  obtain k2 where k2: "find_job (jb_id j) (db_jobs w2) = Some k2" using assemble_and_persist_job [OF y k1] by blast
  obtain err where err: "y = Inl err" using assms(1) x u y by (cases y) (auto simp: run_assembly_def seqE_def)
  obtain h w3 where h: "handle_chapter_assembly_failure dp ev j err w2 = (h, w3)" by fastforce
  have w': "w' = w3" using assms(1) x u y err h by (cases h) (auto simp: run_assembly_def seqE_def)
  obtain cc cls m draft where "record_assembly_failure ev [FAILED] j cc cls m (returnE ()) draft w2 = (h, w3)"
    using h assms(2) by (auto simp: handle_chapter_assembly_failure_def)
  from failure_recorded [OF this k2] show ?thesis unfolding w' by fastforce
qed

lemma assemble_chapter_new:
  assumes "assemble_chapter dp ev j c w = (r, w')" "audio_tables w' \<noteq> audio_tables w"
  shows "\<exists>cs hash. run_assembly dp ev j c cs hash w = (r, w')"
proof -
  have "(\<exists>cs hash. run_assembly dp ev j c cs hash w = (r, w')) \<or> (\<exists>x. no_op_assembly dp ev j x w = (r, w'))
      \<or> (\<exists>m s. handle_chapter_manifest_incomplete ev j m s w = (r, w')) \<or> (\<exists>vs. handle_director_version_mixing ev j vs w = (r, w'))"
    using assms(1) unfolding assemble_chapter_def Let_def by (auto split: if_splits option.splits)
  then show ?thesis
  proof (elim disjE exE)
    fix x assume "no_op_assembly dp ev j x w = (r, w')"
    then have "audio_tables w' = audio_tables w" by (rule tables_run [OF tables.frame_manifest_failures(6)])
    then show ?thesis using assms(2) by simp
  next
    fix m s assume "handle_chapter_manifest_incomplete ev j m s w = (r, w')"
    then have "audio_tables w' = audio_tables w" by (rule tables_run [OF tables.frame_manifest_failures(2)])
    then show ?thesis using assms(2) by simp
  next
    fix vs assume "handle_director_version_mixing ev j vs w = (r, w')"
    then have "audio_tables w' = audio_tables w" by (rule tables_run [OF tables.frame_manifest_failures(3)])
    then show ?thesis using assms(2) by simp
  qed blast
qed

lemma new_audio_assembled:
  assumes "process_assemble_chapter_job dp ev envelope w = (r, w')"
    and "a \<in> set (aw_chapter_audios w')" "a \<notin> set (aw_chapter_audios w)" "ca_current a"
  shows "ca_status a = CaAssembled"
  using assms(1)
proof (cases rule: chapter_job_cases)
  case kept
  then show ?thesis using assms by (simp add: audio_tables_def)
next
  case (added j c a0 ms)
  have "aw_chapter_audios w' = update_where (\<lambda>b. ca_chapter_id b = ca_chapter_id a0 \<and> ca_current b)
      (supersede_audio (ye_now ev)) (aw_chapter_audios w) @ [a0]"
    using added(2) by (simp add: chapter_written_def audio_tables_def)
  then have "a = a0" using assms(2-4) by (auto simp: update_where_def split: if_splits)
  then show ?thesis using added(1) by (auto simp: built_chapter_def)
qed

text \<open>
  C24: on the last attempt, when the fan-in throws after the chapter audio was committed, the job that the
  commit had set to \<open>SUCCEEDED\<close> is overwritten as \<open>FAILED\<close> although its chapter audio is current and
  assembled.  The witness is the everyday case: the version was assembled once before, the finished fan-in
  job still holds the idempotency key, and the second fan-in is refused.
\<close>

theorem fan_in_failure_overwrites_success:
  assumes run: "process_assemble_chapter_job dp ev envelope w = (Inl e, w')" and i: "str_field envelope ''entity_id'' = Some i"
    and final: "final_assembly_attempt ev"
    and a: "a \<in> set (aw_chapter_audios w')" "a \<notin> set (aw_chapter_audios w)" "ca_current a"
  shows "ca_status a = CaAssembled \<and> (\<exists>k. find_job i (db_jobs w') = Some k \<and> jb_status k = FAILED)"
proof -
  have changed: "audio_tables w' \<noteq> audio_tables w" using a by (auto simp: audio_tables_def)
  have "w' = w \<or> (\<exists>j c. jb_id j = i \<and> assemble_chapter dp ev j c w = (Inl e, w'))"
    using run i by (auto simp: process_assemble_chapter_job_def Let_def split: if_splits option.splits dest!: find_job_Some)
  then obtain j c where j: "jb_id j = i" and "assemble_chapter dp ev j c w = (Inl e, w')" using changed by auto
  then obtain cs hash where "run_assembly dp ev j c cs hash w = (Inl e, w')" using assemble_chapter_new changed by blast
  then show ?thesis using run_assembly_final [OF _ final changed] new_audio_assembled [OF run a] j by blast
qed

text \<open>The everyday case, on the samples.\<close>

locale chapter_frame = job_frame +
  assumes unread: "J (aw_chapter_audios_update m w) = J w" "J (aw_members_update n w) = J w"
begin

lemma frame_build: "preserves J (build_chapter_audio dp ev j c cs hash)"
proof -
  have "preserves J (doE (aw_chapter_audios_update f))" "preserves J (on_chapter_audios g)" "preserves J (on_members h)" for f g h
    by (auto simp: preserves_def on_table_def unread split: sum.splits)
  then show ?thesis
    unfolding build_chapter_audio_def persist_chapter_audio_def
    by (intro preserves_intros frame_steps) (auto simp: preserves_def unread)
qed

end

interpretation library: chapter_frame "\<lambda>w. iw_books w = B \<and> iw_chapters w = C" for B C
  by unfold_locales simp_all

definition old_fan_in :: job where
  "old_fan_in = (sample_job ''j0'' ''t1'' SUCCEEDED)\<lparr> jb_type := ''assemble_audiobook'', jb_idem_key := ''assemble_audiobook:v1'' \<rparr>"

lemma fan_in_failure_overwrites_success_witness:
  "\<exists>w' k. process_assemble_chapter_job (sample_store_deps sample_tool) (sample_attempt 2) chapter_command
      (sample_audio_world [chapter_job ''AUDIOBOOK'', old_fan_in] two_chunks) = (Inl unique_violation, w')
     \<and> find_job ''j1'' (db_jobs w') = Some k \<and> jb_status k = FAILED"
proof -
  let ?j = "chapter_job ''AUDIOBOOK''" and ?dp = "sample_store_deps sample_tool" and ?ev = "sample_attempt 2"
  let ?w = "sample_audio_world [?j, old_fan_in] two_chunks" and ?cs = "ordered_chunks ''c1'' (sample_audio_world [] two_chunks)"
  have old: "jb_id old_fan_in = ''j0''" by (simp add: old_fan_in_def sample_job_def)
  obtain w1 where w1: "with_transaction (seqE (mark_running ?ev ''ASSEMBLING'' ?j) (\<lambda>_. add_outbox ?ev 0
      (assembly_started_draft ?j ''c1'' (length ?cs) sample_hash))) ?w = (Inr (), w1)"
    "aw_chapter_audios w1 = []" "aw_members w1 = []" "iw_store w1 = ()" "find_job ''j1'' (db_jobs w1) \<noteq> None"
    "iw_books w1 = [sample_book\<lparr> bk_current_version := Some ''v1'' \<rparr>]" "iw_chapters w1 = [sample_chapter]"
    "db_jobs w1 = update_where (\<lambda>k. jb_id k = ''j1'') (running_patch (ye_now ?ev) ''ASSEMBLING'' ?j) [?j, old_fan_in]"
    using sample_marked [where jobs = "[old_fan_in]" and ev = ?ev and scope = "''AUDIOBOOK''"
        and draft = "assembly_started_draft ?j ''c1'' (length ?cs) sample_hash"] old by auto
  obtain w2 where w2: "build_chapter_audio ?dp ?ev ?j ''c1'' ?cs sample_hash w1 = (Inr (), w2)"
    using sample_build [OF w1(2-5)] by blast
  have lib: "iw_books w2 = iw_books w1 \<and> iw_chapters w2 = iw_chapters w1"
    using preserves_run [OF library.frame_build w2] by blast
  from w2 obtain a where a: "aw_chapter_audios w2 = [a]" "ca_current a" "ca_status a = CaAssembled" "ca_chapter_id a = ''c1''"
    and jobs: "db_jobs w2 = update_where (\<lambda>k. jb_id k = ''j1'') (assembled_patch (ye_now ?ev) (Some ''DONE'') ''chapter_audio'' (ca_id a) (ca_version a)) (db_jobs w1)"
  proof (cases rule: build_chapter_cases)
    case (built a ms)
    have "aw_chapter_audios w2 = [a]" using built(3) w1(2) by (simp add: chapter_written_def audio_tables_def)
    then show thesis using built(2,4) that [of a] by (auto simp: built_chapter_def)
  qed simp
  have due: "fan_in_due ?j w2 = Some (''v1'', [''M4B''])"
  proof -
    have "check_audiobook_readiness ''b1'' w2 = (True, Some ''v1'')"
      using lib w1 a by (simp add: check_audiobook_readiness_def sample_book_def sample_chapter_def count_rows_def assembled_chapter_def)
    moreover have "find_row (\<lambda>k. jb_book_id k = Some ''b1'' \<and> jb_type k = ''assemble_audiobook'' \<and> jb_status k \<in> set IN_FLIGHT) (db_jobs w2) = None"
      unfolding jobs w1(8) by (simp add: old IN_FLIGHT_def assembled_patch_def running_patch_def touch_def set_completed_def set_status_def
        chapter_job_def old_fan_in_def sample_job_def)
    ultimately show ?thesis
      by (simp add: fan_in_due_def truthy_def read_job_scope_def str_field_def array_field_def string_items_def)
  qed
  have "create_row job_clash (fan_in_job ?ev ?j ''v1'' [''M4B'']) (db_jobs w2) = Inl unique_violation"
    unfolding jobs w1(8) create_row_def
    by (simp add: old job_clash_def live_key_def fan_in_job_def audio_job_def fresh_job_def old_fan_in_def sample_job_def)
  then have fan_in: "maybe_trigger_audiobook_fan_in ?dp ?ev ?j w2 = (Inl unique_violation, w2)"
    using due by (simp add: maybe_trigger_audiobook_fan_in_def seqE_readE Let_def)
  obtain k where k: "find_job (jb_id ?j) (db_jobs w2) = Some k" unfolding jobs w1(8) by simp
  obtain h w3 where h: "handle_chapter_assembly_failure ?dp ?ev ?j unique_violation w2 = (h, w3)" by fastforce
  then have "h = Inr ()"
    using failure_returns [OF k] by (auto simp: handle_chapter_assembly_failure_def split: if_splits)
  moreover have "assemble_and_persist ?dp ?ev ?j ''c1'' ?cs sample_hash w1 = (Inl unique_violation, w2)"
    using w2 fan_in by (simp add: assemble_and_persist_def seqE_def)
  ultimately have "run_assembly ?dp ?ev ?j ''c1'' ?cs sample_hash ?w = (Inl unique_violation, w3)"
    using w1(1) h by (simp add: run_assembly_def seqE_def)
  then have run: "process_assemble_chapter_job ?dp ?ev chapter_command ?w = (Inl unique_violation, w3)"
    using sample_chapter_call [where w = ?w and scope = "''AUDIOBOOK''" and jobs = "[old_fan_in]" and audios = "[]"] by simp
  have "audio_tables w3 = audio_tables w2" by (rule tables_run [OF tables.frame_manifest_failures(1) h])
  then have "a \<in> set (aw_chapter_audios w3)" using a(1) by (simp add: audio_tables_def)
  moreover have "final_assembly_attempt ?ev" by (simp add: final_assembly_attempt_def sample_attempt_def)
  ultimately show ?thesis using fan_in_failure_overwrites_success [OF run chapter_command_sel(1) _ _ _ a(2)] run by simp
qed

subsection \<open>A reverted chapter keeps stale audio\<close>

lemma no_op_job:
  assumes "no_op_assembly dp ev j existing w = (r, w')" "find_job (jb_id j) (db_jobs w) = Some k"
  shows "\<exists>k. find_job (jb_id j) (db_jobs w') = Some k \<and> jb_status k = SUCCEEDED \<and> jr_id (jb_result k) = Some (ca_id existing)"
proof -
  let ?f = "assembled_patch (ye_now ev) None ''chapter_audio'' (ca_id existing) (ca_version existing)"
  let ?w1 = "w\<lparr> db_jobs := update_where (\<lambda>x. jb_id x = jb_id j) ?f (db_jobs w) \<rparr>"
  have "with_transaction (update_own_job (jb_id j) ?f) w = (Inr (), ?w1)"
    by (simp add: with_transaction_def update_own_job_def on_table_def update_job_total [OF assms(2)])
  then have "maybe_trigger_audiobook_fan_in dp ev j ?w1 = (r, w')" using assms(1) by (simp add: no_op_assembly_def seqE_def)
  moreover have "find_job (jb_id j) (db_jobs ?w1) = Some (?f k)" using assms(2) by (simp add: find_job_update)
  ultimately have "find_job (jb_id j) (db_jobs w') = Some (?f k)" by (rule fan_in_keeps_job)
  moreover have "jr_id (jb_result (?f k)) = Some (ca_id existing)"
    by (simp add: assembled_patch_def touch_def set_completed_def set_status_def)
  ultimately show ?thesis by simp
qed

text \<open>
  C27: when the audio of a chapter changes and then changes back, the chapter keeps the audio of the
  change.  The processor looks for any chapter audio with the hash of the present chunks, current or not; it
  finds the superseded one, ends the job as \<open>SUCCEEDED\<close> with it, and writes nothing, so the current
  chapter audio still is of other chunks.
\<close>

theorem reverted_chapter_keeps_stale_audio:
  assumes run: "process_assemble_chapter_job dp ev envelope w = (r, w')" and i: "str_field envelope ''entity_id'' = Some i" "i \<noteq> []"
    and j: "find_job i (db_jobs w) = Some j" "jb_status j \<noteq> SUCCEEDED" "jb_status j \<noteq> FAILED" "truthy (jb_book_id j)"
    and c: "sub_field envelope ''payload'' ''chapter_id'' = Some c" "find_row (\<lambda>x. cr_id x = c) (iw_chapters w) \<noteq> None"
  defines "cs \<equiv> ordered_chunks c w"
  defines "hash \<equiv> compute_manifest_hash (ad_sha256 dp) (chunk_manifest cs)"
  assumes ok: "cs \<noteq> []" "\<forall>p \<in> set cs. rendered_chunk p" "length (js_set (map (\<lambda>p. sc_director_version (fst p)) cs)) \<le> 1"
    and old: "find_row (same_manifest c hash) (aw_chapter_audios w) = Some existing"
    and stale: "\<forall>b \<in> set (aw_chapter_audios w). ca_chapter_id b = c \<and> ca_current b \<longrightarrow> ca_manifest_hash b \<noteq> hash"
  shows "aw_chapter_audios w' = aw_chapter_audios w \<and> (\<forall>b \<in> set (aw_chapter_audios w'). ca_chapter_id b = c \<and> ca_current b \<longrightarrow> ca_manifest_hash b \<noteq> hash)
    \<and> (\<exists>k. find_job i (db_jobs w') = Some k \<and> jb_status k = SUCCEEDED \<and> jr_id (jb_result k) = Some (ca_id existing))"
proof -
  have jid: "jb_id j = i" using find_job_Some [OF j(1)] by simp
  have none: "filter (\<lambda>p. \<not> rendered_chunk p) (ordered_chunks c w) = []" using ok(2) by (auto simp: filter_empty_conv cs_def)
  obtain row where row: "find_row (\<lambda>x. cr_id x = c) (iw_chapters w) = Some row" "cr_id row = c"
    using c(2) by (auto dest: find_row_Some)
  have "process_assemble_chapter_job dp ev envelope w = assemble_chapter dp ev j c w"
    unfolding process_assemble_chapter_job_def using i j c(1) row by (simp add: truthy_def)
  also have "\<dots> = no_op_assembly dp ev j existing w"
    unfolding assemble_chapter_def Let_def none using ok old by (simp add: cs_def hash_def)
  finally have op: "no_op_assembly dp ev j existing w = (r, w')" using run by simp
  have "audio_tables w' = audio_tables w" by (rule tables_run [OF tables.frame_manifest_failures(6) op])
  then have "aw_chapter_audios w' = aw_chapter_audios w" by (simp add: audio_tables_def)
  then show ?thesis using no_op_job [OF op, of j] j(1) jid stale by simp
qed

lemma reverted_chapter_keeps_stale_audio_witness:
  "\<exists>r w'. process_assemble_chapter_job (sample_store_deps silent_tool) (sample_attempt 0) chapter_command
      ((sample_audio_world [chapter_job ''CHAPTER''] two_chunks)\<lparr> aw_chapter_audios :=
         [sample_chapter_audio ''old'' 1 False sample_hash, sample_chapter_audio ''new'' 2 True ''other''] \<rparr>) = (r, w')
    \<and> map ca_current (aw_chapter_audios w') = [False, True]"
proof -
  let ?audios = "[sample_chapter_audio ''old'' 1 False sample_hash, sample_chapter_audio ''new'' 2 True ''other'']"
  let ?w = "(sample_audio_world [chapter_job ''CHAPTER''] two_chunks)\<lparr> aw_chapter_audios := ?audios \<rparr>"
  let ?dp = "sample_store_deps silent_tool"
  obtain r w' where run: "process_assemble_chapter_job ?dp (sample_attempt 0) chapter_command ?w = (r, w')" by fastforce
  have chunks: "ordered_chunks ''c1'' ?w = ordered_chunks ''c1'' (sample_audio_world [] two_chunks)"
    by (simp add: ordered_chunks_def sample_audio_world_def)
  have hash: "compute_manifest_hash (ad_sha256 ?dp) (chunk_manifest (ordered_chunks ''c1'' ?w)) = sample_hash"
    unfolding chunks by (simp only: sample_hash_def) (simp add: sample_store_deps_def)
  have other: "sample_hash \<noteq> ''other''"
    by (simp add: sample_hash_def compute_manifest_hash_def sample_store_deps_def)
  have sel: "ca_current (sample_chapter_audio i n cur h) = cur" "ca_manifest_hash (sample_chapter_audio i n cur h) = h"
    "ca_chapter_id (sample_chapter_audio i n cur h) = ''c1''" "ca_preview (sample_chapter_audio i n cur h) = False" for i n cur h
    by (simp_all add: sample_chapter_audio_def)
  have "aw_chapter_audios w' = aw_chapter_audios ?w"
    using reverted_chapter_keeps_stale_audio [where c = "''c1''" and i = "''j1''" and j = "chapter_job ''CHAPTER''"
        and existing = "sample_chapter_audio ''old'' 1 False sample_hash", OF run]
    unfolding hash unfolding chunks sample_chunks
    using other by (simp add: sel same_manifest_def truthy_def)
      (simp add: sample_chapter_def sample_script_def sample_audio_chunk_def rendered_chunk_def js_set_def)
  then show ?thesis using run by (auto simp: sel)
qed

end
