(* ===== verification/AssemblyServiceProperties.thy ===== *)
theory AssemblyServiceProperties
  imports AudioSamples
begin

text \<open>
  A property of the assembly service: what an accepted start of an assembly plans and creates.
\<close>

subsection \<open>Starting an assembly\<close>

definition job_key :: "job \<Rightarrow> string \<times> string \<times> string" where
  "job_key j = (jb_type j, jb_related_id j, jb_idem_key j)"

lemma create_jobs_Inr: "create_jobs js w = (Inr u, w') \<Longrightarrow> db_jobs w' = db_jobs w @ js"
proof (induction js arbitrary: w)
  case (Cons j js)
  then obtain t where t: "create_row job_clash j (db_jobs w) = Inr t" "create_jobs js (w\<lparr> db_jobs := t \<rparr>) = (Inr u, w')"
    by (auto simp: seqE_Inr elim!: on_table_cases)
  show ?case using Cons.IH [OF t(2)] create_row_Inr [OF t(1)] by simp
qed simp

lemma dispatch_keys: "dispatch_audio bq now args w = (r, w') \<Longrightarrow> map job_key (db_jobs w') = map job_key (db_jobs w)"
proof -
  have keys: "map job_key (update_where P (touch now \<circ> set_queued now) jobs) = map job_key jobs" for P jobs
    by (induction jobs) (simp_all add: job_key_def touch_def set_queued_def)
  assume "dispatch_audio bq now args w = (r, w')"
  then show ?thesis
    by (auto simp: dispatch_audio_def enqueue_processing_job_def update_job_Inr keys split: prod.splits sum.splits)
qed

lemma dispatch_keys_snd [simp]: "map job_key (db_jobs (snd (dispatch_audio bq now args w))) = map job_key (db_jobs w)"
  by (metis dispatch_keys prod.collapse)

lemma enumerate_none [simp]: "enumerate n xs = [] \<longleftrightarrow> xs = []"
  by (cases xs) simp_all

lemma dispatch_all_keys: "map job_key (db_jobs (snd (dispatch_all bq now js w))) = map job_key (db_jobs w)"
  by (induction js arbitrary: w) (auto split: prod.splits sum.splits dest: dispatch_keys simp: prod_eq_iff)

lemma create_chapter_jobs_keys:
  assumes "create_chapter_jobs dp ev book_id js w = (Inr u, w')"
  shows "map job_key (db_jobs w') = map job_key (db_jobs w) @ map job_key js"
proof (cases "js = []")
  case False
  let ?f = "\<lambda>b. b\<lparr> bk_status := BAssembling, bk_status_changed := be_now ev, bk_updated := be_now ev \<rparr>"
  have "seqE (with_transaction (seqE (create_jobs js) (\<lambda>_. aw_books (update_book book_id ?f)))) (\<lambda>_.
     dispatch_all (bd_broker dp) (be_now ev) js) w = (Inr u, w')"
    using assms False by (simp add: create_chapter_jobs_def)
  then obtain v w1 where tx: "with_transaction (seqE (create_jobs js) (\<lambda>_. aw_books (update_book book_id ?f))) w = (Inr v, w1)"
    and d: "dispatch_all (bd_broker dp) (be_now ev) js w1 = (Inr u, w')" by (auto simp: seqE_Inr)
  have "seqE (create_jobs js) (\<lambda>_. aw_books (update_book book_id ?f)) w = (Inr v, w1)" by (rule with_transaction_Inr [OF tx])
  then obtain v' w0 where "create_jobs js w = (Inr v', w0)" "db_jobs w1 = db_jobs w0" by (auto simp: seqE_Inr elim!: on_table_cases)
  then show ?thesis using create_jobs_Inr dispatch_all_keys [of "bd_broker dp" "be_now ev" js w1] d by fastforce
qed (use assms in \<open>simp add: create_chapter_jobs_def\<close>)

lemma audiobook_job_keys:
  assumes "maybe_enqueue_assemble_audiobook dp ev who pl force w = (Inr x, w')"
  shows "\<exists>ks. map job_key (db_jobs w') = map job_key (db_jobs w) @ ks \<and> length ks = (if x = None then 0 else 1)
    \<and> (\<forall>k \<in> set ks. fst k = ''assemble_audiobook'')"
proof -
  let ?j = "assemble_audiobook_job ev who (pl_book pl) (book_manifest_hash (bd_sha256 dp) (map the (ordered_audios (pl_candidates pl) w)))
    (pl_formats pl) (pl_priority pl) force"
  consider "x = None" "w' = w" | t where "x = Some (jb_id ?j)" "create_row job_clash ?j (db_jobs w) = Inr t"
      "\<exists>r. dispatch_audio (bd_broker dp) (be_now ev) (audio_dispatch ?j) (w\<lparr> db_jobs := t \<rparr>) = (r, w')"
    using assms by (auto simp: maybe_enqueue_assemble_audiobook_def Let_def seqE_Inr split: if_splits elim!: on_table_cases)
  then show ?thesis
  proof cases
    case 2
    have "t = db_jobs w @ [?j]" using create_row_Inr [OF 2(2)] by simp
    then have "map job_key (db_jobs w') = map job_key (db_jobs w) @ [job_key ?j]"
      using 2(3) dispatch_keys by fastforce
    moreover have "fst (job_key ?j) = ''assemble_audiobook''"
      by (simp add: job_key_def assemble_audiobook_job_def service_job_def fresh_job_def Let_def)
    ultimately show ?thesis using 2(1) by auto
  qed simp
qed

lemma start_keys:
  assumes "start_assembly dp ev who book_id body w = (Inr acc, w')"
  obtains pl ks where "plan_assembly dp who book_id body w = Inr pl" "ay_chapter_ids acc = map fst (pl_assemble pl)"
    "ay_skipped acc = pl_skipped pl" "ay_blocking acc = pl_blocking pl"
    "map job_key (db_jobs w') = map job_key (db_jobs w)
      @ map job_key (map (assemble_chapter_job ev who book_id body pl) (enumerate 0 (pl_assemble pl))) @ ks"
    "length ks = (if ay_audiobook_job acc = None then 0 else 1)" "\<forall>k \<in> set ks. fst k = ''assemble_audiobook''"
    "ay_audiobook_job acc \<noteq> None \<longrightarrow> pl_assemble pl = [] \<and> pl_blocking pl = []"
proof -
  from assms obtain pl u w1 x where pl: "plan_assembly dp who book_id body w = Inr pl"
    and jobs: "create_chapter_jobs dp ev book_id (map (assemble_chapter_job ev who book_id body pl) (enumerate 0 (pl_assemble pl))) w
      = (Inr u, w1)"
    and book: "(if sa_scope body = AudiobookScope \<and> pl_assemble pl = [] \<and> pl_blocking pl = []
      then maybe_enqueue_assemble_audiobook dp ev who pl (sa_force body) else returnE None) w1 = (Inr x, w')"
    and acc: "ay_chapter_ids acc = map fst (pl_assemble pl)" "ay_skipped acc = pl_skipped pl"
      "ay_blocking acc = pl_blocking pl" "ay_audiobook_job acc = x"
    by (auto simp: start_assembly_def seqE_Inr Let_def)
  note first = create_chapter_jobs_keys [OF jobs]
  show ?thesis
  proof (cases "sa_scope body = AudiobookScope \<and> pl_assemble pl = [] \<and> pl_blocking pl = []")
    case True
    then have "maybe_enqueue_assemble_audiobook dp ev who pl (sa_force body) w1 = (Inr x, w')" using book by simp
    from audiobook_job_keys [OF this] obtain ks where "map job_key (db_jobs w') = map job_key (db_jobs w1) @ ks"
      "length ks = (if x = None then 0 else 1)" "\<forall>k \<in> set ks. fst k = ''assemble_audiobook''" by blast
    with True show ?thesis using that [OF pl acc(1-3), of ks] first acc(4) by simp
  next
    case False
    then have "returnE None w1 = (Inr x, w')" using book by (simp only: if_not_P if_False)
    then have "x = None" "w' = w1" by simp_all
    then show ?thesis using that [OF pl acc(1-3), of "[]"] first acc(4) by simp
  qed
qed

lemma chapter_job_keys:
  "map job_key (map (assemble_chapter_job ev who book_id body pl) (enumerate n xs))
    = map (\<lambda>(i, h). (''assemble_chapter'', i, ''assemble_chapter:'' @ i @ '':'' @ h)) xs"
  by (induction xs arbitrary: n)
    (auto simp: job_key_def assemble_chapter_job_def service_job_def fresh_job_def split: prod.splits)

lemma partition_three:
  "mset (filter (\<lambda>x. \<not> q x) (filter p xs) @ filter q (filter p xs) @ filter (\<lambda>x. \<not> p x) xs) = mset xs"
  by (induction xs) (auto simp del: mset_filter filter_filter)

definition chunk_hash :: "(bytes \<Rightarrow> string) \<Rightarrow> ordered_chunk list \<Rightarrow> string \<Rightarrow> string" where
  "chunk_hash sha cs i = compute_manifest_hash sha (chunk_manifest (chunks_of_chapter i cs))"

lemma plan_partitions:
  assumes "plan_assembly dp who book_id body w = Inr pl"
  obtains b chapters where "require_owned_book who book_id w = Inr b" "resolve_target_chapters book_id b body w = Inr chapters"
    "chapters \<noteq> []" "mset (map fst (pl_assemble pl) @ pl_skipped pl @ pl_blocking pl) = mset (map cr_id chapters)"
    "\<forall>i \<in> set (map fst (pl_assemble pl) @ pl_skipped pl). chapter_complete i (target_chunks (map cr_id chapters) w)"
    "\<forall>i \<in> set (pl_blocking pl). \<not> chapter_complete i (target_chunks (map cr_id chapters) w)"
    "pl_blocking pl \<noteq> [] \<longrightarrow> sa_partial body" "sa_force body \<longrightarrow> pl_skipped pl = []"
    "pl_assemble pl = map (\<lambda>i. (i, chunk_hash (bd_sha256 dp) (target_chunks (map cr_id chapters) w) i)) (map fst (pl_assemble pl))"
proof -
  from assms obtain b chapters where owned: "require_owned_book who book_id w = Inr b" "resolve_target_chapters book_id b body w = Inr chapters"
    "chapters \<noteq> []" by (auto simp: plan_assembly_def bindE_eq_Inr split: if_splits)
  define ids where "ids = map cr_id chapters"
  define cs where "cs = target_chunks ids w"
  define skip where "skip = (\<lambda>i. up_to_date (bd_sha256 dp) cs (aw_chapter_audios w) i \<and> \<not> sa_force body)"
  have scope: "check_scope b body cs (filter (\<lambda>i. chapter_complete i cs) ids) (filter (\<lambda>i. \<not> chapter_complete i cs) ids) = Inr ()"
    and parts: "pl_assemble pl = map (\<lambda>i. (i, chunk_hash (bd_sha256 dp) cs i)) (filter (\<lambda>i. \<not> skip i) (filter (\<lambda>i. chapter_complete i cs) ids))"
      "pl_skipped pl = filter skip (filter (\<lambda>i. chapter_complete i cs) ids)" "pl_blocking pl = filter (\<lambda>i. \<not> chapter_complete i cs) ids"
    using assms owned by (auto simp: plan_assembly_def bindE_eq_Inr Let_def ids_def cs_def skip_def chunk_hash_def)
  have fst: "map fst (pl_assemble pl) = filter (\<lambda>i. \<not> skip i) (filter (\<lambda>i. chapter_complete i cs) ids)"
    unfolding parts by (simp add: comp_def)
  show ?thesis
  proof (rule that [OF owned])
    show "mset (map fst (pl_assemble pl) @ pl_skipped pl @ pl_blocking pl) = mset (map cr_id chapters)"
      using partition_three [of skip "\<lambda>i. chapter_complete i cs" ids] unfolding fst parts(2,3) ids_def [symmetric] .
    show "pl_blocking pl \<noteq> [] \<longrightarrow> sa_partial body"
      using scope by (auto simp: check_scope_def Let_def parts(3) split: if_splits)
    show "pl_assemble pl = map (\<lambda>i. (i, chunk_hash (bd_sha256 dp) (target_chunks (map cr_id chapters) w) i)) (map fst (pl_assemble pl))"
      unfolding fst by (simp add: parts(1) cs_def ids_def)
  qed (auto simp: fst parts cs_def ids_def skip_def)
qed

text \<open>
  C15: When a start of an assembly is accepted, the chapters it assembles, the ones it skips and the ones it reports as
  blocking are together the chapters of the requested scope, each once.  Exactly the chapters whose chunks are not all
  rendered block, and only a partial request may have some; a forced request skips none.  The jobs created are one
  \<open>assemble_chapter\<close> job for each chapter assembled, keyed by the manifest of its chunks, and one
  \<open>assemble_audiobook\<close> job when its identifier is returned, which needs that nothing is left to
  assemble and nothing blocks.
\<close>

theorem assembly_start_plans:
  assumes "start_assembly dp ev who book_id body w = (Inr acc, w')"
  shows "\<exists>b chapters ks. require_owned_book who book_id w = Inr b \<and> resolve_target_chapters book_id b body w = Inr chapters
    \<and> chapters \<noteq> [] \<and> mset (ay_chapter_ids acc @ ay_skipped acc @ ay_blocking acc) = mset (map cr_id chapters)
    \<and> (\<forall>i \<in> set (ay_chapter_ids acc @ ay_skipped acc). chapter_complete i (target_chunks (map cr_id chapters) w))
    \<and> (\<forall>i \<in> set (ay_blocking acc). \<not> chapter_complete i (target_chunks (map cr_id chapters) w))
    \<and> (ay_blocking acc \<noteq> [] \<longrightarrow> sa_partial body) \<and> (sa_force body \<longrightarrow> ay_skipped acc = [])
    \<and> map job_key (db_jobs w') = map job_key (db_jobs w)
        @ map (\<lambda>i. (''assemble_chapter'', i, ''assemble_chapter:'' @ i @ '':''
            @ chunk_hash (bd_sha256 dp) (target_chunks (map cr_id chapters) w) i)) (ay_chapter_ids acc) @ ks
    \<and> length ks = (if ay_audiobook_job acc = None then 0 else 1) \<and> (\<forall>k \<in> set ks. fst k = ''assemble_audiobook'')
    \<and> (ay_audiobook_job acc \<noteq> None \<longrightarrow> ay_chapter_ids acc = [] \<and> ay_blocking acc = [])"
proof -
  obtain pl ks where pl: "plan_assembly dp who book_id body w = Inr pl"
    and acc: "ay_chapter_ids acc = map fst (pl_assemble pl)" "ay_skipped acc = pl_skipped pl" "ay_blocking acc = pl_blocking pl"
    and jobs: "map job_key (db_jobs w') = map job_key (db_jobs w)
      @ map job_key (map (assemble_chapter_job ev who book_id body pl) (enumerate 0 (pl_assemble pl))) @ ks"
    and more: "length ks = (if ay_audiobook_job acc = None then 0 else 1)" "\<forall>k \<in> set ks. fst k = ''assemble_audiobook''"
      "ay_audiobook_job acc \<noteq> None \<longrightarrow> pl_assemble pl = [] \<and> pl_blocking pl = []"
    using start_keys [OF assms] by metis
  from pl obtain b chapters where p: "require_owned_book who book_id w = Inr b" "resolve_target_chapters book_id b body w = Inr chapters"
    "chapters \<noteq> []" "mset (map fst (pl_assemble pl) @ pl_skipped pl @ pl_blocking pl) = mset (map cr_id chapters)"
    "\<forall>i \<in> set (map fst (pl_assemble pl) @ pl_skipped pl). chapter_complete i (target_chunks (map cr_id chapters) w)"
    "\<forall>i \<in> set (pl_blocking pl). \<not> chapter_complete i (target_chunks (map cr_id chapters) w)"
    "pl_blocking pl \<noteq> [] \<longrightarrow> sa_partial body" "sa_force body \<longrightarrow> pl_skipped pl = []"
    and hashes: "pl_assemble pl = map (\<lambda>i. (i, chunk_hash (bd_sha256 dp) (target_chunks (map cr_id chapters) w) i)) (map fst (pl_assemble pl))"
    by (rule plan_partitions)
  let ?h = "chunk_hash (bd_sha256 dp) (target_chunks (map cr_id chapters) w)"
  have "map (\<lambda>(i, h). (''assemble_chapter'', i, ''assemble_chapter:'' @ i @ '':'' @ h)) (pl_assemble pl)
      = map (\<lambda>i. (''assemble_chapter'', i, ''assemble_chapter:'' @ i @ '':'' @ ?h i)) (map fst (pl_assemble pl))"
    by (subst hashes) simp
  then have "map job_key (db_jobs w') = map job_key (db_jobs w)
      @ map (\<lambda>i. (''assemble_chapter'', i, ''assemble_chapter:'' @ i @ '':'' @ ?h i)) (map fst (pl_assemble pl)) @ ks"
    using jobs unfolding chapter_job_keys by simp
  with p more show ?thesis
    unfolding acc by (intro exI [of _ b] exI [of _ chapters] exI [of _ ks] conjI) (assumption | simp)+
qed

definition start_deps :: "(unit, unit, unit) books_deps" where
  "start_deps = \<lparr> bd_sha256 = (\<lambda>_. ''h''), bd_file_type = (\<lambda>_. None), bd_config = DEFAULT_INGESTION_CONFIG,
     bd_broker = sample_broker, bd_redis = \<lparr> redis_set_ex = (\<lambda>_ _ _ s. (Inr (), s)), redis_get = (\<lambda>_ _. Inr None),
       redis_del = (\<lambda>_ s. (Inr (), s)) \<rparr>, bd_ttl = (\<lambda>_ _. Inr 60), bd_get = (\<lambda>_ _. Inr []), bd_head = (\<lambda>_ _. Inr None),
     bd_sign = (\<lambda>_ _ _ _. Inr []) \<rparr>"

definition start_env :: books_env where
  "start_env = \<lparr> be_now = 5000, be_id = (\<lambda>_. ''i0''), be_event = (''m'', ''e''), be_usage_id = ''u'', be_usage_ok = True \<rparr>"

definition start_body :: start_assembly_body where
  "start_body = \<lparr> sa_scope = ChapterScope, sa_chapter_ids = Some [''c1''], sa_formats = None, sa_partial = False, sa_force = False,
     sa_priority = None \<rparr>"

lemma start_planned:
  "\<exists>pl. plan_assembly start_deps sample_who ''b1'' start_body (sample_audio_world [] two_chunks) = Inr pl \<and> pl_assemble pl = [(''c1'', ''h'')]
    \<and> pl_priority pl = ''NORMAL'' \<and> pl_formats pl = [''M4B'']"
proof -
  let ?w = "sample_audio_world [] two_chunks"
  have owned: "require_owned_book sample_who ''b1'' ?w = Inr (sample_book\<lparr> bk_current_version := Some ''v1'' \<rparr>)"
    by (simp add: require_owned_book_def sample_audio_world_def sample_book_def sample_who_def assert_tenant_ownership_def Let_def)
  have chapters: "resolve_target_chapters ''b1'' b start_body ?w = Inr [sample_chapter]" for b
    by (simp add: resolve_target_chapters_def start_body_def sample_audio_world_def sample_chapter_def)
  have chunks: "target_chunks [''c1''] ?w = [(sample_script ''1'' 0 ''v'', Some (sample_audio_chunk ''1'')), (sample_script ''2'' 1 ''v'', Some (sample_audio_chunk ''2''))]"
    by (simp add: target_chunks_def sample_audio_world_def two_chunks_def sample_script_def sample_audio_chunk_def find_audio_chunk_def)
  have of: "chunks_of_chapter ''c1'' (target_chunks [''c1''] ?w) = target_chunks [''c1''] ?w"
    unfolding chunks by (simp add: chunks_of_chapter_def sample_script_def)
  have ready: "chapter_complete ''c1'' (target_chunks [''c1''] ?w)"
    unfolding chapter_complete_def of unfolding chunks by (simp add: rendered_chunk_def sample_script_def sample_audio_chunk_def)
  have fresh: "\<not> up_to_date sha cs [] i" for sha cs i
    by (simp add: up_to_date_def current_audio_of_def)
  have scope: "check_scope b start_body (target_chunks [''c1''] ?w) [''c1''] [] = Inr ()" for b
    unfolding chunks by (simp add: check_scope_def start_body_def sample_script_def js_set_def)
  have id: "cr_id sample_chapter = ''c1''" by (simp add: sample_chapter_def)
  show ?thesis
    unfolding plan_assembly_def owned
    by (simp add: chapters id Let_def ready fresh scope)
      (simp add: start_deps_def start_body_def compute_manifest_hash_def DEFAULT_DELIVERY_FORMATS_def)
qed

lemma start_budget: "assert_queue_payload_size_budget (command_envelope ''i0'' ''t1'' ''i0'' (JObj [(''chapter_id'', JStr ''c1'')])) = Inr ()"
proof (rule budget_ok)
  show "2 * length (json_stringify (command_envelope ''i0'' ''t1'' ''i0'' (JObj [(''chapter_id'', JStr ''c1'')]))) \<le> QUEUE_PAYLOAD_CEILING_BYTES"
    using length_stringify_str [of "''job_id''"] length_stringify_str [of "''entity_id''"] length_stringify_str [of "''correlation_id''"]
      length_stringify_str [of "''tenant_id''"] length_stringify_str [of "''payload''"] length_stringify_str [of "''chapter_id''"]
      length_stringify_str [of "''i0''"] length_stringify_str [of "''t1''"] length_stringify_str [of "''c1''"]
    by (simp add: command_envelope_def QUEUE_PAYLOAD_CEILING_BYTES_def)
qed

lemma start_created: "\<exists>w'. create_chapter_jobs start_deps start_env ''b1''
      [assemble_chapter_job start_env sample_who ''b1'' start_body pl (0, ''c1'', ''h'')] (sample_audio_world [] two_chunks) = (Inr (), w')"
proof -
  let ?j = "assemble_chapter_job start_env sample_who ''b1'' start_body pl (0, ''c1'', ''h'')"
  have env: "the (jb_envelope ?j) = command_envelope ''i0'' ''t1'' ''i0'' (JObj [(''chapter_id'', JStr ''c1'')])" "jb_id ?j = ''i0''"
    by (simp_all add: assemble_chapter_job_def service_job_def fresh_job_def start_env_def sample_who_def)
  have ok: "assert_queue_payload_size_budget (the (jb_envelope ?j)) = Inr ()" unfolding env by (rule start_budget)
  show ?thesis
    by (simp add: create_chapter_jobs_def with_transaction_def seqE_def on_table_def create_row_def sample_audio_world_def update_book_def
      update_row_def sample_book_def dispatch_audio_def enqueue_processing_job_def audio_dispatch_def enqueue_def ok start_deps_def sample_broker_def
      update_job_def find_row_def insert_row_def)
qed

theorem assembly_start_plans_witness:
  "\<exists>acc w' b chapters ks. start_assembly start_deps start_env sample_who ''b1'' start_body (sample_audio_world [] two_chunks) = (Inr acc, w')
    \<and> resolve_target_chapters ''b1'' b start_body (sample_audio_world [] two_chunks) = Inr chapters
    \<and> mset (ay_chapter_ids acc @ ay_skipped acc @ ay_blocking acc) = mset (map cr_id chapters)
    \<and> map fst (map job_key (db_jobs w')) = map (\<lambda>i. ''assemble_chapter'') (ay_chapter_ids acc) @ ks"
proof -
  let ?w = "sample_audio_world [] two_chunks"
  from start_planned obtain pl where pl: "plan_assembly start_deps sample_who ''b1'' start_body ?w = Inr pl" "pl_assemble pl = [(''c1'', ''h'')]"
    "pl_priority pl = ''NORMAL''" "pl_formats pl = [''M4B'']" by blast
  have created: "\<exists>w'. create_chapter_jobs start_deps start_env ''b1''
      [assemble_chapter_job start_env sample_who ''b1'' start_body pl (0, ''c1'', ''h'')] ?w = (Inr (), w')"
    by (rule start_created)
  then obtain w' where "create_chapter_jobs start_deps start_env ''b1''
      [assemble_chapter_job start_env sample_who ''b1'' start_body pl (0, ''c1'', ''h'')] ?w = (Inr (), w')" by blast
  then obtain acc where run: "start_assembly start_deps start_env sample_who ''b1'' start_body ?w = (Inr acc, w')"
    unfolding start_assembly_def seqE_readE pl(1) by (simp add: pl(2) seqE_def start_body_def)
  from assembly_start_plans [OF run] obtain b chapters ks where r: "resolve_target_chapters ''b1'' b start_body ?w = Inr chapters"
    "mset (ay_chapter_ids acc @ ay_skipped acc @ ay_blocking acc) = mset (map cr_id chapters)"
    "map job_key (db_jobs w') = map job_key (db_jobs ?w)
        @ map (\<lambda>i. (''assemble_chapter'', i, ''assemble_chapter:'' @ i @ '':''
            @ chunk_hash (bd_sha256 start_deps) (target_chunks (map cr_id chapters) ?w) i)) (ay_chapter_ids acc) @ ks"
    by blast
  have keys: "map fst (map job_key (db_jobs w')) = map (\<lambda>i. ''assemble_chapter'') (ay_chapter_ids acc) @ map fst ks"
    unfolding r(3) by (simp add: comp_def sample_audio_world_def)
  show ?thesis
    by (rule exI [of _ acc], rule exI [of _ w'], rule exI [of _ b], rule exI [of _ chapters], rule exI [of _ "map fst ks"])
      (intro conjI run r(1,2) keys)
qed

end
