(* ===== verification/MetadataProperties.thy ===== *)
theory MetadataProperties
  imports Images Ffmpeg JsonParse
begin

text \<open>
  Properties of the two byte formats the assembly writes itself: images without their metadata, and
  the chapter metadata handed to the encoder, read back by a reader of its documented format.
\<close>

subsection \<open>The metadata of a cover\<close>


definition sample_segments :: "(nat \<times> bytes) list" where
  "sample_segments = [(224, [1, 2]), (225, [69, 120]), (192, [8, 0, 3, 0, 4])]"

definition sample_header :: bytes where
  "sample_header = [0, 0, 0, 4, 0, 0, 0, 3, 8, 2, 0, 0, 0]"

definition sample_text_chunk :: "bytes \<times> bytes \<times> bytes" where
  "sample_text_chunk = ([116, 69, 88, 116], [65], [0, 0, 0, 0])"


text \<open>
  A JPEG whose first marker is preceded by one fill byte, which the format allows, keeps its EXIF segment: the fill
  byte is taken for a marker, so the APP1 segment behind it is copied as part of the segment the two
  bytes \<open>FF E1\<close> are read as the length of.  Nothing is removed from an image of up to 57604 bytes.
\<close>

theorem exif_survives_fill_byte:
  assumes "b = [255, 216, 255] @ segment (225, exif) @ rest" "length b \<le> 57604"
  shows "strip_exif b ''image/jpeg'' = b"
proof -
  obtain n r where b: "b = [255, 216, 255, 255, 225, n] @ r"
    using assms(1) by (auto simp: segment_def be16_def)
  have "strip_jpeg_from b 2 = drop 2 b"
  proof -
    have head: "b ! 2 = 255" "b ! 3 = 255" "read_u16 b 4 = 57600 + n" "6 \<le> length b"
      by (simp_all add: b read_u16_def)
    have "strip_jpeg_from b (4 + (57600 + n)) = []" "subarray b 2 (4 + (57600 + n)) = drop 2 b"
      using assms(2) by (simp_all add: strip_jpeg_from.simps subarray_def)
    then show ?thesis
      using head by (subst strip_jpeg_from.simps) (simp add: restart_marker_def Let_def)
  qed
  then show ?thesis using b by (simp add: strip_exif_def strip_jpeg_exif_def read_u16_def subarray_def)
qed

definition small_exif_jpeg :: bytes where
  "small_exif_jpeg = [255, 216, 255] @ segment (225, [69, 120, 105, 102]) @ [255, 218, 7, 7]"

theorem exif_survives_fill_byte_witness:
  "strip_exif small_exif_jpeg ''image/jpeg'' = small_exif_jpeg \<and> 225 \<in> set small_exif_jpeg"
  using exif_survives_fill_byte [of small_exif_jpeg "[69, 120, 105, 102]" "[255, 218, 7, 7]"]
  by (simp add: small_exif_jpeg_def segment_def be16_def)

subsection \<open>The metadata of the chapters\<close>

text \<open>
  The reader of the format, as its documentation has it: a line ends at a newline without a backslash before it; a line
  that starts with \<open>;\<close> or \<open>#\<close> is a comment and with \<open>[\<close> a section; another is a key and a
  value around the first \<open>=\<close> without a backslash, each without the backslashes that quote.
\<close>

datatype meta_line = Comment string | Header string | Entry string string

fun meta_lines :: "string \<Rightarrow> string \<Rightarrow> string list" where
  "meta_lines acc [] = (if acc = [] then [] else [acc])"
| "meta_lines acc [c] = (if c = char_of (10::nat) then [acc] else [acc @ [c]])"
| "meta_lines acc (c # d # cs) =
     (if c = backslash then meta_lines (acc @ [c, d]) cs
      else if c = char_of (10::nat) then acc # meta_lines [] (d # cs) else meta_lines (acc @ [c]) (d # cs))"

fun unescape :: "string \<Rightarrow> string" where
  "unescape [] = []"
| "unescape [c] = [c]"
| "unescape (c # d # cs) = (if c = backslash then d # unescape cs else c # unescape (d # cs))"

fun key_value :: "string \<Rightarrow> string \<Rightarrow> string \<times> string" where
  "key_value acc [] = (unescape acc, [])"
| "key_value acc [c] = (if c = CHR ''='' then (unescape acc, []) else (unescape (acc @ [c]), []))"
| "key_value acc (c # d # cs) =
     (if c = backslash then key_value (acc @ [c, d]) cs
      else if c = CHR ''='' then (unescape acc, unescape (d # cs)) else key_value (acc @ [c]) (d # cs))"

definition meta_line :: "string \<Rightarrow> meta_line" where
  "meta_line l = (case l of [] \<Rightarrow> Comment []
     | c # cs \<Rightarrow> if c = CHR '';'' \<or> c = CHR ''#'' then Comment cs else if c = CHR ''['' then Header l
         else (case key_value [] l of (k, v) \<Rightarrow> Entry k v))"

definition read_ffmetadata :: "string \<Rightarrow> meta_line list" where
  "read_ffmetadata s = map meta_line (meta_lines [] s)"

text \<open>A text is closed when it ends outside of an escape and holds no bare newline.\<close>

definition closed_line :: "string \<Rightarrow> bool" where
  "closed_line s \<longleftrightarrow> (\<forall>acc r. meta_lines acc (s @ r) = meta_lines (acc @ s) r)"

lemma closed_empty [simp]: "closed_line []"
  by (simp add: closed_line_def)

lemma closed_append [simp]: "closed_line s \<Longrightarrow> closed_line t \<Longrightarrow> closed_line (s @ t)"
  by (simp add: closed_line_def)

lemma meta_lines_plain: "c \<noteq> backslash \<Longrightarrow> c \<noteq> char_of (10::nat) \<Longrightarrow> meta_lines acc (c # r) = meta_lines (acc @ [c]) r"
  by (cases r) simp_all

lemma meta_lines_newline: "meta_lines acc (char_of (10::nat) # r) = acc # meta_lines [] r"
  by (cases r) (simp_all add: backslash_def)

lemma closed_plain: "(\<And>c. c \<in> set s \<Longrightarrow> c \<noteq> backslash \<and> c \<noteq> char_of (10::nat)) \<Longrightarrow> closed_line s"
proof (induction s)
  case (Cons c s)
  then have "closed_line s" "c \<noteq> backslash" "c \<noteq> char_of (10::nat)" by auto
  then show ?case by (simp add: closed_line_def meta_lines_plain)
qed simp

lemma closed_escaped: "closed_line (escape_ffmetadata_value v)"
proof (induction v)
  case (Cons c v)
  have head: "escape_ffmetadata_value (c # v) = (if special_char c then [backslash, c] else [c]) @ escape_ffmetadata_value v"
    by (simp add: escape_ffmetadata_value_def)
  have "closed_line (if special_char c then [backslash, c] else [c])"
    by (auto simp: closed_line_def meta_lines_plain special_char_def)
  then show ?case unfolding head using Cons.IH by (rule closed_append)
qed (simp add: escape_ffmetadata_value_def)

lemma meta_lines_join:
  "list_all closed_line ls \<Longrightarrow> ls \<noteq> [] \<Longrightarrow> meta_lines [] (join_with line_end ls @ line_end) = ls"
proof (induction line_end ls rule: join_with.induct)
  case (2 w)
  then show ?case using meta_lines_newline [of w "[]"] by (simp add: closed_line_def line_end_def del: meta_lines.simps(2)) 
next
  case (3 w v ws)
  then have "meta_lines [] (w @ line_end @ (join_with line_end (v # ws) @ line_end)) = w # meta_lines [] (join_with line_end (v # ws) @ line_end)"
    using meta_lines_newline [of w] by (simp add: closed_line_def line_end_def)
  then show ?case using 3 by simp
qed simp

lemma unescape_escaped: "unescape (escape_ffmetadata_value v) = v"
proof (induction v)
  case (Cons c v)
  have plain: "c \<noteq> backslash \<Longrightarrow> unescape (c # s) = c # unescape s" for s by (cases s) simp_all
  show ?case using Cons.IH plain by (auto simp: escape_ffmetadata_value_def special_char_def)
qed (simp add: escape_ffmetadata_value_def)

definition plain_key :: "string \<Rightarrow> bool" where
  "plain_key k \<longleftrightarrow> k \<noteq> [] \<and> hd k \<noteq> CHR ''['' \<and> list_all (\<lambda>c. \<not> special_char c) k"

lemma unescape_plain: "list_all (\<lambda>c. \<not> special_char c) k \<Longrightarrow> unescape k = k"
  by (induction k rule: unescape.induct) (auto simp: special_char_def)

lemma special_distinct [simp]: "CHR ''='' \<noteq> backslash" "backslash \<noteq> CHR ''=''" "special_char backslash"
  "special_char (char_of (10::nat))" "special_char (CHR ''='')" "\<not> special_char (CHR ''-'')"
  by code_simp+

lemma digit_not_special: "is_digit c \<Longrightarrow> \<not> special_char c"
  by (auto simp: special_char_def is_digit_def backslash_def code_def)

lemma key_value_key:
  "list_all (\<lambda>c. \<not> special_char c) k \<Longrightarrow> key_value acc (k @ CHR ''='' # v) = (unescape (acc @ k), unescape v)"
proof (induction k arbitrary: acc)
  case Nil
  then show ?case by (cases v) simp_all
next
  case (Cons c k)
  then have "c \<noteq> backslash" "c \<noteq> CHR ''=''" by (auto simp: special_char_def)
  then have "key_value acc (c # k @ CHR ''='' # v) = key_value (acc @ [c]) (k @ CHR ''='' # v)"
    by (cases "k @ CHR ''='' # v") simp_all
  then show ?case using Cons by simp
qed

lemma meta_line_entry:
  assumes "plain_key k"
  shows "meta_line (k @ CHR ''='' # v) = Entry k (unescape v)" and "closed_line v \<Longrightarrow> closed_line (k @ CHR ''='' # v)"
proof -
  obtain c k' where k: "k = c # k'" using assms by (cases k) (auto simp: plain_key_def)
  have ok: "list_all (\<lambda>c. \<not> special_char c) k" using assms by (simp add: plain_key_def)
  show "meta_line (k @ CHR ''='' # v) = Entry k (unescape v)"
  proof -
    have "c \<noteq> CHR '';''" "c \<noteq> CHR ''#''" "c \<noteq> CHR ''[''" using assms by (auto simp: k plain_key_def special_char_def)
    then show ?thesis
      using key_value_key [OF ok, of "[]" v] unescape_plain [OF ok] by (simp add: meta_line_def k)
  qed
  have "closed_line (k @ ''='')"
    using ok by (intro closed_plain) (auto simp: list_all_iff, code_simp)
  then show "closed_line v \<Longrightarrow> closed_line (k @ CHR ''='' # v)" using closed_append [of "k @ ''=''" v] by simp
qed

lemma closed_int: "closed_line (show_int n)" and unescape_int: "unescape (show_int n) = show_int n"
proof -
  have "list_all (\<lambda>c. \<not> special_char c) (show_nat m)" for m
    using is_digit_show [of _ m] digit_not_special by (auto simp: list_all_iff)
  then have p: "list_all (\<lambda>c. \<not> special_char c) (show_int n)"
    by (simp add: show_int_def)
  then show "unescape (show_int n) = show_int n" by (rule unescape_plain)
  show "closed_line (show_int n)" using p by (intro closed_plain) (auto simp: list_all_iff special_char_def)
qed

definition chapter_entries :: "ffmetadata_chapter \<Rightarrow> meta_line list" where
  "chapter_entries c = [Header ''[CHAPTER]'', Entry ''TIMEBASE'' ''1/1000'', Entry ''START'' (show_int (fc_start_ms c)),
     Entry ''END'' (show_int (fc_end_ms c))] @ (case fc_title c of Some (t # ts) \<Rightarrow> [Entry ''title'' (t # ts)] | _ \<Rightarrow> [])"

lemma closed_text: "list_all (\<lambda>c. c \<noteq> backslash \<and> c \<noteq> char_of (10::nat)) s \<Longrightarrow> closed_line s"
  by (rule closed_plain) (auto simp: list_all_iff)

lemma closed_fixed [simp]: "closed_line '';FFMETADATA1''" "closed_line ''[CHAPTER]''" "closed_line ''TIMEBASE=1/1000''"
  by (rule closed_text; code_simp)+

lemma plain_keys [simp]: "plain_key ''START''" "plain_key ''END''" "plain_key ''title''" "plain_key ''TIMEBASE''"
  by code_simp+

lemma tag_lines_read:
  assumes "list_all (\<lambda>t. plain_key (fst t)) tags"
  shows "list_all closed_line (tag_lines tags)" "map meta_line (tag_lines tags) = map (\<lambda>(k, v). Entry k v) (filter (\<lambda>t. snd t \<noteq> []) tags)"
  using assms by (induction tags) (auto simp: tag_lines_def meta_line_entry closed_escaped unescape_escaped)

lemma chapter_lines_read:
  "list_all closed_line (chapter_lines c)" "map meta_line (chapter_lines c) = chapter_entries c"
proof -
  have entry: "closed_line (''START='' @ show_int n)" "meta_line (''START='' @ show_int n) = Entry ''START'' (show_int n)"
    "closed_line (''END='' @ show_int n)" "meta_line (''END='' @ show_int n) = Entry ''END'' (show_int n)"
    "closed_line (''title='' @ escape_ffmetadata_value t)" "meta_line (''title='' @ escape_ffmetadata_value t) = Entry ''title'' t" for n t
    using meta_line_entry [of "''START''" "show_int n"] meta_line_entry [of "''END''" "show_int n"]
      meta_line_entry [of "''title''" "escape_ffmetadata_value t"] by (simp_all add: closed_int unescape_int closed_escaped unescape_escaped)
  have fixed: "meta_line ''[CHAPTER]'' = Header ''[CHAPTER]''" "meta_line ''TIMEBASE=1/1000'' = Entry ''TIMEBASE'' ''1/1000''" by code_simp+
  show "list_all closed_line (chapter_lines c)"
    unfolding chapter_lines_def using entry(1,3,5) by simp
  show "map meta_line (chapter_lines c) = chapter_entries c"
    unfolding chapter_lines_def chapter_entries_def using entry(2,4,6)
    by (auto simp: fixed truthy_def split: option.splits list.splits simp del: append.simps)
qed

text \<open>
  C33: The metadata file written for the encoder reads back as it was meant, whatever the title of the book or of a
  chapter holds: the tags with a value, with the values they were given, and for each chapter its start, its end and its
  title.  No character of a title can end a line, start a comment or open another section.
\<close>

theorem ffmetadata_roundtrip:
  assumes "list_all (\<lambda>t. plain_key (fst t)) tags"
  shows "read_ffmetadata (build_ffmetadata_chapters tags chapters)
    = Comment ''FFMETADATA1'' # map (\<lambda>(k, v). Entry k v) (filter (\<lambda>t. snd t \<noteq> []) tags) @ concat (map chapter_entries chapters)"
proof -
  let ?lines = "['';FFMETADATA1''] @ tag_lines tags @ concat (map chapter_lines chapters)"
  have "list_all closed_line ?lines"
    using tag_lines_read(1) [OF assms] chapter_lines_read(1) by (auto simp: list_all_iff)
  then have "meta_lines [] (build_ffmetadata_chapters tags chapters) = ?lines"
    unfolding build_ffmetadata_chapters_def by (rule meta_lines_join) simp
  moreover have "meta_line '';FFMETADATA1'' = Comment ''FFMETADATA1''" by (simp add: meta_line_def)
  ultimately show ?thesis
    using tag_lines_read(2) [OF assms] chapter_lines_read(2) by (simp add: read_ffmetadata_def map_concat comp_def)
qed

theorem ffmetadata_roundtrip_witness:
  "read_ffmetadata (build_ffmetadata_chapters [(''title'', ''A=B;#[x]''), (''artist'', [])]
      [\<lparr> fc_title = Some [CHR ''a'', char_of (10::nat), CHR ''[''], fc_start_ms = 0, fc_end_ms = 5 \<rparr>])
    = [Comment ''FFMETADATA1'', Entry ''title'' ''A=B;#[x]'', Header ''[CHAPTER]'', Entry ''TIMEBASE'' ''1/1000'', Entry ''START'' (show_int 0),
       Entry ''END'' (show_int 5), Entry ''title'' [CHR ''a'', char_of (10::nat), CHR ''['']]"
proof -
  have "plain_key ''title''" "plain_key ''artist''" by code_simp+
  then show ?thesis
    using ffmetadata_roundtrip [of "[(''title'', ''A=B;#[x]''), (''artist'', [])]"] by (simp add: chapter_entries_def)
qed

end
