(* ===== verification/Speech.thy ===== *)
theory Speech
  imports Assembly
begin

text \<open>
  \<open>apps/api/src/tts/tts.service.ts\<close>: the start of a speech synthesis, its state, and the audio of
  script chunks.  Rows hold the columns the service and the progress of a book read or write; what else a
  worker fills in later is left out.  The clock and the fresh identifiers are the record
  \<open>books_env\<close>, the collaborators the record \<open>books_deps\<close>.
\<close>

subsection \<open>Tables\<close>

datatype script_state = ScriptDraft | ScriptValidated | ScriptSuperseded

fun show_script_state :: "script_state \<Rightarrow> string" where
  "show_script_state ScriptDraft = ''DRAFT''"
| "show_script_state ScriptValidated = ''VALIDATED''"
| "show_script_state ScriptSuperseded = ''SUPERSEDED''"

fun show_audio_status :: "audio_status \<Rightarrow> string" where
  "show_audio_status AcPending = ''PENDING''"
| "show_audio_status AcGenerating = ''GENERATING''"
| "show_audio_status AcGenerated = ''GENERATED''"
| "show_audio_status AcValidated = ''VALIDATED''"
| "show_audio_status AcAssembled = ''ASSEMBLED''"
| "show_audio_status AcFailed = ''FAILED''"
| "show_audio_status AcInvalid = ''INVALID''"
| "show_audio_status AcSuperseded = ''SUPERSEDED''"

record audio_script =
  as_id :: string
  as_book_id :: string
  as_current :: bool
  as_state :: script_state
  as_source_hash :: string

record speech_chunk =
  sp_id :: string
  sp_book_id :: string
  sp_script_id :: string
  sp_chapter_id :: string
  sp_sequence :: nat
  sp_version :: nat
  sp_current :: bool
  sp_voice :: "string option"
  sp_source_hash :: string
  sp_seed :: "int option"
  sp_sample_rate :: "nat option"
  sp_channels :: "nat option"
  sp_flags :: "string list"
  sp_audio :: "string option"

record voice_version =
  vv_id :: string
  vv_version :: nat
  vv_profile_id :: string
  vv_provider :: string
  vv_model_version :: string
  vv_params :: json
  vv_params_hash :: string
  vv_approval :: string

record speech_audio =
  se_id :: string
  se_book_id :: string
  se_chunk_id :: string
  se_chapter_id :: string
  se_scene_id :: "string option"
  se_character_id :: "string option"
  se_sequence :: nat
  se_version :: nat
  se_current :: bool
  se_status :: audio_status
  se_voice :: string
  se_provider :: string
  se_model :: string
  se_source_hash :: string
  se_technical :: "int \<times> nat \<times> nat \<times> string"
  se_validation :: "string \<times> json"
  se_gaps :: json
  se_error :: "string option \<times> string option"
  se_storage_key :: string
  se_size :: "nat option"
  se_hash :: string
  se_created :: int

record tts_job =
  tj_id :: string
  tj_tenant_id :: string
  tj_book_id :: string
  tj_chunk_id :: string
  tj_chunk_version :: nat
  tj_job_id :: string
  tj_provider :: string
  tj_model_version :: string
  tj_profile_id :: string
  tj_voice :: string
  tj_params :: json
  tj_params_hash :: string
  tj_seed :: "int option"
  tj_sample_rate :: nat
  tj_channels :: nat
  tj_status :: string
  tj_dedupe_key :: string
  tj_forced :: bool
  tj_force_token :: "string option"

record ('q, 's) speech_world = "'s ingest_world" +
  sw_scripts :: "audio_script list"
  sw_chunks :: "speech_chunk list"
  sw_voices :: "voice_version list"
  sw_audio :: "speech_audio list"
  sw_tts_jobs :: "tts_job list"
  sw_scenes :: "string list"
  sw_semantics :: "string list"
  sw_chapter_audios :: "chapter_audio list"
  sw_queue :: 'q

text \<open>The primary key and \<open>tts_job_dedupe_key_key\<close>, which is not partial: a failed job keeps its key.\<close>

definition tts_clash :: "tts_job \<Rightarrow> tts_job \<Rightarrow> bool" where
  "tts_clash t u \<longleftrightarrow> tj_id u = tj_id t \<or> tj_dedupe_key u = tj_dedupe_key t"

subsection \<open>Starting\<close>

definition PRODUCTION_APPROVAL_STATES :: "string list" where
  "PRODUCTION_APPROVAL_STATES = [''APPROVED'', ''LOCKED'']"

definition IN_PROGRESS_AUDIO_CHUNK_STATUSES :: "audio_status list" where
  "IN_PROGRESS_AUDIO_CHUNK_STATUSES = [AcGenerated, AcValidated, AcAssembled]"

datatype tts_scope = TtsBook | TtsChapters | TtsChunks | TtsFilter

record tts_filter =
  tf_status :: "string list option"
  tf_chapter_ids :: "string list option"

record start_tts_body =
  st_scope :: tts_scope
  st_chapter_ids :: "string list option"
  st_chunk_ids :: "string list option"
  st_filter :: "tts_filter option"
  st_force :: bool
  st_priority :: "string option"

definition AUDIO_CHUNK_STATUSES :: "string list" where
  "AUDIO_CHUNK_STATUSES = map show_audio_status [AcPending, AcGenerating, AcGenerated, AcValidated, AcAssembled, AcFailed, AcInvalid, AcSuperseded]"

definition nonempty :: "'a list option \<Rightarrow> bool" where
  "nonempty l \<longleftrightarrow> (case l of Some (x # xs) \<Rightarrow> True | _ \<Rightarrow> False)"

definition audio_status_of :: "speech_chunk \<Rightarrow> ('q, 's) speech_world \<Rightarrow> string option" where
  "audio_status_of c w = (case sp_audio c of None \<Rightarrow> None
     | Some i \<Rightarrow> map_option (\<lambda>a. show_audio_status (se_status a)) (find_row (\<lambda>a. se_id a = i) (sw_audio w)))"

definition resolve_chunk_where ::
  "string \<Rightarrow> string \<Rightarrow> start_tts_body \<Rightarrow> ('q, 's) speech_world \<Rightarrow> thrown + (speech_chunk \<Rightarrow> bool)" where
  "resolve_chunk_where script_id book_id body w =
     (let base = (\<lambda>c. sp_script_id c = script_id \<and> sp_book_id c = book_id \<and> sp_current c)
      in case st_scope body of
        TtsChapters \<Rightarrow>
          if \<not> nonempty (st_chapter_ids body) then Inl (validation_failed ''chapter_ids is required for scope CHAPTERS.'')
          else Inr (\<lambda>c. base c \<and> sp_chapter_id c \<in> set (the (st_chapter_ids body)))
      | TtsChunks \<Rightarrow>
          if \<not> nonempty (st_chunk_ids body) then Inl (validation_failed ''chunk_ids is required for scope CHUNKS.'')
          else Inr (\<lambda>c. base c \<and> sp_id c \<in> set (the (st_chunk_ids body)))
      | TtsFilter \<Rightarrow>
          (case st_filter body of
             None \<Rightarrow> Inl (validation_failed ''filter.audio_chunk_status is required for scope FILTER.'')
           | Some f \<Rightarrow>
               if \<not> nonempty (tf_status f) then Inl (validation_failed ''filter.audio_chunk_status is required for scope FILTER.'')
               else if \<not> list_all (\<lambda>s. s \<in> set AUDIO_CHUNK_STATUSES) (the (tf_status f))
               then Inl (OtherErr ''Invalid value for argument: expected an enum value.'')
               else Inr (\<lambda>c. base c \<and> (nonempty (tf_chapter_ids f) \<longrightarrow> sp_chapter_id c \<in> set (the (tf_chapter_ids f)))
                 \<and> audio_status_of c w \<in> Some ` set (the (tf_status f))))
      | TtsBook \<Rightarrow> Inr base)"

text \<open>A chunk is done when its current audio was rendered from the same text with the same voice.\<close>

definition already_generated :: "speech_audio list \<Rightarrow> speech_chunk \<Rightarrow> bool" where
  "already_generated t c =
     (case find_row (\<lambda>a. se_chunk_id a = sp_id c \<and> se_current a \<and> se_status a \<in> set IN_PROGRESS_AUDIO_CHUNK_STATUSES) (rev t) of
        None \<Rightarrow> False
      | Some a \<Rightarrow> Some (se_voice a) = sp_voice c \<and> se_source_hash a = sp_source_hash c)"

definition filter_already_generated :: "speech_audio list \<Rightarrow> speech_chunk list \<Rightarrow> speech_chunk list" where
  "filter_already_generated t cs = filter (\<lambda>c. \<not> already_generated t c) cs"

definition voice_of :: "voice_version list \<Rightarrow> speech_chunk \<Rightarrow> voice_version option" where
  "voice_of t c = (case sp_voice c of None \<Rightarrow> None | Some i \<Rightarrow> find_row (\<lambda>v. vv_id v = i) t)"

definition not_validated :: "string \<Rightarrow> thrown" where
  "not_validated m = AppErr (ConflictError (coded ''AUDIO_SCRIPT_NOT_VALIDATED'' m))"

definition unapproved :: "voice_version list \<Rightarrow> speech_chunk \<Rightarrow> bool" where
  "unapproved t c = (case voice_of t c of None \<Rightarrow> False | Some v \<Rightarrow> vv_approval v \<notin> set PRODUCTION_APPROVAL_STATES)"

definition check_chunks :: "voice_version list \<Rightarrow> speech_chunk list \<Rightarrow> thrown + unit" where
  "check_chunks voices cs =
     (let missing = filter (\<lambda>c. \<not> truthy (sp_voice c)) cs; bad = filter (unapproved voices) cs
      in if cs = [] then Inl (validation_failed ''No chunks matched the requested scope.'')
         else if missing \<noteq> []
         then Inl (AppErr (ConflictError (with_details (coded ''CASTING_INCOMPLETE''
           (show_nat (length missing) @ '' chunk(s) have no resolvable voice. Complete casting first.''))
           (map (\<lambda>c. (''chunk_ids'', ''no_voice: '' @ sp_id c)) (take 20 missing)))))
         else if bad \<noteq> []
         then Inl (AppErr (ConflictError (coded ''VOICE_PROFILE_NOT_APPROVED''
           (show_nat (length bad) @ '' chunk(s) target a voice version that is not APPROVED or LOCKED.''))))
         else Inr ())"

record tts_plan =
  tp_script :: audio_script
  tp_chunks :: "speech_chunk list"
  tp_targets :: "speech_chunk list"
  tp_priority :: string

definition plan_chunks ::
  "start_tts_body \<Rightarrow> ('q, 's) speech_world \<Rightarrow> audio_script \<Rightarrow> (speech_chunk \<Rightarrow> bool) \<Rightarrow> thrown + tts_plan" where
  "plan_chunks body w script matches =
     (let cs = sort_key sp_sequence (filter matches (sw_chunks w));
          targets = (if st_force body then cs else filter_already_generated (sw_audio w) cs);
          priority = (case st_priority body of Some p \<Rightarrow> p | None \<Rightarrow> ''NORMAL'')
      in bindE (check_chunks (sw_voices w) cs) (\<lambda>_.
         if priority = ''INTERACTIVE'' \<and> length targets > 50
         then Inl (AppErr (ValidationError (with_details (coded ''VALIDATION_FAILED''
           ''INTERACTIVE priority is only accepted for a bounded number of chunks.'') [(''priority'', ''out_of_range'')])))
         else Inr \<lparr> tp_script = script, tp_chunks = cs, tp_targets = targets, tp_priority = priority \<rparr>))"

definition plan_tts :: "principal \<Rightarrow> string \<Rightarrow> start_tts_body \<Rightarrow> ('q, 's) speech_world \<Rightarrow> thrown + tts_plan" where
  "plan_tts who book_id body w =
     bindE (require_owned_book who book_id w) (\<lambda>b.
     if \<not> truthy (bk_current_script b) then Inl (not_validated ''This book has no current Audio Script.'')
     else case find_row (\<lambda>s. Some (as_id s) = bk_current_script b) (sw_scripts w) of
       None \<Rightarrow> Inl (CodedErr ''P2025'' ''No AudioScript found'')
     | Some script \<Rightarrow>
         if as_state script \<noteq> ScriptValidated
         then Inl (not_validated (''Audio Script is '' @ show_script_state (as_state script) @ '', not VALIDATED.''))
         else bindE (resolve_chunk_where (as_id script) book_id body w) (plan_chunks body w script))"

definition tts_dedupe_key :: "(bytes \<Rightarrow> string) \<Rightarrow> speech_chunk \<Rightarrow> voice_version \<Rightarrow> string option \<Rightarrow> string" where
  "tts_dedupe_key sha c v token = sha (utf8_encode (join_with '':''
     [sp_id c, show_nat (sp_version c), vv_id v, vv_model_version v, vv_params_hash v,
      (case sp_seed c of Some n \<Rightarrow> show_int n | None \<Rightarrow> []), (case token of Some t \<Rightarrow> t | None \<Rightarrow> [])]))"

definition tts_job_key :: "speech_chunk \<Rightarrow> voice_version \<Rightarrow> string" where
  "tts_job_key c v = ''tts:'' @ sp_id c @ '':'' @ show_nat (vv_version v) @ '':'' @ vv_model_version v @ '':'' @ vv_params_hash v"

definition coordinator_job :: "books_env \<Rightarrow> principal \<Rightarrow> string \<Rightarrow> start_tts_body \<Rightarrow> tts_plan \<Rightarrow> job" where
  "coordinator_job ev who book_id body pl =
     (let i = be_id ev 0; j = service_job ev who i book_id (''generate_tts_chunk'', ''audio_script'', as_id (tp_script pl))
        (''tts_coordinator:'' @ as_id (tp_script pl) @ '':'' @ i, as_source_hash (tp_script pl)) (tp_priority pl) (st_force body) JNull
      in set_completed (be_now ev) (j\<lparr> jb_queue := ''gpu'', jb_status := SUCCEEDED, jb_progress := no_progress\<lparr> jp_value := 1 \<rparr>,
           jb_max_attempts := 1, jb_envelope := None \<rparr>))"

text \<open>The rows for the \<open>k\<close>th chunk; the identifiers alternate between the job and its synthesis.\<close>

definition force_token :: "books_env \<Rightarrow> start_tts_body \<Rightarrow> string option" where
  "force_token ev body = (if st_force body then Some (be_id ev 0) else None)"

definition chunk_job ::
  "(bytes \<Rightarrow> string) \<Rightarrow> books_env \<Rightarrow> principal \<Rightarrow> string \<Rightarrow> start_tts_body \<Rightarrow> tts_plan \<Rightarrow> nat \<Rightarrow> speech_chunk \<Rightarrow> voice_version \<Rightarrow> job" where
  "chunk_job sha ev who book_id body pl k c v =
     (let i = be_id ev (2 * k + 1); tts = be_id ev (2 * k + 2);
          j = fresh_job (be_now ev) i (tenant_id who) book_id (''generate_tts_chunk'', ''gpu'', tp_priority pl)
            (''audio_script_chunk'', sp_id c) (tts_job_key c v, tts_dedupe_key sha c v (force_token ev body)) (be_id ev 0) (st_force body)
            (JObj [(''job_id'', JStr i), (''entity_id'', JStr tts), (''correlation_id'', JStr (be_id ev 0)),
                   (''tenant_id'', JStr (tenant_id who)), (''payload'', JObj [(''tts_job_id'', JStr tts)])])
      in j\<lparr> jb_parent := Some (be_id ev 0), jb_created_by := Some (sub who) \<rparr>)"

definition chunk_tts_job ::
  "(bytes \<Rightarrow> string) \<Rightarrow> books_env \<Rightarrow> principal \<Rightarrow> string \<Rightarrow> start_tts_body \<Rightarrow> nat \<Rightarrow> speech_chunk \<Rightarrow> voice_version \<Rightarrow> tts_job" where
  "chunk_tts_job sha ev who book_id body k c v =
     \<lparr> tj_id = be_id ev (2 * k + 2), tj_tenant_id = tenant_id who, tj_book_id = book_id, tj_chunk_id = sp_id c,
       tj_chunk_version = sp_version c, tj_job_id = be_id ev (2 * k + 1), tj_provider = vv_provider v,
       tj_model_version = vv_model_version v, tj_profile_id = vv_profile_id v, tj_voice = vv_id v, tj_params = vv_params v,
       tj_params_hash = vv_params_hash v, tj_seed = sp_seed c,
       tj_sample_rate = (case sp_sample_rate c of Some n \<Rightarrow> n | None \<Rightarrow> 24000),
       tj_channels = (case sp_channels c of Some n \<Rightarrow> n | None \<Rightarrow> 1), tj_status = ''PENDING'',
       tj_dedupe_key = tts_dedupe_key sha c v (force_token ev body), tj_forced = st_force body, tj_force_token = force_token ev body \<rparr>"

abbreviation on_tts_jobs where "on_tts_jobs \<equiv> on_table sw_tts_jobs (\<lambda>t. sw_tts_jobs_update (\<lambda>_. t))"

fun create_chunk_rows ::
  "(nat \<Rightarrow> speech_chunk \<Rightarrow> job \<times> tts_job) \<Rightarrow> nat \<Rightarrow> speech_chunk list \<Rightarrow> ('q, 's) speech_world
     \<Rightarrow> (thrown + unit) \<times> ('q, 's) speech_world" where
  "create_chunk_rows rows k [] = returnE ()"
| "create_chunk_rows rows k (c # cs) =
     seqE (aw_jobs (create_row job_clash (fst (rows k c)))) (\<lambda>_.
     seqE (on_tts_jobs (create_row tts_clash (snd (rows k c)))) (\<lambda>_. create_chunk_rows rows (k + 1) cs))"

definition rows_of ::
  "('q, 'r, 's) books_deps \<Rightarrow> books_env \<Rightarrow> principal \<Rightarrow> string \<Rightarrow> start_tts_body \<Rightarrow> tts_plan \<Rightarrow> voice_version list \<Rightarrow> nat \<Rightarrow> speech_chunk
     \<Rightarrow> job \<times> tts_job" where
  "rows_of dp ev who book_id body pl voices k c = (let v = the (voice_of voices c) in
     (chunk_job (bd_sha256 dp) ev who book_id body pl k c v, chunk_tts_job (bd_sha256 dp) ev who book_id body k c v))"

definition dispatch_speech ::
  "'q broker \<Rightarrow> int \<Rightarrow> job \<Rightarrow> ('q, 's) speech_world \<Rightarrow> (thrown + unit) \<times> ('q, 's) speech_world" where
  "dispatch_speech bq now j w = (case enqueue_processing_job bq now
       \<lparr> ea_processing_job_id = jb_id j, ea_queue = ''gpu'', ea_envelope = the (jb_envelope j),
         ea_job_name = ''generate_tts_chunk'', ea_max_attempts = 3, ea_priority = None \<rparr> (db_jobs w, sw_queue w) of
     (r, (jobs, q)) \<Rightarrow> (r, w\<lparr> db_jobs := jobs, sw_queue := q \<rparr>))"

fun dispatch_speech_all ::
  "'q broker \<Rightarrow> int \<Rightarrow> job list \<Rightarrow> ('q, 's) speech_world \<Rightarrow> (thrown + unit) \<times> ('q, 's) speech_world" where
  "dispatch_speech_all bq now [] w = (Inr (), w)"
| "dispatch_speech_all bq now (j # js) w =
     (case dispatch_speech bq now j w of (r, w1) \<Rightarrow>
      case dispatch_speech_all bq now js w1 of (rs, w2) \<Rightarrow> (case r of Inl e \<Rightarrow> Inl e | Inr _ \<Rightarrow> rs, w2))"

definition create_tts_rows ::
  "('q, 'r, 's) books_deps \<Rightarrow> books_env \<Rightarrow> principal \<Rightarrow> string \<Rightarrow> start_tts_body \<Rightarrow> tts_plan \<Rightarrow> ('q, 's) speech_world
     \<Rightarrow> (thrown + unit) \<times> ('q, 's) speech_world" where
  "create_tts_rows dp ev who book_id body pl = with_transaction (\<lambda>w.
     seqE (aw_jobs (create_row job_clash (coordinator_job ev who book_id body pl))) (\<lambda>_.
     seqE (create_chunk_rows (rows_of dp ev who book_id body pl (sw_voices w)) 0 (tp_targets pl)) (\<lambda>_.
     aw_books (update_book book_id
       (\<lambda>b. b\<lparr> bk_status := BGenerating, bk_status_changed := be_now ev, bk_updated := be_now ev \<rparr>)))) w)"

record tts_accepted =
  ta_job :: "string option"
  ta_scope :: tts_scope
  ta_planned :: nat
  ta_skipped :: nat
  ta_skip_reason :: "string option"
  ta_priority :: "string option"

definition planned_jobs ::
  "('q, 'r, 's) books_deps \<Rightarrow> books_env \<Rightarrow> principal \<Rightarrow> string \<Rightarrow> start_tts_body \<Rightarrow> tts_plan \<Rightarrow> voice_version list \<Rightarrow> job list" where
  "planned_jobs dp ev who book_id body pl voices =
     map (\<lambda>(k, c). fst (rows_of dp ev who book_id body pl voices k c)) (enumerate 0 (tp_targets pl))"

definition start_tts ::
  "('q, 'r, 's) books_deps \<Rightarrow> books_env \<Rightarrow> principal \<Rightarrow> string \<Rightarrow> start_tts_body \<Rightarrow> ('q, 's) speech_world
     \<Rightarrow> (thrown + tts_accepted) \<times> ('q, 's) speech_world" where
  "start_tts dp ev who book_id body w =
     seqE (readE (plan_tts who book_id body)) (\<lambda>pl.
     let skipped = length (tp_chunks pl) - length (tp_targets pl) in
     if tp_targets pl = []
     then returnE \<lparr> ta_job = None, ta_scope = st_scope body, ta_planned = 0, ta_skipped = length (tp_chunks pl),
            ta_skip_reason = Some ''ALREADY_GENERATED'', ta_priority = None \<rparr>
     else seqE (create_tts_rows dp ev who book_id body pl) (\<lambda>_.
          seqE (dispatch_speech_all (bd_broker dp) (be_now ev) (planned_jobs dp ev who book_id body pl (sw_voices w))) (\<lambda>_.
          returnE \<lparr> ta_job = Some (be_id ev 0), ta_scope = st_scope body, ta_planned = length (tp_targets pl),
            ta_skipped = skipped, ta_skip_reason = None, ta_priority = Some (tp_priority pl) \<rparr>))) w"

subsection \<open>Reading\<close>

record tts_state =
  ts_status :: string
  ts_counts :: "(string \<times> nat) list"
  ts_progress :: rat

definition audio_count :: "string \<Rightarrow> audio_status \<Rightarrow> speech_audio list \<Rightarrow> nat" where
  "audio_count book_id s t = count_rows (\<lambda>a. se_book_id a = book_id \<and> se_current a \<and> se_status a = s) t"

definition get_tts_state :: "principal \<Rightarrow> string \<Rightarrow> ('q, 's) speech_world \<Rightarrow> thrown + tts_state" where
  "get_tts_state who book_id w = bindE (require_owned_book who book_id w) (\<lambda>b.
     let n = (\<lambda>s. audio_count book_id s (sw_audio w));
         all_units = count_rows (\<lambda>a. se_book_id a = book_id \<and> se_current a) (sw_audio w);
         done_units = n AcValidated + n AcAssembled + n AcGenerated
     in Inr \<lparr> ts_status = show_book_status (bk_status b),
          ts_counts = [(''chunks_pending'', n AcPending), (''chunks_generating'', n AcGenerating), (''chunks_generated'', n AcGenerated),
            (''chunks_validated'', n AcValidated), (''chunks_failed'', n AcFailed), (''chunks_invalid'', n AcInvalid),
            (''chunks_superseded'', n AcSuperseded)],
          ts_progress = (if all_units > 0 then of_nat done_units / of_nat all_units else 0) \<rparr>)"

record speech_audio_dto =
  sd_row :: speech_audio
  sd_status :: string
  sd_error :: "(string \<times> string option) option"
  sd_created_at :: string

definition to_speech_audio_dto :: "speech_audio \<Rightarrow> speech_audio_dto" where
  "to_speech_audio_dto a = \<lparr> sd_row = a, sd_status = show_audio_status (se_status a),
     sd_error = (if truthy (fst (se_error a)) then Some (the (fst (se_error a)), snd (se_error a)) else None),
     sd_created_at = to_iso (se_created a) \<rparr>"

record speech_audio_query =
  sq_chapter_id :: "string option"
  sq_status :: "string option"
  sq_character_id :: "string option"
  sq_cursor :: "string option"
  sq_limit :: "string option"

definition speech_selected :: "string \<Rightarrow> speech_audio_query \<Rightarrow> int option \<Rightarrow> speech_audio \<Rightarrow> bool" where
  "speech_selected book_id query after a \<longleftrightarrow> se_book_id a = book_id \<and> se_current a
     \<and> opt_match (sq_chapter_id query) (Some (se_chapter_id a))
     \<and> opt_match (sq_status query) (Some (show_audio_status (se_status a)))
     \<and> opt_match (sq_character_id query) (se_character_id a)
     \<and> (case after of None \<Rightarrow> True | Some n \<Rightarrow> n < int (se_sequence a))"

definition list_audio_chunks ::
  "principal \<Rightarrow> string \<Rightarrow> speech_audio_query \<Rightarrow> ('q, 's) speech_world \<Rightarrow> thrown + speech_audio_dto cursor_page" where
  "list_audio_chunks who book_id query w =
     bindE (require_owned_book who book_id w) (\<lambda>_.
     bindE (parse_limit (sq_limit query)) (\<lambda>limit.
     bindE (decode_cursor (sq_cursor query)) (\<lambda>cursor.
     bindE (check_enum (sq_status query) AUDIO_CHUNK_STATUSES) (\<lambda>_.
     bindE (cursor_integer cursor) (\<lambda>after.
     let page = paginate (take (limit + 1) (sort_key se_sequence (filter (speech_selected book_id query after) (sw_audio w))))
           limit (\<lambda>a. SVNum (int (se_sequence a))) se_id
     in Inr \<lparr> pg_data = map to_speech_audio_dto (pg_data page), pg_limit = pg_limit page, pg_has_more = pg_has_more page,
          pg_next_cursor = pg_next_cursor page \<rparr>)))))"

definition find_audio_of_book :: "principal \<Rightarrow> string \<Rightarrow> string \<Rightarrow> ('q, 's) speech_world \<Rightarrow> thrown + speech_audio" where
  "find_audio_of_book who book_id i w = bindE (require_owned_book who book_id w) (\<lambda>_.
     case find_row (\<lambda>a. se_id a = i \<and> se_book_id a = book_id) (sw_audio w) of
       None \<Rightarrow> Inl (AppErr (NotFoundError (msg_only ''Audio chunk not found.''))) | Some a \<Rightarrow> Inr a)"

definition get_audio_chunk :: "principal \<Rightarrow> string \<Rightarrow> string \<Rightarrow> ('q, 's) speech_world \<Rightarrow> thrown + speech_audio_dto" where
  "get_audio_chunk who book_id i w = bindE (find_audio_of_book who book_id i w) (\<lambda>a. Inr (to_speech_audio_dto a))"

record speech_url =
  su_url :: string
  su_expires_at :: string
  su_disposition :: string
  su_size_bytes :: "nat option"
  su_content_hash :: string

definition create_audio_chunk_access_url ::
  "('q, 'r, 's) books_deps \<Rightarrow> books_env \<Rightarrow> principal \<Rightarrow> string \<Rightarrow> string \<Rightarrow> create_access_url_body \<Rightarrow> ('q, 's) speech_world
     \<Rightarrow> thrown + speech_url" where
  "create_audio_chunk_access_url dp ev who book_id i body w = bindE (find_audio_of_book who book_id i w) (\<lambda>a.
     if se_status a \<notin> {AcGenerated, AcValidated, AcInvalid}
     then Inl (not_ready (''Audio chunk is '' @ show_audio_status (se_status a)))
     else let expires = (case ub_expires body of Some n \<Rightarrow> n | None \<Rightarrow> 300)
          in bindE (bd_sign dp (se_storage_key a) ''GET'' expires (iw_store w)) (\<lambda>url.
             Inr \<lparr> su_url = url, su_expires_at = to_iso (be_now ev + int expires * 1000),
               su_disposition = (case ub_disposition body of Some d \<Rightarrow> d | None \<Rightarrow> ''INLINE''),
               su_size_bytes = (case se_size a of Some n \<Rightarrow> if n = 0 then None else Some n | None \<Rightarrow> None),
               su_content_hash = se_hash a \<rparr>))"

end
