(* ===== verification/Progress.thy ===== *)
theory Progress
  imports Speech
begin

text \<open>
  \<open>apps/api/src/progress/progress.service.ts\<close>: the progress of a book, derived from the rows of
  its five stages.  An aggregate of the database is a count over the table; a fraction is a rational, rounded to
  four decimals as the code does; the bodies of fixed fields and links are left out.
\<close>

datatype stage_name = StIngestion | StAnalysis | StDirector | StTts | StAssembly

fun stage_job_types :: "stage_name \<Rightarrow> string list" where
  "stage_job_types StIngestion = [''parse_book'', ''ocr_page'', ''normalize_text'', ''analyze_structure'']"
| "stage_job_types StAnalysis = [''analyze_scene'', ''build_story_bible_delta'']"
| "stage_job_types StDirector = [''generate_director_ir'', ''revise_director_ir'']"
| "stage_job_types StTts = [''generate_tts_chunk'', ''validate_audio'', ''process_audio'', ''verify_transcript'']"
| "stage_job_types StAssembly = [''assemble_chapter'', ''assemble_audiobook'', ''encode_delivery_format'']"

definition ACTIVE_JOB_STATUSES :: "job_status list" where
  "ACTIVE_JOB_STATUSES = [CREATED, QUEUED, RUNNING, RETRYING, BLOCKED]"

record stage_progress =
  sg_stage :: stage_name
  sg_status :: string
  sg_progress :: "rat option"
  sg_completed :: nat
  sg_total :: "nat option"
  sg_failed :: nat
  sg_flagged :: nat

definition round4 :: "rat \<Rightarrow> rat" where
  "round4 x = of_int (js_round (x * 10000)) / 10000"

definition capped_ratio :: "nat \<Rightarrow> nat \<Rightarrow> rat" where
  "capped_ratio done_units total_units = round4 (of_nat (min done_units total_units) / of_nat total_units)"

definition ratio :: "nat \<Rightarrow> nat option \<Rightarrow> version_status option \<Rightarrow> rat option" where
  "ratio done_units total_units st = (case total_units of
     Some (Suc n) \<Rightarrow> Some (capped_ratio done_units (Suc n))
   | _ \<Rightarrow> if st = Some READY then Some 1 else None)"

subsection \<open>Stages from jobs\<close>

text \<open>The index over the groups of type and status, by the counts it answers.\<close>

definition group_count :: "string \<Rightarrow> job list \<Rightarrow> string \<Rightarrow> job_status \<Rightarrow> nat" where
  "group_count book_id js ty st = count_rows (\<lambda>j. jb_book_id j = Some book_id \<and> jb_type j = ty \<and> jb_status j = st) js"

definition index_count :: "(string \<Rightarrow> job_status \<Rightarrow> nat) \<Rightarrow> string list \<Rightarrow> job_status list \<Rightarrow> nat" where
  "index_count ix types statuses = sum_list (concat (map (\<lambda>ty. map (ix ty) statuses) types))"

definition any_blocked :: "(string \<Rightarrow> job_status \<Rightarrow> nat) \<Rightarrow> string list \<Rightarrow> bool" where
  "any_blocked ix types \<longleftrightarrow> index_count ix types [BLOCKED] > 0"

definition job_derived_status :: "stage_name \<Rightarrow> (string \<Rightarrow> job_status \<Rightarrow> nat) \<Rightarrow> string" where
  "job_derived_status stage ix =
     (let n = index_count ix (stage_job_types stage)
      in if n [RUNNING] > 0 then ''RUNNING''
         else if n [RETRYING] > 0 then ''RUNNING''
         else if n [CREATED, QUEUED] > 0 then ''QUEUED''
         else if n [BLOCKED] > 0 then ''BLOCKED''
         else if n [SUCCEEDED] > 0 then ''COMPLETED''
         else if n [FAILED, DEAD_LETTERED] > 0 then ''FAILED''
         else if n [CANCELLED] > 0 then ''CANCELLED''
         else ''NOT_STARTED'')"

definition ingestion_status :: "(string \<Rightarrow> job_status \<Rightarrow> nat) \<Rightarrow> version_status option \<Rightarrow> string" where
  "ingestion_status ix st = (case st of
     Some READY \<Rightarrow> ''COMPLETED''
   | Some PARTIAL_OCR \<Rightarrow> ''PARTIAL_OCR''
   | Some VERSION_NEEDS_REVIEW \<Rightarrow> ''NEEDS_REVIEW''
   | None \<Rightarrow> job_derived_status StIngestion ix)"

definition stage_status :: "stage_name \<Rightarrow> (string \<Rightarrow> job_status \<Rightarrow> nat) \<Rightarrow> bool \<Rightarrow> string" where
  "stage_status stage ix finished = (if finished then ''COMPLETED'' else job_derived_status stage ix)"

definition director_status :: "(string \<Rightarrow> job_status \<Rightarrow> nat) \<Rightarrow> script_state option \<Rightarrow> string" where
  "director_status ix st =
     (let derived = job_derived_status StDirector ix
      in if st = Some ScriptValidated then ''COMPLETED''
         else if st = Some ScriptDraft \<and> derived = ''COMPLETED'' then ''VALIDATING''
         else derived)"

definition tts_status :: "(string \<Rightarrow> job_status \<Rightarrow> nat) \<Rightarrow> nat \<Rightarrow> nat option \<Rightarrow> string" where
  "tts_status ix done_units total_units =
     (let derived = job_derived_status StTts ix
      in case total_units of
           Some (Suc n) \<Rightarrow>
             if done_units \<ge> Suc n then ''COMPLETED'' else if derived = ''COMPLETED'' then ''PARTIAL'' else derived
         | _ \<Rightarrow> derived)"

definition assembly_status :: "(string \<Rightarrow> job_status \<Rightarrow> nat) \<Rightarrow> nat \<Rightarrow> nat option \<Rightarrow> string" where
  "assembly_status ix assembled total_units =
     (let derived = job_derived_status StAssembly ix
      in if (case total_units of Some n \<Rightarrow> n > 0 \<and> assembled \<ge> n | None \<Rightarrow> False) then ''COMPLETED''
         else if derived = ''NOT_STARTED'' \<and> any_blocked ix (stage_job_types StAssembly) then ''BLOCKED''
         else derived)"

subsection \<open>The five stages\<close>

definition known :: "nat \<Rightarrow> nat option" where
  "known n = (if n > 0 then Some n else None)"

definition page_count :: "string \<Rightarrow> page_outcome \<Rightarrow> parsed_page list \<Rightarrow> nat" where
  "page_count book_id st t = count_rows (\<lambda>p. pp_book_id p = book_id \<and> ep_status (pp_page p) = st) t"

definition ingestion_stage :: "string \<Rightarrow> ('q, 's) speech_world \<Rightarrow> stage_progress" where
  "ingestion_stage book_id w =
     (let v = find_row (\<lambda>v. bv_book_id v = book_id \<and> bv_is_current v) (iw_versions w);
          pages_total = (case v of Some v \<Rightarrow> bv_pages_total v | None \<Rightarrow> None);
          pages = (\<lambda>s. page_count book_id s (iw_pages w)); pages_done = pages PageOk + pages PageNeedsReview
      in \<lparr> sg_stage = StIngestion, sg_status = ingestion_status (group_count book_id (db_jobs w)) (map_option bv_status v),
           sg_progress = ratio pages_done pages_total (map_option bv_status v), sg_completed = pages_done,
           sg_total = pages_total, sg_failed = pages PageFailed, sg_flagged = pages PageNeedsReview \<rparr>)"

definition analysis_stage :: "string \<Rightarrow> ('q, 's) speech_world \<Rightarrow> stage_progress" where
  "analysis_stage book_id w =
     (let scenes = count_rows (\<lambda>b. b = book_id) (sw_scenes w); semantics = count_rows (\<lambda>b. b = book_id) (sw_semantics w)
      in \<lparr> sg_stage = StAnalysis,
           sg_status = stage_status StAnalysis (group_count book_id (db_jobs w)) (semantics > 0 \<and> semantics \<ge> scenes),
           sg_progress = (if scenes > 0 then Some (capped_ratio semantics scenes) else None),
           sg_completed = min semantics scenes, sg_total = known scenes, sg_failed = 0, sg_flagged = 0 \<rparr>)"

definition script_chunk_count :: "string \<Rightarrow> ('q, 's) speech_world \<Rightarrow> nat" where
  "script_chunk_count book_id w = count_rows (\<lambda>c. sp_book_id c = book_id \<and> sp_current c) (sw_chunks w)"

definition director_stage :: "string \<Rightarrow> ('q, 's) speech_world \<Rightarrow> stage_progress" where
  "director_stage book_id w =
     (let script = find_row (\<lambda>s. as_book_id s = book_id \<and> as_current s) (sw_scripts w); n = script_chunk_count book_id w;
          finished = (map_option as_state script = Some ScriptValidated)
      in \<lparr> sg_stage = StDirector, sg_status = director_status (group_count book_id (db_jobs w)) (map_option as_state script),
           sg_progress = (if script = None then None else if finished then Some 1 else Some 0),
           sg_completed = (if finished then n else 0), sg_total = (if script = None then None else Some n), sg_failed = 0,
           sg_flagged = count_rows (\<lambda>c. sp_book_id c = book_id \<and> sp_current c \<and> sp_flags c \<noteq> []) (sw_chunks w) \<rparr>)"

definition tts_done :: "string \<Rightarrow> ('q, 's) speech_world \<Rightarrow> nat" where
  "tts_done book_id w = audio_count book_id AcGenerated (sw_audio w) + audio_count book_id AcValidated (sw_audio w)
     + audio_count book_id AcAssembled (sw_audio w)"

definition tts_stage :: "string \<Rightarrow> ('q, 's) speech_world \<Rightarrow> stage_progress" where
  "tts_stage book_id w =
     (let n = script_chunk_count book_id w; rendered = tts_done book_id w
      in \<lparr> sg_stage = StTts, sg_status = tts_status (group_count book_id (db_jobs w)) rendered (known n),
           sg_progress = map_option (capped_ratio rendered) (known n), sg_completed = rendered, sg_total = known n,
           sg_failed = audio_count book_id AcFailed (sw_audio w), sg_flagged = audio_count book_id AcInvalid (sw_audio w) \<rparr>)"

definition chapter_audio_count :: "string \<Rightarrow> chapter_audio_status \<Rightarrow> chapter_audio list \<Rightarrow> nat" where
  "chapter_audio_count book_id st t = count_rows (\<lambda>a. ca_book_id a = book_id \<and> ca_current a \<and> ca_status a = st) t"

definition assembly_stage :: "string \<Rightarrow> ('q, 's) speech_world \<Rightarrow> stage_progress" where
  "assembly_stage book_id w =
     (let n = count_rows (\<lambda>c. cr_book_id c = book_id) (iw_chapters w);
          assembled = chapter_audio_count book_id CaAssembled (sw_chapter_audios w)
      in \<lparr> sg_stage = StAssembly, sg_status = assembly_status (group_count book_id (db_jobs w)) assembled (known n),
           sg_progress = map_option (capped_ratio assembled) (known n), sg_completed = assembled, sg_total = known n,
           sg_failed = chapter_audio_count book_id CaInvalid (sw_chapter_audios w), sg_flagged = 0 \<rparr>)"

definition compute_stages :: "string \<Rightarrow> ('q, 's) speech_world \<Rightarrow> stage_progress list" where
  "compute_stages book_id w =
     [ingestion_stage book_id w, analysis_stage book_id w, director_stage book_id w, tts_stage book_id w, assembly_stage book_id w]"

subsection \<open>The read model\<close>

record job_summary =
  jm_active_ids :: "string list"
  jm_active_count :: nat
  jm_truncated :: bool
  jm_first_started :: "int option"

definition summarize_jobs :: "string \<Rightarrow> job list \<Rightarrow> job_summary" where
  "summarize_jobs book_id js =
     (let active = filter (\<lambda>j. jb_book_id j = Some book_id \<and> jb_status j \<in> set ACTIVE_JOB_STATUSES) js;
          shown = take 20 (rev (sort_key (\<lambda>j. jt_created (jb_times j)) active));
          started = map (\<lambda>j. the (jt_started (jb_times j)))
            (filter (\<lambda>j. jb_book_id j = Some book_id \<and> jt_started (jb_times j) \<noteq> None) js)
      in \<lparr> jm_active_ids = map jb_id shown, jm_active_count = length active, jm_truncated = (length active > length shown),
           jm_first_started = (if started = [] then None else Some (Min (set started))) \<rparr>)"

record estimate =
  es_remaining_ms :: "int option"
  es_confidence :: string
  es_basis :: "string option"
  es_computed_at :: string

definition no_estimate :: "int \<Rightarrow> estimate" where
  "no_estimate now = \<lparr> es_remaining_ms = None, es_confidence = ''NONE'', es_basis = None, es_computed_at = to_iso now \<rparr>"

definition compute_estimate :: "int \<Rightarrow> stage_progress list \<Rightarrow> int option \<Rightarrow> estimate" where
  "compute_estimate now stages first_started =
     (case (find_row (\<lambda>s. sg_status s = ''RUNNING'' \<or> sg_status s = ''QUEUED'') stages, first_started) of
        (Some s, Some t) \<Rightarrow>
          (case sg_total s of
             None \<Rightarrow> no_estimate now
           | Some n \<Rightarrow>
               let elapsed = now - t; remaining = int n - int (sg_completed s)
               in if sg_completed s = 0 \<or> elapsed \<le> 0 \<or> remaining \<le> 0 then no_estimate now
                  else \<lparr> es_remaining_ms = Some (js_round (of_int elapsed / of_nat (sg_completed s) * of_int remaining)),
                         es_confidence = ''LOW'', es_basis = Some ''COMPLETED_UNIT_RATE'', es_computed_at = to_iso now \<rparr>)
      | _ \<Rightarrow> no_estimate now)"

definition overall_progress :: "stage_progress list \<Rightarrow> rat option" where
  "overall_progress stages =
     (let ps = map (\<lambda>s. the (sg_progress s)) (filter (\<lambda>s. sg_progress s \<noteq> None) stages)
      in if ps = [] then None else Some (round4 (sum_list ps / of_nat (length ps))))"

record book_progress =
  bp_book_id :: string
  bp_book_status :: string
  bp_overall :: "rat option"
  bp_stages :: "stage_progress list"
  bp_active_jobs :: "string list"
  bp_needs_review :: bool
  bp_review_count :: nat
  bp_estimate :: estimate

definition get_book_progress :: "int \<Rightarrow> principal \<Rightarrow> string \<Rightarrow> ('q, 's) speech_world \<Rightarrow> thrown + book_progress" where
  "get_book_progress now who book_id w = bindE (require_owned_book who book_id w) (\<lambda>b.
     let stages = compute_stages book_id w; jobs = summarize_jobs book_id (db_jobs w)
     in Inr \<lparr> bp_book_id = book_id, bp_book_status = show_book_status (bk_status b), bp_overall = overall_progress stages,
          bp_stages = stages, bp_active_jobs = jm_active_ids jobs, bp_needs_review = bk_needs_review b,
          bp_review_count = sum_list (map sg_flagged stages),
          bp_estimate = compute_estimate now stages (jm_first_started jobs) \<rparr>)"

definition get_stage_summary :: "string \<Rightarrow> ('q, 's) speech_world \<Rightarrow> (stage_name \<times> string \<times> rat option \<times> nat \<times> nat option) list" where
  "get_stage_summary book_id w =
     map (\<lambda>s. (sg_stage s, sg_status s, sg_progress s, sg_completed s, sg_total s)) (compute_stages book_id w)"

end
