(* ===== verification/SpeechProperties.thy ===== *)
theory SpeechProperties
  imports Progress BookLaws Samples
begin

text \<open>
  What a start of a speech synthesis commits, which later starts it refuses, and what the progress of
  a book reports of both.
\<close>

subsection \<open>The rows of a start\<close>

text \<open>The columns of a job a dispatch leaves alone.\<close>

definition job_face :: "job \<Rightarrow> string \<times> string option \<times> string \<times> job_status \<times> string" where
  "job_face j = (jb_id j, jb_book_id j, jb_type j, jb_status j, jb_related_id j)"

lemma dispatch_face [simp]: "map job_face (db_jobs (snd (dispatch_speech bq now j w))) = map job_face (db_jobs w)"
proof -
  have keep: "map job_face (update_where P (touch now \<circ> set_queued now) js) = map job_face js" for P js
    by (induction js) (simp_all add: job_face_def touch_def set_queued_def)
  show ?thesis
    by (auto simp: dispatch_speech_def enqueue_processing_job_def update_job_Inr keep split: prod.splits sum.splits)
qed

lemma dispatch_frame [simp]: "sw_tts_jobs (snd (dispatch_speech bq now j w)) = sw_tts_jobs w" "iw_books (snd (dispatch_speech bq now j w)) = iw_books w"
  by (simp_all add: dispatch_speech_def split: prod.split)

lemma dispatch_all_step: "snd (dispatch_speech_all bq now (j # js) w) = snd (dispatch_speech_all bq now js (snd (dispatch_speech bq now j w)))"
  by (simp split: prod.split)

lemma dispatch_all_frame:
  "map job_face (db_jobs (snd (dispatch_speech_all bq now js w))) = map job_face (db_jobs w)"
  "sw_tts_jobs (snd (dispatch_speech_all bq now js w)) = sw_tts_jobs w"
  "iw_books (snd (dispatch_speech_all bq now js w)) = iw_books w"
  by (induction js arbitrary: w) (simp_all only: dispatch_all_step dispatch_face dispatch_frame dispatch_speech_all.simps(1) snd_conv)

lemma chunk_rows_created:
  assumes "create_chunk_rows rows k cs w = (Inr u, w')"
  defines "rs \<equiv> map (\<lambda>(n, c). rows n c) (enumerate k cs)"
  shows "db_jobs w' = db_jobs w @ map fst rs \<and> sw_tts_jobs w' = sw_tts_jobs w @ map snd rs \<and> iw_books w' = iw_books w
    \<and> (\<forall>r \<in> set rs. (\<forall>j \<in> set (db_jobs w). \<not> job_clash (fst r) j) \<and> (\<forall>t \<in> set (sw_tts_jobs w). \<not> tts_clash (snd r) t))
    \<and> (distinct (map tj_dedupe_key (sw_tts_jobs w)) \<longrightarrow> distinct (map tj_dedupe_key (sw_tts_jobs w')))"
  using assms(1) unfolding rs_def
proof (induction cs arbitrary: k w)
  case (Cons c cs)
  then obtain js ts where js: "create_row job_clash (fst (rows k c)) (db_jobs w) = Inr js"
    and ts: "create_row tts_clash (snd (rows k c)) (sw_tts_jobs w) = Inr ts"
    and rest: "create_chunk_rows rows (k + 1) cs (w\<lparr> db_jobs := js, sw_tts_jobs := ts \<rparr>) = (Inr u, w')"
    by (auto simp: seqE_Inr elim!: on_table_cases)
  note j = create_row_Inr [OF js] and t = create_row_Inr [OF ts]
  have keys: "distinct (map tj_dedupe_key (sw_tts_jobs w)) \<Longrightarrow> distinct (map tj_dedupe_key ts)"
    using t by (auto simp: tts_clash_def)
  note ih = Cons.IH [OF rest, simplified]
  show ?case
  proof (intro conjI)
    show "distinct (map tj_dedupe_key (sw_tts_jobs w)) \<longrightarrow> distinct (map tj_dedupe_key (sw_tts_jobs w'))"
      using keys ih by blast
  qed (use ih j t in auto)
qed simp

lemma updated_row: "(\<And>r. Q (f r)) \<Longrightarrow> \<forall>b \<in> set (update_where P f t). P b \<longrightarrow> Q b"
  by (auto simp: set_update_where)

text \<open>A start that is accepted and has something to render.\<close>

lemma start_tts_created:
  assumes "start_tts dp ev who book_id body w = (Inr acc, w')" "ta_job acc = Some i"
  obtains pl rs where "plan_tts who book_id body w = Inr pl" "tp_targets pl \<noteq> []" "i = be_id ev 0"
    "ta_planned acc = length (tp_targets pl)" "ta_skipped acc = length (tp_chunks pl) - length (tp_targets pl)"
    "rs = map (\<lambda>(n, c). rows_of dp ev who book_id body pl (sw_voices w) n c) (enumerate 0 (tp_targets pl))"
    "map job_face (db_jobs w') = map job_face (db_jobs w @ coordinator_job ev who book_id body pl # map fst rs)"
    "sw_tts_jobs w' = sw_tts_jobs w @ map snd rs"
    "\<forall>b \<in> set (iw_books w'). bk_id b = book_id \<longrightarrow> bk_status b = BGenerating"
    "distinct (map tj_dedupe_key (sw_tts_jobs w)) \<longrightarrow> distinct (map tj_dedupe_key (sw_tts_jobs w'))"
proof -
  from assms obtain pl u1 w1 u2 where pl: "plan_tts who book_id body w = Inr pl" "tp_targets pl \<noteq> []"
    and tx: "create_tts_rows dp ev who book_id body pl w = (Inr u1, w1)"
    and d: "dispatch_speech_all (bd_broker dp) (be_now ev) (planned_jobs dp ev who book_id body pl (sw_voices w)) w1 = (Inr u2, w')"
    and acc: "i = be_id ev 0" "ta_planned acc = length (tp_targets pl)" "ta_skipped acc = length (tp_chunks pl) - length (tp_targets pl)"
    by (auto simp: start_tts_def seqE_Inr Let_def split: if_splits)
  define rs where "rs = map (\<lambda>(n, c). rows_of dp ev who book_id body pl (sw_voices w) n c) (enumerate 0 (tp_targets pl))"
  let ?f = "\<lambda>b. b\<lparr> bk_status := BGenerating, bk_status_changed := be_now ev, bk_updated := be_now ev \<rparr>"
  have "seqE (aw_jobs (create_row job_clash (coordinator_job ev who book_id body pl))) (\<lambda>_.
     seqE (create_chunk_rows (rows_of dp ev who book_id body pl (sw_voices w)) 0 (tp_targets pl)) (\<lambda>_.
     aw_books (update_book book_id ?f))) w = (Inr u1, w1)"
    using with_transaction_Inr [OF tx [unfolded create_tts_rows_def]] .
  then obtain js v w2 bs where js: "create_row job_clash (coordinator_job ev who book_id body pl) (db_jobs w) = Inr js"
    and rows: "create_chunk_rows (rows_of dp ev who book_id body pl (sw_voices w)) 0 (tp_targets pl) (w\<lparr> db_jobs := js \<rparr>) = (Inr v, w2)"
    and bs: "update_book book_id ?f (iw_books w2) = Inr bs" "w1 = w2\<lparr> iw_books := bs \<rparr>"
    by (auto simp: seqE_Inr elim!: on_table_cases)
  note made = chunk_rows_created [OF rows, folded rs_def]
  note frame = dispatch_all_frame [of "bd_broker dp" "be_now ev" "planned_jobs dp ev who book_id body pl (sw_voices w)" w1, unfolded d snd_conv]
  have faces: "map job_face (db_jobs w') = map job_face (db_jobs w @ coordinator_job ev who book_id body pl # map fst rs)"
    using frame(1) made bs(2) create_row_Inr [OF js] by simp
  have tts: "sw_tts_jobs w' = sw_tts_jobs w @ map snd rs"
    using frame(2) made bs(2) by simp
  have books: "\<forall>b \<in> set (iw_books w'). bk_id b = book_id \<longrightarrow> bk_status b = BGenerating"
  proof -
    have u: "bs = update_where (\<lambda>b. bk_id b = book_id) ?f (iw_books w2)"
      using bs(1) by (simp add: update_book_def split: option.splits)
    have t: "iw_books w' = bs" unfolding frame(3) bs(2) by simp
    show ?thesis unfolding t u by (rule updated_row) simp
  qed
  have keys: "distinct (map tj_dedupe_key (sw_tts_jobs w)) \<longrightarrow> distinct (map tj_dedupe_key (sw_tts_jobs w'))"
  proof -
    have t: "sw_tts_jobs w' = sw_tts_jobs w2" unfolding frame(2) bs(2) by simp
    have "distinct (map tj_dedupe_key (sw_tts_jobs w)) \<longrightarrow> distinct (map tj_dedupe_key (sw_tts_jobs w2))"
      by (rule impI, rule mp [OF conjunct2 [OF conjunct2 [OF conjunct2 [OF conjunct2 [OF made]]]]]) simp
    then show ?thesis unfolding t .
  qed
  show ?thesis by (rule that [OF pl acc rs_def faces tts books keys])
qed

lemma plan_tts_sound:
  assumes "plan_tts who book_id body w = Inr pl"
  shows "as_state (tp_script pl) = ScriptValidated \<and> tp_script pl \<in> set (sw_scripts w) \<and> set (tp_targets pl) \<subseteq> set (tp_chunks pl)
    \<and> (\<forall>c \<in> set (tp_chunks pl). c \<in> set (sw_chunks w) \<and> sp_script_id c = as_id (tp_script pl) \<and> sp_book_id c = book_id \<and> sp_current c
        \<and> truthy (sp_voice c) \<and> \<not> unapproved (sw_voices w) c)
    \<and> (\<not> st_force body \<longrightarrow> tp_targets pl = filter (\<lambda>c. \<not> already_generated (sw_audio w) c) (tp_chunks pl))
    \<and> (st_force body \<longrightarrow> tp_targets pl = tp_chunks pl)
    \<and> (tp_priority pl = ''INTERACTIVE'' \<longrightarrow> length (tp_targets pl) \<le> 50)"
proof -
  from assms obtain b :: book and s matches where b: "find_row (\<lambda>s. Some (as_id s) = bk_current_script b) (sw_scripts w) = Some s"
    and s: "as_state s = ScriptValidated" and m: "resolve_chunk_where (as_id s) book_id body w = Inr matches"
    and plan: "plan_chunks body w s matches = Inr pl"
    by (auto simp: plan_tts_def bindE_eq_Inr split: if_split_asm option.split_asm)
  define cs where "cs = sort_key sp_sequence (filter matches (sw_chunks w))"
  have ok: "check_chunks (sw_voices w) cs = Inr ()" and pl: "tp_script pl = s" "tp_chunks pl = cs"
      "tp_targets pl = (if st_force body then cs else filter_already_generated (sw_audio w) cs)"
    and bound: "tp_priority pl = ''INTERACTIVE'' \<longrightarrow> length (tp_targets pl) \<le> 50"
    using plan unfolding plan_chunks_def cs_def [symmetric] by (auto simp: bindE_eq_Inr Let_def split: if_splits)
  have "sp_script_id c = as_id s \<and> sp_book_id c = book_id \<and> sp_current c" if "matches c" for c
    using m that by (auto simp: resolve_chunk_where_def Let_def split: tts_scope.splits option.splits if_splits)
  moreover have "truthy (sp_voice c) \<and> \<not> unapproved (sw_voices w) c" if "c \<in> set cs" for c
    using ok that by (auto simp: check_chunks_def Let_def filter_empty_conv split: if_splits)
  ultimately show ?thesis
    using find_row_Some [OF b] s bound by (auto simp: pl filter_already_generated_def) (auto simp: cs_def)
qed


subsection \<open>Starts that are refused\<close>

text \<open>A row of the transaction that clashes takes the whole start with it.\<close>

lemma start_tts_refused:
  assumes pl: "plan_tts who book_id body w = Inr pl" and c: "c \<in> set (tp_targets pl)" "voice_of (sw_voices w) c = Some v"
    and taken: "(\<exists>t \<in> set (sw_tts_jobs w). tj_dedupe_key t = tts_dedupe_key (bd_sha256 dp) c v (force_token ev body))
      \<or> (\<exists>k \<in> set (db_jobs w). live_key k \<and> jb_tenant_id k = tenant_id who \<and> jb_idem_key k = tts_job_key c v)"
  shows "\<exists>e. start_tts dp ev who book_id body w = (Inl e, w)"
proof -
  have "tp_targets pl \<noteq> []" using c(1) by auto
  obtain r w1 where tx: "create_tts_rows dp ev who book_id body pl w = (r, w1)" by fastforce
  show ?thesis
  proof (cases r)
    case (Inl e)
    have "w1 = w" by (rule with_transaction_Inl [OF tx [unfolded Inl create_tts_rows_def]])
    then have "create_tts_rows dp ev who book_id body pl w = (Inl e, w)" using tx Inl by simp
    then have "seqE (create_tts_rows dp ev who book_id body pl) f w = (Inl e, w)" for f by (simp add: seqE_def)
    then show ?thesis
      unfolding start_tts_def seqE_readE pl sum.case Let_def if_not_P [OF \<open>tp_targets pl \<noteq> []\<close>] by blast
  next
    case (Inr u)
    define rs where "rs = map (\<lambda>(n, c). rows_of dp ev who book_id body pl (sw_voices w) n c) (enumerate 0 (tp_targets pl))"
    from tx Inr obtain js x w2 where js: "create_row job_clash (coordinator_job ev who book_id body pl) (db_jobs w) = Inr js"
      and rows: "create_chunk_rows (rows_of dp ev who book_id body pl (sw_voices w)) 0 (tp_targets pl) (w\<lparr> db_jobs := js \<rparr>) = (Inr x, w2)"
      unfolding create_tts_rows_def by (auto dest!: with_transaction_Inr simp: seqE_Inr elim!: on_table_cases)
    obtain n where n: "(n, c) \<in> set (enumerate 0 (tp_targets pl))"
      using c(1) by (force simp: enumerate_eq_zip set_zip in_set_conv_nth)
    let ?r = "rows_of dp ev who book_id body pl (sw_voices w) n c"
    have "?r \<in> set rs" unfolding rs_def using n by force
    with chunk_rows_created [OF rows, folded rs_def] have "(\<forall>j \<in> set js. \<not> job_clash (fst ?r) j) \<and> (\<forall>t \<in> set (sw_tts_jobs w). \<not> tts_clash (snd ?r) t)"
      by simp
    moreover have "set (db_jobs w) \<subseteq> set js" using create_row_Inr [OF js] by auto
    moreover have "snd ?r = chunk_tts_job (bd_sha256 dp) ev who book_id body n c v" "fst ?r = chunk_job (bd_sha256 dp) ev who book_id body pl n c v"
      by (simp_all add: rows_of_def c(2))
    ultimately show ?thesis
      using taken by (auto simp: tts_clash_def chunk_tts_job_def job_clash_def chunk_job_def fresh_job_def live_key_def Let_def)
  qed
qed


text \<open>A forced start has a key of its own for the synthesis, but not for its job.\<close>

lemma forced_render_refused:
  assumes "plan_tts who book_id body w = Inr pl" "c \<in> set (tp_targets pl)" "voice_of (sw_voices w) c = Some v"
    and "k \<in> set (db_jobs w)" "jb_status k = SUCCEEDED" "jb_tenant_id k = tenant_id who" "jb_idem_key k = tts_job_key c v"
  shows "\<exists>e. start_tts dp ev who book_id body w = (Inl e, w)"
proof (rule start_tts_refused [OF assms(1-3)], rule disjI2, rule bexI [OF _ assms(4)])
  show "live_key k \<and> jb_tenant_id k = tenant_id who \<and> jb_idem_key k = tts_job_key c v" using assms(5-7) by (simp add: live_key_def)
qed

subsection \<open>What the progress reports\<close>

lemma group_count_pos: "j \<in> set js \<Longrightarrow> jb_book_id j = Some i \<Longrightarrow> 0 < group_count i js (jb_type j) (jb_status j)"
  by (auto simp: group_count_def count_rows_def length_greater_0_conv filter_empty_conv)

lemma index_count_pos: "0 < ix ty st \<Longrightarrow> ty \<in> set types \<Longrightarrow> st \<in> set statuses \<Longrightarrow> 0 < index_count ix types statuses"
  unfolding index_count_def by (rule ccontr) (auto simp: sum_list_eq_0_iff)

lemma index_count_none:
  "(\<And>ty st. ty \<in> set types \<Longrightarrow> st \<in> set statuses \<Longrightarrow> ix ty st = 0) \<Longrightarrow> index_count ix types statuses = 0"
  by (auto simp: index_count_def sum_list_eq_0_iff)

lemma derived_succeeded:
  assumes "0 < ix ty SUCCEEDED" "ty \<in> set (stage_job_types stage)"
  shows "job_derived_status stage ix \<notin> {''FAILED'', ''CANCELLED'', ''NOT_STARTED''}"
  using index_count_pos [where ix = ix, OF assms, of "[SUCCEEDED]"] by (simp add: job_derived_status_def Let_def)

text \<open>
  C26: Once a synthesis has been started, the progress never reports the stage as failed, as cancelled or as not started,
  even when every job that renders a chunk has failed or was cancelled: the coordinator the start commits is a finished
  job of the same type, and one finished job hides the rest.
\<close>

theorem tts_failures_hidden:
  assumes "start_tts dp ev who book_id body w = (Inr acc, w')" "ta_job acc = Some i"
    and "job_face ` set (db_jobs w') \<inter> {f. fst f = i} \<subseteq> job_face ` set (db_jobs later)"
  shows "sg_status (tts_stage book_id later) \<notin> {''FAILED'', ''CANCELLED'', ''NOT_STARTED''}"
proof -
  from start_tts_created [OF assms(1,2)] obtain pl and rs :: "(job \<times> tts_job) list" where i: "i = be_id ev 0"
    and faces: "map job_face (db_jobs w') = map job_face (db_jobs w @ coordinator_job ev who book_id body pl # map fst rs)" by metis
  have face: "job_face (coordinator_job ev who book_id body pl) = (i, Some book_id, ''generate_tts_chunk'', SUCCEEDED, as_id (tp_script pl))"
    by (simp add: i job_face_def coordinator_job_def service_job_def fresh_job_def set_completed_def Let_def)
  have "job_face (coordinator_job ev who book_id body pl) \<in> set (map job_face (db_jobs w'))" unfolding faces by simp
  then have "job_face (coordinator_job ev who book_id body pl) \<in> job_face ` set (db_jobs later)"
    using subsetD [OF assms(3), of "job_face (coordinator_job ev who book_id body pl)"] face by simp
  then obtain k where k: "k \<in> set (db_jobs later)" "jb_book_id k = Some book_id" "jb_type k = ''generate_tts_chunk''" "jb_status k = SUCCEEDED"
    unfolding face by (auto simp: job_face_def)
  have "0 < group_count book_id (db_jobs later) ''generate_tts_chunk'' SUCCEEDED" using group_count_pos [OF k(1,2)] k(3,4) by simp
  from derived_succeeded [where ix = "group_count book_id (db_jobs later)" and stage = StTts, OF this]
  have "job_derived_status StTts (group_count book_id (db_jobs later)) \<notin> {''FAILED'', ''CANCELLED'', ''NOT_STARTED''}" by simp
  then show ?thesis by (auto simp: tts_stage_def tts_status_def Let_def split: option.splits nat.splits)
qed

text \<open>
  The comment of the service promises that no stage is reported complete on the strength of its jobs alone; the
  analysis is, when one of its jobs has finished and the others have failed.
\<close>

lemma analysis_completed_by_one_job:
  assumes "j \<in> set (db_jobs w)" "jb_book_id j = Some book_id" "jb_type j = ''analyze_scene''" "jb_status j = SUCCEEDED"
    and "\<And>k. k \<in> set (db_jobs w) \<Longrightarrow> jb_status k \<notin> set ACTIVE_JOB_STATUSES"
  shows "sg_status (analysis_stage book_id w) = ''COMPLETED''"
proof -
  let ?ix = "group_count book_id (db_jobs w)"
  have none: "index_count ?ix types statuses = 0" if "set statuses \<subseteq> set ACTIVE_JOB_STATUSES" for types statuses
    using assms(5) that by (intro index_count_none) (auto simp: group_count_def count_rows_def filter_empty_conv)
  have "0 < index_count ?ix (stage_job_types StAnalysis) [SUCCEEDED]"
    using group_count_pos [OF assms(1,2)] assms(3,4) by (intro index_count_pos [where ty = "''analyze_scene''" and st = SUCCEEDED]) simp_all
  then show ?thesis
    by (simp add: analysis_stage_def stage_status_def job_derived_status_def none ACTIVE_JOB_STATUSES_def Let_def)
qed

text \<open>Fractions.\<close>

lemma js_round_mono: "x \<le> y \<Longrightarrow> js_round x \<le> js_round y"
  by (simp add: js_round_def floor_mono)

lemma js_round_int [simp]: "js_round (of_int n) = n"
  by (simp add: js_round_def floor_eq_iff)

lemma round4_bounds: "0 \<le> x \<Longrightarrow> x \<le> 1 \<Longrightarrow> 0 \<le> round4 x \<and> round4 x \<le> 1"
  using js_round_mono [of 0 "x * 10000"] js_round_mono [of "x * 10000" 10000] js_round_int [of 0] js_round_int [of 10000]
  by (simp add: round4_def)

lemma capped_ratio_bounds: "0 < n \<Longrightarrow> 0 \<le> capped_ratio k n \<and> capped_ratio k n \<le> 1"
  unfolding capped_ratio_def by (rule round4_bounds) (simp_all add: min_def)

lemma mean_bounds: "xs \<noteq> [] \<Longrightarrow> \<forall>x \<in> set xs. 0 \<le> x \<and> x \<le> (1::rat) \<Longrightarrow> 0 \<le> sum_list xs / of_nat (length xs) \<and> sum_list xs / of_nat (length xs) \<le> 1"
proof -
  assume xs: "xs \<noteq> []" "\<forall>x \<in> set xs. 0 \<le> x \<and> x \<le> (1::rat)"
  have "0 \<le> sum_list xs \<and> sum_list xs \<le> of_nat (length xs)" using xs(2) by (induction xs) auto
  then show ?thesis using xs(1) by (simp add: divide_le_eq_1)
qed

lemma ratio_bounds: "ratio k n st = Some x \<Longrightarrow> 0 \<le> x \<and> x \<le> 1"
  using capped_ratio_bounds [of _ k] by (cases n rule: option.exhaust; simp add: ratio_def split: nat.splits if_splits) force+

lemma known_bounds: "map_option (capped_ratio k) (known n) = Some x \<Longrightarrow> 0 \<le> x \<and> x \<le> 1"
  using capped_ratio_bounds [of n k] by (auto simp: known_def split: if_splits)

lemma stage_fractions:
  "sg_progress (ingestion_stage i w) = Some x \<Longrightarrow> 0 \<le> x \<and> x \<le> 1" "sg_progress (analysis_stage i w) = Some x \<Longrightarrow> 0 \<le> x \<and> x \<le> 1"
  "sg_progress (director_stage i w) = Some x \<Longrightarrow> 0 \<le> x \<and> x \<le> 1" "sg_progress (tts_stage i w) = Some x \<Longrightarrow> 0 \<le> x \<and> x \<le> 1"
  "sg_progress (assembly_stage i w) = Some x \<Longrightarrow> 0 \<le> x \<and> x \<le> 1"
proof -
  show "sg_progress (ingestion_stage i w) = Some x \<Longrightarrow> 0 \<le> x \<and> x \<le> 1"
    unfolding ingestion_stage_def Let_def stage_progress.simps by (rule ratio_bounds)
  show "sg_progress (analysis_stage i w) = Some x \<Longrightarrow> 0 \<le> x \<and> x \<le> 1"
    unfolding analysis_stage_def Let_def stage_progress.simps using capped_ratio_bounds by (clarsimp split: if_split_asm)
  show "sg_progress (director_stage i w) = Some x \<Longrightarrow> 0 \<le> x \<and> x \<le> 1"
    unfolding director_stage_def Let_def stage_progress.simps by (clarsimp split: if_split_asm)
  show "sg_progress (tts_stage i w) = Some x \<Longrightarrow> 0 \<le> x \<and> x \<le> 1"
    unfolding tts_stage_def Let_def stage_progress.simps by (rule known_bounds)
  show "sg_progress (assembly_stage i w) = Some x \<Longrightarrow> 0 \<le> x \<and> x \<le> 1"
    unfolding assembly_stage_def Let_def stage_progress.simps by (rule known_bounds)
qed

lemma stage_bounds: "s \<in> set (compute_stages i w) \<Longrightarrow> sg_progress s = Some x \<Longrightarrow> 0 \<le> x \<and> x \<le> 1"
  unfolding compute_stages_def list.set by (elim insertE emptyE; hypsubst; erule stage_fractions)

lemma js_round_nonneg: "0 \<le> x \<Longrightarrow> 0 \<le> js_round x"
  by (simp add: js_round_def)

lemma estimate_cases:
  obtains "compute_estimate now stages t = no_estimate now"
  | ms where "0 \<le> ms" "es_remaining_ms (compute_estimate now stages t) = Some ms" "es_confidence (compute_estimate now stages t) = ''LOW''"
proof (cases "compute_estimate now stages t = no_estimate now")
  case False
  then obtain s t' n where s: "find_row (\<lambda>s. sg_status s = ''RUNNING'' \<or> sg_status s = ''QUEUED'') stages = Some s" "t = Some t'" "sg_total s = Some n"
    by (auto simp: compute_estimate_def split: option.splits)
  let ?ms = "js_round (of_int (now - t') / of_nat (sg_completed s) * of_int (int n - int (sg_completed s)))"
  from False have c: "\<not> (sg_completed s = 0 \<or> now - t' \<le> 0 \<or> int n - int (sg_completed s) \<le> 0)"
    unfolding compute_estimate_def s prod.case option.case Let_def by meson
  have "0 \<le> ?ms"
    by (rule js_round_nonneg, rule mult_nonneg_nonneg) (use c in simp_all)
  moreover have "es_remaining_ms (compute_estimate now stages t) = Some ?ms" "es_confidence (compute_estimate now stages t) = ''LOW''"
    unfolding compute_estimate_def s prod.case option.case Let_def if_not_P [OF c] estimate.simps by (rule refl)+
  ultimately show ?thesis using that(2) by blast
qed (use that(1) in blast)

lemma estimate_honest:
  "(es_remaining_ms (compute_estimate now stages t) = None) = (es_confidence (compute_estimate now stages t) = ''NONE'')"
  "es_remaining_ms (compute_estimate now stages t) = Some ms \<Longrightarrow> 0 \<le> ms"
  by (cases rule: estimate_cases [of now stages t]; simp add: no_estimate_def)+

text \<open>
  C31: Every fraction the progress of a book reports lies between zero and one, the overall one too, which is
  known exactly when that of some stage is.  An estimate has a remaining time exactly when its confidence is not
  \<open>NONE\<close>, and that time is not negative.
\<close>

theorem progress_bounded:
  assumes "get_book_progress now who i w = Inr p"
  shows "list_all (\<lambda>s. case sg_progress s of None \<Rightarrow> True | Some x \<Rightarrow> 0 \<le> x \<and> x \<le> 1) (bp_stages p)
    \<and> (case bp_overall p of None \<Rightarrow> list_all (\<lambda>s. sg_progress s = None) (bp_stages p)
        | Some x \<Rightarrow> 0 \<le> x \<and> x \<le> 1 \<and> list_ex (\<lambda>s. sg_progress s \<noteq> None) (bp_stages p))
    \<and> (es_remaining_ms (bp_estimate p) = None) = (es_confidence (bp_estimate p) = ''NONE'')
    \<and> (case es_remaining_ms (bp_estimate p) of None \<Rightarrow> True | Some ms \<Rightarrow> 0 \<le> ms)"
proof -
  let ?s = "compute_stages i w" and ?xs = "map (\<lambda>s. the (sg_progress s)) (filter (\<lambda>s. sg_progress s \<noteq> None) (compute_stages i w))"
  have p: "bp_stages p = ?s" "bp_overall p = overall_progress ?s"
    "bp_estimate p = compute_estimate now ?s (jm_first_started (summarize_jobs i (db_jobs w)))"
    using assms by (auto simp: get_book_progress_def bindE_eq_Inr Let_def)
  have xs: "\<forall>x \<in> set ?xs. 0 \<le> x \<and> x \<le> 1" using stage_bounds [of _ i w] by auto
  have "case overall_progress ?s of None \<Rightarrow> list_all (\<lambda>s. sg_progress s = None) ?s
      | Some x \<Rightarrow> 0 \<le> x \<and> x \<le> 1 \<and> list_ex (\<lambda>s. sg_progress s \<noteq> None) ?s"
  proof (cases "?xs = []")
    case True
    then show ?thesis by (auto simp: overall_progress_def filter_empty_conv list_all_iff)
  next
    case False
    then have "overall_progress ?s = Some (round4 (sum_list ?xs / of_nat (length ?xs)))" by (simp add: overall_progress_def Let_def)
    moreover have "list_ex (\<lambda>s. sg_progress s \<noteq> None) ?s" using False by (auto simp: list_ex_iff filter_empty_conv)
    ultimately show ?thesis using round4_bounds mean_bounds [OF False xs] by simp
  qed
  moreover have "list_all (\<lambda>s. case sg_progress s of None \<Rightarrow> True | Some x \<Rightarrow> 0 \<le> x \<and> x \<le> 1) ?s"
    using stage_bounds [of _ i w] by (auto simp: list_all_iff split: option.splits)
  ultimately show ?thesis
    unfolding p using estimate_honest by (auto split: option.splits)
qed

subsection \<open>A sample\<close>

definition speech_deps :: "(unit, unit, unit) books_deps" where
  "speech_deps = \<lparr> bd_sha256 = (\<lambda>b. ''h'' @ show_nat (length b)), bd_file_type = (\<lambda>_. None), bd_config = DEFAULT_INGESTION_CONFIG,
     bd_broker = sample_broker, bd_redis = \<lparr> redis_set_ex = (\<lambda>_ _ _ s. (Inr (), s)), redis_get = (\<lambda>_ _. Inr None),
       redis_del = (\<lambda>_ s. (Inr (), s)) \<rparr>, bd_ttl = (\<lambda>_ _. Inr 60), bd_get = (\<lambda>_ _. Inr []), bd_head = (\<lambda>_ _. Inr None),
     bd_sign = (\<lambda>_ _ _ _. Inr []) \<rparr>"

definition speech_env :: "char \<Rightarrow> books_env" where
  "speech_env c = \<lparr> be_now = 5000, be_id = (\<lambda>k. if k = 0 then [c, CHR ''0''] else if k = 1 then [c, CHR ''1''] else [c, CHR ''2'']),
     be_event = (''m'', ''e''), be_usage_id = ''u'', be_usage_ok = True \<rparr>"

definition speech_body :: start_tts_body where
  "speech_body = \<lparr> st_scope = TtsBook, st_chapter_ids = None, st_chunk_ids = None, st_filter = None, st_force = False, st_priority = None \<rparr>"

definition sample_speech_chunk :: speech_chunk where
  "sample_speech_chunk = \<lparr> sp_id = ''k1'', sp_book_id = ''b1'', sp_script_id = ''s1'', sp_chapter_id = ''c1'', sp_sequence = 0, sp_version = 1,
     sp_current = True, sp_voice = Some ''v1'', sp_source_hash = ''x'', sp_seed = None, sp_sample_rate = None, sp_channels = None,
     sp_flags = [], sp_audio = None \<rparr>"

definition sample_voice :: voice_version where
  "sample_voice = \<lparr> vv_id = ''v1'', vv_version = 1, vv_profile_id = ''p1'', vv_provider = ''pv'', vv_model_version = ''mv'', vv_params = JNull,
     vv_params_hash = ''ph'', vv_approval = ''APPROVED'' \<rparr>"

definition sample_script_row :: audio_script where
  "sample_script_row = \<lparr> as_id = ''s1'', as_book_id = ''b1'', as_current = True, as_state = ScriptValidated, as_source_hash = ''x'' \<rparr>"

definition sample_speech :: "(unit, unit) speech_world" where
  "sample_speech = \<lparr> db_jobs = [], db_outbox = [], iw_books = [sample_book\<lparr> bk_current_script := Some ''s1'' \<rparr>], iw_versions = [],
     iw_pages = [], iw_chapters = [], iw_sections = [], iw_paragraphs = [], iw_store = (), sw_scripts = [sample_script_row],
     sw_chunks = [sample_speech_chunk], sw_voices = [sample_voice], sw_audio = [], sw_tts_jobs = [], sw_scenes = [], sw_semantics = [],
     sw_chapter_audios = [], sw_queue = () \<rparr>"

text \<open>The tables a plan reads.\<close>

definition planned_alike :: "('q, 's) speech_world \<Rightarrow> bool" where
  "planned_alike w \<longleftrightarrow> (\<exists>b. iw_books w = [b] \<and> bk_id b = ''b1'' \<and> bk_tenant_id b = ''t1'' \<and> bk_current_script b = Some ''s1'')
     \<and> sw_scripts w = [sample_script_row] \<and> sw_chunks w = [sample_speech_chunk] \<and> sw_voices w = [sample_voice] \<and> sw_audio w = []"

definition sample_plan :: tts_plan where
  "sample_plan = \<lparr> tp_script = sample_script_row, tp_chunks = [sample_speech_chunk], tp_targets = [sample_speech_chunk], tp_priority = ''NORMAL'' \<rparr>"

lemma sample_voice_of: "voice_of [sample_voice] sample_speech_chunk = Some sample_voice"
  by (simp add: voice_of_def sample_voice_def sample_speech_chunk_def)

lemma sample_planned:
  assumes "planned_alike w"
  shows "plan_tts sample_who ''b1'' speech_body w = Inr sample_plan"
proof -
  from assms obtain b where b: "iw_books w = [b]" "bk_id b = ''b1''" "bk_tenant_id b = ''t1''" "bk_current_script b = Some ''s1''"
    and t: "sw_scripts w = [sample_script_row]" "sw_chunks w = [sample_speech_chunk]" "sw_voices w = [sample_voice]" "sw_audio w = []"
    by (auto simp: planned_alike_def)
  have owned: "require_owned_book sample_who ''b1'' w = Inr b"
    unfolding require_owned_book_Inr by (simp add: b sample_who_def)
  have row: "as_id sample_script_row = ''s1''" "as_state sample_script_row = ScriptValidated" by (simp_all add: sample_script_row_def)
  have match: "resolve_chunk_where ''s1'' ''b1'' speech_body w = Inr (\<lambda>c. sp_script_id c = ''s1'' \<and> sp_book_id c = ''b1'' \<and> sp_current c)"
    by (simp add: resolve_chunk_where_def speech_body_def)
  have chunks: "filter (\<lambda>c. sp_script_id c = ''s1'' \<and> sp_book_id c = ''b1'' \<and> sp_current c) [sample_speech_chunk] = [sample_speech_chunk]"
    by (simp add: sample_speech_chunk_def)
  have ok: "check_chunks [sample_voice] [sample_speech_chunk] = Inr ()"
    by (simp add: check_chunks_def unapproved_def sample_voice_of) (simp add: sample_voice_def sample_speech_chunk_def PRODUCTION_APPROVAL_STATES_def truthy_def)
  have "filter_already_generated [] [sample_speech_chunk] = [sample_speech_chunk]"
    by (simp add: filter_already_generated_def already_generated_def)
  then have "plan_chunks speech_body w sample_script_row (\<lambda>c. sp_script_id c = ''s1'' \<and> sp_book_id c = ''b1'' \<and> sp_current c) = Inr sample_plan"
    unfolding plan_chunks_def t chunks by (simp add: ok Let_def sample_plan_def speech_body_def)
  then show ?thesis
    unfolding plan_tts_def owned by (simp add: b(4) t(1) row match truthy_def)
qed

lemma speech_budget:
  "assert_queue_payload_size_budget (JObj [(''job_id'', JStr ''a1''), (''entity_id'', JStr ''a2''), (''correlation_id'', JStr ''a0''),
     (''tenant_id'', JStr ''t1''), (''payload'', JObj [(''tts_job_id'', JStr ''a2'')])]) = Inr ()"
proof (rule budget_ok)
  show "2 * length (json_stringify (JObj [(''job_id'', JStr ''a1''), (''entity_id'', JStr ''a2''), (''correlation_id'', JStr ''a0''),
     (''tenant_id'', JStr ''t1''), (''payload'', JObj [(''tts_job_id'', JStr ''a2'')])])) \<le> QUEUE_PAYLOAD_CEILING_BYTES"
    using length_stringify_str [of "''job_id''"] length_stringify_str [of "''entity_id''"] length_stringify_str [of "''correlation_id''"]
      length_stringify_str [of "''tenant_id''"] length_stringify_str [of "''payload''"] length_stringify_str [of "''tts_job_id''"]
      length_stringify_str [of "''a1''"] length_stringify_str [of "''a2''"] length_stringify_str [of "''a0''"] length_stringify_str [of "''t1''"]
    by (simp add: QUEUE_PAYLOAD_CEILING_BYTES_def)
qed

lemma sample_alike: "planned_alike sample_speech"
  by (simp add: planned_alike_def sample_speech_def sample_book_def)

lemma sample_speech_started:
  "\<exists>acc w'. start_tts speech_deps (speech_env (CHR ''a'')) sample_who ''b1'' speech_body sample_speech = (Inr acc, w')
    \<and> ta_job acc = Some ''a0'' \<and> planned_alike w'"
proof -
  let ?ev = "speech_env (CHR ''a'')" and ?w = sample_speech
  let ?j = "coordinator_job ?ev sample_who ''b1'' speech_body sample_plan"
  let ?r = "rows_of speech_deps ?ev sample_who ''b1'' speech_body sample_plan [sample_voice] 0 sample_speech_chunk"
  have ids: "jb_id ?j = ''a0''" "jb_id (fst ?r) = ''a1''" "tj_id (snd ?r) = ''a2''" "jb_idem_key (fst ?r) \<noteq> jb_idem_key ?j"
    by (simp_all add: coordinator_job_def service_job_def fresh_job_def set_completed_def rows_of_def sample_voice_of chunk_job_def
      chunk_tts_job_def speech_env_def tts_job_key_def Let_def sample_who_def)
  have env: "the (jb_envelope (fst ?r)) = JObj [(''job_id'', JStr ''a1''), (''entity_id'', JStr ''a2''), (''correlation_id'', JStr ''a0''),
     (''tenant_id'', JStr ''t1''), (''payload'', JObj [(''tts_job_id'', JStr ''a2'')])]"
    by (simp add: rows_of_def sample_voice_of chunk_job_def fresh_job_def speech_env_def sample_who_def Let_def)
  let ?f = "\<lambda>b. b\<lparr> bk_status := BGenerating, bk_status_changed := be_now ?ev, bk_updated := be_now ?ev \<rparr>"
  let ?w1 = "?w\<lparr> db_jobs := [?j, fst ?r], sw_tts_jobs := [snd ?r], iw_books := map ?f (iw_books ?w) \<rparr>"
  have plan: "tp_targets sample_plan = [sample_speech_chunk]" by (simp add: sample_plan_def)
  have clash: "\<not> job_clash (fst ?r) ?j" using ids by (simp add: job_clash_def)
  have made: "create_tts_rows speech_deps ?ev sample_who ''b1'' speech_body sample_plan ?w = (Inr (), ?w1)"
    unfolding create_tts_rows_def
    by (rule with_transaction_commit)
      (simp add: seqE_def on_table_def create_row_def insert_row_def sample_speech_def plan clash update_book_def sample_book_def
        find_row_def)
  have broker: "bd_broker speech_deps = sample_broker" "bq_add sample_broker n b q = (Inr (), q)" for n b q
    by (simp_all add: speech_deps_def sample_broker_def)
  have jobs: "planned_jobs speech_deps ?ev sample_who ''b1'' speech_body sample_plan (sw_voices ?w) = [fst ?r]"
    by (simp add: planned_jobs_def plan sample_speech_def)
  have "\<exists>w'. dispatch_speech_all (bd_broker speech_deps) (be_now ?ev) [fst ?r] ?w1 = (Inr (), w')"
    by (simp add: dispatch_speech_def enqueue_processing_job_def enqueue_def ids env speech_budget update_job_def find_row_def broker)
  then obtain w' where d: "dispatch_speech_all (bd_broker speech_deps) (be_now ?ev) [fst ?r] ?w1 = (Inr (), w')" by blast
  have "planned_alike ?w1" by (simp add: planned_alike_def sample_speech_def sample_book_def)
  moreover have "iw_books w' = iw_books ?w1 \<and> sw_scripts w' = sw_scripts ?w1 \<and> sw_chunks w' = sw_chunks ?w1 \<and> sw_voices w' = sw_voices ?w1
      \<and> sw_audio w' = sw_audio ?w1"
    using d by (auto simp: dispatch_speech_def split: prod.splits sum.splits)
  ultimately have "planned_alike w'" unfolding planned_alike_def by simp
  moreover have "start_tts speech_deps ?ev sample_who ''b1'' speech_body ?w = (Inr \<lparr> ta_job = Some (be_id ?ev 0), ta_scope = st_scope speech_body,
      ta_planned = 1, ta_skipped = 0, ta_skip_reason = None, ta_priority = Some (tp_priority sample_plan) \<rparr>, w')"
  proof -
    have steps: "seqE (create_tts_rows speech_deps ?ev sample_who ''b1'' speech_body sample_plan) f ?w = f () ?w1"
      "seqE (dispatch_speech_all (bd_broker speech_deps) (be_now ?ev) [fst ?r]) g ?w1 = g () w'" for f g
      using made d by (simp_all only: seqE_def prod.case sum.case)
    have lens: "tp_chunks sample_plan = [sample_speech_chunk]" "([sample_speech_chunk] = []) = False"
      "length [sample_speech_chunk] - length [sample_speech_chunk] = 0" "length [sample_speech_chunk] = 1"
      by (simp_all add: sample_plan_def)
    show ?thesis
      unfolding start_tts_def seqE_readE sample_planned [OF sample_alike] sum.case Let_def plan lens if_False jobs steps
      by simp
  qed
  moreover have "be_id ?ev 0 = ''a0''" by (simp add: speech_env_def)
  ultimately show ?thesis by auto
qed



theorem tts_failures_hidden_witness:
  "\<exists>acc w'. start_tts speech_deps (speech_env (CHR ''a'')) sample_who ''b1'' speech_body sample_speech = (Inr acc, w')
    \<and> sg_status (tts_stage ''b1'' (w'\<lparr> db_jobs := update_where (\<lambda>j. jb_id j \<noteq> ''a0'') (set_status FAILED 6000) (db_jobs w') \<rparr>))
      \<notin> {''FAILED'', ''CANCELLED'', ''NOT_STARTED''}"
proof -
  from sample_speech_started obtain acc w' where run: "start_tts speech_deps (speech_env (CHR ''a'')) sample_who ''b1'' speech_body sample_speech = (Inr acc, w')"
    "ta_job acc = Some ''a0''" by blast
  let ?later = "w'\<lparr> db_jobs := update_where (\<lambda>j. jb_id j \<noteq> ''a0'') (set_status FAILED 6000) (db_jobs w') \<rparr>"
  have "job_face ` set (db_jobs w') \<inter> {f. fst f = ''a0''} \<subseteq> job_face ` set (db_jobs ?later)"
    by (auto simp: set_update_where job_face_def)
  from tts_failures_hidden [OF run this] show ?thesis using run(1) by blast
qed

theorem progress_bounded_witness:
  "\<exists>p. get_book_progress 6000 sample_who ''b1'' sample_speech = Inr p
    \<and> list_all (\<lambda>s. case sg_progress s of None \<Rightarrow> True | Some x \<Rightarrow> 0 \<le> x \<and> x \<le> 1) (bp_stages p) \<and> length (bp_stages p) = 5"
proof -
  have "\<exists>b. require_owned_book sample_who ''b1'' sample_speech = Inr b"
    unfolding require_owned_book_Inr by (simp add: sample_speech_def sample_book_def sample_who_def find_row_def)
  then obtain p where p: "get_book_progress 6000 sample_who ''b1'' sample_speech = Inr p" "length (bp_stages p) = 5"
    by (auto simp: get_book_progress_def Let_def compute_stages_def)
  then show ?thesis using progress_bounded [OF p(1)] by blast
qed

end
