(* ===== verification/Spec2Isabelle.thy ===== *)
theory Spec2Isabelle
  imports ApiProperties JobProperties GuardProperties RedeliveryProperties WebAuthProperties PurgeProperties
    AssemblyProperties AssemblyFailures AssemblyServiceProperties MetadataProperties SpeechProperties Covers
begin

text \<open>
  Verification development for the Audio-Book platform: an HTTP API (\<open>apps/api\<close>), a worker
  (\<open>apps/worker-cpu\<close>) and the packages they share.

  Parts and how they interact.  The API authenticates a request, limits its rate, runs it under an
  idempotency key and calls a service.  A service writes domain rows and outbox rows in one database
  transaction and enqueues the job it created; a sweeper re-enqueues jobs whose enqueueing was lost.
  The worker takes a command from the queue, asks the cancellation gate, and runs the processor: an
  ingestion downloads the source, runs the parsing pipeline and writes the book's new version in one
  transaction; an assembly renders the chunks of a chapter into one file, the last chapter of a book
  triggers the audiobook, the audiobook triggers one encoding for each delivery format, and the last
  encoding publishes it; a purge deletes what a book left.  The outbox publisher sends the events, and
  consumers are guarded by the inbox.

  Conventions.  A table is a list of rows; a transaction is \<open>with_transaction\<close>, which restores
  the state on an exception; an exception is a value of type \<open>thrown\<close> and a fallible operation
  returns a sum, \<open>Inl\<close> the exception.  Operations that run one after another are composed by
  \<open>seqE\<close>.  A unique index or a check constraint of the schema is a test of the insert it
  guards.  Clocks, fresh identifiers, hash functions, Redis, BullMQ, object storage, token
  verification, document parsers and the ffmpeg binaries are parameters: records of functions with the
  argument vectors the code builds.  Strings are lists of characters of code below 256, each standing
  for one UTF-16 unit; on them NFC is the identity.  Instants are integers of milliseconds.  JSON
  numbers are integers; the loudness figures the audio tool reports and the fractions of the progress are rationals.

  Shared theories: \<open>Prelude\<close> (tables, transactions, the locale \<open>keyed_update\<close>),
    \<open>JsText\<close> (trim, split, case mapping), \<open>Errors\<close> (\<open>packages/errors\<close>,
    \<open>ingestion/src/errors.ts\<close>, the exception filter), \<open>Json\<close>, \<open>JsonParse\<close> (values,
    printing, canonical text, parsing), \<open>JsDate\<close> (\<open>toISOString\<close> and its inverse),
    \<open>Pagination\<close> (\<open>common/pagination.ts\<close> down to base64url; the locale \<open>keyset\<close> of walks
    over cursors), \<open>Keyset\<close> (listings by time of creation; the locale \<open>newest_first\<close>),
    \<open>Actions\<close> (composition of state changes), \<open>Samples\<close>, \<open>AudioSamples\<close> (concrete inputs).

  API: \<open>Access\<close> (guards, tenancy, audit), \<open>RateLimit\<close>, \<open>Idempotency\<close>, \<open>Quota\<close>,
    \<open>Health\<close> (probes and the worker's states), \<open>Users\<close>; \<open>AuthStore\<close>, \<open>Auth\<close>,
    \<open>Totp\<close>, \<open>Cookies\<close>, \<open>AuthWeb\<close> (\<open>auth.service.ts\<close>, its tokens, one-time
    passwords, cookies and controller), \<open>AuthLaws\<close> (the locale \<open>session_store\<close>),
    \<open>AuthHistory\<close> (the abstract token machine the service refines); \<open>Jobs\<close>, \<open>JobListing\<close>,
    \<open>JobCancellation\<close> (\<open>jobs.service.ts\<close>); \<open>BookStore\<close>, \<open>Books\<close>,
    \<open>BookUploads\<close>, \<open>BookLaws\<close> (\<open>books.service.ts\<close>); \<open>Assembly\<close>, \<open>Covers\<close>,
    \<open>Images\<close> (\<open>assembly.service.ts\<close>, cover art at the level of bytes); \<open>Speech\<close>
    (\<open>tts.service.ts\<close>), \<open>Progress\<close> (\<open>progress.service.ts\<close>).

  Packages: \<open>Outbox\<close> (\<open>packages/events\<close>), \<open>Storage\<close>, \<open>Queue\<close> (the locales
    \<open>redis_client\<close> and \<open>flag_store\<close>), \<open>JobStore\<close> (the table of jobs, dispatch),
    \<open>Normalize\<close>, \<open>Structure\<close>, \<open>StructureLaws\<close>, \<open>Pipeline\<close>
    (\<open>packages/ingestion\<close>).

  Worker: \<open>Worker\<close> (gate and sweeper), \<open>IngestionJob\<close>, \<open>IngestionLaws\<close>
    (\<open>processors/ingestion.ts\<close>), \<open>Maintenance\<close>, \<open>PurgeLaws\<close> (\<open>maintenance.ts\<close>),
    \<open>Ffmpeg\<close> (\<open>lib/ffmpeg.ts\<close>), \<open>AssemblyStore\<close> (the tables of audio with their
    indexes and checks), \<open>AssemblyShared\<close>, \<open>AssembleChapter\<close>, \<open>AssembleAudiobook\<close>,
    \<open>EncodeFormat\<close> (\<open>processors/assembly-*.ts\<close>), \<open>AssemblyLaws\<close> (what a step of the
    three processors keeps: the locales \<open>job_frame\<close> and \<open>audio_invariant\<close>, the inductive
    histories of calls), \<open>AssemblyResults\<close> (what a call that returns has written).

  The theories named \<open>...Properties\<close> and \<open>AssemblyFailures\<close> hold the numbered properties
  with their instances.  Invariants of the tables are proved for every history of calls, by induction on
  the history; what one call commits is proved on every branch of it.  The service of identities is
  shown to refine a machine of token families, and the worker's health a machine of five states.  Some
  properties show a fault: they state what the code does, with a run in which it does it.

  Bounds.  A walk over cursors has fuel; the listing properties show that the number of rows plus one
  is enough.  Loops over an offset of an image or a text end by a measure.  No other definition has fuel.

  Not modelled: the parsers (pdf.js, JSZip, OCR), the S3 provider, logging, metrics, wiring of
  modules and controllers, the services of analysis, direction and voices (reads and edits over further
  tables), the event stream, and the web client, which renders what the API answers.
\<close>

end
